(* ===== verification/Prelude.thy ===== *)
theory Prelude
  imports Main "HOL-Library.AList"
begin

text \<open>
  The vocabulary that the components share: JavaScript strings as character lists, numerals in a
  base (\<open>Number.prototype.toString(radix)\<close>, \<open>parseInt\<close>, \<open>padStart\<close>), \<open>split\<close> and \<open>join\<close>, numbers
  that may be \<open>NaN\<close>, and insertion-ordered maps (\<open>Map\<close> and plain objects) as association lists.
  The collection \<open>js_simps\<close> gathers the rewrite rules about them.
\<close>

named_theorems js_simps "rewrite rules for the JavaScript primitives"

section \<open>Results\<close>

text \<open>A computation that may throw: \<open>Inl\<close> carries the thrown error.\<close>

type_synonym ('e, 'a) result = "'e + 'a"

fun bind_result :: "('e, 'a) result \<Rightarrow> ('a \<Rightarrow> ('e, 'b) result) \<Rightarrow> ('e, 'b) result" where
  "bind_result (Inl e) f = Inl e"
| "bind_result (Inr a) f = f a"

lemma bind_result_Inr_iff [js_simps]:
  "bind_result m f = Inr b \<longleftrightarrow> (\<exists>a. m = Inr a \<and> f a = Inr b)"
  by (cases m) auto

lemma bind_result_assoc:
  "bind_result (bind_result m f) g = bind_result m (\<lambda>a. bind_result (f a) g)"
  by (cases m) auto

section \<open>Numerals\<close>

text \<open>The digit characters of \<open>toString(radix)\<close>: \<open>0\<close>-\<open>9\<close>, then lower-case letters.\<close>

definition digit_char :: "nat \<Rightarrow> char" where
  "digit_char d = (if d < 10 then char_of (48 + d) else char_of (87 + d))"

text \<open>The value of a digit as \<open>parseInt\<close> reads it, of either case.\<close>

definition digit_val :: "char \<Rightarrow> nat option" where
  "digit_val c =
     (let n = of_char c in
      if 48 \<le> n \<and> n \<le> (57::nat) then Some (n - 48)
      else if 97 \<le> n \<and> n \<le> 122 then Some (n - 87)
      else if 65 \<le> n \<and> n \<le> 90 then Some (n - 55)
      else None)"

lemma of_char_char_of_small: "n < 256 \<Longrightarrow> (of_char (char_of n :: char) :: nat) = n"
  by simp

lemma digit_val_digit_char [js_simps]:
  assumes "d < 36"
  shows "digit_val (digit_char d) = Some d"
proof -
  have "(of_char (char_of (48 + d) :: char) :: nat) = 48 + d"
    and "(of_char (char_of (87 + d) :: char) :: nat) = 87 + d"
    using assms by (simp_all add: of_char_char_of_small)
  then show ?thesis
    using assms unfolding digit_val_def digit_char_def Let_def by (auto split: if_splits)
qed

fun nat_to_base :: "nat \<Rightarrow> nat \<Rightarrow> string" where
  "nat_to_base b n =
     (if b < 2 \<or> n < b then [digit_char n]
      else nat_to_base b (n div b) @ [digit_char (n mod b)])"

declare nat_to_base.simps [simp del]

lemma nat_to_base_small [js_simps]: "n < b \<Longrightarrow> nat_to_base b n = [digit_char n]"
  by (subst nat_to_base.simps) simp

lemma nat_to_base_step [js_simps]:
  "2 \<le> b \<Longrightarrow> b \<le> n \<Longrightarrow> nat_to_base b n = nat_to_base b (n div b) @ [digit_char (n mod b)]"
  by (subst nat_to_base.simps) simp

lemma nat_to_base_nonempty [simp]: "nat_to_base b n \<noteq> []"
  by (subst nat_to_base.simps) simp

definition nat_to_dec :: "nat \<Rightarrow> string" where
  "nat_to_dec n = nat_to_base 10 n"

text \<open>\<open>String(i)\<close> and \<open>i.toString(radix)\<close> of an integer: a minus sign and the magnitude.\<close>

definition int_to_base :: "nat \<Rightarrow> int \<Rightarrow> string" where
  "int_to_base b i = (if i < 0 then CHR ''-'' # nat_to_base b (nat (- i)) else nat_to_base b (nat i))"

definition int_to_dec :: "int \<Rightarrow> string" where
  "int_to_dec i = int_to_base 10 i"

definition padStart :: "nat \<Rightarrow> char \<Rightarrow> string \<Rightarrow> string" where
  "padStart n c s = replicate (n - length s) c @ s"

lemma length_padStart [js_simps]: "length (padStart n c s) = max n (length s)"
  by (simp add: padStart_def)

text \<open>
  The digits at the front of a string, read in a base: the longest prefix of digits below the
  base, folded from the left. \<open>parseInt\<close> gives \<open>NaN\<close> (here \<open>None\<close>) if that prefix is empty.
\<close>

definition is_digit_in :: "nat \<Rightarrow> char \<Rightarrow> bool" where
  "is_digit_in b c = (case digit_val c of None \<Rightarrow> False | Some d \<Rightarrow> d < b)"

definition digits_value :: "nat \<Rightarrow> string \<Rightarrow> nat" where
  "digits_value b s = foldl (\<lambda>acc c. acc * b + the (digit_val c)) 0 s"

definition parse_digits :: "nat \<Rightarrow> string \<Rightarrow> int option" where
  "parse_digits b s =
     (let ds = takeWhile (is_digit_in b) s in if ds = [] then None else Some (int (digits_value b ds)))"

definition is_space :: "char \<Rightarrow> bool" where
  "is_space c \<longleftrightarrow> c \<in> {CHR '' '', CHR 0x09, CHR 0x0A, CHR 0x0B, CHR 0x0C, CHR 0x0D, CHR 0xA0}"

definition parse_signed :: "(string \<Rightarrow> int option) \<Rightarrow> string \<Rightarrow> int option" where
  "parse_signed p s =
     (case dropWhile is_space s of
        [] \<Rightarrow> p []
      | c # cs \<Rightarrow> if c = CHR ''-'' then map_option uminus (p cs)
                  else if c = CHR ''+'' then p cs else p (c # cs))"

definition strip_0x :: "string \<Rightarrow> string" where
  "strip_0x s =
     (case s of a # b # cs \<Rightarrow> if a = CHR ''0'' \<and> (b = CHR ''x'' \<or> b = CHR ''X'') then cs else s | _ \<Rightarrow> s)"

text \<open>\<open>parseInt(s, 16)\<close>, and \<open>parseInt(s)\<close>, which reads base 16 after a \<open>0x\<close> and base 10 otherwise.\<close>

definition parseInt16 :: "string \<Rightarrow> int option" where
  "parseInt16 = parse_signed (\<lambda>s. parse_digits 16 (strip_0x s))"

definition parseInt :: "string \<Rightarrow> int option" where
  "parseInt = parse_signed (\<lambda>s. if strip_0x s = s then parse_digits 10 s else parse_digits 16 (strip_0x s))"

subsection \<open>Reading back what was printed\<close>

lemma digits_value_append [js_simps]:
  "digits_value b (xs @ [c]) = digits_value b xs * b + the (digit_val c)"
  by (simp add: digits_value_def)

lemma is_digit_in_digit_char [js_simps]: "d < 36 \<Longrightarrow> is_digit_in b (digit_char d) = (d < b)"
  by (simp add: is_digit_in_def js_simps)

lemma nat_to_base_digits:
  "2 \<le> b \<Longrightarrow> b \<le> 36 \<Longrightarrow> list_all (is_digit_in b) (nat_to_base b n)"
proof (induction b n rule: nat_to_base.induct)
  case (1 b n)
  show ?case
  proof (cases "n < b")
    case True
    with 1 show ?thesis by (simp add: js_simps)
  next
    case False
    from "1.prems" have "n mod b < 36" by (intro order_less_le_trans [OF mod_less_divisor]) auto
    then have "is_digit_in b (digit_char (n mod b))" using "1.prems" by (simp add: js_simps)
    with False 1 show ?thesis by (simp add: nat_to_base_step)
  qed
qed

lemma digits_value_nat_to_base:
  "2 \<le> b \<Longrightarrow> b \<le> 36 \<Longrightarrow> digits_value b (nat_to_base b n) = n"
proof (induction b n rule: nat_to_base.induct)
  case (1 b n)
  show ?case
  proof (cases "n < b")
    case True
    with 1 show ?thesis by (simp add: js_simps digits_value_def)
  next
    case False
    from "1.prems" have "n mod b < 36" by (intro order_less_le_trans [OF mod_less_divisor]) auto
    with False 1 show ?thesis by (simp add: js_simps)
  qed
qed

lemma takeWhile_all: "list_all P xs \<Longrightarrow> takeWhile P xs = xs"
  by (induction xs) auto

lemma parse_digits_nat_to_base [js_simps]:
  "2 \<le> b \<Longrightarrow> b \<le> 36 \<Longrightarrow> parse_digits b (nat_to_base b n) = Some (int n)"
  by (simp add: parse_digits_def takeWhile_all nat_to_base_digits digits_value_nat_to_base)

lemma nat_to_base_inject [js_simps]:
  assumes "2 \<le> b" "b \<le> 36"
  shows "nat_to_base b m = nat_to_base b n \<longleftrightarrow> m = n"
  using digits_value_nat_to_base[OF assms] by metis

lemma nat_to_dec_inject [simp]: "nat_to_dec m = nat_to_dec n \<longleftrightarrow> m = n"
  by (simp add: nat_to_dec_def nat_to_base_inject)

lemma nat_to_dec_nonempty [simp]: "nat_to_dec n \<noteq> []"
  by (simp add: nat_to_dec_def)

lemma length_nat_to_base_le:
  "2 \<le> b \<Longrightarrow> n < b ^ Suc k \<Longrightarrow> length (nat_to_base b n) \<le> Suc k"
proof (induction k arbitrary: n)
  case 0
  then show ?case by (simp add: js_simps)
next
  case (Suc k)
  show ?case
  proof (cases "n < b")
    case True
    then show ?thesis by (simp add: js_simps)
  next
    case False
    have "n div b < b ^ Suc k"
      using Suc.prems by (simp add: less_mult_imp_div_less mult.commute)
    then have "length (nat_to_base b (n div b)) \<le> Suc k" using Suc by blast
    with False Suc.prems show ?thesis by (simp add: nat_to_base_step)
  qed
qed

section \<open>Numbers that may be NaN\<close>

text \<open>
  A JavaScript number that the code treats as an integer, or \<open>NaN\<close> (\<open>None\<close>), which propagates
  through arithmetic and makes every comparison false.
\<close>

type_synonym num = "int option"

fun num_sub :: "num \<Rightarrow> num \<Rightarrow> num" where
  "num_sub (Some a) (Some b) = Some (a - b)"
| "num_sub _ _ = None"

fun num_add :: "num \<Rightarrow> num \<Rightarrow> num" where
  "num_add (Some a) (Some b) = Some (a + b)"
| "num_add _ _ = None"

fun num_le :: "num \<Rightarrow> num \<Rightarrow> bool" where
  "num_le (Some a) (Some b) = (a \<le> b)"
| "num_le _ _ = False"

fun num_lt :: "num \<Rightarrow> num \<Rightarrow> bool" where
  "num_lt (Some a) (Some b) = (a < b)"
| "num_lt _ _ = False"

text \<open>The 32-bit truncation that \<open>~~x\<close> and \<open>x | 0\<close> perform.\<close>

definition toInt32 :: "int \<Rightarrow> int" where
  "toInt32 x = (x + 2 ^ 31) mod 2 ^ 32 - 2 ^ 31"

lemma toInt32_id: "- (2 ^ 31) \<le> x \<Longrightarrow> x < 2 ^ 31 \<Longrightarrow> toInt32 x = x"
  by (simp add: toInt32_def)

fun num_pos :: "num \<Rightarrow> bool" where
  "num_pos (Some a) = (0 < a)"
| "num_pos None = False"

fun num_eq :: "num \<Rightarrow> num \<Rightarrow> bool" where
  "num_eq (Some a) (Some b) = (a = b)"
| "num_eq _ _ = False"

definition num_to_string :: "num \<Rightarrow> string" where
  "num_to_string n = (case n of None \<Rightarrow> ''NaN'' | Some i \<Rightarrow> int_to_dec i)"

lemma num_pos_iff: "num_pos n \<longleftrightarrow> (\<exists>i. n = Some i \<and> 0 < i)"
  by (cases n) auto

section \<open>Insertion-ordered maps\<close>

text \<open>
  A \<open>Map\<close>, or an object used as one, keeps its entries in insertion order; \<open>set\<close> on a key that is
  present replaces the value in place. Its size is the number of entries.
\<close>

type_synonym ('k, 'v) omap = "('k \<times> 'v) list"

abbreviation omap_get :: "('k, 'v) omap \<Rightarrow> 'k \<Rightarrow> 'v option" where
  "omap_get m k \<equiv> map_of m k"

abbreviation omap_has :: "('k, 'v) omap \<Rightarrow> 'k \<Rightarrow> bool" where
  "omap_has m k \<equiv> map_of m k \<noteq> None"

abbreviation omap_set :: "'k \<Rightarrow> 'v \<Rightarrow> ('k, 'v) omap \<Rightarrow> ('k, 'v) omap" where
  "omap_set k v m \<equiv> AList.update k v m"

abbreviation omap_keys :: "('k, 'v) omap \<Rightarrow> 'k list" where
  "omap_keys m \<equiv> map fst m"

lemma omap_get_set [simp]: "omap_get (omap_set k v m) k' = (if k' = k then Some v else omap_get m k')"
  by (simp add: update_conv')

lemma omap_set_fresh: "map_of m k = None \<Longrightarrow> omap_set k v m = m @ [(k, v)]"
  by (induction m) (auto split: if_splits)

lemma omap_keys_set_present: "omap_has m k \<Longrightarrow> omap_keys (omap_set k v m) = omap_keys m"
  by (induction m) (auto split: if_splits)

lemma omap_distinct_set: "distinct (omap_keys m) \<Longrightarrow> distinct (omap_keys (omap_set k v m))"
  by (rule distinct_update)

end
