(* ===== verification/Js_Strings.thy ===== *)
theory Js_Strings
  imports Prelude
begin

text \<open>
  The string methods that the web application, the bots and the subgraph share: \<open>split\<close>, \<open>join\<close>,
  \<open>trim\<close>, \<open>replaceAll\<close>, \<open>startsWith\<close>, \<open>indexOf\<close>-style search and case folding of ASCII letters.
\<close>

section \<open>Search and splitting\<close>

fun strip_prefix :: "string \<Rightarrow> string \<Rightarrow> string option" where
  "strip_prefix [] s = Some s"
| "strip_prefix (p # ps) [] = None"
| "strip_prefix (p # ps) (c # cs) = (if p = c then strip_prefix ps cs else None)"

definition starts_with :: "string \<Rightarrow> string \<Rightarrow> bool" where
  "starts_with s p \<longleftrightarrow> strip_prefix p s \<noteq> None"

text \<open>The text before and after the first occurrence of a separator.\<close>

fun break_on :: "string \<Rightarrow> string \<Rightarrow> (string \<times> string) option" where
  "break_on sep [] = (if sep = [] then Some ([], []) else None)"
| "break_on sep (c # cs) =
     (case strip_prefix sep (c # cs) of
        Some rest \<Rightarrow> Some ([], rest)
      | None \<Rightarrow> map_option (\<lambda>(a, b). (c # a, b)) (break_on sep cs))"

definition contains_str :: "string \<Rightarrow> string \<Rightarrow> bool" where
  "contains_str s p \<longleftrightarrow> break_on p s \<noteq> None"

lemma strip_prefix_iff: "strip_prefix p s = Some r \<longleftrightarrow> s = p @ r"
  by (induction p s rule: strip_prefix.induct) auto

lemma strip_prefix_append [simp]: "strip_prefix p (p @ r) = Some r"
  by (simp add: strip_prefix_iff)

lemma break_on_eq: "break_on sep s = Some (a, b) \<Longrightarrow> s = a @ sep @ b"
  by (induction s arbitrary: a) (auto split: option.splits if_splits simp: strip_prefix_iff)

lemma break_on_length: "sep \<noteq> [] \<Longrightarrow> break_on sep s = Some (a, b) \<Longrightarrow> length b < length s"
  by (auto dest!: break_on_eq)

function split_str :: "string \<Rightarrow> string \<Rightarrow> string list" where
  "split_str sep s =
     (if sep = [] then map (\<lambda>c. [c]) s
      else (case break_on sep s of None \<Rightarrow> [s] | Some (a, b) \<Rightarrow> a # split_str sep b))"
  by pat_completeness auto
termination
  by (relation "measure (\<lambda>(sep, s). length s)") (auto intro: break_on_length)

declare split_str.simps [simp del]

fun join :: "string \<Rightarrow> string list \<Rightarrow> string" where
  "join sep [] = []"
| "join sep [x] = x"
| "join sep (x # y # xs) = x @ sep @ join sep (y # xs)"

lemma join_Cons: "xs \<noteq> [] \<Longrightarrow> join sep (x # xs) = x @ sep @ join sep xs"
  by (cases xs) auto

lemma split_str_nonempty [simp]: "sep \<noteq> [] \<Longrightarrow> split_str sep s \<noteq> []"
  by (subst split_str.simps) (auto split: option.split)

lemma join_split_str: "sep \<noteq> [] \<Longrightarrow> join sep (split_str sep s) = s"
proof (induction sep s rule: split_str.induct)
  case (1 sep s)
  show ?case
  proof (cases "break_on sep s")
    case None
    then show ?thesis using 1 by (subst split_str.simps) simp
  next
    case (Some ab)
    obtain a b where ab: "ab = (a, b)" by (cases ab)
    then have "join sep (split_str sep b) = b" using 1 Some by blast
    then show ?thesis
      using 1 Some ab break_on_eq[of sep s a b] by (subst split_str.simps) (simp add: join_Cons)
  qed
qed

lemma break_on_char_None: "c \<notin> set s \<Longrightarrow> break_on [c] s = None"
  by (induction s) auto

lemma break_on_char: "c \<notin> set a \<Longrightarrow> break_on [c] (a @ c # b) = Some (a, b)"
  by (induction a) auto

lemma split_str_char_None: "c \<notin> set s \<Longrightarrow> split_str [c] s = [s]"
  by (subst split_str.simps) (simp add: break_on_char_None)

lemma split_str_char: "c \<notin> set a \<Longrightarrow> split_str [c] (a @ c # b) = a # split_str [c] b"
  by (subst split_str.simps) (simp add: break_on_char)

lemma split_str_join:
  "xs \<noteq> [] \<Longrightarrow> list_all (\<lambda>x. c \<notin> set x) xs \<Longrightarrow> split_str [c] (join [c] xs) = xs"
proof (induction "[c]" xs rule: join.induct)
  case (3 x y xs)
  then show ?case by (simp add: split_str_char)
qed (simp_all add: split_str_char_None)

section \<open>Trimming, replacing, case\<close>

definition trim :: "string \<Rightarrow> string" where
  "trim s = rev (dropWhile is_space (rev (dropWhile is_space s)))"

definition replaceAll :: "string \<Rightarrow> string \<Rightarrow> string \<Rightarrow> string" where
  "replaceAll p r s = join r (split_str p s)"

lemma break_on_absent: "\<not> contains_str s p \<Longrightarrow> break_on p s = None"
  by (simp only: contains_str_def not_not)

lemma replaceAll_absent: "p \<noteq> [] \<Longrightarrow> \<not> contains_str s p \<Longrightarrow> replaceAll p r s = s"
  unfolding replaceAll_def by (subst split_str.simps) (simp add: break_on_absent)

lemma break_on_prefix: "break_on p (p @ b) = Some ([], b)"
proof (cases "p @ b")
  case (Cons c cs)
  then have "strip_prefix p (c # cs) = Some b" by (metis strip_prefix_append)
  then show ?thesis unfolding Cons by simp
qed simp

lemma contains_str_iff: "contains_str s p \<longleftrightarrow> (\<exists>a b. s = a @ p @ b)"
proof
  show "contains_str s p \<Longrightarrow> \<exists>a b. s = a @ p @ b" by (auto simp: contains_str_def dest: break_on_eq)
  assume "\<exists>a b. s = a @ p @ b"
  then obtain a b where "s = a @ p @ b" by blast
  then show "contains_str s p"
  proof (induction a arbitrary: s)
    case Nil
    then have "s = p @ b" by simp
    then show ?case by (simp add: contains_str_def break_on_prefix)
  next
    case (Cons c a)
    then show ?case by (auto simp: contains_str_def split: option.split)
  qed
qed

lemma trim_id:
  assumes "s = [] \<or> \<not> is_space (hd s) \<and> \<not> is_space (last s)"
  shows "trim s = s"
proof (cases s)
  case (Cons c cs)
  with assms have "dropWhile is_space s = s" by simp
  moreover have "dropWhile is_space (rev s) = rev s"
  proof (cases s rule: rev_cases)
    case (snoc ys y)
    then have "\<not> is_space y" using assms Cons by (cases "s = []") simp_all
    then show ?thesis using snoc by simp
  qed simp
  ultimately show ?thesis by (simp add: trim_def)
qed (simp add: trim_def)

lemma trim_drop_space: "is_space c \<Longrightarrow> trim (c # s) = trim s"
  by (simp add: trim_def)

definition char_lower :: "char \<Rightarrow> char" where
  "char_lower c = (let n = of_char c in if 65 \<le> n \<and> n \<le> (90::nat) then char_of (n + 32) else c)"

definition to_lower :: "string \<Rightarrow> string" where
  "to_lower = map char_lower"

lemma char_lower_idem: "char_lower (char_lower c) = char_lower c"
proof (cases "65 \<le> (of_char c :: nat) \<and> (of_char c :: nat) \<le> 90")
  case True
  then have "(of_char (char_of ((of_char c :: nat) + 32) :: char) :: nat) = of_char c + 32" by simp
  then show ?thesis using True by (simp add: char_lower_def Let_def)
next
  case False
  then show ?thesis by (auto simp: char_lower_def Let_def)
qed

lemma to_lower_idem [simp]: "to_lower (to_lower s) = to_lower s"
  by (simp add: to_lower_def char_lower_idem comp_def)

lemma length_to_lower [simp]: "length (to_lower s) = length s"
  by (simp add: to_lower_def)

section \<open>Reading numbers\<close>

text \<open>\<open>Number(s)\<close> on a decimal numeral; anything else is \<open>NaN\<close>.\<close>

definition js_number :: "string \<Rightarrow> num" where
  "js_number s =
     (let (neg, ds) = (case s of c # cs \<Rightarrow> if c = CHR ''-'' then (True, cs) else (False, s) | [] \<Rightarrow> (False, []))
      in if ds \<noteq> [] \<and> list_all (is_digit_in 10) ds
         then Some (if neg then - int (digits_value 10 ds) else int (digits_value 10 ds)) else None)"

text \<open>\<open>Number(s)\<close>, where the empty string is 0.\<close>

definition js_Number :: "string \<Rightarrow> num" where
  "js_Number s = (if s = '''' then Some 0 else js_number s)"

lemma int_to_base_neq_minus:
  "0 \<le> i \<Longrightarrow> list_all (is_digit_in 10) (int_to_dec i)"
  by (simp add: int_to_dec_def int_to_base_def nat_to_base_digits)

lemma int_to_dec_nonempty [simp]: "int_to_dec i \<noteq> []"
  by (simp add: int_to_dec_def int_to_base_def)

lemma minus_not_digit: "\<not> is_digit_in 10 (CHR ''-'')"
  by (simp add: is_digit_in_def digit_val_def)

lemma js_number_int_to_dec [simp]: "js_number (int_to_dec i) = Some i"
proof (cases "i < 0")
  case True
  then show ?thesis
    by (simp add: js_number_def int_to_dec_def int_to_base_def nat_to_base_digits digits_value_nat_to_base)
next
  case False
  then have d: "list_all (is_digit_in 10) (int_to_dec i)" by (intro int_to_base_neq_minus) simp
  then obtain c cs where c: "int_to_dec i = c # cs" "is_digit_in 10 c" by (cases "int_to_dec i") auto
  then have "c \<noteq> CHR ''-''" using minus_not_digit by auto
  moreover have "digits_value 10 (int_to_dec i) = nat i"
    using False by (simp add: int_to_dec_def int_to_base_def digits_value_nat_to_base)
  ultimately show ?thesis using c d False by (simp add: js_number_def)
qed

end
