(* ===== verification/Sg_Store.thy ===== *)
theory Sg_Store
  imports Js_Strings "HOL-Library.Word"
begin

text \<open>
  The store of \<^verbatim>\<open>packages/nouns-subgraph\<close> and the helpers of \<^verbatim>\<open>src/utils/helpers.ts\<close>. Every entity of
  \<^verbatim>\<open>schema.graphql\<close> is a record, the store has one table per entity, keyed by id; \<open>load\<close> returns a copy
  and \<open>save\<close> replaces the row, so a handler that keeps an older copy overwrites what was saved
  meanwhile. Addresses and hashes are their hexadecimal strings, \<open>BigInt\<close> is \<open>int\<close>, \<open>i32\<close> is a 32-bit
  word. What the generated classes put into a new \<^verbatim>\<open>Proposal\<close> and how \<^verbatim>\<open>BigInt.toI32\<close> fails is not
  under \<^verbatim>\<open>src\<close>; the record \<open>graph_ts\<close> carries them as parameters.
\<close>

section \<open>Entities (schema.graphql)\<close>

record DelegationEvent =
  de_id :: string
  de_noun :: string
  de_previousDelegate :: string
  de_newDelegate :: string
  de_blockNumber :: int
  de_blockTimestamp :: int

record TransferEvent =
  te_id :: string
  te_noun :: string
  te_previousHolder :: string
  te_newHolder :: string
  te_blockNumber :: int
  te_blockTimestamp :: int

record Seed =
  sd_id :: string
  sd_background :: int
  sd_body :: int
  sd_accessory :: int
  sd_head :: int
  sd_glasses :: int

record Noun =
  noun_id :: string
  noun_seed :: "string option"
  noun_owner :: string

record Bid =
  bid_id :: string
  bid_noun :: string
  bid_amount :: int
  bid_bidder :: "string option"
  bid_blockNumber :: int
  bid_txIndex :: int
  bid_auction :: string
  bid_blockTimestamp :: int

record Auction =
  au_id :: string
  au_noun :: string
  au_amount :: int
  au_startTime :: int
  au_endTime :: int
  au_bidder :: "string option"
  au_settled :: bool

record Account =
  acc_id :: string
  acc_delegate :: "string option"
  acc_tokenBalanceRaw :: int
  acc_tokenBalance :: int
  acc_totalTokensHeldRaw :: int
  acc_totalTokensHeld :: int
  acc_nouns :: "string list"

record Delegate =
  dg_id :: string
  dg_delegatedVotesRaw :: int
  dg_delegatedVotes :: int
  dg_tokenHoldersRepresentedAmount :: "32 word"
  dg_nounsRepresented :: "string list"

datatype ProposalStatus = PENDING | ACTIVE | CANCELLED | VETOED | QUEUED | EXECUTED

record Proposal =
  pr_id :: string
  pr_proposer :: string
  pr_targets :: "string list"
  pr_values :: "int list"
  pr_signatures :: "string list"
  pr_calldatas :: "string list"
  pr_createdTimestamp :: int
  pr_createdBlock :: int
  pr_createdTransactionHash :: string
  pr_startBlock :: int
  pr_endBlock :: int
  pr_proposalThreshold :: int
  pr_quorumVotes :: int
  pr_forVotes :: int
  pr_againstVotes :: int
  pr_abstainVotes :: int
  pr_title :: string
  pr_description :: string
  pr_status :: ProposalStatus
  pr_executionETA :: "int option"
  pr_totalSupply :: int
  pr_minQuorumVotesBPS :: "32 word"
  pr_maxQuorumVotesBPS :: "32 word"
  pr_quorumCoefficient :: int

record Vote =
  vt_id :: string
  vt_support :: bool
  vt_supportDetailed :: int
  vt_votesRaw :: int
  vt_votes :: int
  vt_reason :: "string option"
  vt_voter :: string
  vt_nouns :: "string list"
  vt_proposal :: string
  vt_blockNumber :: int

record Governance =
  gv_id :: string
  gv_proposals :: int
  gv_currentTokenHolders :: int
  gv_currentDelegates :: int
  gv_totalTokenHolders :: int
  gv_totalDelegates :: int
  gv_delegatedVotesRaw :: int
  gv_delegatedVotes :: int
  gv_proposalsQueued :: int

record DynamicQuorumParams =
  dq_id :: string
  dq_minQuorumVotesBPS :: "32 word"
  dq_maxQuorumVotesBPS :: "32 word"
  dq_quorumCoefficient :: int
  dq_dynamicQuorumStartBlock :: "int option"

section \<open>The store\<close>

record Store =
  sDelegationEvents :: "string \<rightharpoonup> DelegationEvent"
  sTransferEvents :: "string \<rightharpoonup> TransferEvent"
  sSeeds :: "string \<rightharpoonup> Seed"
  sNouns :: "string \<rightharpoonup> Noun"
  sBids :: "string \<rightharpoonup> Bid"
  sAuctions :: "string \<rightharpoonup> Auction"
  sAccounts :: "string \<rightharpoonup> Account"
  sDelegates :: "string \<rightharpoonup> Delegate"
  sProposals :: "string \<rightharpoonup> Proposal"
  sVotes :: "string \<rightharpoonup> Vote"
  sGovernance :: "string \<rightharpoonup> Governance"
  sQuorumParams :: "string \<rightharpoonup> DynamicQuorumParams"
  sLog :: "string list"

definition empty_store :: Store where
  "empty_store =
     \<lparr>sDelegationEvents = Map.empty, sTransferEvents = Map.empty, sSeeds = Map.empty, sNouns = Map.empty,
      sBids = Map.empty, sAuctions = Map.empty, sAccounts = Map.empty, sDelegates = Map.empty,
      sProposals = Map.empty, sVotes = Map.empty, sGovernance = Map.empty, sQuorumParams = Map.empty,
      sLog = []\<rparr>"

definition save_DelegationEvent :: "string \<Rightarrow> DelegationEvent \<Rightarrow> Store \<Rightarrow> Store" where
  "save_DelegationEvent k e s = s\<lparr>sDelegationEvents := (sDelegationEvents s)(k \<mapsto> e)\<rparr>"

definition save_TransferEvent :: "string \<Rightarrow> TransferEvent \<Rightarrow> Store \<Rightarrow> Store" where
  "save_TransferEvent k e s = s\<lparr>sTransferEvents := (sTransferEvents s)(k \<mapsto> e)\<rparr>"

definition save_Seed :: "string \<Rightarrow> Seed \<Rightarrow> Store \<Rightarrow> Store" where
  "save_Seed k e s = s\<lparr>sSeeds := (sSeeds s)(k \<mapsto> e)\<rparr>"

definition save_Noun :: "string \<Rightarrow> Noun \<Rightarrow> Store \<Rightarrow> Store" where
  "save_Noun k e s = s\<lparr>sNouns := (sNouns s)(k \<mapsto> e)\<rparr>"

definition save_Bid :: "string \<Rightarrow> Bid \<Rightarrow> Store \<Rightarrow> Store" where
  "save_Bid k e s = s\<lparr>sBids := (sBids s)(k \<mapsto> e)\<rparr>"

definition save_Auction :: "string \<Rightarrow> Auction \<Rightarrow> Store \<Rightarrow> Store" where
  "save_Auction k e s = s\<lparr>sAuctions := (sAuctions s)(k \<mapsto> e)\<rparr>"

definition save_Account :: "string \<Rightarrow> Account \<Rightarrow> Store \<Rightarrow> Store" where
  "save_Account k e s = s\<lparr>sAccounts := (sAccounts s)(k \<mapsto> e)\<rparr>"

definition save_Delegate :: "string \<Rightarrow> Delegate \<Rightarrow> Store \<Rightarrow> Store" where
  "save_Delegate k e s = s\<lparr>sDelegates := (sDelegates s)(k \<mapsto> e)\<rparr>"

definition save_Proposal :: "string \<Rightarrow> Proposal \<Rightarrow> Store \<Rightarrow> Store" where
  "save_Proposal k e s = s\<lparr>sProposals := (sProposals s)(k \<mapsto> e)\<rparr>"

definition save_Vote :: "string \<Rightarrow> Vote \<Rightarrow> Store \<Rightarrow> Store" where
  "save_Vote k e s = s\<lparr>sVotes := (sVotes s)(k \<mapsto> e)\<rparr>"

definition save_Governance :: "Governance \<Rightarrow> Store \<Rightarrow> Store" where
  "save_Governance g s = s\<lparr>sGovernance := (sGovernance s)(''GOVERNANCE'' \<mapsto> g)\<rparr>"

definition save_QuorumParams :: "DynamicQuorumParams \<Rightarrow> Store \<Rightarrow> Store" where
  "save_QuorumParams p s = s\<lparr>sQuorumParams := (sQuorumParams s)(''LATEST'' \<mapsto> p)\<rparr>"

definition log_error :: "string \<Rightarrow> Store \<Rightarrow> Store" where
  "log_error m s = s\<lparr>sLog := sLog s @ [m]\<rparr>"

lemmas save_defs =
  save_DelegationEvent_def save_TransferEvent_def save_Seed_def save_Noun_def save_Bid_def save_Auction_def
  save_Account_def save_Delegate_def save_Proposal_def save_Vote_def save_Governance_def save_QuorumParams_def
  log_error_def

text \<open>The contract of a table: what is loaded after a save.\<close>

locale entity_table =
  fixes load :: "'s \<Rightarrow> string \<Rightarrow> 'e option"
    and save :: "string \<Rightarrow> 'e \<Rightarrow> 's \<Rightarrow> 's"
  assumes load_save: "load (save k e s) k' = (if k' = k then Some e else load s k')"
begin

lemma load_save_same: "load (save k e s) k = Some e"
  by (simp add: load_save)

lemma load_save_other: "k' \<noteq> k \<Longrightarrow> load (save k e s) k' = load s k'"
  by (simp add: load_save)

text \<open>A property of all rows is kept by a save of a row that has it.\<close>

lemma save_keeps_all:
  assumes "\<And>k e. load s k = Some e \<Longrightarrow> P k e" "P k e" "load (save k e s) k' = Some e'"
  shows "P k' e'"
  using assms by (auto simp: load_save split: if_splits)

lemma dom_save: "dom (load (save k e s)) = insert k (dom (load s))"
  by (auto simp: load_save split: if_splits)

end

interpretation accounts: entity_table sAccounts save_Account
  by unfold_locales (simp add: save_defs)

interpretation delegates: entity_table sDelegates save_Delegate
  by unfold_locales (simp add: save_defs)

interpretation nouns: entity_table sNouns save_Noun
  by unfold_locales (simp add: save_defs)

interpretation auctions: entity_table sAuctions save_Auction
  by unfold_locales (simp add: save_defs)

interpretation bids: entity_table sBids save_Bid
  by unfold_locales (simp add: save_defs)

interpretation proposals: entity_table sProposals save_Proposal
  by unfold_locales (simp add: save_defs)

interpretation votes: entity_table sVotes save_Vote
  by unfold_locales (simp add: save_defs)

section \<open>Parameters and events\<close>

record graph_ts =
  freshProposal :: "string \<Rightarrow> Proposal"
  bigToI32 :: "int \<Rightarrow> 32 word option"

record Meta =
  block_number :: int
  block_timestamp :: int
  tx_hash :: string
  tx_index :: int

section \<open>constants.ts\<close>

definition ZERO_ADDRESS :: string where
  "ZERO_ADDRESS = ''0x0000000000000000000000000000000000000000''"

abbreviation BIGINT_ZERO :: int where "BIGINT_ZERO \<equiv> 0"
abbreviation BIGINT_ONE :: int where "BIGINT_ONE \<equiv> 1"
abbreviation BIGINT_10K :: int where "BIGINT_10K \<equiv> 10000"

section \<open>helpers.ts\<close>

definition new_Account :: "string \<Rightarrow> Account" where
  "new_Account key =
     \<lparr>acc_id = key, acc_delegate = None, acc_tokenBalanceRaw = BIGINT_ZERO, acc_tokenBalance = BIGINT_ZERO,
      acc_totalTokensHeldRaw = BIGINT_ZERO, acc_totalTokensHeld = BIGINT_ZERO, acc_nouns = []\<rparr>"

definition getOrCreateAccount_opt :: "string \<Rightarrow> bool \<Rightarrow> bool \<Rightarrow> Store \<Rightarrow> Account option \<times> Store" where
  "getOrCreateAccount_opt key createIfNotFound save s =
     (case sAccounts s key of
        Some a \<Rightarrow> (Some a, s)
      | None \<Rightarrow> if createIfNotFound
                then (Some (new_Account key), if save then save_Account key (new_Account key) s else s)
                else (None, s))"

text \<open>The call with the default arguments, which never gives null.\<close>

definition getOrCreateAccount :: "string \<Rightarrow> Store \<Rightarrow> Account \<times> Store" where
  "getOrCreateAccount key s = (case getOrCreateAccount_opt key True True s of (a, s') \<Rightarrow> (the a, s'))"

definition new_Governance :: Governance where
  "new_Governance =
     \<lparr>gv_id = ''GOVERNANCE'', gv_proposals = BIGINT_ZERO, gv_currentTokenHolders = BIGINT_ZERO,
      gv_currentDelegates = BIGINT_ZERO, gv_totalTokenHolders = BIGINT_ZERO, gv_totalDelegates = BIGINT_ZERO,
      gv_delegatedVotesRaw = BIGINT_ZERO, gv_delegatedVotes = BIGINT_ZERO, gv_proposalsQueued = BIGINT_ZERO\<rparr>"

text \<open>The new entity is not saved by this helper.\<close>

definition getGovernanceEntity :: "Store \<Rightarrow> Governance" where
  "getGovernanceEntity s =
     (case sGovernance s ''GOVERNANCE'' of None \<Rightarrow> new_Governance | Some g \<Rightarrow> g)"

definition new_Delegate :: "string \<Rightarrow> Delegate" where
  "new_Delegate key =
     \<lparr>dg_id = key, dg_delegatedVotesRaw = BIGINT_ZERO, dg_delegatedVotes = BIGINT_ZERO,
      dg_tokenHoldersRepresentedAmount = 0, dg_nounsRepresented = []\<rparr>"

definition getOrCreateDelegateWithNullOption ::
  "string \<Rightarrow> bool \<Rightarrow> bool \<Rightarrow> Store \<Rightarrow> Delegate option \<times> Store" where
  "getOrCreateDelegateWithNullOption key createIfNotFound save s =
     (case sDelegates s key of
        Some d \<Rightarrow> (Some d, s)
      | None \<Rightarrow>
          if createIfNotFound then
            (let d = new_Delegate key;
                 s1 = (if key \<noteq> ZERO_ADDRESS
                       then (let g = getGovernanceEntity s
                             in save_Governance (g\<lparr>gv_totalDelegates := gv_totalDelegates g + BIGINT_ONE\<rparr>) s)
                       else s);
                 s2 = (if save then save_Delegate key d s1 else s1)
             in (Some d, s2))
          else (None, s))"

definition getOrCreateDelegate :: "string \<Rightarrow> Store \<Rightarrow> Delegate \<times> Store" where
  "getOrCreateDelegate key s =
     (case getOrCreateDelegateWithNullOption key True True s of (d, s') \<Rightarrow> (the d, s'))"

text \<open>A new vote is not saved; of its fields only the nullable \<open>reason\<close> is read before it is set.\<close>

definition getOrCreateVote :: "string \<Rightarrow> Store \<Rightarrow> Vote option" where
  "getOrCreateVote key s = sVotes s key"

definition getOrCreateProposal_opt ::
  "graph_ts \<Rightarrow> string \<Rightarrow> bool \<Rightarrow> bool \<Rightarrow> Store \<Rightarrow> Proposal option \<times> Store" where
  "getOrCreateProposal_opt gt key createIfNotFound save s =
     (case sProposals s key of
        Some p \<Rightarrow> (Some p, s)
      | None \<Rightarrow>
          if createIfNotFound then
            (let p = freshProposal gt key;
                 g = getGovernanceEntity s;
                 s1 = save_Governance (g\<lparr>gv_proposals := gv_proposals g + BIGINT_ONE\<rparr>) s;
                 s2 = (if save then save_Proposal key p s1 else s1)
             in (Some p, s2))
          else (None, s))"

definition getOrCreateProposal :: "graph_ts \<Rightarrow> string \<Rightarrow> Store \<Rightarrow> Proposal \<times> Store" where
  "getOrCreateProposal gt key s =
     (case getOrCreateProposal_opt gt key True False s of (p, s') \<Rightarrow> (the p, s'))"

definition new_QuorumParams :: "int option \<Rightarrow> DynamicQuorumParams" where
  "new_QuorumParams block =
     \<lparr>dq_id = ''LATEST'', dq_minQuorumVotesBPS = 0, dq_maxQuorumVotesBPS = 0, dq_quorumCoefficient = BIGINT_ZERO,
      dq_dynamicQuorumStartBlock = block\<rparr>"

definition getOrCreateDynamicQuorumParams :: "int option \<Rightarrow> Store \<Rightarrow> DynamicQuorumParams \<times> Store" where
  "getOrCreateDynamicQuorumParams block s =
     (let (p, s1) = (case sQuorumParams s ''LATEST'' of
            None \<Rightarrow> (new_QuorumParams block, save_QuorumParams (new_QuorumParams block) s)
          | Some p \<Rightarrow> (p, s))
      in if dq_dynamicQuorumStartBlock p = None \<and> block \<noteq> None
         then (let p' = p\<lparr>dq_dynamicQuorumStartBlock := block\<rparr> in (p', save_QuorumParams p' s1))
         else (p, s1))"

section \<open>What the helpers do\<close>

lemma getOrCreateAccount_eq:
  "getOrCreateAccount key s =
    (case sAccounts s key of Some a \<Rightarrow> (a, s) | None \<Rightarrow> (new_Account key, save_Account key (new_Account key) s))"
  by (simp add: getOrCreateAccount_def getOrCreateAccount_opt_def split: option.split)

lemma getOrCreateAccount_idem:
  "getOrCreateAccount key s = (a, s') \<Longrightarrow> getOrCreateAccount key s' = (a, s')"
  by (auto simp: getOrCreateAccount_eq accounts.load_save_same split: option.splits)

lemma getOrCreateDelegate_eq:
  "getOrCreateDelegate key s =
    (case sDelegates s key of
       Some d \<Rightarrow> (d, s)
     | None \<Rightarrow> (new_Delegate key, save_Delegate key (new_Delegate key)
         (if key = ZERO_ADDRESS then s
          else save_Governance ((getGovernanceEntity s)\<lparr>gv_totalDelegates := gv_totalDelegates (getGovernanceEntity s) + 1\<rparr>) s)))"
  by (simp add: getOrCreateDelegate_def getOrCreateDelegateWithNullOption_def Let_def split: option.split)

lemma getOrCreateDelegate_idem:
  "getOrCreateDelegate key s = (d, s') \<Longrightarrow> getOrCreateDelegate key s' = (d, s')"
  by (auto simp: getOrCreateDelegate_eq delegates.load_save_same split: option.splits)

text \<open>Asking first without creating and then with creating, as the DAO handlers do, is one creation.\<close>

lemma getOrCreateDelegate_null_first:
  "snd (getOrCreateDelegateWithNullOption key False True s) = s"
  by (simp add: getOrCreateDelegateWithNullOption_def split: option.split)

lemma getOrCreateProposal_eq:
  "getOrCreateProposal gt key s =
    (case sProposals s key of
       Some p \<Rightarrow> (p, s)
     | None \<Rightarrow> (freshProposal gt key, save_Governance
         ((getGovernanceEntity s)\<lparr>gv_proposals := gv_proposals (getGovernanceEntity s) + 1\<rparr>) s))"
  by (simp add: getOrCreateProposal_def getOrCreateProposal_opt_def Let_def split: option.split)

text \<open>The start block of dynamic quorum is set once: by the first call that names a block.\<close>

lemma getOrCreateDynamicQuorumParams_start:
  "getOrCreateDynamicQuorumParams block s = (p, s') \<Longrightarrow>
    sQuorumParams s' ''LATEST'' = Some p \<and>
    dq_dynamicQuorumStartBlock p =
      (case sQuorumParams s ''LATEST'' of
         None \<Rightarrow> block
       | Some q \<Rightarrow> (case dq_dynamicQuorumStartBlock q of None \<Rightarrow> block | Some b \<Rightarrow> Some b))"
  by (auto simp: getOrCreateDynamicQuorumParams_def new_QuorumParams_def Let_def save_defs split: option.splits if_splits)

end
