(* ===== verification/Sg_Token.thy ===== *)
theory Sg_Token
  imports Sg_Store
begin

text \<open>
  The token handlers of \<^verbatim>\<open>packages/nouns-subgraph/src/nouns-erc-721.ts\<close>: seeds, ownership, balances,
  delegation. A handler works on copies of the entities it loads, in the order of the code, so the
  copy of the governance entity that \<^verbatim>\<open>handleTransfer\<close> keeps is older than the one that
  \<^verbatim>\<open>getOrCreateDelegate\<close> may save in between.
\<close>

record NounCreated =
  nc_tokenId :: int
  nc_background :: int
  nc_body :: int
  nc_accessory :: int
  nc_head :: int
  nc_glasses :: int

record DelegateChanged =
  dc_delegator :: string
  dc_fromDelegate :: string
  dc_toDelegate :: string

record DelegateVotesChanged =
  dv_delegate :: string
  dv_previousBalance :: int
  dv_newBalance :: int

record Transfer =
  tr_from :: string
  tr_to :: string
  tr_tokenId :: int

definition handleNounCreated :: "Meta \<Rightarrow> NounCreated \<Rightarrow> Store \<Rightarrow> Store" where
  "handleNounCreated meta ev s =
     (let unounId = int_to_dec (nc_tokenId ev);
          s1 = save_Seed unounId
                 \<lparr>sd_id = unounId, sd_background = nc_background ev, sd_body = nc_body ev,
                  sd_accessory = nc_accessory ev, sd_head = nc_head ev, sd_glasses = nc_glasses ev\<rparr> s
      in case sNouns s1 unounId of
           None \<Rightarrow> log_error (''[handleNounCreated] Noun #'' @ unounId @ '' not found. Hash: '' @ tx_hash meta) s1
         | Some noun \<Rightarrow> save_Noun unounId (noun\<lparr>noun_seed := Some unounId\<rparr>) s1)"

text \<open>One \<^verbatim>\<open>DelegationEvent\<close> per Noun of the account, keyed by transaction and Noun.\<close>

fun save_delegation_events :: "Meta \<Rightarrow> string \<Rightarrow> string \<Rightarrow> string list \<Rightarrow> Store \<Rightarrow> Store" where
  "save_delegation_events meta prev new [] s = s"
| "save_delegation_events meta prev new (n # ns) s =
     save_delegation_events meta prev new ns
       (save_DelegationEvent (tx_hash meta @ ''_'' @ n)
          \<lparr>de_id = tx_hash meta @ ''_'' @ n, de_noun = n, de_previousDelegate = prev, de_newDelegate = new,
           de_blockNumber = block_number meta, de_blockTimestamp = block_timestamp meta\<rparr> s)"

definition handleDelegateChanged :: "Meta \<Rightarrow> DelegateChanged \<Rightarrow> Store \<Rightarrow> Store" where
  "handleDelegateChanged meta ev s =
     (let (tokenHolder, s1) = getOrCreateAccount (dc_delegator ev) s;
          (previousDelegate, s2) = getOrCreateDelegate (dc_fromDelegate ev) s1;
          (newDelegate, s3) = getOrCreateDelegate (dc_toDelegate ev) s2;
          accountNouns = acc_nouns tokenHolder;
          s4 = save_Account (dc_delegator ev) (tokenHolder\<lparr>acc_delegate := Some (dg_id newDelegate)\<rparr>) s3;
          previousDelegate' = previousDelegate
            \<lparr>dg_tokenHoldersRepresentedAmount := dg_tokenHoldersRepresentedAmount previousDelegate - 1,
             dg_nounsRepresented := filter (\<lambda>n. n \<notin> set accountNouns) (dg_nounsRepresented previousDelegate)\<rparr>;
          newDelegate' = newDelegate
            \<lparr>dg_tokenHoldersRepresentedAmount := dg_tokenHoldersRepresentedAmount newDelegate + 1,
             dg_nounsRepresented := dg_nounsRepresented newDelegate @ accountNouns\<rparr>;
          s5 = save_Delegate (dc_fromDelegate ev) previousDelegate' s4;
          s6 = save_Delegate (dc_toDelegate ev) newDelegate' s5
      in save_delegation_events meta
           (if dg_id previousDelegate' \<noteq> '''' then dg_id previousDelegate' else acc_id tokenHolder)
           (if dg_id newDelegate' \<noteq> '''' then dg_id newDelegate' else acc_id tokenHolder) accountNouns s6)"

definition handleDelegateVotesChanged :: "DelegateVotesChanged \<Rightarrow> Store \<Rightarrow> Store" where
  "handleDelegateVotesChanged ev s =
     (let governance = getGovernanceEntity s;
          (delegate, s1) = getOrCreateDelegate (dv_delegate ev) s;
          votesDifference = dv_newBalance ev - dv_previousBalance ev;
          s2 = save_Delegate (dv_delegate ev)
                 (delegate\<lparr>dg_delegatedVotesRaw := dv_newBalance ev, dg_delegatedVotes := dv_newBalance ev\<rparr>) s1;
          g1 = (if dv_previousBalance ev = BIGINT_ZERO \<and> BIGINT_ZERO < dv_newBalance ev
                then governance\<lparr>gv_currentDelegates := gv_currentDelegates governance + BIGINT_ONE\<rparr> else governance);
          g2 = (if dv_newBalance ev = BIGINT_ZERO
                then g1\<lparr>gv_currentDelegates := gv_currentDelegates g1 - BIGINT_ONE\<rparr> else g1);
          votes = gv_delegatedVotesRaw g2 + votesDifference
      in save_Governance (g2\<lparr>gv_delegatedVotesRaw := votes, gv_delegatedVotes := votes\<rparr>) s2)"

subsection \<open>handleTransfer\<close>

text \<open>The update of the governance entity when a holder's balance becomes or leaves zero.\<close>

definition count_holder :: "int \<Rightarrow> int \<Rightarrow> Governance \<times> Store \<Rightarrow> Governance \<times> Store" where
  "count_holder previousBalance balance gs =
     (case gs of (g, s) \<Rightarrow>
        if balance = BIGINT_ZERO \<and> BIGINT_ZERO < previousBalance
        then (let g' = g\<lparr>gv_currentTokenHolders := gv_currentTokenHolders g - BIGINT_ONE\<rparr> in (g', save_Governance g' s))
        else if BIGINT_ZERO < balance \<and> previousBalance = BIGINT_ZERO
        then (let g' = g\<lparr>gv_currentTokenHolders := gv_currentTokenHolders g + BIGINT_ONE\<rparr> in (g', save_Governance g' s))
        else (g, s))"

definition debit_holder :: "string \<Rightarrow> string \<Rightarrow> Account \<Rightarrow> Governance \<Rightarrow> Store \<Rightarrow> Account \<times> Governance \<times> Store" where
  "debit_holder n key fromHolder governance s =
     (let previousBalance = acc_tokenBalanceRaw fromHolder;
          h1 = fromHolder\<lparr>acc_tokenBalanceRaw := previousBalance - BIGINT_ONE,
                          acc_tokenBalance := previousBalance - BIGINT_ONE,
                          acc_nouns := filter (\<lambda>m. m \<noteq> n) (acc_nouns fromHolder)\<rparr>;
          s1 = (case acc_delegate h1 of
                  None \<Rightarrow> s
                | Some d \<Rightarrow>
                    (let (dl, s') = getOrCreateDelegate d s
                     in save_Delegate d
                          (dl\<lparr>dg_nounsRepresented := filter (\<lambda>m. m \<noteq> n) (dg_nounsRepresented dl)\<rparr>) s'));
          s2 = (if acc_tokenBalanceRaw h1 < BIGINT_ZERO
                then log_error (''Negative balance on holder '' @ acc_id h1 @ '' with balance ''
                       @ int_to_dec (acc_tokenBalanceRaw h1)) s1
                else s1);
          (g', s3) = count_holder previousBalance (acc_tokenBalanceRaw h1) (governance, s2);
          h2 = (if acc_tokenBalanceRaw h1 = BIGINT_ZERO \<and> BIGINT_ZERO < previousBalance
                then h1\<lparr>acc_delegate := None\<rparr> else h1)
      in (h2, g', save_Account key h2 s3))"

definition credit_holder :: "string \<Rightarrow> Account \<Rightarrow> Account" where
  "credit_holder n toHolder =
     (let previousBalance = acc_tokenBalanceRaw toHolder;
          h1 = toHolder\<lparr>acc_tokenBalanceRaw := previousBalance + BIGINT_ONE,
                        acc_tokenBalance := previousBalance + BIGINT_ONE,
                        acc_totalTokensHeldRaw := acc_totalTokensHeldRaw toHolder + BIGINT_ONE,
                        acc_totalTokensHeld := acc_totalTokensHeldRaw toHolder + BIGINT_ONE,
                        acc_nouns := acc_nouns toHolder @ [n]\<rparr>
      in if \<not> (acc_tokenBalanceRaw h1 = BIGINT_ZERO \<and> BIGINT_ZERO < previousBalance)
            \<and> BIGINT_ZERO < acc_tokenBalanceRaw h1 \<and> previousBalance = BIGINT_ZERO
         then h1\<lparr>acc_delegate := Some (acc_id toHolder)\<rparr> else h1)"

definition delegate_or_self :: "Account \<Rightarrow> string" where
  "delegate_or_self a = (case acc_delegate a of None \<Rightarrow> acc_id a | Some d \<Rightarrow> if d = '''' then acc_id a else d)"

definition handleTransfer :: "Meta \<Rightarrow> Transfer \<Rightarrow> Store \<Rightarrow> Store" where
  "handleTransfer meta ev s =
     (let n = int_to_dec (tr_tokenId ev);
          eventId = tx_hash meta @ ''_'' @ n;
          (fromHolder, s1) = getOrCreateAccount (tr_from ev) s;
          (toHolder, s2) = getOrCreateAccount (tr_to ev) s1;
          governance = getGovernanceEntity s2;
          s3 = save_TransferEvent eventId
                 \<lparr>te_id = eventId, te_noun = n, te_previousHolder = acc_id fromHolder, te_newHolder = acc_id toHolder,
                  te_blockNumber = block_number meta, te_blockTimestamp = block_timestamp meta\<rparr> s2;
          (fromHolder', g1, s4) =
            (if tr_from ev = ZERO_ADDRESS
             then (let g = governance\<lparr>gv_totalTokenHolders := gv_totalTokenHolders governance + BIGINT_ONE\<rparr>
                   in (fromHolder, g, save_Governance g s3))
             else debit_holder n (tr_from ev) fromHolder governance s3);
          (g2, s5) =
            (if tr_to ev = ZERO_ADDRESS
             then (let g = g1\<lparr>gv_totalTokenHolders := gv_totalTokenHolders g1 - BIGINT_ONE\<rparr>
                   in (g, save_Governance g s4))
             else (g1, s4));
          s6 = save_DelegationEvent eventId
                 \<lparr>de_id = eventId, de_noun = n, de_previousDelegate = delegate_or_self fromHolder',
                  de_newDelegate = delegate_or_self toHolder, de_blockNumber = block_number meta,
                  de_blockTimestamp = block_timestamp meta\<rparr> s5;
          (toHolderDelegate, s7) = getOrCreateDelegate (delegate_or_self toHolder) s6;
          s8 = save_Delegate (delegate_or_self toHolder)
                 (toHolderDelegate\<lparr>dg_nounsRepresented := dg_nounsRepresented toHolderDelegate @ [n]\<rparr>) s7;
          toHolder' = credit_holder n toHolder;
          (g3, s9) = count_holder (acc_tokenBalanceRaw toHolder) (acc_tokenBalanceRaw toHolder') (g2, s8);
          noun = (case sNouns s9 n of
                    None \<Rightarrow> \<lparr>noun_id = n, noun_seed = None, noun_owner = acc_id toHolder'\<rparr>
                  | Some x \<Rightarrow> x\<lparr>noun_owner := acc_id toHolder'\<rparr>);
          s10 = save_Noun n noun s9
      in save_Account (tr_to ev) toHolder' s10)"

end
