(* ===== verification/Sg_Dao.thy ===== *)
theory Sg_Dao
  imports Sg_Store "HOL-Library.Signed_Division"
begin

text \<open>
  The governor handlers of \<^verbatim>\<open>packages/nouns-subgraph/src/nouns-dao.ts\<close> and the quorum arithmetic of
  \<^verbatim>\<open>src/utils/dynamicQuorum.ts\<close>. \<open>None\<close> stands for an aborted handler: a division by zero or a
  \<open>toI32\<close> overflow in \<^verbatim>\<open>dynamicQuorumVotes\<close>.
\<close>

section \<open>dynamicQuorum.ts\<close>

definition big_div :: "int \<Rightarrow> int \<Rightarrow> int option" where
  "big_div a b = (if b = 0 then None else Some (a sdiv b))"

definition dynamicQuorumVotes ::
  "graph_ts \<Rightarrow> int \<Rightarrow> int \<Rightarrow> 32 word \<Rightarrow> 32 word \<Rightarrow> int \<Rightarrow> int option" where
  "dynamicQuorumVotes gt againstVotes totalSupply minQuorumVotesBPS maxQuorumVotesBPS quorumCoefficient =
     (case big_div (againstVotes * BIGINT_10K) totalSupply of
        None \<Rightarrow> None
      | Some againstVotesBPS \<Rightarrow>
          (let quorumAdjustmentBPS = (quorumCoefficient * againstVotesBPS) sdiv 1000000;
               adjustedQuorumBPS = quorumAdjustmentBPS + sint minQuorumVotesBPS in
           case bigToI32 gt adjustedQuorumBPS of
             None \<Rightarrow> None
           | Some adjusted \<Rightarrow>
               (let quorumBPS = min (sint maxQuorumVotesBPS) (sint adjusted)
                in Some ((totalSupply * quorumBPS) sdiv 10000))))"

section \<open>nouns-dao.ts\<close>

text \<open>\<open>split(sep, n)\<close> gives the first \<open>n\<close> pieces.\<close>

definition extractTitle :: "string \<Rightarrow> string" where
  "extractTitle description =
     (let splitDescription = take 3 (split_str ''#'' description);
          shifted = (if 1 < length splitDescription then tl splitDescription else splitDescription);
          firstLine = join [] (take 1 (split_str [CHR 0x0A] (join [] shifted)));
          title = replaceAll ''__'' '''' (replaceAll ''**'' '''' (trim firstLine))
      in if title = '''' then ''Untitled'' else title)"

record ProposalCreatedWithRequirements =
  pc_id :: int
  pc_proposer :: string
  pc_targets :: "string list"
  pc_values :: "int list"
  pc_signatures :: "string list"
  pc_calldatas :: "string list"
  pc_startBlock :: int
  pc_endBlock :: int
  pc_proposalThreshold :: int
  pc_quorumVotes :: int
  pc_description :: string

record VoteCast =
  vc_voter :: string
  vc_proposalId :: int
  vc_support :: int
  vc_votes :: int
  vc_reason :: string

definition delegate_not_found :: "string \<Rightarrow> string \<Rightarrow> Meta \<Rightarrow> string" where
  "delegate_not_found delegate wher meta =
     ''Delegate '' @ delegate @ '' not found on '' @ wher @ ''. tx_hash: '' @ tx_hash meta"

text \<open>Look the delegate up, log if it is missing, then create it anyway.\<close>

definition accounted_delegate :: "string \<Rightarrow> string \<Rightarrow> Meta \<Rightarrow> Store \<Rightarrow> Delegate \<times> Store" where
  "accounted_delegate delegate wher meta s =
     (let (found, s1) = getOrCreateDelegateWithNullOption delegate False True s;
          s2 = (if found = None then log_error (delegate_not_found delegate wher meta) s1 else s1)
      in getOrCreateDelegate delegate s2)"

definition handleProposalCreatedWithRequirements ::
  "graph_ts \<Rightarrow> Meta \<Rightarrow> ProposalCreatedWithRequirements \<Rightarrow> Store \<Rightarrow> Store" where
  "handleProposalCreatedWithRequirements gt meta ev s =
     (let key = int_to_dec (pc_id ev);
          (proposal, s1) = getOrCreateProposal gt key s;
          (proposer, s2) = accounted_delegate (pc_proposer ev) ''ProposalCreated'' meta s1;
          description = join [CHR 0x0A] (split_str [CHR 0x5C, CHR ''n''] (pc_description ev));
          governance = getGovernanceEntity s2;
          (dynamicQuorum, s3) = getOrCreateDynamicQuorumParams None s2;
          proposal' = proposal\<lparr>pr_proposer := dg_id proposer,
            pr_targets := pc_targets ev, pr_values := pc_values ev, pr_signatures := pc_signatures ev,
            pr_calldatas := pc_calldatas ev, pr_createdTimestamp := block_timestamp meta,
            pr_createdBlock := block_number meta, pr_createdTransactionHash := tx_hash meta,
            pr_startBlock := pc_startBlock ev, pr_endBlock := pc_endBlock ev,
            pr_proposalThreshold := pc_proposalThreshold ev, pr_quorumVotes := pc_quorumVotes ev,
            pr_forVotes := BIGINT_ZERO, pr_againstVotes := BIGINT_ZERO, pr_abstainVotes := BIGINT_ZERO,
            pr_description := description, pr_title := extractTitle description,
            pr_status := (if pc_startBlock ev \<le> block_number meta then ACTIVE else PENDING),
            pr_totalSupply := gv_totalTokenHolders governance,
            pr_minQuorumVotesBPS := dq_minQuorumVotesBPS dynamicQuorum,
            pr_maxQuorumVotesBPS := dq_maxQuorumVotesBPS dynamicQuorum,
            pr_quorumCoefficient := dq_quorumCoefficient dynamicQuorum\<rparr>
      in save_Proposal key proposal' s3)"

definition handleProposalCanceled :: "graph_ts \<Rightarrow> int \<Rightarrow> Store \<Rightarrow> Store" where
  "handleProposalCanceled gt propId s =
     (let (proposal, s1) = getOrCreateProposal gt (int_to_dec propId) s
      in save_Proposal (int_to_dec propId) (proposal\<lparr>pr_status := CANCELLED\<rparr>) s1)"

definition handleProposalVetoed :: "graph_ts \<Rightarrow> int \<Rightarrow> Store \<Rightarrow> Store" where
  "handleProposalVetoed gt propId s =
     (let (proposal, s1) = getOrCreateProposal gt (int_to_dec propId) s
      in save_Proposal (int_to_dec propId) (proposal\<lparr>pr_status := VETOED\<rparr>) s1)"

definition handleProposalQueued :: "graph_ts \<Rightarrow> int \<Rightarrow> int \<Rightarrow> Store \<Rightarrow> Store" where
  "handleProposalQueued gt propId eta s =
     (let governance = getGovernanceEntity s;
          (proposal, s1) = getOrCreateProposal gt (int_to_dec propId) s;
          s2 = save_Proposal (int_to_dec propId)
                 (proposal\<lparr>pr_status := QUEUED, pr_executionETA := Some eta\<rparr>) s1
      in save_Governance (governance\<lparr>gv_proposalsQueued := gv_proposalsQueued governance + BIGINT_ONE\<rparr>) s2)"

definition handleProposalExecuted :: "graph_ts \<Rightarrow> int \<Rightarrow> Store \<Rightarrow> Store" where
  "handleProposalExecuted gt propId s =
     (let governance = getGovernanceEntity s;
          (proposal, s1) = getOrCreateProposal gt (int_to_dec propId) s;
          s2 = save_Proposal (int_to_dec propId)
                 (proposal\<lparr>pr_status := EXECUTED, pr_executionETA := None\<rparr>) s1
      in save_Governance (governance\<lparr>gv_proposalsQueued := gv_proposalsQueued governance - BIGINT_ONE\<rparr>) s2)"

definition add_votes :: "int \<Rightarrow> int \<Rightarrow> Proposal \<Rightarrow> Proposal" where
  "add_votes support n p =
     (if support = 0 then p\<lparr>pr_againstVotes := pr_againstVotes p + n\<rparr>
      else if support = 1 then p\<lparr>pr_forVotes := pr_forVotes p + n\<rparr>
      else if support = 2 then p\<lparr>pr_abstainVotes := pr_abstainVotes p + n\<rparr>
      else p)"

definition handleVoteCast :: "graph_ts \<Rightarrow> Meta \<Rightarrow> VoteCast \<Rightarrow> Store \<Rightarrow> Store option" where
  "handleVoteCast gt meta ev s =
     (let key = int_to_dec (vc_proposalId ev);
          (proposal, s1) = getOrCreateProposal gt key s;
          voteId = vc_voter ev @ ''-'' @ key;
          old = getOrCreateVote voteId s1;
          (voter, s2) = accounted_delegate (vc_voter ev) ''VoteCast'' meta s1;
          vote = \<lparr>vt_id = voteId, vt_support = (vc_support ev = 1), vt_supportDetailed = vc_support ev,
                  vt_votesRaw = vc_votes ev, vt_votes = vc_votes ev,
                  vt_reason = (if vc_reason ev \<noteq> '''' then Some (vc_reason ev)
                               else (case old of None \<Rightarrow> None | Some v \<Rightarrow> vt_reason v)),
                  vt_voter = dg_id voter, vt_nouns = dg_nounsRepresented voter, vt_proposal = pr_id proposal,
                  vt_blockNumber = block_number meta\<rparr>;
          s3 = save_Vote voteId vote s2;
          p1 = add_votes (vc_support ev) (vc_votes ev) proposal;
          (dqParams, s4) = getOrCreateDynamicQuorumParams None s3;
          usingDynamicQuorum = (case dq_dynamicQuorumStartBlock dqParams of
              None \<Rightarrow> False | Some b \<Rightarrow> b < pr_createdBlock p1);
          quorum = (if usingDynamicQuorum
                    then dynamicQuorumVotes gt (pr_againstVotes p1) (pr_totalSupply p1)
                           (pr_minQuorumVotesBPS p1) (pr_maxQuorumVotesBPS p1) (pr_quorumCoefficient p1)
                    else Some (pr_quorumVotes p1))
      in map_option (\<lambda>q.
           (let p2 = p1\<lparr>pr_quorumVotes := q\<rparr>;
                p3 = (if pr_status p2 = PENDING then p2\<lparr>pr_status := ACTIVE\<rparr> else p2)
            in save_Proposal key p3 s4)) quorum)"

definition handleMinQuorumVotesBPSSet :: "Meta \<Rightarrow> 32 word \<Rightarrow> Store \<Rightarrow> Store" where
  "handleMinQuorumVotesBPSSet meta newMin s =
     (let (params, s1) = getOrCreateDynamicQuorumParams (Some (block_number meta)) s
      in save_QuorumParams (params\<lparr>dq_minQuorumVotesBPS := newMin\<rparr>) s1)"

definition handleMaxQuorumVotesBPSSet :: "Meta \<Rightarrow> 32 word \<Rightarrow> Store \<Rightarrow> Store" where
  "handleMaxQuorumVotesBPSSet meta newMax s =
     (let (params, s1) = getOrCreateDynamicQuorumParams (Some (block_number meta)) s
      in save_QuorumParams (params\<lparr>dq_maxQuorumVotesBPS := newMax\<rparr>) s1)"

definition handleQuorumCoefficientSet :: "Meta \<Rightarrow> int \<Rightarrow> Store \<Rightarrow> Store" where
  "handleQuorumCoefficientSet meta newCoefficient s =
     (let (params, s1) = getOrCreateDynamicQuorumParams (Some (block_number meta)) s
      in save_QuorumParams (params\<lparr>dq_quorumCoefficient := newCoefficient\<rparr>) s1)"

section \<open>Quorum arithmetic\<close>

text \<open>\<open>toI32\<close> is documented to give the value, and to throw when it does not fit.\<close>

definition toI32_doc :: "graph_ts \<Rightarrow> bool" where
  "toI32_doc gt \<longleftrightarrow> (\<forall>x. bigToI32 gt x = (if - (2 ^ 31) \<le> x \<and> x < 2 ^ 31 then Some (word_of_int x) else None))"

lemma sdiv_nonneg: "0 \<le> (a :: int) \<Longrightarrow> 0 < b \<Longrightarrow> a sdiv b = a div b"
  by (cases "a = 0") (simp_all add: signed_divide_int_def)

lemma sint_word_of_int_32:
  "- (2 ^ 31) \<le> x \<Longrightarrow> x < 2 ^ 31 \<Longrightarrow> sint (word_of_int x :: 32 word) = x"
  by (simp add: int_word_sint)

definition adjusted_bps :: "int \<Rightarrow> int \<Rightarrow> int \<Rightarrow> int \<Rightarrow> int" where
  "adjusted_bps against supply minBps coefficient = coefficient * (against * 10000 div supply) div 1000000 + minBps"

lemma adjusted_bps_mono:
  "0 < supply \<Longrightarrow> 0 \<le> c \<Longrightarrow> a \<le> a' \<Longrightarrow> adjusted_bps a supply m c \<le> adjusted_bps a' supply m c"
  unfolding adjusted_bps_def
  by (intro add_right_mono zdiv_mono1 mult_left_mono) simp_all

lemma adjusted_bps_range:
  assumes "0 < supply" "0 \<le> a" "a \<le> supply" "0 \<le> c" "c < 2 ^ 32"
  shows "m \<le> adjusted_bps a supply m c" "adjusted_bps a supply m c \<le> 42949672 + m"
proof -
  have q0: "0 \<le> a * 10000 div supply" using assms by (simp add: pos_imp_zdiv_nonneg_iff)
  have "a * 10000 div supply \<le> supply * 10000 div supply" using assms by (intro zdiv_mono1) simp_all
  then have q: "a * 10000 div supply \<le> 10000" using assms by simp
  then have "c * (a * 10000 div supply) \<le> (2 ^ 32 - 1) * 10000"
    using assms q0 by (intro mult_mono) simp_all
  then have "c * (a * 10000 div supply) div 1000000 \<le> (2 ^ 32 - 1) * 10000 div 1000000"
    by (intro zdiv_mono1) simp_all
  moreover have "0 \<le> c * (a * 10000 div supply) div 1000000"
    using assms q0 by (simp add: pos_imp_zdiv_nonneg_iff)
  ultimately show "m \<le> adjusted_bps a supply m c" "adjusted_bps a supply m c \<le> 42949672 + m"
    by (simp_all add: adjusted_bps_def)
qed

lemma sint_32_bounds: "- (2 ^ 31) \<le> sint (x :: 32 word)" "sint (x :: 32 word) < 2 ^ 31"
  using sint_greater_eq[of x] sint_lt[of x] by simp_all

lemma dynamicQuorumVotes_eq:
  assumes doc: "toI32_doc gt" and rng: "0 < supply" "0 \<le> a" "0 \<le> c"
    and min: "0 \<le> sint minBps" "0 \<le> sint maxBps"
    and fits: "adjusted_bps a supply (sint minBps) c < 2 ^ 31"
  shows "dynamicQuorumVotes gt a supply minBps maxBps c =
    Some (supply * min (sint maxBps) (adjusted_bps a supply (sint minBps) c) div 10000)"
proof -
  have q0: "0 \<le> a * 10000 div supply" using rng by (simp add: pos_imp_zdiv_nonneg_iff)
  have "(c * (a * 10000 sdiv supply)) sdiv 1000000 + sint minBps = adjusted_bps a supply (sint minBps) c"
    using rng q0 by (simp add: sdiv_nonneg adjusted_bps_def)
  moreover have adj0: "0 \<le> adjusted_bps a supply (sint minBps) c"
    using rng q0 min by (simp add: adjusted_bps_def pos_imp_zdiv_nonneg_iff)
  moreover have "bigToI32 gt (adjusted_bps a supply (sint minBps) c)
      = Some (word_of_int (adjusted_bps a supply (sint minBps) c))"
    using doc fits adj0 by (simp add: toI32_doc_def)
  moreover have "sint (word_of_int (adjusted_bps a supply (sint minBps) c) :: 32 word)
      = adjusted_bps a supply (sint minBps) c"
    using fits adj0 by (intro sint_word_of_int_32) simp_all
  ultimately show ?thesis
    using rng(1) min(2) by (simp add: dynamicQuorumVotes_def big_div_def Let_def sdiv_nonneg)
qed

section \<open>Titles\<close>

lemma extractTitle_nonempty: "extractTitle d \<noteq> ''''"
  by (simp add: extractTitle_def Let_def)

lemma extractTitle_markdown:
  assumes "t \<noteq> ''''" "CHR ''#'' \<notin> set t" "CHR 0x0A \<notin> set t"
    "\<not> contains_str t ''**''" "\<not> contains_str t ''__''" "\<not> is_space (hd t)" "\<not> is_space (last t)"
    "CHR ''#'' \<notin> set body"
  shows "extractTitle (''# '' @ t @ [CHR 0x0A] @ body) = t"
proof -
  have hash: "CHR ''#'' \<notin> set ([CHR '' ''] @ t @ [CHR 0x0A] @ body)" using assms(2,8) by simp
  have "split_str ''#'' (''# '' @ t @ [CHR 0x0A] @ body) = ['''', [CHR '' ''] @ t @ [CHR 0x0A] @ body]"
    using split_str_char[of "CHR ''#''" "''''" "[CHR '' ''] @ t @ [CHR 0x0A] @ body"]
      split_str_char_None[OF hash] by simp
  moreover have "split_str [CHR 0x0A] ([CHR '' ''] @ t @ [CHR 0x0A] @ body) =
      ([CHR '' ''] @ t) # split_str [CHR 0x0A] body"
    using split_str_char[of "CHR 0x0A" "[CHR '' ''] @ t" body] assms(3) by simp
  moreover have "trim ([CHR '' ''] @ t) = t"
    using trim_drop_space[of "CHR '' ''" t] trim_id[of t] assms(6,7) by (simp add: is_space_def)
  ultimately show ?thesis
    using assms(1,4,5) by (simp add: extractTitle_def Let_def replaceAll_absent)
qed

section \<open>What the handlers do to proposals\<close>

lemma accounted_delegate_facts:
  assumes "accounted_delegate d wher meta s = (v, s')"
  shows "sProposals s' = sProposals s" "sVotes s' = sVotes s" "sQuorumParams s' = sQuorumParams s"
    "sDelegates s' d = Some v"
  using assms
  by (auto simp: accounted_delegate_def getOrCreateDelegateWithNullOption_def getOrCreateDelegate_eq save_defs
      Let_def split: option.splits if_splits)

lemma getOrCreateProposal_facts:
  assumes "getOrCreateProposal gt key s = (p, s')"
  shows "sProposals s' = sProposals s" "p = (case sProposals s key of None \<Rightarrow> freshProposal gt key | Some q \<Rightarrow> q)"
    "sVotes s' = sVotes s"
  using assms by (auto simp: getOrCreateProposal_eq save_defs split: option.splits)

lemma getOrCreateDynamicQuorumParams_facts:
  assumes "getOrCreateDynamicQuorumParams b s = (p, s')"
  shows "sProposals s' = sProposals s" "sVotes s' = sVotes s"
  using assms by (auto simp: getOrCreateDynamicQuorumParams_def Let_def save_defs split: option.splits if_splits)

definition proposal_at :: "graph_ts \<Rightarrow> string \<Rightarrow> Store \<Rightarrow> Proposal" where
  "proposal_at gt key s = (case sProposals s key of None \<Rightarrow> freshProposal gt key | Some p \<Rightarrow> p)"

text \<open>Counters of a proposal: votes against, for, and abstaining.\<close>

definition tally :: "Proposal \<Rightarrow> int \<times> int \<times> int" where
  "tally p = (pr_againstVotes p, pr_forVotes p, pr_abstainVotes p)"

definition schedule :: "Proposal \<Rightarrow> int \<times> int \<times> int option" where
  "schedule p = (pr_startBlock p, pr_endBlock p, pr_executionETA p)"

lemma handleVoteCast_proposals:
  assumes "handleVoteCast gt meta ev s = Some s'"
  shows "\<exists>q. sProposals s' = (sProposals s)(int_to_dec (vc_proposalId ev) \<mapsto> q)
    \<and> tally q = tally (add_votes (vc_support ev) (vc_votes ev) (proposal_at gt (int_to_dec (vc_proposalId ev)) s))
    \<and> pr_status q = (let st = pr_status (proposal_at gt (int_to_dec (vc_proposalId ev)) s)
                     in if st = PENDING then ACTIVE else st)
    \<and> schedule q = schedule (proposal_at gt (int_to_dec (vc_proposalId ev)) s)"
proof -
  let ?k = "int_to_dec (vc_proposalId ev)"
  obtain p s1 where p: "getOrCreateProposal gt ?k s = (p, s1)" by (cases "getOrCreateProposal gt ?k s")
  obtain v s2 where v: "accounted_delegate (vc_voter ev) ''VoteCast'' meta s1 = (v, s2)"
    by (cases "accounted_delegate (vc_voter ev) ''VoteCast'' meta s1")
  note f = getOrCreateProposal_facts[OF p] accounted_delegate_facts[OF v]
  have pat: "p = proposal_at gt ?k s" using f(2) by (simp add: proposal_at_def)
  from assms obtain vote dq s4 q where
    d: "getOrCreateDynamicQuorumParams None (save_Vote (vc_voter ev @ ''-'' @ ?k) vote s2) = (dq, s4)"
    "s' = save_Proposal ?k (let p2 = (add_votes (vc_support ev) (vc_votes ev) p)\<lparr>pr_quorumVotes := q\<rparr>
            in if pr_status p2 = PENDING then p2\<lparr>pr_status := ACTIVE\<rparr> else p2) s4"
    by (auto simp: handleVoteCast_def p v Let_def split: prod.splits)
  have "sProposals s4 = sProposals s"
    using getOrCreateDynamicQuorumParams_facts(1)[OF d(1)] f by (simp add: save_Vote_def)
  moreover define r where "r = (let p2 = (add_votes (vc_support ev) (vc_votes ev) p)\<lparr>pr_quorumVotes := q\<rparr>
       in if pr_status p2 = PENDING then p2\<lparr>pr_status := ACTIVE\<rparr> else p2)"
  ultimately have "sProposals s' = (sProposals s)(?k \<mapsto> r)"
    using d(2) by (simp add: save_Proposal_def)
  moreover have "tally r = tally (add_votes (vc_support ev) (vc_votes ev) p)"
    by (simp add: r_def tally_def Let_def)
  moreover have "pr_status (add_votes u n p) = pr_status p" for u n by (simp add: add_votes_def)
  then have "pr_status r = (let st = pr_status p in if st = PENDING then ACTIVE else st)"
    by (simp add: r_def Let_def)
  moreover have "schedule (add_votes u n p) = schedule p" for u n by (simp add: schedule_def add_votes_def)
  then have "schedule r = schedule p" by (simp add: r_def Let_def schedule_def)
  ultimately show ?thesis using pat by blast
qed

lemma status_handlers_proposals:
  "sProposals (handleProposalCanceled gt i s) =
    (sProposals s)(int_to_dec i \<mapsto> (proposal_at gt (int_to_dec i) s)\<lparr>pr_status := CANCELLED\<rparr>)"
  "sProposals (handleProposalVetoed gt i s) =
    (sProposals s)(int_to_dec i \<mapsto> (proposal_at gt (int_to_dec i) s)\<lparr>pr_status := VETOED\<rparr>)"
  "sProposals (handleProposalQueued gt i eta s) =
    (sProposals s)(int_to_dec i \<mapsto> (proposal_at gt (int_to_dec i) s)\<lparr>pr_status := QUEUED, pr_executionETA := Some eta\<rparr>)"
  "sProposals (handleProposalExecuted gt i s) =
    (sProposals s)(int_to_dec i \<mapsto> (proposal_at gt (int_to_dec i) s)\<lparr>pr_status := EXECUTED, pr_executionETA := None\<rparr>)"
  by (simp_all add: handleProposalCanceled_def handleProposalVetoed_def handleProposalQueued_def
      handleProposalExecuted_def getOrCreateProposal_eq proposal_at_def save_defs Let_def split: option.split)

lemma handleProposalCreated_proposals:
  "\<exists>q. sProposals (handleProposalCreatedWithRequirements gt meta ev s) = (sProposals s)(int_to_dec (pc_id ev) \<mapsto> q)
    \<and> tally q = (0, 0, 0)
    \<and> pr_status q = (if pc_startBlock ev \<le> block_number meta then ACTIVE else PENDING)
    \<and> pr_title q = extractTitle (pr_description q)
    \<and> pr_quorumVotes q = pc_quorumVotes ev
    \<and> schedule q = (pc_startBlock ev, pc_endBlock ev, pr_executionETA (proposal_at gt (int_to_dec (pc_id ev)) s))"
proof -
  let ?k = "int_to_dec (pc_id ev)"
  obtain p s1 where p: "getOrCreateProposal gt ?k s = (p, s1)" by (cases "getOrCreateProposal gt ?k s")
  obtain v s2 where v: "accounted_delegate (pc_proposer ev) ''ProposalCreated'' meta s1 = (v, s2)"
    by (cases "accounted_delegate (pc_proposer ev) ''ProposalCreated'' meta s1")
  obtain dq s3 where d: "getOrCreateDynamicQuorumParams None s2 = (dq, s3)"
    by (cases "getOrCreateDynamicQuorumParams None s2")
  have "sProposals s3 = sProposals s"
    using getOrCreateProposal_facts[OF p] accounted_delegate_facts[OF v] getOrCreateDynamicQuorumParams_facts[OF d]
    by simp
  then show ?thesis
    using getOrCreateProposal_facts(2)[OF p]
    by (auto simp: handleProposalCreatedWithRequirements_def p v d Let_def save_Proposal_def tally_def schedule_def
        proposal_at_def)
qed

lemma quorum_handlers_proposals:
  "sProposals (handleMinQuorumVotesBPSSet meta w s) = sProposals s"
  "sProposals (handleMaxQuorumVotesBPSSet meta w s) = sProposals s"
  "sProposals (handleQuorumCoefficientSet meta c s) = sProposals s"
proof -
  obtain p s1 where "getOrCreateDynamicQuorumParams (Some (block_number meta)) s = (p, s1)"
    by (cases "getOrCreateDynamicQuorumParams (Some (block_number meta)) s")
  then show "sProposals (handleMinQuorumVotesBPSSet meta w s) = sProposals s"
    "sProposals (handleMaxQuorumVotesBPSSet meta w s) = sProposals s"
    "sProposals (handleQuorumCoefficientSet meta c s) = sProposals s"
    using getOrCreateDynamicQuorumParams_facts(1)
    by (auto simp: handleMinQuorumVotesBPSSet_def handleMaxQuorumVotesBPSSet_def handleQuorumCoefficientSet_def
        save_QuorumParams_def)
qed

end
