(* ===== verification/Sg_Auction.thy ===== *)
theory Sg_Auction
  imports Sg_Store
begin

text \<open>
  The auction house handlers of \<^verbatim>\<open>packages/nouns-subgraph/src/nouns-auction-house.ts\<close>. A handler that
  does not find its entity logs an error and returns.
\<close>

record AuctionCreated =
  ac_unounId :: int
  ac_startTime :: int
  ac_endTime :: int

record AuctionBid =
  ab_unounId :: int
  ab_sender :: string
  ab_value :: int

record AuctionExtended =
  ae_unounId :: int
  ae_endTime :: int

record AuctionSettled =
  as_unounId :: int

definition not_found :: "string \<Rightarrow> string \<Rightarrow> Meta \<Rightarrow> string" where
  "not_found what key meta = what @ key @ ''. Hash: '' @ tx_hash meta"

definition handleAuctionCreated :: "Meta \<Rightarrow> AuctionCreated \<Rightarrow> Store \<Rightarrow> Store" where
  "handleAuctionCreated meta ev s =
     (let unounId = int_to_dec (ac_unounId ev) in
      case sNouns s unounId of
        None \<Rightarrow> log_error (''[handleAuctionCreated] Noun #'' @ unounId @ '' not found. Hash: '' @ tx_hash meta) s
      | Some noun \<Rightarrow>
          save_Auction unounId
            \<lparr>au_id = unounId, au_noun = noun_id noun, au_amount = 0, au_startTime = ac_startTime ev,
             au_endTime = ac_endTime ev, au_bidder = None, au_settled = False\<rparr> s)"

definition handleAuctionBid :: "Meta \<Rightarrow> AuctionBid \<Rightarrow> Store \<Rightarrow> Store" where
  "handleAuctionBid meta ev s =
     (let unounId = int_to_dec (ab_unounId ev);
          (bidder, s1) = getOrCreateAccount (ab_sender ev) s in
      case sAuctions s1 unounId of
        None \<Rightarrow> log_error (not_found ''[handleAuctionBid] Auction not found for Noun #'' unounId meta) s1
      | Some auction \<Rightarrow>
          (let auction' = auction\<lparr>au_amount := ab_value ev, au_bidder := Some (acc_id bidder)\<rparr>;
               s2 = save_Auction unounId auction' s1
           in save_Bid (tx_hash meta)
                \<lparr>bid_id = tx_hash meta, bid_noun = au_noun auction', bid_amount = au_amount auction',
                 bid_bidder = Some (acc_id bidder), bid_blockNumber = block_number meta,
                 bid_txIndex = tx_index meta, bid_auction = au_id auction',
                 bid_blockTimestamp = block_timestamp meta\<rparr> s2))"

definition handleAuctionExtended :: "Meta \<Rightarrow> AuctionExtended \<Rightarrow> Store \<Rightarrow> Store" where
  "handleAuctionExtended meta ev s =
     (let unounId = int_to_dec (ae_unounId ev) in
      case sAuctions s unounId of
        None \<Rightarrow> log_error (not_found ''[handleAuctionExtended] Auction not found for Noun #'' unounId meta) s
      | Some auction \<Rightarrow> save_Auction unounId (auction\<lparr>au_endTime := ae_endTime ev\<rparr>) s)"

definition handleAuctionSettled :: "Meta \<Rightarrow> AuctionSettled \<Rightarrow> Store \<Rightarrow> Store" where
  "handleAuctionSettled meta ev s =
     (let unounId = int_to_dec (as_unounId ev) in
      case sAuctions s unounId of
        None \<Rightarrow> log_error (not_found ''[handleAuctionSettled] Auction not found for Noun #'' unounId meta) s
      | Some auction \<Rightarrow> save_Auction unounId (auction\<lparr>au_settled := True\<rparr>) s)"

lemmas auction_handlers =
  handleAuctionCreated_def handleAuctionBid_def handleAuctionExtended_def handleAuctionSettled_def

section \<open>Invariant\<close>

text \<open>
  Every auction is stored under its own id and its Noun's id, every bid refers to a stored auction and
  a stored account, and the highest bidder is an account.
\<close>

definition auctions_wf :: "Store \<Rightarrow> bool" where
  "auctions_wf s \<longleftrightarrow>
     (\<forall>k n. sNouns s k = Some n \<longrightarrow> noun_id n = k)
     \<and> (\<forall>k a. sAccounts s k = Some a \<longrightarrow> acc_id a = k)
     \<and> (\<forall>k a. sAuctions s k = Some a \<longrightarrow> au_id a = k \<and> au_noun a = k
          \<and> (\<forall>b. au_bidder a = Some b \<longrightarrow> sAccounts s b \<noteq> None))
     \<and> (\<forall>k b. sBids s k = Some b \<longrightarrow> bid_id b = k \<and> sAuctions s (bid_auction b) \<noteq> None
          \<and> bid_noun b = bid_auction b \<and> bid_bidder b \<noteq> None
          \<and> (\<forall>p. bid_bidder b = Some p \<longrightarrow> sAccounts s p \<noteq> None))"

lemma auctions_wf_created: "auctions_wf s \<Longrightarrow> auctions_wf (handleAuctionCreated meta ev s)"
  unfolding auctions_wf_def handleAuctionCreated_def Let_def
  by (auto simp: save_defs split: option.split)

lemma auctions_wf_extended: "auctions_wf s \<Longrightarrow> auctions_wf (handleAuctionExtended meta ev s)"
  unfolding auctions_wf_def handleAuctionExtended_def Let_def
  by (auto simp: save_defs split: option.split)

lemma auctions_wf_settled: "auctions_wf s \<Longrightarrow> auctions_wf (handleAuctionSettled meta ev s)"
  unfolding auctions_wf_def handleAuctionSettled_def Let_def
  by (auto simp: save_defs split: option.split)

lemma auctions_wf_account:
  assumes "auctions_wf s" "getOrCreateAccount key s = (a, s')"
  shows "auctions_wf s'" "acc_id a = key" "sAccounts s' key = Some a" "sAuctions s' = sAuctions s"
    "sBids s' = sBids s" "sNouns s' = sNouns s"
  using assms unfolding auctions_wf_def
  by (auto simp: getOrCreateAccount_eq save_defs new_Account_def split: option.splits if_splits)

lemma auctions_wf_bid:
  assumes wf: "auctions_wf s"
  shows "auctions_wf (handleAuctionBid meta ev s)"
proof -
  obtain bidder s1 where acc: "getOrCreateAccount (ab_sender ev) s = (bidder, s1)"
    by (cases "getOrCreateAccount (ab_sender ev) s")
  note a = auctions_wf_account[OF wf acc]
  let ?k = "int_to_dec (ab_unounId ev)"
  show ?thesis
  proof (cases "sAuctions s1 ?k")
    case None
    then show ?thesis using a(1) acc by (simp add: handleAuctionBid_def auctions_wf_def save_defs)
  next
    case (Some auction)
    then have ids: "au_id auction = ?k" "au_noun auction = ?k" using a(1) by (auto simp: auctions_wf_def)
    then have "handleAuctionBid meta ev s = save_Bid (tx_hash meta)
        \<lparr>bid_id = tx_hash meta, bid_noun = ?k, bid_amount = ab_value ev, bid_bidder = Some (ab_sender ev),
         bid_blockNumber = block_number meta, bid_txIndex = tx_index meta, bid_auction = ?k,
         bid_blockTimestamp = block_timestamp meta\<rparr>
        (save_Auction ?k (auction\<lparr>au_amount := ab_value ev, au_bidder := Some (ab_sender ev)\<rparr>) s1)"
      using Some acc a(2) by (simp add: handleAuctionBid_def Let_def)
    then show ?thesis using a(1,3) ids unfolding auctions_wf_def by (simp add: save_defs)
  qed
qed

text \<open>The amount of an auction is the value of its last bid; nothing else changes it once it is created.\<close>

lemma bid_updates_auction:
  assumes "sAuctions s (int_to_dec (ab_unounId ev)) = Some a"
  shows "sAuctions (handleAuctionBid meta ev s) (int_to_dec (ab_unounId ev))
      = Some (a\<lparr>au_amount := ab_value ev, au_bidder := Some (acc_id (fst (getOrCreateAccount (ab_sender ev) s)))\<rparr>)"
    "k \<noteq> int_to_dec (ab_unounId ev) \<Longrightarrow> sAuctions (handleAuctionBid meta ev s) k = sAuctions s k"
proof -
  obtain bidder s1 where acc: "getOrCreateAccount (ab_sender ev) s = (bidder, s1)"
    by (cases "getOrCreateAccount (ab_sender ev) s")
  have same: "sAuctions s1 = sAuctions s"
    using acc by (auto simp: getOrCreateAccount_eq save_defs split: option.splits)
  show "sAuctions (handleAuctionBid meta ev s) (int_to_dec (ab_unounId ev))
      = Some (a\<lparr>au_amount := ab_value ev, au_bidder := Some (acc_id (fst (getOrCreateAccount (ab_sender ev) s)))\<rparr>)"
    and "k \<noteq> int_to_dec (ab_unounId ev) \<Longrightarrow> sAuctions (handleAuctionBid meta ev s) k = sAuctions s k"
    using assms acc same by (simp_all add: handleAuctionBid_def save_defs)
qed

end
