(* ===== verification/Sg_Ledger.thy ===== *)
theory Sg_Ledger
  imports Sg_Token Sg_Dao Sg_Auction
begin

text \<open>
  The subgraph as a state machine over events, and what it promises: it follows an ERC-721 ledger.
  \<open>handle\<close> dispatches an event as the manifest of the subgraph does; \<open>chain_reach\<close> relates the store to
  the ledger of owners over all sequences of events that a token contract can emit; the lemmas show
  that accounts, balances, owners, holder counts and the Nouns that delegates represent follow the
  ledger, and that proposals count the votes cast.
\<close>

section \<open>Views of the store\<close>

definition account_at :: "Store \<Rightarrow> string \<Rightarrow> Account" where
  "account_at s a = (case sAccounts s a of None \<Rightarrow> new_Account a | Some x \<Rightarrow> x)"

definition represented :: "Store \<Rightarrow> string \<Rightarrow> string list" where
  "represented s d = (case sDelegates s d of None \<Rightarrow> [] | Some x \<Rightarrow> dg_nounsRepresented x)"

definition delegate_id :: "Store \<Rightarrow> string \<Rightarrow> string" where
  "delegate_id s d = (case sDelegates s d of None \<Rightarrow> d | Some x \<Rightarrow> dg_id x)"

definition counts :: "Governance \<Rightarrow> int \<times> int" where
  "counts g = (gv_currentTokenHolders g, gv_totalTokenHolders g)"

abbreviation store_counts :: "Store \<Rightarrow> int \<times> int" where
  "store_counts s \<equiv> counts (getGovernanceEntity s)"

named_theorems views "how the operations change the views of the store"

lemma view_save_Account [views]:
  "account_at (save_Account k a s) = (account_at s)(k := a)" "represented (save_Account k a s) = represented s"
  "delegate_id (save_Account k a s) = delegate_id s"
  "sNouns (save_Account k a s) = sNouns s" "getGovernanceEntity (save_Account k a s) = getGovernanceEntity s"
  by (auto simp: account_at_def represented_def delegate_id_def getGovernanceEntity_def save_Account_def fun_eq_iff)

lemma view_save_Delegate [views]:
  "account_at (save_Delegate k d s) = account_at s"
  "represented (save_Delegate k d s) = (represented s)(k := dg_nounsRepresented d)"
  "delegate_id (save_Delegate k d s) = (delegate_id s)(k := dg_id d)"
  "sNouns (save_Delegate k d s) = sNouns s" "getGovernanceEntity (save_Delegate k d s) = getGovernanceEntity s"
  by (auto simp: account_at_def represented_def delegate_id_def getGovernanceEntity_def save_Delegate_def fun_eq_iff)

lemma view_save_Noun [views]:
  "account_at (save_Noun k n s) = account_at s" "represented (save_Noun k n s) = represented s"
  "delegate_id (save_Noun k n s) = delegate_id s"
  "sNouns (save_Noun k n s) = (sNouns s)(k \<mapsto> n)" "getGovernanceEntity (save_Noun k n s) = getGovernanceEntity s"
  by (auto simp: account_at_def represented_def delegate_id_def getGovernanceEntity_def save_Noun_def fun_eq_iff)

lemma view_save_Governance [views]:
  "account_at (save_Governance g s) = account_at s" "represented (save_Governance g s) = represented s"
  "delegate_id (save_Governance g s) = delegate_id s"
  "sNouns (save_Governance g s) = sNouns s" "getGovernanceEntity (save_Governance g s) = g"
  by (auto simp: account_at_def represented_def delegate_id_def getGovernanceEntity_def save_Governance_def fun_eq_iff)

lemma view_other [views]:
  "account_at (save_TransferEvent k t s) = account_at s" "represented (save_TransferEvent k t s) = represented s"
  "delegate_id (save_TransferEvent k t s) = delegate_id s"
  "sNouns (save_TransferEvent k t s) = sNouns s"
  "getGovernanceEntity (save_TransferEvent k t s) = getGovernanceEntity s"
  "account_at (save_DelegationEvent k e s) = account_at s" "represented (save_DelegationEvent k e s) = represented s"
  "delegate_id (save_DelegationEvent k e s) = delegate_id s"
  "sNouns (save_DelegationEvent k e s) = sNouns s"
  "getGovernanceEntity (save_DelegationEvent k e s) = getGovernanceEntity s"
  "account_at (log_error m s) = account_at s" "represented (log_error m s) = represented s"
  "delegate_id (log_error m s) = delegate_id s"
  "sNouns (log_error m s) = sNouns s" "getGovernanceEntity (log_error m s) = getGovernanceEntity s"
  by (auto simp: account_at_def represented_def delegate_id_def getGovernanceEntity_def save_defs fun_eq_iff)

lemma view_getOrCreateAccount:
  assumes "getOrCreateAccount k s = (a, s')"
  shows "a = account_at s k" "account_at s' = account_at s" "represented s' = represented s" "sNouns s' = sNouns s"
    "getGovernanceEntity s' = getGovernanceEntity s" "delegate_id s' = delegate_id s"
  using assms
  by (auto simp: getOrCreateAccount_eq account_at_def represented_def delegate_id_def getGovernanceEntity_def save_Account_def
      fun_eq_iff split: option.splits if_splits)

lemma view_getOrCreateDelegate:
  assumes "getOrCreateDelegate k s = (d, s')"
  shows "dg_nounsRepresented d = represented s k" "account_at s' = account_at s" "represented s' = represented s"
    "sNouns s' = sNouns s" "store_counts s' = store_counts s" "dg_id d = delegate_id s k" "delegate_id s' = delegate_id s"
proof -
  have none: "(represented s)(k := []) = represented s" "(delegate_id s)(k := k) = delegate_id s" if "sDelegates s k = None"
    using that by (auto simp: represented_def delegate_id_def fun_eq_iff)
  show "dg_nounsRepresented d = represented s k" "account_at s' = account_at s" "represented s' = represented s"
    "sNouns s' = sNouns s" "store_counts s' = store_counts s" "dg_id d = delegate_id s k" "delegate_id s' = delegate_id s"
    using assms none
    by (auto simp: getOrCreateDelegate_eq views counts_def new_Delegate_def represented_def[of s k] delegate_id_def[of s k]
        split: option.splits if_splits)
qed

section \<open>The effect of a transfer\<close>

definition holder_delta :: "int \<Rightarrow> int \<Rightarrow> int" where
  "holder_delta previous balance =
     (if balance = 0 \<and> 0 < previous then - 1 else if 0 < balance \<and> previous = 0 then 1 else 0)"

definition debit :: "string \<Rightarrow> Account \<Rightarrow> Account" where
  "debit n h =
     h\<lparr>acc_tokenBalanceRaw := acc_tokenBalanceRaw h - 1, acc_tokenBalance := acc_tokenBalanceRaw h - 1,
       acc_nouns := filter (\<lambda>m. m \<noteq> n) (acc_nouns h),
       acc_delegate := (if acc_tokenBalanceRaw h = 1 then None else acc_delegate h)\<rparr>"

lemma count_holder_facts:
  assumes "count_holder p b (g, s) = (g', s')" "store_counts s = counts g"
  shows "counts g' = (gv_currentTokenHolders g + holder_delta p b, gv_totalTokenHolders g)"
    "store_counts s' = counts g'" "account_at s' = account_at s" "represented s' = represented s" "sNouns s' = sNouns s"
    "delegate_id s' = delegate_id s"
  using assms by (auto simp: count_holder_def holder_delta_def Let_def views counts_def split: if_splits)

lemma debit_holder_facts:
  assumes "debit_holder n k h g s = (h', g', s')" "store_counts s = counts g"
  shows "h' = debit n h" "account_at s' = (account_at s)(k := debit n h)" "sNouns s' = sNouns s"
    "represented s' = (case acc_delegate h of None \<Rightarrow> represented s
       | Some d \<Rightarrow> (represented s)(d := filter (\<lambda>m. m \<noteq> n) (represented s d)))"
    "counts g' = (gv_currentTokenHolders g + holder_delta (acc_tokenBalanceRaw h) (acc_tokenBalanceRaw h - 1),
        gv_totalTokenHolders g)"
    "store_counts s' = counts g'" "delegate_id s' = delegate_id s"
proof -
  let ?p = "acc_tokenBalanceRaw h"
  let ?h1 = "h\<lparr>acc_tokenBalanceRaw := ?p - 1, acc_tokenBalance := ?p - 1,
    acc_nouns := filter (\<lambda>m. m \<noteq> n) (acc_nouns h)\<rparr>"
  define s1 where "s1 = (case acc_delegate h of None \<Rightarrow> s
    | Some d \<Rightarrow> (case getOrCreateDelegate d s of (dl, s') \<Rightarrow>
        save_Delegate d (dl\<lparr>dg_nounsRepresented := filter (\<lambda>m. m \<noteq> n) (dg_nounsRepresented dl)\<rparr>) s'))"
  define s2 where "s2 = (if ?p - 1 < 0
    then log_error (''Negative balance on holder '' @ acc_id h @ '' with balance '' @ int_to_dec (?p - 1)) s1 else s1)"
  obtain g3 s3 where c: "count_holder ?p (?p - 1) (g, s2) = (g3, s3)" by (cases "count_holder ?p (?p - 1) (g, s2)")
  have res: "h' = debit n h" "g' = g3" "s' = save_Account k (debit n h) s3"
    using assms(1) c
    by (auto simp: debit_holder_def Let_def debit_def s1_def s2_def split: option.splits if_splits)
  have v1: "account_at s1 = account_at s" "sNouns s1 = sNouns s" "store_counts s1 = store_counts s"
    "delegate_id s1 = delegate_id s"
    "represented s1 = (case acc_delegate h of None \<Rightarrow> represented s
       | Some d \<Rightarrow> (represented s)(d := filter (\<lambda>m. m \<noteq> n) (represented s d)))"
    by (auto simp: s1_def views view_getOrCreateDelegate split: option.split prod.split)
  then have v2: "account_at s2 = account_at s" "sNouns s2 = sNouns s" "store_counts s2 = store_counts s"
    "delegate_id s2 = delegate_id s"
    "represented s2 = (case acc_delegate h of None \<Rightarrow> represented s
       | Some d \<Rightarrow> (represented s)(d := filter (\<lambda>m. m \<noteq> n) (represented s d)))"
    by (simp_all add: s2_def views)
  note cf = count_holder_facts[OF c] 
  have sc: "store_counts s2 = counts g" using v2(3) assms(2) by simp
  show "h' = debit n h" by (fact res(1))
  show "account_at s' = (account_at s)(k := debit n h)" "sNouns s' = sNouns s"
    "represented s' = (case acc_delegate h of None \<Rightarrow> represented s
       | Some d \<Rightarrow> (represented s)(d := filter (\<lambda>m. m \<noteq> n) (represented s d)))"
    "counts g' = (gv_currentTokenHolders g + holder_delta ?p (?p - 1), gv_totalTokenHolders g)"
    "store_counts s' = counts g'" "delegate_id s' = delegate_id s"
    using res cf[OF sc] v2 by (simp_all add: views)
qed

text \<open>The credit as seen from the stored account: the copy was taken before the sender was debited.\<close>

definition moved_represented :: "string \<Rightarrow> string \<Rightarrow> Account \<Rightarrow> (string \<Rightarrow> string list) \<Rightarrow> string \<Rightarrow> string list" where
  "moved_represented n from h R =
     (if from = ZERO_ADDRESS then R
      else case acc_delegate h of None \<Rightarrow> R | Some d \<Rightarrow> R(d := filter (\<lambda>m. m \<noteq> n) (R d)))"

lemma handleTransfer_facts:
  fixes ev :: Transfer and s :: Store and meta :: Meta
  defines "n \<equiv> int_to_dec (tr_tokenId ev)" and "A \<equiv> account_at s" and "R \<equiv> represented s"
  defines "h \<equiv> A (tr_from ev)" and "t \<equiv> A (tr_to ev)"
  defines "s' \<equiv> handleTransfer meta ev s"
  shows "account_at s' = (if tr_from ev = ZERO_ADDRESS then A else A(tr_from ev := debit n h))
      (tr_to ev := credit_holder n t)"
    "\<exists>x. sNouns s' = (sNouns s)(n \<mapsto> x) \<and> noun_owner x = acc_id t"
    "represented s' = (let R1 = moved_represented n (tr_from ev) h R
       in R1(delegate_or_self t := R1 (delegate_or_self t) @ [n]))"
    "store_counts s' =
      (gv_currentTokenHolders (getGovernanceEntity s)
         + (if tr_from ev = ZERO_ADDRESS then 0 else holder_delta (acc_tokenBalanceRaw h) (acc_tokenBalanceRaw h - 1))
         + holder_delta (acc_tokenBalanceRaw t) (acc_tokenBalanceRaw t + 1),
       gv_totalTokenHolders (getGovernanceEntity s)
         + (if tr_from ev = ZERO_ADDRESS then 1 else 0) - (if tr_to ev = ZERO_ADDRESS then 1 else 0))"
    "delegate_id s' = delegate_id s"
proof -
  obtain a1 s1 where 1: "getOrCreateAccount (tr_from ev) s = (a1, s1)" by (cases "getOrCreateAccount (tr_from ev) s")
  obtain a2 s2 where 2: "getOrCreateAccount (tr_to ev) s1 = (a2, s2)" by (cases "getOrCreateAccount (tr_to ev) s1")
  note v1 = view_getOrCreateAccount[OF 1] and v2 = view_getOrCreateAccount[OF 2]
  have a: "a1 = h" "a2 = t" using v1 v2 by (simp_all add: h_def t_def A_def)
  define g where "g = getGovernanceEntity s"
  have g: "getGovernanceEntity s2 = g" using v1 v2 by (simp add: g_def)
  define s3 where "s3 = save_TransferEvent (tx_hash meta @ ''_'' @ n)
     \<lparr>te_id = tx_hash meta @ ''_'' @ n, te_noun = n, te_previousHolder = acc_id h, te_newHolder = acc_id t,
      te_blockNumber = block_number meta, te_blockTimestamp = block_timestamp meta\<rparr> s2"
  have v3: "account_at s3 = A" "represented s3 = R" "sNouns s3 = sNouns s" "getGovernanceEntity s3 = g"
    "delegate_id s3 = delegate_id s"
    using v1 v2 g by (simp_all add: s3_def views A_def R_def)
  define gt where "gt = g\<lparr>gv_totalTokenHolders := gv_totalTokenHolders g + 1\<rparr>"
  obtain h' g1 s4 where 4: "(if tr_from ev = ZERO_ADDRESS then (h, gt, save_Governance gt s3)
      else debit_holder n (tr_from ev) h g s3) = (h', g1, s4)"
    by (metis prod.exhaust)
  have sc3: "store_counts s3 = counts g" using v3 by simp
  have v4: "account_at s4 = (if tr_from ev = ZERO_ADDRESS then A else A(tr_from ev := debit n h))"
      "represented s4 = moved_represented n (tr_from ev) h R" "sNouns s4 = sNouns s"
      "counts g1 = (gv_currentTokenHolders g + (if tr_from ev = ZERO_ADDRESS then 0
           else holder_delta (acc_tokenBalanceRaw h) (acc_tokenBalanceRaw h - 1)),
         gv_totalTokenHolders g + (if tr_from ev = ZERO_ADDRESS then 1 else 0))"
      "store_counts s4 = counts g1" "delegate_id s4 = delegate_id s"
  proof -
    have "tr_from ev \<noteq> ZERO_ADDRESS \<Longrightarrow> debit_holder n (tr_from ev) h g s3 = (h', g1, s4)" using 4 by simp
    note d = debit_holder_facts[OF this sc3]
    show "account_at s4 = (if tr_from ev = ZERO_ADDRESS then A else A(tr_from ev := debit n h))"
      using 4 d(2) v3 by (auto simp: views split: if_splits)
    show "represented s4 = moved_represented n (tr_from ev) h R"
      using 4 d(4) v3 by (auto simp: views moved_represented_def split: if_splits)
    show "sNouns s4 = sNouns s" using 4 d(3) v3 by (auto simp: views split: if_splits)
    show "counts g1 = (gv_currentTokenHolders g + (if tr_from ev = ZERO_ADDRESS then 0
           else holder_delta (acc_tokenBalanceRaw h) (acc_tokenBalanceRaw h - 1)),
         gv_totalTokenHolders g + (if tr_from ev = ZERO_ADDRESS then 1 else 0))"
      using 4 d(5) by (auto simp: counts_def gt_def split: if_splits)
    show "store_counts s4 = counts g1" using 4 d(6) by (auto simp: views split: if_splits)
    show "delegate_id s4 = delegate_id s" using 4 d(7) v3 by (auto simp: views split: if_splits)
  qed
  define g2 where "g2 = (if tr_to ev = ZERO_ADDRESS
    then g1\<lparr>gv_totalTokenHolders := gv_totalTokenHolders g1 - 1\<rparr> else g1)"
  define s5 where "s5 = (if tr_to ev = ZERO_ADDRESS then save_Governance g2 s4 else s4)"
  have v5: "account_at s5 = account_at s4" "represented s5 = represented s4" "sNouns s5 = sNouns s4"
      "counts g2 = (gv_currentTokenHolders g1, gv_totalTokenHolders g1 - (if tr_to ev = ZERO_ADDRESS then 1 else 0))"
      "store_counts s5 = counts g2" "delegate_id s5 = delegate_id s"
    using v4(5,6) by (simp_all add: s5_def g2_def views counts_def)
  define s6 where "s6 = save_DelegationEvent (tx_hash meta @ ''_'' @ n)
     \<lparr>de_id = tx_hash meta @ ''_'' @ n, de_noun = n, de_previousDelegate = delegate_or_self h',
      de_newDelegate = delegate_or_self t, de_blockNumber = block_number meta,
      de_blockTimestamp = block_timestamp meta\<rparr> s5"
  obtain d s7 where 7: "getOrCreateDelegate (delegate_or_self t) s6 = (d, s7)"
    by (cases "getOrCreateDelegate (delegate_or_self t) s6")
  note v7 = view_getOrCreateDelegate[OF 7]
  define s8 where "s8 = save_Delegate (delegate_or_self t)
    (d\<lparr>dg_nounsRepresented := dg_nounsRepresented d @ [n]\<rparr>) s7"
  have v8: "account_at s8 = account_at s4" "sNouns s8 = sNouns s" "store_counts s8 = counts g2" "delegate_id s8 = delegate_id s"
    "represented s8 = (represented s4)(delegate_or_self t := represented s4 (delegate_or_self t) @ [n])"
    using v7 v5 v4(3) by (simp_all add: s8_def s6_def views)
  have raw: "acc_tokenBalanceRaw (credit_holder n t) = acc_tokenBalanceRaw t + 1" "acc_id (credit_holder n t) = acc_id t"
    by (simp_all add: credit_holder_def Let_def)
  obtain g3 s9 where 9: "count_holder (acc_tokenBalanceRaw t) (acc_tokenBalanceRaw (credit_holder n t)) (g2, s8) = (g3, s9)"
    by (cases "count_holder (acc_tokenBalanceRaw t) (acc_tokenBalanceRaw (credit_holder n t)) (g2, s8)")
  note v9 = count_holder_facts[OF 9 v8(3)]
  have res: "s' = save_Account (tr_to ev) (credit_holder n t) (save_Noun n
     (case sNouns s9 n of None \<Rightarrow> \<lparr>noun_id = n, noun_seed = None, noun_owner = acc_id t\<rparr>
      | Some x \<Rightarrow> x\<lparr>noun_owner := acc_id t\<rparr>) s9)"
    unfolding s'_def handleTransfer_def Let_def n_def[symmetric] 1 2 prod.case a g
      s3_def[symmetric] gt_def[symmetric] 4 raw(2)
    using 7 9 unfolding s6_def s5_def g2_def s8_def raw
    by (auto simp: raw split: if_splits option.splits)
  show "account_at s' = (if tr_from ev = ZERO_ADDRESS then A else A(tr_from ev := debit n h))
      (tr_to ev := credit_holder n t)"
    using res v9 v8 v4(1) by (simp add: views)
  show "\<exists>x. sNouns s' = (sNouns s)(n \<mapsto> x) \<and> noun_owner x = acc_id t"
    using res v9 v8 by (auto simp: views split: option.split)
  show "represented s' = (let R1 = moved_represented n (tr_from ev) h R
       in R1(delegate_or_self t := R1 (delegate_or_self t) @ [n]))"
    using res v9 v8 v4(2) by (simp add: views Let_def)
  show "delegate_id s' = delegate_id s" using res v9 v8 by (simp add: views)
  show "store_counts s' =
      (gv_currentTokenHolders (getGovernanceEntity s)
         + (if tr_from ev = ZERO_ADDRESS then 0 else holder_delta (acc_tokenBalanceRaw h) (acc_tokenBalanceRaw h - 1))
         + holder_delta (acc_tokenBalanceRaw t) (acc_tokenBalanceRaw t + 1),
       gv_totalTokenHolders (getGovernanceEntity s)
         + (if tr_from ev = ZERO_ADDRESS then 1 else 0) - (if tr_to ev = ZERO_ADDRESS then 1 else 0))"
    using res v9 v5(4) v4(4) by (simp add: views raw counts_def g_def)
qed

section \<open>The effect of the other token handlers\<close>

lemma view_save_delegation_events:
  "account_at (save_delegation_events meta p q ns s) = account_at s"
  "represented (save_delegation_events meta p q ns s) = represented s"
  "sNouns (save_delegation_events meta p q ns s) = sNouns s"
  "getGovernanceEntity (save_delegation_events meta p q ns s) = getGovernanceEntity s"
  "delegate_id (save_delegation_events meta p q ns s) = delegate_id s"
  by (induction meta p q ns s rule: save_delegation_events.induct) (simp_all add: views)

lemma handleDelegateChanged_facts:
  fixes ev :: DelegateChanged and s :: Store and meta :: Meta
  defines "h \<equiv> account_at s (dc_delegator ev)" and "R \<equiv> represented s"
  defines "s' \<equiv> handleDelegateChanged meta ev s"
  shows "account_at s' = (account_at s)(dc_delegator ev := h\<lparr>acc_delegate := Some (delegate_id s (dc_toDelegate ev))\<rparr>)"
    "represented s' = R(dc_fromDelegate ev := filter (\<lambda>n. n \<notin> set (acc_nouns h)) (R (dc_fromDelegate ev)),
        dc_toDelegate ev := R (dc_toDelegate ev) @ acc_nouns h)"
    "sNouns s' = sNouns s" "store_counts s' = store_counts s" "delegate_id s' = delegate_id s"
proof -
  obtain a s1 where 1: "getOrCreateAccount (dc_delegator ev) s = (a, s1)"
    by (cases "getOrCreateAccount (dc_delegator ev) s")
  obtain p s2 where 2: "getOrCreateDelegate (dc_fromDelegate ev) s1 = (p, s2)"
    by (cases "getOrCreateDelegate (dc_fromDelegate ev) s1")
  obtain q s3 where 3: "getOrCreateDelegate (dc_toDelegate ev) s2 = (q, s3)"
    by (cases "getOrCreateDelegate (dc_toDelegate ev) s2")
  note v = view_getOrCreateAccount[OF 1] view_getOrCreateDelegate[OF 2] view_getOrCreateDelegate[OF 3]
  show "account_at s' = (account_at s)(dc_delegator ev := h\<lparr>acc_delegate := Some (delegate_id s (dc_toDelegate ev))\<rparr>)"
    "represented s' = R(dc_fromDelegate ev := filter (\<lambda>n. n \<notin> set (acc_nouns h)) (R (dc_fromDelegate ev)),
        dc_toDelegate ev := R (dc_toDelegate ev) @ acc_nouns h)"
    "sNouns s' = sNouns s" "store_counts s' = store_counts s" "delegate_id s' = delegate_id s"
    unfolding s'_def R_def h_def handleDelegateChanged_def Let_def 1 2 3 prod.case
    using v by (simp_all add: view_save_delegation_events views counts_def)
qed

lemma handleDelegateVotesChanged_facts:
  fixes ev :: DelegateVotesChanged and s :: Store
  defines "s' \<equiv> handleDelegateVotesChanged ev s"
  shows "account_at s' = account_at s" "represented s' = represented s" "sNouns s' = sNouns s"
    "store_counts s' = store_counts s" "delegate_id s' = delegate_id s"
proof -
  obtain d s1 where 1: "getOrCreateDelegate (dv_delegate ev) s = (d, s1)"
    by (cases "getOrCreateDelegate (dv_delegate ev) s")
  note v = view_getOrCreateDelegate[OF 1]
  show "account_at s' = account_at s" "represented s' = represented s" "sNouns s' = sNouns s"
    "store_counts s' = store_counts s" "delegate_id s' = delegate_id s"
    unfolding s'_def handleDelegateVotesChanged_def Let_def 1 prod.case
    using v by (simp_all add: views counts_def)
qed

lemma handleNounCreated_facts:
  fixes ev :: NounCreated and s :: Store and meta :: Meta
  defines "s' \<equiv> handleNounCreated meta ev s"
  shows "account_at s' = account_at s" "represented s' = represented s"
    "map_option noun_owner (sNouns s' n) = map_option noun_owner (sNouns s n)"
    "store_counts s' = store_counts s" "delegate_id s' = delegate_id s"
  unfolding s'_def handleNounCreated_def Let_def
  by (auto simp: account_at_def represented_def delegate_id_def getGovernanceEntity_def save_defs counts_def
      split: option.split)

section \<open>The ledger\<close>

text \<open>The store follows the ledger \<open>own\<close> of an ERC-721 contract, which maps each minted Noun to its
  owner (the zero address after a burn).\<close>

definition follows_ledger :: "Store \<Rightarrow> (string \<rightharpoonup> string) \<Rightarrow> bool" where
  "follows_ledger s own \<longleftrightarrow>
     finite (dom own)
     \<and> (\<forall>n. map_option noun_owner (sNouns s n) = own n)
     \<and> (\<forall>a. acc_id (account_at s a) = a
          \<and> distinct (acc_nouns (account_at s a)) \<and> set (acc_nouns (account_at s a)) = {n. own n = Some a}
          \<and> acc_tokenBalanceRaw (account_at s a) = int (length (acc_nouns (account_at s a))))
     \<and> store_counts s = (int (card (ran own)), int (card {n. \<exists>a. own n = Some a \<and> a \<noteq> ZERO_ADDRESS}))"

text \<open>Holders have a delegate, others have none, and a delegate represents the Nouns of its holders.\<close>

definition delegation_wf :: "Store \<Rightarrow> (string \<rightharpoonup> string) \<Rightarrow> bool" where
  "delegation_wf s own \<longleftrightarrow>
     (\<forall>d. delegate_id s d = d)
     \<and> (\<forall>a. acc_delegate (account_at s a) = None \<longleftrightarrow> acc_nouns (account_at s a) = [])
     \<and> (\<forall>a. acc_delegate (account_at s a) \<noteq> Some '''')
     \<and> (\<forall>d. distinct (represented s d)
          \<and> set (represented s d) = {n. \<exists>a. own n = Some a \<and> acc_delegate (account_at s a) = Some d})"

text \<open>The transfers that a contract emits: mints of new Nouns, and moves by the owner to another address.\<close>

definition valid_transfer :: "(string \<rightharpoonup> string) \<Rightarrow> Transfer \<Rightarrow> bool" where
  "valid_transfer own ev \<longleftrightarrow> tr_from ev \<noteq> tr_to ev \<and> tr_to ev \<noteq> ''''
     \<and> (if tr_from ev = ZERO_ADDRESS then own (int_to_dec (tr_tokenId ev)) = None
        else own (int_to_dec (tr_tokenId ev)) = Some (tr_from ev))"

definition ledger_transfer :: "Transfer \<Rightarrow> (string \<rightharpoonup> string) \<Rightarrow> (string \<rightharpoonup> string)" where
  "ledger_transfer ev own = own(int_to_dec (tr_tokenId ev) \<mapsto> tr_to ev)"

lemma follows_ledger_D:
  assumes "follows_ledger s own"
  shows "finite (dom own)" "map_option noun_owner (sNouns s n) = own n" "acc_id (account_at s a) = a"
    "distinct (acc_nouns (account_at s a))" "set (acc_nouns (account_at s a)) = {n. own n = Some a}"
    "acc_tokenBalanceRaw (account_at s a) = int (length (acc_nouns (account_at s a)))"
    "store_counts s = (int (card (ran own)), int (card {n. \<exists>a. own n = Some a \<and> a \<noteq> ZERO_ADDRESS}))"
  using assms by (auto simp: follows_ledger_def)

lemma follows_ledger_balance:
  "follows_ledger s own \<Longrightarrow> acc_tokenBalanceRaw (account_at s a) = int (card {n. own n = Some a})"
  using follows_ledger_D(4,5,6)[of s own a] distinct_card[of "acc_nouns (account_at s a)"] by simp

lemma filter_neq_length: "distinct xs \<Longrightarrow> n \<in> set xs \<Longrightarrow> length (filter (\<lambda>m. m \<noteq> n) xs) = length xs - 1"
proof (induction xs)
  case (Cons x xs)
  have same: "n \<notin> set xs \<Longrightarrow> filter (\<lambda>m. m \<noteq> n) xs = xs" by (simp add: filter_id_conv) blast
  show ?case
  proof (cases "x = n")
    case True
    then show ?thesis using Cons.prems same by simp
  next
    case False
    then have "n \<in> set xs" using Cons.prems by simp
    then have "0 < length xs" by (cases xs) simp_all
    then show ?thesis using Cons False \<open>n \<in> set xs\<close> by simp
  qed
qed simp

lemma card_ran_move:
  assumes "finite (dom own)" "own n = Some a" "a \<noteq> b"
  shows "int (card (ran (own(n \<mapsto> b)))) =
    int (card (ran own)) + (if {m. own m = Some a} = {n} then - 1 else 0) + (if {m. own m = Some b} = {} then 1 else 0)"
proof -
  have fin: "finite (ran own)" using assms(1) by (rule finite_ran)
  have a: "a \<in> ran own" using assms(2) by (rule ranI)
  have b: "b \<in> ran own \<longleftrightarrow> {m. own m = Some b} \<noteq> {}" by (auto simp: ran_def)
  have upd: "x \<in> ran (own(n \<mapsto> b)) \<longleftrightarrow> x = b \<or> (\<exists>m. m \<noteq> n \<and> own m = Some x)" for x
    by (auto simp: ran_def)
  have only: "(\<exists>m. m \<noteq> n \<and> own m = Some x) \<longleftrightarrow> x \<in> ran own \<and> \<not> (x = a \<and> {m. own m = Some a} = {n})" for x
  proof (cases "x = a")
    case True
    have "(\<exists>m. m \<noteq> n \<and> own m = Some a) \<longleftrightarrow> {m. own m = Some a} \<noteq> {n}" using assms(2) by blast
    then show ?thesis using True a by simp
  next
    case False
    then show ?thesis using assms(2) unfolding ran_def by (simp, metis option.inject)
  qed
  have eq: "ran (own(n \<mapsto> b)) = insert b (if {m. own m = Some a} = {n} then ran own - {a} else ran own)"
    using upd only by (auto split: if_splits)
  have pos: "0 < card (ran own)" using fin a card_gt_0_iff by blast
  show ?thesis
  proof (cases "{m. own m = Some a} = {n}")
    case True
    then have "ran (own(n \<mapsto> b)) = insert b (ran own - {a})" using eq by simp
    then show ?thesis using fin a b assms(3) True pos by (simp add: card_insert_if of_nat_diff)
  next
    case False
    then have "ran (own(n \<mapsto> b)) = insert b (ran own)" using eq by simp
    then show ?thesis using fin b False by (simp add: card_insert_if)
  qed
qed

lemma card_ran_new:
  assumes "finite (dom own)" "own n = None"
  shows "int (card (ran (own(n \<mapsto> b)))) = int (card (ran own)) + (if {m. own m = Some b} = {} then 1 else 0)"
proof -
  have fin: "finite (ran own)" using assms(1) by (rule finite_ran)
  have b: "b \<in> ran own \<longleftrightarrow> {m. own m = Some b} \<noteq> {}" by (auto simp: ran_def)
  have "ran (own(n \<mapsto> b)) = insert b (ran own)" using assms(2) by (simp add: ran_map_upd)
  then show ?thesis using fin b by (simp add: card_insert_if)
qed

lemma credit_holder_fields:
  assumes "0 \<le> acc_tokenBalanceRaw t"
  shows "acc_id (credit_holder n t) = acc_id t" "acc_nouns (credit_holder n t) = acc_nouns t @ [n]"
    "acc_tokenBalanceRaw (credit_holder n t) = acc_tokenBalanceRaw t + 1"
    "acc_delegate (credit_holder n t) = (if acc_tokenBalanceRaw t = 0 then Some (acc_id t) else acc_delegate t)"
  using assms by (simp_all add: credit_holder_def Let_def)

lemma debit_fields:
  "acc_id (debit n h) = acc_id h" "acc_nouns (debit n h) = filter (\<lambda>m. m \<noteq> n) (acc_nouns h)"
  "acc_tokenBalanceRaw (debit n h) = acc_tokenBalanceRaw h - 1"
  "acc_delegate (debit n h) = (if acc_tokenBalanceRaw h = 1 then None else acc_delegate h)"
  by (simp_all add: debit_def)

text \<open>The accounts after a valid transfer.\<close>

lemma transfer_accounts:
  fixes ev :: Transfer and meta :: Meta
  assumes fl: "follows_ledger s own" and valid: "valid_transfer own ev"
  defines "n \<equiv> int_to_dec (tr_tokenId ev)" and "own' \<equiv> ledger_transfer ev own"
  defines "s' \<equiv> handleTransfer meta ev s"
  shows "acc_id (account_at s' a) = a" "distinct (acc_nouns (account_at s' a))"
    "set (acc_nouns (account_at s' a)) = {m. own' m = Some a}"
    "acc_tokenBalanceRaw (account_at s' a) = int (length (acc_nouns (account_at s' a)))"
proof -
  let ?from = "tr_from ev" and ?to = "tr_to ev"
  note D = follows_ledger_D[OF fl]
  have ft: "?from \<noteq> ?to" using valid by (simp add: valid_transfer_def)
  have own': "own' = own(n \<mapsto> ?to)" by (simp add: own'_def ledger_transfer_def n_def)
  have notto: "own n \<noteq> Some ?to" using valid ft by (auto simp: valid_transfer_def n_def split: if_splits)
  note tr = handleTransfer_facts(1)[where ev = ev and s = s and meta = meta, folded s'_def n_def]
  have bal: "0 \<le> acc_tokenBalanceRaw (account_at s ?to)" using D(6)[of ?to] by simp
  have "acc_id (account_at s' a) = a \<and> distinct (acc_nouns (account_at s' a))
    \<and> set (acc_nouns (account_at s' a)) = {m. own' m = Some a}
    \<and> acc_tokenBalanceRaw (account_at s' a) = int (length (acc_nouns (account_at s' a)))"
  proof (cases "a = ?to")
    case True
    then have "account_at s' a = credit_holder n (account_at s ?to)" using tr by simp
    moreover have "{m. own' m = Some ?to} = insert n {m. own m = Some ?to}" by (auto simp: own')
    ultimately show ?thesis
      using True credit_holder_fields[OF bal, of n] D(3-6)[of ?to] notto by simp
  next
    case False
    show ?thesis
    proof (cases "a = ?from \<and> ?from \<noteq> ZERO_ADDRESS")
      case True
      then have acc: "account_at s' a = debit n (account_at s ?from)" using tr ft by simp
      have n: "own n = Some ?from" using valid True by (simp add: valid_transfer_def n_def)
      then have inn: "n \<in> set (acc_nouns (account_at s ?from))" using D(5)[of ?from] by simp
      have "{m. own' m = Some ?from} = {m. own m = Some ?from} - {n}" using ft by (auto simp: own')
      moreover have "int (length (acc_nouns (account_at s ?from)) - 1) = int (length (acc_nouns (account_at s ?from))) - 1"
        using inn by (cases "acc_nouns (account_at s ?from)") simp_all
      ultimately show ?thesis
        using True acc D(3-6)[of ?from] filter_neq_length[OF D(4) inn] by (auto simp: debit_fields)
    next
      case other: False
      then have "account_at s' a = account_at s a" using tr False by auto
      moreover have "own n \<noteq> Some a"
        using valid other by (auto simp: valid_transfer_def n_def split: if_splits)
      then have "{m. own' m = Some a} = {m. own m = Some a}" using False by (auto simp: own')
      ultimately show ?thesis using D(3-6)[of a] by simp
    qed
  qed
  then show "acc_id (account_at s' a) = a" "distinct (acc_nouns (account_at s' a))"
    "set (acc_nouns (account_at s' a)) = {m. own' m = Some a}"
    "acc_tokenBalanceRaw (account_at s' a) = int (length (acc_nouns (account_at s' a)))"
    by blast+
qed

lemma finite_supply: "finite (dom own) \<Longrightarrow> finite {n. \<exists>a. own n = Some a \<and> P a}"
  by (rule finite_subset[of _ "dom own"]) auto

lemma transfer_supply:
  assumes "valid_transfer own ev" "finite (dom own)"
  shows "int (card {n. \<exists>a. ledger_transfer ev own n = Some a \<and> a \<noteq> ZERO_ADDRESS}) =
    int (card {n. \<exists>a. own n = Some a \<and> a \<noteq> ZERO_ADDRESS})
      + (if tr_from ev = ZERO_ADDRESS then 1 else 0) - (if tr_to ev = ZERO_ADDRESS then 1 else 0)"
proof -
  let ?n = "int_to_dec (tr_tokenId ev)" and ?S = "{n. \<exists>a. own n = Some a \<and> a \<noteq> ZERO_ADDRESS}"
  have fin: "finite ?S" using assms(2) by (rule finite_supply)
  have new: "{n. \<exists>a. ledger_transfer ev own n = Some a \<and> a \<noteq> ZERO_ADDRESS} =
      (if tr_to ev = ZERO_ADDRESS then ?S - {?n} else insert ?n ?S)"
    by (auto simp: ledger_transfer_def)
  have mem: "?n \<in> ?S \<longleftrightarrow> tr_from ev \<noteq> ZERO_ADDRESS"
    using assms(1) by (auto simp: valid_transfer_def split: if_splits)
  show ?thesis
  proof (cases "tr_to ev = ZERO_ADDRESS")
    case True
    then have "tr_from ev \<noteq> ZERO_ADDRESS" using assms(1) by (auto simp: valid_transfer_def)
    then have "?n \<in> ?S" using mem by simp
    moreover have "0 < card ?S" using \<open>?n \<in> ?S\<close> fin card_gt_0_iff by blast
    ultimately show ?thesis using new True \<open>tr_from ev \<noteq> ZERO_ADDRESS\<close> fin
      by (simp add: card_Diff_singleton of_nat_diff)
  next
    case False
    then show ?thesis using new mem fin by (cases "tr_from ev = ZERO_ADDRESS") (simp_all add: card_insert_if insert_absorb)
  qed
qed

lemma holder_delta_card:
  assumes "finite S" "n \<in> S"
  shows "holder_delta (int (card S)) (int (card S) - 1) = (if S = {n} then - 1 else 0)"
proof -
  have "0 < card S" using assms card_gt_0_iff by blast
  moreover have "card S = 1 \<longleftrightarrow> S = {n}" using assms by (metis card_1_singletonE is_singletonI' card.empty card_insert_disjoint empty_iff finite.emptyI One_nat_def singletonD)
  ultimately show ?thesis by (auto simp: holder_delta_def)
qed

lemma holder_delta_card_up:
  "finite S \<Longrightarrow> holder_delta (int (card S)) (int (card S) + 1) = (if S = {} then 1 else 0)"
  by (auto simp: holder_delta_def)

lemma transfer_follows:
  assumes fl: "follows_ledger s own" and valid: "valid_transfer own ev"
  shows "follows_ledger (handleTransfer meta ev s) (ledger_transfer ev own)"
proof -
  let ?n = "int_to_dec (tr_tokenId ev)" and ?from = "tr_from ev" and ?to = "tr_to ev"
  let ?s' = "handleTransfer meta ev s" and ?own' = "ledger_transfer ev own"
  note D = follows_ledger_D[OF fl] and bal = follows_ledger_balance[OF fl]
  have own': "?own' = own(?n \<mapsto> ?to)" by (simp add: ledger_transfer_def)
  have ft: "?from \<noteq> ?to" using valid by (simp add: valid_transfer_def)
  have fin: "finite {m. own m = Some a}" for a
    using finite_supply[OF D(1), of "\<lambda>x. x = a"] by simp
  have nouns: "map_option noun_owner (sNouns ?s' m) = ?own' m" for m
  proof -
    obtain x where x: "sNouns ?s' = (sNouns s)(?n \<mapsto> x)" "noun_owner x = acc_id (account_at s ?to)"
      using handleTransfer_facts(2)[where meta = meta and ev = ev and s = s] by blast
    show ?thesis unfolding x(1) own' using x(2) D(2)[of m] D(3)[of ?to] by simp
  qed
  have d1: "holder_delta (acc_tokenBalanceRaw (account_at s ?to)) (acc_tokenBalanceRaw (account_at s ?to) + 1)
      = (if {m. own m = Some ?to} = {} then 1 else 0)"
    unfolding bal[of ?to] by (rule holder_delta_card_up[OF fin])
  have g: "gv_currentTokenHolders (getGovernanceEntity s) = int (card (ran own))"
    "gv_totalTokenHolders (getGovernanceEntity s) = int (card {n. \<exists>a. own n = Some a \<and> a \<noteq> ZERO_ADDRESS})"
    using D(7) by (simp_all add: counts_def)
  note step = handleTransfer_facts(4)[where meta = meta and ev = ev and s = s, unfolded d1 g]
  have "store_counts ?s' = (int (card (ran ?own')), int (card {n. \<exists>a. ?own' n = Some a \<and> a \<noteq> ZERO_ADDRESS}))"
  proof (cases "?from = ZERO_ADDRESS")
    case True
    then have "own ?n = None" using valid by (simp add: valid_transfer_def)
    note r = card_ran_new[OF D(1) this, of ?to, folded own']
    show ?thesis unfolding step transfer_supply[OF valid D(1)] r using True by simp
  next
    case False
    then have n: "own ?n = Some ?from" using valid by (simp add: valid_transfer_def)
    then have inn: "?n \<in> {m. own m = Some ?from}" by simp
    have d2: "holder_delta (acc_tokenBalanceRaw (account_at s ?from)) (acc_tokenBalanceRaw (account_at s ?from) - 1)
        = (if {m. own m = Some ?from} = {?n} then - 1 else 0)"
      unfolding bal[of ?from] by (rule holder_delta_card[OF fin inn])
    note r = card_ran_move[OF D(1) n ft, folded own']
    show ?thesis unfolding step transfer_supply[OF valid D(1)] r d2 using False by simp
  qed
  moreover have "finite (dom ?own')" using D(1) by (simp add: own')
  ultimately show ?thesis
    unfolding follows_ledger_def
    by (intro conjI allI nouns transfer_accounts[OF fl valid])
qed

lemma delegation_wf_D:
  assumes "delegation_wf s own"
  shows "delegate_id s d = d" "acc_delegate (account_at s a) = None \<longleftrightarrow> acc_nouns (account_at s a) = []"
    "acc_delegate (account_at s a) \<noteq> Some ''''" "distinct (represented s d)"
    "set (represented s d) = {n. \<exists>a. own n = Some a \<and> acc_delegate (account_at s a) = Some d}"
  using assms by (auto simp: delegation_wf_def)

lemma moved_represented_wf:
  assumes fl: "follows_ledger s own" and wf: "delegation_wf s own" and valid: "valid_transfer own ev"
  defines "n \<equiv> int_to_dec (tr_tokenId ev)"
  defines "R1 \<equiv> moved_represented n (tr_from ev) (account_at s (tr_from ev)) (represented s)"
  shows "distinct (R1 d)"
    "set (R1 d) = {m. m \<noteq> n \<and> (\<exists>a. own m = Some a \<and> acc_delegate (account_at s a) = Some d)}"
proof -
  note D = delegation_wf_D[OF wf]
  have "distinct (R1 d) \<and> set (R1 d) = {m. m \<noteq> n \<and> (\<exists>a. own m = Some a \<and> acc_delegate (account_at s a) = Some d)}"
  proof (cases "tr_from ev = ZERO_ADDRESS")
    case True
    then have "own n = None" using valid by (simp add: valid_transfer_def n_def)
    moreover have "R1 = represented s" using True by (simp add: R1_def moved_represented_def)
    ultimately show ?thesis using D(4,5)[of d] by auto
  next
    case False
    then have n: "own n = Some (tr_from ev)" using valid by (simp add: valid_transfer_def n_def)
    then have "acc_nouns (account_at s (tr_from ev)) \<noteq> []"
      using follows_ledger_D(5)[OF fl, of "tr_from ev"] by auto
    then obtain dh where dh: "acc_delegate (account_at s (tr_from ev)) = Some dh"
      using D(2)[of "tr_from ev"] by auto
    have R1: "R1 = (represented s)(dh := filter (\<lambda>m. m \<noteq> n) (represented s dh))"
      using False dh by (simp add: R1_def moved_represented_def)
    show ?thesis
    proof (cases "d = dh")
      case True
      then show ?thesis using R1 D(4,5)[of d] by auto
    next
      case other: False
      have "n \<notin> set (represented s d)" using D(5)[of d] n dh other by auto
      moreover have "R1 d = represented s d" using R1 other by simp
      ultimately show ?thesis using D(4,5)[of d] by auto
    qed
  qed
  then show "distinct (R1 d)"
    "set (R1 d) = {m. m \<noteq> n \<and> (\<exists>a. own m = Some a \<and> acc_delegate (account_at s a) = Some d)}" by blast+
qed

lemma transfer_delegates:
  fixes ev :: Transfer and meta :: Meta
  assumes fl: "follows_ledger s own" and wf: "delegation_wf s own" and valid: "valid_transfer own ev"
  defines "n \<equiv> int_to_dec (tr_tokenId ev)"
  defines "dt \<equiv> delegate_or_self (account_at s (tr_to ev))"
  shows "acc_delegate (account_at (handleTransfer meta ev s) a) =
    (if a = tr_to ev then Some dt
     else if a = tr_from ev \<and> a \<noteq> ZERO_ADDRESS \<and> {m. own m = Some a} = {n} then None
     else acc_delegate (account_at s a))"
    "dt \<noteq> ''''" "acc_nouns (account_at s (tr_to ev)) \<noteq> [] \<Longrightarrow> acc_delegate (account_at s (tr_to ev)) = Some dt"
proof -
  let ?from = "tr_from ev" and ?to = "tr_to ev"
  note F = follows_ledger_D[OF fl] and D = delegation_wf_D[OF wf]
  have to: "?to \<noteq> ''''" "?from \<noteq> ?to" using valid by (auto simp: valid_transfer_def)
  have bal: "0 \<le> acc_tokenBalanceRaw (account_at s ?to)" using F(6)[of ?to] by simp
  show dt: "dt \<noteq> ''''" using to(1) F(3)[of ?to] by (auto simp: dt_def delegate_or_self_def split: option.split)
  show held: "acc_nouns (account_at s ?to) \<noteq> [] \<Longrightarrow> acc_delegate (account_at s ?to) = Some dt"
    using D(2,3)[of ?to] by (auto simp: dt_def delegate_or_self_def split: option.split)
  have credit: "acc_delegate (credit_holder n (account_at s ?to)) = Some dt"
  proof (cases "acc_nouns (account_at s ?to) = []")
    case True
    then have "acc_tokenBalanceRaw (account_at s ?to) = 0" "acc_delegate (account_at s ?to) = None"
      using F(6)[of ?to] D(2)[of ?to] by simp_all
    then show ?thesis using credit_holder_fields(4)[OF bal, of n] by (simp add: dt_def delegate_or_self_def)
  next
    case False
    then have "acc_tokenBalanceRaw (account_at s ?to) \<noteq> 0" using F(6)[of ?to] by simp
    then show ?thesis using credit_holder_fields(4)[OF bal, of n] held[OF False] by simp
  qed
  have debit: "acc_delegate (debit n (account_at s ?from)) =
      (if {m. own m = Some ?from} = {n} then None else acc_delegate (account_at s ?from))" if "?from \<noteq> ZERO_ADDRESS"
  proof -
    have inn: "n \<in> {m. own m = Some ?from}" using valid that by (simp add: valid_transfer_def n_def)
    have "finite {m. own m = Some ?from}" using finite_supply[OF F(1), of "\<lambda>x. x = ?from"] by simp
    then have "holder_delta (int (card {m. own m = Some ?from})) (int (card {m. own m = Some ?from}) - 1)
        = (if {m. own m = Some ?from} = {n} then - 1 else 0)" using inn by (rule holder_delta_card)
    then have "acc_tokenBalanceRaw (account_at s ?from) = 1 \<longleftrightarrow> {m. own m = Some ?from} = {n}"
      using follows_ledger_balance[OF fl, of ?from] by (auto simp: holder_delta_def split: if_splits)
    then show ?thesis by (simp add: debit_fields)
  qed
  show "acc_delegate (account_at (handleTransfer meta ev s) a) =
    (if a = ?to then Some dt
     else if a = ?from \<and> a \<noteq> ZERO_ADDRESS \<and> {m. own m = Some a} = {n} then None
     else acc_delegate (account_at s a))"
    using handleTransfer_facts(1)[where meta = meta and ev = ev and s = s, folded n_def] credit debit to by auto
qed

lemma transfer_delegation:
  assumes fl: "follows_ledger s own" and wf: "delegation_wf s own" and valid: "valid_transfer own ev"
  shows "delegation_wf (handleTransfer meta ev s) (ledger_transfer ev own)"
proof -
  let ?n = "int_to_dec (tr_tokenId ev)" and ?s' = "handleTransfer meta ev s" and ?to = "tr_to ev"
  let ?own' = "ledger_transfer ev own"
  define dt where "dt = delegate_or_self (account_at s ?to)"
  note F = follows_ledger_D[OF fl] and D = delegation_wf_D[OF wf]
  note del = transfer_delegates[OF fl wf valid, folded dt_def]
  note acc = transfer_accounts[OF fl valid, of meta]
  have own': "?own' m = (if m = ?n then Some ?to else own m)" for m by (simp add: ledger_transfer_def)
  define R1 where "R1 = moved_represented ?n (tr_from ev) (account_at s (tr_from ev)) (represented s)"
  have rep: "represented ?s' = R1(dt := R1 dt @ [?n])"
    using handleTransfer_facts(3)[where meta = meta and ev = ev and s = s] by (simp add: R1_def dt_def Let_def)
  note mr = moved_represented_wf[OF fl wf valid, folded R1_def]
  have none: "acc_delegate (account_at ?s' a) = None \<longleftrightarrow> acc_nouns (account_at ?s' a) = []" for a
  proof -
    have "acc_nouns (account_at ?s' a) = [] \<longleftrightarrow> {m. ?own' m = Some a} = {}" using acc(3)[of a] by (metis set_empty)
    moreover have "acc_nouns (account_at s a) = [] \<longleftrightarrow> {m. own m = Some a} = {}" using F(5)[of a] by (metis set_empty)
    moreover have "{m. ?own' m = Some a} = (if a = ?to then insert ?n {m. own m = Some a} else {m. own m = Some a} - {?n})"
      by (auto simp: own')
    moreover have "own ?n = Some a \<longleftrightarrow> a = tr_from ev \<and> a \<noteq> ZERO_ADDRESS"
      using valid by (auto simp: valid_transfer_def split: if_splits)
    ultimately show ?thesis using del(1)[of meta a] D(2)[of a] by auto
  qed
  have set_rep: "set (represented ?s' d) = {m. \<exists>a. ?own' m = Some a \<and> acc_delegate (account_at ?s' a) = Some d}" for d
  proof -
    have same: "acc_delegate (account_at ?s' a) = acc_delegate (account_at s a)" if "own m = Some a" "m \<noteq> ?n" for m a
    proof (cases "a = ?to")
      case True
      then have "acc_nouns (account_at s ?to) \<noteq> []" using that(1) F(5)[of ?to] by auto
      then show ?thesis using True del(1)[of meta a] del(3) by simp
    next
      case False
      have "{m. own m = Some a} \<noteq> {?n}" using that by blast
      then show ?thesis using False del(1)[of meta a] by simp
    qed
    have "m \<in> set (represented ?s' d) \<longleftrightarrow> (\<exists>a. ?own' m = Some a \<and> acc_delegate (account_at ?s' a) = Some d)" for m
    proof (cases "m = ?n")
      case True
      then show ?thesis using rep mr(2)[of d] del(1)[of meta ?to] by (auto simp: own')
    next
      case False
      then have "m \<in> set (represented ?s' d) \<longleftrightarrow> m \<in> set (R1 d)" using rep by auto
      also have "\<dots> \<longleftrightarrow> (\<exists>a. own m = Some a \<and> acc_delegate (account_at s a) = Some d)"
        using mr(2)[of d] False by simp
      also have "\<dots> \<longleftrightarrow> (\<exists>a. ?own' m = Some a \<and> acc_delegate (account_at ?s' a) = Some d)"
        using same[OF _ False] False by (auto simp: own')
      finally show ?thesis .
    qed
    then show ?thesis by blast
  qed
  have "distinct (represented ?s' d)" for d using rep mr(1,2)[of d] by auto
  moreover have "acc_delegate (account_at ?s' a) \<noteq> Some ''''" for a
    using del(1)[of meta a] del(2) D(3)[of a] by auto
  moreover have "delegate_id ?s' d = d" for d using handleTransfer_facts(5)[where meta = meta and ev = ev and s = s] D(1) by simp
  ultimately show ?thesis using none set_rep unfolding delegation_wf_def by blast
qed

end
