(* ===== verification/Sg_Events.thy ===== *)
theory Sg_Events
  imports Sg_Ledger
begin

text \<open>
  The subgraph as a state machine: the events that \<^verbatim>\<open>subgraph.yaml.mustache\<close> routes to the handlers, the
  dispatch \<open>handle\<close> (\<open>None\<close> for an aborted handler), runs of events, and the relation \<open>chain_reach\<close> of the
  stores that are reachable under a token contract's events, each with the ledger it must follow.
\<close>

section \<open>Events\<close>

datatype sg_event =
    EvNounCreated NounCreated
  | EvDelegateChanged DelegateChanged
  | EvDelegateVotesChanged DelegateVotesChanged
  | EvTransfer Transfer
  | EvAuctionCreated AuctionCreated
  | EvAuctionBid AuctionBid
  | EvAuctionExtended AuctionExtended
  | EvAuctionSettled AuctionSettled
  | EvProposalCreated ProposalCreatedWithRequirements
  | EvProposalCanceled int
  | EvProposalVetoed int
  | EvProposalQueued int int
  | EvProposalExecuted int
  | EvVoteCast VoteCast
  | EvMinQuorumVotesBPSSet "32 word"
  | EvMaxQuorumVotesBPSSet "32 word"
  | EvQuorumCoefficientSet int

fun handle :: "graph_ts \<Rightarrow> Meta \<Rightarrow> sg_event \<Rightarrow> Store \<Rightarrow> Store option" where
  "handle gt m (EvNounCreated e) s = Some (handleNounCreated m e s)"
| "handle gt m (EvDelegateChanged e) s = Some (handleDelegateChanged m e s)"
| "handle gt m (EvDelegateVotesChanged e) s = Some (handleDelegateVotesChanged e s)"
| "handle gt m (EvTransfer e) s = Some (handleTransfer m e s)"
| "handle gt m (EvAuctionCreated e) s = Some (handleAuctionCreated m e s)"
| "handle gt m (EvAuctionBid e) s = Some (handleAuctionBid m e s)"
| "handle gt m (EvAuctionExtended e) s = Some (handleAuctionExtended m e s)"
| "handle gt m (EvAuctionSettled e) s = Some (handleAuctionSettled m e s)"
| "handle gt m (EvProposalCreated e) s = Some (handleProposalCreatedWithRequirements gt m e s)"
| "handle gt m (EvProposalCanceled i) s = Some (handleProposalCanceled gt i s)"
| "handle gt m (EvProposalVetoed i) s = Some (handleProposalVetoed gt i s)"
| "handle gt m (EvProposalQueued i eta) s = Some (handleProposalQueued gt i eta s)"
| "handle gt m (EvProposalExecuted i) s = Some (handleProposalExecuted gt i s)"
| "handle gt m (EvVoteCast e) s = handleVoteCast gt m e s"
| "handle gt m (EvMinQuorumVotesBPSSet w) s = Some (handleMinQuorumVotesBPSSet m w s)"
| "handle gt m (EvMaxQuorumVotesBPSSet w) s = Some (handleMaxQuorumVotesBPSSet m w s)"
| "handle gt m (EvQuorumCoefficientSet c) s = Some (handleQuorumCoefficientSet m c s)"

fun run_events :: "graph_ts \<Rightarrow> (Meta \<times> sg_event) list \<Rightarrow> Store \<Rightarrow> Store option" where
  "run_events gt [] s = Some s"
| "run_events gt ((m, ev) # evs) s =
     (case handle gt m ev s of None \<Rightarrow> None | Some s' \<Rightarrow> run_events gt evs s')"

fun ledger :: "sg_event \<Rightarrow> (string \<rightharpoonup> string) \<Rightarrow> (string \<rightharpoonup> string)" where
  "ledger (EvTransfer t) own = ledger_transfer t own"
| "ledger ev own = own"

text \<open>
  What is assumed of the events: transfers are those of an ERC-721 contract, and a delegation moves a
  holder from its recorded delegate to another one.
\<close>

fun valid_event :: "Store \<Rightarrow> (string \<rightharpoonup> string) \<Rightarrow> sg_event \<Rightarrow> bool" where
  "valid_event s own (EvTransfer t) = valid_transfer own t"
| "valid_event s own (EvDelegateChanged e) =
     (acc_delegate (account_at s (dc_delegator e)) = Some (dc_fromDelegate e)
      \<and> dc_toDelegate e \<noteq> dc_fromDelegate e \<and> dc_toDelegate e \<noteq> '''')"
| "valid_event s own ev = True"

inductive chain_reach :: "graph_ts \<Rightarrow> Store \<Rightarrow> (string \<rightharpoonup> string) \<Rightarrow> bool" for gt where
  chain_start: "chain_reach gt empty_store Map.empty"
| chain_step: "chain_reach gt s own \<Longrightarrow> valid_event s own ev \<Longrightarrow> handle gt m ev s = Some s'
    \<Longrightarrow> chain_reach gt s' (ledger ev own)"

inductive_cases chain_reach_cases: "chain_reach gt s own"

fun_cases handle_voteE: "handle gt m (EvVoteCast e) s = Some s'"

section \<open>Frames\<close>

text \<open>Events other than transfers and delegations leave the token side as it is.\<close>

definition same_views :: "Store \<Rightarrow> Store \<Rightarrow> bool" where
  "same_views s s' \<longleftrightarrow> account_at s' = account_at s \<and> represented s' = represented s
     \<and> (\<forall>n. map_option noun_owner (sNouns s' n) = map_option noun_owner (sNouns s n))
     \<and> store_counts s' = store_counts s \<and> delegate_id s' = delegate_id s"

lemma same_views_trans [trans]: "same_views s s' \<Longrightarrow> same_views s' s'' \<Longrightarrow> same_views s s''"
  by (simp add: same_views_def)

lemma same_views_account: "getOrCreateAccount k s = (a, s') \<Longrightarrow> same_views s s'"
  using view_getOrCreateAccount[of k s a s'] by (simp add: same_views_def)

lemma same_views_delegate: "getOrCreateDelegate k s = (d, s') \<Longrightarrow> same_views s s'"
  using view_getOrCreateDelegate[of k s d s'] by (simp add: same_views_def)

lemma same_views_tables:
  "same_views s (save_Auction k a s)" "same_views s (save_Bid k b s)" "same_views s (save_Proposal k p s)"
  "same_views s (save_Vote k v s)" "same_views s (save_QuorumParams q s)" "same_views s (log_error msg s)"
  by (auto simp: same_views_def account_at_def represented_def delegate_id_def getGovernanceEntity_def save_defs fun_eq_iff)

lemma same_views_governance:
  "counts g = store_counts s \<Longrightarrow> same_views s (save_Governance g s)"
  by (simp add: same_views_def views)

lemma same_views_refl [simp]: "same_views s s"
  by (simp add: same_views_def)

lemma same_views_accounted:
  assumes "accounted_delegate k w m s = (d, s')"
  shows "same_views s s'"
proof -
  obtain found where f: "getOrCreateDelegateWithNullOption k False True s = (found, s)"
    using getOrCreateDelegate_null_first[of k s] by (metis prod.collapse)
  define s2 where "s2 = (if found = None then log_error (delegate_not_found k w m) s else s)"
  have "same_views s s2" by (simp add: s2_def same_views_tables(6))
  also have "getOrCreateDelegate k s2 = (d, s')"
    using assms f by (simp add: accounted_delegate_def s2_def)
  then have "same_views s2 s'" by (rule same_views_delegate)
  finally show ?thesis .
qed

lemma same_views_proposal:
  assumes "getOrCreateProposal gt k s = (p, s')"
  shows "same_views s s'"
  using assms same_views_governance[of "(getGovernanceEntity s)\<lparr>gv_proposals := gv_proposals (getGovernanceEntity s) + 1\<rparr>" s]
  by (auto simp: getOrCreateProposal_eq counts_def split: option.splits)

lemma same_views_quorum:
  assumes "getOrCreateDynamicQuorumParams b s = (p, s')"
  shows "same_views s s'"
proof -
  obtain q s1 where q: "(case sQuorumParams s ''LATEST'' of
      None \<Rightarrow> (new_QuorumParams b, save_QuorumParams (new_QuorumParams b) s) | Some p \<Rightarrow> (p, s)) = (q, s1)"
    by (metis prod.exhaust)
  have "same_views s s1" using q same_views_tables(5) by (auto split: option.splits)
  also have "same_views s1 s'"
    using assms q same_views_tables(5)
    by (auto simp: getOrCreateDynamicQuorumParams_def Let_def split: if_splits)
  finally show ?thesis .
qed

lemmas same_views_parts = same_views_account same_views_delegate same_views_accounted same_views_proposal same_views_quorum

lemma same_views_auction_handlers:
  "same_views s (handleAuctionCreated m e1 s)" "same_views s (handleAuctionBid m e2 s)"
  "same_views s (handleAuctionExtended m e3 s)" "same_views s (handleAuctionSettled m e4 s)"
proof -
  show "same_views s (handleAuctionCreated m e1 s)" "same_views s (handleAuctionExtended m e3 s)"
    "same_views s (handleAuctionSettled m e4 s)"
    by (simp_all add: auction_handlers Let_def same_views_tables split: option.split)
  obtain a s1 where 1: "getOrCreateAccount (ab_sender e2) s = (a, s1)" by (cases "getOrCreateAccount (ab_sender e2) s")
  have "same_views s s1" using 1 by (rule same_views_account)
  also have "same_views s1 (handleAuctionBid m e2 s)"
    unfolding handleAuctionBid_def Let_def 1 prod.case
    by (auto intro: same_views_tables same_views_trans[OF same_views_tables(1) same_views_tables(2)] split: option.split)
  finally show "same_views s (handleAuctionBid m e2 s)" .
qed

lemma same_views_quorum_handlers:
  "same_views s (handleMinQuorumVotesBPSSet m w s)" "same_views s (handleMaxQuorumVotesBPSSet m w s)"
  "same_views s (handleQuorumCoefficientSet m c s)"
proof -
  obtain p s1 where 1: "getOrCreateDynamicQuorumParams (Some (block_number m)) s = (p, s1)"
    by (cases "getOrCreateDynamicQuorumParams (Some (block_number m)) s")
  have "same_views s s1" using 1 by (rule same_views_quorum)
  then show "same_views s (handleMinQuorumVotesBPSSet m w s)" "same_views s (handleMaxQuorumVotesBPSSet m w s)"
    "same_views s (handleQuorumCoefficientSet m c s)"
    unfolding handleMinQuorumVotesBPSSet_def handleMaxQuorumVotesBPSSet_def handleQuorumCoefficientSet_def 1 Let_def prod.case
    by (auto intro: same_views_trans same_views_tables(5))
qed

lemma same_views_status_handlers:
  "same_views s (handleProposalCanceled gt i s)" "same_views s (handleProposalVetoed gt i s)"
  "same_views s (handleProposalQueued gt i eta s)" "same_views s (handleProposalExecuted gt i s)"
proof -
  obtain p s1 where 1: "getOrCreateProposal gt (int_to_dec i) s = (p, s1)"
    by (cases "getOrCreateProposal gt (int_to_dec i) s")
  have s1: "same_views s s1" using 1 by (rule same_views_proposal)
  have saved: "same_views s (save_Proposal k q s1)" for k q
    by (rule same_views_trans[OF s1 same_views_tables(3)])
  show "same_views s (handleProposalCanceled gt i s)" "same_views s (handleProposalVetoed gt i s)"
    unfolding handleProposalCanceled_def handleProposalVetoed_def 1 Let_def prod.case
    by (rule saved)+
  have later: "same_views s (save_Governance g (save_Proposal k q s1))"
    if "counts g = store_counts s" for g k q
  proof -
    have "counts g = store_counts (save_Proposal k q s1)" using that saved[of k q] by (simp add: same_views_def)
    from same_views_trans[OF saved same_views_governance[OF this]] show ?thesis .
  qed
  show "same_views s (handleProposalQueued gt i eta s)" "same_views s (handleProposalExecuted gt i s)"
    unfolding handleProposalQueued_def handleProposalExecuted_def 1 Let_def prod.case
    by (rule later, simp add: counts_def)+
qed

lemma same_views_created: "same_views s (handleProposalCreatedWithRequirements gt m e s)"
proof -
  let ?k = "int_to_dec (pc_id e)"
  obtain p s1 where 1: "getOrCreateProposal gt ?k s = (p, s1)" by (cases "getOrCreateProposal gt ?k s")
  obtain v s2 where 2: "accounted_delegate (pc_proposer e) ''ProposalCreated'' m s1 = (v, s2)"
    by (cases "accounted_delegate (pc_proposer e) ''ProposalCreated'' m s1")
  obtain q s3 where 3: "getOrCreateDynamicQuorumParams None s2 = (q, s3)"
    by (cases "getOrCreateDynamicQuorumParams None s2")
  have "same_views s s1" using 1 by (rule same_views_proposal)
  also have "same_views s1 s2" using 2 by (rule same_views_accounted)
  also have "same_views s2 s3" using 3 by (rule same_views_quorum)
  also have "same_views s3 (handleProposalCreatedWithRequirements gt m e s)"
    unfolding handleProposalCreatedWithRequirements_def Let_def 1 2 3 prod.case by (rule same_views_tables(3))
  finally show ?thesis .
qed

lemma same_views_vote:
  assumes "handleVoteCast gt m e s = Some s'"
  shows "same_views s s'"
proof -
  let ?k = "int_to_dec (vc_proposalId e)"
  obtain p s1 where 1: "getOrCreateProposal gt ?k s = (p, s1)" by (cases "getOrCreateProposal gt ?k s")
  obtain v s2 where 2: "accounted_delegate (vc_voter e) ''VoteCast'' m s1 = (v, s2)"
    by (cases "accounted_delegate (vc_voter e) ''VoteCast'' m s1")
  from assms obtain vote q s4 r where 4:
    "getOrCreateDynamicQuorumParams None (save_Vote (vc_voter e @ ''-'' @ ?k) vote s2) = (q, s4)"
    "s' = save_Proposal ?k r s4"
    by (auto simp: handleVoteCast_def 1 2 Let_def split: prod.splits)
  have "same_views s s1" using 1 by (rule same_views_proposal)
  also have "same_views s1 s2" using 2 by (rule same_views_accounted)
  also have "same_views s2 (save_Vote (vc_voter e @ ''-'' @ ?k) vote s2)" by (rule same_views_tables(4))
  also have "same_views \<dots> s4" using 4(1) by (rule same_views_quorum)
  also have "same_views s4 s'" unfolding 4(2) by (rule same_views_tables(3))
  finally show ?thesis .
qed

lemma same_views_other_tokens:
  "same_views s (handleNounCreated m e1 s)" "same_views s (handleDelegateVotesChanged e2 s)"
  using handleNounCreated_facts[where ev = e1 and s = s and meta = m]
    handleDelegateVotesChanged_facts[where ev = e2 and s = s]
  by (simp_all add: same_views_def)

lemma same_views_keep:
  assumes "same_views s s'"
  shows "follows_ledger s own \<Longrightarrow> follows_ledger s' own" "delegation_wf s own \<Longrightarrow> delegation_wf s' own"
  using assms by (simp_all add: same_views_def follows_ledger_def delegation_wf_def)

lemma same_views_handle:
  assumes "handle gt m ev s = Some s'" "\<nexists>t. ev = EvTransfer t" "\<nexists>d. ev = EvDelegateChanged d"
  shows "same_views s s'"
  using assms
  by (cases ev) (auto intro: same_views_auction_handlers same_views_quorum_handlers same_views_status_handlers
      same_views_created same_views_vote same_views_other_tokens)

section \<open>Delegations\<close>

lemma delegate_changed_keeps:
  assumes fl: "follows_ledger s own" and wf: "delegation_wf s own" and valid: "valid_event s own (EvDelegateChanged e)"
  shows "follows_ledger (handleDelegateChanged m e s) own" "delegation_wf (handleDelegateChanged m e s) own"
proof -
  let ?s' = "handleDelegateChanged m e s" and ?a = "dc_delegator e" and ?p = "dc_fromDelegate e" and ?q = "dc_toDelegate e"
  let ?h = "account_at s ?a"
  note F = follows_ledger_D[OF fl] and D = delegation_wf_D[OF wf]
  note H = handleDelegateChanged_facts[where ev = e and s = s and meta = m]
  have v: "acc_delegate ?h = Some ?p" "?q \<noteq> ?p" "?q \<noteq> ''''" using valid by simp_all
  have acc: "account_at ?s' x = (if x = ?a then ?h\<lparr>acc_delegate := Some ?q\<rparr> else account_at s x)" for x
    using H(1) D(1)[of ?q] by simp
  show "follows_ledger ?s' own"
    using F acc H(3,4) unfolding follows_ledger_def by simp
  have held: "acc_nouns ?h \<noteq> []" using v(1) D(2)[of ?a] by auto
  have set_h: "set (acc_nouns ?h) = {n. own n = Some ?a}" by (rule F(5))
  have rep: "represented ?s' d = (if d = ?q then represented s ?q @ acc_nouns ?h
      else if d = ?p then filter (\<lambda>n. n \<notin> set (acc_nouns ?h)) (represented s ?p) else represented s d)" for d
    using H(2) v(2) by simp
  have "distinct (represented ?s' d) \<and>
      set (represented ?s' d) = {n. \<exists>x. own n = Some x \<and> acc_delegate (account_at ?s' x) = Some d}" for d
  proof -
    have old: "set (represented s d) = {n. \<exists>x. own n = Some x \<and> acc_delegate (account_at s x) = Some d}" by (rule D(5))
    have new: "(\<exists>x. own n = Some x \<and> acc_delegate (account_at ?s' x) = Some d) \<longleftrightarrow>
        (if own n = Some ?a then d = ?q else n \<in> set (represented s d))" for n
      unfolding old by (auto simp: acc)
    show ?thesis
    proof (cases "d = ?q")
      case True
      have disj: "set (represented s ?q) \<inter> set (acc_nouns ?h) = {}"
        using D(5)[of ?q] set_h v(1,2) by auto
      show ?thesis
        using True rep new disj D(4)[of ?q] F(4)[of ?a] set_h by auto
    next
      case False
      show ?thesis
      proof (cases "d = ?p")
        case True
        then show ?thesis using False rep new D(4)[of ?p] set_h by auto
      next
        case other: False
        have "own n \<noteq> Some ?a" if "n \<in> set (represented s d)" for n
          using that old v(1) other by auto
        then show ?thesis using False other rep new D(4)[of d] by auto
      qed
    qed
  qed
  then show "delegation_wf ?s' own"
    using D acc H(5) held v(3) unfolding delegation_wf_def by auto
qed

lemma empty_store_ledger: "follows_ledger empty_store Map.empty" "delegation_wf empty_store Map.empty"
  by (simp_all add: follows_ledger_def delegation_wf_def account_at_def represented_def delegate_id_def empty_store_def
      new_Account_def getGovernanceEntity_def new_Governance_def counts_def)

theorem chain_reach_ledger:
  "chain_reach gt s own \<Longrightarrow> follows_ledger s own \<and> delegation_wf s own"
proof (induction rule: chain_reach.induct)
  case chain_start
  show ?case using empty_store_ledger by blast
next
  case (chain_step s own ev m s')
  show ?case
  proof (cases "\<exists>t. ev = EvTransfer t")
    case True
    then obtain t where t: "ev = EvTransfer t" by blast
    then have "valid_transfer own t" "s' = handleTransfer m t s" using chain_step.hyps by simp_all
    then show ?thesis using t chain_step.IH transfer_follows transfer_delegation by simp
  next
    case False
    then have led: "ledger ev own = own" by (cases ev) auto
    show ?thesis
    proof (cases "\<exists>d. ev = EvDelegateChanged d")
      case True
      then obtain d where d: "ev = EvDelegateChanged d" by blast
      then have "s' = handleDelegateChanged m d s" using chain_step.hyps by simp
      then show ?thesis using d led chain_step.IH chain_step.hyps(2) delegate_changed_keeps by simp
    next
      case notd: False
      have "same_views s s'" using same_views_handle[OF chain_step.hyps(3) False notd] .
      then show ?thesis using led chain_step.IH same_views_keep by simp
    qed
  qed
qed

section \<open>Proposals over runs\<close>

named_theorems keeps_proposals "operations that leave the proposals as they are"

lemma keeps_proposals_saves [keeps_proposals]:
  "sProposals (save_DelegationEvent k a s) = sProposals s" "sProposals (save_TransferEvent k b s) = sProposals s"
  "sProposals (save_Seed k c s) = sProposals s" "sProposals (save_Noun k d s) = sProposals s"
  "sProposals (save_Bid k e s) = sProposals s" "sProposals (save_Auction k f s) = sProposals s"
  "sProposals (save_Account k g s) = sProposals s" "sProposals (save_Delegate k h s) = sProposals s"
  "sProposals (save_Governance i s) = sProposals s" "sProposals (log_error msg s) = sProposals s"
  by (simp_all add: save_defs)

lemma keeps_proposals_gets [keeps_proposals]:
  "sProposals (snd (getOrCreateAccount k s)) = sProposals s"
  "sProposals (snd (getOrCreateDelegate k s)) = sProposals s"
  "sProposals (snd (count_holder p b gs)) = sProposals (snd gs)"
  "sProposals (save_delegation_events m p' q ns s) = sProposals s"
proof -
  show "sProposals (snd (getOrCreateAccount k s)) = sProposals s"
    by (simp add: getOrCreateAccount_eq keeps_proposals_saves split: option.split)
  show "sProposals (snd (getOrCreateDelegate k s)) = sProposals s"
    by (simp add: getOrCreateDelegate_eq keeps_proposals_saves split: option.split)
  show "sProposals (snd (count_holder p b gs)) = sProposals (snd gs)"
    by (simp add: count_holder_def Let_def keeps_proposals_saves split: prod.split)
  show "sProposals (save_delegation_events m p' q ns s) = sProposals s"
    by (induction m p' q ns s rule: save_delegation_events.induct) (simp_all add: keeps_proposals_saves)
qed

lemma keeps_proposals_debit [keeps_proposals]:
  "sProposals (snd (snd (debit_holder n k h g s))) = sProposals s"
  unfolding debit_holder_def Let_def case_prod_beta
  by (simp add: keeps_proposals split: option.split)

lemma keeps_proposals_token:
  "sProposals (handleNounCreated m e1 s) = sProposals s" "sProposals (handleDelegateChanged m e2 s) = sProposals s"
  "sProposals (handleDelegateVotesChanged e3 s) = sProposals s" "sProposals (handleTransfer m e4 s) = sProposals s"
proof -
  show "sProposals (handleNounCreated m e1 s) = sProposals s"
    unfolding handleNounCreated_def Let_def by (simp add: keeps_proposals split: option.split)
  show "sProposals (handleDelegateChanged m e2 s) = sProposals s"
    unfolding handleDelegateChanged_def Let_def case_prod_beta by (simp add: keeps_proposals)
  show "sProposals (handleDelegateVotesChanged e3 s) = sProposals s"
    unfolding handleDelegateVotesChanged_def Let_def case_prod_beta by (simp add: keeps_proposals)
  show "sProposals (handleTransfer m e4 s) = sProposals s"
    unfolding handleTransfer_def Let_def case_prod_beta by (simp add: keeps_proposals)
qed

lemma keeps_proposals_auction:
  "sProposals (handleAuctionCreated m e1 s) = sProposals s" "sProposals (handleAuctionBid m e2 s) = sProposals s"
  "sProposals (handleAuctionExtended m e3 s) = sProposals s" "sProposals (handleAuctionSettled m e4 s) = sProposals s"
  unfolding auction_handlers Let_def case_prod_beta
  by (simp_all add: keeps_proposals split: option.split)

text \<open>What an event adds to the three counters of a proposal.\<close>

fun vote_of :: "string \<Rightarrow> int \<Rightarrow> sg_event \<Rightarrow> int" where
  "vote_of key support (EvVoteCast e) =
     (if int_to_dec (vc_proposalId e) = key \<and> vc_support e = support then vc_votes e else 0)"
| "vote_of key support ev = 0"

definition votes_cast :: "string \<Rightarrow> int \<Rightarrow> (Meta \<times> sg_event) list \<Rightarrow> int" where
  "votes_cast key support evs = sum_list (map (\<lambda>(m, ev). vote_of key support ev) evs)"

fun creates :: "string \<Rightarrow> sg_event \<Rightarrow> bool" where
  "creates key (EvProposalCreated e) \<longleftrightarrow> int_to_dec (pc_id e) = key"
| "creates key ev \<longleftrightarrow> False"

lemma tally_status: "tally (p\<lparr>pr_status := st\<rparr>) = tally p" "tally (p\<lparr>pr_status := st, pr_executionETA := x\<rparr>) = tally p"
  by (simp_all add: tally_def)

lemma handle_tally:
  assumes h: "handle gt m ev s = Some s'" and p: "sProposals s key = Some p" and c: "\<not> creates key ev"
  shows "\<exists>p'. sProposals s' key = Some p' \<and> pr_againstVotes p' = pr_againstVotes p + vote_of key 0 ev
    \<and> pr_forVotes p' = pr_forVotes p + vote_of key 1 ev \<and> pr_abstainVotes p' = pr_abstainVotes p + vote_of key 2 ev"
proof (cases ev)
  case (EvVoteCast e)
  then obtain q where q: "sProposals s' = (sProposals s)(int_to_dec (vc_proposalId e) \<mapsto> q)"
    "tally q = tally (add_votes (vc_support e) (vc_votes e) (proposal_at gt (int_to_dec (vc_proposalId e)) s))"
    using h handleVoteCast_proposals[of gt m e s s'] by auto
  show ?thesis
  proof (cases "int_to_dec (vc_proposalId e) = key")
    case True
    then have "proposal_at gt (int_to_dec (vc_proposalId e)) s = p" using p by (simp add: proposal_at_def)
    then show ?thesis using q True EvVoteCast by (auto simp: tally_def add_votes_def split: if_splits)
  next
    case False
    then show ?thesis using q p EvVoteCast by simp
  qed
next
  case (EvProposalCreated e)
  then show ?thesis
    using h p c handleProposalCreated_proposals[of gt m e s] by auto
next
  case (EvProposalCanceled i)
  then show ?thesis using h p by (auto simp: status_handlers_proposals proposal_at_def)
next
  case (EvProposalVetoed i)
  then show ?thesis using h p by (auto simp: status_handlers_proposals proposal_at_def)
next
  case (EvProposalQueued i eta)
  then show ?thesis using h p by (auto simp: status_handlers_proposals proposal_at_def)
next
  case (EvProposalExecuted i)
  then show ?thesis using h p by (auto simp: status_handlers_proposals proposal_at_def)
qed (use h p in \<open>auto simp: keeps_proposals_token keeps_proposals_auction quorum_handlers_proposals\<close>)

lemma run_tally:
  assumes "run_events gt evs s = Some s'" "sProposals s key = Some p"
    "list_all (\<lambda>(m, ev). \<not> creates key ev) evs"
  shows "\<exists>p'. sProposals s' key = Some p' \<and> pr_againstVotes p' = pr_againstVotes p + votes_cast key 0 evs
    \<and> pr_forVotes p' = pr_forVotes p + votes_cast key 1 evs \<and> pr_abstainVotes p' = pr_abstainVotes p + votes_cast key 2 evs"
  using assms
proof (induction evs arbitrary: s p)
  case (Cons mev evs)
  obtain m ev where mev: "mev = (m, ev)" by (cases mev)
  from Cons.prems(1) obtain s1 where s1: "handle gt m ev s = Some s1" "run_events gt evs s1 = Some s'"
    by (auto simp: mev split: option.splits)
  have "\<not> creates key ev" using Cons.prems(3) by (simp add: mev)
  from handle_tally[OF s1(1) Cons.prems(2) this] obtain p1 where p1: "sProposals s1 key = Some p1"
    "pr_againstVotes p1 = pr_againstVotes p + vote_of key 0 ev"
    "pr_forVotes p1 = pr_forVotes p + vote_of key 1 ev" "pr_abstainVotes p1 = pr_abstainVotes p + vote_of key 2 ev"
    by blast
  from Cons.IH[OF s1(2) p1(1)] Cons.prems(3) show ?case
    using p1 by (auto simp: mev votes_cast_def)
qed (simp add: votes_cast_def)

section \<open>Auctions over runs\<close>

named_theorems keeps_auctions "operations that leave the auctions as they are and keep every Noun"

definition auctions_kept :: "Store \<Rightarrow> Store \<Rightarrow> bool" where
  "auctions_kept s s' \<longleftrightarrow> sAuctions s' = sAuctions s \<and> dom (sNouns s) \<subseteq> dom (sNouns s')"

lemma auctions_kept_trans: "auctions_kept s s' \<Longrightarrow> auctions_kept s' s'' \<Longrightarrow> auctions_kept s s''"
  by (auto simp: auctions_kept_def)

lemma auctions_kept_saves [keeps_auctions]:
  "auctions_kept s0 (save_DelegationEvent k a s) = auctions_kept s0 s"
  "auctions_kept s0 (save_TransferEvent k b s) = auctions_kept s0 s"
  "auctions_kept s0 (save_Seed k c s) = auctions_kept s0 s"
  "auctions_kept s0 (save_Bid k e s) = auctions_kept s0 s"
  "auctions_kept s0 (save_Account k g s) = auctions_kept s0 s"
  "auctions_kept s0 (save_Delegate k h s) = auctions_kept s0 s"
  "auctions_kept s0 (save_Proposal k p s) = auctions_kept s0 s"
  "auctions_kept s0 (save_Vote k v s) = auctions_kept s0 s"
  "auctions_kept s0 (save_Governance i s) = auctions_kept s0 s"
  "auctions_kept s0 (save_QuorumParams q s) = auctions_kept s0 s"
  "auctions_kept s0 (log_error msg s) = auctions_kept s0 s"
  by (simp_all add: auctions_kept_def save_defs)

lemma auctions_kept_noun: "auctions_kept s0 s \<Longrightarrow> auctions_kept s0 (save_Noun k n s)"
  by (auto simp: auctions_kept_def save_defs)

lemma auctions_kept_refl [simp]: "auctions_kept s s"
  by (simp add: auctions_kept_def)

lemma auctions_kept_gets [keeps_auctions]:
  "auctions_kept s0 (snd (getOrCreateAccount k s)) = auctions_kept s0 s"
  "auctions_kept s0 (snd (getOrCreateDelegate k s)) = auctions_kept s0 s"
  "auctions_kept s0 (snd (getOrCreateDelegateWithNullOption k False True s)) = auctions_kept s0 s"
  "auctions_kept s0 (snd (getOrCreateProposal gt k s)) = auctions_kept s0 s"
  "auctions_kept s0 (snd (getOrCreateDynamicQuorumParams b s)) = auctions_kept s0 s"
  "auctions_kept s0 (snd (count_holder p c (g, s))) = auctions_kept s0 s"
  "auctions_kept s0 (save_delegation_events m p' q ns s) = auctions_kept s0 s"
proof -
  show "auctions_kept s0 (snd (getOrCreateAccount k s)) = auctions_kept s0 s"
    by (simp add: getOrCreateAccount_eq auctions_kept_saves split: option.split)
  show "auctions_kept s0 (snd (getOrCreateDelegate k s)) = auctions_kept s0 s"
    by (simp add: getOrCreateDelegate_eq auctions_kept_saves split: option.split)
  show "auctions_kept s0 (snd (getOrCreateDelegateWithNullOption k False True s)) = auctions_kept s0 s"
    by (simp add: getOrCreateDelegate_null_first)
  show "auctions_kept s0 (snd (getOrCreateProposal gt k s)) = auctions_kept s0 s"
    by (simp add: getOrCreateProposal_eq auctions_kept_saves split: option.split)
  show "auctions_kept s0 (snd (getOrCreateDynamicQuorumParams b s)) = auctions_kept s0 s"
    by (simp add: getOrCreateDynamicQuorumParams_def Let_def auctions_kept_saves split: option.split)
  show "auctions_kept s0 (snd (count_holder p c (g, s))) = auctions_kept s0 s"
    by (simp add: count_holder_def Let_def auctions_kept_saves)
  show "auctions_kept s0 (save_delegation_events m p' q ns s) = auctions_kept s0 s"
    by (induction m p' q ns s rule: save_delegation_events.induct) (simp_all add: auctions_kept_saves)
qed

lemma auctions_kept_accounted [keeps_auctions]:
  "auctions_kept s0 (snd (accounted_delegate k w m s)) = auctions_kept s0 s"
  unfolding accounted_delegate_def Let_def case_prod_beta by (simp add: keeps_auctions)

lemma auctions_kept_debit [keeps_auctions]:
  "auctions_kept s0 (snd (snd (debit_holder n k h g s))) = auctions_kept s0 s"
  unfolding debit_holder_def Let_def case_prod_beta
  by (simp add: keeps_auctions split: option.split)

lemma auctions_kept_token:
  "auctions_kept s (handleNounCreated m e1 s)" "auctions_kept s (handleDelegateChanged m e2 s)"
  "auctions_kept s (handleDelegateVotesChanged e3 s)" "auctions_kept s (handleTransfer m e4 s)"
proof -
  show "auctions_kept s (handleNounCreated m e1 s)"
    unfolding handleNounCreated_def Let_def by (simp add: keeps_auctions auctions_kept_noun split: option.split)
  show "auctions_kept s (handleDelegateChanged m e2 s)"
    unfolding handleDelegateChanged_def Let_def case_prod_beta by (simp add: keeps_auctions)
  show "auctions_kept s (handleDelegateVotesChanged e3 s)"
    unfolding handleDelegateVotesChanged_def Let_def case_prod_beta by (simp add: keeps_auctions)
  show "auctions_kept s (handleTransfer m e4 s)"
    unfolding handleTransfer_def Let_def case_prod_beta by (simp add: keeps_auctions auctions_kept_noun)
qed

lemma auctions_kept_dao:
  "auctions_kept s (handleProposalCreatedWithRequirements gt m e s)"
  "auctions_kept s (handleProposalCanceled gt i s)" "auctions_kept s (handleProposalVetoed gt i s)"
  "auctions_kept s (handleProposalQueued gt i eta s)" "auctions_kept s (handleProposalExecuted gt i s)"
  "auctions_kept s (handleMinQuorumVotesBPSSet m w s)" "auctions_kept s (handleMaxQuorumVotesBPSSet m w s)"
  "auctions_kept s (handleQuorumCoefficientSet m c s)"
  unfolding handleProposalCreatedWithRequirements_def handleProposalCanceled_def handleProposalVetoed_def
    handleProposalQueued_def handleProposalExecuted_def handleMinQuorumVotesBPSSet_def
    handleMaxQuorumVotesBPSSet_def handleQuorumCoefficientSet_def Let_def case_prod_beta
  by (simp_all add: keeps_auctions)

lemma auctions_kept_vote: "handleVoteCast gt m e s = Some s' \<Longrightarrow> auctions_kept s s'"
  unfolding handleVoteCast_def Let_def case_prod_beta by (auto simp: keeps_auctions)

text \<open>An auction as the auction house contract describes it.\<close>

record auction_view =
  av_amount :: int
  av_startTime :: int
  av_endTime :: int
  av_bidder :: "string option"
  av_settled :: bool

definition view_of :: "Auction \<Rightarrow> auction_view" where
  "view_of a = \<lparr>av_amount = au_amount a, av_startTime = au_startTime a, av_endTime = au_endTime a,
     av_bidder = au_bidder a, av_settled = au_settled a\<rparr>"

fun auction_step :: "string \<Rightarrow> sg_event \<Rightarrow> auction_view option \<Rightarrow> auction_view option" where
  "auction_step k (EvAuctionCreated e) v =
     (if int_to_dec (ac_unounId e) = k
      then Some \<lparr>av_amount = 0, av_startTime = ac_startTime e, av_endTime = ac_endTime e, av_bidder = None, av_settled = False\<rparr>
      else v)"
| "auction_step k (EvAuctionBid e) v =
     (if int_to_dec (ab_unounId e) = k
      then map_option (\<lambda>a. a\<lparr>av_amount := ab_value e, av_bidder := Some (ab_sender e)\<rparr>) v else v)"
| "auction_step k (EvAuctionExtended e) v =
     (if int_to_dec (ae_unounId e) = k then map_option (\<lambda>a. a\<lparr>av_endTime := ae_endTime e\<rparr>) v else v)"
| "auction_step k (EvAuctionSettled e) v =
     (if int_to_dec (as_unounId e) = k then map_option (\<lambda>a. a\<lparr>av_settled := True\<rparr>) v else v)"
| "auction_step k ev v = v"

lemma handle_auction:
  assumes h: "handle gt m ev s = Some s'" and noun: "k \<in> dom (sNouns s)" and ids: "\<And>a. acc_id (account_at s a) = a"
  shows "map_option view_of (sAuctions s' k) = auction_step k ev (map_option view_of (sAuctions s k))"
    "k \<in> dom (sNouns s')"
proof -
  have kept: "auctions_kept s s' \<Longrightarrow> sAuctions s' k = sAuctions s k \<and> k \<in> dom (sNouns s')"
    using noun by (auto simp: auctions_kept_def)
  have "map_option view_of (sAuctions s' k) = auction_step k ev (map_option view_of (sAuctions s k)) \<and> k \<in> dom (sNouns s')"
  proof (cases ev)
    case (EvAuctionCreated e)
    then show ?thesis using h noun by (auto simp: handleAuctionCreated_def Let_def save_defs view_of_def split: option.splits)
  next
    case (EvAuctionBid e)
    obtain a s1 where a: "getOrCreateAccount (ab_sender e) s = (a, s1)" by (cases "getOrCreateAccount (ab_sender e) s")
    have "acc_id a = ab_sender e" using view_getOrCreateAccount(1)[OF a] ids by simp
    moreover have "sAuctions s1 = sAuctions s" "sNouns s1 = sNouns s"
      using a by (auto simp: getOrCreateAccount_eq save_defs split: option.splits)
    ultimately show ?thesis
      using EvAuctionBid h noun a
      by (auto simp: handleAuctionBid_def Let_def save_defs view_of_def split: option.splits)
  next
    case (EvAuctionExtended e)
    then show ?thesis using h noun by (auto simp: handleAuctionExtended_def Let_def save_defs view_of_def split: option.splits)
  next
    case (EvAuctionSettled e)
    then show ?thesis using h noun by (auto simp: handleAuctionSettled_def Let_def save_defs view_of_def split: option.splits)
  qed (use h kept auctions_kept_token auctions_kept_dao auctions_kept_vote in auto)
  then show "map_option view_of (sAuctions s' k) = auction_step k ev (map_option view_of (sAuctions s k))"
    "k \<in> dom (sNouns s')" by blast+
qed

lemma handle_ids:
  assumes h: "handle gt m ev s = Some s'" and ids: "\<And>a. acc_id (account_at s a) = a"
  shows "acc_id (account_at s' a) = a"
proof (cases "(\<exists>t. ev = EvTransfer t) \<or> (\<exists>d. ev = EvDelegateChanged d)")
  case False
  then have "same_views s s'" using h same_views_handle by blast
  then show ?thesis using ids by (simp add: same_views_def)
next
  case True
  have keep: "acc_id (credit_holder n t) = acc_id t" "acc_id (debit n t) = acc_id t" for n t
    by (simp_all add: credit_holder_def debit_def Let_def)
  from True show ?thesis
  proof
    assume "\<exists>t. ev = EvTransfer t"
    then obtain t where "s' = handleTransfer m t s" using h by auto
    then show ?thesis using handleTransfer_facts(1)[where meta = m and ev = t and s = s] ids keep by simp
  next
    assume "\<exists>d. ev = EvDelegateChanged d"
    then obtain d where "s' = handleDelegateChanged m d s" using h by auto
    then show ?thesis using handleDelegateChanged_facts(1)[where meta = m and ev = d and s = s] ids by simp
  qed
qed

lemma run_auction:
  "run_events gt evs s = Some s' \<Longrightarrow> k \<in> dom (sNouns s) \<Longrightarrow> (\<And>a. acc_id (account_at s a) = a) \<Longrightarrow>
    map_option view_of (sAuctions s' k) = fold (\<lambda>(m, ev). auction_step k ev) evs (map_option view_of (sAuctions s k))"
proof (induction evs arbitrary: s)
  case (Cons mev evs)
  obtain m ev where mev: "mev = (m, ev)" by (cases mev)
  from Cons.prems(1) obtain s1 where s1: "handle gt m ev s = Some s1" "run_events gt evs s1 = Some s'"
    by (auto simp: mev split: option.splits)
  note step = handle_auction[OF s1(1) Cons.prems(2,3)]
  from Cons.IH[OF s1(2) step(2) handle_ids[OF s1(1) Cons.prems(3)]] show ?case
    using step(1) by (simp add: mev)
qed simp

section \<open>Properties\<close>


definition demo_meta :: Meta where
  "demo_meta = \<lparr>block_number = 10, block_timestamp = 100, tx_hash = ''0xbeef'', tx_index = 0\<rparr>"

definition demo_gt :: graph_ts where
  "demo_gt = \<lparr>freshProposal = (\<lambda>k. \<lparr>pr_id = k, pr_proposer = '''', pr_targets = [], pr_values = [], pr_signatures = [],
      pr_calldatas = [], pr_createdTimestamp = 0, pr_createdBlock = 0, pr_createdTransactionHash = '''', pr_startBlock = 0,
      pr_endBlock = 0, pr_proposalThreshold = 0, pr_quorumVotes = 0, pr_forVotes = 0, pr_againstVotes = 0,
      pr_abstainVotes = 0, pr_title = '''', pr_description = '''', pr_status = PENDING, pr_executionETA = None,
      pr_totalSupply = 0, pr_minQuorumVotesBPS = 0, pr_maxQuorumVotesBPS = 0, pr_quorumCoefficient = 0\<rparr>),
    bigToI32 = (\<lambda>x. if - (2 ^ 31) \<le> x \<and> x < 2 ^ 31 then Some (word_of_int x) else None)\<rparr>"

definition demo_mint :: Transfer where
  "demo_mint = \<lparr>tr_from = ZERO_ADDRESS, tr_to = ''0xa11ce'', tr_tokenId = 1\<rparr>"

definition demo_move :: Transfer where
  "demo_move = \<lparr>tr_from = ''0xa11ce'', tr_to = ''0xb0b'', tr_tokenId = 1\<rparr>"

lemma demo_reach:
  "chain_reach demo_gt (handleTransfer demo_meta demo_move (handleTransfer demo_meta demo_mint empty_store))
    (ledger_transfer demo_move (ledger_transfer demo_mint Map.empty))"
proof -
  have "valid_event empty_store Map.empty (EvTransfer demo_mint)"
    by (simp add: valid_transfer_def demo_mint_def ZERO_ADDRESS_def)
  from chain_step[OF chain_start this, of demo_gt demo_meta]
  have 1: "chain_reach demo_gt (handleTransfer demo_meta demo_mint empty_store) (ledger_transfer demo_mint Map.empty)"
    by simp
  have "valid_event (handleTransfer demo_meta demo_mint empty_store) (ledger_transfer demo_mint Map.empty) (EvTransfer demo_move)"
    by (simp add: valid_transfer_def demo_mint_def demo_move_def ledger_transfer_def ZERO_ADDRESS_def)
  from chain_step[OF 1 this, of demo_meta] show ?thesis by simp
qed


text \<open>
  C2. A proposal's counters are the sums of the votes cast: after a proposal is created and any further
  events that do not create it again, its votes against, for and abstaining are the sums of the
  \<^verbatim>\<open>VoteCast\<close> events for it with support 0, 1 and 2, whatever else happens in between.
\<close>

theorem proposal_counts_votes:
  assumes "run_events gt ((m, EvProposalCreated e) # evs) s = Some s'"
    and "list_all (\<lambda>(m, ev). \<not> creates (int_to_dec (pc_id e)) ev) evs"
  shows "\<exists>p. sProposals s' (int_to_dec (pc_id e)) = Some p
    \<and> pr_againstVotes p = votes_cast (int_to_dec (pc_id e)) 0 evs
    \<and> pr_forVotes p = votes_cast (int_to_dec (pc_id e)) 1 evs
    \<and> pr_abstainVotes p = votes_cast (int_to_dec (pc_id e)) 2 evs"
proof -
  let ?k = "int_to_dec (pc_id e)" and ?s1 = "handleProposalCreatedWithRequirements gt m e s"
  obtain q where q: "sProposals ?s1 ?k = Some q" "tally q = (0, 0, 0)"
    using handleProposalCreated_proposals[of gt m e s] by auto
  have "run_events gt evs ?s1 = Some s'" using assms(1) by simp
  from run_tally[OF this q(1) assms(2)] show ?thesis using q(2) by (auto simp: tally_def)
qed

definition demo_create :: ProposalCreatedWithRequirements where
  "demo_create = \<lparr>pc_id = 3, pc_proposer = ''0xa11ce'', pc_targets = [], pc_values = [], pc_signatures = [],
     pc_calldatas = [], pc_startBlock = 20, pc_endBlock = 30, pc_proposalThreshold = 1, pc_quorumVotes = 2,
     pc_description = ''# Fund it''\<rparr>"

definition demo_vote :: VoteCast where
  "demo_vote = \<lparr>vc_voter = ''0xb0b'', vc_proposalId = 3, vc_support = 1, vc_votes = 5, vc_reason = ''yes''\<rparr>"

lemma demo_run_returns:
  "\<not> Option.is_none (run_events demo_gt [(demo_meta, EvProposalCreated demo_create), (demo_meta, EvVoteCast demo_vote)] empty_store)"
  by code_simp

lemma demo_run: "\<exists>s'. run_events demo_gt [(demo_meta, EvProposalCreated demo_create), (demo_meta, EvVoteCast demo_vote)] empty_store = Some s'"
  using demo_run_returns unfolding Option.is_none_def by (simp only: not_None_eq)

theorem proposal_counts_votes_witness:
  "\<exists>s' p. run_events demo_gt [(demo_meta, EvProposalCreated demo_create), (demo_meta, EvVoteCast demo_vote)] empty_store = Some s'
    \<and> sProposals s' (int_to_dec (pc_id demo_create)) = Some p
    \<and> pr_againstVotes p = votes_cast (int_to_dec (pc_id demo_create)) 0 [(demo_meta, EvVoteCast demo_vote)]
    \<and> pr_forVotes p = votes_cast (int_to_dec (pc_id demo_create)) 1 [(demo_meta, EvVoteCast demo_vote)]
    \<and> pr_abstainVotes p = votes_cast (int_to_dec (pc_id demo_create)) 2 [(demo_meta, EvVoteCast demo_vote)]"
proof -
  obtain s' where s': "run_events demo_gt [(demo_meta, EvProposalCreated demo_create), (demo_meta, EvVoteCast demo_vote)] empty_store = Some s'"
    using demo_run by blast
  from proposal_counts_votes[OF s'] s' show ?thesis by simp
qed

text \<open>
  C3. An auction follows the auction house: from any store that has the Noun, after any run of events the
  stored auction is the one that the created, bid, extended and settled events for it give in order.
\<close>

theorem auction_follows_events:
  assumes "run_events gt evs s = Some s'" and "sNouns s k \<noteq> None" and "\<And>a. acc_id (account_at s a) = a"
  shows "map_option view_of (sAuctions s' k)
    = fold (\<lambda>(m, ev). auction_step k ev) evs (map_option view_of (sAuctions s k))"
  by (rule run_auction[OF assms(1) _ assms(3)]) (use assms(2) in auto)

definition demo_auction_events :: "(Meta \<times> sg_event) list" where
  "demo_auction_events =
     [(demo_meta, EvAuctionCreated \<lparr>ac_unounId = 1, ac_startTime = 5, ac_endTime = 9\<rparr>),
      (demo_meta, EvAuctionBid \<lparr>ab_unounId = 1, ab_sender = ''0xb0b'', ab_value = 77\<rparr>),
      (demo_meta, EvAuctionSettled \<lparr>as_unounId = 1\<rparr>)]"

lemma demo_mint_ids: "acc_id (account_at (handleTransfer demo_meta demo_mint empty_store) a) = a"
proof -
  have "acc_id (account_at empty_store x) = x" for x
    by (simp add: account_at_def empty_store_def new_Account_def)
  then show ?thesis
    using handle_ids[of demo_gt demo_meta "EvTransfer demo_mint" empty_store "handleTransfer demo_meta demo_mint empty_store"]
    by simp
qed

lemma demo_auction_run:
  "\<exists>s'. run_events demo_gt demo_auction_events (handleTransfer demo_meta demo_mint empty_store) = Some s'"
  by (simp add: demo_auction_events_def)

theorem auction_follows_events_witness:
  "\<exists>s'. run_events demo_gt demo_auction_events (handleTransfer demo_meta demo_mint empty_store) = Some s'
    \<and> map_option view_of (sAuctions s' ''1'')
      = Some \<lparr>av_amount = 77, av_startTime = 5, av_endTime = 9, av_bidder = Some ''0xb0b'', av_settled = True\<rparr>"
proof -
  obtain s' where s': "run_events demo_gt demo_auction_events (handleTransfer demo_meta demo_mint empty_store) = Some s'"
    using demo_auction_run by blast
  have one: "int_to_dec 1 = ''1''" by code_simp
  have "sNouns (handleTransfer demo_meta demo_mint empty_store) ''1'' \<noteq> None"
    using handleTransfer_facts(2)[where meta = demo_meta and ev = demo_mint and s = empty_store] one
    by (auto simp: demo_mint_def)
  note run = auction_follows_events[OF s' this demo_mint_ids]
  have "sAuctions (handleTransfer demo_meta demo_mint empty_store) = Map.empty"
    using auctions_kept_token(4)[of empty_store demo_meta demo_mint] by (simp add: auctions_kept_def empty_store_def)
  then show ?thesis using run s' by (simp add: demo_auction_events_def one)
qed

text \<open>A transfer of a Noun to its own holder corrupts the account: the handler loads two copies and the
  receiver's copy, saved last, gains one balance and lists the Noun a second time.
\<close>

theorem self_transfer_inflates:
  assumes "follows_ledger s own" and "tr_from ev = tr_to ev" and "own (int_to_dec (tr_tokenId ev)) = Some (tr_to ev)"
  shows "acc_tokenBalanceRaw (account_at (handleTransfer meta ev s) (tr_to ev))
      = acc_tokenBalanceRaw (account_at s (tr_to ev)) + 1
    \<and> \<not> distinct (acc_nouns (account_at (handleTransfer meta ev s) (tr_to ev)))"
proof -
  note D = follows_ledger_D[OF assms(1)]
  have "account_at (handleTransfer meta ev s) (tr_to ev)
      = credit_holder (int_to_dec (tr_tokenId ev)) (account_at s (tr_to ev))"
    using handleTransfer_facts(1)[where meta = meta and ev = ev and s = s] by simp
  moreover have "0 \<le> acc_tokenBalanceRaw (account_at s (tr_to ev))" using D(6)[of "tr_to ev"] by simp
  moreover have "int_to_dec (tr_tokenId ev) \<in> set (acc_nouns (account_at s (tr_to ev)))"
    using D(5)[of "tr_to ev"] assms(3) by simp
  ultimately show ?thesis by (simp add: credit_holder_fields)
qed

theorem self_transfer_inflates_witness:
  "acc_tokenBalanceRaw (account_at (handleTransfer demo_meta \<lparr>tr_from = ''0xb0b'', tr_to = ''0xb0b'', tr_tokenId = 1\<rparr>
        (handleTransfer demo_meta demo_move (handleTransfer demo_meta demo_mint empty_store))) ''0xb0b'')
      = acc_tokenBalanceRaw (account_at (handleTransfer demo_meta demo_move (handleTransfer demo_meta demo_mint empty_store)) ''0xb0b'') + 1
    \<and> \<not> distinct (acc_nouns (account_at (handleTransfer demo_meta \<lparr>tr_from = ''0xb0b'', tr_to = ''0xb0b'', tr_tokenId = 1\<rparr>
        (handleTransfer demo_meta demo_move (handleTransfer demo_meta demo_mint empty_store))) ''0xb0b''))"
proof -
  have fl: "follows_ledger (handleTransfer demo_meta demo_move (handleTransfer demo_meta demo_mint empty_store))
      (ledger_transfer demo_move (ledger_transfer demo_mint Map.empty))"
    using chain_reach_ledger[OF demo_reach] by blast
  show ?thesis
    using self_transfer_inflates[OF fl, of "\<lparr>tr_from = ''0xb0b'', tr_to = ''0xb0b'', tr_tokenId = 1\<rparr>" demo_meta]
    by (simp add: ledger_transfer_def demo_move_def)
qed

text \<open>
  Delegating again to the current delegate duplicates its Nouns: the handler filters one copy of the
  delegate and appends to the other, which is saved last.
\<close>

theorem redelegation_duplicates:
  assumes "dc_fromDelegate ev = dc_toDelegate ev"
  shows "represented (handleDelegateChanged meta ev s) (dc_toDelegate ev)
    = represented s (dc_toDelegate ev) @ acc_nouns (account_at s (dc_delegator ev))"
  using handleDelegateChanged_facts(2)[where meta = meta and ev = ev and s = s] assms by simp

theorem redelegation_duplicates_witness:
  "represented (handleDelegateChanged demo_meta
      \<lparr>dc_delegator = ''0xa11ce'', dc_fromDelegate = ''0xa11ce'', dc_toDelegate = ''0xa11ce''\<rparr>
      (handleTransfer demo_meta demo_mint empty_store)) ''0xa11ce''
    = represented (handleTransfer demo_meta demo_mint empty_store) ''0xa11ce''
      @ acc_nouns (account_at (handleTransfer demo_meta demo_mint empty_store) ''0xa11ce'')"
  using redelegation_duplicates[of "\<lparr>dc_delegator = ''0xa11ce'', dc_fromDelegate = ''0xa11ce'', dc_toDelegate = ''0xa11ce''\<rparr>"
      demo_meta "handleTransfer demo_meta demo_mint empty_store"] by simp

text \<open>
  A delegate that first appears in a \<^verbatim>\<open>DelegateVotesChanged\<close> event is stored but not counted: the
  handler saves the governance entity it loaded before the delegate was created, so the increment of
  \<^verbatim>\<open>totalDelegates\<close> is lost, while creating the delegate alone counts it.
\<close>

theorem new_delegate_not_counted:
  assumes "sDelegates s (dv_delegate ev) = None" and "dv_delegate ev \<noteq> ZERO_ADDRESS"
  shows "sDelegates (handleDelegateVotesChanged ev s) (dv_delegate ev) \<noteq> None
    \<and> gv_totalDelegates (getGovernanceEntity (handleDelegateVotesChanged ev s)) = gv_totalDelegates (getGovernanceEntity s)
    \<and> gv_totalDelegates (getGovernanceEntity (snd (getOrCreateDelegate (dv_delegate ev) s)))
      = gv_totalDelegates (getGovernanceEntity s) + 1"
proof -
  have "getGovernanceEntity (handleDelegateVotesChanged ev s) =
     (case handleDelegateVotesChanged ev s of s' \<Rightarrow> getGovernanceEntity s')" by simp
  have "gv_totalDelegates (getGovernanceEntity (handleDelegateVotesChanged ev s)) = gv_totalDelegates (getGovernanceEntity s)"
    unfolding handleDelegateVotesChanged_def Let_def case_prod_beta by (simp add: views)
  moreover have "sDelegates (handleDelegateVotesChanged ev s) (dv_delegate ev) \<noteq> None"
    unfolding handleDelegateVotesChanged_def Let_def case_prod_beta by (simp add: save_Governance_def save_Delegate_def)
  moreover have "gv_totalDelegates (getGovernanceEntity (snd (getOrCreateDelegate (dv_delegate ev) s)))
      = gv_totalDelegates (getGovernanceEntity s) + 1"
    using assms by (simp add: getOrCreateDelegate_eq views)
  ultimately show ?thesis by blast
qed

theorem new_delegate_not_counted_witness:
  "sDelegates (handleDelegateVotesChanged \<lparr>dv_delegate = ''0xb0b'', dv_previousBalance = 0, dv_newBalance = 2\<rparr> empty_store) ''0xb0b'' \<noteq> None
    \<and> gv_totalDelegates (getGovernanceEntity (handleDelegateVotesChanged \<lparr>dv_delegate = ''0xb0b'', dv_previousBalance = 0, dv_newBalance = 2\<rparr> empty_store))
      = gv_totalDelegates (getGovernanceEntity empty_store)
    \<and> gv_totalDelegates (getGovernanceEntity (snd (getOrCreateDelegate ''0xb0b'' empty_store)))
      = gv_totalDelegates (getGovernanceEntity empty_store) + 1"
  using new_delegate_not_counted[of empty_store "\<lparr>dv_delegate = ''0xb0b'', dv_previousBalance = 0, dv_newBalance = 2\<rparr>"]
  by (simp add: empty_store_def ZERO_ADDRESS_def)

text \<open>
  C4. The dynamic quorum of a proposal lies between the quorum of the lower and that of the upper bound,
  equals the contract's formula, never aborts for a coefficient of 32 bits, and does not fall when votes
  against are added.
\<close>

theorem dynamicQuorumVotes_spec:
  assumes "toI32_doc gt" and "0 < supply" and "0 \<le> against" and "against \<le> supply"
    and "0 \<le> coefficient" and "coefficient < 2 ^ 32" and "0 \<le> sint minBps" and "sint minBps \<le> sint maxBps"
    and "sint maxBps \<le> 10000" and "0 \<le> fewer" and "fewer \<le> against"
  shows "\<exists>q q0. dynamicQuorumVotes gt against supply minBps maxBps coefficient = Some q
    \<and> dynamicQuorumVotes gt fewer supply minBps maxBps coefficient = Some q0 \<and> q0 \<le> q
    \<and> q = supply * min (sint maxBps) (coefficient * (against * 10000 div supply) div 1000000 + sint minBps) div 10000
    \<and> supply * sint minBps div 10000 \<le> q \<and> q \<le> supply * sint maxBps div 10000"
proof -
  have fit: "adjusted_bps a supply (sint minBps) coefficient < 2 ^ 31" if "0 \<le> a" "a \<le> supply" for a
  proof -
    have "adjusted_bps a supply (sint minBps) coefficient \<le> 42949672 + sint minBps"
      by (rule adjusted_bps_range(2)[OF assms(2) that assms(5,6)])
    also have "\<dots> \<le> 42949672 + 10000" using assms(8,9) by linarith
    finally show ?thesis by simp
  qed
  have mx: "0 \<le> sint maxBps" using assms(7,8) by linarith
  have eq: "dynamicQuorumVotes gt a supply minBps maxBps coefficient
      = Some (supply * min (sint maxBps) (adjusted_bps a supply (sint minBps) coefficient) div 10000)"
    if "0 \<le> a" "a \<le> supply" for a
    by (rule dynamicQuorumVotes_eq[OF assms(1,2) that(1) assms(5,7) mx fit[OF that]])
  let ?f = "\<lambda>a. supply * min (sint maxBps) (adjusted_bps a supply (sint minBps) coefficient) div 10000"
  have mono: "supply * x div 10000 \<le> supply * y div 10000" if "x \<le> y" for x y
    using that assms(2) by (intro zdiv_mono1 mult_left_mono) simp_all
  have le: "fewer \<le> supply" using assms(4,11) by linarith
  have 1: "?f fewer \<le> ?f against"
    by (rule mono, rule min.mono[OF order_refl adjusted_bps_mono[OF assms(2,5,11)]])
  have "sint minBps \<le> min (sint maxBps) (adjusted_bps against supply (sint minBps) coefficient)"
    by (rule min.boundedI[OF assms(8) adjusted_bps_range(1)[OF assms(2-6)]])
  then have 2: "supply * sint minBps div 10000 \<le> ?f against" by (rule mono)
  have 3: "?f against \<le> supply * sint maxBps div 10000" by (rule mono[OF min.cobounded1])
  have 4: "?f against = supply * min (sint maxBps) (coefficient * (against * 10000 div supply) div 1000000 + sint minBps) div 10000"
    by (simp only: adjusted_bps_def)
  show ?thesis
    by (rule exI[of _ "?f against"], rule exI[of _ "?f fewer"],
        intro conjI eq[OF assms(3,4)] eq[OF assms(10) le] 1 2 3 4)
qed

lemma demo_toI32_doc: "toI32_doc demo_gt"
  by (simp add: toI32_doc_def demo_gt_def)

theorem dynamicQuorumVotes_spec_witness:
  "\<exists>q q0. dynamicQuorumVotes demo_gt 20 300 1000 6000 1500000 = Some q
    \<and> dynamicQuorumVotes demo_gt 10 300 1000 6000 1500000 = Some q0 \<and> q0 \<le> q
    \<and> q = 300 * min (sint (6000 :: 32 word)) (1500000 * (20 * 10000 div 300) div 1000000 + sint (1000 :: 32 word)) div 10000
    \<and> 300 * sint (1000 :: 32 word) div 10000 \<le> q \<and> q \<le> 300 * sint (6000 :: 32 word) div 10000"
  by (rule dynamicQuorumVotes_spec[OF demo_toI32_doc]) simp_all

text \<open>
  The title of a proposal is never empty, and a markdown heading on the first line gives exactly its
  text when it holds no hash, emphasis markers or outer blanks.
\<close>

theorem extractTitle_heading:
  assumes "t \<noteq> ''''" "CHR ''#'' \<notin> set t" "CHR 0x0A \<notin> set t"
    and "\<not> contains_str t ''**''" "\<not> contains_str t ''__''" "\<not> is_space (hd t)" "\<not> is_space (last t)"
    and "CHR ''#'' \<notin> set body"
  shows "extractTitle (''# '' @ t @ [CHR 0x0A] @ body) = t \<and> extractTitle body \<noteq> ''''"
  using extractTitle_markdown[OF assms] extractTitle_nonempty by blast

theorem extractTitle_heading_witness:
  "extractTitle (''# '' @ ''Fund the club'' @ [CHR 0x0A] @ ''Details'') = ''Fund the club'' \<and> extractTitle ''Details'' \<noteq> ''''"
proof (rule extractTitle_heading)
  show "\<not> contains_str ''Fund the club'' ''**''" "\<not> contains_str ''Fund the club'' ''__''"
    by code_simp+
qed (simp_all add: is_space_def)

text \<open>A holder that delegated while it held no Noun is split in two by its first Noun: the Noun is added
  to the chosen delegate, and the account is then recorded as its own delegate.
\<close>

theorem first_noun_resets_delegate:
  assumes "acc_delegate (account_at s (tr_to ev)) = Some d" "d \<noteq> ''''" "acc_id (account_at s (tr_to ev)) = tr_to ev"
    and "acc_tokenBalanceRaw (account_at s (tr_to ev)) = 0"
  shows "acc_delegate (account_at (handleTransfer meta ev s) (tr_to ev)) = Some (tr_to ev)
    \<and> int_to_dec (tr_tokenId ev) \<in> set (represented (handleTransfer meta ev s) d)"
proof -
  have "delegate_or_self (account_at s (tr_to ev)) = d" using assms(1,2) by (simp add: delegate_or_self_def)
  then have "int_to_dec (tr_tokenId ev) \<in> set (represented (handleTransfer meta ev s) d)"
    using handleTransfer_facts(3)[where meta = meta and ev = ev and s = s] by (simp add: Let_def)
  then show ?thesis
    using handleTransfer_facts(1)[where meta = meta and ev = ev and s = s] assms(3,4) by (simp add: credit_holder_fields)
qed

theorem first_noun_resets_delegate_witness:
  "acc_delegate (account_at (handleTransfer demo_meta demo_mint
      (save_Account ''0xa11ce'' ((new_Account ''0xa11ce'')\<lparr>acc_delegate := Some ''0xb0b''\<rparr>) empty_store)) ''0xa11ce'') = Some ''0xa11ce''
    \<and> int_to_dec 1 \<in> set (represented (handleTransfer demo_meta demo_mint
      (save_Account ''0xa11ce'' ((new_Account ''0xa11ce'')\<lparr>acc_delegate := Some ''0xb0b''\<rparr>) empty_store)) ''0xb0b'')"
  using first_noun_resets_delegate[of
      "save_Account ''0xa11ce'' ((new_Account ''0xa11ce'')\<lparr>acc_delegate := Some ''0xb0b''\<rparr>) empty_store"
      demo_mint "''0xb0b''" demo_meta]
  by (simp add: views demo_mint_def new_Account_def)

end
