(* ===== verification/Sg_Typed.thy ===== *)
theory Sg_Typed
  imports Sg_Events
begin

text \<open>
  The store as \<^verbatim>\<open>schema.graphql\<close> types it: every row stands under its own id and every reference of a row
  resolves to a row of the table the schema names. The rows refer to tables that only grow; while a handler runs
  some rows are saved before the row they refer to, so the invariant carries the ids \<open>N\<close> of Nouns and \<open>P\<close> of
  proposals still to be saved.
\<close>

section \<open>Typed rows\<close>

definition all_rows :: "(string \<rightharpoonup> 'e) \<Rightarrow> (string \<Rightarrow> 'e \<Rightarrow> bool) \<Rightarrow> bool" where
  "all_rows t Q \<longleftrightarrow> (\<forall>k e. t k = Some e \<longrightarrow> Q k e)"

lemma all_rows_upd: "all_rows t Q \<Longrightarrow> Q k e \<Longrightarrow> all_rows (t(k \<mapsto> e)) Q"
  by (simp add: all_rows_def)

lemma all_rows_mono: "all_rows t Q \<Longrightarrow> (\<And>k e. Q k e \<Longrightarrow> R k e) \<Longrightarrow> all_rows t R"
  by (simp add: all_rows_def)

lemma all_rowsD: "all_rows t Q \<Longrightarrow> t k = Some e \<Longrightarrow> Q k e"
  by (simp add: all_rows_def)

lemma all_rows_empty: "all_rows Map.empty Q"
  by (simp add: all_rows_def)

text \<open>The tables rows refer to.\<close>

record tables =
  t_accounts :: "string set"
  t_delegates :: "string set"
  t_nouns :: "string set"
  t_seeds :: "string set"
  t_auctions :: "string set"
  t_proposals :: "string set"

definition tables_of :: "string set \<Rightarrow> string set \<Rightarrow> Store \<Rightarrow> tables" where
  "tables_of N P s =
     \<lparr>t_accounts = dom (sAccounts s), t_delegates = dom (sDelegates s), t_nouns = dom (sNouns s) \<union> N,
      t_seeds = dom (sSeeds s), t_auctions = dom (sAuctions s), t_proposals = dom (sProposals s) \<union> P\<rparr>"

definition tables_grow :: "tables \<Rightarrow> tables \<Rightarrow> bool" where
  "tables_grow t t' \<longleftrightarrow> t_accounts t \<subseteq> t_accounts t' \<and> t_delegates t \<subseteq> t_delegates t' \<and> t_nouns t \<subseteq> t_nouns t'
     \<and> t_seeds t \<subseteq> t_seeds t' \<and> t_auctions t \<subseteq> t_auctions t' \<and> t_proposals t \<subseteq> t_proposals t'"

text \<open>
  Two references of the schema are not promised: the delegate of an account may be the account itself without a row
  of its own, and the previous delegate of a delegation event may be missing.
\<close>

definition account_typed :: "tables \<Rightarrow> string \<Rightarrow> Account \<Rightarrow> bool" where
  "account_typed t k a \<longleftrightarrow> acc_id a = k \<and> set (acc_nouns a) \<subseteq> t_nouns t
     \<and> (case acc_delegate a of None \<Rightarrow> True | Some d \<Rightarrow> d = k \<or> d \<in> t_delegates t)"

definition delegate_typed :: "tables \<Rightarrow> string \<Rightarrow> Delegate \<Rightarrow> bool" where
  "delegate_typed t k d \<longleftrightarrow> dg_id d = k \<and> set (dg_nounsRepresented d) \<subseteq> t_nouns t"

definition noun_typed :: "tables \<Rightarrow> string \<Rightarrow> Noun \<Rightarrow> bool" where
  "noun_typed t k n \<longleftrightarrow> noun_id n = k \<and> noun_owner n \<in> t_accounts t
     \<and> (case noun_seed n of None \<Rightarrow> True | Some x \<Rightarrow> x \<in> t_seeds t)"

definition auction_typed :: "tables \<Rightarrow> string \<Rightarrow> Auction \<Rightarrow> bool" where
  "auction_typed t k a \<longleftrightarrow> au_id a = k \<and> au_noun a = k \<and> k \<in> t_nouns t
     \<and> (case au_bidder a of None \<Rightarrow> True | Some b \<Rightarrow> b \<in> t_accounts t)"

definition bid_typed :: "tables \<Rightarrow> string \<Rightarrow> Bid \<Rightarrow> bool" where
  "bid_typed t k b \<longleftrightarrow> bid_id b = k \<and> bid_noun b \<in> t_nouns t \<and> bid_auction b \<in> t_auctions t
     \<and> (case bid_bidder b of None \<Rightarrow> True | Some a \<Rightarrow> a \<in> t_accounts t)"

definition transfer_typed :: "tables \<Rightarrow> string \<Rightarrow> TransferEvent \<Rightarrow> bool" where
  "transfer_typed t k e \<longleftrightarrow> te_id e = k \<and> te_noun e \<in> t_nouns t
     \<and> te_previousHolder e \<in> t_accounts t \<and> te_newHolder e \<in> t_accounts t"

definition delegation_typed :: "tables \<Rightarrow> string \<Rightarrow> DelegationEvent \<Rightarrow> bool" where
  "delegation_typed t k e \<longleftrightarrow> de_id e = k \<and> de_noun e \<in> t_nouns t \<and> de_newDelegate e \<in> t_delegates t"

definition vote_typed :: "tables \<Rightarrow> string \<Rightarrow> Vote \<Rightarrow> bool" where
  "vote_typed t k v \<longleftrightarrow> vt_id v = k \<and> vt_voter v \<in> t_delegates t \<and> set (vt_nouns v) \<subseteq> t_nouns t
     \<and> vt_proposal v \<in> t_proposals t"

definition proposal_typed :: "graph_ts \<Rightarrow> tables \<Rightarrow> string \<Rightarrow> Proposal \<Rightarrow> bool" where
  "proposal_typed gt t k p \<longleftrightarrow> pr_id p = k
     \<and> (pr_proposer p \<in> t_delegates t \<or> pr_proposer p = pr_proposer (freshProposal gt k))"

lemmas row_typed_defs =
  account_typed_def delegate_typed_def noun_typed_def auction_typed_def bid_typed_def transfer_typed_def
  delegation_typed_def vote_typed_def proposal_typed_def

definition rows_typed :: "graph_ts \<Rightarrow> tables \<Rightarrow> Store \<Rightarrow> bool" where
  "rows_typed gt t s \<longleftrightarrow>
     all_rows (sAccounts s) (account_typed t) \<and> all_rows (sDelegates s) (delegate_typed t)
     \<and> all_rows (sNouns s) (noun_typed t) \<and> all_rows (sAuctions s) (auction_typed t)
     \<and> all_rows (sBids s) (bid_typed t) \<and> all_rows (sTransferEvents s) (transfer_typed t)
     \<and> all_rows (sDelegationEvents s) (delegation_typed t) \<and> all_rows (sVotes s) (vote_typed t)
     \<and> all_rows (sProposals s) (proposal_typed gt t) \<and> all_rows (sSeeds s) (\<lambda>k x. sd_id x = k)
     \<and> all_rows (sGovernance s) (\<lambda>k g. gv_id g = k) \<and> all_rows (sQuorumParams s) (\<lambda>k p. dq_id p = k)"

definition store_typed :: "graph_ts \<Rightarrow> string set \<Rightarrow> string set \<Rightarrow> Store \<Rightarrow> bool" where
  "store_typed gt N P s \<longleftrightarrow> rows_typed gt (tables_of N P s) s"

lemma row_typed_mono:
  assumes "tables_grow t t'"
  shows "account_typed t k a \<Longrightarrow> account_typed t' k a" "delegate_typed t k d \<Longrightarrow> delegate_typed t' k d"
    "noun_typed t k n \<Longrightarrow> noun_typed t' k n" "auction_typed t k au \<Longrightarrow> auction_typed t' k au"
    "bid_typed t k b \<Longrightarrow> bid_typed t' k b" "transfer_typed t k te \<Longrightarrow> transfer_typed t' k te"
    "delegation_typed t k de \<Longrightarrow> delegation_typed t' k de" "vote_typed t k v \<Longrightarrow> vote_typed t' k v"
    "proposal_typed gt t k p \<Longrightarrow> proposal_typed gt t' k p"
  using assms unfolding row_typed_defs tables_grow_def by (auto split: option.splits)

lemma rows_typed_mono: "rows_typed gt t s \<Longrightarrow> tables_grow t t' \<Longrightarrow> rows_typed gt t' s"
  unfolding rows_typed_def by (auto elim!: all_rows_mono intro: row_typed_mono)

section \<open>Saves\<close>

definition grows :: "Store \<Rightarrow> Store \<Rightarrow> bool" where
  "grows s s' \<longleftrightarrow> tables_grow (tables_of {} {} s) (tables_of {} {} s')"

lemma grows_refl [simp]: "grows s s"
  by (simp add: grows_def tables_grow_def)

lemma grows_trans [trans]: "grows s s' \<Longrightarrow> grows s' s'' \<Longrightarrow> grows s s''"
  unfolding grows_def tables_grow_def by auto

lemma grows_tables: "grows s s' \<Longrightarrow> tables_grow (tables_of N P s) (tables_of N P s')"
  unfolding grows_def tables_grow_def tables_of_def by auto

lemma grows_saves [simp]:
  "grows s (save_DelegationEvent k x1 s)" "grows s (save_TransferEvent k x2 s)" "grows s (save_Seed k x3 s)"
  "grows s (save_Noun k x4 s)" "grows s (save_Bid k x5 s)" "grows s (save_Auction k x6 s)"
  "grows s (save_Account k x7 s)" "grows s (save_Delegate k x8 s)" "grows s (save_Proposal k x9 s)"
  "grows s (save_Vote k x10 s)" "grows s (save_Governance x11 s)" "grows s (save_QuorumParams x12 s)"
  "grows s (log_error m s)"
  by (auto simp: grows_def tables_grow_def tables_of_def save_defs)

named_theorems typed_saves

lemma rows_typed_cong:
  assumes "store_typed gt N P s" "grows s s'"
  shows "rows_typed gt (tables_of N P s') s"
  using assms rows_typed_mono grows_tables unfolding store_typed_def by blast

lemma typed_save_Account [typed_saves]:
  assumes "store_typed gt N P s" "account_typed (tables_of N P s) k a"
  shows "store_typed gt N P (save_Account k a s)"
proof -
  have "grows s (save_Account k a s)" by simp
  note r = rows_typed_cong[OF assms(1) this] row_typed_mono(1)[OF grows_tables[OF this] assms(2)]
  then show ?thesis by (simp add: store_typed_def rows_typed_def all_rows_upd save_Account_def)
qed

lemma typed_save_Delegate [typed_saves]:
  assumes "store_typed gt N P s" "delegate_typed (tables_of N P s) k a"
  shows "store_typed gt N P (save_Delegate k a s)"
proof -
  have "grows s (save_Delegate k a s)" by simp
  note r = rows_typed_cong[OF assms(1) this] row_typed_mono(2)[OF grows_tables[OF this] assms(2)]
  then show ?thesis by (simp add: store_typed_def rows_typed_def all_rows_upd save_Delegate_def)
qed

text \<open>Saving a Noun that was promised.\<close>

lemma typed_save_Noun:
  assumes "store_typed gt (insert k N) P s" "noun_typed (tables_of (insert k N) P s) k a"
  shows "store_typed gt N P (save_Noun k a s)"
proof -
  have g: "grows s (save_Noun k a s)" by simp
  have eq: "tables_of (insert k N) P (save_Noun k a s) = tables_of N P (save_Noun k a s)"
    by (auto simp: tables_of_def save_defs)
  note r = rows_typed_cong[OF assms(1) g] row_typed_mono(3)[OF grows_tables[OF g] assms(2)]
  note r' = r[unfolded eq]
  from r' show ?thesis by (simp add: store_typed_def rows_typed_def all_rows_upd save_Noun_def)
qed

lemma typed_save_Auction [typed_saves]:
  assumes "store_typed gt N P s" "auction_typed (tables_of N P s) k a"
  shows "store_typed gt N P (save_Auction k a s)"
proof -
  have "grows s (save_Auction k a s)" by simp
  note r = rows_typed_cong[OF assms(1) this] row_typed_mono(4)[OF grows_tables[OF this] assms(2)]
  then show ?thesis by (simp add: store_typed_def rows_typed_def all_rows_upd save_Auction_def)
qed

lemma typed_save_Proposal:
  assumes "store_typed gt N (insert k P) s" "proposal_typed gt (tables_of N (insert k P) s) k a"
  shows "store_typed gt N P (save_Proposal k a s)"
proof -
  have g: "grows s (save_Proposal k a s)" by simp
  have eq: "tables_of N (insert k P) (save_Proposal k a s) = tables_of N P (save_Proposal k a s)"
    by (auto simp: tables_of_def save_defs)
  note r = rows_typed_cong[OF assms(1) g] row_typed_mono(9)[OF grows_tables[OF g] assms(2)]
  note r' = r[unfolded eq]
  from r' show ?thesis by (simp add: store_typed_def rows_typed_def all_rows_upd save_Proposal_def)
qed

text \<open>The other tables are referred to by no row.\<close>

lemma tables_of_leaf [simp]:
  "tables_of N P (save_Bid k x1 s) = tables_of N P s" "tables_of N P (save_TransferEvent k x2 s) = tables_of N P s"
  "tables_of N P (save_DelegationEvent k x3 s) = tables_of N P s" "tables_of N P (save_Vote k x4 s) = tables_of N P s"
  "tables_of N P (save_Governance x5 s) = tables_of N P s" "tables_of N P (save_QuorumParams x6 s) = tables_of N P s"
  "tables_of N P (log_error m s) = tables_of N P s"
  by (simp_all add: tables_of_def save_defs)

lemma typed_save_leaf [typed_saves]:
  assumes "store_typed gt N P s"
  shows "bid_typed (tables_of N P s) k b \<Longrightarrow> store_typed gt N P (save_Bid k b s)"
    "transfer_typed (tables_of N P s) k te \<Longrightarrow> store_typed gt N P (save_TransferEvent k te s)"
    "delegation_typed (tables_of N P s) k de \<Longrightarrow> store_typed gt N P (save_DelegationEvent k de s)"
    "vote_typed (tables_of N P s) k v \<Longrightarrow> store_typed gt N P (save_Vote k v s)"
    "gv_id g = ''GOVERNANCE'' \<Longrightarrow> store_typed gt N P (save_Governance g s)"
    "dq_id p = ''LATEST'' \<Longrightarrow> store_typed gt N P (save_QuorumParams p s)"
    "store_typed gt N P (log_error m s)"
  using assms by (simp_all add: store_typed_def rows_typed_def tables_of_leaf all_rows_upd del: fun_upd_apply)
     (simp_all add: save_defs all_rows_upd del: fun_upd_apply)

lemma typed_save_Seed [typed_saves]:
  assumes "store_typed gt N P s" "sd_id x = k"
  shows "store_typed gt N P (save_Seed k x s)"
proof -
  have "grows s (save_Seed k x s)" by simp
  note r = rows_typed_cong[OF assms(1) this]
  then show ?thesis using assms(2) by (simp add: store_typed_def rows_typed_def all_rows_upd save_Seed_def)
qed

lemma typed_rows:
  assumes "store_typed gt N P s"
  shows "sAccounts s k = Some a \<Longrightarrow> account_typed (tables_of N P s) k a"
    "sDelegates s k = Some d \<Longrightarrow> delegate_typed (tables_of N P s) k d"
    "sNouns s k = Some n \<Longrightarrow> noun_typed (tables_of N P s) k n"
    "sAuctions s k = Some au \<Longrightarrow> auction_typed (tables_of N P s) k au"
    "sProposals s k = Some p \<Longrightarrow> proposal_typed gt (tables_of N P s) k p"
    "gv_id (getGovernanceEntity s) = ''GOVERNANCE''"
    "sQuorumParams s ''LATEST'' = Some q \<Longrightarrow> dq_id q = ''LATEST''"
  using assms by (auto simp: store_typed_def rows_typed_def getGovernanceEntity_def new_Governance_def
      dest: all_rowsD split: option.split)

lemma promised_nouns: "store_typed gt N P s \<Longrightarrow> N \<subseteq> N' \<Longrightarrow> P \<subseteq> P' \<Longrightarrow> store_typed gt N' P' s"
  unfolding store_typed_def
  by (erule rows_typed_mono) (auto simp: tables_grow_def tables_of_def)

section \<open>Helpers\<close>

lemma typed_getOrCreateAccount:
  assumes "store_typed gt N P s" "getOrCreateAccount k s = (a, s')"
  shows "store_typed gt N P s'" "grows s s'" "account_typed (tables_of N P s') k a" "k \<in> t_accounts (tables_of N P s')"
proof -
  have new: "account_typed t k (new_Account k)" for t by (simp add: account_typed_def new_Account_def)
  have s': "store_typed gt N P s' \<and> grows s s' \<and> sAccounts s' k = Some a"
    using assms new by (auto simp: getOrCreateAccount_eq typed_saves accounts.load_save_same split: option.splits)
  then show "store_typed gt N P s'" "grows s s'" "account_typed (tables_of N P s') k a"
    using typed_rows(1) by blast+
  show "k \<in> t_accounts (tables_of N P s')" using s' by (auto simp: tables_of_def)
qed

lemma typed_getOrCreateDelegate:
  assumes "store_typed gt N P s" "getOrCreateDelegate k s = (d, s')"
  shows "store_typed gt N P s'" "grows s s'" "delegate_typed (tables_of N P s') k d" "k \<in> t_delegates (tables_of N P s')"
proof -
  have new: "delegate_typed t k (new_Delegate k)" for t by (simp add: delegate_typed_def new_Delegate_def)
  have gov: "store_typed gt N P (save_Governance (getGovernanceEntity s\<lparr>gv_totalDelegates := x\<rparr>) s)" for x
    using assms(1) by (intro typed_saves) (simp_all add: typed_rows)
  have step: "grows s1 (save_Delegate k e (save_Governance g s1))" for e g s1
    by (rule grows_trans[of _ "save_Governance g s1"]) simp_all
  have s': "store_typed gt N P s' \<and> grows s s' \<and> sDelegates s' k = Some d"
    using assms new gov step
    by (auto simp: getOrCreateDelegate_eq typed_saves delegates.load_save_same split: option.splits if_splits)
  then show "store_typed gt N P s'" "grows s s'" "delegate_typed (tables_of N P s') k d"
    using typed_rows(2) by blast+
  show "k \<in> t_delegates (tables_of N P s')" using s' by (auto simp: tables_of_def)
qed

lemma typed_accounted_delegate:
  assumes "store_typed gt N P s" "accounted_delegate k wher meta s = (d, s')"
  shows "store_typed gt N P s'" "grows s s'" "delegate_typed (tables_of N P s') k d" "k \<in> t_delegates (tables_of N P s')"
proof -
  define s1 where "s1 = (if sDelegates s k = None then log_error (delegate_not_found k wher meta) s else s)"
  have "getOrCreateDelegate k s1 = (d, s')"
    using assms(2) by (auto simp: s1_def accounted_delegate_def getOrCreateDelegateWithNullOption_def Let_def split: option.splits)
  moreover have "store_typed gt N P s1" "grows s s1" using assms(1) by (simp_all add: s1_def typed_saves)
  ultimately show "store_typed gt N P s'" "grows s s'" "delegate_typed (tables_of N P s') k d"
    "k \<in> t_delegates (tables_of N P s')"
    using typed_getOrCreateDelegate[of gt N P s1 k d s'] grows_trans[of s s1 s'] by simp_all
qed

definition fresh_ids :: "graph_ts \<Rightarrow> bool" where
  "fresh_ids gt \<longleftrightarrow> (\<forall>k. pr_id (freshProposal gt k) = k)"

lemma typed_getOrCreateProposal:
  assumes "fresh_ids gt" "store_typed gt N P s" "getOrCreateProposal gt k s = (p, s')"
  shows "store_typed gt N P s'" "grows s s'" "proposal_typed gt (tables_of N P s') k p"
proof -
  have "store_typed gt N P (save_Governance (getGovernanceEntity s\<lparr>gv_proposals := x\<rparr>) s)" for x
    using assms(2) by (intro typed_saves) (simp_all add: typed_rows)
  then have "store_typed gt N P s' \<and> grows s s'"
    using assms(2,3) by (auto simp: getOrCreateProposal_eq split: option.splits)
  then show "store_typed gt N P s'" "grows s s'" by simp_all
  moreover have "proposal_typed gt t k (freshProposal gt k)" for t
    using assms(1) by (simp add: proposal_typed_def fresh_ids_def)
  ultimately show "proposal_typed gt (tables_of N P s') k p"
    using assms(3) typed_rows(5)[of gt N P s'] getOrCreateProposal_facts[OF assms(3)] by (auto split: option.splits)
qed

lemma typed_getOrCreateDynamicQuorumParams:
  assumes "store_typed gt N P s" "getOrCreateDynamicQuorumParams b s = (q, s')"
  shows "store_typed gt N P s'" "grows s s'" "dq_id q = ''LATEST''"
proof -
  define p1 where "p1 = (case sQuorumParams s ''LATEST'' of None \<Rightarrow> new_QuorumParams b | Some p \<Rightarrow> p)"
  define s1 where "s1 = (case sQuorumParams s ''LATEST'' of None \<Rightarrow> save_QuorumParams (new_QuorumParams b) s | Some p \<Rightarrow> s)"
  have id1: "dq_id p1 = ''LATEST''"
    using typed_rows(7)[OF assms(1)] by (simp add: p1_def new_QuorumParams_def split: option.split)
  have t1: "store_typed gt N P s1" "grows s s1"
    using assms(1) by (auto simp: s1_def new_QuorumParams_def intro!: typed_saves split: option.split)
  have e: "(q, s') = (if dq_dynamicQuorumStartBlock p1 = None \<and> b \<noteq> None
         then (p1\<lparr>dq_dynamicQuorumStartBlock := b\<rparr>, save_QuorumParams (p1\<lparr>dq_dynamicQuorumStartBlock := b\<rparr>) s1) else (p1, s1))"
    using assms(2) unfolding getOrCreateDynamicQuorumParams_def p1_def s1_def Let_def
    by (cases "sQuorumParams s ''LATEST''") (auto simp: Let_def split: if_splits)
  show "dq_id q = ''LATEST''" using e id1 by (simp split: if_splits)
  show "store_typed gt N P s'" using e id1 t1 by (auto intro: typed_saves split: if_splits)
  show "grows s s'" using e t1 grows_trans[of s s1] by (simp split: if_splits)
qed

section \<open>Auction handlers\<close>

lemma typed_auction_created: "store_typed gt {} {} s \<Longrightarrow> store_typed gt {} {} (handleAuctionCreated m e s)"
  using typed_rows(3)[of gt "{}" "{}" s "int_to_dec (ac_unounId e)"]
  by (auto simp: handleAuctionCreated_def Let_def auction_typed_def tables_of_def noun_typed_def
      intro!: typed_saves split: option.split)

lemma typed_auction_changed:
  assumes "store_typed gt {} {} s" "sAuctions s k = Some a"
  shows "store_typed gt {} {} (save_Auction k (a\<lparr>au_endTime := x\<rparr>) s)" "store_typed gt {} {} (save_Auction k (a\<lparr>au_settled := y\<rparr>) s)"
  using assms typed_rows(4)[OF assms] by (auto simp: auction_typed_def intro!: typed_saves)

lemma typed_auction_later:
  "store_typed gt {} {} s \<Longrightarrow> store_typed gt {} {} (handleAuctionExtended m e s)"
  "store_typed gt {} {} s \<Longrightarrow> store_typed gt {} {} (handleAuctionSettled m e' s)"
  by (auto simp: handleAuctionExtended_def handleAuctionSettled_def Let_def typed_auction_changed
      intro: typed_saves split: option.split)

lemma typed_bid:
  assumes s: "store_typed gt {} {} s"
  shows "store_typed gt {} {} (handleAuctionBid m e s)"
proof -
  obtain b s1 where acc: "getOrCreateAccount (ab_sender e) s = (b, s1)" by (cases "getOrCreateAccount (ab_sender e) s")
  note f = typed_getOrCreateAccount[OF s acc]
  let ?k = "int_to_dec (ab_unounId e)"
  show ?thesis
  proof (cases "sAuctions s1 ?k")
    case None
    then show ?thesis using f acc by (simp add: handleAuctionBid_def typed_saves)
  next
    case (Some a)
    define a' where "a' = a\<lparr>au_amount := ab_value e, au_bidder := Some (acc_id b)\<rparr>"
    have a': "auction_typed (tables_of {} {} s1) ?k a'"
      using typed_rows(4)[OF f(1) Some] f(3,4) by (simp add: auction_typed_def account_typed_def a'_def)
    have s2: "store_typed gt {} {} (save_Auction ?k a' s1)" by (rule typed_save_Auction[OF f(1) a'])
    have bidder: "acc_id b \<in> t_accounts (tables_of {} {} s1)" using f(3,4) by (simp add: account_typed_def)
    have ids: "au_noun a' \<in> t_nouns (tables_of {} {} s1)" "au_id a' = ?k" using a' by (simp_all add: auction_typed_def)
    have eq: "handleAuctionBid m e s = save_Bid (tx_hash m)
                \<lparr>bid_id = tx_hash m, bid_noun = au_noun a', bid_amount = au_amount a',
                 bid_bidder = Some (acc_id b), bid_blockNumber = block_number m, bid_txIndex = tx_index m,
                 bid_auction = au_id a', bid_blockTimestamp = block_timestamp m\<rparr> (save_Auction ?k a' s1)"
      using Some acc by (simp add: handleAuctionBid_def a'_def Let_def)
    show ?thesis unfolding eq
      by (rule typed_save_leaf(1)[OF s2]) (use bidder ids in \<open>simp add: bid_typed_def tables_of_def save_defs\<close>)
  qed
qed

section \<open>Governor handlers\<close>

lemma typed_proposal_later:
  "proposal_typed gt (tables_of N P s) k p \<Longrightarrow> grows s s' \<Longrightarrow> proposal_typed gt (tables_of N P s') k p"
  by (rule row_typed_mono(9)[OF grows_tables])

lemma typed_promise: "store_typed gt {} {} s \<Longrightarrow> store_typed gt {n} {} s" "store_typed gt {} {} s \<Longrightarrow> store_typed gt {} {k} s"
  by (erule promised_nouns; simp)+

lemma typed_status_handlers:
  assumes gt: "fresh_ids gt" and s: "store_typed gt {} {} s"
  shows "store_typed gt {} {} (handleProposalCanceled gt i s)" "store_typed gt {} {} (handleProposalVetoed gt i s)"
    "store_typed gt {} {} (handleProposalQueued gt i eta s)" "store_typed gt {} {} (handleProposalExecuted gt i s)"
proof -
  let ?k = "int_to_dec i"
  obtain p s1 where p: "getOrCreateProposal gt ?k s = (p, s1)" by (cases "getOrCreateProposal gt ?k s")
  note f = typed_getOrCreateProposal[OF gt typed_promise(2)[OF s, of ?k] p]
  have saved: "store_typed gt {} {} (save_Proposal ?k q s1)" if "pr_id q = pr_id p" "pr_proposer q = pr_proposer p" for q
    by (rule typed_save_Proposal[OF f(1)]) (use f(3) that in \<open>simp add: proposal_typed_def\<close>)
  have gov: "gv_id (getGovernanceEntity s) = ''GOVERNANCE''" by (rule typed_rows(6)[OF s])
  show "store_typed gt {} {} (handleProposalCanceled gt i s)" "store_typed gt {} {} (handleProposalVetoed gt i s)"
    using saved by (simp_all add: handleProposalCanceled_def handleProposalVetoed_def p)
  show "store_typed gt {} {} (handleProposalQueued gt i eta s)" "store_typed gt {} {} (handleProposalExecuted gt i s)"
    using saved gov by (simp_all add: handleProposalQueued_def handleProposalExecuted_def p Let_def typed_saves)
qed

lemma typed_quorum_handlers:
  assumes s: "store_typed gt {} {} s"
  shows "store_typed gt {} {} (handleMinQuorumVotesBPSSet m w s)" "store_typed gt {} {} (handleMaxQuorumVotesBPSSet m w s)"
    "store_typed gt {} {} (handleQuorumCoefficientSet m c s)"
proof -
  obtain q s1 where q: "getOrCreateDynamicQuorumParams (Some (block_number m)) s = (q, s1)"
    by (cases "getOrCreateDynamicQuorumParams (Some (block_number m)) s")
  note f = typed_getOrCreateDynamicQuorumParams[OF s q]
  show "store_typed gt {} {} (handleMinQuorumVotesBPSSet m w s)" "store_typed gt {} {} (handleMaxQuorumVotesBPSSet m w s)"
    "store_typed gt {} {} (handleQuorumCoefficientSet m c s)"
    using f by (simp_all add: handleMinQuorumVotesBPSSet_def handleMaxQuorumVotesBPSSet_def handleQuorumCoefficientSet_def q typed_saves)
qed

lemma typed_proposal_created:
  assumes gt: "fresh_ids gt" and s: "store_typed gt {} {} s"
  shows "store_typed gt {} {} (handleProposalCreatedWithRequirements gt m e s)"
proof -
  let ?k = "int_to_dec (pc_id e)"
  obtain p s1 where p: "getOrCreateProposal gt ?k s = (p, s1)" by (cases "getOrCreateProposal gt ?k s")
  note f = typed_getOrCreateProposal[OF gt typed_promise(2)[OF s, of ?k] p]
  obtain d s2 where d: "accounted_delegate (pc_proposer e) ''ProposalCreated'' m s1 = (d, s2)"
    by (cases "accounted_delegate (pc_proposer e) ''ProposalCreated'' m s1")
  note g = typed_accounted_delegate[OF f(1) d]
  obtain q s3 where q: "getOrCreateDynamicQuorumParams None s2 = (q, s3)"
    by (cases "getOrCreateDynamicQuorumParams None s2")
  note h = typed_getOrCreateDynamicQuorumParams[OF g(1) q]
  have "dg_id d \<in> t_delegates (tables_of {} {?k} s3)"
    using g(3,4) grows_tables[OF h(2), of "{}" "{?k}"] by (auto simp: delegate_typed_def tables_grow_def)
  moreover have "pr_id p = ?k" using f(3) by (simp add: proposal_typed_def)
  ultimately have "store_typed gt {} {} (save_Proposal ?k x s3)"
    if "pr_id x = pr_id p" "pr_proposer x = dg_id d" for x
    using that by (intro typed_save_Proposal[OF h(1)]) (simp add: proposal_typed_def)
  then show ?thesis by (simp add: handleProposalCreatedWithRequirements_def p d q Let_def)
qed

lemma typed_vote:
  assumes gt: "fresh_ids gt" and s: "store_typed gt {} {} s" and run: "handleVoteCast gt m e s = Some s'"
  shows "store_typed gt {} {} s'"
proof -
  let ?k = "int_to_dec (vc_proposalId e)"
  obtain p s1 where p: "getOrCreateProposal gt ?k s = (p, s1)" by (cases "getOrCreateProposal gt ?k s")
  note f = typed_getOrCreateProposal[OF gt typed_promise(2)[OF s, of ?k] p]
  obtain d s2 where d: "accounted_delegate (vc_voter e) ''VoteCast'' m s1 = (d, s2)"
    by (cases "accounted_delegate (vc_voter e) ''VoteCast'' m s1")
  note g = typed_accounted_delegate[OF f(1) d]
  define v where "v = \<lparr>vt_id = vc_voter e @ ''-'' @ ?k, vt_support = (vc_support e = 1), vt_supportDetailed = vc_support e,
    vt_votesRaw = vc_votes e, vt_votes = vc_votes e,
    vt_reason = (if vc_reason e \<noteq> '''' then Some (vc_reason e)
      else (case getOrCreateVote (vc_voter e @ ''-'' @ ?k) s1 of None \<Rightarrow> None | Some v \<Rightarrow> vt_reason v)),
    vt_voter = dg_id d, vt_nouns = dg_nounsRepresented d, vt_proposal = pr_id p, vt_blockNumber = block_number m\<rparr>"
  have v: "vt_id v = vc_voter e @ ''-'' @ ?k" "vt_voter v = dg_id d" "vt_nouns v = dg_nounsRepresented d"
    "vt_proposal v = pr_id p" by (simp_all add: v_def)
  obtain q s4 where q: "getOrCreateDynamicQuorumParams None (save_Vote (vc_voter e @ ''-'' @ ?k) v s2) = (q, s4)"
    by (cases "getOrCreateDynamicQuorumParams None (save_Vote (vc_voter e @ ''-'' @ ?k) v s2)")
  obtain x where s': "s' = save_Proposal ?k (let p2 = (add_votes (vc_support e) (vc_votes e) p)\<lparr>pr_quorumVotes := x\<rparr>
            in if pr_status p2 = PENDING then p2\<lparr>pr_status := ACTIVE\<rparr> else p2) s4"
    using run q[unfolded v_def] unfolding handleVoteCast_def Let_def p prod.case d
    by (simp only: prod.case) auto
  have pid: "pr_id p = ?k" using f(3) by (simp add: proposal_typed_def)
  have "vote_typed (tables_of {} {?k} s2) (vc_voter e @ ''-'' @ ?k) v"
    using v g(3,4) pid by (simp add: vote_typed_def delegate_typed_def tables_of_def)
  then have s3: "store_typed gt {} {?k} (save_Vote (vc_voter e @ ''-'' @ ?k) v s2)" by (rule typed_save_leaf(4)[OF g(1)])
  note h = typed_getOrCreateDynamicQuorumParams[OF s3 q]
  have "grows s1 s4" using g(2) h(2) grows_trans[of s2 "save_Vote (vc_voter e @ ''-'' @ ?k) v s2" s4] grows_trans[of s1 s2 s4] by simp
  then have p4: "proposal_typed gt (tables_of {} {?k} s4) ?k p" by (rule typed_proposal_later[OF f(3)])
  show ?thesis unfolding s'
    by (rule typed_save_Proposal[OF h(1)]) (use p4 in \<open>simp add: proposal_typed_def Let_def add_votes_def\<close>)
qed

section \<open>Token handlers\<close>

lemma typed_noun_created:
  assumes "store_typed gt {} {} s"
  shows "store_typed gt {} {} (handleNounCreated m e s)"
proof -
  let ?k = "int_to_dec (nc_tokenId e)"
  define x where "x = \<lparr>sd_id = ?k, sd_background = nc_background e, sd_body = nc_body e, sd_accessory = nc_accessory e,
    sd_head = nc_head e, sd_glasses = nc_glasses e\<rparr>"
  have s1: "store_typed gt {} {} (save_Seed ?k x s)" by (rule typed_save_Seed[OF assms]) (simp add: x_def)
  show ?thesis
  proof (cases "sNouns (save_Seed ?k x s) ?k")
    case None
    then show ?thesis using s1 by (simp add: handleNounCreated_def x_def Let_def typed_saves)
  next
    case (Some n)
    note n = typed_rows(3)[OF typed_promise(1)[OF s1, of ?k] Some]
    have "?k \<in> t_seeds (tables_of {?k} {} (save_Seed ?k x s))" by (simp add: tables_of_def save_defs)
    then have "store_typed gt {} {} (save_Noun ?k (n\<lparr>noun_seed := Some ?k\<rparr>) (save_Seed ?k x s))"
      by (intro typed_save_Noun typed_promise(1)[OF s1]) (use n in \<open>simp add: noun_typed_def\<close>)
    then show ?thesis using Some by (simp add: handleNounCreated_def x_def Let_def)
  qed
qed

lemma typed_delegate_votes:
  assumes s: "store_typed gt {} {} s"
  shows "store_typed gt {} {} (handleDelegateVotesChanged e s)"
proof -
  obtain d s1 where d: "getOrCreateDelegate (dv_delegate e) s = (d, s1)" by (cases "getOrCreateDelegate (dv_delegate e) s")
  note f = typed_getOrCreateDelegate[OF s d]
  have "store_typed gt {} {} (save_Delegate (dv_delegate e) (d\<lparr>dg_delegatedVotesRaw := x, dg_delegatedVotes := x\<rparr>) s1)" for x
    by (rule typed_save_Delegate[OF f(1)]) (use f(3) in \<open>simp add: delegate_typed_def\<close>)
  then show ?thesis
    using typed_rows(6)[OF s] by (simp add: handleDelegateVotesChanged_def d Let_def typed_saves)
qed

lemma typed_later:
  assumes "grows s s'"
  shows "account_typed (tables_of N P s) k a \<Longrightarrow> account_typed (tables_of N P s') k a"
    "delegate_typed (tables_of N P s) k d \<Longrightarrow> delegate_typed (tables_of N P s') k d"
    "x \<in> t_accounts (tables_of N P s) \<Longrightarrow> x \<in> t_accounts (tables_of N P s')"
    "x \<in> t_delegates (tables_of N P s) \<Longrightarrow> x \<in> t_delegates (tables_of N P s')"
  using row_typed_mono(1,2)[OF grows_tables[OF assms]] grows_tables[OF assms, of N P]
  by (auto simp: tables_grow_def)

lemma typed_delegation_events:
  assumes "store_typed gt N P s" "set ns \<subseteq> t_nouns (tables_of N P s)" "new \<in> t_delegates (tables_of N P s)"
  shows "store_typed gt N P (save_delegation_events m prev new ns s)"
  using assms by (induction ns arbitrary: s) (simp_all add: typed_saves delegation_typed_def)

lemma typed_delegate_changed:
  assumes s: "store_typed gt {} {} s" and named: "dc_toDelegate e \<noteq> ''''"
  shows "store_typed gt {} {} (handleDelegateChanged m e s)"
proof -
  obtain a s1 where a: "getOrCreateAccount (dc_delegator e) s = (a, s1)" by (cases "getOrCreateAccount (dc_delegator e) s")
  note f = typed_getOrCreateAccount[OF s a]
  obtain d s2 where d: "getOrCreateDelegate (dc_fromDelegate e) s1 = (d, s2)" by (cases "getOrCreateDelegate (dc_fromDelegate e) s1")
  note g = typed_getOrCreateDelegate[OF f(1) d]
  obtain d' s3 where d': "getOrCreateDelegate (dc_toDelegate e) s2 = (d', s3)" by (cases "getOrCreateDelegate (dc_toDelegate e) s2")
  note h = typed_getOrCreateDelegate[OF g(1) d']
  have id': "dg_id d' = dc_toDelegate e" using h(3) by (simp add: delegate_typed_def)
  have a3: "account_typed (tables_of {} {} s3) (dc_delegator e) a"
    by (rule typed_later(1)[OF grows_trans[OF g(2) h(2)] f(3)])
  define s4 where "s4 = save_Account (dc_delegator e) (a\<lparr>acc_delegate := Some (dg_id d')\<rparr>) s3"
  have t4: "store_typed gt {} {} s4" "grows s3 s4"
    using a3 h(4) id' by (auto simp: s4_def account_typed_def intro: typed_save_Account[OF h(1)])
  have nouns: "set (acc_nouns a) \<subseteq> t_nouns (tables_of {} {} s4)"
    using typed_later(1)[OF t4(2) a3] by (simp add: account_typed_def)
  define p where "p = d\<lparr>dg_tokenHoldersRepresentedAmount := dg_tokenHoldersRepresentedAmount d - 1,
     dg_nounsRepresented := filter (\<lambda>n. n \<notin> set (acc_nouns a)) (dg_nounsRepresented d)\<rparr>"
  define q where "q = d'\<lparr>dg_tokenHoldersRepresentedAmount := dg_tokenHoldersRepresentedAmount d' + 1,
     dg_nounsRepresented := dg_nounsRepresented d' @ acc_nouns a\<rparr>"
  have "delegate_typed (tables_of {} {} s4) (dc_fromDelegate e) p"
    using typed_later(2)[OF grows_trans[OF h(2) t4(2)] g(3)] by (auto simp: delegate_typed_def p_def)
  then have t5: "store_typed gt {} {} (save_Delegate (dc_fromDelegate e) p s4)" by (rule typed_save_Delegate[OF t4(1)])
  have "delegate_typed (tables_of {} {} s4) (dc_toDelegate e) q"
    using typed_later(2)[OF t4(2) h(3)] nouns by (auto simp: delegate_typed_def q_def)
  then have "delegate_typed (tables_of {} {} (save_Delegate (dc_fromDelegate e) p s4)) (dc_toDelegate e) q"
    by (rule typed_later(2)[rotated]) simp
  then have t6: "store_typed gt {} {} (save_Delegate (dc_toDelegate e) q (save_Delegate (dc_fromDelegate e) p s4))"
    by (rule typed_save_Delegate[OF t5])
  have "set (acc_nouns a) \<subseteq> t_nouns (tables_of {} {} (save_Delegate (dc_toDelegate e) q (save_Delegate (dc_fromDelegate e) p s4)))"
    using nouns by (auto simp: tables_of_def save_defs)
  moreover have "dc_toDelegate e \<in> t_delegates (tables_of {} {} (save_Delegate (dc_toDelegate e) q (save_Delegate (dc_fromDelegate e) p s4)))"
    by (simp add: tables_of_def save_defs)
  ultimately have saved: "store_typed gt {} {} (save_delegation_events m prev (dc_toDelegate e) (acc_nouns a)
      (save_Delegate (dc_toDelegate e) q (save_Delegate (dc_fromDelegate e) p s4)))" for prev
    by (rule typed_delegation_events[OF t6])
  have "handleDelegateChanged m e s = save_delegation_events m
      (if dg_id p \<noteq> '''' then dg_id p else acc_id a) (dc_toDelegate e) (acc_nouns a)
      (save_Delegate (dc_toDelegate e) q (save_Delegate (dc_fromDelegate e) p s4))"
    using named id' by (simp add: handleDelegateChanged_def a d d' p_def q_def s4_def Let_def)
  then show ?thesis using saved by simp
qed

lemma typed_count_holder:
  assumes "store_typed gt N P s" "gv_id g = ''GOVERNANCE''" "count_holder x y (g, s) = (g', s')"
  shows "store_typed gt N P s'" "gv_id g' = ''GOVERNANCE''" "tables_of N P s' = tables_of N P s"
  using assms by (auto simp: count_holder_def Let_def typed_saves split: if_splits)

lemma typed_debit:
  assumes s: "store_typed gt N P s" and a: "account_typed (tables_of N P s) k a" and g: "gv_id g = ''GOVERNANCE''"
    and eq: "debit_holder n k a g s = (h, g', s')"
  shows "store_typed gt N P s'" "grows s s'" "gv_id g' = ''GOVERNANCE''"
proof -
  define s1 where "s1 = (case acc_delegate a of None \<Rightarrow> s | Some d \<Rightarrow> (let (dl, s') = getOrCreateDelegate d s
     in save_Delegate d (dl\<lparr>dg_nounsRepresented := filter (\<lambda>m. m \<noteq> n) (dg_nounsRepresented dl)\<rparr>) s'))"
  have t1: "store_typed gt N P s1 \<and> grows s s1"
  proof (cases "acc_delegate a")
    case None then show ?thesis using s by (simp add: s1_def)
  next
    case (Some d)
    obtain dl s2 where d: "getOrCreateDelegate d s = (dl, s2)" by (cases "getOrCreateDelegate d s")
    note f = typed_getOrCreateDelegate[OF s d]
    have "delegate_typed (tables_of N P s2) d (dl\<lparr>dg_nounsRepresented := filter (\<lambda>m. m \<noteq> n) (dg_nounsRepresented dl)\<rparr>)"
      using f(3) by (auto simp: delegate_typed_def)
    then show ?thesis using Some d typed_save_Delegate[OF f(1)] grows_trans[OF f(2)] by (simp add: s1_def)
  qed
  define s2 where "s2 = (if acc_tokenBalanceRaw a - 1 < 0
    then log_error (''Negative balance on holder '' @ acc_id a @ '' with balance '' @ int_to_dec (acc_tokenBalanceRaw a - 1)) s1 else s1)"
  have t2: "store_typed gt N P s2" "grows s s2"
    using t1 grows_trans[of s s1] by (auto simp: s2_def typed_saves)
  obtain g2 s3 where c: "count_holder (acc_tokenBalanceRaw a) (acc_tokenBalanceRaw a - 1) (g, s2) = (g2, s3)"
    by (cases "count_holder (acc_tokenBalanceRaw a) (acc_tokenBalanceRaw a - 1) (g, s2)")
  note f = typed_count_holder[OF t2(1) g c]
  have c3: "grows s2 s3" using c by (auto simp: count_holder_def Let_def split: if_splits)
  have e: "g' = g2 \<and> s' = save_Account k h s3 \<and> acc_id h = acc_id a \<and> set (acc_nouns h) \<subseteq> set (acc_nouns a)
      \<and> (acc_delegate h = acc_delegate a \<or> acc_delegate h = None)"
    using eq c by (auto simp: debit_holder_def s1_def s2_def Let_def split: if_splits)
  have "account_typed (tables_of N P s3) k h"
    using typed_later(1)[OF grows_trans[OF t2(2) c3] a] e by (auto simp: account_typed_def split: option.splits)
  then show "store_typed gt N P s'" using e typed_save_Account[OF f(1)] by simp
  show "grows s s'" using e grows_trans[OF grows_trans[OF t2(2) c3]] by simp
  show "gv_id g' = ''GOVERNANCE''" using e f(2) by simp
qed

text \<open>The delegation event of a transfer may be saved after its new delegate: the two do not meet.\<close>

lemma delegate_after_event:
  "getOrCreateDelegate k (save_DelegationEvent i x s)
    = (fst (getOrCreateDelegate k s), save_DelegationEvent i x (snd (getOrCreateDelegate k s)))"
  by (simp add: getOrCreateDelegate_eq save_defs getGovernanceEntity_def split: option.split)

lemma typed_credit:
  assumes "account_typed t k a" "n \<in> t_nouns t"
  shows "account_typed t k (credit_holder n a)"
  using assms by (auto simp: account_typed_def credit_holder_def Let_def)

lemma typed_transfer:
  assumes s: "store_typed gt {} {} s"
  shows "store_typed gt {} {} (handleTransfer m e s)"
proof -
  let ?n = "int_to_dec (tr_tokenId e)"
  let ?i = "tx_hash m @ ''_'' @ ?n"
  obtain a s1 where a: "getOrCreateAccount (tr_from e) s = (a, s1)" by (cases "getOrCreateAccount (tr_from e) s")
  note f = typed_getOrCreateAccount[OF typed_promise(1)[OF s, of ?n] a]
  obtain b s2 where b: "getOrCreateAccount (tr_to e) s1 = (b, s2)" by (cases "getOrCreateAccount (tr_to e) s1")
  note g = typed_getOrCreateAccount[OF f(1) b]
  have a2: "account_typed (tables_of {?n} {} s2) (tr_from e) a" "tr_from e \<in> t_accounts (tables_of {?n} {} s2)"
    using typed_later(1,3)[OF g(2)] f(3,4) by blast+
  define gov where "gov = getGovernanceEntity s2"
  have gov: "gv_id gov = ''GOVERNANCE''" using typed_rows(6)[OF g(1)] by (simp add: gov_def)
  define te where "te = \<lparr>te_id = ?i, te_noun = ?n, te_previousHolder = acc_id a, te_newHolder = acc_id b,
    te_blockNumber = block_number m, te_blockTimestamp = block_timestamp m\<rparr>"
  define s3 where "s3 = save_TransferEvent ?i te s2"
  have "transfer_typed (tables_of {?n} {} s2) ?i te"
    using a2 g(3,4) by (simp add: te_def transfer_typed_def account_typed_def) (simp add: tables_of_def)
  then have t3: "store_typed gt {?n} {} s3" "grows s2 s3" "account_typed (tables_of {?n} {} s3) (tr_from e) a"
    using a2(1) typed_save_leaf(2)[OF g(1)] by (simp_all add: s3_def)
  obtain a' g1 s4 where br: "(if tr_from e = ZERO_ADDRESS
      then (let x = gov\<lparr>gv_totalTokenHolders := gv_totalTokenHolders gov + BIGINT_ONE\<rparr> in (a, x, save_Governance x s3))
      else debit_holder ?n (tr_from e) a gov s3) = (a', g1, s4)"
    by (metis prod_cases3)
  have t4: "store_typed gt {?n} {} s4 \<and> grows s3 s4 \<and> gv_id g1 = ''GOVERNANCE''"
  proof (cases "tr_from e = ZERO_ADDRESS")
    case True then show ?thesis using br t3 gov by (auto simp: Let_def typed_saves)
  next
    case False
    then show ?thesis using br typed_debit[OF t3(1,3) gov, of ?n a' g1 s4] by simp
  qed
  define gs where "gs = (if tr_to e = ZERO_ADDRESS
     then (let x = g1\<lparr>gv_totalTokenHolders := gv_totalTokenHolders g1 - BIGINT_ONE\<rparr> in (x, save_Governance x s4)) else (g1, s4))"
  obtain g2 s5 where gs': "gs = (g2, s5)" by (cases gs)
  have t5: "store_typed gt {?n} {} s5 \<and> grows s4 s5 \<and> gv_id g2 = ''GOVERNANCE''"
    using t4 gs' by (auto simp: gs_def Let_def typed_saves split: if_splits)
  let ?d = "delegate_or_self b"
  define de where "de = \<lparr>de_id = ?i, de_noun = ?n, de_previousDelegate = delegate_or_self a', de_newDelegate = ?d,
    de_blockNumber = block_number m, de_blockTimestamp = block_timestamp m\<rparr>"
  obtain d s6 where d: "getOrCreateDelegate ?d s5 = (d, s6)" by (cases "getOrCreateDelegate ?d s5")
  have h: "store_typed gt {?n} {} s6" "grows s5 s6" "delegate_typed (tables_of {?n} {} s6) ?d d" "?d \<in> t_delegates (tables_of {?n} {} s6)"
    using typed_getOrCreateDelegate[OF _ d] t5 by blast+
  define s7 where "s7 = save_DelegationEvent ?i de s6"
  have "delegation_typed (tables_of {?n} {} s6) ?i de"
    using h(4) by (simp add: de_def delegation_typed_def) (simp add: tables_of_def)
  then have t7: "store_typed gt {?n} {} s7" "tables_of {?n} {} s7 = tables_of {?n} {} s6" "grows s6 s7"
    using typed_save_leaf(3)[OF h(1)] by (simp_all add: s7_def)
  define s8 where "s8 = save_Delegate ?d (d\<lparr>dg_nounsRepresented := dg_nounsRepresented d @ [?n]\<rparr>) s7"
  have "delegate_typed (tables_of {?n} {} s7) ?d (d\<lparr>dg_nounsRepresented := dg_nounsRepresented d @ [?n]\<rparr>)"
    using h(3) t7(2) by (simp add: delegate_typed_def) (simp add: tables_of_def)
  then have t8: "store_typed gt {?n} {} s8" "grows s7 s8"
    unfolding s8_def by (rule typed_save_Delegate[OF t7(1)]) simp
  have "grows s2 s8" using t3(2) t4 t5 h(2) t7(3) t8(2) by (meson grows_trans)
  then have b8: "account_typed (tables_of {?n} {} s8) (tr_to e) b" "tr_to e \<in> t_accounts (tables_of {?n} {} s8)"
    using typed_later(1,3) g(3,4) by blast+
  let ?b = "credit_holder ?n b"
  obtain g3 s9 where c: "count_holder (acc_tokenBalanceRaw b) (acc_tokenBalanceRaw ?b) (g2, s8) = (g3, s9)"
    by (cases "count_holder (acc_tokenBalanceRaw b) (acc_tokenBalanceRaw ?b) (g2, s8)")
  note k = typed_count_holder[OF t8(1) _ c]
  have t9: "store_typed gt {?n} {} s9" "account_typed (tables_of {?n} {} s9) (tr_to e) ?b"
    "acc_id ?b \<in> t_accounts (tables_of {?n} {} s9)"
    using k t5 b8 typed_credit[OF b8(1), of ?n] by (auto simp: account_typed_def tables_of_def)
  define nn where "nn = (case sNouns s9 ?n of None \<Rightarrow> \<lparr>noun_id = ?n, noun_seed = None, noun_owner = acc_id ?b\<rparr>
     | Some x \<Rightarrow> x\<lparr>noun_owner := acc_id ?b\<rparr>)"
  have "noun_typed (tables_of {?n} {} s9) ?n nn"
    using t9(3) typed_rows(3)[OF t9(1), of ?n] by (auto simp: nn_def noun_typed_def split: option.split)
  then have t10: "store_typed gt {} {} (save_Noun ?n nn s9)" by (intro typed_save_Noun t9(1))

  have "account_typed (tables_of {} {} (save_Noun ?n nn s9)) (tr_to e) ?b"
    using t9(2) by (auto simp: account_typed_def tables_of_def save_defs split: option.splits)
  then have "store_typed gt {} {} (save_Account (tr_to e) ?b (save_Noun ?n nn s9))" by (rule typed_save_Account[OF t10])
  moreover have "handleTransfer m e s = save_Account (tr_to e) ?b (save_Noun ?n nn s9)"
    by (simp only: handleTransfer_def Let_def a b prod.case gov_def[symmetric] te_def[symmetric] s3_def[symmetric]
        br[unfolded Let_def] gs'[unfolded gs_def Let_def] de_def[symmetric] delegate_after_event d fst_conv snd_conv
        s7_def[symmetric] s8_def[symmetric] c nn_def)
  ultimately show ?thesis by simp
qed

section \<open>All runs\<close>

fun well_named :: "sg_event \<Rightarrow> bool" where
  "well_named (EvDelegateChanged e) = (dc_toDelegate e \<noteq> '''')"
| "well_named ev = True"

lemmas typed_handlers =
  typed_noun_created typed_delegate_changed typed_delegate_votes typed_transfer typed_auction_created typed_bid
  typed_auction_later typed_proposal_created typed_status_handlers typed_vote typed_quorum_handlers

lemma typed_handle:
  assumes "fresh_ids gt" "store_typed gt {} {} s" "well_named ev" "handle gt m ev s = Some s'"
  shows "store_typed gt {} {} s'"
  using assms by (cases ev; simp only: handle.simps option.inject well_named.simps; blast intro: typed_handlers)

lemma typed_run:
  "fresh_ids gt \<Longrightarrow> store_typed gt {} {} s \<Longrightarrow> list_all (\<lambda>(m, ev). well_named ev) evs
    \<Longrightarrow> run_events gt evs s = Some s' \<Longrightarrow> store_typed gt {} {} s'"
  by (induction gt evs s rule: run_events.induct) (auto split: option.splits intro: typed_handle)

lemma typed_empty: "store_typed gt {} {} empty_store"
  by (simp add: store_typed_def rows_typed_def empty_store_def all_rows_empty)


definition demo_chain :: "(Meta \<times> sg_event) list" where
  "demo_chain =
     [(demo_meta, EvTransfer demo_mint),
      (demo_meta, EvNounCreated \<lparr>nc_tokenId = 1, nc_background = 0, nc_body = 1, nc_accessory = 2, nc_head = 3, nc_glasses = 4\<rparr>),
      (demo_meta, EvAuctionCreated \<lparr>ac_unounId = 1, ac_startTime = 5, ac_endTime = 9\<rparr>),
      (demo_meta, EvAuctionBid \<lparr>ab_unounId = 1, ab_sender = ''0xb0b'', ab_value = 7\<rparr>),
      (demo_meta, EvDelegateChanged \<lparr>dc_delegator = ''0xa11ce'', dc_fromDelegate = ''0xa11ce'', dc_toDelegate = ''0xb0b''\<rparr>),
      (demo_meta, EvTransfer demo_move),
      (demo_meta, EvProposalCreated demo_create), (demo_meta, EvProposalQueued 3 40)]"

text \<open>Only a vote can abort.\<close>

lemma run_without_votes:
  "list_all (\<lambda>(m, ev). case ev of EvVoteCast e \<Rightarrow> False | _ \<Rightarrow> True) evs \<Longrightarrow> \<exists>s'. run_events gt evs s = Some s'"
proof (induction gt evs s rule: run_events.induct)
  case (2 gt m ev evs s)
  from "2.prems" have "\<exists>s'. handle gt m ev s = Some s'" by (cases ev) simp_all
  with 2 show ?case by (auto split: option.splits)
qed simp


text \<open>
  The exempt reference does dangle: the schema requires the previous delegate of a delegation event, but the event
  of the first mint names the zero address, which has no row.
\<close>

lemma mint_event_dangles:
  "map_option de_previousDelegate (sDelegationEvents (handleTransfer demo_meta demo_mint empty_store) ''0xbeef_1'') = Some ZERO_ADDRESS"
  "Option.is_none (sDelegates (handleTransfer demo_meta demo_mint empty_store) ZERO_ADDRESS)"
  by code_simp+

end
