(* ===== verification/Sdk_Contracts.thy ===== *)
theory Sdk_Contracts
  imports Prelude
begin

text \<open>
  \<^verbatim>\<open>packages/nouns-sdk/src/contract\<close>: the address book and the lookup of the contracts of a chain.
  The table itself (\<^verbatim>\<open>addresses.json\<close>) is a parameter, keyed by the decimal chain id; the typechain
  factories' \<^verbatim>\<open>connect\<close> is the parameter \<open>connect\<close>, applied to the factory and the address.
\<close>

record ContractAddresses =
  nounsToken :: string
  nounsSeeder :: string
  nounsDescriptor :: string
  nftDescriptor :: string
  nounsAuctionHouse :: string
  nounsAuctionHouseProxy :: string
  nounsAuctionHouseProxyAdmin :: string
  nounsDaoExecutor :: string
  nounsDAOProxy :: string
  nounsDAOLogicV1 :: string
  nounsDAOLogicV2 :: "string option"

datatype contract_factory =
    NounsTokenFactory | NounsAuctionHouseFactory | NounsDescriptorFactory | NounsSeederFactory
  | NounsDaoLogicV2Factory

record 'c Contracts =
  nounsTokenContract :: 'c
  nounsAuctionHouseContract :: 'c
  nounsDescriptorContract :: 'c
  nounsSeederContract :: 'c
  nounsDaoContract :: 'c

datatype ChainId = Mainnet | Ropsten | Rinkeby | Kovan | Local

fun chain_id_value :: "ChainId \<Rightarrow> int" where
  "chain_id_value Mainnet = 1"
| "chain_id_value Ropsten = 3"
| "chain_id_value Rinkeby = 4"
| "chain_id_value Kovan = 42"
| "chain_id_value Local = 31337"

type_synonym address_book = "string \<Rightarrow> ContractAddresses option"

definition getContractAddressesForChainOrThrow ::
  "address_book \<Rightarrow> int \<Rightarrow> (string, ContractAddresses) result" where
  "getContractAddressesForChainOrThrow addresses chainId =
     (case addresses (int_to_dec chainId) of
        None \<Rightarrow> Inl (''Unknown chain id ('' @ int_to_dec chainId
                  @ ''). No known contracts have been deployed on this chain.'')
      | Some a \<Rightarrow> Inr a)"

definition getContractsForChainOrThrow ::
  "address_book \<Rightarrow> (contract_factory \<Rightarrow> string \<Rightarrow> 'p \<Rightarrow> 'c) \<Rightarrow> int \<Rightarrow> 'p \<Rightarrow> (string, 'c Contracts) result" where
  "getContractsForChainOrThrow book connect chainId signerOrProvider =
     bind_result (getContractAddressesForChainOrThrow book chainId) (\<lambda>addresses. Inr
       \<lparr>nounsTokenContract = connect NounsTokenFactory (nounsToken addresses) signerOrProvider,
        nounsAuctionHouseContract =
          connect NounsAuctionHouseFactory (nounsAuctionHouseProxy addresses) signerOrProvider,
        nounsDescriptorContract = connect NounsDescriptorFactory (nounsDescriptor addresses) signerOrProvider,
        nounsSeederContract = connect NounsSeederFactory (nounsSeeder addresses) signerOrProvider,
        nounsDaoContract = connect NounsDaoLogicV2Factory (nounsDAOProxy addresses) signerOrProvider\<rparr>)"

text \<open>
  The two lookups throw on the same chains with the same message, and the auction house and the DAO
  are reached through their proxies.
\<close>

lemma contracts_throw_iff:
  "getContractsForChainOrThrow book connect chainId p = Inl e
    \<longleftrightarrow> getContractAddressesForChainOrThrow book chainId = Inl e"
  by (cases "getContractAddressesForChainOrThrow book chainId") (simp_all add: getContractsForChainOrThrow_def)

lemma contracts_proxies:
  assumes "getContractsForChainOrThrow book connect chainId p = Inr c"
    "getContractAddressesForChainOrThrow book chainId = Inr a"
  shows "nounsAuctionHouseContract c = connect NounsAuctionHouseFactory (nounsAuctionHouseProxy a) p"
    "nounsDaoContract c = connect NounsDaoLogicV2Factory (nounsDAOProxy a) p"
  using assms by (auto simp: getContractsForChainOrThrow_def)

end
