(* ===== verification/Sdk_Hex.thy ===== *)
theory Sdk_Hex
  imports Prelude
begin

text \<open>
  \<^verbatim>\<open>packages/nouns-sdk/src/image/utils.ts\<close>: zero-padded hexadecimal numerals, and the fact that
  \<open>parseInt(_, 16)\<close> reads them back, on which the image format rests.
\<close>

section \<open>Hexadecimal numerals (utils.ts)\<close>

definition toPaddedHex :: "int \<Rightarrow> nat \<Rightarrow> string" where
  "toPaddedHex c pad = padStart pad (CHR ''0'') (int_to_base 16 c)"

definition rgbToHex :: "int \<Rightarrow> int \<Rightarrow> int \<Rightarrow> string" where
  "rgbToHex r g b = toPaddedHex r 2 @ toPaddedHex g 2 @ toPaddedHex b 2"

section \<open>Hexadecimal round trip\<close>

lemma digits_value_zeros [js_simps]:
  "digits_value b (replicate k (digit_char 0) @ s) = digits_value b s"
proof -
  have "foldl (\<lambda>acc c. acc * b + the (digit_val c)) 0 (replicate k (digit_char 0)) = 0"
    by (induction k) (simp_all add: js_simps)
  then show ?thesis by (simp add: digits_value_def)
qed

lemma digit_char_0: "CHR ''0'' = digit_char 0"
  by (simp add: digit_char_def) code_simp

lemma hex_digit_neutral:
  assumes "is_digit_in 16 c"
  shows "\<not> is_space c" "c \<noteq> CHR ''-''" "c \<noteq> CHR ''+''" "c \<noteq> CHR ''x''" "c \<noteq> CHR ''X''"
  using assms by (auto simp: is_space_def is_digit_in_def digit_val_def split: if_splits option.splits)

lemma strip_0x_hex: "list_all (is_digit_in 16) s \<Longrightarrow> strip_0x s = s"
  by (auto simp: strip_0x_def split: list.splits dest: hex_digit_neutral(4,5))

lemma parseInt16_hex:
  assumes "list_all (is_digit_in 16) s" "s \<noteq> []"
  shows "parseInt16 s = Some (int (digits_value 16 s))"
proof -
  obtain c cs where s: "s = c # cs" using assms(2) by (cases s) auto
  with assms(1) have c: "is_digit_in 16 c" by simp
  then have "dropWhile is_space s = s" using s by (simp add: hex_digit_neutral)
  then have "parseInt16 s = parse_digits 16 (strip_0x s)"
    using s hex_digit_neutral[OF c] by (simp add: parseInt16_def parse_signed_def)
  then show ?thesis using assms by (simp add: strip_0x_hex parse_digits_def takeWhile_all)
qed

lemma toPaddedHex_nonneg:
  "0 \<le> v \<Longrightarrow> toPaddedHex v k =
     replicate (k - length (nat_to_base 16 (nat v))) (digit_char 0) @ nat_to_base 16 (nat v)"
  by (simp add: toPaddedHex_def padStart_def int_to_base_def digit_char_0)

lemma toPaddedHex_digits: "0 \<le> v \<Longrightarrow> list_all (is_digit_in 16) (toPaddedHex v k)"
  by (simp add: toPaddedHex_nonneg nat_to_base_digits)
    (simp add: list_all_iff js_simps)

lemma parseInt16_toPaddedHex [js_simps]:
  assumes "0 \<le> v"
  shows "parseInt16 (toPaddedHex v k) = Some v"
proof -
  have "digits_value 16 (toPaddedHex v k) = nat v"
    using assms by (simp add: toPaddedHex_nonneg js_simps digits_value_nat_to_base)
  moreover have "toPaddedHex v k \<noteq> []" using assms by (simp add: toPaddedHex_nonneg)
  ultimately show ?thesis using assms by (simp add: parseInt16_hex toPaddedHex_digits)
qed

lemma length_toPaddedHex [js_simps]:
  assumes "0 \<le> v" "v < 256"
  shows "length (toPaddedHex v 2) = 2"
proof -
  have "nat v < 16 ^ Suc 1" using assms by simp
  then have "length (nat_to_base 16 (nat v)) \<le> 2"
    using length_nat_to_base_le[of 16 "nat v" 1] by simp
  then show ?thesis using assms by (simp add: toPaddedHex_nonneg)
qed

lemma toPaddedHex_pair:
  assumes "0 \<le> v" "v < 256"
  obtains c d where "toPaddedHex v 2 = [c, d]"
  using length_toPaddedHex[OF assms] by (metis (no_types) length_0_conv length_Suc_conv numeral_2_eq_2)

end
