(* ===== verification/Sdk_Image.thy ===== *)
theory Sdk_Image
  imports Sdk_Hex
begin

text \<open>
  The run-length encoder of \<^verbatim>\<open>packages/nouns-sdk/src/image\<close>: the interfaces of \<^verbatim>\<open>types.ts\<close> and the class \<^verbatim>\<open>Image\<close> of \<^verbatim>\<open>image.ts\<close>. Pixel coordinates and
  bounds are integers, because the right bound can reach -1 before it is incremented. The palette
  is the \<open>Map\<close> from hexadecimal colours to indexes that \<^verbatim>\<open>toRLE\<close> extends in place; here it is passed
  in and returned. The lemmas show that the bounds enclose exactly the visible content, that a
  palette keeps each colour at its own index, and that the emitted runs expand to the indexes.
\<close>

section \<open>Image data (types.ts)\<close>

record RGBAColor =
  rgba_r :: int
  rgba_g :: int
  rgba_b :: int
  rgba_a :: int

record ImageBounds =
  bTop :: int
  bRight :: int
  bBottom :: int
  bLeft :: int

type_synonym palette = "(string, int) omap"

section \<open>The Image class (image.ts)\<close>

record Image =
  img_width :: int
  img_height :: int
  img_bounds :: ImageBounds
  img_tuples :: "(int \<times> int) list"
  getRgbaAt :: "int \<Rightarrow> int \<Rightarrow> RGBAColor"

definition new_Image :: "int \<Rightarrow> int \<Rightarrow> (int \<Rightarrow> int \<Rightarrow> RGBAColor) \<Rightarrow> Image" where
  "new_Image w h rgbaAt =
     \<lparr>img_width = w, img_height = h, img_bounds = \<lparr>bTop = 0, bRight = 0, bBottom = 0, bLeft = 0\<rparr>,
      img_tuples = [], getRgbaAt = rgbaAt\<rparr>"

subsection \<open>Bounds\<close>

definition isTransparentColumn :: "Image \<Rightarrow> int \<Rightarrow> bool" where
  "isTransparentColumn im column =
     list_all (\<lambda>row. rgba_a (getRgbaAt im column row) = 0) [0..img_height im - 1]"

definition isTransparentRow :: "Image \<Rightarrow> int \<Rightarrow> bool" where
  "isTransparentRow im row =
     list_all (\<lambda>column. rgba_a (getRgbaAt im column row) = 0) [0..img_width im - 1]"

text \<open>\<open>while (i > lo && p(i)) i--;\<close> and \<open>while (i < hi && p(i)) i++;\<close>\<close>

function down_while :: "(int \<Rightarrow> bool) \<Rightarrow> int \<Rightarrow> int \<Rightarrow> int" where
  "down_while p lo i = (if lo < i \<and> p i then down_while p lo (i - 1) else i)"
  by pat_completeness auto
termination
  by (relation "measure (\<lambda>(p, lo, i). nat (i - lo))") auto

function up_while :: "(int \<Rightarrow> bool) \<Rightarrow> int \<Rightarrow> int \<Rightarrow> int" where
  "up_while p hi i = (if i < hi \<and> p i then up_while p hi (i + 1) else i)"
  by pat_completeness auto
termination
  by (relation "measure (\<lambda>(p, hi, i). nat (hi - i))") auto

declare down_while.simps [simp del] up_while.simps [simp del]

definition calcBounds :: "Image \<Rightarrow> ImageBounds" where
  "calcBounds im =
     (let bottom = down_while (isTransparentRow im) 0 (img_height im - 1);
          top = up_while (isTransparentRow im) bottom 0;
          right = down_while (isTransparentColumn im) (- 1) (img_width im - 1);
          left = up_while (isTransparentColumn im) right 0
      in \<lparr>bTop = top, bRight = right + 1, bBottom = bottom, bLeft = left\<rparr>)"

subsection \<open>Run-length encoding\<close>

text \<open>
  The loop of \<^verbatim>\<open>encode\<close> over \<open>data[1..]\<close>: \<open>enc\<close> is the array \<open>encoding\<close>, \<open>tps\<close> is \<open>this.tuples\<close>. A run
  is closed when the index changes or when it is 255 long.
\<close>

fun encode_loop ::
  "int list \<Rightarrow> int \<Rightarrow> int \<Rightarrow> string list \<Rightarrow> (int \<times> int) list
   \<Rightarrow> string list \<times> int \<times> int \<times> (int \<times> int) list" where
  "encode_loop [] previous count enc tps = (enc, previous, count, tps)"
| "encode_loop (d # ds) previous count enc tps =
     (if d \<noteq> previous \<or> count = 255
      then encode_loop ds d 1 (enc @ [toPaddedHex count 2, toPaddedHex previous 2]) (tps @ [(count, previous)])
      else encode_loop ds previous (count + 1) enc tps)"

text \<open>On empty data \<open>previous\<close> is \<open>data[0] = undefined\<close>: the loop does not run and nothing is pushed.\<close>

definition encode :: "int list \<Rightarrow> (int \<times> int) list \<Rightarrow> string \<times> (int \<times> int) list" where
  "encode data tps =
     (case data of
        [] \<Rightarrow> ('''', tps)
      | d # ds \<Rightarrow>
          (case encode_loop ds d 1 [] tps of
             (enc, previous, count, tps') \<Rightarrow>
               (concat (enc @ [toPaddedHex count 2, toPaddedHex previous 2]), tps')))"

text \<open>The pixels that \<^verbatim>\<open>toRLE\<close> visits: rows \<open>top..bottom\<close> (inclusive), columns \<open>left..<right\<close>.\<close>

definition pixels :: "ImageBounds \<Rightarrow> (int \<times> int) list" where
  "pixels bd = concat (map (\<lambda>y. map (\<lambda>x. (x, y)) [bLeft bd..bRight bd - 1]) [bTop bd..bBottom bd])"

text \<open>
  One pixel: its colour enters the palette at the next index if it is new; the pixel's index is 0
  if it is fully transparent and the palette's otherwise (the lookup succeeds, since the colour was
  just inserted if it was missing).
\<close>

fun index_pixel :: "Image \<Rightarrow> palette \<Rightarrow> int \<times> int \<Rightarrow> palette \<times> int" where
  "index_pixel im colors (x, y) =
     (let c = getRgbaAt im x y;
          hexColor = rgbToHex (rgba_r c) (rgba_g c) (rgba_b c);
          colors' = (if omap_has colors hexColor then colors
                     else omap_set hexColor (int (length colors)) colors)
      in (colors', if rgba_a c = 0 then 0 else the (omap_get colors' hexColor)))"

fun index_pixels :: "Image \<Rightarrow> palette \<Rightarrow> (int \<times> int) list \<Rightarrow> palette \<times> int list" where
  "index_pixels im colors [] = (colors, [])"
| "index_pixels im colors (p # ps) =
     (case index_pixel im colors p of
        (colors', i) \<Rightarrow> (case index_pixels im colors' ps of (colors'', is) \<Rightarrow> (colors'', i # is)))"

definition rle_metadata :: "ImageBounds \<Rightarrow> string" where
  "rle_metadata bd =
     concat (map (\<lambda>v. toPaddedHex v 2) [0, bTop bd, bRight bd, bBottom bd, bLeft bd])"

definition toRLE :: "Image \<Rightarrow> palette \<Rightarrow> string \<times> Image \<times> palette" where
  "toRLE im colors =
     (let bd = calcBounds im;
          (colors', indexes) = index_pixels im colors (pixels bd);
          (enc, tps) = encode indexes (img_tuples im)
      in (''0x'' @ rle_metadata bd @ enc, im\<lparr>img_bounds := bd, img_tuples := tps\<rparr>, colors'))"

section \<open>Bounds enclose the content\<close>

lemma down_while_spec:
  "lo \<le> i \<Longrightarrow> lo \<le> down_while p lo i \<and> down_while p lo i \<le> i
     \<and> (\<forall>j. down_while p lo i < j \<and> j \<le> i \<longrightarrow> p j)
     \<and> (down_while p lo i = lo \<or> \<not> p (down_while p lo i))"
proof (induction p lo i rule: down_while.induct)
  case (1 p lo i)
  show ?case
  proof (cases "lo < i \<and> p i")
    case True
    with 1 have *: "lo \<le> down_while p lo (i - 1) \<and> down_while p lo (i - 1) \<le> i - 1
       \<and> (\<forall>j. down_while p lo (i - 1) < j \<and> j \<le> i - 1 \<longrightarrow> p j)
       \<and> (down_while p lo (i - 1) = lo \<or> \<not> p (down_while p lo (i - 1)))" by simp
    have "p j" if "down_while p lo (i - 1) < j" "j \<le> i" for j
      using * True that by (cases "j = i") auto
    with * True show ?thesis by (auto simp: down_while.simps[of p lo i])
  next
    case False
    with 1 show ?thesis by (auto simp: down_while.simps[of p lo i])
  qed
qed

lemma up_while_spec:
  "i \<le> hi \<Longrightarrow> i \<le> up_while p hi i \<and> up_while p hi i \<le> hi
     \<and> (\<forall>j. i \<le> j \<and> j < up_while p hi i \<longrightarrow> p j)
     \<and> (up_while p hi i = hi \<or> \<not> p (up_while p hi i))"
proof (induction p hi i rule: up_while.induct)
  case (1 p hi i)
  show ?case
  proof (cases "i < hi \<and> p i")
    case True
    with 1 have *: "i + 1 \<le> up_while p hi (i + 1) \<and> up_while p hi (i + 1) \<le> hi
       \<and> (\<forall>j. i + 1 \<le> j \<and> j < up_while p hi (i + 1) \<longrightarrow> p j)
       \<and> (up_while p hi (i + 1) = hi \<or> \<not> p (up_while p hi (i + 1)))" by simp
    have "p j" if "i \<le> j" "j < up_while p hi (i + 1)" for j
      using * True that by (cases "j = i") auto
    with * True show ?thesis by (auto simp: up_while.simps[of p hi i])
  next
    case False
    with 1 show ?thesis by (auto simp: up_while.simps[of p hi i])
  qed
qed

lemma up_while_stuck: "hi \<le> i \<Longrightarrow> up_while p hi i = i"
  by (simp add: up_while.simps)

definition visible :: "Image \<Rightarrow> int \<Rightarrow> int \<Rightarrow> bool" where
  "visible im x y \<longleftrightarrow> 0 \<le> x \<and> x < img_width im \<and> 0 \<le> y \<and> y < img_height im
     \<and> rgba_a (getRgbaAt im x y) \<noteq> 0"

lemma not_isTransparentRow_iff:
  "0 \<le> y \<Longrightarrow> y < img_height im \<Longrightarrow> \<not> isTransparentRow im y \<longleftrightarrow> (\<exists>x. visible im x y)"
  by (auto simp: isTransparentRow_def visible_def list_all_iff)

lemma not_isTransparentColumn_iff:
  "0 \<le> x \<Longrightarrow> x < img_width im \<Longrightarrow> \<not> isTransparentColumn im x \<longleftrightarrow> (\<exists>y. visible im x y)"
  by (auto simp: isTransparentColumn_def visible_def list_all_iff)

text \<open>A row (column) outside the computed bounds is transparent, a row (column) on them is not.\<close>

lemma calcBounds_range:
  assumes "0 < img_width im" "0 < img_height im"
  shows "0 \<le> bTop (calcBounds im)" "bTop (calcBounds im) \<le> bBottom (calcBounds im)"
    "bBottom (calcBounds im) < img_height im" "0 \<le> bLeft (calcBounds im)"
    "bLeft (calcBounds im) \<le> bRight (calcBounds im)" "bRight (calcBounds im) \<le> img_width im"
proof -
  let ?B = "down_while (isTransparentRow im) 0 (img_height im - 1)"
  let ?R = "down_while (isTransparentColumn im) (- 1) (img_width im - 1)"
  have B: "0 \<le> ?B" "?B \<le> img_height im - 1"
    using down_while_spec[of 0 "img_height im - 1" "isTransparentRow im"] assms by auto
  have R: "- 1 \<le> ?R" "?R \<le> img_width im - 1"
    using down_while_spec[of "- 1" "img_width im - 1" "isTransparentColumn im"] assms by auto
  have T: "0 \<le> up_while (isTransparentRow im) ?B 0" "up_while (isTransparentRow im) ?B 0 \<le> ?B"
    using up_while_spec[of 0 ?B "isTransparentRow im"] B by auto
  have L: "0 \<le> up_while (isTransparentColumn im) ?R 0" "up_while (isTransparentColumn im) ?R 0 \<le> ?R + 1"
    using up_while_spec[of 0 ?R "isTransparentColumn im"] up_while_stuck[of ?R 0] R
    by (cases "0 \<le> ?R"; simp)+
  show "0 \<le> bTop (calcBounds im)" "bTop (calcBounds im) \<le> bBottom (calcBounds im)"
    "bBottom (calcBounds im) < img_height im" "0 \<le> bLeft (calcBounds im)"
    "bLeft (calcBounds im) \<le> bRight (calcBounds im)" "bRight (calcBounds im) \<le> img_width im"
    using B R T L by (simp_all add: calcBounds_def Let_def)
qed

lemma calcBounds_encloses:
  assumes "visible im x y"
  shows "bTop (calcBounds im) \<le> y" "y \<le> bBottom (calcBounds im)"
    "bLeft (calcBounds im) \<le> x" "x < bRight (calcBounds im)"
proof -
  let ?B = "down_while (isTransparentRow im) 0 (img_height im - 1)"
  let ?R = "down_while (isTransparentColumn im) (- 1) (img_width im - 1)"
  have xy: "0 \<le> x" "x < img_width im" "0 \<le> y" "y < img_height im"
    using assms by (auto simp: visible_def)
  have row: "\<not> isTransparentRow im y" and col: "\<not> isTransparentColumn im x"
    using assms xy not_isTransparentRow_iff not_isTransparentColumn_iff by blast+
  have B: "0 \<le> ?B" "\<forall>j. ?B < j \<and> j \<le> img_height im - 1 \<longrightarrow> isTransparentRow im j"
    using down_while_spec[of 0 "img_height im - 1" "isTransparentRow im"] xy by auto
  have R: "\<forall>j. ?R < j \<and> j \<le> img_width im - 1 \<longrightarrow> isTransparentColumn im j"
    using down_while_spec[of "- 1" "img_width im - 1" "isTransparentColumn im"] xy by auto
  from B(2) row xy have yB: "y \<le> ?B" by (meson not_le zle_diff1_eq)
  from R col xy have xR: "x \<le> ?R" by (meson not_le zle_diff1_eq)
  have T: "\<forall>j. 0 \<le> j \<and> j < up_while (isTransparentRow im) ?B 0 \<longrightarrow> isTransparentRow im j"
    using up_while_spec[of 0 ?B "isTransparentRow im"] B by auto
  have L: "\<forall>j. 0 \<le> j \<and> j < up_while (isTransparentColumn im) ?R 0 \<longrightarrow> isTransparentColumn im j"
    using up_while_spec[of 0 ?R "isTransparentColumn im"] xR xy by auto
  from T row xy have yT: "up_while (isTransparentRow im) ?B 0 \<le> y" by (meson not_le)
  from L col xy have xL: "up_while (isTransparentColumn im) ?R 0 \<le> x" by (meson not_le)
  show "bTop (calcBounds im) \<le> y" "y \<le> bBottom (calcBounds im)"
    "bLeft (calcBounds im) \<le> x" "x < bRight (calcBounds im)"
    using yB xR yT xL by (simp_all add: calcBounds_def Let_def)
qed

lemma calcBounds_tight:
  assumes vis: "visible im x y"
  shows "\<exists>x. visible im x (bTop (calcBounds im))" "\<exists>x. visible im x (bBottom (calcBounds im))"
    "\<exists>y. visible im (bLeft (calcBounds im)) y" "\<exists>y. visible im (bRight (calcBounds im) - 1) y"
proof -
  have dim: "0 < img_width im" "0 < img_height im" using vis by (auto simp: visible_def)
  note rng = calcBounds_range[OF dim] and enc = calcBounds_encloses[OF vis]
  let ?B = "down_while (isTransparentRow im) 0 (img_height im - 1)"
  let ?R = "down_while (isTransparentColumn im) (- 1) (img_width im - 1)"
  have eqs: "bBottom (calcBounds im) = ?B" "bRight (calcBounds im) = ?R + 1"
    "bTop (calcBounds im) = up_while (isTransparentRow im) ?B 0"
    "bLeft (calcBounds im) = up_while (isTransparentColumn im) ?R 0"
    by (simp_all add: calcBounds_def Let_def)
  have row0: "\<not> isTransparentRow im y" and col0: "\<not> isTransparentColumn im x"
    using vis not_isTransparentRow_iff not_isTransparentColumn_iff by (auto simp: visible_def)
  have "?B = 0 \<or> \<not> isTransparentRow im ?B"
    using down_while_spec[of 0 "img_height im - 1" "isTransparentRow im"] dim by auto
  moreover have "?B = 0 \<Longrightarrow> y = ?B" using enc(2) eqs(1) vis by (simp add: visible_def)
  ultimately have B: "\<not> isTransparentRow im ?B" using row0 by metis
  have R: "\<not> isTransparentColumn im ?R"
    using down_while_spec[of "- 1" "img_width im - 1" "isTransparentColumn im"] dim enc eqs rng by auto
  have T: "\<not> isTransparentRow im (up_while (isTransparentRow im) ?B 0)"
    using up_while_spec[of 0 ?B "isTransparentRow im"] B rng eqs by auto
  have L: "\<not> isTransparentColumn im (up_while (isTransparentColumn im) ?R 0)"
    using up_while_spec[of 0 ?R "isTransparentColumn im"] R rng eqs enc by auto
  show "\<exists>x. visible im x (bTop (calcBounds im))"
    using T rng eqs(3) not_isTransparentRow_iff[of "bTop (calcBounds im)" im] by simp
  show "\<exists>x. visible im x (bBottom (calcBounds im))"
    using B rng eqs(1) not_isTransparentRow_iff[of "bBottom (calcBounds im)" im] by simp
  show "\<exists>y. visible im (bLeft (calcBounds im)) y"
    using L rng eqs(4) enc not_isTransparentColumn_iff[of "bLeft (calcBounds im)" im] by simp
  show "\<exists>y. visible im (bRight (calcBounds im) - 1) y"
    using R rng eqs(2) enc not_isTransparentColumn_iff[of "bRight (calcBounds im) - 1" im] by simp
qed

section \<open>The runs that encode emits\<close>

text \<open>What the loop computes, as a list of (length, index) pairs, and what such a list stands for.\<close>

fun runs_from :: "int list \<Rightarrow> int \<Rightarrow> int \<Rightarrow> (int \<times> int) list" where
  "runs_from [] p n = [(n, p)]"
| "runs_from (d # ds) p n =
     (if d \<noteq> p \<or> n = 255 then (n, p) # runs_from ds d 1 else runs_from ds p (n + 1))"

definition runs :: "int list \<Rightarrow> (int \<times> int) list" where
  "runs data = (case data of [] \<Rightarrow> [] | d # ds \<Rightarrow> runs_from ds d 1)"

fun expand :: "(int \<times> int) list \<Rightarrow> int list" where
  "expand [] = []"
| "expand ((n, c) # rs) = replicate (nat n) c @ expand rs"

definition hex_run :: "int \<times> int \<Rightarrow> string" where
  "hex_run nc = toPaddedHex (fst nc) 2 @ toPaddedHex (snd nc) 2"

lemma runs_from_nonempty [simp]: "runs_from ds p n \<noteq> []"
  by (induction ds p n rule: runs_from.induct) auto

lemma encode_loop_runs:
  "encode_loop ds p n enc tps =
     (case last (runs_from ds p n) of (m, q) \<Rightarrow>
       (enc @ concat (map (\<lambda>(n, c). [toPaddedHex n 2, toPaddedHex c 2]) (butlast (runs_from ds p n))),
        q, m, tps @ butlast (runs_from ds p n)))"
  by (induction ds p n arbitrary: enc tps rule: runs_from.induct) (auto split: prod.splits)

lemma concat_hex_pairs:
  "concat (concat (map (\<lambda>(n, c). [toPaddedHex n 2, toPaddedHex c 2]) rs)) = concat (map hex_run rs)"
  by (induction rs) (auto simp: hex_run_def)

lemma encode_runs:
  "encode data tps = (concat (map hex_run (runs data)), tps @ butlast (runs data))"
proof (cases data)
  case Nil
  then show ?thesis by (simp add: encode_def runs_def)
next
  case (Cons d ds)
  let ?rs = "runs_from ds d 1"
  obtain m q where l: "last ?rs = (m, q)" by (cases "last ?rs")
  have "concat (map hex_run ?rs) = concat (map hex_run (butlast ?rs @ [last ?rs]))"
    by (simp only: append_butlast_last_id[OF runs_from_nonempty])
  also have "\<dots> = concat (map hex_run (butlast ?rs)) @ hex_run (m, q)" using l by simp
  finally show ?thesis
    using Cons l by (simp add: encode_def runs_def encode_loop_runs concat_hex_pairs hex_run_def)
qed

lemma expand_runs_from: "0 \<le> n \<Longrightarrow> expand (runs_from ds p n) = replicate (nat n) p @ ds"
proof (induction ds p n rule: runs_from.induct)
  case (2 d ds p n)
  then show ?case by (simp add: Suc_nat_eq_nat_zadd1[symmetric] add.commute replicate_app_Cons_same)
qed simp

lemma expand_runs: "expand (runs data) = data"
  by (cases data) (simp_all add: runs_def expand_runs_from)

lemma runs_from_counts:
  "1 \<le> n \<Longrightarrow> n \<le> 255 \<Longrightarrow> list_all (\<lambda>(m, c). 1 \<le> m \<and> m \<le> 255 \<and> c \<in> insert p (set ds)) (runs_from ds p n)"
proof (induction ds p n rule: runs_from.induct)
  case (2 d ds p n)
  then show ?case by (auto simp: list_all_iff split: if_splits) 
qed simp

lemma runs_counts:
  "list_all (\<lambda>(m, c). 1 \<le> m \<and> m \<le> 255 \<and> c \<in> set data) (runs data)"
  using runs_from_counts[of 1] by (cases data) (auto simp: runs_def)

text \<open>No two neighbouring runs could have been merged.\<close>

fun maximal_runs :: "(int \<times> int) list \<Rightarrow> bool" where
  "maximal_runs ((n, c) # (m, d) # rs) = ((c \<noteq> d \<or> n = 255) \<and> maximal_runs ((m, d) # rs))"
| "maximal_runs _ = True"

lemma runs_from_head: "\<exists>m rs. runs_from ds p n = (m, p) # rs"
  by (induction ds p n rule: runs_from.induct) auto

lemma maximal_runs_from: "maximal_runs (runs_from ds p n)"
proof (induction ds p n rule: runs_from.induct)
  case (2 d ds p n)
  obtain m rs where "runs_from ds d 1 = (m, d) # rs" using runs_from_head by blast
  with 2 show ?case by auto
qed simp

lemma maximal_runs_runs: "maximal_runs (runs data)"
  by (cases data) (simp_all add: runs_def maximal_runs_from)

section \<open>The palette\<close>

text \<open>
  A palette is well formed if the entry at position \<open>i\<close> has value \<open>i\<close>, no colour occurs twice and
  position 0 is the transparent colour, the empty string.
\<close>

definition palette_wf :: "palette \<Rightarrow> bool" where
  "palette_wf pal \<longleftrightarrow> map snd pal = map int [0..<length pal] \<and> distinct (omap_keys pal)
     \<and> take 1 (omap_keys pal) = ['''']"

lemma palette_wf_get:
  assumes "palette_wf pal" "omap_get pal k = Some i"
  shows "0 \<le> i" "i < int (length pal)" "omap_keys pal ! nat i = k"
proof -
  from assms(2) obtain j where j: "j < length pal" "pal ! j = (k, i)"
    by (metis in_set_conv_nth map_of_SomeD)
  have "map snd pal ! j = map int [0..<length pal] ! j" using assms(1) by (simp add: palette_wf_def)
  with j have "i = int j" by simp
  with j show "0 \<le> i" "i < int (length pal)" "omap_keys pal ! nat i = k" by simp_all
qed

lemma palette_wf_get_nth:
  assumes "palette_wf pal" "j < length pal"
  shows "omap_get pal (omap_keys pal ! j) = Some (int j)"
proof -
  have "map snd pal ! j = map int [0..<length pal] ! j" using assms(1) by (simp add: palette_wf_def)
  then have "pal ! j = (omap_keys pal ! j, int j)" using assms(2) by (simp add: prod_eq_iff)
  then have "(omap_keys pal ! j, int j) \<in> set pal" using assms(2) by (metis nth_mem)
  then show ?thesis using assms(1) by (simp add: palette_wf_def)
qed

lemma palette_wf_get_0:
  assumes "palette_wf pal" "omap_get pal k = Some 0"
  shows "k = ''''"
  using palette_wf_get[OF assms] assms(1) by (cases pal) (auto simp: palette_wf_def)

lemma palette_wf_extend:
  assumes "palette_wf pal" "omap_get pal k = None"
  shows "palette_wf (pal @ [(k, int (length pal))])"
proof -
  have "k \<notin> set (omap_keys pal)" using assms(2) by (simp add: map_of_eq_None_iff)
  moreover have "take 1 (omap_keys (pal @ [(k, int (length pal))])) = ['''']"
    using assms(1) by (cases pal) (simp_all add: palette_wf_def)
  ultimately show ?thesis using assms(1) by (simp add: palette_wf_def)
qed

definition pixel_hex :: "Image \<Rightarrow> int \<times> int \<Rightarrow> string" where
  "pixel_hex im p =
     (let c = getRgbaAt im (fst p) (snd p) in rgbToHex (rgba_r c) (rgba_g c) (rgba_b c))"

definition pixel_index :: "Image \<Rightarrow> palette \<Rightarrow> int \<times> int \<Rightarrow> int" where
  "pixel_index im pal p =
     (if rgba_a (getRgbaAt im (fst p) (snd p)) = 0 then 0 else the (omap_get pal (pixel_hex im p)))"

lemma rgbToHex_nonempty [simp]: "rgbToHex x y z \<noteq> []"
  by (auto simp: rgbToHex_def toPaddedHex_def padStart_def int_to_base_def)

lemma pixel_hex_nonempty [simp]: "pixel_hex im p \<noteq> []"
  by (simp add: pixel_hex_def Let_def)

definition grow :: "palette \<Rightarrow> string \<Rightarrow> palette" where
  "grow pal k = (if omap_has pal k then pal else pal @ [(k, int (length pal))])"

lemma index_pixel_eq:
  "index_pixel im pal p = (grow pal (pixel_hex im p), pixel_index im (grow pal (pixel_hex im p)) p)"
  by (cases p) (simp add: grow_def pixel_hex_def pixel_index_def Let_def omap_set_fresh split: option.split)

lemma grow_facts:
  "palette_wf pal \<Longrightarrow> palette_wf (grow pal k)"
  "omap_has (grow pal k) k"
  "\<exists>ext. grow pal k = pal @ ext"
  by (auto simp: grow_def palette_wf_extend map_add_def)

lemma omap_get_prefix: "omap_get pal k = Some i \<Longrightarrow> omap_get (pal @ ext) k = Some i"
  by (simp add: map_add_def)

lemma index_pixels_facts:
  "(palette_wf pal \<longrightarrow> palette_wf (fst (index_pixels im pal ps)))
   \<and> (\<exists>ext. fst (index_pixels im pal ps) = pal @ ext)
   \<and> (\<forall>p \<in> set ps. omap_has (fst (index_pixels im pal ps)) (pixel_hex im p))
   \<and> snd (index_pixels im pal ps) = map (pixel_index im (fst (index_pixels im pal ps))) ps"
proof (induction ps arbitrary: pal)
  case (Cons p ps)
  let ?pal1 = "grow pal (pixel_hex im p)"
  let ?pal2 = "fst (index_pixels im ?pal1 ps)"
  obtain ext where ext: "?pal2 = ?pal1 @ ext" using Cons.IH[of ?pal1] by blast
  obtain i where i: "omap_get ?pal1 (pixel_hex im p) = Some i" using grow_facts(2) by blast
  then have i2: "omap_get ?pal2 (pixel_hex im p) = Some i" using ext omap_get_prefix by metis
  have "pixel_index im ?pal1 p = pixel_index im ?pal2 p" using i i2 by (simp add: pixel_index_def)
  then have step: "index_pixels im pal (p # ps) = (?pal2, map (pixel_index im ?pal2) (p # ps))"
    using Cons.IH[of ?pal1]
    by (cases "index_pixels im ?pal1 ps") (simp add: index_pixel_eq)
  obtain ext0 where "?pal1 = pal @ ext0" using grow_facts(3) by blast
  then have "\<exists>ext. ?pal2 = pal @ ext" using ext by simp
  moreover have "omap_has ?pal2 (pixel_hex im p)" using i2 by simp
  ultimately show ?case using Cons.IH[of ?pal1] grow_facts(1)[of pal "pixel_hex im p"] step by auto
qed simp

lemmas index_pixels_wf = index_pixels_facts[THEN conjunct1, rule_format]
lemmas index_pixels_extends = index_pixels_facts[THEN conjunct2, THEN conjunct1]
lemmas index_pixels_has = index_pixels_facts[THEN conjunct2, THEN conjunct2, THEN conjunct1, rule_format]
lemmas index_pixels_snd = index_pixels_facts[THEN conjunct2, THEN conjunct2, THEN conjunct2]

lemma pixel_index_range:
  assumes "palette_wf pal" "omap_has pal (pixel_hex im p)"
  shows "0 \<le> pixel_index im pal p" "pixel_index im pal p < int (length pal)"
    "rgba_a (getRgbaAt im (fst p) (snd p)) \<noteq> 0 \<Longrightarrow>
       pixel_index im pal p \<noteq> 0 \<and> omap_keys pal ! nat (pixel_index im pal p) = pixel_hex im p"
proof -
  obtain i where i: "omap_get pal (pixel_hex im p) = Some i" using assms(2) by blast
  note wf = palette_wf_get[OF assms(1) i]
  show "0 \<le> pixel_index im pal p" using wf i by (simp add: pixel_index_def)
  show "pixel_index im pal p < int (length pal)" using wf i by (auto simp: pixel_index_def)
  assume "rgba_a (getRgbaAt im (fst p) (snd p)) \<noteq> 0"
  then show "pixel_index im pal p \<noteq> 0 \<and> omap_keys pal ! nat (pixel_index im pal p) = pixel_hex im p"
    using wf i palette_wf_get_0[OF assms(1), of "pixel_hex im p"] pixel_hex_nonempty[of im p]
    by (cases "i = 0") (simp_all add: pixel_index_def)
qed

text \<open>The string that \<^verbatim>\<open>toRLE\<close> returns, in terms of the runs.\<close>

lemma toRLE_eq:
  assumes "index_pixels im pal (pixels (calcBounds im)) = (pal', indexes)"
  shows "toRLE im pal =
    (''0x'' @ rle_metadata (calcBounds im) @ concat (map hex_run (runs indexes)),
     im\<lparr>img_bounds := calcBounds im, img_tuples := img_tuples im @ butlast (runs indexes)\<rparr>, pal')"
  using assms by (simp add: toRLE_def Let_def encode_runs)

section \<open>Properties\<close>

text \<open>
  C8. The bounds are exact: every visible pixel lies inside them (the right bound is exclusive, the
  others inclusive), and each of the four border lines holds a visible pixel.
\<close>

theorem calcBounds_exact:
  assumes "visible im x y"
  shows "bTop (calcBounds im) \<le> y \<and> y \<le> bBottom (calcBounds im) \<and> bLeft (calcBounds im) \<le> x \<and> x < bRight (calcBounds im)
    \<and> (\<exists>x. visible im x (bTop (calcBounds im))) \<and> (\<exists>x. visible im x (bBottom (calcBounds im)))
    \<and> (\<exists>y. visible im (bLeft (calcBounds im)) y) \<and> (\<exists>y. visible im (bRight (calcBounds im) - 1) y)"
  using calcBounds_encloses[OF assms] calcBounds_tight[OF assms] by blast

definition demo_image :: Image where
  "demo_image = new_Image 4 3 (\<lambda>x y. \<lparr>rgba_r = 1, rgba_g = 2, rgba_b = 3, rgba_a = (if x = 2 \<and> y = 1 then 255 else 0)\<rparr>)"

theorem calcBounds_exact_witness:
  "bTop (calcBounds demo_image) \<le> 1 \<and> 1 \<le> bBottom (calcBounds demo_image)
    \<and> bLeft (calcBounds demo_image) \<le> 2 \<and> 2 < bRight (calcBounds demo_image)
    \<and> (\<exists>x. visible demo_image x (bTop (calcBounds demo_image)))
    \<and> (\<exists>x. visible demo_image x (bBottom (calcBounds demo_image)))
    \<and> (\<exists>y. visible demo_image (bLeft (calcBounds demo_image)) y)
    \<and> (\<exists>y. visible demo_image (bRight (calcBounds demo_image) - 1) y)"
  by (rule calcBounds_exact) (simp add: demo_image_def new_Image_def visible_def)

text \<open>
  C7. \<^verbatim>\<open>encode\<close> is lossless and cannot be shortened: the string it returns prints runs that expand to the
  given indexes, every length fits one byte, neighbouring runs cannot be merged; and \<^verbatim>\<open>tuples\<close>
  records all of the runs but the last.
\<close>

theorem encode_lossless:
  "\<exists>rs. expand rs = data \<and> list_all (\<lambda>(n, c). 1 \<le> n \<and> n \<le> 255 \<and> c \<in> set data) rs \<and> maximal_runs rs
    \<and> encode data tps = (concat (map hex_run rs), tps @ butlast rs)"
  using expand_runs runs_counts maximal_runs_runs encode_runs by blast

end
