(* ===== verification/Sdk_Svg.thy ===== *)
theory Sdk_Svg
  imports Sdk_Image
begin

text \<open>
  The decoder and renderer of \<^verbatim>\<open>packages/nouns-sdk/src/image/svg-builder.ts\<close>. Numbers read with
  \<open>parseInt\<close> may be \<open>NaN\<close>, so decoded bounds and runs are \<open>num\<close>s; the drawing loop is a
  \<^theory_text>\<open>partial_function\<close>, because a run whose length is \<open>NaN\<close> makes it run forever. The rectangles it
  pushes are kept as records and printed by \<open>rect_tag\<close>. The lemmas show that decoding inverts the
  encoder and that a run of length \<open>n\<close> started at a cursor paints exactly the next \<open>n\<close> cells.
\<close>

section \<open>Decoding (decodeImage)\<close>

record DecodedBounds =
  dTop :: num
  dRight :: num
  dBottom :: num
  dLeft :: num

record DecodedImage =
  paletteIndex :: num
  decBounds :: DecodedBounds
  rects :: "(num \<times> num) list"

definition substring :: "string \<Rightarrow> nat \<Rightarrow> nat \<Rightarrow> string" where
  "substring s i j = take (j - i) (drop i s)"

text \<open>\<open>image.replace(/^0x/, '')\<close>\<close>

definition drop_0x :: "string \<Rightarrow> string" where
  "drop_0x s = (if take 2 s = ''0x'' then drop 2 s else s)"

text \<open>\<open>match(/.{1,4}/g)\<close> on a string without line breaks: chunks of four, the last one shorter.\<close>

fun chunks4 :: "string \<Rightarrow> string list" where
  "chunks4 (c1 # c2 # c3 # c4 # s) = [c1, c2, c3, c4] # chunks4 s"
| "chunks4 [] = []"
| "chunks4 s = [s]"

definition decodeImage :: "string \<Rightarrow> DecodedImage" where
  "decodeImage img =
     (let data = drop_0x img in
      \<lparr>paletteIndex = parseInt16 (substring data 0 2),
       decBounds =
         \<lparr>dTop = parseInt16 (substring data 2 4),
          dRight = parseInt16 (substring data 4 6),
          dBottom = parseInt16 (substring data 6 8),
          dLeft = parseInt16 (substring data 8 10)\<rparr>,
       rects = map (\<lambda>rect. (parseInt16 (substring rect 0 2), parseInt16 (substring rect 2 4)))
                 (chunks4 (drop 10 data))\<rparr>)"

section \<open>Drawing (getRectLength, buildSVG)\<close>

definition getRectLength :: "num \<Rightarrow> num \<Rightarrow> num \<Rightarrow> num" where
  "getRectLength currentX drawLength rightBound =
     (let remainingPixelsInLine = num_sub rightBound currentX
      in if num_le drawLength remainingPixelsInLine then drawLength else remainingPixelsInLine)"

record rect =
  rcLength :: num
  rcX :: num
  rcY :: num
  rcColor :: num

text \<open>
  The body of the \<open>while (length > 0)\<close> loop for one run, with the cursor \<open>(x, y)\<close>; the result is the
  rectangles it pushes and the cursor after it, \<open>None\<close> if the loop never ends.
\<close>

partial_function (option) draw_run ::
  "DecodedBounds \<Rightarrow> num \<Rightarrow> num \<Rightarrow> num \<Rightarrow> num \<Rightarrow> rect list \<Rightarrow> (rect list \<times> num \<times> num) option"
where
  "draw_run bd colorIndex drawLength x y svgRects =
     (let len = getRectLength x drawLength (dRight bd) in
      if num_pos len then
        (let svgRects' = (if colorIndex \<noteq> Some 0
                          then svgRects @ [\<lparr>rcLength = len, rcX = x, rcY = y, rcColor = colorIndex\<rparr>]
                          else svgRects);
             x' = num_add x len;
             wrap = num_eq x' (dRight bd)
         in draw_run bd colorIndex (num_sub drawLength len)
              (if wrap then dLeft bd else x') (if wrap then num_add y (Some 1) else y) svgRects')
      else Some (svgRects, x, y))"

fun draw_runs ::
  "DecodedBounds \<Rightarrow> (num \<times> num) list \<Rightarrow> num \<Rightarrow> num \<Rightarrow> rect list \<Rightarrow> rect list option" where
  "draw_runs bd [] x y svgRects = Some svgRects"
| "draw_runs bd ((n, c) # rs) x y svgRects =
     (case draw_run bd c n x y svgRects of
        None \<Rightarrow> None
      | Some (svgRects', x', y') \<Rightarrow> draw_runs bd rs x' y' svgRects')"

definition part_rects :: "string \<Rightarrow> rect list option" where
  "part_rects data =
     (let d = decodeImage data
      in draw_runs (decBounds d) (rects d) (dLeft (decBounds d)) (dTop (decBounds d)) [])"

text \<open>\<open>paletteColors[colorIndex]\<close>, which is \<open>undefined\<close> outside the array.\<close>

definition palette_color :: "string list \<Rightarrow> num \<Rightarrow> string" where
  "palette_color paletteColors i =
     (case i of
        None \<Rightarrow> ''undefined''
      | Some k \<Rightarrow> if 0 \<le> k \<and> nat k < length paletteColors then paletteColors ! nat k else ''undefined'')"

definition times10 :: "num \<Rightarrow> num" where
  "times10 n = map_option (\<lambda>i. i * 10) n"

definition rect_tag :: "string list \<Rightarrow> rect \<Rightarrow> string" where
  "rect_tag paletteColors rc =
     ''<rect width=\"'' @ num_to_string (times10 (rcLength rc)) @ ''\" height=\"10\" x=\"''
       @ num_to_string (times10 (rcX rc)) @ ''\" y=\"'' @ num_to_string (times10 (rcY rc))
       @ ''\" fill=\"#'' @ palette_color paletteColors (rcColor rc) @ ''\" />''"

definition svg_header :: "string option \<Rightarrow> string" where
  "svg_header bgColor =
     ''<svg width=\"320\" height=\"320\" viewBox=\"0 0 320 320\" xmlns=\"http://www.w3.org/2000/svg\" shape-rendering=\"crispEdges\"><rect width=\"100%\" height=\"100%\" fill=\"''
       @ (case bgColor of None \<Rightarrow> ''none'' | Some c \<Rightarrow> if c = [] then ''none'' else CHR ''#'' # c)
       @ ''\" />''"

fun build_parts :: "string list \<Rightarrow> string list \<Rightarrow> string \<Rightarrow> string option" where
  "build_parts paletteColors [] result = Some result"
| "build_parts paletteColors (part # parts) result =
     (case part_rects part of
        None \<Rightarrow> None
      | Some rs \<Rightarrow> build_parts paletteColors parts (result @ concat (map (rect_tag paletteColors) rs)))"

definition buildSVG :: "string list \<Rightarrow> string list \<Rightarrow> string option \<Rightarrow> string option" where
  "buildSVG parts paletteColors bgColor =
     map_option (\<lambda>svgWithoutEndTag. svgWithoutEndTag @ ''</svg>'')
       (build_parts paletteColors parts (svg_header bgColor))"

section \<open>Decoding inverts encoding\<close>

definition in_byte :: "int \<Rightarrow> bool" where
  "in_byte v \<longleftrightarrow> 0 \<le> v \<and> v < 256"

definition bounds_in_byte :: "ImageBounds \<Rightarrow> bool" where
  "bounds_in_byte bd \<longleftrightarrow> in_byte (bTop bd) \<and> in_byte (bRight bd) \<and> in_byte (bBottom bd) \<and> in_byte (bLeft bd)"

definition bounds_num :: "ImageBounds \<Rightarrow> DecodedBounds" where
  "bounds_num bd =
     \<lparr>dTop = Some (bTop bd), dRight = Some (bRight bd), dBottom = Some (bBottom bd), dLeft = Some (bLeft bd)\<rparr>"

abbreviation run_num :: "int \<times> int \<Rightarrow> num \<times> num" where
  "run_num \<equiv> map_prod Some Some"

lemma hex_byte:
  assumes "in_byte v"
  obtains c d where "toPaddedHex v 2 = [c, d]" "parseInt16 [c, d] = Some v"
proof -
  from assms have v: "0 \<le> v" "v < 256" by (simp_all add: in_byte_def)
  obtain c d where "toPaddedHex v 2 = [c, d]" by (rule toPaddedHex_pair[OF v])
  then show ?thesis using that parseInt16_toPaddedHex[OF v(1), of 2] by simp
qed

lemma chunks4_runs:
  assumes "list_all (\<lambda>(n, c). in_byte n \<and> in_byte c) rs"
  shows "map (\<lambda>rect. (parseInt16 (substring rect 0 2), parseInt16 (substring rect 2 4)))
           (chunks4 (concat (map hex_run rs))) = map run_num rs"
  using assms
proof (induction rs)
  case (Cons nc rs)
  obtain n c where nc: "nc = (n, c)" by (cases nc)
  with Cons.prems have b: "in_byte n" "in_byte c" by simp_all
  obtain c1 c2 where "toPaddedHex n 2 = [c1, c2]" "parseInt16 [c1, c2] = Some n"
    by (rule hex_byte[OF b(1)])
  moreover obtain c3 c4 where "toPaddedHex c 2 = [c3, c4]" "parseInt16 [c3, c4] = Some c"
    by (rule hex_byte[OF b(2)])
  ultimately show ?case
    using Cons nc by (simp add: hex_run_def substring_def)
qed simp

lemma decodeImage_rle:
  assumes "bounds_in_byte bd" "list_all (\<lambda>(n, c). in_byte n \<and> in_byte c) rs"
  shows "decodeImage (''0x'' @ rle_metadata bd @ concat (map hex_run rs)) =
    \<lparr>paletteIndex = Some 0, decBounds = bounds_num bd, rects = map run_num rs\<rparr>"
proof -
  have "in_byte 0" by (simp add: in_byte_def)
  then obtain z1 z2 where z: "toPaddedHex 0 2 = [z1, z2]" "parseInt16 [z1, z2] = Some 0"
    by (rule hex_byte)
  from assms(1) have bs: "in_byte (bTop bd)" "in_byte (bRight bd)" "in_byte (bBottom bd)" "in_byte (bLeft bd)"
    by (simp_all add: bounds_in_byte_def)
  obtain t1 t2 where t: "toPaddedHex (bTop bd) 2 = [t1, t2]" "parseInt16 [t1, t2] = Some (bTop bd)"
    by (rule hex_byte[OF bs(1)])
  obtain r1 r2 where r: "toPaddedHex (bRight bd) 2 = [r1, r2]" "parseInt16 [r1, r2] = Some (bRight bd)"
    by (rule hex_byte[OF bs(2)])
  obtain b1 b2 where b: "toPaddedHex (bBottom bd) 2 = [b1, b2]" "parseInt16 [b1, b2] = Some (bBottom bd)"
    by (rule hex_byte[OF bs(3)])
  obtain l1 l2 where l: "toPaddedHex (bLeft bd) 2 = [l1, l2]" "parseInt16 [l1, l2] = Some (bLeft bd)"
    by (rule hex_byte[OF bs(4)])
  have "rle_metadata bd = [z1, z2, t1, t2, r1, r2, b1, b2, l1, l2]"
    by (simp add: rle_metadata_def z t r b l)
  then show ?thesis
    using z t r b l chunks4_runs[OF assms(2)]
    by (simp add: decodeImage_def Let_def drop_0x_def substring_def bounds_num_def eval_nat_numeral)
qed

section \<open>A run paints the next cells\<close>

definition covers :: "rect \<Rightarrow> int \<Rightarrow> int \<Rightarrow> bool" where
  "covers rc X Y \<longleftrightarrow>
     (\<exists>l x. rcLength rc = Some l \<and> rcX rc = Some x \<and> rcY rc = Some Y \<and> x \<le> X \<and> X < x + l)"

text \<open>The cell with number \<open>k\<close>, counting row by row inside the bounds.\<close>

definition cell_x :: "ImageBounds \<Rightarrow> int \<Rightarrow> int" where
  "cell_x bd k = bLeft bd + k mod (bRight bd - bLeft bd)"

definition cell_y :: "ImageBounds \<Rightarrow> int \<Rightarrow> int" where
  "cell_y bd k = bTop bd + k div (bRight bd - bLeft bd)"

lemma same_line:
  fixes w :: int
  assumes "0 < w" "0 \<le> d" "p mod w + d < w"
  shows "(p + d) mod w = p mod w + d" "(p + d) div w = p div w"
proof -
  have eq: "p + d = w * (p div w) + (p mod w + d)" using mult_div_mod_eq[of w p] by linarith
  have "0 \<le> p mod w + d" using assms by simp
  then show "(p + d) mod w = p mod w + d" "(p + d) div w = p div w"
    by (rule int_mod_pos_eq[OF eq _ assms(3)], rule int_div_pos_eq[OF eq _ assms(3)])
qed

lemma next_line:
  fixes w :: int
  assumes "0 < w" "p mod w + d = w"
  shows "(p + d) mod w = 0" "(p + d) div w = p div w + 1"
proof -
  have "w * (p div w + 1) = w * (p div w) + w" by (simp add: distrib_left)
  then have eq: "p + d = w * (p div w + 1) + 0" using mult_div_mod_eq[of w p] assms(2) by linarith
  show "(p + d) mod w = 0" "(p + d) div w = p div w + 1"
    by (rule int_mod_pos_eq[OF eq order_refl assms(1)], rule int_div_pos_eq[OF eq order_refl assms(1)])
qed

text \<open>The rectangles of a run of known length, as a list.\<close>

definition line_rect :: "ImageBounds \<Rightarrow> int \<Rightarrow> int \<Rightarrow> int \<Rightarrow> rect" where
  "line_rect bd p len c =
     \<lparr>rcLength = Some len, rcX = Some (cell_x bd p), rcY = Some (cell_y bd p), rcColor = Some c\<rparr>"

lemma covers_line_rect:
  assumes w: "0 < bRight bd - bLeft bd" and len: "p mod (bRight bd - bLeft bd) + len \<le> bRight bd - bLeft bd"
  shows "covers (line_rect bd p len c) X Y \<longleftrightarrow>
    (\<exists>k. p \<le> k \<and> k < p + len \<and> X = cell_x bd k \<and> Y = cell_y bd k)"
    (is "?L \<longleftrightarrow> ?R")
proof
  let ?w = "bRight bd - bLeft bd"
  assume ?L
  then have Y: "Y = cell_y bd p" and X: "cell_x bd p \<le> X" "X < cell_x bd p + len"
    by (auto simp: covers_def line_rect_def)
  let ?d = "X - cell_x bd p"
  have "0 \<le> ?d" "p mod ?w + ?d < ?w" using X len by auto
  note sl = same_line[OF w this]
  have "X = cell_x bd (p + ?d)" "Y = cell_y bd (p + ?d)"
    using sl Y by (simp_all add: cell_x_def cell_y_def)
  then show ?R using X by (intro exI[of _ "p + ?d"]) auto
next
  let ?w = "bRight bd - bLeft bd"
  assume ?R
  then obtain k where k: "p \<le> k" "k < p + len" "X = cell_x bd k" "Y = cell_y bd k" by blast
  have "0 \<le> k - p" "p mod ?w + (k - p) < ?w" using k len by auto
  note sl = same_line[OF w this]
  then show ?L using k by (auto simp: covers_def line_rect_def cell_x_def cell_y_def)
qed

lemma exists_range_split:
  fixes p l n :: int
  assumes "p \<le> l" "l \<le> n"
  shows "(\<exists>k. p \<le> k \<and> k < n \<and> Q k) \<longleftrightarrow> (\<exists>k. p \<le> k \<and> k < l \<and> Q k) \<or> (\<exists>k. l \<le> k \<and> k < n \<and> Q k)"
  using assms by (meson leD le_less_trans not_le order_trans)

lemma draw_run_stop:
  "\<not> num_pos (getRectLength x n (dRight bd)) \<Longrightarrow> draw_run bd ci n x y acc = Some (acc, x, y)"
  by (subst draw_run.simps) (simp add: Let_def)

text \<open>
  One round of the loop from the cursor of cell \<open>p\<close>: it draws to the end of the run or of the line
  and moves the cursor to the cell after it.
\<close>

lemma bounds_num_fields:
  "dTop (bounds_num bd) = Some (bTop bd)" "dRight (bounds_num bd) = Some (bRight bd)"
  "dBottom (bounds_num bd) = Some (bBottom bd)" "dLeft (bounds_num bd) = Some (bLeft bd)"
  by (simp_all add: bounds_num_def)

lemma draw_run_round:
  assumes w: "0 < bRight bd - bLeft bd" and n: "0 < n"
    and len: "len = min n (bRight bd - cell_x bd p)"
  shows "0 < len"
    "draw_run (bounds_num bd) (Some c) (Some n) (Some (cell_x bd p)) (Some (cell_y bd p)) acc =
     draw_run (bounds_num bd) (Some c) (Some (n - len)) (Some (cell_x bd (p + len))) (Some (cell_y bd (p + len)))
       (acc @ (if c = 0 then [] else [line_rect bd p len c]))"
proof -
  let ?w = "bRight bd - bLeft bd"
  have m: "0 \<le> p mod ?w" "p mod ?w < ?w" using w by simp_all
  show pos: "0 < len" using len n m by (simp add: cell_x_def)
  have gl: "getRectLength (Some (cell_x bd p)) (Some n) (Some (bRight bd)) = Some len"
    using len by (auto simp: getRectLength_def min_def)
  have cur: "(if cell_x bd p + len = bRight bd then bLeft bd else cell_x bd p + len) = cell_x bd (p + len)"
    "(if cell_x bd p + len = bRight bd then cell_y bd p + 1 else cell_y bd p) = cell_y bd (p + len)"
  proof -
    show "(if cell_x bd p + len = bRight bd then bLeft bd else cell_x bd p + len) = cell_x bd (p + len)"
    proof (cases "cell_x bd p + len = bRight bd")
      case True
      then show ?thesis using next_line[OF w, of p len] by (simp add: cell_x_def)
    next
      case False
      then have "p mod ?w + len < ?w" using len by (auto simp: cell_x_def)
      then show ?thesis using False same_line[OF w, of len p] pos by (simp add: cell_x_def)
    qed
    show "(if cell_x bd p + len = bRight bd then cell_y bd p + 1 else cell_y bd p) = cell_y bd (p + len)"
    proof (cases "cell_x bd p + len = bRight bd")
      case True
      then show ?thesis using next_line[OF w, of p len] by (simp add: cell_x_def cell_y_def)
    next
      case False
      then have "p mod ?w + len < ?w" using len by (auto simp: cell_x_def)
      then show ?thesis using False same_line[OF w, of len p] pos by (simp add: cell_x_def cell_y_def)
    qed
  qed
  show "draw_run (bounds_num bd) (Some c) (Some n) (Some (cell_x bd p)) (Some (cell_y bd p)) acc =
     draw_run (bounds_num bd) (Some c) (Some (n - len)) (Some (cell_x bd (p + len))) (Some (cell_y bd (p + len)))
       (acc @ (if c = 0 then [] else [line_rect bd p len c]))"
  proof (cases "cell_x bd p + len = bRight bd")
    case True
    with cur have "cell_x bd (p + len) = bLeft bd" "cell_y bd (p + len) = cell_y bd p + 1" by simp_all
    with True pos show ?thesis
      by (subst draw_run.simps) (simp add: gl Let_def line_rect_def bounds_num_fields)
  next
    case False
    with cur have "cell_x bd (p + len) = cell_x bd p + len" "cell_y bd (p + len) = cell_y bd p" by simp_all
    with False pos show ?thesis
      by (subst draw_run.simps) (simp add: gl Let_def line_rect_def bounds_num_fields)
  qed
qed

lemma draw_run_cells:
  assumes w: "0 < bRight bd - bLeft bd"
  shows "0 \<le> n \<Longrightarrow> \<exists>rs.
    draw_run (bounds_num bd) (Some c) (Some n) (Some (cell_x bd p)) (Some (cell_y bd p)) acc =
      Some (acc @ rs, Some (cell_x bd (p + n)), Some (cell_y bd (p + n)))
    \<and> (\<forall>rc \<in> set rs. rcColor rc = Some c)
    \<and> (\<forall>X Y. (\<exists>rc \<in> set rs. covers rc X Y) \<longleftrightarrow>
          c \<noteq> 0 \<and> (\<exists>k. p \<le> k \<and> k < p + n \<and> X = cell_x bd k \<and> Y = cell_y bd k))"
proof (induction "nat n" arbitrary: n p acc rule: less_induct)
  case less
  show ?case
  proof (cases "n = 0")
    case True
    have "cell_x bd p < bRight bd" using pos_mod_bound[OF w, of p] by (simp add: cell_x_def)
    then have "\<not> num_pos (getRectLength (Some (cell_x bd p)) (Some n) (dRight (bounds_num bd)))"
      using True by (simp add: getRectLength_def bounds_num_def)
    then show ?thesis using True by (simp add: draw_run_stop)
  next
    case False
    with less.prems have n: "0 < n" by simp
    define len where "len = min n (bRight bd - cell_x bd p)"
    note round = draw_run_round[OF w n len_def]
    define new where "new = (if c = 0 then [] else [line_rect bd p len c])"
    have "len \<le> n" by (simp add: len_def)
    then have smaller: "nat (n - len) < nat n" "0 \<le> n - len" using round(1) n by auto
    have whole: "p + len + (n - len) = p + n" by simp
    obtain rs where rs:
      "draw_run (bounds_num bd) (Some c) (Some (n - len)) (Some (cell_x bd (p + len)))
          (Some (cell_y bd (p + len))) (acc @ new) =
        Some ((acc @ new) @ rs, Some (cell_x bd (p + n)), Some (cell_y bd (p + n)))"
      "\<forall>rc \<in> set rs. rcColor rc = Some c"
      "\<forall>X Y. (\<exists>rc \<in> set rs. covers rc X Y) \<longleftrightarrow>
          c \<noteq> 0 \<and> (\<exists>k. p + len \<le> k \<and> k < p + n \<and> X = cell_x bd k \<and> Y = cell_y bd k)"
      using less.hyps[OF smaller, of "p + len" "acc @ new", unfolded whole] by blast
    have line: "p mod (bRight bd - bLeft bd) + len \<le> bRight bd - bLeft bd"
      by (simp add: len_def cell_x_def)
    have cov: "(\<exists>rc \<in> set (new @ rs). covers rc X Y) \<longleftrightarrow>
        c \<noteq> 0 \<and> (\<exists>k. p \<le> k \<and> k < p + n \<and> X = cell_x bd k \<and> Y = cell_y bd k)" for X Y
    proof -
      have "(\<exists>k. p \<le> k \<and> k < p + n \<and> X = cell_x bd k \<and> Y = cell_y bd k) \<longleftrightarrow>
        (\<exists>k. p \<le> k \<and> k < p + len \<and> X = cell_x bd k \<and> Y = cell_y bd k)
        \<or> (\<exists>k. p + len \<le> k \<and> k < p + n \<and> X = cell_x bd k \<and> Y = cell_y bd k)"
        by (rule exists_range_split) (use round(1) \<open>len \<le> n\<close> in auto)
      moreover have "(\<exists>rc \<in> set new. covers rc X Y) \<longleftrightarrow>
          c \<noteq> 0 \<and> (\<exists>k. p \<le> k \<and> k < p + len \<and> X = cell_x bd k \<and> Y = cell_y bd k)"
        using covers_line_rect[OF w line, of c X Y] by (simp add: new_def)
      ultimately show ?thesis using rs(3) by (simp only: set_append bex_Un) blast
    qed
    have "\<forall>rc \<in> set new. rcColor rc = Some c" by (simp add: new_def line_rect_def)
    then have "\<forall>rc \<in> set (new @ rs). rcColor rc = Some c" using rs(2) by auto
    with cov round(2)[of c acc, folded new_def] rs(1) show ?thesis
      by (intro exI[of _ "new @ rs"]) (simp only: append_assoc simp_thms)
  qed
qed

lemma draw_runs_cells:
  assumes w: "0 < bRight bd - bLeft bd"
  shows "list_all (\<lambda>(n, c). 0 \<le> n) rs \<Longrightarrow> \<exists>out.
    draw_runs (bounds_num bd) (map run_num rs) (Some (cell_x bd p)) (Some (cell_y bd p)) acc = Some (acc @ out)
    \<and> (\<forall>rc \<in> set out. rcColor rc \<noteq> None)
    \<and> (\<forall>X Y c. (\<exists>rc \<in> set out. covers rc X Y \<and> rcColor rc = Some c) \<longleftrightarrow>
          c \<noteq> 0 \<and> (\<exists>k < length (expand rs). expand rs ! k = c
                      \<and> X = cell_x bd (p + int k) \<and> Y = cell_y bd (p + int k)))"
proof (induction rs arbitrary: p acc)
  case (Cons nc rs)
  obtain n c0 where nc: "nc = (n, c0)" by (cases nc)
  with Cons.prems have n: "0 \<le> n" by simp
  obtain rs1 where rs1:
    "draw_run (bounds_num bd) (Some c0) (Some n) (Some (cell_x bd p)) (Some (cell_y bd p)) acc =
      Some (acc @ rs1, Some (cell_x bd (p + n)), Some (cell_y bd (p + n)))"
    "\<forall>rc \<in> set rs1. rcColor rc = Some c0"
    "\<forall>X Y. (\<exists>rc \<in> set rs1. covers rc X Y) \<longleftrightarrow>
      c0 \<noteq> 0 \<and> (\<exists>k. p \<le> k \<and> k < p + n \<and> X = cell_x bd k \<and> Y = cell_y bd k)"
    using draw_run_cells[OF w n, of c0 p acc] by blast
  obtain out where out:
    "draw_runs (bounds_num bd) (map run_num rs) (Some (cell_x bd (p + n))) (Some (cell_y bd (p + n))) (acc @ rs1) =
      Some ((acc @ rs1) @ out)"
    "\<forall>rc \<in> set out. rcColor rc \<noteq> None"
    "\<forall>X Y c. (\<exists>rc \<in> set out. covers rc X Y \<and> rcColor rc = Some c) \<longleftrightarrow>
      c \<noteq> 0 \<and> (\<exists>k < length (expand rs). expand rs ! k = c
                  \<and> X = cell_x bd (p + n + int k) \<and> Y = cell_y bd (p + n + int k))"
    using Cons.IH[of "p + n" "acc @ rs1"] Cons.prems by auto
  have split: "(\<exists>k < length (expand (nc # rs)). expand (nc # rs) ! k = c \<and> Q (p + int k)) \<longleftrightarrow>
      (c = c0 \<and> (\<exists>k. p \<le> k \<and> k < p + n \<and> Q k))
      \<or> (\<exists>k < length (expand rs). expand rs ! k = c \<and> Q (p + n + int k))" for c Q
  proof (intro iffI; (elim exE conjE disjE)?)
    fix k assume k: "k < length (expand (nc # rs))" "expand (nc # rs) ! k = c" "Q (p + int k)"
    show "(c = c0 \<and> (\<exists>k. p \<le> k \<and> k < p + n \<and> Q k))
      \<or> (\<exists>k < length (expand rs). expand rs ! k = c \<and> Q (p + n + int k))"
    proof (cases "k < nat n")
      case True
      then show ?thesis using k nc by (intro disjI1 conjI exI[of _ "p + int k"]) (auto simp: nth_append)
    next
      case False
      then show ?thesis using k nc n
        by (intro disjI2 exI[of _ "k - nat n"]) (auto simp: nth_append of_nat_diff algebra_simps)
    qed
  next
    fix k assume "c = c0" "p \<le> k" "k < p + n" "Q k"
    then show "\<exists>k < length (expand (nc # rs)). expand (nc # rs) ! k = c \<and> Q (p + int k)"
      using nc by (intro exI[of _ "nat (k - p)"]) (auto simp: nth_append)
  next
    fix k assume "k < length (expand rs)" "expand rs ! k = c" "Q (p + n + int k)"
    then show "\<exists>k < length (expand (nc # rs)). expand (nc # rs) ! k = c \<and> Q (p + int k)"
      using nc n by (intro exI[of _ "nat n + k"]) (auto simp: nth_append algebra_simps)
  qed
  have "(\<exists>rc \<in> set (rs1 @ out). covers rc X Y \<and> rcColor rc = Some c) \<longleftrightarrow>
      c \<noteq> 0 \<and> (\<exists>k < length (expand (nc # rs)). expand (nc # rs) ! k = c
                  \<and> X = cell_x bd (p + int k) \<and> Y = cell_y bd (p + int k))" for X Y c
  proof -
    have "(\<exists>rc \<in> set rs1. covers rc X Y \<and> rcColor rc = Some c) \<longleftrightarrow>
      c \<noteq> 0 \<and> c = c0 \<and> (\<exists>k. p \<le> k \<and> k < p + n \<and> X = cell_x bd k \<and> Y = cell_y bd k)"
      using rs1(2,3) by fastforce
    then show ?thesis
      using out(3) split[of c "\<lambda>k. X = cell_x bd k \<and> Y = cell_y bd k"] by (auto simp: bex_Un)
  qed
  moreover have "\<forall>rc \<in> set (rs1 @ out). rcColor rc \<noteq> None" using rs1(2) out(2) by auto
  ultimately show ?case using rs1(1) out(1) nc by (intro exI[of _ "rs1 @ out"]) simp
qed simp

section \<open>The image drawn is the image encoded\<close>

lemma pixels_cells:
  assumes w: "0 < bRight bd - bLeft bd" and h: "bTop bd \<le> bBottom bd + 1"
  shows "pixels bd = map (\<lambda>k. (cell_x bd k, cell_y bd k))
    [0..(bRight bd - bLeft bd) * (bBottom bd + 1 - bTop bd) - 1]"
proof -
  let ?w = "bRight bd - bLeft bd"
  have row: "map (\<lambda>x. (x, bTop bd + int m)) [bLeft bd..bRight bd - 1] =
    map (\<lambda>k. (cell_x bd k, cell_y bd k)) [?w * int m..?w * (int m + 1) - 1]" for m
  proof (rule nth_equalityI)
    show "length (map (\<lambda>x. (x, bTop bd + int m)) [bLeft bd..bRight bd - 1]) =
      length (map (\<lambda>k. (cell_x bd k, cell_y bd k)) [?w * int m..?w * (int m + 1) - 1])"
      using w by (simp add: distrib_left)
  next
    fix i assume "i < length (map (\<lambda>x. (x, bTop bd + int m)) [bLeft bd..bRight bd - 1])"
    then have i: "0 \<le> int i" "int i < ?w" by auto
    have "(?w * int m + int i) mod ?w = int i" "(?w * int m + int i) div ?w = int m"
      by (rule int_mod_pos_eq[OF refl i], rule int_div_pos_eq[OF refl i])
    then show "map (\<lambda>x. (x, bTop bd + int m)) [bLeft bd..bRight bd - 1] ! i =
      map (\<lambda>k. (cell_x bd k, cell_y bd k)) [?w * int m..?w * (int m + 1) - 1] ! i"
      using i by (simp add: nth_upto distrib_left cell_x_def cell_y_def)
  qed
  have "concat (map (\<lambda>y. map (\<lambda>x. (x, y)) [bLeft bd..bRight bd - 1]) [bTop bd..bTop bd + int m - 1]) =
    map (\<lambda>k. (cell_x bd k, cell_y bd k)) [0..?w * int m - 1]" for m
  proof (induction m)
    case (Suc m)
    have "[bTop bd..bTop bd + int (Suc m) - 1] = [bTop bd..bTop bd + int m - 1] @ [bTop bd + int m]"
      using upto_rec2[of "bTop bd" "bTop bd + int m"] by simp
    moreover have "[0..?w * int (Suc m) - 1] = [0..?w * int m - 1] @ [?w * int m..?w * (int m + 1) - 1]"
    proof -
      have "0 \<le> ?w * int m" "?w * int (Suc m) = ?w * int m + ?w"
        using w by (simp_all add: distrib_left)
      then show ?thesis
        using w upto_split1[of 0 "?w * int m" "?w * int (Suc m) - 1"] by (simp add: add.commute)
    qed
    ultimately show ?case using Suc row[of m] by simp
  qed simp
  from this[of "nat (bBottom bd + 1 - bTop bd)"] h show ?thesis by (simp add: pixels_def)
qed

lemma set_pixels:
  "(x, y) \<in> set (pixels bd) \<longleftrightarrow> bLeft bd \<le> x \<and> x < bRight bd \<and> bTop bd \<le> y \<and> y \<le> bBottom bd"
  by (auto simp: pixels_def image_iff)

lemma ex_nth_pixels:
  assumes "0 < bRight bd - bLeft bd" "bTop bd \<le> bBottom bd + 1"
  shows "(\<exists>k < length (pixels bd). f (pixels bd ! k) = c \<and> X = cell_x bd (int k) \<and> Y = cell_y bd (int k))
    \<longleftrightarrow> (X, Y) \<in> set (pixels bd) \<and> f (X, Y) = c"
proof -
  have *: "pixels bd ! k = (cell_x bd (int k), cell_y bd (int k))" if "k < length (pixels bd)" for k
    using that by (simp add: pixels_cells[OF assms] nth_upto)
  then have "(\<exists>k < length (pixels bd). f (pixels bd ! k) = c \<and> X = cell_x bd (int k) \<and> Y = cell_y bd (int k))
    \<longleftrightarrow> (\<exists>k < length (pixels bd). f (pixels bd ! k) = c \<and> pixels bd ! k = (X, Y))"
    by (metis prod.inject)
  also have "\<dots> \<longleftrightarrow> (X, Y) \<in> set (pixels bd) \<and> f (X, Y) = c"
    unfolding in_set_conv_nth by metis
  finally show ?thesis .
qed

lemma draw_runs_pixels:
  assumes "bLeft bd \<le> bRight bd" "bTop bd \<le> bBottom bd + 1"
  shows "\<exists>out. draw_runs (bounds_num bd) (map run_num (runs (map f (pixels bd))))
      (Some (bLeft bd)) (Some (bTop bd)) [] = Some out
    \<and> (\<forall>rc \<in> set out. rcColor rc \<noteq> None)
    \<and> (\<forall>X Y c. (\<exists>rc \<in> set out. covers rc X Y \<and> rcColor rc = Some c) \<longleftrightarrow>
          c \<noteq> 0 \<and> (X, Y) \<in> set (pixels bd) \<and> f (X, Y) = c)"
proof (cases "bLeft bd < bRight bd")
  case False
  then have "pixels bd = []" by (simp add: pixels_def)
  then show ?thesis by (simp add: runs_def)
next
  case True
  then have w: "0 < bRight bd - bLeft bd" by simp
  let ?rs = "runs (map f (pixels bd))"
  have "list_all (\<lambda>(n, c). 0 \<le> n) ?rs"
    using runs_counts[of "map f (pixels bd)"] by (auto simp: list_all_iff)
  moreover have "cell_x bd 0 = bLeft bd" "cell_y bd 0 = bTop bd" by (simp_all add: cell_x_def cell_y_def)
  ultimately show ?thesis
    using draw_runs_cells[OF w, of ?rs 0 "[]"] ex_nth_pixels[OF w assms(2), of f]
    by (simp add: expand_runs cong: conj_cong)
qed

text \<open>What decoding gives back of an encoded image: the bounds and the runs of the indexes.\<close>

lemma decodeImage_toRLE:
  assumes dim: "0 < img_width im" "img_width im \<le> 255" "0 < img_height im" "img_height im \<le> 256"
    and wf: "palette_wf pal" and rle: "toRLE im pal = (s, im', pal')" and small: "length pal' \<le> 256"
  shows "decodeImage s =
      \<lparr>paletteIndex = Some 0, decBounds = bounds_num (calcBounds im),
       rects = map run_num (runs (map (pixel_index im pal') (pixels (calcBounds im))))\<rparr>"
    "palette_wf pal'" "\<forall>p \<in> set (pixels (calcBounds im)). omap_has pal' (pixel_hex im p)"
proof -
  let ?bd = "calcBounds im"
  obtain pal1 indexes where ip: "index_pixels im pal (pixels ?bd) = (pal1, indexes)"
    by (cases "index_pixels im pal (pixels ?bd)")
  then have eq: "pal1 = pal'" "s = ''0x'' @ rle_metadata ?bd @ concat (map hex_run (runs indexes))"
    using toRLE_eq[OF ip] rle by simp_all
  then have ix: "indexes = map (pixel_index im pal') (pixels ?bd)"
    using index_pixels_snd[of im pal "pixels ?bd"] ip by simp
  show wf': "palette_wf pal'" using index_pixels_wf[OF wf, of im "pixels ?bd"] ip eq by simp
  show has: "\<forall>p \<in> set (pixels ?bd). omap_has pal' (pixel_hex im p)"
    using index_pixels_has[of _ "pixels ?bd" im pal] ip eq by simp
  have "in_byte i" if "i \<in> set indexes" for i
    using that ix has pixel_index_range(1,2)[OF wf'] small by (fastforce simp: in_byte_def)
  then have "list_all (\<lambda>(n, c). in_byte n \<and> in_byte c) (runs indexes)"
    using runs_counts[of indexes] by (fastforce simp: list_all_iff in_byte_def)
  moreover have "bounds_in_byte ?bd"
    using calcBounds_range[OF dim(1,3)] dim(2,4) by (simp add: bounds_in_byte_def in_byte_def)
  ultimately show "decodeImage s = \<lparr>paletteIndex = Some 0, decBounds = bounds_num ?bd,
       rects = map run_num (runs (map (pixel_index im pal') (pixels ?bd)))\<rparr>"
    unfolding eq(2) ix using decodeImage_rle[of ?bd "runs (map (pixel_index im pal') (pixels ?bd))"]
    by simp
qed

lemma pixel_index_colour:
  assumes "palette_wf pal" "\<forall>p \<in> S. omap_has pal (pixel_hex im p)" "p \<in> S"
  shows "pixel_index im pal p \<noteq> 0 \<longleftrightarrow> rgba_a (getRgbaAt im (fst p) (snd p)) \<noteq> 0"
    "pixel_index im pal p \<noteq> 0 \<Longrightarrow>
      palette_color (omap_keys (pal @ ext)) (Some (pixel_index im pal p)) = pixel_hex im p"
proof -
  have has: "omap_has pal (pixel_hex im p)" using assms by blast
  note r = pixel_index_range[OF assms(1) has]
  show iff: "pixel_index im pal p \<noteq> 0 \<longleftrightarrow> rgba_a (getRgbaAt im (fst p) (snd p)) \<noteq> 0"
    using r(3) by (auto simp: pixel_index_def)
  assume "pixel_index im pal p \<noteq> 0"
  with iff r show "palette_color (omap_keys (pal @ ext)) (Some (pixel_index im pal p)) = pixel_hex im p"
    by (simp add: palette_color_def nat_less_iff nth_append)
qed

lemma rects_of_encoded:
  assumes dim: "0 < img_width im" "img_width im \<le> 255" "0 < img_height im" "img_height im \<le> 256"
    and wf: "palette_wf pal" and rle: "toRLE im pal = (s, im', pal')" and small: "length pal' \<le> 256"
  shows "\<exists>rs. part_rects s = Some rs \<and> (\<forall>X Y h.
    (\<exists>rc \<in> set rs. covers rc X Y \<and> palette_color (omap_keys (pal' @ ext)) (rcColor rc) = h)
      \<longleftrightarrow> visible im X Y \<and> h = pixel_hex im (X, Y))"
proof -
  let ?keys = "omap_keys (pal' @ ext)"
  let ?bd = "calcBounds im" and ?ix = "pixel_index im pal'"
  note dec = decodeImage_toRLE[OF dim wf rle small] and rng = calcBounds_range[OF dim(1,3)]
  obtain out where out:
    "draw_runs (bounds_num ?bd) (map run_num (runs (map ?ix (pixels ?bd)))) (Some (bLeft ?bd)) (Some (bTop ?bd)) []
      = Some out"
    "\<forall>rc \<in> set out. rcColor rc \<noteq> None"
    "\<And>X Y c. (\<exists>rc \<in> set out. covers rc X Y \<and> rcColor rc = Some c) \<longleftrightarrow>
          c \<noteq> 0 \<and> (X, Y) \<in> set (pixels ?bd) \<and> ?ix (X, Y) = c"
    using draw_runs_pixels[of ?bd ?ix] rng by auto
  have "part_rects s = Some out" using out(1) dec(1) by (simp add: part_rects_def bounds_num_fields)
  moreover have "(\<exists>rc \<in> set out. covers rc X Y \<and> palette_color ?keys (rcColor rc) = h)
      \<longleftrightarrow> visible im X Y \<and> h = pixel_hex im (X, Y)" for X Y h
  proof -
    have "(\<exists>rc \<in> set out. covers rc X Y \<and> palette_color ?keys (rcColor rc) = h)
      \<longleftrightarrow> (\<exists>c. (\<exists>rc \<in> set out. covers rc X Y \<and> rcColor rc = Some c) \<and> palette_color ?keys (Some c) = h)"
      using out(2) by fastforce
    also have "\<dots> \<longleftrightarrow> (X, Y) \<in> set (pixels ?bd) \<and> ?ix (X, Y) \<noteq> 0
        \<and> palette_color ?keys (Some (?ix (X, Y))) = h"
      unfolding out(3) by blast
    also have "\<dots> \<longleftrightarrow> (X, Y) \<in> set (pixels ?bd) \<and> rgba_a (getRgbaAt im X Y) \<noteq> 0 \<and> h = pixel_hex im (X, Y)"
      using pixel_index_colour(1)[OF dec(2,3), of "(X, Y)"] pixel_index_colour(2)[OF dec(2,3), of "(X, Y)" ext]
      by auto
    also have "\<dots> \<longleftrightarrow> visible im X Y \<and> h = pixel_hex im (X, Y)"
      using calcBounds_encloses[of im X Y] rng by (auto simp: set_pixels visible_def)
    finally show ?thesis .
  qed
  ultimately show ?thesis by blast
qed

section \<open>When drawing ends\<close>

lemma getRectLength_pos:
  assumes "num_pos (getRectLength x n r)"
  obtains x0 r0 where "x = Some x0" "r = Some r0" "x0 < r0"
    "\<And>n0. n = Some n0 \<Longrightarrow> \<exists>l. getRectLength x n r = Some l \<and> 0 < l \<and> l \<le> n0"
    "n = None \<Longrightarrow> getRectLength x n r = Some (r0 - x0)"
  using assms by (cases x; cases r; cases n) (auto simp: getRectLength_def split: if_splits)

lemma draw_run_step:
  "num_pos (getRectLength x n (dRight bd)) \<Longrightarrow> draw_run bd ci n x y acc =
    (let len = getRectLength x n (dRight bd); x' = num_add x len; wrap = num_eq x' (dRight bd)
     in draw_run bd ci (num_sub n len) (if wrap then dLeft bd else x') (if wrap then num_add y (Some 1) else y)
          (if ci \<noteq> Some 0 then acc @ [\<lparr>rcLength = len, rcX = x, rcY = y, rcColor = ci\<rparr>] else acc))"
  by (subst draw_run.simps) (simp only: Let_def if_True)

lemma draw_run_ends: "draw_run bd ci (Some n) x y acc \<noteq> None"
proof (induction "nat n" arbitrary: n x y acc rule: less_induct)
  case less
  show ?case
  proof (cases "num_pos (getRectLength x (Some n) (dRight bd))")
    case False
    then show ?thesis by (simp add: draw_run_stop)
  next
    case True
    then obtain l where l: "getRectLength x (Some n) (dRight bd) = Some l" "0 < l" "l \<le> n"
      by (rule getRectLength_pos) blast
    then have "nat (n - l) < nat n" by simp
    from less.hyps[OF this] show ?thesis by (simp add: draw_run_step[OF True] Let_def l)
  qed
qed

text \<open>A run whose length is \<open>NaN\<close> draws to the end of each line, forever.\<close>

lemma draw_run_NaN:
  assumes bd: "dLeft bd = Some l" "dRight bd = Some r" "l < r"
  shows "draw_run bd ci n x y acc = Some res \<Longrightarrow> \<not> (n = None \<and> (\<exists>x0. x = Some x0 \<and> x0 < r))"
proof -
  let ?P = "\<lambda>bd ci n x y acc res. dLeft bd = Some l \<and> dRight bd = Some r
    \<longrightarrow> \<not> (n = (None :: num) \<and> (\<exists>x0. x = Some x0 \<and> x0 < r))"
  assume "draw_run bd ci n x y acc = Some res"
  then have res: "(case (((((bd, ci), n), x), y), acc) of (x, xa) \<Rightarrow> (case x of (x, xa) \<Rightarrow> (case x of (x, xa) \<Rightarrow>
    (case x of (x, xa) \<Rightarrow> (case x of (x, xa) \<Rightarrow> draw_run x xa) xa) xa) xa) xa) = Some res" by simp
  have "?P bd ci n x y acc res"
  proof (rule draw_run.raw_induct[OF _ res, of ?P, unfolded prod.case])
    fix f :: "DecodedBounds \<Rightarrow> num \<Rightarrow> num \<Rightarrow> num \<Rightarrow> num \<Rightarrow> rect list \<Rightarrow> (rect list \<times> num \<times> num) option"
      and bd ci n x y acc res
    assume IH: "\<And>bd ci n x y acc res. f bd ci n x y acc = Some res \<Longrightarrow> ?P bd ci n x y acc res"
      and body: "(let len = getRectLength x n (dRight bd)
        in if num_pos len
           then let svgRects' = if ci \<noteq> Some 0
                  then acc @ [\<lparr>rcLength = len, rcX = x, rcY = y, rcColor = ci\<rparr>] else acc;
                x' = num_add x len; wrap = num_eq x' (dRight bd)
              in f bd ci (num_sub n len) (if wrap then dLeft bd else x')
                   (if wrap then num_add y (Some 1) else y) svgRects'
           else Some (acc, x, y)) = Some res"
    show "?P bd ci n x y acc res"
    proof (intro impI notI)
      assume bd: "dLeft bd = Some l \<and> dRight bd = Some r"
        and "n = None \<and> (\<exists>x0. x = Some x0 \<and> x0 < r)"
      then obtain x0 where x0: "n = None" "x = Some x0" "x0 < r" by blast
      with bd have "getRectLength x n (dRight bd) = Some (r - x0)" by (simp add: getRectLength_def)
      with body x0 bd have "f bd ci None (dLeft bd) (num_add y (Some 1))
        (if ci \<noteq> Some 0 then acc @ [\<lparr>rcLength = Some (r - x0), rcX = x, rcY = y, rcColor = ci\<rparr>] else acc)
        = Some res" by (simp add: Let_def split: if_splits)
      from IH[OF this] bd assms(3) show False by simp
    qed
  qed
  with bd show ?thesis by blast
qed

lemma draw_run_None_iff:
  "draw_run bd ci n x y acc = None \<longleftrightarrow>
    n = None \<and> (\<exists>x0 l r. x = Some x0 \<and> dLeft bd = Some l \<and> dRight bd = Some r \<and> x0 < r \<and> l < r)"
proof
  assume "n = None \<and> (\<exists>x0 l r. x = Some x0 \<and> dLeft bd = Some l \<and> dRight bd = Some r \<and> x0 < r \<and> l < r)"
  then show "draw_run bd ci n x y acc = None"
    using draw_run_NaN[of bd _ _ ci n x y acc] by (cases "draw_run bd ci n x y acc") blast+
next
  assume none: "draw_run bd ci n x y acc = None"
  then have n: "n = None" using draw_run_ends by (cases n) auto
  have "num_pos (getRectLength x n (dRight bd))" using none draw_run_stop by fastforce
  then obtain x0 r where x: "x = Some x0" "dRight bd = Some r" "x0 < r"
    "getRectLength x n (dRight bd) = Some (r - x0)"
    using n by (rule_tac getRectLength_pos) auto
  have "num_pos (getRectLength (dLeft bd) n (dRight bd))"
  proof (rule ccontr)
    assume "\<not> ?thesis"
    then show False using none x n
      by (subst (asm) draw_run_step) (simp_all add: Let_def draw_run_stop)
  qed
  then obtain l where "dLeft bd = Some l" "l < r" using x by (rule_tac getRectLength_pos) auto
  with x n show "n = None \<and> (\<exists>x0 l r. x = Some x0 \<and> dLeft bd = Some l \<and> dRight bd = Some r \<and> x0 < r \<and> l < r)"
    by blast
qed

lemma draw_runs_ends: "list_all (\<lambda>(n, c). n \<noteq> None) rs \<Longrightarrow> draw_runs bd rs x y acc \<noteq> None"
proof (induction rs arbitrary: x y acc)
  case (Cons nc rs)
  then show ?case
    using draw_run_ends[of bd "snd nc" _ x y acc] by (cases nc) (fastforce split: option.split)
qed simp

lemma build_parts_eq:
  "list_all (\<lambda>part. part_rects part \<noteq> None) parts \<Longrightarrow> build_parts pal parts result =
    Some (result @ concat (map (\<lambda>part. concat (map (rect_tag pal) (the (part_rects part)))) parts))"
  by (induction parts arbitrary: result) (auto split: option.split)

section \<open>Properties\<close>

text \<open>
  C6. The drawing loop of one run fails to return exactly if the run's length is \<open>NaN\<close> and there are
  cells to draw: the bounds are numbers, the left one is below the right one, and so is the cursor.
\<close>

theorem draw_run_diverges_iff:
  "draw_run bd colorIndex drawLength x y svgRects = None \<longleftrightarrow>
    drawLength = None \<and>
    (\<exists>x0 l r. x = Some x0 \<and> dLeft bd = Some l \<and> dRight bd = Some r \<and> x0 < r \<and> l < r)"
  by (rule draw_run_None_iff)

text \<open>If every run of every part has a numeric length, \<^verbatim>\<open>buildSVG\<close> returns: the header, then for each part
  in order the tags of its rectangles, then the end tag.
\<close>

theorem buildSVG_returns:
  assumes "\<forall>part \<in> set parts. \<forall>(n, c) \<in> set (rects (decodeImage part)). n \<noteq> None"
  shows "\<exists>rss. length rss = length parts \<and> (\<forall>i < length parts. part_rects (parts ! i) = Some (rss ! i)) \<and>
    buildSVG parts paletteColors bgColor =
      Some (svg_header bgColor @ concat (map (\<lambda>rs. concat (map (rect_tag paletteColors) rs)) rss) @ ''</svg>'')"
proof -
  have some: "part_rects part \<noteq> None" if "part \<in> set parts" for part
    using assms that draw_runs_ends[of "rects (decodeImage part)" "decBounds (decodeImage part)"]
    unfolding part_rects_def Let_def by (auto simp: list_all_iff)
  then have "build_parts paletteColors parts (svg_header bgColor) = Some (svg_header bgColor
      @ concat (map (\<lambda>part. concat (map (rect_tag paletteColors) (the (part_rects part)))) parts))"
    by (intro build_parts_eq) (simp add: list_all_iff)
  then show ?thesis
    using some by (intro exI[of _ "map (\<lambda>part. the (part_rects part)) parts"]) (simp add: buildSVG_def comp_def)
qed

theorem buildSVG_returns_witness:
  "\<exists>rss. length rss = length [''0x00000100000102''] \<and>
    (\<forall>i < length [''0x00000100000102'']. part_rects ([''0x00000100000102''] ! i) = Some (rss ! i)) \<and>
    buildSVG [''0x00000100000102''] [] None =
      Some (svg_header None @ concat (map (\<lambda>rs. concat (map (rect_tag []) rs)) rss) @ ''</svg>'')"
proof (rule buildSVG_returns)
  have "\<forall>(n, c) \<in> set (rects (decodeImage ''0x00000100000102'')). n \<noteq> None" by code_simp
  then show "\<forall>part \<in> set [''0x00000100000102'']. \<forall>(n, c) \<in> set (rects (decodeImage part)). n \<noteq> None"
    by simp
qed

end
