(* ===== verification/Sdk_Encoder.thy ===== *)
theory Sdk_Encoder
  imports Sdk_Svg "HOL-Library.Multiset"
begin

text \<open>
  The class \<^verbatim>\<open>PNGCollectionEncoder\<close> of \<^verbatim>\<open>packages/nouns-sdk/src/image/png-collection-encoder.ts\<close>: the
  palette, the encoded images and their folders, as insertion-ordered maps (folder names are assumed
  not to be array indexes, which \<^verbatim>\<open>Object.entries\<close> would list first). Writing the JSON file is I/O and
  is left out. The lemmas show that every image of a collection stays decodable under the palette
  that the whole collection ends with, and that \<^verbatim>\<open>format\<close> lists each encoded image exactly once.
\<close>

section \<open>State and operations\<close>

record PngImage =
  png_width :: int
  png_height :: int
  rgbaAt :: "int \<Rightarrow> int \<Rightarrow> RGBAColor"

record EncodedImage =
  filename :: string
  image_data :: "string option"

record PNGCollectionEncoder =
  enc_colors :: palette
  enc_images :: "(string, string) omap"
  enc_folders :: "(string, string list) omap"

fun set_colors :: "string list \<Rightarrow> int \<Rightarrow> palette \<Rightarrow> palette" where
  "set_colors [] index pal = pal"
| "set_colors (c # cs) index pal = set_colors cs (index + 1) (omap_set c index pal)"

definition new_PNGCollectionEncoder :: "string list option \<Rightarrow> PNGCollectionEncoder" where
  "new_PNGCollectionEncoder colors =
     \<lparr>enc_colors = (case colors of None \<Rightarrow> [('''', 0)] | Some cs \<Rightarrow> set_colors cs 0 [('''', 0)]),
      enc_images = [], enc_folders = []\<rparr>"

text \<open>\<open>(this._folders[folder] ||= []).push(name)\<close>\<close>

definition push_folder :: "string \<Rightarrow> string \<Rightarrow> (string, string list) omap \<Rightarrow> (string, string list) omap" where
  "push_folder folder name folders =
     omap_set folder (case omap_get folders folder of None \<Rightarrow> [name] | Some fs \<Rightarrow> fs @ [name]) folders"

definition encodeImage ::
  "PNGCollectionEncoder \<Rightarrow> string \<Rightarrow> PngImage \<Rightarrow> string option \<Rightarrow> string \<times> PNGCollectionEncoder" where
  "encodeImage enc name png folder =
     (let im = new_Image (png_width png) (png_height png) (rgbaAt png);
          (rle, im', colors') = toRLE im (enc_colors enc);
          folders' = (case folder of
              None \<Rightarrow> enc_folders enc
            | Some f \<Rightarrow> if f = '''' then enc_folders enc else push_folder f name (enc_folders enc))
      in (rle, \<lparr>enc_colors = colors', enc_images = omap_set name rle (enc_images enc), enc_folders = folders'\<rparr>))"

fun format_files :: "string list \<Rightarrow> (string, string) omap \<Rightarrow> EncodedImage list \<times> (string, string) omap" where
  "format_files [] imgs = ([], imgs)"
| "format_files (f # fs) imgs =
     (case format_files fs (AList.delete f imgs) of
        (entries, imgs') \<Rightarrow> (\<lparr>filename = f, image_data = omap_get imgs f\<rparr> # entries, imgs'))"

fun format_folders ::
  "(string \<times> string list) list \<Rightarrow> (string, EncodedImage list) omap \<Rightarrow> (string, string) omap
   \<Rightarrow> (string, EncodedImage list) omap \<times> (string, string) omap" where
  "format_folders [] result imgs = (result, imgs)"
| "format_folders ((folder, fs) # rest) result imgs =
     (case format_files fs imgs of
        (entries, imgs') \<Rightarrow> format_folders rest (omap_set folder entries result) imgs')"

definition image_entry :: "string \<times> string \<Rightarrow> EncodedImage" where
  "image_entry e = \<lparr>filename = fst e, image_data = Some (snd e)\<rparr>"

definition format :: "PNGCollectionEncoder \<Rightarrow> bool \<Rightarrow> (string, EncodedImage list) omap" where
  "format enc flatten =
     (case (if \<not> flatten \<and> enc_folders enc \<noteq> []
            then format_folders (enc_folders enc) [] (enc_images enc) else ([], enc_images enc)) of
        (data, imgs) \<Rightarrow> if imgs \<noteq> [] then omap_set ''root'' (map image_entry imgs) data else data)"

text \<open>The getters: \<open>images\<close> is \<open>undefined\<close> (\<open>None\<close>) on an encoder without images.\<close>

definition images_getter :: "PNGCollectionEncoder \<Rightarrow> EncodedImage list option" where
  "images_getter enc = omap_get (format enc True) ''root''"

record ImageData =
  palette_of :: "string list"
  images_of :: "(string, EncodedImage list) omap"

definition data_getter :: "PNGCollectionEncoder \<Rightarrow> ImageData" where
  "data_getter enc = \<lparr>palette_of = omap_keys (enc_colors enc), images_of = format enc False\<rparr>"

text \<open>A script's sequence of \<^verbatim>\<open>encodeImage\<close> calls.\<close>

fun encode_all ::
  "PNGCollectionEncoder \<Rightarrow> (string \<times> PngImage \<times> string option) list \<Rightarrow> PNGCollectionEncoder" where
  "encode_all enc [] = enc"
| "encode_all enc ((name, png, folder) # files) = encode_all (snd (encodeImage enc name png folder)) files"

section \<open>The constructor's palette\<close>

lemma set_colors_fresh:
  assumes "distinct (omap_keys pal @ cs)"
  shows "set_colors cs i pal = pal @ zip cs (map (\<lambda>k. i + int k) [0..<length cs])"
  using assms
proof (induction cs arbitrary: i pal)
  case (Cons c cs)
  then have fresh: "omap_set c i pal = pal @ [(c, i)]" by (simp add: omap_set_fresh map_of_eq_None_iff)
  have "distinct (omap_keys (pal @ [(c, i)]) @ cs)" using Cons.prems by auto
  from Cons.IH[OF this, of "i + 1"]
  have "set_colors (c # cs) i pal = pal @ (c, i) # zip cs (map (\<lambda>k. i + 1 + int k) [0..<length cs])"
    by (simp add: fresh)
  moreover have "map (\<lambda>k. i + int k) [0..<length (c # cs)] = i # map (\<lambda>k. i + 1 + int k) [0..<length cs]"
    by (rule nth_equalityI) (auto simp: nth_Cons split: nat.split simp del: upt_Suc)
  ultimately show ?case by (simp only: zip_Cons_Cons)
qed simp

lemma new_encoder_palette:
  assumes "colors = None \<or> colors = Some [] \<or> (\<exists>cs. colors = Some ('''' # cs) \<and> distinct ('''' # cs))"
  shows "palette_wf (enc_colors (new_PNGCollectionEncoder colors))"
proof -
  have base: "palette_wf [('''', 0)]" by (simp add: palette_wf_def)
  have "palette_wf (set_colors ('''' # cs) 0 [('''', 0)])" if "distinct ('''' # cs)" for cs
  proof -
    have "set_colors ('''' # cs) 0 [('''', 0)] = ('''', 0) # zip cs (map (\<lambda>k. 1 + int k) [0..<length cs])"
      using set_colors_fresh[of "[('''', 0)]" cs 1] that by simp
    moreover have "0 # map (\<lambda>k. 1 + int k) [0..<length cs] = map int [0..<Suc (length cs)]"
      by (simp add: upt_conv_Cons map_Suc_upt[symmetric] del: upt_Suc)
    ultimately show ?thesis using that by (simp add: palette_wf_def del: upt_Suc)
  qed
  with assms base show ?thesis by (auto simp: new_PNGCollectionEncoder_def)
qed

section \<open>Collections stay decodable\<close>

definition image_of :: "PngImage \<Rightarrow> Image" where
  "image_of png = new_Image (png_width png) (png_height png) (rgbaAt png)"

lemma encodeImage_facts:
  assumes "encodeImage enc name png folder = (rle, enc')"
  obtains im' where "toRLE (image_of png) (enc_colors enc) = (rle, im', enc_colors enc')"
    "enc_images enc' = omap_set name rle (enc_images enc)"
  using assms by (auto simp: encodeImage_def image_of_def Let_def split: prod.splits)

lemma toRLE_palette:
  assumes "toRLE im pal = (s, im', pal')"
  shows "palette_wf pal \<Longrightarrow> palette_wf pal'" "\<exists>ext. pal' = pal @ ext"
  using assms index_pixels_wf[of pal im "pixels (calcBounds im)"]
    index_pixels_extends[of im pal "pixels (calcBounds im)"]
  by (auto simp: toRLE_def Let_def split: prod.splits)

lemma encodeImage_palette:
  "palette_wf (enc_colors enc) \<Longrightarrow> palette_wf (enc_colors (snd (encodeImage enc name png folder)))"
  "\<exists>ext. enc_colors (snd (encodeImage enc name png folder)) = enc_colors enc @ ext"
proof -
  obtain rle enc' where e: "encodeImage enc name png folder = (rle, enc')"
    by (cases "encodeImage enc name png folder")
  then obtain im' where "toRLE (image_of png) (enc_colors enc) = (rle, im', enc_colors enc')"
    by (rule encodeImage_facts)
  note p = toRLE_palette[OF this]
  show "palette_wf (enc_colors enc) \<Longrightarrow> palette_wf (enc_colors (snd (encodeImage enc name png folder)))"
    and "\<exists>ext. enc_colors (snd (encodeImage enc name png folder)) = enc_colors enc @ ext"
    using p e by simp_all
qed

lemma encode_all_palette_wf:
  "palette_wf (enc_colors enc) \<Longrightarrow> palette_wf (enc_colors (encode_all enc files))"
  by (induction enc files rule: encode_all.induct) (simp_all add: encodeImage_palette(1))

lemma encode_all_palette_extends:
  "\<exists>ext. enc_colors (encode_all enc files) = enc_colors enc @ ext"
proof (induction enc files rule: encode_all.induct)
  case (2 enc name png folder files)
  obtain ext where "enc_colors (encode_all (snd (encodeImage enc name png folder)) files)
      = enc_colors (snd (encodeImage enc name png folder)) @ ext" using 2 by (rule exE)
  moreover obtain ext' where "enc_colors (snd (encodeImage enc name png folder)) = enc_colors enc @ ext'"
    using encodeImage_palette(2) by (rule exE)
  ultimately show ?case by simp
qed simp

lemma encode_all_images_other:
  "name \<notin> fst ` set files \<Longrightarrow> omap_get (enc_images (encode_all enc files)) name = omap_get (enc_images enc) name"
proof (induction files arbitrary: enc)
  case (Cons f files)
  obtain name' png folder where f: "f = (name', png, folder)" by (cases f)
  obtain rle enc' where e: "encodeImage enc name' png folder = (rle, enc')"
    by (cases "encodeImage enc name' png folder")
  then have "enc_images enc' = omap_set name' rle (enc_images enc)" by (rule encodeImage_facts)
  then show ?case using Cons f e by simp
qed simp

lemma encode_all_append:
  "encode_all enc (xs @ ys) = encode_all (encode_all enc xs) ys"
  by (induction enc xs rule: encode_all.induct) auto

lemma collection_decodable:
  assumes wf: "palette_wf (enc_colors enc)" and names: "distinct (map fst files)"
    and mem: "(name, png, folder) \<in> set files"
    and dim: "0 < png_width png" "png_width png \<le> 255" "0 < png_height png" "png_height png \<le> 256"
    and small: "length (enc_colors (encode_all enc files)) \<le> 256"
  shows "\<exists>rle rs. omap_get (enc_images (encode_all enc files)) name = Some rle \<and> part_rects rle = Some rs \<and>
    (\<forall>X Y h. (\<exists>rc \<in> set rs. covers rc X Y
                 \<and> palette_color (palette_of (data_getter (encode_all enc files))) (rcColor rc) = h)
      \<longleftrightarrow> visible (image_of png) X Y \<and> h = pixel_hex (image_of png) (X, Y))"
proof -
  obtain before after where files: "files = before @ (name, png, folder) # after"
    using split_list[OF mem] by blast
  let ?enc = "encode_all enc before"
  obtain rle enc' where e: "encodeImage ?enc name png folder = (rle, enc')"
    by (cases "encodeImage ?enc name png folder")
  then obtain im' where rle: "toRLE (image_of png) (enc_colors ?enc) = (rle, im', enc_colors enc')"
    "enc_images enc' = omap_set name rle (enc_images ?enc)" by (rule encodeImage_facts)
  have final: "encode_all enc files = encode_all enc' after" using files e by (simp add: encode_all_append)
  obtain ext where ext: "enc_colors (encode_all enc files) = enc_colors enc' @ ext"
    using encode_all_palette_extends[of enc' after] final by auto
  have d: "0 < img_width (image_of png)" "img_width (image_of png) \<le> 255"
    "0 < img_height (image_of png)" "img_height (image_of png) \<le> 256"
    using dim by (simp_all add: image_of_def new_Image_def)
  have "length (enc_colors enc') \<le> 256" using small ext by simp
  note paint = rects_of_encoded[OF d encode_all_palette_wf[OF wf] rle(1) this, of ext]
  have "omap_get (enc_images (encode_all enc files)) name = Some rle"
    using encode_all_images_other[of name after enc'] names files rle(2) final by force
  then show ?thesis using paint ext by (simp add: data_getter_def)
qed

section \<open>format lists every image once\<close>

lemma mset_delete_key:
  "omap_get m k = Some v \<Longrightarrow> distinct (omap_keys m) \<Longrightarrow> mset m = add_mset (k, v) (mset (AList.delete k m))"
proof (induction m)
  case (Cons e m)
  show ?case
  proof (cases "fst e = k")
    case True
    then have "k \<notin> set (omap_keys m)" using Cons.prems(2) by auto
    then have "AList.delete k m = m" by simp
    then show ?thesis using True Cons.prems(1) by (cases e) simp
  next
    case False
    then show ?thesis using Cons by (cases e) simp
  qed
qed simp

lemma format_files_entries:
  assumes "distinct fs" "set fs \<subseteq> set (omap_keys imgs)" "distinct (omap_keys imgs)"
    "format_files fs imgs = (entries, imgs')"
  shows "imgs' = filter (\<lambda>e. fst e \<notin> set fs) imgs
    \<and> mset entries + mset (map image_entry imgs') = mset (map image_entry imgs)"
  using assms
proof (induction fs arbitrary: imgs entries imgs')
  case (Cons f fs)
  obtain es where es: "format_files fs (AList.delete f imgs) = (es, imgs')"
    "entries = \<lparr>filename = f, image_data = omap_get imgs f\<rparr> # es"
    using Cons.prems(4) by (auto split: prod.splits)
  have keys: "set fs \<subseteq> set (omap_keys (AList.delete f imgs))"
    using Cons.prems(1,2) by (auto simp: delete_keys)
  have dist: "distinct (omap_keys (AList.delete f imgs))" by (rule distinct_delete[OF Cons.prems(3)])
  have "distinct fs" using Cons.prems(1) by simp
  note IH = Cons.IH[OF this keys dist es(1)]
  obtain v where v: "omap_get imgs f = Some v" using Cons.prems(2) by (auto simp: map_of_eq_None_iff dest: weak_map_of_SomeI)
  have split: "mset (map image_entry imgs)
      = add_mset (image_entry (f, v)) (mset (map image_entry (AList.delete f imgs)))"
    using mset_delete_key[OF v Cons.prems(3)] by simp
  have "imgs' = filter (\<lambda>e. fst e \<notin> set (f # fs)) imgs"
    using IH by (simp add: AList.delete_eq case_prod_beta' conj_commute eq_commute)
  moreover have "mset entries + mset (map image_entry imgs') = mset (map image_entry imgs)"
  proof -
    have "image_entry (f, v) = \<lparr>filename = f, image_data = Some v\<rparr>" by (simp add: image_entry_def)
    then show ?thesis using IH[THEN conjunct2] es(2) v split by simp
  qed
  ultimately show ?case ..
qed simp

lemma format_folders_entries:
  assumes "distinct (concat (map snd folders))" "set (concat (map snd folders)) \<subseteq> set (omap_keys imgs)"
    "distinct (omap_keys imgs)" "distinct (omap_keys result @ map fst folders)"
    "format_folders folders result imgs = (data, imgs')"
  shows "mset (concat (map snd data)) + mset (map image_entry imgs')
      = mset (concat (map snd result)) + mset (map image_entry imgs) \<and>
    omap_keys data = omap_keys result @ map fst folders"
  using assms
proof (induction folders arbitrary: result imgs)
  case (Cons ffs rest)
  obtain folder fs where ffs: "ffs = (folder, fs)" by (cases ffs)
  obtain entries imgs1 where one: "format_files fs imgs = (entries, imgs1)" by (cases "format_files fs imgs")
  have f: "distinct fs" "set fs \<subseteq> set (omap_keys imgs)" using Cons.prems(1,2) ffs by auto
  note files = format_files_entries[OF f Cons.prems(3) one]
  have fresh: "omap_set folder entries result = result @ [(folder, entries)]"
    using Cons.prems(4) ffs by (intro omap_set_fresh) (auto simp: map_of_eq_None_iff)
  have "set (concat (map snd rest)) \<inter> set fs = {}" using Cons.prems(1) ffs by auto
  moreover have "set (concat (map snd rest)) \<subseteq> set (omap_keys imgs)" using Cons.prems(2) by simp
  moreover have "set (omap_keys imgs1) = set (omap_keys imgs) - set fs" using files by auto
  ultimately have keys: "set (concat (map snd rest)) \<subseteq> set (omap_keys imgs1)" by blast
  have d: "distinct (concat (map snd rest))" using Cons.prems(1) by simp
  have d1: "distinct (omap_keys imgs1)" using Cons.prems(3) files by (simp add: distinct_map_filter)
  have d2: "distinct (omap_keys (result @ [(folder, entries)]) @ map fst rest)" using Cons.prems(4) ffs by simp
  have "format_folders rest (result @ [(folder, entries)]) imgs1 = (data, imgs')"
    using Cons.prems(5) ffs one fresh by simp
  note IH = Cons.IH[OF d keys d1 d2 this]
  have "mset (concat (map snd (result @ [(folder, entries)]))) = mset (concat (map snd result)) + mset entries"
    by simp
  with IH have "mset (concat (map snd data)) + mset (map image_entry imgs')
      = mset (concat (map snd result)) + mset (map image_entry imgs)"
    by (simp only: add.assoc files[THEN conjunct2])
  moreover have "omap_keys data = omap_keys result @ map fst (ffs # rest)" using IH ffs by simp
  ultimately show ?case ..
qed simp

lemma format_lists_images:
  assumes "distinct (concat (map snd (enc_folders enc)))"
    "set (concat (map snd (enc_folders enc))) \<subseteq> set (omap_keys (enc_images enc))"
    "distinct (omap_keys (enc_images enc))" "distinct (omap_keys (enc_folders enc))"
    "''root'' \<notin> set (omap_keys (enc_folders enc))"
  shows "mset (concat (map snd (format enc flatten))) = mset (map image_entry (enc_images enc))"
proof (cases "\<not> flatten \<and> enc_folders enc \<noteq> []")
  case True
  obtain data imgs where f: "format_folders (enc_folders enc) [] (enc_images enc) = (data, imgs)"
    by (cases "format_folders (enc_folders enc) [] (enc_images enc)")
  then have e: "mset (concat (map snd data)) + mset (map image_entry imgs) = mset (map image_entry (enc_images enc))"
    "omap_keys data = omap_keys (enc_folders enc)"
    using format_folders_entries[of "enc_folders enc" "enc_images enc" "[]" data imgs] assms by auto
  have "''root'' \<notin> set (omap_keys data)" unfolding e(2) by (rule assms(5))
  then have "omap_set ''root'' v data = data @ [(''root'', v)]" for v
    by (intro omap_set_fresh map_of_eq_None_iff[THEN iffD2]) simp
  with True f e(1) show ?thesis by (auto simp: format_def)
next
  case False
  then show ?thesis by (auto simp: format_def)
qed

text \<open>The invariant of an encoder that has been given every file name at most once.\<close>

definition encoder_wf :: "PNGCollectionEncoder \<Rightarrow> bool" where
  "encoder_wf enc \<longleftrightarrow> palette_wf (enc_colors enc) \<and> distinct (omap_keys (enc_images enc))
     \<and> distinct (omap_keys (enc_folders enc)) \<and> distinct (concat (map snd (enc_folders enc)))
     \<and> set (concat (map snd (enc_folders enc))) \<subseteq> set (omap_keys (enc_images enc))
     \<and> '''' \<notin> set (omap_keys (enc_folders enc))"

lemma push_folder_facts:
  assumes "distinct (omap_keys folders)"
  shows "mset (concat (map snd (push_folder folder name folders))) = add_mset name (mset (concat (map snd folders)))"
    "set (omap_keys (push_folder folder name folders)) = insert folder (set (omap_keys folders))"
    "distinct (omap_keys (push_folder folder name folders))"
proof -
  have keys: "set (omap_keys (omap_set k v m)) = insert k (set (omap_keys m))" for k :: string and v m
    using dom_update[of k v m] by (simp add: dom_map_of_conv_image_fst)
  then show "set (omap_keys (push_folder folder name folders)) = insert folder (set (omap_keys folders))"
    by (simp only: push_folder_def)
  show "distinct (omap_keys (push_folder folder name folders))"
    unfolding push_folder_def by (rule distinct_update[OF assms])
  show "mset (concat (map snd (push_folder folder name folders))) = add_mset name (mset (concat (map snd folders)))"
    using assms
  proof (induction folders)
    case (Cons e folders)
    obtain k fs where e: "e = (k, fs)" by (cases e)
    show ?case
    proof (cases "k = folder")
      case True
      then show ?thesis using e by (simp add: push_folder_def)
    next
      case False
      then have "push_folder folder name (e # folders) = e # push_folder folder name folders"
        using e by (simp add: push_folder_def)
      then show ?thesis using Cons e by simp
    qed
  qed (simp add: push_folder_def)
qed

lemma encoder_wf_new:
  "palette_wf (enc_colors (new_PNGCollectionEncoder colors)) \<Longrightarrow> encoder_wf (new_PNGCollectionEncoder colors)"
  by (simp add: encoder_wf_def new_PNGCollectionEncoder_def)

lemma encodeImage_folders:
  "enc_folders (snd (encodeImage enc name png folder)) =
    (case folder of None \<Rightarrow> enc_folders enc
     | Some f \<Rightarrow> if f = '''' then enc_folders enc else push_folder f name (enc_folders enc))"
  by (simp add: encodeImage_def Let_def split: prod.split)

lemma encodeImage_images:
  "\<exists>rle. enc_images (snd (encodeImage enc name png folder)) = omap_set name rle (enc_images enc)"
  by (auto simp: encodeImage_def Let_def split: prod.split)

lemma encodeImage_wf:
  assumes wf: "encoder_wf enc" and fresh: "name \<notin> set (omap_keys (enc_images enc))"
  shows "encoder_wf (snd (encodeImage enc name png folder))"
    "omap_keys (enc_images (snd (encodeImage enc name png folder))) = omap_keys (enc_images enc) @ [name]"
proof -
  let ?enc = "snd (encodeImage enc name png folder)"
  obtain rle where "enc_images ?enc = omap_set name rle (enc_images enc)" using encodeImage_images by blast
  then have "enc_images ?enc = enc_images enc @ [(name, rle)]"
    using fresh by (simp add: omap_set_fresh map_of_eq_None_iff)
  then show keys: "omap_keys (enc_images ?enc) = omap_keys (enc_images enc) @ [name]" by simp
  have pal: "palette_wf (enc_colors ?enc)" using wf encodeImage_palette(1) by (simp add: encoder_wf_def)
  show "encoder_wf ?enc"
  proof (cases "enc_folders ?enc = enc_folders enc")
    case True
    with wf fresh keys pal show ?thesis unfolding encoder_wf_def True keys by auto
  next
    case False
    then obtain f where f: "f \<noteq> ''''" "enc_folders ?enc = push_folder f name (enc_folders enc)"
      unfolding encodeImage_folders by (cases folder) (auto split: if_splits)
    note pf = push_folder_facts[of "enc_folders enc" f name]
    have m: "mset (concat (map snd (enc_folders ?enc))) = add_mset name (mset (concat (map snd (enc_folders enc))))"
      using pf(1) wf f(2) by (simp add: encoder_wf_def)
    have "name \<notin> set (concat (map snd (enc_folders enc)))" using wf fresh by (auto simp: encoder_wf_def)
    then have "distinct (name # concat (map snd (enc_folders enc)))" using wf by (simp add: encoder_wf_def)
    moreover have "mset (concat (map snd (enc_folders ?enc))) = mset (name # concat (map snd (enc_folders enc)))"
      using m by simp
    ultimately have d: "distinct (concat (map snd (enc_folders ?enc)))"
      "set (concat (map snd (enc_folders ?enc))) = insert name (set (concat (map snd (enc_folders enc))))"
      by (metis mset_eq_imp_distinct_iff) (metis m set_mset_add_mset_insert set_mset_mset)
    have k: "distinct (omap_keys (enc_folders ?enc))"
      "set (omap_keys (enc_folders ?enc)) = insert f (set (omap_keys (enc_folders enc)))"
      using pf(2,3) wf f(2) by (simp_all add: encoder_wf_def)
    show ?thesis using wf fresh f(1) pal d k unfolding encoder_wf_def keys by auto
  qed
qed

lemma encode_all_wf:
  "encoder_wf enc \<Longrightarrow> distinct (omap_keys (enc_images enc) @ map fst files) \<Longrightarrow>
    encoder_wf (encode_all enc files)
    \<and> omap_keys (enc_images (encode_all enc files)) = omap_keys (enc_images enc) @ map fst files"
proof (induction enc files rule: encode_all.induct)
  case (2 enc name png folder files)
  have fresh: "name \<notin> set (omap_keys (enc_images enc))" using 2 by auto
  note step = encodeImage_wf[OF "2.prems"(1) fresh]
  have "distinct (omap_keys (enc_images (snd (encodeImage enc name png folder))) @ map fst files)"
    unfolding step(2) using "2.prems"(2) by simp
  from "2.IH"[OF step(1) this] show ?case using step(2) by simp
qed simp

lemma collection_format:
  assumes new: "encoder_wf enc" "enc_images enc = []" and names: "distinct (map fst files)"
    and root: "''root'' \<notin> set (omap_keys (enc_folders (encode_all enc files)))"
  shows "mset (map filename (concat (map snd (format (encode_all enc files) flatten)))) = mset (map fst files)"
    "\<forall>e \<in> set (concat (map snd (format (encode_all enc files) flatten))).
      image_data e = omap_get (enc_images (encode_all enc files)) (filename e)"
proof -
  let ?enc = "encode_all enc files"
  have wf: "encoder_wf ?enc" and keys: "omap_keys (enc_images ?enc) = map fst files"
    using encode_all_wf[OF new(1), of files] new(2) names by simp_all
  have f: "mset (concat (map snd (format ?enc flatten))) = mset (map image_entry (enc_images ?enc))"
    using format_lists_images[of ?enc] wf root by (simp add: encoder_wf_def)
  have "mset (map filename (concat (map snd (format ?enc flatten)))) =
      image_mset filename (mset (map image_entry (enc_images ?enc)))"
    unfolding f[symmetric] by simp
  also have "\<dots> = mset (omap_keys (enc_images ?enc))"
    by (simp add: image_entry_def image_mset.compositionality comp_def)
  finally show "mset (map filename (concat (map snd (format ?enc flatten)))) = mset (map fst files)"
    by (simp only: keys)
  have "set (concat (map snd (format ?enc flatten))) = image_entry ` set (enc_images ?enc)"
    using f by (metis set_mset_mset set_map)
  then show "\<forall>e \<in> set (concat (map snd (format ?enc flatten))). image_data e = omap_get (enc_images ?enc) (filename e)"
    using wf by (auto simp: image_entry_def encoder_wf_def)
qed

section \<open>Properties\<close>

text \<open>
  C5. A collection encoded from a fresh encoder, with distinct file names, images of at most
  255 x 256 pixels and at most 256 colours in the end, stays renderable: the rectangles that the SVG
  builder draws for each stored run-length string terminate, and under the palette of the collection
  they paint every visible pixel in its own colour and no other cell, whatever was encoded later.
\<close>

theorem encoded_collection_renders:
  assumes "colors = None \<or> (\<exists>cs. colors = Some ('''' # cs) \<and> distinct ('''' # cs))"
    and "distinct (map fst files)" and "(name, png, folder) \<in> set files"
    and "0 < png_width png" "png_width png \<le> 255" "0 < png_height png" "png_height png \<le> 256"
    and "length (enc_colors (encode_all (new_PNGCollectionEncoder colors) files)) \<le> 256"
  shows "\<exists>rle rs. omap_get (enc_images (encode_all (new_PNGCollectionEncoder colors) files)) name = Some rle
    \<and> part_rects rle = Some rs \<and>
    (\<forall>X Y h. (\<exists>rc \<in> set rs. covers rc X Y
        \<and> palette_color (palette_of (data_getter (encode_all (new_PNGCollectionEncoder colors) files))) (rcColor rc) = h)
      \<longleftrightarrow> visible (image_of png) X Y \<and> h = pixel_hex (image_of png) (X, Y))"
  using assms by (intro collection_decodable new_encoder_palette) auto

text \<open>A two-pixel image: a red pixel and a transparent one.\<close>

definition demo_png :: PngImage where
  "demo_png = \<lparr>png_width = 2, png_height = 1, rgbaAt = (\<lambda>x y. if x = 0
     then \<lparr>rgba_r = 255, rgba_g = 0, rgba_b = 0, rgba_a = 255\<rparr>
     else \<lparr>rgba_r = 0, rgba_g = 0, rgba_b = 0, rgba_a = 0\<rparr>)\<rparr>"

definition demo_files :: "(string \<times> PngImage \<times> string option) list" where
  "demo_files = [(''head-ape'', demo_png, Some ''3-heads''), (''body-red'', demo_png, None)]"

lemma demo_small: "length (enc_colors (encode_all (new_PNGCollectionEncoder None) demo_files)) \<le> 256"
  by code_simp

theorem encoded_collection_renders_witness:
  "\<exists>rle rs. omap_get (enc_images (encode_all (new_PNGCollectionEncoder None) demo_files)) ''head-ape'' = Some rle
    \<and> part_rects rle = Some rs \<and>
    (\<forall>X Y h. (\<exists>rc \<in> set rs. covers rc X Y
        \<and> palette_color (palette_of (data_getter (encode_all (new_PNGCollectionEncoder None) demo_files))) (rcColor rc) = h)
      \<longleftrightarrow> visible (image_of demo_png) X Y \<and> h = pixel_hex (image_of demo_png) (X, Y))"
  by (rule encoded_collection_renders[where folder = "Some ''3-heads''"])
    (use demo_small in \<open>simp_all add: demo_png_def demo_files_def\<close>)

text \<open>After any sequence of \<^verbatim>\<open>encodeImage\<close> calls with distinct names on a fresh encoder, \<^verbatim>\<open>format\<close> lists
  every encoded file name exactly once over all folders and \<^verbatim>\<open>root\<close>, each with its own encoded data.
\<close>

theorem format_partitions_files:
  assumes "colors = None \<or> (\<exists>cs. colors = Some ('''' # cs) \<and> distinct ('''' # cs))"
    and "distinct (map fst files)"
    and "''root'' \<notin> set (omap_keys (enc_folders (encode_all (new_PNGCollectionEncoder colors) files)))"
  shows "mset (map filename (concat (map snd (format (encode_all (new_PNGCollectionEncoder colors) files) flatten))))
      = mset (map fst files)
    \<and> list_all (\<lambda>e. image_data e
        = omap_get (enc_images (encode_all (new_PNGCollectionEncoder colors) files)) (filename e))
      (concat (map snd (format (encode_all (new_PNGCollectionEncoder colors) files) flatten)))"
proof -
  have "encoder_wf (new_PNGCollectionEncoder colors)"
    using assms(1) by (intro encoder_wf_new new_encoder_palette) auto
  moreover have "enc_images (new_PNGCollectionEncoder colors) = []" by (simp add: new_PNGCollectionEncoder_def)
  ultimately show ?thesis
    using collection_format[OF _ _ assms(2,3), of flatten] unfolding list_all_iff by blast
qed

lemma demo_root:
  "''root'' \<notin> set (omap_keys (enc_folders (encode_all (new_PNGCollectionEncoder None) demo_files)))"
  by code_simp

theorem format_partitions_files_witness:
  "mset (map filename (concat (map snd (format (encode_all (new_PNGCollectionEncoder None) demo_files) False))))
      = mset (map fst demo_files)
    \<and> list_all (\<lambda>e. image_data e
        = omap_get (enc_images (encode_all (new_PNGCollectionEncoder None) demo_files)) (filename e))
      (concat (map snd (format (encode_all (new_PNGCollectionEncoder None) demo_files) False)))"
  by (rule format_partitions_files[OF _ _ demo_root]) (simp_all add: demo_files_def)

text \<open>A file name encoded into two folders loses an image: the map of images is keyed by the file name
  alone, so the second encoding replaces the first, the first folder then lists the second image and
  the second folder lists the name with \<open>undefined\<close> data.
\<close>

theorem format_duplicate_name_loses_data:
  "format (encode_all (new_PNGCollectionEncoder None)
      [(''a'', demo_png, Some ''f''), (''a'', demo_png\<lparr>png_width := 1\<rparr>, Some ''g'')]) False =
    [(''f'', [\<lparr>filename = ''a'',
        image_data = Some (fst (toRLE (image_of (demo_png\<lparr>png_width := 1\<rparr>)) [('''', 0), (''ff0000'', 1), (''000000'', 2)]))\<rparr>]),
     (''g'', [\<lparr>filename = ''a'', image_data = None\<rparr>])]"
  by code_simp

end
