(* ===== verification/Assets.thy ===== *)
theory Assets
  imports Complex_Main "HOL-Library.Sublist" Sdk_Encoder
begin

text \<open>
  \<^verbatim>\<open>packages/nouns-assets\<close>: part selection from a seed (\<^verbatim>\<open>src/utils.ts\<close>) and the scripts that build and
  merge the image data (\<^verbatim>\<open>scripts/encode.ts\<close>, \<^verbatim>\<open>encode-more.ts\<close>, \<^verbatim>\<open>append-image-data.ts\<close>). The library
  ethers is a parameter: \<open>toHexString\<close> prints a \<^verbatim>\<open>BigNumber\<close>, \<open>fromHex\<close> is \<^verbatim>\<open>BigNumber.from\<close> on a string;
  \<open>ethers_hex_doc\<close> states what its documentation says of the two. \<^verbatim>\<open>Math.random\<close> and the keccak hash
  are parameters, and so are reading a directory and a PNG file.
\<close>

section \<open>Seeds and parts (utils.ts, types.ts)\<close>

datatype asset_error = InvalidBigNumber string | DivisionByZero | TypeError | PaletteChanged

record NounSeed =
  background :: int
  body :: int
  accessory :: int
  head :: int
  glasses :: int

record NounData =
  nd_parts :: "EncodedImage option list"
  nd_background :: "string option"

record AssetImages =
  bodies :: "EncodedImage list"
  accessories :: "EncodedImage list"
  heads :: "EncodedImage list"
  glasses_images :: "EncodedImage list"
  bgcolors :: "string list"

definition array_get :: "'a list \<Rightarrow> int \<Rightarrow> 'a option" where
  "array_get xs i = (if 0 \<le> i \<and> nat i < length xs then Some (xs ! nat i) else None)"

definition getNounData :: "AssetImages \<Rightarrow> NounSeed \<Rightarrow> NounData" where
  "getNounData imgs seed =
     \<lparr>nd_parts =
        [array_get (bodies imgs) (body seed),
         array_get (accessories imgs) (accessory seed),
         array_get (heads imgs) (head seed),
         array_get (glasses_images imgs) (glasses seed)],
      nd_background = array_get (bgcolors imgs) (background seed)\<rparr>"

text \<open>\<open>Math.floor(Math.random() * n)\<close> for the random number \<open>r\<close>\<close>

definition random_index :: "rat \<Rightarrow> 'a list \<Rightarrow> int" where
  "random_index r xs = \<lfloor>r * of_nat (length xs)\<rfloor>"

definition getRandomNounSeed :: "AssetImages \<Rightarrow> (nat \<Rightarrow> rat) \<Rightarrow> NounSeed" where
  "getRandomNounSeed imgs random =
     \<lparr>background = random_index (random 0) (bgcolors imgs),
      body = random_index (random 1) (bodies imgs),
      accessory = random_index (random 2) (accessories imgs),
      head = random_index (random 3) (heads imgs),
      glasses = random_index (random 4) (glasses_images imgs)\<rparr>"

text \<open>\<open>substring(n)\<close> with a possibly negative \<open>n\<close>, which counts as 0\<close>

definition substring_from :: "string \<Rightarrow> int \<Rightarrow> string" where
  "substring_from s n = drop (nat n) s"

definition shiftRightAndCast :: "(int \<Rightarrow> string) \<Rightarrow> int \<Rightarrow> nat \<Rightarrow> nat \<Rightarrow> string" where
  "shiftRightAndCast toHexString v shiftAmount uintSize =
     (let shifted = toHexString (v div 2 ^ shiftAmount)
      in ''0x'' @ substring_from shifted (int (length shifted) - int (uintSize div 4)))"

definition big_from :: "(string \<Rightarrow> int option) \<Rightarrow> string \<Rightarrow> (asset_error, int) result" where
  "big_from fromHex s = (case fromHex s of None \<Rightarrow> Inl (InvalidBigNumber s) | Some v \<Rightarrow> Inr v)"

definition getPseudorandomPart ::
  "(int \<Rightarrow> string) \<Rightarrow> (string \<Rightarrow> int option) \<Rightarrow> string \<Rightarrow> nat \<Rightarrow> nat \<Rightarrow> nat \<Rightarrow> (asset_error, int) result" where
  "getPseudorandomPart toHexString fromHex pseudorandomness partCount shiftAmount uintSize =
     bind_result (big_from fromHex pseudorandomness) (\<lambda>v.
       let hex = shiftRightAndCast toHexString v shiftAmount uintSize in
       bind_result (big_from fromHex hex) (\<lambda>n.
         if partCount = 0 then Inl DivisionByZero else Inr (n mod int partCount)))"

definition getNounSeedFromBlockHash ::
  "(int \<Rightarrow> string) \<Rightarrow> (string \<Rightarrow> int option) \<Rightarrow> (string \<Rightarrow> int \<Rightarrow> string) \<Rightarrow> AssetImages \<Rightarrow> int \<Rightarrow> string
   \<Rightarrow> (asset_error, NounSeed) result" where
  "getNounSeedFromBlockHash toHexString fromHex solidityKeccak256 imgs unounId blockHash =
     (let pseudorandomness = solidityKeccak256 blockHash unounId;
          part = (\<lambda>count shift. getPseudorandomPart toHexString fromHex pseudorandomness count shift 48) in
      bind_result (part (length (bgcolors imgs)) 0) (\<lambda>bg.
      bind_result (part (length (bodies imgs)) 48) (\<lambda>bo.
      bind_result (part (length (accessories imgs)) 192) (\<lambda>ac.
      bind_result (part (length (heads imgs)) 144) (\<lambda>he.
      bind_result (part (length (glasses_images imgs)) 192) (\<lambda>gl.
        Inr \<lparr>background = bg, body = bo, accessory = ac, head = he, glasses = gl\<rparr>))))))"

definition images_of_type :: "AssetImages \<Rightarrow> string \<Rightarrow> EncodedImage list option" where
  "images_of_type imgs partType =
     (if partType = ''bodies'' then Some (bodies imgs)
      else if partType = ''accessories'' then Some (accessories imgs)
      else if partType = ''heads'' then Some (heads imgs)
      else if partType = ''glasses'' then Some (glasses_images imgs)
      else None)"

definition getPartData :: "AssetImages \<Rightarrow> string \<Rightarrow> int \<Rightarrow> (asset_error, string option) result" where
  "getPartData imgs partType partIndex =
     (case images_of_type imgs partType of
        None \<Rightarrow> Inl TypeError
      | Some xs \<Rightarrow> (case array_get xs partIndex of None \<Rightarrow> Inl TypeError | Some e \<Rightarrow> Inr (image_data e)))"

section \<open>Scripts\<close>

text \<open>\<open>folder.replace(/^\d-/, '')\<close> and \<open>file.replace(/\.png$/, '')\<close>\<close>

definition strip_digit_prefix :: "string \<Rightarrow> string" where
  "strip_digit_prefix s =
     (case s of c # d # cs \<Rightarrow> if is_digit_in 10 c \<and> d = CHR ''-'' then cs else s | _ \<Rightarrow> s)"

definition strip_png :: "string \<Rightarrow> string" where
  "strip_png s =
     (let n = length s in if 4 \<le> n \<and> drop (n - 4) s = ''.png'' then take (n - 4) s else s)"

definition partfolders :: "string list" where
  "partfolders = [''1-bodies'', ''2-accessories'', ''3-heads'', ''4-glasses'']"

text \<open>The \<^verbatim>\<open>encodeImage\<close> calls of the two scripts, in order.\<close>

definition encode_calls ::
  "(string \<Rightarrow> string list) \<Rightarrow> (string \<Rightarrow> string \<Rightarrow> PngImage) \<Rightarrow> (string \<times> PngImage \<times> string option) list" where
  "encode_calls readdir readPngImage =
     concat (map (\<lambda>folder. map (\<lambda>f. (strip_png f, readPngImage folder f, Some (strip_digit_prefix folder)))
       (readdir folder)) partfolders)"

definition encode_script ::
  "(string \<Rightarrow> string list) \<Rightarrow> (string \<Rightarrow> string \<Rightarrow> PngImage) \<Rightarrow> string list \<times> ImageData" where
  "encode_script readdir readPngImage =
     ([''26b1f3'', ''d8dadf''],
      data_getter (encode_all (new_PNGCollectionEncoder None) (encode_calls readdir readPngImage)))"

definition encode_more_calls ::
  "(string \<Rightarrow> string list) \<Rightarrow> (string \<Rightarrow> string \<Rightarrow> PngImage) \<Rightarrow> (string \<times> PngImage \<times> string option) list" where
  "encode_more_calls readdir readPngImage =
     concat (map (\<lambda>folder. map (\<lambda>f. (strip_png f, readPngImage folder f, Some (strip_digit_prefix folder)))
       (filter (\<lambda>f. f \<noteq> ''.gitkeep'') (readdir folder))) partfolders)"

definition encode_more_script ::
  "(string \<Rightarrow> string list) \<Rightarrow> (string \<Rightarrow> string \<Rightarrow> PngImage) \<Rightarrow> string list
   \<Rightarrow> (asset_error, (string, EncodedImage list) omap) result" where
  "encode_more_script readdir readPngImage palette =
     (let encoder = encode_all (new_PNGCollectionEncoder (Some palette)) (encode_more_calls readdir readPngImage)
      in if palette_of (data_getter encoder) \<noteq> palette then Inl PaletteChanged
         else Inr (images_of (data_getter encoder)))"

text \<open>\<^verbatim>\<open>append-image-data.ts\<close>: the new entries of every folder are pushed behind the old ones.\<close>

fun merge_images ::
  "(string, EncodedImage list) omap \<Rightarrow> (string, EncodedImage list) omap
   \<Rightarrow> (asset_error, (string, EncodedImage list) omap) result" where
  "merge_images base [] = Inr base"
| "merge_images base ((k, v) # rest) =
     (case omap_get base k of
        None \<Rightarrow> Inl TypeError
      | Some xs \<Rightarrow> merge_images (omap_set k (xs @ v) base) rest)"

definition merge_script :: "ImageData \<Rightarrow> ImageData \<Rightarrow> (asset_error, ImageData) result" where
  "merge_script baseData newData =
     bind_result (merge_images (images_of baseData) (images_of newData))
       (\<lambda>imgs. Inr (baseData\<lparr>images_of := imgs\<rparr>))"

section \<open>Selecting a part\<close>

text \<open>What ethers documents: \<open>toHexString\<close> gives \<open>0x\<close> and an even number of digits, no byte more than
  the value needs (at least one), and \<open>BigNumber.from\<close> reads exactly the digit strings.\<close>

definition ethers_hex_doc :: "(int \<Rightarrow> string) \<Rightarrow> (string \<Rightarrow> int option) \<Rightarrow> bool" where
  "ethers_hex_doc toHexString fromHex \<longleftrightarrow>
     (\<forall>v \<ge> 0. \<exists>ds. toHexString v = ''0x'' @ ds \<and> ds \<noteq> [] \<and> even (length ds) \<and> list_all (is_digit_in 16) ds
        \<and> int (digits_value 16 ds) = v \<and> (\<forall>k \<ge> 1. v < 256 ^ k \<longrightarrow> length ds \<le> 2 * k))
     \<and> (\<forall>ds. ds \<noteq> [] \<longrightarrow> fromHex (''0x'' @ ds)
          = (if list_all (is_digit_in 16) ds then Some (int (digits_value 16 ds)) else None))"

lemma foldl_digits:
  "foldl (\<lambda>acc c. acc * b + the (digit_val c)) a ds = a * b ^ length ds + digits_value b ds"
proof (induction ds arbitrary: a rule: rev_induct)
  case (snoc c ds)
  then show ?case by (simp add: digits_value_append algebra_simps)
qed (simp add: digits_value_def)

lemma digits_value_split: "digits_value b (xs @ ys) = digits_value b xs * b ^ length ys + digits_value b ys"
proof -
  have "digits_value b (xs @ ys) = foldl (\<lambda>acc c. acc * b + the (digit_val c)) (digits_value b xs) ys"
    by (simp add: digits_value_def)
  then show ?thesis by (simp only: foldl_digits)
qed

lemma digits_value_less:
  "list_all (is_digit_in b) ds \<Longrightarrow> digits_value b ds < b ^ length ds"
proof (induction ds rule: rev_induct)
  case (snoc c ds)
  then have "the (digit_val c) < b" "digits_value b ds + 1 \<le> b ^ length ds"
    by (auto simp: is_digit_in_def split: option.splits)
  then have "digits_value b ds * b + the (digit_val c) < (digits_value b ds + 1) * b" by simp
  also have "\<dots> \<le> b ^ length ds * b" using \<open>digits_value b ds + 1 \<le> b ^ length ds\<close> by (rule mult_right_mono) simp
  finally show ?case by (simp add: digits_value_append mult.commute)
qed (simp add: digits_value_def)

lemma digits_value_drop:
  assumes "list_all (is_digit_in b) ds" "n \<le> length ds"
  shows "digits_value b (drop (length ds - n) ds) = digits_value b ds mod b ^ n"
proof -
  have "list_all (is_digit_in b) (drop (length ds - n) ds)" using assms(1) by (auto simp: list_all_iff dest: in_set_dropD)
  then have "digits_value b (drop (length ds - n) ds) < b ^ n"
    using digits_value_less[of b "drop (length ds - n) ds"] assms(2) by simp
  moreover have "digits_value b ds = digits_value b (take (length ds - n) ds) * b ^ n
      + digits_value b (drop (length ds - n) ds)"
    using digits_value_split[of b "take (length ds - n) ds" "drop (length ds - n) ds"] assms(2) by simp
  ultimately show ?thesis by simp
qed

lemma shiftRightAndCast_read:
  assumes doc: "ethers_hex_doc toHexString fromHex" and v: "0 \<le> v"
  shows "fromHex (shiftRightAndCast toHexString v shift 48) =
    (if v div 2 ^ shift < 2 ^ 40 then None else Some (v div 2 ^ shift mod 2 ^ 48))"
proof -
  let ?s = "v div 2 ^ shift"
  have s: "0 \<le> ?s" using v by (simp add: pos_imp_zdiv_nonneg_iff)
  then obtain ds where ds: "toHexString ?s = ''0x'' @ ds" "ds \<noteq> []" "even (length ds)"
      "list_all (is_digit_in 16) ds" "int (digits_value 16 ds) = ?s"
      "\<forall>k \<ge> 1. ?s < 256 ^ k \<longrightarrow> length ds \<le> 2 * k"
    using doc unfolding ethers_hex_doc_def by blast
  have from_eq: "fromHex (''0x'' @ xs) = (if list_all (is_digit_in 16) xs then Some (int (digits_value 16 xs)) else None)"
    if "xs \<noteq> []" for xs
    using doc that unfolding ethers_hex_doc_def by blast
  show ?thesis
  proof (cases "?s < 2 ^ 40")
    case True
    then have "length ds \<le> 10" using ds(6)[rule_format, of 5] by simp
    then have "shiftRightAndCast toHexString v shift 48 = ''0x'' @ (''0x'' @ ds)"
      using ds(1) by (simp add: shiftRightAndCast_def Let_def substring_from_def)
    moreover have "\<not> list_all (is_digit_in 16) (''0x'' @ ds)" by (simp add: hex_digit_neutral(4) is_digit_in_def digit_val_def)
    ultimately show ?thesis using True from_eq[of "''0x'' @ ds"] by simp
  next
    case False
    have "\<not> length ds \<le> 10"
    proof
      assume "length ds \<le> 10"
      then have "(16 :: nat) ^ length ds \<le> 16 ^ 10" by (rule power_increasing) simp
      then have "digits_value 16 ds < 2 ^ 40" using digits_value_less[OF ds(4)] by simp
      then show False using False ds(5) by simp
    qed
    then have len: "12 \<le> length ds" using ds(3) by presburger
    have "shiftRightAndCast toHexString v shift 48 = ''0x'' @ drop (length ds - 12) ds"
      using ds(1) len by (simp add: shiftRightAndCast_def Let_def substring_from_def nat_diff_distrib' Suc_diff_le
          numeral_2_eq_2 drop_Cons')
    moreover have "list_all (is_digit_in 16) (drop (length ds - 12) ds)" "drop (length ds - 12) ds \<noteq> []"
      using ds(4) len by (auto simp: list_all_iff dest: in_set_dropD)
    ultimately have "fromHex (shiftRightAndCast toHexString v shift 48) = Some (int (digits_value 16 ds mod 16 ^ 12))"
      using from_eq digits_value_drop[OF ds(4) len] by simp
    also have "int (digits_value 16 ds mod 16 ^ 12) = ?s mod 2 ^ 48" using ds(5) by (simp add: zmod_int)
    finally show ?thesis using False by simp
  qed
qed

lemma getPseudorandomPart_eq:
  assumes "ethers_hex_doc toHexString fromHex" "fromHex p = Some v" "0 \<le> v" "0 < n"
  shows "getPseudorandomPart toHexString fromHex p n shift 48 =
    (if v div 2 ^ shift < 2 ^ 40 then Inl (InvalidBigNumber (shiftRightAndCast toHexString v shift 48))
     else Inr (v div 2 ^ shift mod 2 ^ 48 mod int n))"
  using assms shiftRightAndCast_read[OF assms(1,3), of shift]
  by (simp add: getPseudorandomPart_def big_from_def Let_def)

text \<open>The contract's choice (\<^verbatim>\<open>NounsSeeder.sol\<close>): 48 bits from the given shift, modulo the count.\<close>

definition seeder_part :: "int \<Rightarrow> nat \<Rightarrow> nat \<Rightarrow> int" where
  "seeder_part v n shift = v div 2 ^ shift mod 2 ^ 48 mod int n"

lemma array_get_Some: "0 \<le> i \<Longrightarrow> i < int (length xs) \<Longrightarrow> array_get xs i = Some (xs ! nat i)"
  by (simp add: array_get_def nat_less_iff)

lemma random_index_range:
  assumes "0 \<le> r" "r < 1" "xs \<noteq> []"
  shows "0 \<le> random_index r xs" "random_index r xs < int (length xs)"
proof -
  show "0 \<le> random_index r xs" using assms by (simp add: random_index_def)
  have "r * of_nat (length xs) < 1 * (of_nat (length xs) :: rat)"
    using assms by (intro mult_strict_right_mono) simp_all
  then show "random_index r xs < int (length xs)" by (simp add: random_index_def floor_less_iff)
qed

section \<open>The scripts keep the palette and the part numbers\<close>

lemma update_prefixes:
  "omap_get base k = Some xs \<Longrightarrow>
    list_all2 (\<lambda>(k, xs) (k', ys). k' = k \<and> prefix xs ys) base (omap_set k (xs @ v) base)"
proof (induction base)
  case (Cons e base)
  have "list_all2 (\<lambda>(k, xs) (k', ys). k' = k \<and> prefix xs ys) base base"
    by (rule list.rel_refl) auto
  with Cons show ?case by (cases e) auto
qed simp

lemma merge_images_prefixes:
  "merge_images base new = Inr merged \<Longrightarrow>
    list_all2 (\<lambda>(k, xs) (k', ys). k' = k \<and> prefix xs ys) base merged"
proof (induction base new rule: merge_images.induct)
  case (1 base)
  then show ?case by (auto intro: list.rel_refl)
next
  case (2 base k v rest)
  then obtain xs where xs: "omap_get base k = Some xs" "merge_images (omap_set k (xs @ v) base) rest = Inr merged"
    by (auto split: option.splits)
  show ?case
    by (rule list_all2_trans[OF _ update_prefixes[OF xs(1)] "2.IH"[OF xs]]) auto
qed

lemma merge_images_throws_iff:
  "merge_images base new = Inl e \<longleftrightarrow> e = TypeError \<and> \<not> set (omap_keys new) \<subseteq> set (omap_keys base)"
proof (induction base new rule: merge_images.induct)
  case (2 base k v rest)
  show ?case
  proof (cases "omap_get base k")
    case None
    then have "k \<notin> set (omap_keys base)" by (simp add: map_of_eq_None_iff)
    then show ?thesis using None by auto
  next
    case (Some xs)
    then have k: "k \<in> set (omap_keys base)" by (metis domI dom_map_of_conv_image_fst set_map)
    have "set (omap_keys (omap_set k (xs @ v) base)) = set (omap_keys base)"
      using Some by (simp add: omap_keys_set_present)
    then show ?thesis using "2.IH"[OF Some] Some k by simp
  qed
qed simp

text \<open>The palette stays as it is exactly if no pixel that the encoder visits has a new colour.\<close>

lemma grow_same_iff: "grow pal k = pal \<longleftrightarrow> omap_has pal k"
  by (simp add: grow_def)

lemma index_pixels_same_iff:
  "fst (index_pixels im pal ps) = pal \<longleftrightarrow> (\<forall>p \<in> set ps. omap_has pal (pixel_hex im p))"
proof (induction ps)
  case (Cons p ps)
  let ?pal1 = "grow pal (pixel_hex im p)"
  have step: "fst (index_pixels im pal (p # ps)) = fst (index_pixels im ?pal1 ps)"
    by (simp add: index_pixel_eq split: prod.split)
  show ?case
  proof (cases "omap_has pal (pixel_hex im p)")
    case True
    then show ?thesis using step Cons by (simp add: grow_same_iff[THEN iffD2])
  next
    case False
    obtain ext where "fst (index_pixels im ?pal1 ps) = ?pal1 @ ext" using index_pixels_extends by blast
    then show ?thesis using False step by (simp add: grow_def)
  qed
qed simp

lemma encode_all_same_iff:
  "enc_colors (encode_all enc files) = enc_colors enc \<longleftrightarrow>
    (\<forall>(name, png, folder) \<in> set files. \<forall>p \<in> set (pixels (calcBounds (image_of png))).
       omap_has (enc_colors enc) (pixel_hex (image_of png) p))"
proof (induction enc files rule: encode_all.induct)
  case (2 enc name png folder files)
  let ?enc = "snd (encodeImage enc name png folder)" and ?im = "image_of png"
  have one: "enc_colors ?enc = fst (index_pixels ?im (enc_colors enc) (pixels (calcBounds ?im)))"
    by (simp add: encodeImage_def toRLE_def image_of_def Let_def split: prod.split)
  obtain ext where ext: "enc_colors ?enc = enc_colors enc @ ext" using encodeImage_palette(2) by (rule exE)
  obtain ext' where ext': "enc_colors (encode_all ?enc files) = enc_colors ?enc @ ext'"
    using encode_all_palette_extends by (rule exE)
  show ?case
  proof (cases "enc_colors ?enc = enc_colors enc")
    case True
    then have "\<forall>p \<in> set (pixels (calcBounds ?im)). omap_has (enc_colors enc) (pixel_hex ?im p)"
      using one index_pixels_same_iff[of ?im "enc_colors enc" "pixels (calcBounds ?im)"] by simp
    then show ?thesis using "2.IH" True by simp
  next
    case False
    then have "\<not> (\<forall>p \<in> set (pixels (calcBounds ?im)). omap_has (enc_colors enc) (pixel_hex ?im p))"
      using one index_pixels_same_iff[of ?im "enc_colors enc" "pixels (calcBounds ?im)"] by simp
    moreover have "enc_colors (encode_all ?enc files) \<noteq> enc_colors enc" using False ext ext' by simp
    ultimately show ?thesis by auto
  qed
qed simp

lemma random_seed_parts:
  assumes "\<forall>i. 0 \<le> random i \<and> random i < 1"
    and "bgcolors imgs \<noteq> []" "bodies imgs \<noteq> []" "accessories imgs \<noteq> []" "heads imgs \<noteq> []" "glasses_images imgs \<noteq> []"
  shows "list_all (\<lambda>p. p \<noteq> None) (nd_parts (getNounData imgs (getRandomNounSeed imgs random)))"
    "nd_background (getNounData imgs (getRandomNounSeed imgs random)) \<noteq> None"
  using assms by (simp_all add: getNounData_def getRandomNounSeed_def array_get_Some random_index_range)

lemma new_encoder_keys:
  assumes "distinct ('''' # cs)"
  shows "omap_keys (enc_colors (new_PNGCollectionEncoder (Some ('''' # cs)))) = '''' # cs"
  using assms set_colors_fresh[of "[('''', 0)]" cs 1]
  by (simp add: new_PNGCollectionEncoder_def map_fst_zip)

lemma encode_more_iff:
  assumes "distinct ('''' # cs)"
  shows "palette_of (data_getter (encode_all (new_PNGCollectionEncoder (Some ('''' # cs))) files)) = '''' # cs \<longleftrightarrow>
    (\<forall>(name, png, folder) \<in> set files. \<forall>p \<in> set (pixels (calcBounds (image_of png))).
       pixel_hex (image_of png) p \<in> set ('''' # cs))"
proof -
  let ?enc = "new_PNGCollectionEncoder (Some ('''' # cs))"
  note keys = new_encoder_keys[OF assms]
  obtain ext where ext: "enc_colors (encode_all ?enc files) = enc_colors ?enc @ ext"
    using encode_all_palette_extends by (rule exE)
  have "palette_of (data_getter (encode_all ?enc files)) = '''' # cs \<longleftrightarrow> omap_keys (enc_colors ?enc @ ext) = omap_keys (enc_colors ?enc)"
    by (simp only: data_getter_def ImageData.select_convs ext keys)
  also have "\<dots> \<longleftrightarrow> enc_colors (encode_all ?enc files) = enc_colors ?enc" unfolding ext by simp
  also have "\<dots> \<longleftrightarrow> (\<forall>(name, png, folder) \<in> set files. \<forall>p \<in> set (pixels (calcBounds (image_of png))).
       omap_has (enc_colors ?enc) (pixel_hex (image_of png) p))"
    by (rule encode_all_same_iff)
  finally show ?thesis
    using keys by (simp only: map_of_eq_None_iff not_not set_map[symmetric] keys)
qed

subsection \<open>An instance of the ethers parameters\<close>

definition hex_print :: "int \<Rightarrow> string" where
  "hex_print v =
     (let d = nat_to_base 16 (nat v) in ''0x'' @ (if even (length d) then d else CHR ''0'' # d))"

definition hex_read :: "string \<Rightarrow> int option" where
  "hex_read s =
     (if take 2 s = ''0x'' \<and> drop 2 s \<noteq> [] \<and> list_all (is_digit_in 16) (drop 2 s)
      then Some (int (digits_value 16 (drop 2 s))) else None)"

lemma hex_print_read_doc: "ethers_hex_doc hex_print hex_read"
  unfolding ethers_hex_doc_def
proof (intro conjI allI impI)
  fix v :: int assume v: "0 \<le> v"
  let ?d = "nat_to_base 16 (nat v)"
  let ?ds = "if even (length ?d) then ?d else CHR ''0'' # ?d"
  have "hex_print v = ''0x'' @ ?ds" by (simp add: hex_print_def Let_def)
  moreover have "?ds \<noteq> []" "even (length ?ds)" by simp_all
  moreover have "list_all (is_digit_in 16) ?ds" by (simp add: nat_to_base_digits digit_char_0 js_simps)
  moreover have "digits_value 16 ?ds = nat v"
    using digits_value_zeros[of 16 1 ?d] by (simp add: digits_value_nat_to_base digit_char_0)
  moreover have "length ?ds \<le> 2 * k" if k: "k \<ge> 1" "v < 256 ^ k" for k
  proof -
    have "(256 :: int) ^ k = (16 ^ 2) ^ k" by simp
    also have "\<dots> = 16 ^ (2 * k)" by (simp only: power_mult)
    also have "2 * k = Suc (2 * k - 1)" using k(1) by simp
    finally have "(256 :: int) ^ k = int (16 ^ Suc (2 * k - 1))" by simp
    then have "nat v < 16 ^ Suc (2 * k - 1)" using k v by (simp add: nat_less_iff)
    then have "length ?d \<le> Suc (2 * k - 1)" by (rule length_nat_to_base_le[rotated]) simp
    then have "length ?d \<le> 2 * k" using k(1) by simp
    then have "odd (length ?d) \<Longrightarrow> Suc (length ?d) \<le> 2 * k" by presburger
    with \<open>length ?d \<le> 2 * k\<close> show ?thesis by simp
  qed
  ultimately show "\<exists>ds. hex_print v = ''0x'' @ ds \<and> ds \<noteq> [] \<and> even (length ds) \<and> list_all (is_digit_in 16) ds
        \<and> int (digits_value 16 ds) = v \<and> (\<forall>k \<ge> 1. v < 256 ^ k \<longrightarrow> length ds \<le> 2 * k)"
    using v by (intro exI[of _ ?ds]) (simp only: simp_thms int_nat_eq if_True, blast)
next
  fix ds :: string assume "ds \<noteq> []"
  then show "hex_read (''0x'' @ ds) = (if list_all (is_digit_in 16) ds then Some (int (digits_value 16 ds)) else None)"
    by (simp add: hex_read_def)
qed

lemma hex_read_print: "0 \<le> v \<Longrightarrow> hex_read (hex_print v) = Some v"
  using hex_print_read_doc unfolding ethers_hex_doc_def by metis

lemma int_div_less_iff:
  fixes v b c :: int
  assumes "0 < b"
  shows "v div b < c \<longleftrightarrow> v < b * c"
proof
  assume "v div b < c"
  then have "b * (v div b + 1) \<le> b * c" using assms by (intro mult_left_mono) simp_all
  then have "b * (v div b) + b \<le> b * c" by (simp add: distrib_left)
  then show "v < b * c" using mult_div_mod_eq[of b v] pos_mod_bound[OF assms, of v] by linarith
next
  assume "v < b * c"
  show "v div b < c"
  proof (rule ccontr)
    assume "\<not> v div b < c"
    then have "b * c \<le> b * (v div b)" using assms by (intro mult_left_mono) simp_all
    then show False using \<open>v < b * c\<close> mult_div_mod_eq[of b v] pos_mod_sign[OF assms, of v] by linarith
  qed
qed

section \<open>Properties\<close>

text \<open>
  C9. For a hash value of at least 2^232, the seed derived off chain takes the same 48 bits as the
  contract for the background, the body, the head and the glasses; the accessory is read at shift 192
  too, where the contract reads it at shift 96. For a smaller value the derivation throws, because the
  shifted number prints fewer than 12 digits and the cast then leaves its \<open>0x\<close> inside the string.
\<close>

theorem getNounSeedFromBlockHash_spec:
  assumes "ethers_hex_doc toHexString fromHex"
    and "fromHex (solidityKeccak256 blockHash unounId) = Some v" "0 \<le> v"
    and "bgcolors imgs \<noteq> []" "bodies imgs \<noteq> []" "accessories imgs \<noteq> []" "heads imgs \<noteq> []" "glasses_images imgs \<noteq> []"
  shows "if v < 2 ^ 232
    then \<exists>e. getNounSeedFromBlockHash toHexString fromHex solidityKeccak256 imgs unounId blockHash = Inl e
    else getNounSeedFromBlockHash toHexString fromHex solidityKeccak256 imgs unounId blockHash =
      Inr \<lparr>background = seeder_part v (length (bgcolors imgs)) 0, body = seeder_part v (length (bodies imgs)) 48,
           accessory = seeder_part v (length (accessories imgs)) 192, head = seeder_part v (length (heads imgs)) 144,
           glasses = seeder_part v (length (glasses_images imgs)) 192\<rparr>"
proof -
  note part = getPseudorandomPart_eq[OF assms(1-3)]
  have small: "v div 2 ^ s < 2 ^ 40 \<longleftrightarrow> v < 2 ^ (s + 40)" for s
    using int_div_less_iff[of "2 ^ s" v "2 ^ 40"] by (simp add: power_add mult.commute)
  have mono: "v < 2 ^ (s + 40) \<Longrightarrow> v < 2 ^ 232" if "s \<le> 192" for s
    by (rule order_less_le_trans[OF _ power_increasing[of "s + 40" 232]]) (use that in simp_all)
  show ?thesis
  proof (cases "v < 2 ^ 232")
    case True
    then have "v div 2 ^ 192 < 2 ^ 40" by (simp add: small)
    then have "\<exists>e. getPseudorandomPart toHexString fromHex (solidityKeccak256 blockHash unounId)
        (length (glasses_images imgs)) 192 48 = Inl e"
      using part[of "length (glasses_images imgs)" 192] assms(8) by simp
    then obtain e where e: "getPseudorandomPart toHexString fromHex (solidityKeccak256 blockHash unounId)
        (length (glasses_images imgs)) 192 48 = Inl e" by blast
    have "getNounSeedFromBlockHash toHexString fromHex solidityKeccak256 imgs unounId blockHash \<noteq> Inr s" for s
      by (simp add: getNounSeedFromBlockHash_def Let_def bind_result_Inr_iff e)
    then show ?thesis using True
      by (cases "getNounSeedFromBlockHash toHexString fromHex solidityKeccak256 imgs unounId blockHash") auto
  next
    case False
    have "\<not> v div 2 ^ s < 2 ^ 40" if "s \<le> 192" for s using small[of s] mono[OF that] False by blast
    then have "getPseudorandomPart toHexString fromHex (solidityKeccak256 blockHash unounId) n s 48
        = Inr (seeder_part v n s)" if "0 < n" "s \<le> 192" for n s
      using part[OF that(1)] that(2) by (simp add: seeder_part_def)
    then show ?thesis using False assms(4-8) by (simp add: getNounSeedFromBlockHash_def Let_def)
  qed
qed

definition demo_images :: AssetImages where
  "demo_images = (let e = \<lparr>filename = ''x'', image_data = Some ''0x00''\<rparr> in
     \<lparr>bodies = [e, e], accessories = [e], heads = [e, e, e], glasses_images = [e], bgcolors = [''d5d7e1'']\<rparr>)"

theorem getNounSeedFromBlockHash_spec_witness:
  "if (2 ^ 255 :: int) < 2 ^ 232
    then \<exists>e. getNounSeedFromBlockHash hex_print hex_read (\<lambda>h n. hex_print (2 ^ 255)) demo_images 7 ''0x00'' = Inl e
    else getNounSeedFromBlockHash hex_print hex_read (\<lambda>h n. hex_print (2 ^ 255)) demo_images 7 ''0x00'' =
      Inr \<lparr>background = seeder_part (2 ^ 255) (length (bgcolors demo_images)) 0,
           body = seeder_part (2 ^ 255) (length (bodies demo_images)) 48,
           accessory = seeder_part (2 ^ 255) (length (accessories demo_images)) 192,
           head = seeder_part (2 ^ 255) (length (heads demo_images)) 144,
           glasses = seeder_part (2 ^ 255) (length (glasses_images demo_images)) 192\<rparr>"
  by (rule getNounSeedFromBlockHash_spec[OF hex_print_read_doc])
    (simp_all add: demo_images_def Let_def hex_read_print)

text \<open>
  Encoding more art over an existing palette succeeds exactly if every pixel that the encoder
  visits, transparent ones included, has a colour of the palette.
\<close>

theorem encode_more_succeeds_iff:
  assumes "distinct ('''' # cs)"
  shows "(\<exists>imgs. encode_more_script readdir readPngImage ('''' # cs) = Inr imgs) \<longleftrightarrow>
    (\<forall>(name, png, folder) \<in> set (encode_more_calls readdir readPngImage).
      \<forall>p \<in> set (pixels (calcBounds (image_of png))). pixel_hex (image_of png) p \<in> set ('''' # cs))"
  using encode_more_iff[OF assms, of "encode_more_calls readdir readPngImage"]
  by (simp add: encode_more_script_def Let_def)

theorem encode_more_succeeds_iff_witness:
  "(\<exists>imgs. encode_more_script (\<lambda>f. if f = ''3-heads'' then [''.gitkeep'', ''head-ape.png''] else []) (\<lambda>f g. demo_png)
      ('''' # [''ff0000'']) = Inr imgs) \<longleftrightarrow>
    (\<forall>(name, png, folder) \<in> set (encode_more_calls (\<lambda>f. if f = ''3-heads'' then [''.gitkeep'', ''head-ape.png''] else []) (\<lambda>f g. demo_png)).
      \<forall>p \<in> set (pixels (calcBounds (image_of png))). pixel_hex (image_of png) p \<in> set ('''' # [''ff0000'']))"
  by (rule encode_more_succeeds_iff) simp

text \<open>Merging a new art file into the base file throws exactly if it has a folder that the base lacks;
  otherwise every part keeps its index and its data, the palette stays, and new parts come behind.
\<close>

theorem merge_script_keeps_parts:
  "case merge_script baseData newData of
     Inl e \<Rightarrow> e = TypeError \<and> \<not> set (omap_keys (images_of newData)) \<subseteq> set (omap_keys (images_of baseData))
   | Inr merged \<Rightarrow> set (omap_keys (images_of newData)) \<subseteq> set (omap_keys (images_of baseData))
       \<and> palette_of merged = palette_of baseData
       \<and> list_all2 (\<lambda>(k, xs) (k', ys). k' = k \<and> prefix xs ys) (images_of baseData) (images_of merged)"
  using merge_images_throws_iff[of "images_of baseData" "images_of newData"]
    merge_images_prefixes[of "images_of baseData" "images_of newData"]
  by (cases "merge_images (images_of baseData) (images_of newData)") (auto simp: merge_script_def)

section \<open>Reading a file\<close>

text \<open>
  \<^verbatim>\<open>scripts/utils.ts\<close>: what pngjs decodes is width, height and the bytes, four per pixel; an unreadable file is \<open>None\<close>.
  The shift is one of 32-bit integers.
\<close>

definition read_png_file :: "(string \<Rightarrow> (int \<times> int \<times> (int \<Rightarrow> int)) option) \<Rightarrow> string \<Rightarrow> PngImage option" where
  "read_png_file decoded path =
     map_option (\<lambda>(w, h, data).
       \<lparr>png_width = w, png_height = h,
        rgbaAt = (\<lambda>x y. let idx = toInt32 ((w * y + x) * 4)
          in \<lparr>rgba_r = data idx, rgba_g = data (idx + 1), rgba_b = data (idx + 2), rgba_a = data (idx + 3)\<rparr>)\<rparr>)
       (decoded path)"

text \<open>For pictures of up to 2 ^ 29 pixels the shift does not overflow: pixel and index belong together.\<close>

lemma read_png_file_pixel:
  assumes "decoded path = Some (w, h, data)" and "0 \<le> x" "x < w" "0 \<le> y" "y < h" and "w * h \<le> 2 ^ 29"
  shows "\<exists>png. read_png_file decoded path = Some png \<and> rgba_a (rgbaAt png x y) = data (4 * (w * y + x) + 3)"
proof -
  have "w * y + x < w * (y + 1)" using assms by (simp add: algebra_simps)
  also have "\<dots> \<le> w * h" using assms by (intro mult_left_mono) simp_all
  finally have "(w * y + x) * 4 < 2 ^ 31" using assms(6) by simp
  moreover have "0 \<le> w * y + x" using assms by simp
  ultimately have "toInt32 ((w * y + x) * 4) = (w * y + x) * 4" by (intro toInt32_id) simp_all
  then show ?thesis using assms(1) by (simp add: read_png_file_def Let_def algebra_simps)
qed

end
