(* ===== verification/Web_Dao.thy ===== *)
theory Web_Dao
  imports Js_Strings
begin

text \<open>
  Proposals in the web app, \<^verbatim>\<open>wrappers/nounsDao.ts\<close>: titles, the state shown for a proposal, the parsing of
  the subgraph's and the contract's answers and the formatting of a proposal's transactions. A \<open>Date\<close> is
  its number of seconds. The numbers of the subgraph are decimal texts, on which \<open>new BigNumber\<close>, \<open>Number\<close>
  and \<open>parseInt\<close> agree. The ABI decoder and \<open>formatEther\<close> are parameters.
\<close>

section \<open>The data\<close>

datatype WVote = VAGAINST | VFOR | VABSTAIN

datatype ProposalState =
    UNDETERMINED | SPENDING | SACTIVE | SCANCELLED | SDEFEATED | SSUCCEEDED | SQUEUED | SEXPIRED | SEXECUTED | SVETOED

record PartialProposalSubgraphEntity =
  pe_id :: string
  pe_title :: "string option"
  pe_status :: ProposalState
  pe_forVotes :: string
  pe_againstVotes :: string
  pe_abstainVotes :: string
  pe_startBlock :: string
  pe_endBlock :: string
  pe_executionETA :: "string option"
  pe_quorumVotes :: string

record ProposalTransactionDetails =
  td_targets :: "string list"
  td_values :: "int list"
  td_signatures :: "string list"
  td_calldatas :: "string list"

record ProposalSubgraphEntity = PartialProposalSubgraphEntity +
  pe_description :: "string option"
  pe_createdBlock :: string
  pe_createdTransactionHash :: string
  pe_proposer :: "string option"
  pe_proposalThreshold :: string
  pe_details :: ProposalTransactionDetails

record PartialProposal =
  pp_id :: "string option"
  pp_title :: string
  pp_status :: ProposalState
  pp_forCount :: num
  pp_againstCount :: num
  pp_abstainCount :: num
  pp_startBlock :: num
  pp_endBlock :: num
  pp_eta :: num
  pp_quorumVotes :: num

record ProposalDetail =
  de_target :: string
  de_value :: "string option"
  de_functionSig :: string
  de_callData :: string

record WProposal = PartialProposal +
  wp_description :: string
  wp_createdBlock :: num
  wp_proposer :: "string option"
  wp_proposalThreshold :: num
  wp_details :: "ProposalDetail list"
  wp_transactionHash :: string

section \<open>Titles\<close>

definition to_newline :: "string \<Rightarrow> string" where
  "to_newline s = takeWhile (\<lambda>c. c \<noteq> CHR 0x0A) s"

text \<open>
  The two regular expressions match greedily and backtrack over the white space: each tries the longest
  run of white space first. \<open>hash_group\<close> is \<open>\s+([^\n]+)\<close> at the front of a text.
\<close>

definition first_some :: "(nat \<Rightarrow> string option) \<Rightarrow> nat list \<Rightarrow> string option" where
  "first_some f ks = (case List.map_filter f ks of [] \<Rightarrow> None | x # _ \<Rightarrow> Some x)"

definition hash_group :: "string \<Rightarrow> string option" where
  "hash_group s =
     (let w = length (takeWhile is_space s)
      in first_some (\<lambda>k. let g = to_newline (drop k s) in if g = '''' then None else Some g) (rev [1..<Suc w]))"

definition extractHashTitle :: "string \<Rightarrow> string option" where
  "extractHashTitle body =
     (let rest = dropWhile is_space body;
          hashes = length (takeWhile (\<lambda>c. c = CHR ''#'') rest)
      in if 1 \<le> hashes \<and> hashes \<le> 6 then hash_group (drop hashes rest) else None)"

definition extractEqualTitle :: "string \<Rightarrow> string option" where
  "extractEqualTitle body =
     (let w = length (takeWhile is_space body)
      in first_some (\<lambda>k. let g = to_newline (drop k body); rest = drop (k + length g) body
           in if g \<noteq> '''' \<and> (starts_with rest ([CHR 0x0A] @ ''==='') \<or> starts_with rest ([CHR 0x0A] @ ''---''))
              then Some g else None) (rev [0..<Suc w]))"

definition web_extractTitle :: "string option \<Rightarrow> string option" where
  "web_extractTitle body =
     (case body of None \<Rightarrow> None
      | Some b \<Rightarrow>
          if b = '''' then None
          else (case extractHashTitle b of Some t \<Rightarrow> Some t
                | None \<Rightarrow> (case extractEqualTitle b of Some t \<Rightarrow> Some t | None \<Rightarrow> None)))"

definition removeBold :: "string option \<Rightarrow> string option" where
  "removeBold text = map_option (replaceAll ''**'' '''') text"

definition removeItalics :: "string option \<Rightarrow> string option" where
  "removeItalics text = map_option (replaceAll ''__'' '''') text"

definition removeMarkdownStyle :: "string option \<Rightarrow> string option" where
  "removeMarkdownStyle text = removeBold (removeItalics text)"

definition or_untitled :: "string option \<Rightarrow> string" where
  "or_untitled t = (case t of None \<Rightarrow> ''Untitled'' | Some t \<Rightarrow> t)"

section \<open>The transactions of a proposal\<close>

text \<open>\<open>split(/,(?![^(]*\))/)\<close>: a comma separates unless a closing parenthesis follows before any opening one.\<close>

definition inside_parens :: "string \<Rightarrow> bool" where
  "inside_parens rest \<longleftrightarrow> CHR '')'' \<in> set (takeWhile (\<lambda>c. c \<noteq> CHR ''('') rest)"

fun split_types :: "string \<Rightarrow> string list" where
  "split_types [] = [[]]"
| "split_types (c # cs) =
     (if c = CHR '','' \<and> \<not> inside_parens cs then [] # split_types cs
      else (case split_types cs of [] \<Rightarrow> [[c]] | t # ts \<Rightarrow> (c # t) # ts))"

text \<open>\<open>[name, types] = s.split(/\((.*)/s)\<close>: before and after the first parenthesis, if there is one.\<close>

definition split_signature :: "string \<Rightarrow> string \<times> string option" where
  "split_signature s =
     (case break_on ''('' s of None \<Rightarrow> (s, None) | Some (name, types) \<Rightarrow> (name, Some types))"

definition value_at :: "ProposalTransactionDetails \<Rightarrow> nat \<Rightarrow> int" where
  "value_at d i = (if i < length (td_values d) then td_values d ! i else 0)"

definition formatProposalTransaction ::
  "(string list \<Rightarrow> string \<Rightarrow> string list option) \<Rightarrow> (int \<Rightarrow> string) \<Rightarrow> ProposalTransactionDetails
    \<Rightarrow> nat \<Rightarrow> (string, ProposalDetail) result" where
  "formatProposalTransaction decode formatEther details i =
     (if length (td_signatures details) \<le> i then Inl ''TypeError''
      else let target = td_targets details ! i;
               signature = td_signatures details ! i;
               val = value_at details i;
               (name, types) = split_signature (take (length signature - 1) signature)
           in if name = '''' \<or> types = None \<or> types = Some ''''
              then Inr \<lparr>de_target = target, de_value = None,
                        de_functionSig = (if name = '''' then ''transfer'' else name),
                        de_callData = (case types of
                            Some ty \<Rightarrow> if ty \<noteq> '''' then ty else formatEther val @ '' ETH''
                          | None \<Rightarrow> formatEther val @ '' ETH'')\<rparr>
              else if length (td_calldatas details) \<le> i then Inl ''TypeError''
              else (case decode (split_types (the types)) (td_calldatas details ! i) of
                      None \<Rightarrow> Inl ''decoding failed''
                    | Some decoded \<Rightarrow> Inr
                        \<lparr>de_target = target,
                         de_value = Some (if 0 < val then ''{ value: '' @ formatEther val @ '' ETH }'' else ''''),
                         de_functionSig = name, de_callData = join '','' decoded\<rparr>))"

fun results_list :: "('e, 'a) result list \<Rightarrow> ('e, 'a list) result" where
  "results_list [] = Inr []"
| "results_list (r # rs) = bind_result r (\<lambda>x. bind_result (results_list rs) (\<lambda>xs. Inr (x # xs)))"

definition formatProposalTransactionDetails ::
  "(string list \<Rightarrow> string \<Rightarrow> string list option) \<Rightarrow> (int \<Rightarrow> string) \<Rightarrow> ProposalTransactionDetails
    \<Rightarrow> (string, ProposalDetail list) result" where
  "formatProposalTransactionDetails decode formatEther details =
     results_list (map (formatProposalTransaction decode formatEther details) [0..<length (td_targets details)])"

section \<open>The state of a proposal\<close>

definition GRACE_PERIOD :: int where
  "GRACE_PERIOD = 14 * 60 * 60 * 24"

definition no_block :: "int option \<Rightarrow> bool" where
  "no_block b \<longleftrightarrow> b = None \<or> b = Some 0"

definition no_eta :: "string option \<Rightarrow> bool" where
  "no_eta e \<longleftrightarrow> e = None \<or> e = Some ''''"

definition getProposalState ::
  "int option \<Rightarrow> int option \<Rightarrow> 'a PartialProposalSubgraphEntity_scheme \<Rightarrow> ProposalState" where
  "getProposalState blockNumber blockTimestamp proposal =
     (let status = pe_status proposal in
      if status = SPENDING then
        (if no_block blockNumber then UNDETERMINED
         else if num_le blockNumber (parseInt (pe_startBlock proposal)) then SPENDING
         else SACTIVE)
      else if status = SACTIVE then
        (if no_block blockNumber then UNDETERMINED
         else if num_lt (parseInt (pe_endBlock proposal)) blockNumber
         then (let forVotes = parseInt (pe_forVotes proposal) in
               if num_le forVotes (parseInt (pe_againstVotes proposal))
                  \<or> num_lt forVotes (parseInt (pe_quorumVotes proposal)) then SDEFEATED
               else if no_eta (pe_executionETA proposal) then SSUCCEEDED
               else status)
         else status)
      else if status = SQUEUED then
        (if blockTimestamp = None \<or> no_eta (pe_executionETA proposal) then UNDETERMINED
         else if num_le (num_add (parseInt (the (pe_executionETA proposal))) (Some GRACE_PERIOD)) blockTimestamp
         then SEXPIRED else status)
      else status)"

definition eta_date :: "string option \<Rightarrow> num" where
  "eta_date e = (if no_eta e then None else js_Number (the e))"

definition timestamp_or_0 :: "int option \<Rightarrow> int option" where
  "timestamp_or_0 t = Some (case t of None \<Rightarrow> 0 | Some t \<Rightarrow> t)"

definition parsePartialSubgraphProposal ::
  "int option \<Rightarrow> int option \<Rightarrow> PartialProposalSubgraphEntity option \<Rightarrow> PartialProposal option" where
  "parsePartialSubgraphProposal blockNumber timestamp proposal =
     map_option (\<lambda>p.
       \<lparr>pp_id = Some (pe_id p), pp_title = or_untitled (pe_title p),
        pp_status = getProposalState blockNumber (timestamp_or_0 timestamp) p,
        pp_forCount = parseInt (pe_forVotes p), pp_againstCount = parseInt (pe_againstVotes p),
        pp_abstainCount = parseInt (pe_abstainVotes p), pp_startBlock = parseInt (pe_startBlock p),
        pp_endBlock = parseInt (pe_endBlock p), pp_eta = eta_date (pe_executionETA p),
        pp_quorumVotes = parseInt (pe_quorumVotes p)\<rparr>) proposal"

definition newlines_of :: "string \<Rightarrow> string" where
  "newlines_of s = replaceAll [CHR 0x5C, CHR ''n''] [CHR 0x0A] s"

definition is_quote :: "char \<Rightarrow> bool" where
  "is_quote c \<longleftrightarrow> c = CHR 0x27 \<or> c = CHR 0x22"

text \<open>\<open>replace(/(^['"]|['"]$)/g, '')\<close>: a quote at the front and a quote at the end.\<close>

definition strip_quotes :: "string \<Rightarrow> string" where
  "strip_quotes s =
     (let s' = (case s of c # cs \<Rightarrow> if is_quote c then cs else s | [] \<Rightarrow> [])
      in if s' \<noteq> [] \<and> is_quote (last s') then butlast s' else s')"

definition parseSubgraphProposal ::
  "(string list \<Rightarrow> string \<Rightarrow> string list option) \<Rightarrow> (int \<Rightarrow> string) \<Rightarrow> int option \<Rightarrow> int option
    \<Rightarrow> ProposalSubgraphEntity option \<Rightarrow> (string, WProposal option) result" where
  "parseSubgraphProposal decode formatEther blockNumber timestamp proposal =
     (case proposal of None \<Rightarrow> Inr None
      | Some p \<Rightarrow>
          let description = map_option (\<lambda>d. strip_quotes (newlines_of d)) (pe_description p)
          in bind_result (formatProposalTransactionDetails decode formatEther (pe_details p)) (\<lambda>details. Inr (Some
            \<lparr>pp_id = Some (pe_id p),
             pp_title = or_untitled (removeMarkdownStyle (web_extractTitle description)),
             pp_status = getProposalState blockNumber (timestamp_or_0 timestamp) p,
             pp_forCount = parseInt (pe_forVotes p), pp_againstCount = parseInt (pe_againstVotes p),
             pp_abstainCount = parseInt (pe_abstainVotes p), pp_startBlock = parseInt (pe_startBlock p),
             pp_endBlock = parseInt (pe_endBlock p), pp_eta = eta_date (pe_executionETA p),
             pp_quorumVotes = parseInt (pe_quorumVotes p),
             wp_description = (case description of None \<Rightarrow> ''No description.'' | Some d \<Rightarrow> d),
             wp_createdBlock = parseInt (pe_createdBlock p), wp_proposer = pe_proposer p,
             wp_proposalThreshold = parseInt (pe_proposalThreshold p), wp_details = details,
             wp_transactionHash = pe_createdTransactionHash p\<rparr>)))"

section \<open>The hooks that read the contract\<close>

text \<open>A contract call that has not answered is \<open>None\<close>.\<close>

definition useCurrentQuorum :: "(int \<Rightarrow> int option) \<Rightarrow> int \<Rightarrow> bool \<Rightarrow> int option" where
  "useCurrentQuorum quorumVotes proposalId skip = (if skip then None else quorumVotes proposalId)"

record Receipt =
  rc_hasVoted :: bool
  rc_support :: int

definition useHasVotedOnProposal :: "Receipt option \<Rightarrow> bool" where
  "useHasVotedOnProposal receipt = (case receipt of None \<Rightarrow> False | Some r \<Rightarrow> rc_hasVoted r)"

definition useProposalVote :: "Receipt option \<Rightarrow> string" where
  "useProposalVote receipt =
     (let voteStatus = (case receipt of None \<Rightarrow> - 1 | Some r \<Rightarrow> rc_support r)
      in if voteStatus = 0 then ''Against''
         else if voteStatus = 1 then ''For''
         else if voteStatus = 2 then ''Abstain''
         else '''')"

definition countToIndices :: "int option \<Rightarrow> int list" where
  "countToIndices count = (case count of None \<Rightarrow> [] | Some n \<Rightarrow> map (\<lambda>i. int i + 1) [0..<nat n])"

record ProposalCallResult =
  cr_id :: int
  cr_abstainVotes :: int
  cr_againstVotes :: int
  cr_forVotes :: int
  cr_startBlock :: int
  cr_endBlock :: int
  cr_eta :: int
  cr_quorumVotes :: int

record PartialProposalData =
  pd_data :: "PartialProposal list"
  pd_error :: bool
  pd_loading :: bool

record CreatedLog =
  cl_description :: string
  cl_transactionHash :: string
  cl_details :: "ProposalDetail list"

definition useAllProposalsViaSubgraph ::
  "int option \<Rightarrow> int option \<Rightarrow> bool \<Rightarrow> bool \<Rightarrow> PartialProposalSubgraphEntity list option \<Rightarrow> PartialProposalData" where
  "useAllProposalsViaSubgraph blockNumber timestamp loading err proposals =
     \<lparr>pd_data = (case proposals of None \<Rightarrow> []
        | Some ps \<Rightarrow> List.map_filter (\<lambda>p. parsePartialSubgraphProposal blockNumber timestamp (Some p)) ps),
      pd_error = err, pd_loading = loading\<rparr>"

definition chain_proposal :: "ProposalCallResult option \<Rightarrow> ProposalState option \<Rightarrow> CreatedLog option \<Rightarrow> PartialProposal" where
  "chain_proposal proposal state lg =
     (let description = map_option (\<lambda>l. newlines_of (cl_description l)) lg;
          number_of = (\<lambda>f d. case proposal of None \<Rightarrow> parseInt d | Some p \<Rightarrow> parseInt (int_to_dec (f p)))
      in \<lparr>pp_id = map_option (\<lambda>p. int_to_dec (cr_id p)) proposal,
          pp_title = or_untitled (removeMarkdownStyle (web_extractTitle description)),
          pp_status = (case state of None \<Rightarrow> UNDETERMINED | Some st \<Rightarrow> st),
          pp_forCount = number_of cr_forVotes ''0'', pp_againstCount = number_of cr_againstVotes ''0'',
          pp_abstainCount = number_of cr_abstainVotes ''0'',
          pp_startBlock = number_of cr_startBlock '''', pp_endBlock = number_of cr_endBlock '''',
          pp_eta = map_option cr_eta proposal,
          pp_quorumVotes = number_of cr_quorumVotes ''0''\<rparr>)"

definition nth_opt :: "'a list \<Rightarrow> nat \<Rightarrow> 'a option" where
  "nth_opt xs i = (if i < length xs then Some (xs ! i) else None)"

definition useAllProposalsViaChain ::
  "ProposalCallResult option list \<Rightarrow> ProposalState option list \<Rightarrow> CreatedLog list option \<Rightarrow> PartialProposalData" where
  "useAllProposalsViaChain proposals proposalStates formattedLogs =
     (let logs = (case formattedLogs of None \<Rightarrow> [] | Some l \<Rightarrow> l)
      in if proposals \<noteq> [] \<and> logs = [] then \<lparr>pd_data = [], pd_error = False, pd_loading = True\<rparr>
         else \<lparr>pd_data = map (\<lambda>i. chain_proposal (proposals ! i) (Option.bind (nth_opt proposalStates i) (\<lambda>s. s))
                 (nth_opt logs i)) [0..<length proposals],
               pd_error = False, pd_loading = False\<rparr>)"

definition useAllProposals :: "PartialProposalData \<Rightarrow> PartialProposalData \<Rightarrow> PartialProposalData" where
  "useAllProposals subgraph onchain = (if pd_error subgraph then onchain else subgraph)"

section \<open>Types of a signature\<close>

text \<open>A list of types without parentheses or commas inside them is split as it was joined; so is a list of flat
  tuples.\<close>

fun flat_type :: "string \<Rightarrow> bool" where
  "flat_type s = (CHR '','' \<notin> set s \<and> CHR ''('' \<notin> set s \<and> CHR '')'' \<notin> set s)"

lemma split_types_flat: "flat_type s \<Longrightarrow> split_types s = [s]"
  by (induction s) auto

lemma inside_parens_simps [simp]:
  "\<not> inside_parens []"
  "inside_parens (c # r) = (c \<noteq> CHR ''('' \<and> (c = CHR '')'' \<or> inside_parens r))"
  by (auto simp: inside_parens_def)

lemma inside_parens_head:
  assumes "CHR '')'' \<notin> set s" "CHR ''('' \<notin> set s"
  shows "inside_parens (s @ r) = inside_parens r"
  using assms by (induction s) auto

lemma split_types_head:
  "flat_type s \<Longrightarrow> split_types (s @ r) = (s @ hd (split_types r)) # tl (split_types r)"
proof (induction s)
  case Nil
  have "split_types r \<noteq> []" by (induction r) (auto split: list.splits)
  then show ?case by simp
qed auto

definition tuple_type :: "string \<Rightarrow> bool" where
  "tuple_type s \<longleftrightarrow> (\<exists>m. s = [CHR ''(''] @ m @ [CHR '')''] \<and> CHR ''('' \<notin> set m \<and> CHR '')'' \<notin> set m)"

lemma split_types_nonempty [simp]: "split_types r \<noteq> []"
  by (induction r) (auto split: list.splits)

lemma split_types_inside:
  assumes "CHR ''('' \<notin> set m" "CHR '')'' \<notin> set m"
  shows "split_types (m @ CHR '')'' # r) = (m @ CHR '')'' # hd (split_types r)) # tl (split_types r)"
  using assms
proof (induction m)
  case Nil
  then show ?case by (cases "split_types r") auto
next
  case (Cons c m)
  have "inside_parens (m @ CHR '')'' # r)"
    using Cons.prems by (induction m) auto
  then show ?case using Cons by simp
qed

lemma split_types_tuple:
  assumes "tuple_type s"
  shows "split_types (s @ r) = (s @ hd (split_types r)) # tl (split_types r)"
proof -
  obtain m where m: "s = [CHR ''(''] @ m @ [CHR '')'']" "CHR ''('' \<notin> set m" "CHR '')'' \<notin> set m"
    using assms by (auto simp: tuple_type_def)
  show ?thesis using split_types_inside[OF m(2,3), of r] m(1) by simp
qed

definition simple_type :: "string \<Rightarrow> bool" where
  "simple_type s \<longleftrightarrow> flat_type s \<or> tuple_type s"

lemma split_types_simple:
  "simple_type s \<Longrightarrow> split_types (s @ r) = (s @ hd (split_types r)) # tl (split_types r)"
  using split_types_head split_types_tuple by (auto simp: simple_type_def)

lemma not_inside_simple:
  assumes "list_all simple_type ss"
  shows "\<not> inside_parens (join '','' ss)"
  using assms
proof (induction "'',''" ss rule: join.induct)
  case 1
  then show ?case by simp
next
  case (2 x)
  then show ?case
    using inside_parens_head[of x "[]"] by (auto simp: simple_type_def tuple_type_def)
next
  case (3 x y xs)
  then have ih: "\<not> inside_parens (join '','' (y # xs))" by simp
  show ?case
  proof (cases "flat_type x")
    case True
    then have "inside_parens ((x @ '','') @ join '','' (y # xs)) = inside_parens (join '','' (y # xs))"
      by (intro inside_parens_head) auto
    then show ?thesis using ih by simp
  next
    case False
    then show ?thesis using 3 by (auto simp: simple_type_def tuple_type_def)
  qed
qed

lemma split_types_join:
  "ss \<noteq> [] \<Longrightarrow> list_all simple_type ss \<Longrightarrow> split_types (join '','' ss) = ss"
proof (induction "'',''" ss rule: join.induct)
  case (2 x)
  then show ?case using split_types_simple[of x "[]"] by simp
next
  case (3 x y xs)
  have "\<not> inside_parens (join '','' (y # xs))" using 3 by (intro not_inside_simple) simp
  then have "split_types ('','' @ join '','' (y # xs)) = [] # y # xs" using 3 by simp
  then show ?case using split_types_simple[of x "'','' @ join '','' (y # xs)"] 3 by simp
qed simp

text \<open>C18. A transaction of a proposal is shown with its arguments decoded by exactly the types of its signature, when
  these are plain types and tuples of plain types; a value is shown only if it is positive.\<close>

theorem formatProposalTransaction_decodes:
  assumes "i < length (td_signatures d)" and "i < length (td_calldatas d)"
    and "td_signatures d ! i = name @ ''('' @ join '','' types @ '')''"
    and "name \<noteq> ''''" and "CHR ''('' \<notin> set name" and "types \<noteq> []" and "join '','' types \<noteq> ''''"
    and "list_all simple_type types"
  shows "formatProposalTransaction decode formatEther d i =
    (case decode types (td_calldatas d ! i) of
       None \<Rightarrow> Inl ''decoding failed''
     | Some decoded \<Rightarrow> Inr
         \<lparr>de_target = td_targets d ! i,
          de_value = Some (if 0 < value_at d i then ''{ value: '' @ formatEther (value_at d i) @ '' ETH }'' else ''''),
          de_functionSig = name, de_callData = join '','' decoded\<rparr>)"
proof -
  have "take (length (td_signatures d ! i) - 1) (td_signatures d ! i) = name @ CHR ''('' # join '','' types"
    using assms(3) by (simp add: take_Cons')
  moreover have "break_on ''('' (name @ CHR ''('' # join '','' types) = Some (name, join '','' types)"
    using assms(5) break_on_char by simp
  ultimately show ?thesis
    using assms by (simp add: formatProposalTransaction_def split_signature_def split_types_join Let_def)
qed

theorem formatProposalTransaction_decodes_witness:
  "formatProposalTransaction (\<lambda>ts cd. Some ts) int_to_dec
     \<lparr>td_targets = [''0xt''], td_values = [7], td_signatures = [''send(address,(uint256,bool))''], td_calldatas = [''0x00'']\<rparr> 0
   = Inr \<lparr>de_target = ''0xt'', de_value = Some ''{ value: 7 ETH }'', de_functionSig = ''send'',
          de_callData = ''address,(uint256,bool)''\<rparr>"
proof -
  have "tuple_type ''(uint256,bool)''" unfolding tuple_type_def by (intro exI[of _ "''uint256,bool''"]) simp
  then have "list_all simple_type [''address'', ''(uint256,bool)'']" by (simp add: simple_type_def)
  moreover have "int_to_dec 7 = ''7''" by code_simp
  ultimately show ?thesis
    by (subst formatProposalTransaction_decodes[where name = "''send''" and types = "[''address'', ''(uint256,bool)'']"])
      (simp_all add: value_at_def)
qed

text \<open>The expression that splits the types looks only for the next parenthesis, so it cuts a tuple apart at a comma that
  a nested tuple follows, and the decoder is called with pieces of a type.\<close>

theorem nested_tuple_split_apart:
  "CHR ''('' \<notin> set m \<Longrightarrow> CHR '')'' \<notin> set m \<Longrightarrow> flat_type a \<Longrightarrow>
    split_types (''('' @ a @ '',('' @ m @ ''))'') = [''('' @ a, ''('' @ m @ ''))'']"
proof -
  assume m: "CHR ''('' \<notin> set m" "CHR '')'' \<notin> set m" and a: "flat_type a"
  have "split_types (m @ '')'' @ '')'') = [m @ '')'' @ '')'']"
    using split_types_inside[OF m, of "'')''"] by simp
  then have "split_types (''('' @ m @ ''))'') = [''('' @ m @ ''))'']" by simp
  then have "split_types ('','' @ ''('' @ m @ ''))'') = [[], ''('' @ m @ ''))'']" by simp
  then show "split_types (''('' @ a @ '',('' @ m @ ''))'') = [''('' @ a, ''('' @ m @ ''))'']"
    using split_types_head[OF a, of "'','' @ ''('' @ m @ ''))''"] by simp
qed

theorem nested_tuple_split_apart_witness:
  "split_types (''('' @ ''uint8'' @ '',('' @ ''bool,bool'' @ ''))'') = [''('' @ ''uint8'', ''('' @ ''bool,bool'' @ ''))'']"
  by (rule nested_tuple_split_apart) simp_all

section \<open>Titles\<close>

lemma first_some_SomeD: "first_some f ks = Some x \<Longrightarrow> \<exists>k \<in> set ks. f k = Some x"
proof -
  assume "first_some f ks = Some x"
  then have "x \<in> set (List.map_filter f ks)" by (auto simp: first_some_def split: list.splits)
  then show ?thesis by (auto simp: map_filter_def)
qed

lemma to_newline_no_newline: "CHR 0x0A \<notin> set (to_newline s)"
  by (auto simp: to_newline_def dest: set_takeWhileD)

lemma web_title_line:
  assumes "web_extractTitle b = Some t"
  shows "t \<noteq> '''' \<and> CHR 0x0A \<notin> set t"
  using assms to_newline_no_newline
  by (auto simp: web_extractTitle_def extractHashTitle_def extractEqualTitle_def hash_group_def Let_def
      split: option.splits if_splits dest!: first_some_SomeD)

lemma hash_title:
  assumes "n \<in> {1..6}" and "t \<noteq> ''''" and "\<not> is_space (hd t)" and "CHR 0x0A \<notin> set t"
  shows "extractHashTitle (replicate n (CHR ''#'') @ '' '' @ t @ [CHR 0x0A] @ body) = Some t"
proof -
  let ?s = "replicate n (CHR ''#'') @ '' '' @ t @ [CHR 0x0A] @ body"
  have "\<not> is_space (CHR ''#'')" by (simp add: is_space_def)
  then have drop: "dropWhile is_space ?s = ?s" using assms(1) by (cases n) auto
  have hashes: "takeWhile (\<lambda>c. c = CHR ''#'') ?s = replicate n (CHR ''#'')"
    by (induction n) auto
  have sp: "takeWhile is_space ('' '' @ t @ [CHR 0x0A] @ body) = '' ''"
    using assms(2,3) by (cases t) (auto simp: is_space_def)
  have "to_newline (t @ [CHR 0x0A] @ body) = t"
    using assms(4) unfolding to_newline_def by (subst takeWhile_append2) auto
  then have "hash_group ('' '' @ t @ [CHR 0x0A] @ body) = Some t"
    using assms(2) sp by (simp add: hash_group_def first_some_def List.map_filter_def Let_def)
  then show ?thesis using assms(1) drop hashes by (simp add: extractHashTitle_def Let_def)
qed

end
