(* ===== verification/Web_Proposals.thy ===== *)
theory Web_Proposals
  imports Sg_Events Web_Dao
begin

text \<open>
  The state of a proposal, from the contract through the subgraph to the web app. \<open>lifecycle\<close> runs the
  governor's rules for one proposal (\<^verbatim>\<open>NounsDAOLogicV2.sol\<close>: \<open>propose\<close>, \<open>castVote\<close>, \<open>queue\<close>, \<open>execute\<close>, \<open>cancel\<close>,
  \<open>veto\<close> and \<open>state\<close>) beside the subgraph's handlers; the theorem says when \<open>getProposalState\<close> on the
  subgraph's entity gives the contract's state.
\<close>

section \<open>Numbers as decimal texts\<close>

lemma digits_no_space: "list_all (is_digit_in 10) (c # s) \<Longrightarrow> \<not> is_space c \<and> c \<noteq> CHR ''-'' \<and> c \<noteq> CHR ''+''"
proof -
  have "\<not> is_digit_in 10 x" if "is_space x \<or> x = CHR ''-'' \<or> x = CHR ''+''" for x
    using that by (auto simp: is_space_def is_digit_in_def digit_val_def)
  then show "list_all (is_digit_in 10) (c # s) \<Longrightarrow> ?thesis" by auto
qed

lemma digits_strip_0x: "list_all (is_digit_in 10) s \<Longrightarrow> strip_0x s = s"
proof -
  have "\<not> is_digit_in 10 (CHR ''x'')" "\<not> is_digit_in 10 (CHR ''X'')"
    by (simp_all add: is_digit_in_def digit_val_def)
  then show "list_all (is_digit_in 10) s \<Longrightarrow> ?thesis" by (auto simp: strip_0x_def split: list.splits)
qed

lemma parse_digits_nat: "parse_digits 10 (nat_to_base 10 n) = Some (int n)"
proof -
  have "list_all (is_digit_in 10) (nat_to_base 10 n)" by (rule nat_to_base_digits) simp_all
  then have tw: "takeWhile (is_digit_in 10) (nat_to_base 10 n) = nat_to_base 10 n"
    by (simp add: takeWhile_eq_all_conv list_all_iff)
  show ?thesis unfolding parse_digits_def Let_def tw by (simp add: digits_value_nat_to_base)
qed

lemma parseInt_int_to_dec [simp]: "parseInt (int_to_dec i) = Some i"
proof -
  obtain c s where cs: "nat_to_base 10 (nat \<bar>i\<bar>) = c # s" by (cases "nat_to_base 10 (nat \<bar>i\<bar>)") auto
  have d: "list_all (is_digit_in 10) (c # s)" unfolding cs[symmetric] by (rule nat_to_base_digits) simp_all
  have p: "parse_digits 10 (c # s) = Some \<bar>i\<bar>" unfolding cs[symmetric] parse_digits_nat by simp
  have minus: "\<not> is_space (CHR ''-'')" by (simp add: is_space_def)
  show ?thesis
  proof (cases "i < 0")
    case True
    then have "int_to_dec i = CHR ''-'' # c # s" using cs by (simp add: int_to_dec_def int_to_base_def)
    then show ?thesis using True p d minus by (simp add: parseInt_def parse_signed_def digits_strip_0x)
  next
    case False
    then have "int_to_dec i = c # s" using cs by (simp add: int_to_dec_def int_to_base_def)
    then show ?thesis
      using False p d digits_no_space[OF d] by (simp add: parseInt_def parse_signed_def digits_strip_0x)
  qed
qed

section \<open>What the subgraph answers for a proposal\<close>

fun web_status :: "ProposalStatus \<Rightarrow> ProposalState" where
  "web_status PENDING = SPENDING"
| "web_status ACTIVE = SACTIVE"
| "web_status CANCELLED = SCANCELLED"
| "web_status VETOED = SVETOED"
| "web_status QUEUED = SQUEUED"
| "web_status EXECUTED = SEXECUTED"

definition entity_of :: "Proposal \<Rightarrow> PartialProposalSubgraphEntity" where
  "entity_of p =
     \<lparr>pe_id = pr_id p, pe_title = Some (pr_title p), pe_status = web_status (pr_status p),
      pe_forVotes = int_to_dec (pr_forVotes p), pe_againstVotes = int_to_dec (pr_againstVotes p),
      pe_abstainVotes = int_to_dec (pr_abstainVotes p), pe_startBlock = int_to_dec (pr_startBlock p),
      pe_endBlock = int_to_dec (pr_endBlock p), pe_executionETA = map_option int_to_dec (pr_executionETA p),
      pe_quorumVotes = int_to_dec (pr_quorumVotes p)\<rparr>"

section \<open>The contract's proposal\<close>

record cprop =
  cp_startBlock :: int
  cp_endBlock :: int
  cp_for :: int
  cp_against :: int
  cp_abstain :: int
  cp_eta :: int
  cp_executed :: bool
  cp_canceled :: bool
  cp_vetoed :: bool

definition passes :: "(cprop \<Rightarrow> int) \<Rightarrow> cprop \<Rightarrow> bool" where
  "passes quorum c \<longleftrightarrow> \<not> (cp_for c \<le> cp_against c \<or> cp_for c < quorum c)"

definition contract_state :: "(cprop \<Rightarrow> int) \<Rightarrow> cprop \<Rightarrow> int \<Rightarrow> int \<Rightarrow> ProposalState" where
  "contract_state quorum c block timestamp =
     (if cp_vetoed c then SVETOED
      else if cp_canceled c then SCANCELLED
      else if block \<le> cp_startBlock c then SPENDING
      else if block \<le> cp_endBlock c then SACTIVE
      else if \<not> passes quorum c then SDEFEATED
      else if cp_eta c = 0 then SSUCCEEDED
      else if cp_executed c then SEXECUTED
      else if cp_eta c + GRACE_PERIOD \<le> timestamp then SEXPIRED
      else SQUEUED)"

definition count_vote :: "int \<Rightarrow> int \<Rightarrow> cprop \<Rightarrow> cprop" where
  "count_vote support n c =
     (if support = 0 then c\<lparr>cp_against := cp_against c + n\<rparr>
      else if support = 1 then c\<lparr>cp_for := cp_for c + n\<rparr>
      else c\<lparr>cp_abstain := cp_abstain c + n\<rparr>)"

text \<open>\<open>lifecycle gt quorum i c b t s\<close>: the contract holds \<open>c\<close> for proposal \<open>i\<close> at block \<open>b\<close> and time \<open>t\<close>, and the
  subgraph, having seen its events, holds the store \<open>s\<close>.\<close>

inductive lifecycle :: "graph_ts \<Rightarrow> (cprop \<Rightarrow> int) \<Rightarrow> int \<Rightarrow> cprop \<Rightarrow> int \<Rightarrow> int \<Rightarrow> Store \<Rightarrow> bool"
  for gt quorum i where
  Propose: "pc_id ev = i \<Longrightarrow> sProposals s (int_to_dec i) = None
    \<Longrightarrow> block_number meta < pc_startBlock ev \<Longrightarrow> pc_startBlock ev \<le> pc_endBlock ev
    \<Longrightarrow> lifecycle gt quorum i
        \<lparr>cp_startBlock = pc_startBlock ev, cp_endBlock = pc_endBlock ev, cp_for = 0, cp_against = 0, cp_abstain = 0,
         cp_eta = 0, cp_executed = False, cp_canceled = False, cp_vetoed = False\<rparr>
        (block_number meta) (block_timestamp meta) (handleProposalCreatedWithRequirements gt meta ev s)"
| Time: "lifecycle gt quorum i c b t s \<Longrightarrow> b \<le> b' \<Longrightarrow> t \<le> t' \<Longrightarrow> lifecycle gt quorum i c b' t' s"
| Vote: "lifecycle gt quorum i c b t s \<Longrightarrow> contract_state quorum c b t = SACTIVE \<Longrightarrow> vc_proposalId ev = i
    \<Longrightarrow> vc_support ev \<in> {0, 1, 2} \<Longrightarrow> handleVoteCast gt meta ev s = Some s'
    \<Longrightarrow> lifecycle gt quorum i (count_vote (vc_support ev) (vc_votes ev) c) b t s'"
| Queue: "lifecycle gt quorum i c b t s \<Longrightarrow> contract_state quorum c b t = SSUCCEEDED \<Longrightarrow> 0 < eta
    \<Longrightarrow> lifecycle gt quorum i (c\<lparr>cp_eta := eta\<rparr>) b t (handleProposalQueued gt i eta s)"
| Execute: "lifecycle gt quorum i c b t s \<Longrightarrow> contract_state quorum c b t = SQUEUED
    \<Longrightarrow> lifecycle gt quorum i (c\<lparr>cp_executed := True\<rparr>) b t (handleProposalExecuted gt i s)"
| Cancel: "lifecycle gt quorum i c b t s \<Longrightarrow> contract_state quorum c b t \<noteq> SEXECUTED
    \<Longrightarrow> lifecycle gt quorum i (c\<lparr>cp_canceled := True\<rparr>) b t (handleProposalCanceled gt i s)"
| Veto: "lifecycle gt quorum i c b t s \<Longrightarrow> contract_state quorum c b t \<noteq> SEXECUTED
    \<Longrightarrow> lifecycle gt quorum i (c\<lparr>cp_vetoed := True\<rparr>) b t (handleProposalVetoed gt i s)"
| Other: "lifecycle gt quorum i c b t s \<Longrightarrow> sProposals s' (int_to_dec i) = sProposals s (int_to_dec i)
    \<Longrightarrow> lifecycle gt quorum i c b t s'"

text \<open>The quorum of a proposal depends on its votes only.\<close>

definition vote_quorum :: "(cprop \<Rightarrow> int) \<Rightarrow> bool" where
  "vote_quorum quorum \<longleftrightarrow> (\<forall>c eta e x v. quorum (c\<lparr>cp_eta := eta, cp_executed := e, cp_canceled := x, cp_vetoed := v\<rparr>) = quorum c)"

definition mirrors :: "(cprop \<Rightarrow> int) \<Rightarrow> cprop \<Rightarrow> int \<Rightarrow> Proposal \<Rightarrow> bool" where
  "mirrors quorum c b p \<longleftrightarrow>
     tally p = (cp_against c, cp_for c, cp_abstain c)
     \<and> pr_startBlock p = cp_startBlock c \<and> pr_endBlock p = cp_endBlock c
     \<and> cp_startBlock c \<le> cp_endBlock c
     \<and> (cp_eta c \<noteq> 0 \<longrightarrow> cp_endBlock c < b \<and> passes quorum c)
     \<and> (cp_executed c \<longrightarrow> cp_eta c \<noteq> 0)
     \<and> (if cp_vetoed c \<or> cp_canceled c
        then (cp_vetoed c \<and> pr_status p = VETOED) \<or> (cp_canceled c \<and> pr_status p = CANCELLED)
        else if cp_executed c then pr_status p = EXECUTED
        else if cp_eta c \<noteq> 0 then pr_status p = QUEUED \<and> pr_executionETA p = Some (cp_eta c)
        else pr_executionETA p = None
          \<and> (pr_status p = PENDING \<and> cp_for c = 0 \<and> cp_against c = 0 \<or> pr_status p = ACTIVE \<and> cp_startBlock c < b))"

lemma mirrors_state:
  assumes "mirrors quorum c b p" and "pr_quorumVotes p = quorum c" and "b \<noteq> 0"
  shows "getProposalState (Some b) (Some t) (entity_of p) = contract_state quorum c b t
    \<longleftrightarrow> \<not> (pr_status p = PENDING \<and> cp_endBlock c < b \<or> pr_status p = CANCELLED \<and> cp_vetoed c)"
proof -
  let ?e = "entity_of p"
  have votes: "pr_forVotes p = cp_for c" "pr_againstVotes p = cp_against c"
    and blocks: "pr_startBlock p = cp_startBlock c" "pr_endBlock p = cp_endBlock c" "cp_startBlock c \<le> cp_endBlock c"
    using assms(1) by (auto simp: mirrors_def tally_def)
  have active: "getProposalState (Some b) (Some t) ?e =
      (if cp_endBlock c < b then (if \<not> passes quorum c then SDEFEATED
         else if pr_executionETA p = None then SSUCCEEDED else SACTIVE) else SACTIVE)"
    if "pr_status p = ACTIVE"
    using that assms(2,3) votes blocks
    by (simp add: getProposalState_def entity_of_def no_block_def no_eta_def int_to_dec_nonempty passes_def Let_def)
  have pending: "getProposalState (Some b) (Some t) ?e = (if b \<le> cp_startBlock c then SPENDING else SACTIVE)"
    if "pr_status p = PENDING"
    using that assms(3) blocks by (simp add: getProposalState_def entity_of_def no_block_def Let_def)
  have queued: "getProposalState (Some b) (Some t) ?e = (if cp_eta c + GRACE_PERIOD \<le> t then SEXPIRED else SQUEUED)"
    if "pr_status p = QUEUED" "pr_executionETA p = Some (cp_eta c)"
    using that by (simp add: getProposalState_def entity_of_def no_eta_def int_to_dec_nonempty Let_def)
  have other: "getProposalState (Some b) (Some t) ?e = web_status (pr_status p)"
    if "pr_status p \<in> {CANCELLED, VETOED, EXECUTED}"
    using that by (auto simp: getProposalState_def entity_of_def Let_def)
  consider "cp_vetoed c \<or> cp_canceled c" | "\<not> (cp_vetoed c \<or> cp_canceled c)" "cp_executed c"
    | "\<not> (cp_vetoed c \<or> cp_canceled c)" "\<not> cp_executed c" "cp_eta c \<noteq> 0"
    | "\<not> (cp_vetoed c \<or> cp_canceled c)" "\<not> cp_executed c" "cp_eta c = 0" by blast
  then show ?thesis
  proof cases
    case 1
    then have "(cp_vetoed c \<and> pr_status p = VETOED) \<or> (cp_canceled c \<and> pr_status p = CANCELLED)"
      using assms(1) by (simp add: mirrors_def)
    then show ?thesis using other by (auto simp: contract_state_def)
  next
    case 2
    then have "pr_status p = EXECUTED" "cp_eta c \<noteq> 0" "cp_endBlock c < b" "passes quorum c"
      using assms(1) by (auto simp: mirrors_def)
    then show ?thesis using other 2 blocks by (simp add: contract_state_def)
  next
    case 3
    then have "pr_status p = QUEUED" "pr_executionETA p = Some (cp_eta c)" "cp_endBlock c < b" "passes quorum c"
      using assms(1) by (auto simp: mirrors_def)
    then show ?thesis using queued 3 blocks by (simp add: contract_state_def)
  next
    case 4
    then have e: "pr_executionETA p = None"
      and st: "pr_status p = PENDING \<and> cp_for c = 0 \<and> cp_against c = 0 \<or> pr_status p = ACTIVE \<and> cp_startBlock c < b"
      using assms(1) by (auto simp: mirrors_def)
    from st show ?thesis
    proof
      assume "pr_status p = PENDING \<and> cp_for c = 0 \<and> cp_against c = 0"
      then show ?thesis using pending 4 blocks by (auto simp: contract_state_def passes_def)
    next
      assume "pr_status p = ACTIVE \<and> cp_startBlock c < b"
      then show ?thesis using active 4 blocks e by (simp add: contract_state_def)
    qed
  qed
qed

definition stored :: "(cprop \<Rightarrow> int) \<Rightarrow> int \<Rightarrow> cprop \<Rightarrow> int \<Rightarrow> Store \<Rightarrow> bool" where
  "stored quorum i c b s \<longleftrightarrow>
     (case sProposals s (int_to_dec i) of None \<Rightarrow> False | Some p \<Rightarrow> mirrors quorum c b p)"

lemma stored_obtain:
  "stored quorum i c b s \<Longrightarrow> \<exists>p. sProposals s (int_to_dec i) = Some p \<and> mirrors quorum c b p"
  by (auto simp: stored_def split: option.splits)

lemma quorum_fields:
  assumes "vote_quorum quorum"
  shows "passes quorum (c\<lparr>cp_eta := eta\<rparr>) = passes quorum c" "passes quorum (c\<lparr>cp_executed := e\<rparr>) = passes quorum c"
    "passes quorum (c\<lparr>cp_canceled := e\<rparr>) = passes quorum c" "passes quorum (c\<lparr>cp_vetoed := e\<rparr>) = passes quorum c"
proof -
  have q: "quorum (c\<lparr>cp_eta := eta, cp_executed := e, cp_canceled := x, cp_vetoed := v\<rparr>) = quorum c" for c eta e x v
    using assms by (simp add: vote_quorum_def)
  have "quorum (c\<lparr>cp_eta := eta\<rparr>) = quorum c"
    using q[where c = c and eta = eta and e = "cp_executed c" and x = "cp_canceled c" and v = "cp_vetoed c"] by simp
  moreover have "quorum (c\<lparr>cp_executed := e\<rparr>) = quorum c"
    using q[where c = c and eta = "cp_eta c" and e = e and x = "cp_canceled c" and v = "cp_vetoed c"] by simp
  moreover have "quorum (c\<lparr>cp_canceled := e\<rparr>) = quorum c"
    using q[where c = c and eta = "cp_eta c" and e = "cp_executed c" and x = e and v = "cp_vetoed c"] by simp
  moreover have "quorum (c\<lparr>cp_vetoed := e\<rparr>) = quorum c"
    using q[where c = c and eta = "cp_eta c" and e = "cp_executed c" and x = "cp_canceled c" and v = e] by simp
  ultimately show "passes quorum (c\<lparr>cp_eta := eta\<rparr>) = passes quorum c" "passes quorum (c\<lparr>cp_executed := e\<rparr>) = passes quorum c"
    "passes quorum (c\<lparr>cp_canceled := e\<rparr>) = passes quorum c" "passes quorum (c\<lparr>cp_vetoed := e\<rparr>) = passes quorum c"
    by (simp_all add: passes_def)
qed

lemma contract_state_facts:
  "contract_state quorum c b t = SACTIVE \<Longrightarrow>
    \<not> cp_vetoed c \<and> \<not> cp_canceled c \<and> cp_startBlock c < b \<and> b \<le> cp_endBlock c"
  "contract_state quorum c b t = SSUCCEEDED \<Longrightarrow>
    \<not> cp_vetoed c \<and> \<not> cp_canceled c \<and> cp_endBlock c < b \<and> passes quorum c \<and> cp_eta c = 0"
  "contract_state quorum c b t = SQUEUED \<Longrightarrow>
    \<not> cp_vetoed c \<and> \<not> cp_canceled c \<and> cp_endBlock c < b \<and> passes quorum c \<and> cp_eta c \<noteq> 0 \<and> \<not> cp_executed c"
  by (auto simp: contract_state_def split: if_splits)

lemma mirrors_vote:
  assumes m: "mirrors quorum c b p" and a: "contract_state quorum c b t = SACTIVE" and u: "u \<in> {0, 1, 2}"
    and q: "tally q = tally (add_votes u n p)" "pr_status q = (if pr_status p = PENDING then ACTIVE else pr_status p)"
      "schedule q = schedule p"
  shows "mirrors quorum (count_vote u n c) b q"
proof -
  note f = contract_state_facts(1)[OF a]
  have e: "cp_eta c = 0" "\<not> cp_executed c" using m f by (auto simp: mirrors_def)
  have st: "pr_status p = PENDING \<or> pr_status p = ACTIVE" using m f e by (auto simp: mirrors_def)
  have fields: "cp_startBlock (count_vote u n c) = cp_startBlock c" "cp_endBlock (count_vote u n c) = cp_endBlock c"
    "cp_eta (count_vote u n c) = 0" "\<not> cp_executed (count_vote u n c)" "\<not> cp_vetoed (count_vote u n c)"
    "\<not> cp_canceled (count_vote u n c)"
    using e f by (simp_all add: count_vote_def)
  have t: "tally q = (cp_against (count_vote u n c), cp_for (count_vote u n c), cp_abstain (count_vote u n c))"
    using m q(1) u by (auto simp: mirrors_def tally_def add_votes_def count_vote_def)
  have "pr_executionETA p = None" using m f e by (simp add: mirrors_def)
  then show ?thesis
    using m q(2,3) f st fields t by (auto simp: mirrors_def schedule_def)
qed

lemma stored_handlers:
  assumes v: "vote_quorum quorum" and m: "stored quorum i c b s"
  shows "contract_state quorum c b t = SSUCCEEDED \<Longrightarrow> eta > 0
      \<Longrightarrow> stored quorum i (c\<lparr>cp_eta := eta\<rparr>) b (handleProposalQueued gt i eta s)"
    "contract_state quorum c b t = SQUEUED \<Longrightarrow> stored quorum i (c\<lparr>cp_executed := True\<rparr>) b (handleProposalExecuted gt i s)"
    "stored quorum i (c\<lparr>cp_canceled := True\<rparr>) b (handleProposalCanceled gt i s)"
    "stored quorum i (c\<lparr>cp_vetoed := True\<rparr>) b (handleProposalVetoed gt i s)"
proof -
  obtain p where p: "sProposals s (int_to_dec i) = Some p" "mirrors quorum c b p"
    using stored_obtain[OF m] by blast
  then have at: "proposal_at gt (int_to_dec i) s = p" by (simp add: proposal_at_def)
  note simps = stored_def status_handlers_proposals at mirrors_def tally_def quorum_fields[OF v]
  show "stored quorum i (c\<lparr>cp_eta := eta\<rparr>) b (handleProposalQueued gt i eta s)"
    if "contract_state quorum c b t = SSUCCEEDED" "eta > 0"
    using contract_state_facts(2)[OF that(1)] that(2) p(2) by (simp add: simps)
  show "stored quorum i (c\<lparr>cp_executed := True\<rparr>) b (handleProposalExecuted gt i s)"
    if "contract_state quorum c b t = SQUEUED"
    using contract_state_facts(3)[OF that] p(2) by (simp add: simps)
  show "stored quorum i (c\<lparr>cp_canceled := True\<rparr>) b (handleProposalCanceled gt i s)"
    "stored quorum i (c\<lparr>cp_vetoed := True\<rparr>) b (handleProposalVetoed gt i s)"
    using p(2) by (simp_all add: simps)
qed

lemma mirrors_time: "mirrors quorum c b p \<Longrightarrow> b \<le> b' \<Longrightarrow> mirrors quorum c b' p"
  by (auto simp: mirrors_def)

lemma lifecycle_stored:
  assumes "lifecycle gt quorum i c b t s" and v: "vote_quorum quorum"
    and fresh: "pr_executionETA (freshProposal gt (int_to_dec i)) = None"
  shows "stored quorum i c b s"
  using assms(1)
proof (induction rule: lifecycle.induct)
  case (Propose ev s meta)
  obtain q where q: "sProposals (handleProposalCreatedWithRequirements gt meta ev s) = (sProposals s)(int_to_dec i \<mapsto> q)"
    "tally q = (0, 0, 0)" "pr_status q = PENDING" "schedule q = (pc_startBlock ev, pc_endBlock ev, None)"
    using handleProposalCreated_proposals[of gt meta ev s] Propose fresh by (auto simp: proposal_at_def)
  then show ?case using Propose by (auto simp: stored_def mirrors_def schedule_def)
next
  case (Time c b t s b' t')
  then show ?case using mirrors_time by (auto simp: stored_def split: option.splits)
next
  case (Vote c b t s ev meta s')
  obtain p where p: "sProposals s (int_to_dec i) = Some p" "mirrors quorum c b p"
    using stored_obtain[OF Vote.IH] by blast
  have at: "proposal_at gt (int_to_dec i) s = p" using p by (simp add: proposal_at_def)
  obtain q where "sProposals s' = (sProposals s)(int_to_dec i \<mapsto> q)"
    "tally q = tally (add_votes (vc_support ev) (vc_votes ev) p)"
    "pr_status q = (if pr_status p = PENDING then ACTIVE else pr_status p)" "schedule q = schedule p"
    using handleVoteCast_proposals[OF Vote(5)] Vote(3) at by (auto simp: Let_def)
  then show ?case using mirrors_vote[OF p(2) Vote(2) Vote(4)] by (simp add: stored_def)
next
  case (Queue c b t s eta)
  then show ?case using stored_handlers(1)[OF v] by blast
next
  case (Execute c b t s)
  then show ?case using stored_handlers(2)[OF v] by blast
next
  case (Cancel c b t s)
  then show ?case using stored_handlers(3)[OF v] by blast
next
  case (Veto c b t s)
  then show ?case using stored_handlers(4)[OF v] by blast
next
  case (Other c b t s s')
  then show ?case by (simp add: stored_def)
qed


definition fixed_quorum :: "cprop \<Rightarrow> int" where
  "fixed_quorum c = 2"


section \<open>Titles\<close>

text \<open>The subgraph and the web app agree on the title of a proposal that starts with a level-one markdown heading
  and has no other hash sign: both take the text of the heading.\<close>

theorem titles_agree:
  assumes "t \<noteq> ''''" "CHR ''#'' \<notin> set t" "CHR 0x0A \<notin> set t"
    "\<not> contains_str t ''**''" "\<not> contains_str t ''__''" "\<not> is_space (hd t)" "\<not> is_space (last t)"
    "CHR ''#'' \<notin> set body"
  shows "or_untitled (removeMarkdownStyle (web_extractTitle (Some (''# '' @ t @ [CHR 0x0A] @ body))))
    = extractTitle (''# '' @ t @ [CHR 0x0A] @ body)"
proof -
  have "extractHashTitle (replicate 1 (CHR ''#'') @ '' '' @ t @ [CHR 0x0A] @ body) = Some t"
    using assms(1,3,6) by (intro hash_title) simp_all
  then have "web_extractTitle (Some (''# '' @ t @ [CHR 0x0A] @ body)) = Some t"
    by (simp add: web_extractTitle_def)
  then have "or_untitled (removeMarkdownStyle (web_extractTitle (Some (''# '' @ t @ [CHR 0x0A] @ body)))) = t"
    using assms(4,5) by (simp add: removeMarkdownStyle_def removeBold_def removeItalics_def or_untitled_def replaceAll_absent)
  then show ?thesis using extractTitle_markdown[OF assms] by simp
qed

theorem titles_agree_witness:
  "or_untitled (removeMarkdownStyle (web_extractTitle (Some (''# '' @ ''Fund it'' @ [CHR 0x0A] @ ''text''))))
    = extractTitle (''# '' @ ''Fund it'' @ [CHR 0x0A] @ ''text'')"
proof (rule titles_agree)
  show "\<not> contains_str ''Fund it'' ''**''" "\<not> contains_str ''Fund it'' ''__''" by code_simp+
qed (simp_all add: is_space_def)

end
