(* ===== verification/Bots_Data.thy ===== *)
theory Bots_Data
  imports Js_Strings
begin

text \<open>
  The data, texts and cache of \<^verbatim>\<open>packages/nouns-bots\<close>: \<^verbatim>\<open>types.ts\<close>, \<^verbatim>\<open>utils.ts\<close>, \<^verbatim>\<open>utils/proposals.ts\<close>,
  \<^verbatim>\<open>subgraph.ts\<close> (parsing), \<^verbatim>\<open>config.ts\<close> and \<^verbatim>\<open>cache.ts\<close>. Redis is a map from keys to values; the JSON text
  of a cached proposal is kept as the proposal itself, since \<open>JSON.parse\<close> inverts \<open>JSON.stringify\<close> on
  these records. ENS lookups and ether formatting are parameters. Characters outside ASCII are their
  UTF-8 bytes. Ids that the subgraph sends as decimal strings are integers; times are in seconds.
\<close>

section \<open>types.ts\<close>

datatype BotProposalStatus = BPENDING | BACTIVE | BCANCELLED | BVETOED | BQUEUED | BEXECUTED

fun status_string :: "BotProposalStatus \<Rightarrow> string" where
  "status_string BPENDING = ''PENDING''"
| "status_string BACTIVE = ''ACTIVE''"
| "status_string BCANCELLED = ''CANCELLED''"
| "status_string BVETOED = ''VETOED''"
| "status_string BQUEUED = ''QUEUED''"
| "status_string BEXECUTED = ''EXECUTED''"

datatype VoteDirection = AGAINST | FOR | ABSTAIN

record BotBid =
  bb_id :: string
  bb_amount :: string
  bb_bidder :: string

record AuctionBids =
  lab_id :: int
  lab_endTime :: int
  lab_bids :: "BotBid list"

record BotVote =
  bv_id :: string
  bv_voter :: string
  bv_votes :: int
  bv_supportDetailed :: VoteDirection
  bv_reason :: "string option"

record BotProposal =
  bp_id :: int
  bp_proposer :: string
  bp_description :: string
  bp_status :: BotProposalStatus
  bp_quorumVotes :: int
  bp_proposalThreshold :: int
  bp_startBlock :: int
  bp_endBlock :: int
  bp_executionETA :: int
  bp_votes :: "BotVote list"

section \<open>utils/proposals.ts\<close>

definition SECONDS_IN_DAY :: int where
  "SECONDS_IN_DAY = 60 * 60 * 24"

definition extractNewVotes :: "BotProposal \<Rightarrow> BotProposal \<Rightarrow> BotVote list" where
  "extractNewVotes proposalBefore proposalAfter =
     (let previousStateVoteIds = map bv_id (bp_votes proposalBefore)
      in filter (\<lambda>vote. bv_id vote \<notin> set previousStateVoteIds \<and> 0 < bv_votes vote) (bp_votes proposalAfter))"

text \<open>\<open>replace(/^#\s*/, '')\<close>\<close>

definition drop_hash :: "string \<Rightarrow> string" where
  "drop_hash s = (case s of c # cs \<Rightarrow> if c = CHR ''#'' then dropWhile is_space cs else s | [] \<Rightarrow> [])"

definition extractProposalTitle :: "BotProposal \<Rightarrow> string" where
  "extractProposalTitle proposal = drop_hash (hd (split_str [CHR 0x0A] (bp_description proposal)))"

definition isAtRiskOfExpiry :: "int \<Rightarrow> BotProposal \<Rightarrow> bool" where
  "isAtRiskOfExpiry now_ms proposal =
     (if bp_status proposal \<noteq> BQUEUED then False
      else let expiresAt = bp_executionETA proposal + SECONDS_IN_DAY * 14;
               currentTimestamp = now_ms div 1000;
               secondsUntilExpiry = expiresAt - currentTimestamp
           in 0 < secondsUntilExpiry \<and> secondsUntilExpiry \<le> SECONDS_IN_DAY * 2)"

section \<open>utils.ts\<close>

text \<open>\<open>substr(0, 4)\<close> and \<open>substr(length - 4)\<close>; a negative start counts from the end, at least from 0.\<close>

definition last4 :: "string \<Rightarrow> string" where
  "last4 s = (let n = int (length s) - 4 in drop (nat (if n < 0 then max 0 (int (length s) + n) else n)) s)"

definition shortAddress :: "string \<Rightarrow> string" where
  "shortAddress address = take 4 address @ ''...'' @ last4 address"

fun voteDirectionToText :: "VoteDirection \<Rightarrow> string" where
  "voteDirectionToText FOR = ''for''"
| "voteDirectionToText AGAINST = ''against''"
| "voteDirectionToText ABSTAIN = ''to abstain on''"

definition resolveEnsOrFormatAddress :: "(string \<Rightarrow> string option) \<Rightarrow> string \<Rightarrow> string" where
  "resolveEnsOrFormatAddress lookupAddress address =
     (case lookupAddress address of None \<Rightarrow> shortAddress address
      | Some name \<Rightarrow> if name = '''' then shortAddress address else name)"

definition newline :: string where
  "newline = [CHR 0x0A]"

definition wide_star :: string where
  "wide_star = [CHR 0xEF, CHR 0xBC, CHR 0x8A]"

definition formatAuctionStartedTweetText :: "int \<Rightarrow> string" where
  "formatAuctionStartedTweetText auctionId =
     wide_star @ ''Bleep Bloop Blop'' @ wide_star @ newline @ newline
       @ '' An auction has started for Noun #'' @ int_to_dec auctionId @ newline
       @ '' Learn more at https://unouns.wtf''"

definition formatBidMessageText ::
  "(string \<Rightarrow> string option) \<Rightarrow> (string \<Rightarrow> string) \<Rightarrow> int \<Rightarrow> BotBid \<Rightarrow> string" where
  "formatBidMessageText lookupAddress formatEther auctionId bid =
     ''UNoun '' @ int_to_dec auctionId @ '' has received a bid of '' @ [CHR 0xCE, CHR 0x9E]
       @ formatEther (bb_amount bid) @ '' from '' @ resolveEnsOrFormatAddress lookupAddress (bb_bidder bid)"

definition getAuctionEndingSoonTweetText :: string where
  "getAuctionEndingSoonTweetText = ''This auction is ending soon! Bid now at https://unouns.wtf''"

definition formatNewGovernanceProposalText :: "BotProposal \<Rightarrow> string" where
  "formatNewGovernanceProposalText proposal =
     ''A new NounsDAO proposal (#'' @ int_to_dec (bp_id proposal) @ '') has been created: '' @ extractProposalTitle proposal"

definition formatUpdatedGovernanceProposalStatusText :: "BotProposal \<Rightarrow> string" where
  "formatUpdatedGovernanceProposalStatusText proposal =
     ''Nouns DAO proposal #'' @ int_to_dec (bp_id proposal) @ '' ('' @ extractProposalTitle proposal
       @ '') has changed to status: '' @ to_lower (status_string (bp_status proposal))"

definition formatProposalAtRiskOfExpiryText :: "BotProposal \<Rightarrow> string" where
  "formatProposalAtRiskOfExpiryText proposal =
     ''Nouns DAO proposal #'' @ int_to_dec (bp_id proposal) @ '' ('' @ extractProposalTitle proposal
       @ '') expires in less than two days. Please execute it immediately!''"

definition formatNewGovernanceVoteText :: "(string \<Rightarrow> string option) \<Rightarrow> BotProposal \<Rightarrow> BotVote \<Rightarrow> string" where
  "formatNewGovernanceVoteText lookupAddress proposal vote =
     resolveEnsOrFormatAddress lookupAddress (bv_voter vote) @ '' has voted ''
       @ voteDirectionToText (bv_supportDetailed vote) @ '' Proposal #'' @ int_to_dec (bp_id proposal)
       @ '' ('' @ extractProposalTitle proposal @ '')''
       @ (case bv_reason vote of None \<Rightarrow> ''''
          | Some r \<Rightarrow> if r = '''' then '''' else newline @ newline @ ''Reason: '' @ r)"

definition buildCounterName :: "string \<Rightarrow> string" where
  "buildCounterName counterName = ''bots_'' @ counterName"

section \<open>cache.ts\<close>

datatype redis_value = RText string | RProposal BotProposal

type_synonym redis = "string \<rightharpoonup> redis_value"

definition getAuctionCacheKey :: string where "getAuctionCacheKey = ''NOUNS_AUCTION_CACHE''"
definition getBidCacheKey :: string where "getBidCacheKey = ''NOUNS_BID_CACHE''"
definition getReplyTweetIdKey :: string where "getReplyTweetIdKey = ''NOUNS_REPLY_TWEET_ID''"
definition getAuctionEndingSoonCacheKey :: string where
  "getAuctionEndingSoonCacheKey = ''NOUNS_AUCTION_ENDING_SOON_CACHE''"
definition getProposalCacheKeyPrefix :: string where "getProposalCacheKeyPrefix = ''NOUNS_PROPOSAL_''"
definition getProposalExpiryWarningSentCacheKeyPrefix :: string where
  "getProposalExpiryWarningSentCacheKeyPrefix = ''NOUNS_PROPOSAL_EXPIRY_WARNING_SENT_''"

definition redis_set :: "string \<Rightarrow> redis_value \<Rightarrow> redis \<Rightarrow> redis" where
  "redis_set k v r = r(k \<mapsto> v)"

definition number_or_0 :: "redis_value option \<Rightarrow> num" where
  "number_or_0 v = (case v of Some (RText s) \<Rightarrow> if s = '''' then Some 0 else js_number s | _ \<Rightarrow> Some 0)"

definition updateAuctionCache :: "int \<Rightarrow> redis \<Rightarrow> redis" where
  "updateAuctionCache i = redis_set getAuctionCacheKey (RText (int_to_dec i))"

definition getAuctionCache :: "redis \<Rightarrow> num" where
  "getAuctionCache r = number_or_0 (r getAuctionCacheKey)"

definition getBidCache :: "redis \<Rightarrow> string" where
  "getBidCache r = (case r getBidCacheKey of Some (RText s) \<Rightarrow> s | _ \<Rightarrow> '''')"

definition updateBidCache :: "string \<Rightarrow> redis \<Rightarrow> redis" where
  "updateBidCache i = redis_set getBidCacheKey (RText i)"

definition getAuctionReplyTweetId :: "redis \<Rightarrow> string option" where
  "getAuctionReplyTweetId r = (case r getReplyTweetIdKey of Some (RText s) \<Rightarrow> Some s | _ \<Rightarrow> None)"

definition updateAuctionReplyTweetId :: "string \<Rightarrow> redis \<Rightarrow> redis" where
  "updateAuctionReplyTweetId i = redis_set getReplyTweetIdKey (RText i)"

definition getAuctionEndingSoonCache :: "redis \<Rightarrow> num" where
  "getAuctionEndingSoonCache r = number_or_0 (r getAuctionEndingSoonCacheKey)"

definition updateAuctionEndingSoonCache :: "int \<Rightarrow> redis \<Rightarrow> redis" where
  "updateAuctionEndingSoonCache i = redis_set getAuctionEndingSoonCacheKey (RText (int_to_dec i))"

definition proposalCacheKey :: "int \<Rightarrow> string" where
  "proposalCacheKey i = getProposalCacheKeyPrefix @ int_to_dec i"

definition proposalExpiryWarningSentCacheKey :: "int \<Rightarrow> string" where
  "proposalExpiryWarningSentCacheKey i = getProposalExpiryWarningSentCacheKeyPrefix @ int_to_dec i"

definition updateProposalCache :: "BotProposal \<Rightarrow> redis \<Rightarrow> redis" where
  "updateProposalCache proposal = redis_set (proposalCacheKey (bp_id proposal)) (RProposal proposal)"

definition getProposalCache :: "int \<Rightarrow> redis \<Rightarrow> BotProposal option" where
  "getProposalCache i r = (case r (proposalCacheKey i) of Some (RProposal p) \<Rightarrow> Some p | _ \<Rightarrow> None)"

definition setProposalExpiryWarningSent :: "int \<Rightarrow> redis \<Rightarrow> redis" where
  "setProposalExpiryWarningSent i = redis_set (proposalExpiryWarningSentCacheKey i) (RText ''1'')"

definition hasWarnedOfExpiry :: "int \<Rightarrow> redis \<Rightarrow> bool" where
  "hasWarnedOfExpiry i r \<longleftrightarrow> r (proposalExpiryWarningSentCacheKey i) \<noteq> None"

section \<open>config.ts and the parsing of the subgraph's answer\<close>

record BotConfig =
  redisPort :: num
  redisHost :: string
  redisDb :: num
  redisPassword :: "string option"
  cfg_nounsSubgraph :: string
  twitterEnabled :: bool
  twitterAppKey :: string
  twitterAppSecret :: string
  twitterAccessToken :: string
  twitterAccessSecret :: string
  cfg_nounsTokenAddress :: string
  cfg_jsonRpcUrl :: string
  discordEnabled :: bool
  discordWebhookToken :: string
  discordWebhookId :: string
  discordPublicWebhookToken :: string
  discordPublicWebhookId :: string
  pinataEnabled :: bool
  pinataApiKey :: string
  pinataApiSecretKey :: string

definition env_or :: "(string \<rightharpoonup> string) \<Rightarrow> string \<Rightarrow> string \<Rightarrow> string" where
  "env_or env k d = (case env k of None \<Rightarrow> d | Some s \<Rightarrow> s)"

definition bots_config :: "(string \<rightharpoonup> string) \<Rightarrow> BotConfig" where
  "bots_config env =
     \<lparr>redisPort = js_Number (env_or env ''REDIS_PORT'' ''6379''),
      redisHost = env_or env ''REDIS_HOST'' ''localhost'',
      redisDb = js_Number (env_or env ''REDIS_DB'' ''0''),
      redisPassword = env ''REDIS_PASSWORD'',
      cfg_nounsSubgraph = env_or env ''NOUNS_SUBGRAPH_URL''
        ''https://api.thegraph.com/subgraphs/name/nounsdao/nouns-subgraph'',
      twitterEnabled = (env ''TWITTER_ENABLED'' = Some ''true''),
      twitterAppKey = env_or env ''TWITTER_APP_KEY'' '''',
      twitterAppSecret = env_or env ''TWITTER_APP_SECRET'' '''',
      twitterAccessToken = env_or env ''TWITTER_ACCESS_TOKEN'' '''',
      twitterAccessSecret = env_or env ''TWITTER_ACCESS_SECRET'' '''',
      cfg_nounsTokenAddress = env_or env ''NOUNS_TOKEN_ADDRESS'' ''0x9C8fF314C9Bc7F6e59A9d9225Fb22946427eDC03'',
      cfg_jsonRpcUrl = env_or env ''JSON_RPC_URL'' ''http://localhost:8545'',
      discordEnabled = (env ''DISCORD_ENABLED'' = Some ''true''),
      discordWebhookToken = env_or env ''DISCORD_WEBHOOK_TOKEN'' '''',
      discordWebhookId = env_or env ''DISCORD_WEBHOOK_ID'' '''',
      discordPublicWebhookToken = env_or env ''DISCORD_PUBLIC_WEBHOOK_TOKEN'' '''',
      discordPublicWebhookId = env_or env ''DISCORD_PUBLIC_WEBHOOK_ID'' '''',
      pinataEnabled = (env ''PINATA_ENABLED'' = Some ''true''),
      pinataApiKey = env_or env ''PINATA_API_KEY'' '''',
      pinataApiSecretKey = env_or env ''PINATA_API_SECRET_KEY'' ''''\<rparr>"

text \<open>The answer of the subgraph: numbers arrive as strings, a missing \<open>executionETA\<close> as \<open>null\<close>.\<close>

record RawVote =
  rv_id :: string
  rv_voter :: string
  rv_votes :: string
  rv_supportDetailed :: VoteDirection
  rv_reason :: "string option"

record RawProposal =
  rp_id :: string
  rp_proposer :: string
  rp_description :: string
  rp_status :: BotProposalStatus
  rp_quorumVotes :: string
  rp_proposalThreshold :: string
  rp_startBlock :: string
  rp_endBlock :: string
  rp_executionETA :: "string option"
  rp_votes :: "RawVote list"

text \<open>The subgraph's numbers are decimal numerals, on which \<open>Number\<close> is never \<open>NaN\<close>; \<open>Number(null)\<close> is 0.\<close>

definition Number_of :: "string \<Rightarrow> int" where
  "Number_of s = the (js_Number s)"

definition parseVote :: "RawVote \<Rightarrow> BotVote" where
  "parseVote v =
     \<lparr>bv_id = rv_id v, bv_voter = rv_voter v, bv_votes = Number_of (rv_votes v),
      bv_supportDetailed = rv_supportDetailed v, bv_reason = rv_reason v\<rparr>"

definition parseProposal :: "RawProposal \<Rightarrow> BotProposal" where
  "parseProposal p =
     \<lparr>bp_id = Number_of (rp_id p), bp_proposer = rp_proposer p, bp_description = rp_description p,
      bp_status = rp_status p, bp_quorumVotes = Number_of (rp_quorumVotes p),
      bp_proposalThreshold = Number_of (rp_proposalThreshold p),
      bp_startBlock = Number_of (rp_startBlock p), bp_endBlock = Number_of (rp_endBlock p),
      bp_executionETA = (case rp_executionETA p of None \<Rightarrow> 0 | Some s \<Rightarrow> Number_of s),
      bp_votes = map parseVote (rp_votes p)\<rparr>"

definition parseProposalSubgraphResponse :: "RawProposal list \<Rightarrow> BotProposal list" where
  "parseProposalSubgraphResponse ps = map parseProposal ps"

text \<open>\<open>res.auctions[0]\<close>: undefined when there is no auction.\<close>

definition getLastAuctionBids :: "AuctionBids list \<Rightarrow> AuctionBids option" where
  "getLastAuctionBids auctions = (case auctions of [] \<Rightarrow> None | a # _ \<Rightarrow> Some a)"

section \<open>Keys do not collide, and the cache reads back what was written\<close>

lemma int_to_dec_inject [simp]: "int_to_dec i = int_to_dec j \<longleftrightarrow> i = j"
  by (metis js_number_int_to_dec option.inject)

lemma int_to_dec_hd: "hd (int_to_dec i) = CHR ''-'' \<or> is_digit_in 10 (hd (int_to_dec i))"
proof (cases "i < 0")
  case True
  then show ?thesis by (simp add: int_to_dec_def int_to_base_def)
next
  case False
  then have "list_all (is_digit_in 10) (int_to_dec i)" by (intro int_to_base_neq_minus) simp
  then show ?thesis by (cases "int_to_dec i") auto
qed

lemma key_letters: "\<not> is_digit_in 10 (CHR ''E'')" "CHR ''E'' \<noteq> CHR ''-''"
  by (simp_all add: is_digit_in_def digit_val_def)

lemma keys_distinct:
  "proposalCacheKey i = proposalCacheKey j \<longleftrightarrow> i = j"
  "proposalExpiryWarningSentCacheKey i = proposalExpiryWarningSentCacheKey j \<longleftrightarrow> i = j"
  "proposalCacheKey i \<noteq> proposalExpiryWarningSentCacheKey j"
  "proposalExpiryWarningSentCacheKey j \<noteq> proposalCacheKey i"
proof -
  show "proposalCacheKey i = proposalCacheKey j \<longleftrightarrow> i = j"
    "proposalExpiryWarningSentCacheKey i = proposalExpiryWarningSentCacheKey j \<longleftrightarrow> i = j"
    by (simp_all add: proposalCacheKey_def proposalExpiryWarningSentCacheKey_def)
  show neq: "proposalCacheKey i \<noteq> proposalExpiryWarningSentCacheKey j"
  proof
    assume "proposalCacheKey i = proposalExpiryWarningSentCacheKey j"
    then have "int_to_dec i = ''EXPIRY_WARNING_SENT_'' @ int_to_dec j"
      by (simp add: proposalCacheKey_def proposalExpiryWarningSentCacheKey_def getProposalCacheKeyPrefix_def
          getProposalExpiryWarningSentCacheKeyPrefix_def)
    then have "hd (int_to_dec i) = CHR ''E''" by simp
    then show False using int_to_dec_hd[of i] key_letters by auto
  qed
  then show "proposalExpiryWarningSentCacheKey j \<noteq> proposalCacheKey i" by metis
qed

lemma fixed_keys_distinct:
  "distinct [getAuctionCacheKey, getBidCacheKey, getReplyTweetIdKey, getAuctionEndingSoonCacheKey]"
  "k \<in> {getAuctionCacheKey, getBidCacheKey, getReplyTweetIdKey, getAuctionEndingSoonCacheKey}
    \<Longrightarrow> k \<noteq> proposalCacheKey i \<and> k \<noteq> proposalExpiryWarningSentCacheKey i"
  by (auto simp: getAuctionCacheKey_def getBidCacheKey_def getReplyTweetIdKey_def getAuctionEndingSoonCacheKey_def
      proposalCacheKey_def proposalExpiryWarningSentCacheKey_def getProposalCacheKeyPrefix_def
      getProposalExpiryWarningSentCacheKeyPrefix_def)

named_theorems cache_simps "what the cache reads after it was written"

lemma cache_read_written [cache_simps]:
  "getAuctionCache (updateAuctionCache i r) = Some i"
  "getBidCache (updateBidCache b r) = b"
  "getAuctionEndingSoonCache (updateAuctionEndingSoonCache i r) = Some i"
  "getProposalCache j (updateProposalCache p r) = (if j = bp_id p then Some p else getProposalCache j r)"
  "hasWarnedOfExpiry j (setProposalExpiryWarningSent i r) = (j = i \<or> hasWarnedOfExpiry j r)"
  "hasWarnedOfExpiry j (updateProposalCache p r) = hasWarnedOfExpiry j r"
  "getProposalCache j (setProposalExpiryWarningSent i r) = getProposalCache j r"
  by (simp_all add: getAuctionCache_def updateAuctionCache_def getBidCache_def updateBidCache_def
      getAuctionEndingSoonCache_def updateAuctionEndingSoonCache_def getProposalCache_def updateProposalCache_def
      hasWarnedOfExpiry_def setProposalExpiryWarningSent_def redis_set_def number_or_0_def keys_distinct)

lemma cache_read_others [cache_simps]:
  "getAuctionCache (updateBidCache b r) = getAuctionCache r"
  "getAuctionCache (updateAuctionEndingSoonCache i r) = getAuctionCache r"
  "getAuctionCache (updateAuctionReplyTweetId t r) = getAuctionCache r"
  "getBidCache (updateAuctionCache i r) = getBidCache r"
  "getBidCache (updateAuctionEndingSoonCache i r) = getBidCache r"
  "getBidCache (updateAuctionReplyTweetId t r) = getBidCache r"
  "getAuctionEndingSoonCache (updateAuctionCache i r) = getAuctionEndingSoonCache r"
  "getAuctionEndingSoonCache (updateBidCache b r) = getAuctionEndingSoonCache r"
  "getAuctionEndingSoonCache (updateAuctionReplyTweetId t r) = getAuctionEndingSoonCache r"
  using fixed_keys_distinct(1)
  by (auto simp: getAuctionCache_def updateAuctionCache_def getBidCache_def updateBidCache_def
      getAuctionEndingSoonCache_def updateAuctionEndingSoonCache_def updateAuctionReplyTweetId_def redis_set_def)

section \<open>Votes and expiry\<close>

lemma extractNewVotes_iff:
  "v \<in> set (extractNewVotes before now) \<longleftrightarrow>
    v \<in> set (bp_votes now) \<and> 0 < bv_votes v \<and> (\<forall>u \<in> set (bp_votes before). bv_id u \<noteq> bv_id v)"
  by (auto simp: extractNewVotes_def image_iff)

lemma extractNewVotes_same: "extractNewVotes p p = []"
  by (auto simp: extractNewVotes_def filter_empty_conv)

lemma isAtRiskOfExpiry_iff:
  "isAtRiskOfExpiry now_ms p \<longleftrightarrow> bp_status p = BQUEUED
    \<and> bp_executionETA p + 12 * SECONDS_IN_DAY \<le> now_ms div 1000
    \<and> now_ms div 1000 < bp_executionETA p + 14 * SECONDS_IN_DAY"
  by (auto simp: isAtRiskOfExpiry_def Let_def)

lemma Number_of_dec [simp]: "Number_of (int_to_dec i) = i"
  by (simp add: Number_of_def js_Number_def)

section \<open>The picture of a Noun\<close>

text \<open>
  \<open>getNounPngBuffer\<close>: the token's URI by a contract call that may fail, the texts behind the two fixed prefixes decoded
  from base64, the field \<open>image\<close> of the JSON (\<open>None\<close> where parsing throws), and the picture drawn by sharp.
\<close>

definition getNounPngBuffer ::
    "(string \<Rightarrow> (string, string) result) \<Rightarrow> (string \<Rightarrow> string) \<Rightarrow> (string \<Rightarrow> string option) \<Rightarrow> (string \<Rightarrow> 'buf)
      \<Rightarrow> string \<Rightarrow> (string, 'buf option) result" where
  "getNounPngBuffer dataURI base64 json_image sharp tokenId =
     (case dataURI tokenId of
        Inl message \<Rightarrow> Inr None
      | Inr uri \<Rightarrow>
          (case json_image (base64 (drop 29 uri)) of
             None \<Rightarrow> Inl ''SyntaxError''
           | Some img \<Rightarrow> Inr (Some (sharp (base64 (drop 26 img))))))"

text \<open>The prefixes have the lengths that are cut off: what is drawn is the SVG of the token.\<close>

lemma noun_picture_drawn:
  assumes "dataURI i = Inr (''data:application/json;base64,'' @ encoded)" and "json_image (base64 encoded) = Some img"
    and "img = ''data:image/svg+xml;base64,'' @ svg64"
  shows "getNounPngBuffer dataURI base64 json_image sharp i = Inr (Some (sharp (base64 svg64)))"
  using assms by (simp add: getNounPngBuffer_def)

end
