(* ===== verification/Bots.thy ===== *)
theory Bots
  imports Bots_Data
begin

text \<open>
  The bots of \<^verbatim>\<open>packages/nouns-bots\<close>: the handlers of \<^verbatim>\<open>handlers/discord.ts\<close> and \<^verbatim>\<open>handlers/twitter.ts\<close> and
  the ticks of \<^verbatim>\<open>index.ts\<close>. What the bots send is appended to an outbox. A tick reads the cache, waits for
  the subgraph and then acts: \<open>snapshot\<close> and \<open>finish_auction\<close> are the two halves, so that ticks that overlap
  (\<open>setInterval\<close> does not wait) can be interleaved. The services that the bots call (the token contract's
  picture, ENS, ether formatting, Twitter's ids) are the parameter record \<open>bot_env\<close>, and are taken to answer.
\<close>

section \<open>Effects and services\<close>

record DiscordMessage =
  dm_title :: string
  dm_url :: string
  dm_description :: string
  dm_fields :: "(string \<times> string \<times> bool) list"
  dm_attachment :: "(string \<times> string) option"
  dm_image :: "string option"

datatype effect =
    Counter string
  | UploadMedia string
  | Tweet string string
  | Reply string string
  | Send string DiscordMessage

record bot_env =
  be_png :: "string \<Rightarrow> string option"
  be_lookupAddress :: "string \<Rightarrow> string option"
  be_formatEther :: "string \<Rightarrow> string"
  be_mediaId :: "string \<Rightarrow> string"
  be_tweetId :: "effect list \<Rightarrow> string"

record bots =
  cache :: redis
  outbox :: "effect list"

definition emit :: "effect list \<Rightarrow> bots \<Rightarrow> bots" where
  "emit es b = b\<lparr>outbox := outbox b @ es\<rparr>"

definition incrementCounter :: "string \<Rightarrow> bots \<Rightarrow> bots" where
  "incrementCounter counterName = emit [Counter counterName]"

definition on_cache :: "(redis \<Rightarrow> redis) \<Rightarrow> bots \<Rightarrow> bots" where
  "on_cache f b = b\<lparr>cache := f (cache b)\<rparr>"

section \<open>handlers/discord.ts\<close>

definition send_all :: "string list \<Rightarrow> DiscordMessage \<Rightarrow> bots \<Rightarrow> bots" where
  "send_all clients m = emit (map (\<lambda>c. Send c m) clients)"

definition plain_message :: "string \<Rightarrow> string \<Rightarrow> string \<Rightarrow> DiscordMessage" where
  "plain_message title url description =
     \<lparr>dm_title = title, dm_url = url, dm_description = description, dm_fields = [], dm_attachment = None, dm_image = None\<rparr>"

definition vote_url :: "int \<Rightarrow> string" where
  "vote_url i = ''https://unouns.wtf/vote/'' @ int_to_dec i"

definition new_auction_message :: "string \<Rightarrow> int \<Rightarrow> DiscordMessage" where
  "new_auction_message png auctionId =
     (let attachmentName = ''Auction-'' @ int_to_dec auctionId @ ''.png''
      in \<lparr>dm_title = ''New Auction Discovered'', dm_url = ''https://unouns.wtf'',
          dm_description = ''An auction has started for Noun #'' @ int_to_dec auctionId,
          dm_fields = [(''UNoun ID'', int_to_dec auctionId, True)],
          dm_attachment = Some (png, attachmentName),
          dm_image = Some (''attachment://'' @ attachmentName)\<rparr>)"

definition discord_handleNewAuction :: "bot_env \<Rightarrow> string list \<Rightarrow> int \<Rightarrow> bots \<Rightarrow> bots" where
  "discord_handleNewAuction env clients auctionId b =
     (case be_png env (int_to_dec auctionId) of
        None \<Rightarrow> b
      | Some png \<Rightarrow> send_all clients (new_auction_message png auctionId) b)"

definition discord_handleNewBid :: "bot_env \<Rightarrow> string list \<Rightarrow> int \<Rightarrow> BotBid \<Rightarrow> bots \<Rightarrow> bots" where
  "discord_handleNewBid env clients auctionId bid =
     send_all clients (plain_message ''New Bid Placed'' ''https://unouns.wtf''
       (formatBidMessageText (be_lookupAddress env) (be_formatEther env) auctionId bid))"

definition new_proposal_message :: "BotProposal \<Rightarrow> DiscordMessage" where
  "new_proposal_message proposal =
     plain_message ''New Governance Proposal'' (vote_url (bp_id proposal)) (formatNewGovernanceProposalText proposal)"

definition discord_handleNewProposal :: "string list \<Rightarrow> BotProposal \<Rightarrow> bots \<Rightarrow> bots" where
  "discord_handleNewProposal clients proposal = send_all clients (new_proposal_message proposal)"

definition status_message :: "BotProposal \<Rightarrow> DiscordMessage" where
  "status_message proposal =
     plain_message ''Proposal Status Update'' (vote_url (bp_id proposal)) (formatUpdatedGovernanceProposalStatusText proposal)"

definition discord_handleUpdatedProposalStatus :: "string list \<Rightarrow> BotProposal \<Rightarrow> bots \<Rightarrow> bots" where
  "discord_handleUpdatedProposalStatus clients proposal = send_all clients (status_message proposal)"

definition risk_message :: "BotProposal \<Rightarrow> DiscordMessage" where
  "risk_message proposal =
     plain_message ''Proposal At-Risk of Expiry'' (vote_url (bp_id proposal)) (formatProposalAtRiskOfExpiryText proposal)"

definition discord_handleProposalAtRiskOfExpiry :: "string list \<Rightarrow> BotProposal \<Rightarrow> bots \<Rightarrow> bots" where
  "discord_handleProposalAtRiskOfExpiry clients proposal = send_all clients (risk_message proposal)"

definition vote_message :: "bot_env \<Rightarrow> BotProposal \<Rightarrow> BotVote \<Rightarrow> DiscordMessage" where
  "vote_message env proposal vote =
     plain_message ''New Proposal Vote'' (vote_url (bp_id proposal))
       (formatNewGovernanceVoteText (be_lookupAddress env) proposal vote)"

definition discord_handleGovernanceVote :: "bot_env \<Rightarrow> string list \<Rightarrow> BotProposal \<Rightarrow> BotVote \<Rightarrow> bots \<Rightarrow> bots" where
  "discord_handleGovernanceVote env clients proposal vote = send_all clients (vote_message env proposal vote)"

section \<open>handlers/twitter.ts\<close>

definition store_tweet_id :: "bot_env \<Rightarrow> bots \<Rightarrow> bots" where
  "store_tweet_id env b = on_cache (updateAuctionReplyTweetId (be_tweetId env (outbox b))) b"

definition twitter_handleNewAuction :: "bot_env \<Rightarrow> int \<Rightarrow> bots \<Rightarrow> bots" where
  "twitter_handleNewAuction env auctionId b =
     (case be_png env (int_to_dec auctionId) of
        None \<Rightarrow> b
      | Some png \<Rightarrow> store_tweet_id env
          (emit [Tweet (formatAuctionStartedTweetText auctionId) (be_mediaId env png)]
            (emit [UploadMedia png] b)))"

definition twitter_reply :: "bot_env \<Rightarrow> string \<Rightarrow> bots \<Rightarrow> bots" where
  "twitter_reply env msg b =
     (case getAuctionReplyTweetId (cache b) of
        None \<Rightarrow> b
      | Some tweetReplyId \<Rightarrow>
          if tweetReplyId = '''' then b
          else store_tweet_id env (emit [Reply msg tweetReplyId] b))"

definition twitter_handleNewBid :: "bot_env \<Rightarrow> int \<Rightarrow> BotBid \<Rightarrow> bots \<Rightarrow> bots" where
  "twitter_handleNewBid env auctionId bid =
     twitter_reply env (formatBidMessageText (be_lookupAddress env) (be_formatEther env) auctionId bid)"

definition twitter_handleAuctionEndingSoon :: "bot_env \<Rightarrow> int \<Rightarrow> bots \<Rightarrow> bots" where
  "twitter_handleAuctionEndingSoon env auctionId = twitter_reply env getAuctionEndingSoonTweetText"

section \<open>index.ts: the handlers that the configuration enables\<close>

text \<open>Optional methods (\<open>h.handleX?.(...)\<close>) that a handler lacks do nothing.\<close>

datatype handler = TwitterHandler | DiscordHandler "string list"

definition internalDiscordWebhook :: string where "internalDiscordWebhook = ''internal''"
definition publicDiscordWebhook :: string where "publicDiscordWebhook = ''public''"

definition auctionLifecycleHandlers :: "BotConfig \<Rightarrow> handler list" where
  "auctionLifecycleHandlers config =
     (if twitterEnabled config then [TwitterHandler] else [])
     @ (if discordEnabled config then [DiscordHandler [internalDiscordWebhook, publicDiscordWebhook]] else [])"

fun handleNewAuction :: "bot_env \<Rightarrow> int \<Rightarrow> handler \<Rightarrow> bots \<Rightarrow> bots" where
  "handleNewAuction env i TwitterHandler = twitter_handleNewAuction env i"
| "handleNewAuction env i (DiscordHandler cs) = discord_handleNewAuction env cs i"

fun handleNewBid :: "bot_env \<Rightarrow> int \<Rightarrow> BotBid \<Rightarrow> handler \<Rightarrow> bots \<Rightarrow> bots" where
  "handleNewBid env i bid TwitterHandler = twitter_handleNewBid env i bid"
| "handleNewBid env i bid (DiscordHandler cs) = discord_handleNewBid env cs i bid"

fun handleAuctionEndingSoon :: "bot_env \<Rightarrow> int \<Rightarrow> handler \<Rightarrow> bots \<Rightarrow> bots" where
  "handleAuctionEndingSoon env i TwitterHandler = twitter_handleAuctionEndingSoon env i"
| "handleAuctionEndingSoon env i (DiscordHandler cs) = (\<lambda>b. b)"

fun handleNewProposal :: "BotProposal \<Rightarrow> handler \<Rightarrow> bots \<Rightarrow> bots" where
  "handleNewProposal p TwitterHandler = (\<lambda>b. b)"
| "handleNewProposal p (DiscordHandler cs) = discord_handleNewProposal cs p"

fun handleUpdatedProposalStatus :: "BotProposal \<Rightarrow> handler \<Rightarrow> bots \<Rightarrow> bots" where
  "handleUpdatedProposalStatus p TwitterHandler = (\<lambda>b. b)"
| "handleUpdatedProposalStatus p (DiscordHandler cs) = discord_handleUpdatedProposalStatus cs p"

fun handleProposalAtRiskOfExpiry :: "BotProposal \<Rightarrow> handler \<Rightarrow> bots \<Rightarrow> bots" where
  "handleProposalAtRiskOfExpiry p TwitterHandler = (\<lambda>b. b)"
| "handleProposalAtRiskOfExpiry p (DiscordHandler cs) = discord_handleProposalAtRiskOfExpiry cs p"

fun handleGovernanceVote :: "bot_env \<Rightarrow> BotProposal \<Rightarrow> BotVote \<Rightarrow> handler \<Rightarrow> bots \<Rightarrow> bots" where
  "handleGovernanceVote env p v TwitterHandler = (\<lambda>b. b)"
| "handleGovernanceVote env p v (DiscordHandler cs) = discord_handleGovernanceVote env cs p v"

text \<open>\<open>Promise.all(handlers.map(h => h.m(...)))\<close>: every handler runs; they share no state, so the order is
  that of the list.\<close>

definition all_handlers :: "(handler \<Rightarrow> bots \<Rightarrow> bots) \<Rightarrow> handler list \<Rightarrow> bots \<Rightarrow> bots" where
  "all_handlers f hs b = fold f hs b"

section \<open>index.ts: auctions\<close>

definition setupAuction :: "AuctionBids option \<Rightarrow> bots \<Rightarrow> bots" where
  "setupAuction answer b =
     (case answer of None \<Rightarrow> b | Some lastAuctionBids \<Rightarrow> on_cache (updateAuctionCache (lab_id lastAuctionBids)) b)"

record snapshot =
  cachedAuctionId :: num
  cachedBidId :: string
  cachedAuctionEndingSoon :: num

definition take_snapshot :: "bots \<Rightarrow> snapshot" where
  "take_snapshot b =
     \<lparr>cachedAuctionId = getAuctionCache (cache b), cachedBidId = getBidCache (cache b),
      cachedAuctionEndingSoon = getAuctionEndingSoonCache (cache b)\<rparr>"

definition discover_auction :: "bot_env \<Rightarrow> handler list \<Rightarrow> snapshot \<Rightarrow> AuctionBids \<Rightarrow> bots \<Rightarrow> bots" where
  "discover_auction env hs s lastBids b =
     incrementCounter (buildCounterName ''auction_process_last_auction'')
      (if num_lt (cachedAuctionId s) (Some (lab_id lastBids))
       then incrementCounter (buildCounterName ''auction_cache_updates'')
             (all_handlers (handleNewAuction env (lab_id lastBids)) hs
               (on_cache (updateAuctionCache (lab_id lastBids))
                 (incrementCounter (buildCounterName ''auctions_discovered'') b)))
       else b)"

definition discover_bid :: "bot_env \<Rightarrow> handler list \<Rightarrow> snapshot \<Rightarrow> AuctionBids \<Rightarrow> bots \<Rightarrow> bots" where
  "discover_bid env hs s lastBids b =
     (case lab_bids lastBids of
        [] \<Rightarrow> b
      | bid # _ \<Rightarrow>
          if cachedBidId s \<noteq> bb_id bid
          then all_handlers (handleNewBid env (lab_id lastBids) bid) hs (on_cache (updateBidCache (bb_id bid)) b)
          else b)"

definition warn_ending :: "bot_env \<Rightarrow> handler list \<Rightarrow> int \<Rightarrow> snapshot \<Rightarrow> AuctionBids \<Rightarrow> bots \<Rightarrow> bots" where
  "warn_ending env hs now_ms s lastBids b =
     (let currentTimestamp = toInt32 (now_ms div 1000);
          secondsUntilAuctionEnds = lab_endTime lastBids - currentTimestamp
      in if secondsUntilAuctionEnds < 20 * 60 \<and> num_lt (cachedAuctionEndingSoon s) (Some (lab_id lastBids))
         then all_handlers (handleAuctionEndingSoon env (lab_id lastBids)) hs
               (on_cache (updateAuctionEndingSoonCache (lab_id lastBids)) b)
         else b)"

text \<open>The part of the tick after the answer of the subgraph; without an auction it throws at \<open>.id\<close>.\<close>

definition finish_auction ::
  "bot_env \<Rightarrow> handler list \<Rightarrow> int \<Rightarrow> snapshot \<Rightarrow> AuctionBids option \<Rightarrow> bots \<Rightarrow> bots" where
  "finish_auction env hs now_ms s answer b =
     (case answer of
        None \<Rightarrow> b
      | Some lastBids \<Rightarrow> warn_ending env hs now_ms s lastBids (discover_bid env hs s lastBids (discover_auction env hs s lastBids b)))"

definition processAuctionTick ::
  "bot_env \<Rightarrow> handler list \<Rightarrow> int \<times> AuctionBids option \<Rightarrow> bots \<Rightarrow> bots" where
  "processAuctionTick env hs = (\<lambda>(now_ms, answer) b. finish_auction env hs now_ms (take_snapshot b) answer b)"

text \<open>
  Ticks that may overlap: a tick starts with its reads, and any started tick may finish later with the
  answer it receives.
\<close>

inductive tick_reach :: "bot_env \<Rightarrow> handler list \<Rightarrow> bots \<Rightarrow> bots \<times> snapshot list \<Rightarrow> bool"
  for env hs b0 where
  Setup: "tick_reach env hs b0 (b0, [])"
| Start: "tick_reach env hs b0 (b, ss) \<Longrightarrow> tick_reach env hs b0 (b, ss @ [take_snapshot b])"
| Finish: "tick_reach env hs b0 (b, ss @ s # ss')
    \<Longrightarrow> tick_reach env hs b0 (finish_auction env hs now_ms s answer b, ss @ ss')"

section \<open>index.ts: governance\<close>

definition setupGovernance :: "BotProposal list \<Rightarrow> bots \<Rightarrow> bots" where
  "setupGovernance proposals = fold (\<lambda>p. on_cache (updateProposalCache p)) proposals"

definition report_changes :: "bot_env \<Rightarrow> handler list \<Rightarrow> int \<Rightarrow> BotProposal \<Rightarrow> BotProposal \<Rightarrow> bots \<Rightarrow> bots" where
  "report_changes env hs now_ms cachedProposal proposal b =
     (let b1 = (if bp_status cachedProposal \<noteq> bp_status proposal
                then all_handlers (handleUpdatedProposalStatus proposal) hs b else b);
          b2 = fold (\<lambda>newVote. all_handlers (handleGovernanceVote env proposal newVote) hs)
                 (extractNewVotes cachedProposal proposal) b1
      in if isAtRiskOfExpiry now_ms proposal \<and> \<not> hasWarnedOfExpiry (bp_id proposal) (cache b2)
         then on_cache (setProposalExpiryWarningSent (bp_id proposal))
               (all_handlers (handleProposalAtRiskOfExpiry proposal) hs b2)
         else b2)"

definition process_proposal :: "bot_env \<Rightarrow> handler list \<Rightarrow> int \<Rightarrow> BotProposal \<Rightarrow> bots \<Rightarrow> bots" where
  "process_proposal env hs now_ms proposal b =
     on_cache (updateProposalCache proposal)
      (case getProposalCache (bp_id proposal) (cache b) of
         None \<Rightarrow> all_handlers (handleNewProposal proposal) hs b
       | Some cachedProposal \<Rightarrow> report_changes env hs now_ms cachedProposal proposal b)"

definition processGovernanceTick ::
  "bot_env \<Rightarrow> handler list \<Rightarrow> int \<times> BotProposal list \<Rightarrow> bots \<Rightarrow> bots" where
  "processGovernanceTick env hs = (\<lambda>(now_ms, proposals). fold (process_proposal env hs now_ms) proposals)"

section \<open>What a channel shows\<close>

fun message_to :: "string \<Rightarrow> effect \<Rightarrow> DiscordMessage option" where
  "message_to c (Send c' m) = (if c' = c then Some m else None)"
| "message_to c _ = None"

definition messages :: "string \<Rightarrow> bots \<Rightarrow> DiscordMessage list" where
  "messages c b = List.map_filter (message_to c) (outbox b)"

definition titled :: "string \<Rightarrow> DiscordMessage list \<Rightarrow> DiscordMessage list" where
  "titled t ms = filter (\<lambda>m. dm_title m = t) ms"

fun reply_text :: "effect \<Rightarrow> string option" where
  "reply_text (Reply msg t) = Some msg"
| "reply_text _ = None"

definition ending_replies :: "bots \<Rightarrow> string list" where
  "ending_replies b = filter (\<lambda>t. t = getAuctionEndingSoonTweetText) (List.map_filter reply_text (outbox b))"

named_theorems bot_simps "how the operations of the bots change the cache and the channels"

lemma map_filter_append [simp]: "List.map_filter f (xs @ ys) = List.map_filter f xs @ List.map_filter f ys"
  by (simp add: List.map_filter_def)

lemma titled_append [simp]: "titled t (xs @ ys) = titled t xs @ titled t ys"
  by (simp add: titled_def)

lemma titled_simps [simp]:
  "titled t [] = []"
  "titled t (m # ms) = (if dm_title m = t then m # titled t ms else titled t ms)"
  by (simp_all add: titled_def)

lemma titles [simp]:
  "dm_title (plain_message t u d) = t"
  "dm_url (plain_message t u d) = u"
  "dm_title (new_auction_message png i) = ''New Auction Discovered''"
  "dm_title (new_proposal_message p) = ''New Governance Proposal''" "dm_url (new_proposal_message p) = vote_url (bp_id p)"
  "dm_title (status_message p) = ''Proposal Status Update''" "dm_url (status_message p) = vote_url (bp_id p)"
  "dm_title (risk_message p) = ''Proposal At-Risk of Expiry''" "dm_url (risk_message p) = vote_url (bp_id p)"
  "dm_title (vote_message env p v) = ''New Proposal Vote''" "dm_url (vote_message env p v) = vote_url (bp_id p)"
  by (simp_all add: plain_message_def new_auction_message_def new_proposal_message_def status_message_def
      risk_message_def vote_message_def Let_def)

lemma vote_url_iff [simp]: "vote_url i = vote_url j \<longleftrightarrow> i = j"
  by (simp add: vote_url_def)

lemma emit_simps [bot_simps]:
  "cache (emit es b) = cache b"
  "messages c (emit es b) = messages c b @ List.map_filter (message_to c) es"
  "ending_replies (emit es b) = ending_replies b
     @ filter (\<lambda>t. t = getAuctionEndingSoonTweetText) (List.map_filter reply_text es)"
  by (simp_all add: emit_def messages_def ending_replies_def)

lemma on_cache_simps [bot_simps]:
  "cache (on_cache f b) = f (cache b)"
  "messages c (on_cache f b) = messages c b"
  "ending_replies (on_cache f b) = ending_replies b"
  by (simp_all add: on_cache_def messages_def ending_replies_def)

lemma counter_simps [bot_simps]:
  "cache (incrementCounter k b) = cache b"
  "messages c (incrementCounter k b) = messages c b"
  "ending_replies (incrementCounter k b) = ending_replies b"
  by (simp_all add: incrementCounter_def bot_simps List.map_filter_def)

lemma map_filter_sends:
  "distinct cs \<Longrightarrow> List.map_filter (message_to c) (map (\<lambda>d. Send d m) cs) = (if c \<in> set cs then [m] else [])"
  "List.map_filter reply_text (map (\<lambda>d. Send d m) cs) = []"
  by (induction cs) (auto simp: List.map_filter_simps)

lemma send_all_simps [bot_simps]:
  "cache (send_all cs m b) = cache b"
  "ending_replies (send_all cs m b) = ending_replies b"
  "distinct cs \<Longrightarrow> messages c (send_all cs m b) = messages c b @ (if c \<in> set cs then [m] else [])"
  by (simp_all add: send_all_def bot_simps map_filter_sends)

lemma twitter_messages [bot_simps]:
  "messages c (store_tweet_id env b) = messages c b"
  "messages c (twitter_handleNewAuction env i b) = messages c b"
  "messages c (twitter_reply env t b) = messages c b"
  by (simp_all add: store_tweet_id_def twitter_handleNewAuction_def twitter_reply_def bot_simps List.map_filter_def
      split: option.splits)

lemma twitter_auction_cache [bot_simps]:
  "getAuctionCache (cache (store_tweet_id env b)) = getAuctionCache (cache b)"
  "getAuctionCache (cache (twitter_handleNewAuction env i b)) = getAuctionCache (cache b)"
  "getAuctionCache (cache (twitter_reply env t b)) = getAuctionCache (cache b)"
  "getAuctionEndingSoonCache (cache (store_tweet_id env b)) = getAuctionEndingSoonCache (cache b)"
  "getAuctionEndingSoonCache (cache (twitter_handleNewAuction env i b)) = getAuctionEndingSoonCache (cache b)"
  "getAuctionEndingSoonCache (cache (twitter_reply env t b)) = getAuctionEndingSoonCache (cache b)"
  by (simp_all add: store_tweet_id_def twitter_handleNewAuction_def twitter_reply_def bot_simps cache_simps
      split: option.splits)

definition webhooks :: "string set" where
  "webhooks = {internalDiscordWebhook, publicDiscordWebhook}"

definition auction_messages :: "bot_env \<Rightarrow> int \<Rightarrow> DiscordMessage list" where
  "auction_messages env i = (case be_png env (int_to_dec i) of None \<Rightarrow> [] | Some png \<Rightarrow> [new_auction_message png i])"

lemma webhooks_distinct [simp]:
  "distinct [internalDiscordWebhook, publicDiscordWebhook]"
  "c \<in> webhooks \<Longrightarrow> c \<in> set [internalDiscordWebhook, publicDiscordWebhook]"
  by (auto simp: internalDiscordWebhook_def publicDiscordWebhook_def webhooks_def)

lemma all_handlers_config:
  "all_handlers f (auctionLifecycleHandlers cfg) b =
     (let b1 = (if twitterEnabled cfg then f TwitterHandler b else b)
      in if discordEnabled cfg then f (DiscordHandler [internalDiscordWebhook, publicDiscordWebhook]) b1 else b1)"
  by (simp add: all_handlers_def auctionLifecycleHandlers_def)

lemma discord_messages:
  assumes "c \<in> webhooks" and "cs = [internalDiscordWebhook, publicDiscordWebhook]"
  shows "messages c (discord_handleNewAuction env cs i b) = messages c b @ auction_messages env i"
    "messages c (discord_handleNewBid env cs i bid b) = messages c b
       @ [plain_message ''New Bid Placed'' ''https://unouns.wtf''
            (formatBidMessageText (be_lookupAddress env) (be_formatEther env) i bid)]"
    "messages c (discord_handleNewProposal cs p b) = messages c b @ [new_proposal_message p]"
    "messages c (discord_handleUpdatedProposalStatus cs p b) = messages c b @ [status_message p]"
    "messages c (discord_handleProposalAtRiskOfExpiry cs p b) = messages c b @ [risk_message p]"
    "messages c (discord_handleGovernanceVote env cs p v b) = messages c b @ [vote_message env p v]"
proof -
  have "distinct cs" "c \<in> set cs" using assms webhooks_distinct by simp_all
  then show "messages c (discord_handleNewAuction env cs i b) = messages c b @ auction_messages env i"
    "messages c (discord_handleNewBid env cs i bid b) = messages c b
       @ [plain_message ''New Bid Placed'' ''https://unouns.wtf''
            (formatBidMessageText (be_lookupAddress env) (be_formatEther env) i bid)]"
    "messages c (discord_handleNewProposal cs p b) = messages c b @ [new_proposal_message p]"
    "messages c (discord_handleUpdatedProposalStatus cs p b) = messages c b @ [status_message p]"
    "messages c (discord_handleProposalAtRiskOfExpiry cs p b) = messages c b @ [risk_message p]"
    "messages c (discord_handleGovernanceVote env cs p v b) = messages c b @ [vote_message env p v]"
    by (simp_all add: discord_handleNewAuction_def discord_handleNewBid_def discord_handleNewProposal_def
        discord_handleUpdatedProposalStatus_def discord_handleProposalAtRiskOfExpiry_def
        discord_handleGovernanceVote_def auction_messages_def bot_simps split: option.splits)
qed

lemma discord_cache [bot_simps]:
  "cache (discord_handleNewAuction env cs i b) = cache b"
  "cache (discord_handleNewBid env cs i bid b) = cache b"
  "cache (discord_handleNewProposal cs p b) = cache b"
  "cache (discord_handleUpdatedProposalStatus cs p b) = cache b"
  "cache (discord_handleProposalAtRiskOfExpiry cs p b) = cache b"
  "cache (discord_handleGovernanceVote env cs p v b) = cache b"
  by (simp_all add: discord_handleNewAuction_def discord_handleNewBid_def discord_handleNewProposal_def
      discord_handleUpdatedProposalStatus_def discord_handleProposalAtRiskOfExpiry_def
      discord_handleGovernanceVote_def bot_simps split: option.splits)

lemma handlers_messages [bot_simps]:
  assumes "c \<in> webhooks"
  shows "messages c (all_handlers (handleNewAuction env i) (auctionLifecycleHandlers cfg) b)
           = messages c b @ (if discordEnabled cfg then auction_messages env i else [])"
    "messages c (all_handlers (handleNewBid env i bid) (auctionLifecycleHandlers cfg) b) = messages c b
       @ (if discordEnabled cfg then [plain_message ''New Bid Placed'' ''https://unouns.wtf''
            (formatBidMessageText (be_lookupAddress env) (be_formatEther env) i bid)] else [])"
    "messages c (all_handlers (handleAuctionEndingSoon env i) (auctionLifecycleHandlers cfg) b) = messages c b"
    "messages c (all_handlers (handleNewProposal p) (auctionLifecycleHandlers cfg) b)
       = messages c b @ (if discordEnabled cfg then [new_proposal_message p] else [])"
    "messages c (all_handlers (handleUpdatedProposalStatus p) (auctionLifecycleHandlers cfg) b)
       = messages c b @ (if discordEnabled cfg then [status_message p] else [])"
    "messages c (all_handlers (handleProposalAtRiskOfExpiry p) (auctionLifecycleHandlers cfg) b)
       = messages c b @ (if discordEnabled cfg then [risk_message p] else [])"
    "messages c (all_handlers (handleGovernanceVote env p v) (auctionLifecycleHandlers cfg) b)
       = messages c b @ (if discordEnabled cfg then [vote_message env p v] else [])"
  using assms
  by (simp_all add: all_handlers_config discord_messages bot_simps twitter_handleNewBid_def
      twitter_handleAuctionEndingSoon_def Let_def)

lemma handlers_auction_cache [bot_simps]:
  "getAuctionCache (cache (all_handlers (handleNewAuction env i) hs b)) = getAuctionCache (cache b)"
  "getAuctionCache (cache (all_handlers (handleNewBid env i bid) hs b)) = getAuctionCache (cache b)"
  "getAuctionCache (cache (all_handlers (handleAuctionEndingSoon env i) hs b)) = getAuctionCache (cache b)"
  "getAuctionEndingSoonCache (cache (all_handlers (handleNewAuction env i) hs b)) = getAuctionEndingSoonCache (cache b)"
  "getAuctionEndingSoonCache (cache (all_handlers (handleNewBid env i bid) hs b)) = getAuctionEndingSoonCache (cache b)"
  "getAuctionEndingSoonCache (cache (all_handlers (handleAuctionEndingSoon env i) hs b)) = getAuctionEndingSoonCache (cache b)"
proof -
  have fold_inv: "g (fold f hs b) = g b" if "\<And>h b. g (f h b) = g b" for g :: "bots \<Rightarrow> num" and f and hs :: "handler list" and b
    by (induction hs arbitrary: b) (simp_all add: that)
  have h: "getAuctionCache (cache (handleNewAuction env i h b)) = getAuctionCache (cache b)"
    "getAuctionCache (cache (handleNewBid env i bid h b)) = getAuctionCache (cache b)"
    "getAuctionCache (cache (handleAuctionEndingSoon env i h b)) = getAuctionCache (cache b)"
    "getAuctionEndingSoonCache (cache (handleNewAuction env i h b)) = getAuctionEndingSoonCache (cache b)"
    "getAuctionEndingSoonCache (cache (handleNewBid env i bid h b)) = getAuctionEndingSoonCache (cache b)"
    "getAuctionEndingSoonCache (cache (handleAuctionEndingSoon env i h b)) = getAuctionEndingSoonCache (cache b)" for h b
    by (cases h; simp add: bot_simps twitter_handleNewBid_def twitter_handleAuctionEndingSoon_def)+
  show "getAuctionCache (cache (all_handlers (handleNewAuction env i) hs b)) = getAuctionCache (cache b)"
    unfolding all_handlers_def by (rule fold_inv) (rule h)
  show "getAuctionCache (cache (all_handlers (handleNewBid env i bid) hs b)) = getAuctionCache (cache b)"
    unfolding all_handlers_def by (rule fold_inv) (rule h)
  show "getAuctionCache (cache (all_handlers (handleAuctionEndingSoon env i) hs b)) = getAuctionCache (cache b)"
    unfolding all_handlers_def by (rule fold_inv) (rule h)
  show "getAuctionEndingSoonCache (cache (all_handlers (handleNewAuction env i) hs b)) = getAuctionEndingSoonCache (cache b)"
    unfolding all_handlers_def by (rule fold_inv) (rule h)
  show "getAuctionEndingSoonCache (cache (all_handlers (handleNewBid env i bid) hs b)) = getAuctionEndingSoonCache (cache b)"
    unfolding all_handlers_def by (rule fold_inv) (rule h)
  show "getAuctionEndingSoonCache (cache (all_handlers (handleAuctionEndingSoon env i) hs b)) = getAuctionEndingSoonCache (cache b)"
    unfolding all_handlers_def by (rule fold_inv) (rule h)
qed

section \<open>A watermark: announcing each id once\<close>

text \<open>
  The interface between the ticks and the two id caches. A tick offers an id (or none); the laws say that the
  cache takes it exactly if it is above the cached one, and that exactly then it is shown.
\<close>

fun records :: "int \<Rightarrow> int list \<Rightarrow> int list" where
  "records c [] = []"
| "records c (i # is) = (if c < i then i # records i is else records c is)"

lemma records_above: "i \<in> set (records c is) \<Longrightarrow> c < i"
  by (induction "is" arbitrary: c) (fastforce split: if_splits)+

lemma records_sorted: "sorted_wrt (<) (records c is)"
  by (induction "is" arbitrary: c) (auto dest: records_above)

lemma records_distinct: "distinct (records c is)"
  using records_sorted by (metis strict_sorted_iff)

lemma records_subset: "set (records c is) \<subseteq> set is"
  by (induction c "is" rule: records.induct) auto

lemma records_complete: "i \<in> set is \<Longrightarrow> i \<notin> set (records c is) \<Longrightarrow> i \<le> c \<or> (\<exists>j \<in> set (records c is). i < j)"
proof (induction "is" arbitrary: c)
  case (Cons k ks)
  show ?case
  proof (cases "c < k")
    case True
    then have "i \<noteq> k" "i \<in> set ks" "i \<notin> set (records k ks)" using Cons.prems by auto
    then show ?thesis using Cons.IH[of k] True by force
  next
    case False
    then show ?thesis using Cons by (cases "i = k") auto
  qed
qed simp

locale watermark =
  fixes tick :: "'e \<Rightarrow> 's \<Rightarrow> 's"
    and offer :: "'e \<Rightarrow> int option"
    and mark :: "'s \<Rightarrow> num"
    and shown :: "'s \<Rightarrow> 'o list"
    and show_of :: "int \<Rightarrow> 'o list"
    and ok :: "'s \<Rightarrow> bool"
  assumes ok_tick: "ok s \<Longrightarrow> ok (tick e s)"
    and tick_none: "offer e = None \<Longrightarrow> ok s \<Longrightarrow> mark (tick e s) = mark s \<and> shown (tick e s) = shown s"
    and tick_below: "offer e = Some i \<Longrightarrow> \<not> num_lt (mark s) (Some i) \<Longrightarrow> ok s \<Longrightarrow> mark (tick e s) = mark s \<and> shown (tick e s) = shown s"
    and tick_above: "offer e = Some i \<Longrightarrow> num_lt (mark s) (Some i) \<Longrightarrow> ok s
      \<Longrightarrow> mark (tick e s) = Some i \<and> shown (tick e s) = shown s @ show_of i"
begin

lemma run_records:
  assumes "ok s" and "mark s = Some c"
  shows "shown (fold tick es s) = shown s @ concat (map show_of (records c (List.map_filter offer es)))
    \<and> mark (fold tick es s) = Some (fold max (List.map_filter offer es) c)
    \<and> ok (fold tick es s)"
  using assms
proof (induction es arbitrary: s c)
  case (Cons e es)
  note okt = ok_tick[OF Cons.prems(1), of e]
  show ?case
  proof (cases "offer e")
    case None
    then show ?thesis using Cons.IH[OF okt] tick_none[of e s] Cons.prems by (simp add: List.map_filter_simps)
  next
    case (Some i)
    show ?thesis
    proof (cases "c < i")
      case True
      then have "mark (tick e s) = Some i \<and> shown (tick e s) = shown s @ show_of i"
        using tick_above[OF Some _ Cons.prems(1)] Cons.prems by simp
      then show ?thesis using Cons.IH[OF okt, of i] Some True by (simp add: List.map_filter_simps max_def)
    next
      case False
      then have "mark (tick e s) = mark s \<and> shown (tick e s) = shown s"
        using tick_below[OF Some] Cons.prems by simp
      then show ?thesis
        using Cons.IH[OF okt, of c] Some False Cons.prems by (simp add: List.map_filter_simps max_def)
    qed
  qed
qed (simp add: List.map_filter_simps)

end

section \<open>The auction announcements\<close>

definition offered_auction :: "int \<times> AuctionBids option \<Rightarrow> int option" where
  "offered_auction e = map_option lab_id (snd e)"

lemma discover_simps [bot_simps]:
  "getAuctionCache (cache (discover_auction env hs s lastBids b)) =
     (if num_lt (cachedAuctionId s) (Some (lab_id lastBids)) then Some (lab_id lastBids) else getAuctionCache (cache b))"
  "getAuctionEndingSoonCache (cache (discover_auction env hs s lastBids b)) = getAuctionEndingSoonCache (cache b)"
  "getAuctionCache (cache (discover_bid env hs s lastBids b)) = getAuctionCache (cache b)"
  "getAuctionEndingSoonCache (cache (discover_bid env hs s lastBids b)) = getAuctionEndingSoonCache (cache b)"
  "getAuctionCache (cache (warn_ending env hs now_ms s lastBids b)) = getAuctionCache (cache b)"
  by (simp_all add: discover_auction_def discover_bid_def warn_ending_def bot_simps cache_simps Let_def split: list.splits)

lemma auction_messages_titled [simp]: "titled ''New Auction Discovered'' (auction_messages env i) = auction_messages env i"
  by (simp add: auction_messages_def split: option.splits)

lemma tick_auction_messages:
  assumes "c \<in> webhooks"
  shows "titled ''New Auction Discovered'' (messages c (discover_auction env (auctionLifecycleHandlers cfg) s lastBids b)) =
      titled ''New Auction Discovered'' (messages c b)
        @ (if num_lt (cachedAuctionId s) (Some (lab_id lastBids)) \<and> discordEnabled cfg
           then auction_messages env (lab_id lastBids) else [])"
    "titled ''New Auction Discovered'' (messages c (discover_bid env (auctionLifecycleHandlers cfg) s lastBids b)) =
      titled ''New Auction Discovered'' (messages c b)"
    "titled ''New Auction Discovered'' (messages c (warn_ending env (auctionLifecycleHandlers cfg) now_ms s lastBids b)) =
      titled ''New Auction Discovered'' (messages c b)"
  using assms
  by (simp_all add: discover_auction_def discover_bid_def warn_ending_def bot_simps Let_def split: list.splits)

interpretation auction_mark: watermark "processAuctionTick env (auctionLifecycleHandlers cfg)" offered_auction
  "\<lambda>b. getAuctionCache (cache b)"
  "\<lambda>b. if c \<in> webhooks then titled ''New Auction Discovered'' (messages c b) else []"
  "\<lambda>i. if c \<in> webhooks \<and> discordEnabled cfg then auction_messages env i else []" "\<lambda>_. True"
  for env cfg c
  by unfold_locales
    (auto simp: processAuctionTick_def finish_auction_def offered_auction_def tick_auction_messages
      bot_simps take_snapshot_def split: option.splits)

text \<open>C10. Ticks that do not overlap post each auction at most once: whatever the subgraph answers, each Discord
  webhook gets one ``New Auction Discovered'' message for every answered auction above all earlier ones (if its
  picture can be fetched), in increasing order of ids, and the cache ends at the highest id seen.\<close>

theorem auctions_announced_once:
  assumes "discordEnabled cfg" and "c \<in> webhooks" and "getAuctionCache (cache b) = Some k"
    and "b' = fold (processAuctionTick env (auctionLifecycleHandlers cfg)) ticks b"
  shows "titled ''New Auction Discovered'' (messages c b') =
      titled ''New Auction Discovered'' (messages c b)
        @ concat (map (auction_messages env) (records k (List.map_filter offered_auction ticks)))
    \<and> sorted_wrt (<) (records k (List.map_filter offered_auction ticks))
    \<and> getAuctionCache (cache b') = Some (fold max (List.map_filter offered_auction ticks) k)"
  using auction_mark.run_records[of b k c env cfg ticks] assms records_sorted by simp

section \<open>The ending-soon replies\<close>

definition has_thread :: "bot_env \<Rightarrow> bots \<Rightarrow> bool" where
  "has_thread env b \<longleftrightarrow> (\<forall>es. be_tweetId env es \<noteq> '''')
     \<and> (case getAuctionReplyTweetId (cache b) of None \<Rightarrow> False | Some t \<Rightarrow> t \<noteq> '''')"

definition offered_ending :: "int \<times> AuctionBids option \<Rightarrow> int option" where
  "offered_ending e =
     (case snd e of None \<Rightarrow> None
      | Some a \<Rightarrow> if lab_endTime a - toInt32 (fst e div 1000) < 20 * 60 then Some (lab_id a) else None)"

lemma reply_id_simps [bot_simps]:
  "getAuctionReplyTweetId (updateAuctionReplyTweetId t r) = Some t"
  "getAuctionReplyTweetId (updateAuctionCache i r) = getAuctionReplyTweetId r"
  "getAuctionReplyTweetId (updateBidCache k r) = getAuctionReplyTweetId r"
  "getAuctionReplyTweetId (updateAuctionEndingSoonCache i r) = getAuctionReplyTweetId r"
  using fixed_keys_distinct(1)
  by (auto simp: getAuctionReplyTweetId_def updateAuctionReplyTweetId_def updateAuctionCache_def
      updateBidCache_def updateAuctionEndingSoonCache_def redis_set_def)

lemma has_thread_cache:
  "has_thread env (on_cache (updateAuctionCache i) b) = has_thread env b"
  "has_thread env (on_cache (updateBidCache k) b) = has_thread env b"
  "has_thread env (on_cache (updateAuctionEndingSoonCache i) b) = has_thread env b"
  "has_thread env (emit es b) = has_thread env b"
  "has_thread env (incrementCounter n b) = has_thread env b"
  "has_thread env b \<Longrightarrow> has_thread env (store_tweet_id env b)"
  by (simp_all add: has_thread_def bot_simps store_tweet_id_def incrementCounter_def)

lemma has_thread_twitter:
  assumes "has_thread env b"
  shows "has_thread env (twitter_handleNewAuction env i b)" "has_thread env (twitter_reply env t b)"
    "ending_replies (twitter_handleNewAuction env i b) = ending_replies b"
    "ending_replies (twitter_reply env t b)
      = ending_replies b @ (if t = getAuctionEndingSoonTweetText then [t] else [])"
proof -
  show "has_thread env (twitter_handleNewAuction env i b)" "has_thread env (twitter_reply env t b)"
    using assms by (auto simp: twitter_handleNewAuction_def twitter_reply_def has_thread_cache split: option.splits)
  show "ending_replies (twitter_handleNewAuction env i b) = ending_replies b"
    by (simp add: twitter_handleNewAuction_def store_tweet_id_def bot_simps List.map_filter_simps split: option.splits)
  obtain r where "getAuctionReplyTweetId (cache b) = Some r" "r \<noteq> ''''"
    using assms by (auto simp: has_thread_def split: option.splits)
  then show "ending_replies (twitter_reply env t b)
      = ending_replies b @ (if t = getAuctionEndingSoonTweetText then [t] else [])"
    by (simp add: twitter_reply_def store_tweet_id_def bot_simps List.map_filter_simps)
qed

lemma bid_text_not_ending: "formatBidMessageText l f i bid \<noteq> getAuctionEndingSoonTweetText"
  by (simp add: formatBidMessageText_def getAuctionEndingSoonTweetText_def)

lemma discord_ending [bot_simps]:
  "ending_replies (discord_handleNewAuction env cs i b) = ending_replies b"
  "ending_replies (discord_handleNewBid env cs i bid b) = ending_replies b"
  by (simp_all add: discord_handleNewAuction_def discord_handleNewBid_def bot_simps split: option.splits)

lemma discord_thread:
  "has_thread env (discord_handleNewAuction env cs i b) = has_thread env b"
  "has_thread env (discord_handleNewBid env cs i bid b) = has_thread env b"
  by (simp_all add: discord_handleNewAuction_def discord_handleNewBid_def send_all_def has_thread_cache
      split: option.splits)

lemma handlers_ending:
  assumes "has_thread env b"
  shows "ending_replies (all_handlers (handleNewAuction env i) (auctionLifecycleHandlers cfg) b) = ending_replies b"
    "ending_replies (all_handlers (handleNewBid env i bid) (auctionLifecycleHandlers cfg) b) = ending_replies b"
    "ending_replies (all_handlers (handleAuctionEndingSoon env i) (auctionLifecycleHandlers cfg) b)
      = ending_replies b @ (if twitterEnabled cfg then [getAuctionEndingSoonTweetText] else [])"
    "has_thread env (all_handlers (handleNewAuction env i) (auctionLifecycleHandlers cfg) b)"
    "has_thread env (all_handlers (handleNewBid env i bid) (auctionLifecycleHandlers cfg) b)"
    "has_thread env (all_handlers (handleAuctionEndingSoon env i) (auctionLifecycleHandlers cfg) b)"
  using assms
  by (simp_all add: all_handlers_config twitter_handleNewBid_def twitter_handleAuctionEndingSoon_def Let_def
      has_thread_twitter discord_thread bot_simps bid_text_not_ending)

lemma ending_other [bot_simps]:
  assumes "has_thread env b"
  shows "ending_replies (discover_auction env (auctionLifecycleHandlers cfg) s lastBids b) = ending_replies b"
    "ending_replies (discover_bid env (auctionLifecycleHandlers cfg) s lastBids b) = ending_replies b"
    "has_thread env (discover_auction env (auctionLifecycleHandlers cfg) s lastBids b)"
    "has_thread env (discover_bid env (auctionLifecycleHandlers cfg) s lastBids b)"
    "has_thread env (warn_ending env (auctionLifecycleHandlers cfg) now_ms s lastBids b)"
  using assms
  by (simp_all add: discover_auction_def discover_bid_def warn_ending_def Let_def bot_simps
      has_thread_cache handlers_ending split: list.splits)

interpretation ending_mark: watermark "processAuctionTick env (auctionLifecycleHandlers cfg)" offered_ending
  "\<lambda>b. getAuctionEndingSoonCache (cache b)" ending_replies
  "\<lambda>i. if twitterEnabled cfg then [getAuctionEndingSoonTweetText] else []" "has_thread env"
  for env cfg
proof (unfold_locales, goal_cases)
  case (1 b e)
  then show ?case by (simp add: processAuctionTick_def finish_auction_def case_prod_beta bot_simps split: option.splits)
next
  case (2 e b)
  then show ?case
    by (auto simp: processAuctionTick_def finish_auction_def offered_ending_def case_prod_beta bot_simps
        warn_ending_def Let_def split: option.splits if_splits)
next
  case (3 e i b)
  then show ?case
    by (auto simp: processAuctionTick_def finish_auction_def offered_ending_def case_prod_beta bot_simps
        warn_ending_def Let_def take_snapshot_def split: option.splits if_splits)
next
  case (4 e i b)
  then show ?case
    by (auto simp: processAuctionTick_def finish_auction_def offered_ending_def case_prod_beta bot_simps cache_simps
        warn_ending_def Let_def take_snapshot_def handlers_ending has_thread_cache split: option.splits if_splits)
qed


definition example_env :: bot_env where
  "example_env = \<lparr>be_png = (\<lambda>s. Some ''png''), be_lookupAddress = (\<lambda>a. None), be_formatEther = (\<lambda>a. a),
     be_mediaId = (\<lambda>p. ''m''), be_tweetId = (\<lambda>es. CHR ''t'' # nat_to_dec (length es))\<rparr>"

definition example_config :: BotConfig where
  "example_config = bots_config [''TWITTER_ENABLED'' \<mapsto> ''true'', ''DISCORD_ENABLED'' \<mapsto> ''true'']"

definition example_bots :: bots where
  "example_bots = \<lparr>cache = [getAuctionCacheKey \<mapsto> RText ''4'', getReplyTweetIdKey \<mapsto> RText ''t''], outbox = []\<rparr>"

definition example_bid :: BotBid where
  "example_bid = \<lparr>bb_id = ''0xab'', bb_amount = ''7'', bb_bidder = ''0x1234567890''\<rparr>"

definition example_ticks :: "(int \<times> AuctionBids option) list" where
  "example_ticks =
     [(100000, Some \<lparr>lab_id = 5, lab_endTime = 5000, lab_bids = []\<rparr>),
      (130000, Some \<lparr>lab_id = 5, lab_endTime = 1000, lab_bids = [example_bid]\<rparr>),
      (160000, None),
      (190000, Some \<lparr>lab_id = 4, lab_endTime = 1000, lab_bids = []\<rparr>),
      (220000, Some \<lparr>lab_id = 6, lab_endTime = 9000, lab_bids = []\<rparr>)]"

lemma example_facts:
  "discordEnabled example_config" "twitterEnabled example_config"
  "getAuctionCache (cache example_bots) = Some 4" "getAuctionEndingSoonCache (cache example_bots) = Some 0"
  "has_thread example_env example_bots" "internalDiscordWebhook \<in> webhooks"
  "outbox example_bots = []"
proof -
  show "discordEnabled example_config" "twitterEnabled example_config" "internalDiscordWebhook \<in> webhooks"
    by (simp_all add: example_config_def bots_config_def webhooks_def)
  have "js_number ''4'' = Some 4" by code_simp
  then show "getAuctionCache (cache example_bots) = Some 4"
    by (simp add: example_bots_def getAuctionCache_def number_or_0_def getAuctionCacheKey_def getReplyTweetIdKey_def)
  show "getAuctionEndingSoonCache (cache example_bots) = Some 0"
    by (simp add: example_bots_def getAuctionEndingSoonCache_def number_or_0_def getAuctionCacheKey_def
        getReplyTweetIdKey_def getAuctionEndingSoonCacheKey_def)
  show "has_thread example_env example_bots"
    by (simp add: has_thread_def example_env_def example_bots_def getAuctionReplyTweetId_def)
  show "outbox example_bots = []" by (simp add: example_bots_def)
qed

lemma example_start: "messages c example_bots = []" "ending_replies example_bots = []"
  by (simp_all add: messages_def ending_replies_def example_facts List.map_filter_simps)

lemma example_offers:
  "records 4 (List.map_filter offered_auction example_ticks) = [5, 6]"
  "records 0 (List.map_filter offered_ending example_ticks) = [5]"
  by (simp_all add: example_ticks_def offered_auction_def offered_ending_def List.map_filter_simps toInt32_def)

theorem auctions_announced_once_witness:
  "\<exists>b'. titled ''New Auction Discovered'' (messages internalDiscordWebhook b')
     = [new_auction_message ''png'' 5, new_auction_message ''png'' 6]"
proof -
  have "auction_messages example_env i = [new_auction_message ''png'' i]" for i
    by (simp add: auction_messages_def example_env_def)
  then show ?thesis
    using auctions_announced_once[OF example_facts(1) example_facts(6) example_facts(3) refl,
        where env = example_env and ticks = example_ticks]
    by (auto simp: example_offers example_start)
qed


text \<open>Ticks that overlap break this. From any cached id, two ticks that start before either finishes post the
  same auction twice, and a tick with an older answer that finishes last sets the cache back below an auction
  already posted.\<close>

theorem overlapping_ticks_repeat:
  assumes "discordEnabled cfg" and "c \<in> webhooks" and "getAuctionCache (cache b) = Some k"
    and "k < j" and "j < i" and "be_png env (int_to_dec i) = Some png"
    and "hs = auctionLifecycleHandlers cfg"
  shows "\<exists>b1 b2. tick_reach env hs b (b1, []) \<and> tick_reach env hs b (b2, [])
    \<and> titled ''New Auction Discovered'' (messages c b1)
        = titled ''New Auction Discovered'' (messages c b) @ [new_auction_message png i, new_auction_message png i]
    \<and> new_auction_message png i \<in> set (messages c b2) \<and> getAuctionCache (cache b2) = Some j"
proof -
  define ans where "ans x = Some \<lparr>lab_id = x, lab_endTime = 10000, lab_bids = []\<rparr>" for x
  define s where "s = take_snapshot b"
  define first where "first = finish_auction env hs 0 s (ans i) b"
  have started: "tick_reach env hs b (b, [s, s])"
    using tick_reach.Start[OF tick_reach.Start[OF tick_reach.Setup]] unfolding s_def by simp
  have one: "tick_reach env hs b (first, [s])"
    using tick_reach.Finish[of env hs b b "[]" s "[s]" 0 "ans i"] started unfolding first_def by simp
  have two: "tick_reach env hs b (finish_auction env hs 0 s a first, [])" for a
    using tick_reach.Finish[of env hs b first "[]" s "[]" 0 a] one by simp
  have sk: "cachedAuctionId s = Some k" using assms by (simp add: s_def take_snapshot_def)
  have am: "auction_messages env i = [new_auction_message png i]" using assms by (simp add: auction_messages_def)
  have fin: "titled ''New Auction Discovered'' (messages c (finish_auction env hs 0 s (ans x) d))
      = titled ''New Auction Discovered'' (messages c d) @ auction_messages env x
    \<and> getAuctionCache (cache (finish_auction env hs 0 s (ans x) d)) = Some x" if "k < x" for x d
    using assms(1,2,7) that by (simp add: finish_auction_def ans_def tick_auction_messages bot_simps sk)
  have "new_auction_message png i \<in> set (titled ''New Auction Discovered'' (messages c (finish_auction env hs 0 s (ans j) first)))"
    using fin[of j first] fin[of i b] assms(4,5) am by (simp add: first_def)
  then have "new_auction_message png i \<in> set (messages c (finish_auction env hs 0 s (ans j) first))"
    by (simp add: titled_def)
  then show ?thesis
    using two[of "ans i"] two[of "ans j"] fin[of i first] fin[of i b] fin[of j first] assms(4,5) am
    by (intro exI[of _ "finish_auction env hs 0 s (ans i) first"] exI[of _ "finish_auction env hs 0 s (ans j) first"])
      (simp add: first_def)
qed

theorem overlapping_ticks_repeat_witness:
  "\<exists>b1. tick_reach example_env (auctionLifecycleHandlers example_config) example_bots (b1, [])
     \<and> titled ''New Auction Discovered'' (messages internalDiscordWebhook b1)
       = [new_auction_message ''png'' 6, new_auction_message ''png'' 6]"
proof -
  have "be_png example_env (int_to_dec 6) = Some ''png''" by (simp add: example_env_def)
  from overlapping_ticks_repeat[OF example_facts(1) example_facts(6) example_facts(3) _ _ this refl, of 5]
  show ?thesis by (auto simp: example_start)
qed

section \<open>The governance channel\<close>

definition about :: "int \<Rightarrow> DiscordMessage list \<Rightarrow> DiscordMessage list" where
  "about i ms = filter (\<lambda>m. dm_url m = vote_url i) ms"

text \<open>What the channel should tell of one proposal, given its successive states.\<close>

fun narrate :: "bot_env \<Rightarrow> BotProposal option \<Rightarrow> bool \<Rightarrow> (int \<times> BotProposal) list \<Rightarrow> DiscordMessage list" where
  "narrate env known warned [] = []"
| "narrate env None warned ((now_ms, p) # rest) = new_proposal_message p # narrate env (Some p) warned rest"
| "narrate env (Some q) warned ((now_ms, p) # rest) =
     (if bp_status q \<noteq> bp_status p then [status_message p] else [])
     @ map (vote_message env p) (extractNewVotes q p)
     @ (if isAtRiskOfExpiry now_ms p \<and> \<not> warned then [risk_message p] else [])
     @ narrate env (Some p) (warned \<or> isAtRiskOfExpiry now_ms p) rest"

definition history_of :: "int \<Rightarrow> (int \<times> BotProposal list) list \<Rightarrow> (int \<times> BotProposal) list" where
  "history_of i ticks = concat (map (\<lambda>(now_ms, ps). map (\<lambda>p. (now_ms, p)) (filter (\<lambda>p. bp_id p = i) ps)) ticks)"

definition gov_view :: "string \<Rightarrow> int \<Rightarrow> bots \<Rightarrow> DiscordMessage list \<times> BotProposal option \<times> bool" where
  "gov_view c i b = (about i (messages c b), getProposalCache i (cache b), hasWarnedOfExpiry i (cache b))"

lemma about_simps [simp]:
  "about i [] = []"
  "about i (ms @ ns) = about i ms @ about i ns"
  "about i (m # ms) = (if dm_url m = vote_url i then m # about i ms else about i ms)"
  by (simp_all add: about_def)

lemma governance_handlers_cache [bot_simps]:
  "cache (all_handlers (handleNewProposal p) hs b) = cache b"
  "cache (all_handlers (handleUpdatedProposalStatus p) hs b) = cache b"
  "cache (all_handlers (handleProposalAtRiskOfExpiry p) hs b) = cache b"
  "cache (all_handlers (handleGovernanceVote env p v) hs b) = cache b"
proof -
  have fold_inv: "cache (fold f hs b) = cache b" if "\<And>h b. cache (f h b) = cache b" for f and hs :: "handler list" and b
    by (induction hs arbitrary: b) (simp_all add: that)
  have h: "cache (handleNewProposal p h b) = cache b" "cache (handleUpdatedProposalStatus p h b) = cache b"
    "cache (handleProposalAtRiskOfExpiry p h b) = cache b" "cache (handleGovernanceVote env p v h b) = cache b" for h b
    by (cases h; simp add: bot_simps)+
  show "cache (all_handlers (handleNewProposal p) hs b) = cache b"
    "cache (all_handlers (handleUpdatedProposalStatus p) hs b) = cache b"
    "cache (all_handlers (handleProposalAtRiskOfExpiry p) hs b) = cache b"
    "cache (all_handlers (handleGovernanceVote env p v) hs b) = cache b"
    unfolding all_handlers_def by (rule fold_inv, rule h)+
qed

lemma vote_fold:
  fixes cfg
  defines "hs \<equiv> auctionLifecycleHandlers cfg"
  assumes "c \<in> webhooks" and "discordEnabled cfg"
  shows "cache (fold (\<lambda>v. all_handlers (handleGovernanceVote env p v) hs) vs b) = cache b"
    "messages c (fold (\<lambda>v. all_handlers (handleGovernanceVote env p v) hs) vs b)
      = messages c b @ map (vote_message env p) vs"
  using assms(2,3) unfolding hs_def by (induction vs arbitrary: b) (simp_all add: bot_simps)

lemma about_votes [simp]:
  "about i (map (vote_message env p) vs) = (if bp_id p = i then map (vote_message env p) vs else [])"
  by (induction vs) auto

lemma process_proposal_view:
  assumes "c \<in> webhooks" and "discordEnabled cfg"
    and b': "b' = process_proposal env (auctionLifecycleHandlers cfg) now_ms p b"
  shows "bp_id p \<noteq> i \<Longrightarrow> gov_view c i b' = gov_view c i b"
    and "bp_id p = i \<Longrightarrow> getProposalCache i (cache b) = None
      \<Longrightarrow> gov_view c i b' = (about i (messages c b) @ [new_proposal_message p], Some p, hasWarnedOfExpiry i (cache b))"
    and "bp_id p = i \<Longrightarrow> getProposalCache i (cache b) = Some q
      \<Longrightarrow> gov_view c i b' = (about i (messages c b) @
          (if bp_status q \<noteq> bp_status p then [status_message p] else [])
          @ map (vote_message env p) (extractNewVotes q p)
          @ (if isAtRiskOfExpiry now_ms p \<and> \<not> hasWarnedOfExpiry i (cache b) then [risk_message p] else []),
          Some p, hasWarnedOfExpiry i (cache b) \<or> isAtRiskOfExpiry now_ms p)"
proof -
  note simps = b' gov_view_def process_proposal_def report_changes_def bot_simps cache_simps Let_def
    vote_fold[OF assms(1,2)]
  show "bp_id p \<noteq> i \<Longrightarrow> gov_view c i b' = gov_view c i b"
    using assms(1,2) by (simp add: simps split: option.splits)
  show "bp_id p = i \<Longrightarrow> getProposalCache i (cache b) = None
      \<Longrightarrow> gov_view c i b' = (about i (messages c b) @ [new_proposal_message p], Some p, hasWarnedOfExpiry i (cache b))"
    using assms(1,2) by (simp add: simps)
  show "bp_id p = i \<Longrightarrow> getProposalCache i (cache b) = Some q
      \<Longrightarrow> gov_view c i b' = (about i (messages c b) @
          (if bp_status q \<noteq> bp_status p then [status_message p] else [])
          @ map (vote_message env p) (extractNewVotes q p)
          @ (if isAtRiskOfExpiry now_ms p \<and> \<not> hasWarnedOfExpiry i (cache b) then [risk_message p] else []),
          Some p, hasWarnedOfExpiry i (cache b) \<or> isAtRiskOfExpiry now_ms p)"
    using assms(1,2) by (auto simp: simps)
qed

definition tell :: "string \<Rightarrow> int \<Rightarrow> bot_env \<Rightarrow> bots \<Rightarrow> (int \<times> BotProposal) list \<Rightarrow> DiscordMessage list" where
  "tell c i env b h =
     about i (messages c b) @ narrate env (getProposalCache i (cache b)) (hasWarnedOfExpiry i (cache b)) h"

lemma process_proposal_tell:
  assumes "c \<in> webhooks" and "discordEnabled cfg"
  shows "tell c i env (process_proposal env (auctionLifecycleHandlers cfg) now_ms p b) h
    = tell c i env b ((if bp_id p = i then [(now_ms, p)] else []) @ h)"
proof (cases "bp_id p = i")
  case False
  then show ?thesis
    using process_proposal_view(1)[OF assms refl, of p i env now_ms b] by (simp add: tell_def gov_view_def)
next
  case True
  show ?thesis
  proof (cases "getProposalCache i (cache b)")
    case None
    then show ?thesis
      using process_proposal_view(2)[OF assms refl True None] True by (simp add: tell_def gov_view_def)
  next
    case (Some q)
    then show ?thesis
      using process_proposal_view(3)[OF assms refl True Some] True by (simp add: tell_def gov_view_def)
  qed
qed

lemma process_all_tell:
  assumes "c \<in> webhooks" and "discordEnabled cfg"
  shows "tell c i env (fold (process_proposal env (auctionLifecycleHandlers cfg) now_ms) ps b) h
    = tell c i env b (map (\<lambda>p. (now_ms, p)) (filter (\<lambda>p. bp_id p = i) ps) @ h)"
  by (induction ps arbitrary: b) (simp_all add: process_proposal_tell[OF assms])

lemma ticks_tell:
  assumes "c \<in> webhooks" and "discordEnabled cfg"
  shows "tell c i env (fold (processGovernanceTick env (auctionLifecycleHandlers cfg)) ticks b) h
    = tell c i env b (history_of i ticks @ h)"
proof (induction ticks arbitrary: b)
  case Nil
  then show ?case by (simp add: history_of_def)
next
  case (Cons tick ticks)
  obtain n ps where [simp]: "tick = (n, ps)" by fastforce
  show ?case
    by (simp add: Cons.IH) (simp add: processGovernanceTick_def process_all_tell[OF assms] history_of_def)
qed

lemma narrate_risk: "length (titled ''Proposal At-Risk of Expiry'' (narrate env k w h)) \<le> (if w then 0 else 1)"
proof (induction env k w h rule: narrate.induct)
  case (3 env q w now_ms p rest)
  have "titled ''Proposal At-Risk of Expiry'' (map (vote_message env p) vs) = []" for vs
    by (induction vs) simp_all
  then show ?case using 3 by (cases "isAtRiskOfExpiry now_ms p") auto
qed simp_all

lemma narrate_new_known: "titled ''New Governance Proposal'' (narrate env (Some q) w h) = []"
proof (induction h arbitrary: q w)
  case (Cons e h)
  have "titled ''New Governance Proposal'' (map (vote_message env p) vs) = []" for p vs
    by (induction vs) simp_all
  then show ?case using Cons by (cases e) simp
qed simp

lemma narrate_new:
  "titled ''New Governance Proposal'' (narrate env None w h) = (case h of [] \<Rightarrow> [] | (t, p) # _ \<Rightarrow> [new_proposal_message p])"
  by (cases h) (auto simp: narrate_new_known)


definition example_proposal :: "BotProposalStatus \<Rightarrow> BotVote list \<Rightarrow> BotProposal" where
  "example_proposal st vs =
     \<lparr>bp_id = 3, bp_proposer = ''0x1'', bp_description = ''# Title'', bp_status = st, bp_quorumVotes = 2,
      bp_proposalThreshold = 1, bp_startBlock = 10, bp_endBlock = 20, bp_executionETA = 0, bp_votes = vs\<rparr>"

definition example_vote :: "string \<Rightarrow> int \<Rightarrow> BotVote" where
  "example_vote i n = \<lparr>bv_id = i, bv_voter = ''0x22'', bv_votes = n, bv_supportDetailed = FOR, bv_reason = None\<rparr>"

definition example_gov_ticks :: "(int \<times> BotProposal list) list" where
  "example_gov_ticks =
     [(0, [example_proposal BPENDING []]),
      (0, [example_proposal BACTIVE [example_vote ''a'' 1, example_vote ''b'' 0]]),
      (1000 * 13 * 86400, [example_proposal BQUEUED [example_vote ''a'' 1, example_vote ''b'' 0]]),
      (1000 * 13 * 86400, [example_proposal BQUEUED [example_vote ''a'' 1, example_vote ''b'' 0]])]"


end
