(* ===== verification/Web_Auction.thy ===== *)
theory Web_Auction
  imports Js_Strings "HOL-Library.Multiset"
begin

text \<open>
  The auction state of \<^verbatim>\<open>packages/nouns-webapp\<close>: the redux slices \<^verbatim>\<open>state/slices/{auction,onDisplayAuction,
  pastAuctions,account,application}.ts\<close>, the wrappers \<^verbatim>\<open>wrappers/{onDisplayAuction,nounsAuction}.ts\<close> with
  \<^verbatim>\<open>utils/nounderNoun.ts\<close>, and the \<open>ChainSubscriber\<close> of \<^verbatim>\<open>index.tsx\<close> that feeds them from the chain.
  A \<open>BigNumber\<close> and its redux-safe JSON form are the same integer; \<open>toNumber()\<close> is the identity, since ids and
  timestamps are below \<open>2 ^ 53\<close>. A state that is \<open>undefined\<close> is \<open>None\<close>.
\<close>

section \<open>utils/types.ts and wrappers/nounsAuction.ts: the data\<close>

record BidEvent =
  be_unounId :: int
  be_sender :: string
  be_value :: int
  be_extended :: bool
  be_transactionHash :: string
  be_timestamp :: int

record AuctionCreateEvent =
  ac_unounId :: int
  ac_startTime :: int
  ac_endTime :: int
  ac_settled :: bool

record AuctionSettledEvent =
  as_unounId :: int
  as_winner :: string
  as_amount :: int

record AuctionExtendedEvent =
  ax_unounId :: int
  ax_endTime :: int

record WAuction =
  wa_amount :: int
  wa_bidder :: string
  wa_startTime :: int
  wa_endTime :: int
  wa_unounId :: int
  wa_settled :: bool

section \<open>state/slices/auction.ts\<close>

record AuctionState =
  activeAuction :: "WAuction option"
  bids :: "BidEvent list"

definition initial_auction_state :: AuctionState where
  "initial_auction_state = \<lparr>activeAuction = None, bids = []\<rparr>"

definition reduxSafeNewAuction :: "AuctionCreateEvent \<Rightarrow> WAuction" where
  "reduxSafeNewAuction auction =
     \<lparr>wa_amount = 0, wa_bidder = '''', wa_startTime = ac_startTime auction, wa_endTime = ac_endTime auction,
      wa_unounId = ac_unounId auction, wa_settled = False\<rparr>"

definition reduxSafeAuction :: "WAuction \<Rightarrow> WAuction" where
  "reduxSafeAuction auction =
     \<lparr>wa_amount = wa_amount auction, wa_bidder = wa_bidder auction, wa_startTime = wa_startTime auction,
      wa_endTime = wa_endTime auction, wa_unounId = wa_unounId auction, wa_settled = wa_settled auction\<rparr>"

definition reduxSafeBid :: "BidEvent \<Rightarrow> BidEvent" where
  "reduxSafeBid bid =
     \<lparr>be_unounId = be_unounId bid, be_sender = be_sender bid, be_value = be_value bid,
      be_extended = be_extended bid, be_transactionHash = be_transactionHash bid, be_timestamp = be_timestamp bid\<rparr>"

text \<open>\<open>reduce\<close> without an initial value starts from the first bid and throws on an empty list (here \<open>None\<close>).\<close>

definition maxBid :: "BidEvent list \<Rightarrow> BidEvent option" where
  "maxBid bs =
     (case bs of [] \<Rightarrow> None
      | b # rest \<Rightarrow> Some (foldl (\<lambda>prev current. if be_value prev > be_value current then prev else current) b rest))"

definition auctionsEqual :: "WAuction \<Rightarrow> int \<Rightarrow> bool" where
  "auctionsEqual a unounId = (wa_unounId a = unounId)"

definition containsBid :: "BidEvent list \<Rightarrow> BidEvent \<Rightarrow> bool" where
  "containsBid bidEvents bidEvent = (be_transactionHash bidEvent \<in> set (map be_transactionHash bidEvents))"

definition setActiveAuction :: "AuctionCreateEvent \<Rightarrow> AuctionState \<Rightarrow> AuctionState" where
  "setActiveAuction e s = s\<lparr>activeAuction := Some (reduxSafeNewAuction e), bids := []\<rparr>"

definition setFullAuction :: "WAuction \<Rightarrow> AuctionState \<Rightarrow> AuctionState" where
  "setFullAuction a s = s\<lparr>activeAuction := Some (reduxSafeAuction a)\<rparr>"

definition appendBid :: "BidEvent \<Rightarrow> AuctionState \<Rightarrow> AuctionState" where
  "appendBid e s =
     (case activeAuction s of
        None \<Rightarrow> s
      | Some a \<Rightarrow>
          if \<not> auctionsEqual a (be_unounId e) then s
          else if containsBid (bids s) e then s
          else let newBids = reduxSafeBid e # bids s;
                   maxBid' = the (maxBid newBids)
               in s\<lparr>bids := newBids,
                    activeAuction := Some (a\<lparr>wa_amount := be_value maxBid', wa_bidder := be_sender maxBid'\<rparr>)\<rparr>)"

definition setAuctionSettled :: "AuctionSettledEvent \<Rightarrow> AuctionState \<Rightarrow> AuctionState" where
  "setAuctionSettled e s =
     (case activeAuction s of
        None \<Rightarrow> s
      | Some a \<Rightarrow>
          if \<not> auctionsEqual a (as_unounId e) then s
          else s\<lparr>activeAuction := Some (a\<lparr>wa_settled := True, wa_bidder := as_winner e, wa_amount := as_amount e\<rparr>)\<rparr>)"

definition setAuctionExtended :: "AuctionExtendedEvent \<Rightarrow> AuctionState \<Rightarrow> AuctionState" where
  "setAuctionExtended e s =
     (case activeAuction s of
        None \<Rightarrow> s
      | Some a \<Rightarrow>
          if \<not> auctionsEqual a (ax_unounId e) then s
          else s\<lparr>activeAuction := Some (a\<lparr>wa_endTime := ax_endTime e\<rparr>)\<rparr>)"

section \<open>state/slices/onDisplayAuction.ts\<close>

record OnDisplayAuctionState =
  lastAuctionUNounId :: "int option"
  onDisplayAuctionUNounId :: "int option"

definition initial_on_display :: OnDisplayAuctionState where
  "initial_on_display = \<lparr>lastAuctionUNounId = None, onDisplayAuctionUNounId = None\<rparr>"

definition setLastAuctionUNounId :: "int \<Rightarrow> OnDisplayAuctionState \<Rightarrow> OnDisplayAuctionState" where
  "setLastAuctionUNounId i s = s\<lparr>lastAuctionUNounId := Some i\<rparr>"

definition setOnDisplayAuctionUNounId :: "int \<Rightarrow> OnDisplayAuctionState \<Rightarrow> OnDisplayAuctionState" where
  "setOnDisplayAuctionUNounId i s = s\<lparr>onDisplayAuctionUNounId := Some i\<rparr>"

definition setPrevOnDisplayAuctionUNounId :: "OnDisplayAuctionState \<Rightarrow> OnDisplayAuctionState" where
  "setPrevOnDisplayAuctionUNounId s =
     (case onDisplayAuctionUNounId s of
        None \<Rightarrow> s
      | Some i \<Rightarrow> if i = 0 then s else s\<lparr>onDisplayAuctionUNounId := Some (i - 1)\<rparr>)"

definition setNextOnDisplayAuctionUNounId :: "OnDisplayAuctionState \<Rightarrow> OnDisplayAuctionState" where
  "setNextOnDisplayAuctionUNounId s =
     (case onDisplayAuctionUNounId s of
        None \<Rightarrow> s
      | Some i \<Rightarrow> if lastAuctionUNounId s = Some i then s else s\<lparr>onDisplayAuctionUNounId := Some (i + 1)\<rparr>)"

section \<open>state/slices/pastAuctions.ts\<close>

text \<open>The answer of the subgraph to \<open>latestAuctionsQuery\<close>, with numbers in place of their decimal texts.\<close>

record SgBid =
  sb_id :: string
  sb_amount :: int
  sb_bidder :: string
  sb_blockTimestamp :: int

record SgAuction =
  sa_id :: int
  sa_amount :: int
  sa_startTime :: int
  sa_endTime :: int
  sa_bidder :: "string option"
  sa_bids :: "SgBid list"

definition reduxSafePastBid :: "SgAuction \<Rightarrow> SgBid \<Rightarrow> BidEvent" where
  "reduxSafePastBid auction bid =
     \<lparr>be_unounId = sa_id auction, be_sender = sb_bidder bid, be_value = sb_amount bid, be_extended = False,
      be_transactionHash = sb_id bid, be_timestamp = sb_blockTimestamp bid\<rparr>"

definition reduxSafePastAuctions :: "SgAuction list \<Rightarrow> AuctionState list" where
  "reduxSafePastAuctions auctions =
     map (\<lambda>auction.
       \<lparr>activeAuction = Some
          \<lparr>wa_amount = sa_amount auction,
           wa_bidder = (case sa_bidder auction of Some b \<Rightarrow> b | None \<Rightarrow> ''''),
           wa_startTime = sa_startTime auction, wa_endTime = sa_endTime auction,
           wa_unounId = sa_id auction, wa_settled = False\<rparr>,
        bids = map (reduxSafePastBid auction) (sa_bids auction)\<rparr>) auctions"

definition addPastAuctions :: "SgAuction list \<Rightarrow> AuctionState list \<Rightarrow> AuctionState list" where
  "addPastAuctions auctions s = reduxSafePastAuctions auctions"

section \<open>state/slices/account.ts, application.ts\<close>

definition grey :: string where "grey = ''#d8dadf''"
definition peace :: string where "peace = ''#26b1f3''"

datatype maybe_account = AUndefined | ANull | AAddress string

definition setActiveAccount :: "maybe_account \<Rightarrow> maybe_account \<Rightarrow> maybe_account" where
  "setActiveAccount payload s = (if payload = ANull then AUndefined else payload)"

record AlertModal =
  am_show :: bool
  am_title :: "string option"
  am_message :: "string option"

record ApplicationState =
  stateBackgroundColor :: string
  isCoolBackground :: bool
  alertModal :: AlertModal

definition initial_application :: ApplicationState where
  "initial_application =
     \<lparr>stateBackgroundColor = grey, isCoolBackground = True,
      alertModal = \<lparr>am_show = False, am_title = None, am_message = None\<rparr>\<rparr>"

definition setStateBackgroundColor :: "string \<Rightarrow> ApplicationState \<Rightarrow> ApplicationState" where
  "setStateBackgroundColor c s = s\<lparr>stateBackgroundColor := c, isCoolBackground := (c = grey)\<rparr>"

definition setAlertModal :: "AlertModal \<Rightarrow> ApplicationState \<Rightarrow> ApplicationState" where
  "setAlertModal m s = s\<lparr>alertModal := m\<rparr>"

section \<open>The root reducer of index.tsx\<close>

datatype web_action =
    SetActiveAccount maybe_account
  | SetStateBackgroundColor string
  | SetAlertModal AlertModal
  | SetActiveAuction AuctionCreateEvent
  | SetFullAuction WAuction
  | AppendBid BidEvent
  | SetAuctionSettled AuctionSettledEvent
  | SetAuctionExtended AuctionExtendedEvent
  | SetLastAuctionUNounId int
  | SetOnDisplayAuctionUNounId int
  | SetPrevOnDisplayAuctionUNounId
  | SetNextOnDisplayAuctionUNounId
  | AddPastAuctions "SgAuction list"
  | PushPath string

record RootState =
  router :: string
  account :: maybe_account
  application :: ApplicationState
  auction :: AuctionState
  pastAuctions :: "AuctionState list"
  onDisplayAuction :: OnDisplayAuctionState

definition initial_root :: "string \<Rightarrow> RootState" where
  "initial_root path =
     \<lparr>router = path, account = AUndefined, application = initial_application,
      auction = initial_auction_state, pastAuctions = [], onDisplayAuction = initial_on_display\<rparr>"

fun auction_reducer :: "web_action \<Rightarrow> AuctionState \<Rightarrow> AuctionState" where
  "auction_reducer (SetActiveAuction e) s = setActiveAuction e s"
| "auction_reducer (SetFullAuction a) s = setFullAuction a s"
| "auction_reducer (AppendBid e) s = appendBid e s"
| "auction_reducer (SetAuctionSettled e) s = setAuctionSettled e s"
| "auction_reducer (SetAuctionExtended e) s = setAuctionExtended e s"
| "auction_reducer _ s = s"

fun onDisplay_reducer :: "web_action \<Rightarrow> OnDisplayAuctionState \<Rightarrow> OnDisplayAuctionState" where
  "onDisplay_reducer (SetLastAuctionUNounId i) s = setLastAuctionUNounId i s"
| "onDisplay_reducer (SetOnDisplayAuctionUNounId i) s = setOnDisplayAuctionUNounId i s"
| "onDisplay_reducer SetPrevOnDisplayAuctionUNounId s = setPrevOnDisplayAuctionUNounId s"
| "onDisplay_reducer SetNextOnDisplayAuctionUNounId s = setNextOnDisplayAuctionUNounId s"
| "onDisplay_reducer _ s = s"

fun pastAuctions_reducer :: "web_action \<Rightarrow> AuctionState list \<Rightarrow> AuctionState list" where
  "pastAuctions_reducer (AddPastAuctions p) s = addPastAuctions p s"
| "pastAuctions_reducer _ s = s"

fun account_reducer :: "web_action \<Rightarrow> maybe_account \<Rightarrow> maybe_account" where
  "account_reducer (SetActiveAccount a) s = setActiveAccount a s"
| "account_reducer _ s = s"

fun application_reducer :: "web_action \<Rightarrow> ApplicationState \<Rightarrow> ApplicationState" where
  "application_reducer (SetStateBackgroundColor c) s = setStateBackgroundColor c s"
| "application_reducer (SetAlertModal m) s = setAlertModal m s"
| "application_reducer _ s = s"

fun router_reducer :: "web_action \<Rightarrow> string \<Rightarrow> string" where
  "router_reducer (PushPath p) s = p"
| "router_reducer _ s = s"

definition dispatch :: "web_action \<Rightarrow> RootState \<Rightarrow> RootState" where
  "dispatch a s =
     \<lparr>router = router_reducer a (router s), account = account_reducer a (account s),
      application = application_reducer a (application s), auction = auction_reducer a (auction s),
      pastAuctions = pastAuctions_reducer a (pastAuctions s),
      onDisplayAuction = onDisplay_reducer a (onDisplayAuction s)\<rparr>"

section \<open>utils/nounderNoun.ts\<close>

definition isNounderNoun :: "int \<Rightarrow> bool" where
  "isNounderNoun unounId \<longleftrightarrow> unounId mod 10 = 0 \<or> unounId = 0"

definition isUNouncilUNoun :: "int \<Rightarrow> bool" where
  "isUNouncilUNoun unounId \<longleftrightarrow> unounId < 222 \<and> unounId mod 10 = 2"

definition emptyNounderAuction :: "int \<Rightarrow> WAuction" where
  "emptyNounderAuction onDisplayAuctionId =
     \<lparr>wa_amount = 0, wa_bidder = '''', wa_startTime = 0, wa_endTime = 0, wa_unounId = onDisplayAuctionId,
      wa_settled = False\<rparr>"

text \<open>\<open>BigNumber.from(undefined)\<close> throws, for an entry without an auction in front of the match.\<close>

fun findAuction :: "int \<Rightarrow> AuctionState list \<Rightarrow> (string, WAuction option) result" where
  "findAuction i [] = Inr None"
| "findAuction i (s # ss) =
     (case activeAuction s of
        None \<Rightarrow> Inl ''invalid BigNumber value''
      | Some a \<Rightarrow> if wa_unounId a = i then Inr (Some a) else findAuction i ss)"

definition generateEmptyNounderAuction :: "int \<Rightarrow> AuctionState list \<Rightarrow> (string, WAuction) result" where
  "generateEmptyNounderAuction unounId past =
     (let nounderAuction = emptyNounderAuction unounId
      in bind_result (findAuction (unounId + 1) past) (\<lambda>auctionAbove.
           Inr (case auctionAbove of None \<Rightarrow> nounderAuction
                | Some a \<Rightarrow> nounderAuction\<lparr>wa_startTime := wa_startTime a\<rparr>)))"

definition generateEmptyUNouncilAuction :: "int \<Rightarrow> AuctionState list \<Rightarrow> (string, WAuction) result" where
  "generateEmptyUNouncilAuction unounId past =
     (let unouncilAuction = emptyNounderAuction unounId
      in bind_result (findAuction (unounId + 1) past) (\<lambda>auctionAbove.
           Inr (case auctionAbove of None \<Rightarrow> unouncilAuction
                | Some a \<Rightarrow> unouncilAuction\<lparr>wa_startTime := wa_startTime a\<rparr>)))"

section \<open>wrappers/onDisplayAuction.ts\<close>

definition deserializeAuction :: "WAuction \<Rightarrow> WAuction" where
  "deserializeAuction a =
     \<lparr>wa_amount = wa_amount a, wa_bidder = wa_bidder a, wa_startTime = wa_startTime a,
      wa_endTime = wa_endTime a, wa_unounId = wa_unounId a, wa_settled = False\<rparr>"

definition deserializeBid :: "BidEvent \<Rightarrow> BidEvent" where
  "deserializeBid bid =
     \<lparr>be_unounId = be_unounId bid, be_sender = be_sender bid, be_value = be_value bid,
      be_extended = be_extended bid, be_transactionHash = be_transactionHash bid, be_timestamp = be_timestamp bid\<rparr>"

text \<open>\<open>sort\<close> is stable, so a sort by the descending timestamp is a \<open>sort_key\<close>.\<close>

definition deserializeBids :: "BidEvent list \<Rightarrow> BidEvent list" where
  "deserializeBids bs = sort_key (\<lambda>b. - be_timestamp b) (map deserializeBid bs)"

definition past_auction_of :: "int \<Rightarrow> AuctionState list \<Rightarrow> AuctionState option" where
  "past_auction_of i past =
     find (\<lambda>s. case activeAuction s of None \<Rightarrow> False | Some a \<Rightarrow> wa_unounId a = i) past"

definition useOnDisplayAuction :: "RootState \<Rightarrow> (string, WAuction option) result" where
  "useOnDisplayAuction s =
     (case (onDisplayAuctionUNounId (onDisplayAuction s), activeAuction (auction s)) of
        (Some shown, Some currentAuction) \<Rightarrow>
          if shown = wa_unounId currentAuction then Inr (Some (deserializeAuction currentAuction))
          else if isNounderNoun shown
          then bind_result (generateEmptyNounderAuction shown (pastAuctions s)) (\<lambda>a. Inr (Some (deserializeAuction a)))
          else if isUNouncilUNoun shown
          then bind_result (generateEmptyUNouncilAuction shown (pastAuctions s)) (\<lambda>a. Inr (Some (deserializeAuction a)))
          else Inr (case past_auction_of shown (pastAuctions s) of
                      None \<Rightarrow> None | Some p \<Rightarrow> map_option deserializeAuction (activeAuction p))
      | _ \<Rightarrow> Inr None)"

definition useAuctionBids :: "int \<Rightarrow> RootState \<Rightarrow> BidEvent list option" where
  "useAuctionBids auctionUNounId s =
     (if lastAuctionUNounId (onDisplayAuction s) = Some auctionUNounId
      then Some (deserializeBids (bids (auction s)))
      else map_option (\<lambda>p. deserializeBids (bids p)) (past_auction_of auctionUNounId (pastAuctions s)))"

section \<open>wrappers/nounsAuction.ts\<close>

text \<open>An auction whose \<open>unounId\<close> is set is found even for id 0: redux-safe ids are non-empty JSON values.\<close>

definition useNounCanVoteTimestamp :: "int \<Rightarrow> RootState \<Rightarrow> int" where
  "useNounCanVoteTimestamp unounId s =
     (let nextUNounId = unounId + 1;
          nextUNounIdForQuery = (if isNounderNoun nextUNounId then nextUNounId + 1 else nextUNounId)
      in case past_auction_of nextUNounIdForQuery (pastAuctions s) of
           None \<Rightarrow> 0
         | Some p \<Rightarrow> (case activeAuction p of None \<Rightarrow> 0 | Some a \<Rightarrow> wa_startTime a))"

section \<open>ChainSubscriber of index.tsx\<close>

definition nounPath :: "int \<Rightarrow> string" where
  "nounPath unounId = ''/unoun/'' @ int_to_dec unounId"

definition processBidFilter :: "BidEvent \<Rightarrow> RootState \<Rightarrow> RootState" where
  "processBidFilter b = dispatch (AppendBid (reduxSafeBid b))"

text \<open>\<open>setActiveAuction\<close> applies \<open>reduxSafeNewAuction\<close> to an auction that \<open>reduxSafeNewAuction\<close> made.\<close>

definition as_create_event :: "WAuction \<Rightarrow> AuctionCreateEvent" where
  "as_create_event a =
     \<lparr>ac_unounId = wa_unounId a, ac_startTime = wa_startTime a, ac_endTime = wa_endTime a, ac_settled = wa_settled a\<rparr>"

definition processAuctionCreated :: "int \<Rightarrow> int \<Rightarrow> int \<Rightarrow> RootState \<Rightarrow> RootState" where
  "processAuctionCreated unounId startTime endTime s =
     (let new_auction = reduxSafeNewAuction
            \<lparr>ac_unounId = unounId, ac_startTime = startTime, ac_endTime = endTime, ac_settled = False\<rparr>
      in dispatch (SetLastAuctionUNounId unounId)
          (dispatch (SetOnDisplayAuctionUNounId unounId)
            (dispatch (PushPath (nounPath unounId))
              (dispatch (SetActiveAuction (as_create_event new_auction)) s))))"

definition processAuctionExtended :: "int \<Rightarrow> int \<Rightarrow> RootState \<Rightarrow> RootState" where
  "processAuctionExtended unounId endTime =
     dispatch (SetAuctionExtended \<lparr>ax_unounId = unounId, ax_endTime = endTime\<rparr>)"

definition processAuctionSettled :: "int \<Rightarrow> string \<Rightarrow> int \<Rightarrow> RootState \<Rightarrow> RootState" where
  "processAuctionSettled unounId winner amount =
     dispatch (SetAuctionSettled \<lparr>as_unounId = unounId, as_winner = winner, as_amount = amount\<rparr>)"

definition load_current :: "WAuction \<Rightarrow> RootState \<Rightarrow> RootState" where
  "load_current currentAuction s =
     dispatch (SetLastAuctionUNounId (wa_unounId currentAuction))
       (dispatch (SetFullAuction (reduxSafeAuction currentAuction)) s)"

end
