(* ===== verification/Web_Subscriber.thy ===== *)
theory Web_Subscriber
  imports Web_Auction
begin

text \<open>
  What the web app's auction state promises. \<open>house_step\<close> is the auction house as its events show it;
  \<open>sys\<close> runs it beside the \<open>ChainSubscriber\<close>, where a bid reaches the store only after its block has
  been fetched, so bids may arrive late, in any order, or after the auction has been settled.
\<close>

section \<open>The auction house, as its events show it\<close>

datatype house_event =
    ECreated int int int
  | EBid BidEvent
  | EExtended int int
  | ESettled int string int

record house =
  h_auction :: WAuction
  h_bids :: "BidEvent list"

definition zero_address :: string where
  "zero_address = ''0x0000000000000000000000000000000000000000''"

inductive house_step :: "house \<Rightarrow> house_event \<Rightarrow> house \<Rightarrow> bool" where
  Created: "wa_settled (h_auction h) \<Longrightarrow> wa_unounId (h_auction h) < i
    \<Longrightarrow> house_step h (ECreated i t0 t1)
        \<lparr>h_auction = \<lparr>wa_amount = 0, wa_bidder = zero_address, wa_startTime = t0, wa_endTime = t1,
                       wa_unounId = i, wa_settled = False\<rparr>, h_bids = []\<rparr>"
| Bid: "\<not> wa_settled (h_auction h) \<Longrightarrow> be_unounId b = wa_unounId (h_auction h)
    \<Longrightarrow> wa_amount (h_auction h) < be_value b
    \<Longrightarrow> be_transactionHash b \<notin> be_transactionHash ` set (h_bids h)
    \<Longrightarrow> house_step h (EBid b)
        (h\<lparr>h_auction := (h_auction h)\<lparr>wa_amount := be_value b, wa_bidder := be_sender b\<rparr>, h_bids := b # h_bids h\<rparr>)"
| Extended: "\<not> wa_settled (h_auction h)
    \<Longrightarrow> house_step h (EExtended (wa_unounId (h_auction h)) t1) (h\<lparr>h_auction := (h_auction h)\<lparr>wa_endTime := t1\<rparr>\<rparr>)"
| Settled: "\<not> wa_settled (h_auction h)
    \<Longrightarrow> house_step h (ESettled (wa_unounId (h_auction h)) (wa_bidder (h_auction h)) (wa_amount (h_auction h)))
        (h\<lparr>h_auction := (h_auction h)\<lparr>wa_settled := True\<rparr>\<rparr>)"

inductive house_reach :: "house \<Rightarrow> bool" where
  First: "house_reach \<lparr>h_auction = \<lparr>wa_amount = 0, wa_bidder = zero_address, wa_startTime = t0, wa_endTime = t1,
                       wa_unounId = i, wa_settled = False\<rparr>, h_bids = []\<rparr>"
| Step: "house_reach h \<Longrightarrow> house_step h e h' \<Longrightarrow> house_reach h'"

inductive_cases house_stepE: "house_step h e h'"

definition house_ok :: "house \<Rightarrow> bool" where
  "house_ok h \<longleftrightarrow>
     (case h_bids h of [] \<Rightarrow> wa_amount (h_auction h) = 0
      | b # bs \<Rightarrow> wa_amount (h_auction h) = be_value b \<and> wa_bidder (h_auction h) = be_sender b)
     \<and> sorted_wrt (\<lambda>b b'. be_value b' < be_value b) (h_bids h)
     \<and> distinct (map be_transactionHash (h_bids h))
     \<and> (\<forall>b \<in> set (h_bids h). be_unounId b = wa_unounId (h_auction h))"

lemma house_step_ok: "house_step h e h' \<Longrightarrow> house_ok h \<Longrightarrow> house_ok h'"
  by (erule house_stepE) (auto simp: house_ok_def split: list.splits)

lemma house_reach_ok: "house_reach h \<Longrightarrow> house_ok h"
proof (induction rule: house_reach.induct)
  case (First t0 t1 i)
  then show ?case by (simp add: house_ok_def)
next
  case (Step h e h')
  then show ?case using house_step_ok by blast
qed

section \<open>The house and the store together\<close>

fun notify :: "house_event \<Rightarrow> RootState \<Rightarrow> RootState" where
  "notify (ECreated i t0 t1) = processAuctionCreated i t0 t1"
| "notify (EBid b) = (\<lambda>s. s)"
| "notify (EExtended i t1) = processAuctionExtended i t1"
| "notify (ESettled i w a) = processAuctionSettled i w a"

fun awaiting :: "house_event \<Rightarrow> BidEvent list" where
  "awaiting (EBid b) = [b]"
| "awaiting _ = []"

text \<open>Actions of the user interface, which leave the auction and the last id alone.\<close>

fun is_local :: "web_action \<Rightarrow> bool" where
  "is_local (SetActiveAuction e) = False"
| "is_local (SetFullAuction a) = False"
| "is_local (AppendBid b) = False"
| "is_local (SetAuctionSettled e) = False"
| "is_local (SetAuctionExtended e) = False"
| "is_local (SetLastAuctionUNounId i) = False"
| "is_local _ = True"

definition current_bids :: "house \<Rightarrow> BidEvent list \<Rightarrow> BidEvent list" where
  "current_bids h pending = filter (\<lambda>b. be_unounId b = wa_unounId (h_auction h)) pending"

inductive sys :: "house \<Rightarrow> RootState \<Rightarrow> BidEvent list \<Rightarrow> bool" where
  Load: "house_reach h \<Longrightarrow> mset (current_bids h previousBids) = mset (h_bids h)
    \<Longrightarrow> (\<forall>b \<in> set previousBids. be_unounId b \<le> wa_unounId (h_auction h))
    \<Longrightarrow> sys h (load_current (h_auction h) (initial_root path)) previousBids"
| Event: "sys h r pending \<Longrightarrow> house_step h e h' \<Longrightarrow> sys h' (notify e r) (pending @ awaiting e)"
| Deliver: "sys h r (p1 @ b # p2) \<Longrightarrow> sys h (processBidFilter b r) (p1 @ p2)"
| Local: "sys h r pending \<Longrightarrow> is_local a \<Longrightarrow> sys h (dispatch a r) pending"

section \<open>The slice under each step\<close>

lemma auction_dispatch: "auction (dispatch a r) = auction_reducer a (auction r)"
  and onDisplay_dispatch: "onDisplayAuction (dispatch a r) = onDisplay_reducer a (onDisplayAuction r)"
  by (simp_all add: dispatch_def)

lemma local_keeps:
  assumes "is_local a"
  shows "auction (dispatch a r) = auction r"
    "lastAuctionUNounId (onDisplayAuction (dispatch a r)) = lastAuctionUNounId (onDisplayAuction r)"
  using assms
  by (cases a; simp add: auction_dispatch onDisplay_dispatch setOnDisplayAuctionUNounId_def
      setPrevOnDisplayAuctionUNounId_def setNextOnDisplayAuctionUNounId_def split: option.splits)+

lemma reduxSafe_id [simp]: "reduxSafeBid b = b" "reduxSafeAuction a = a"
  by (simp_all add: reduxSafeBid_def reduxSafeAuction_def)

lemma foldl_max:
  defines "pick \<equiv> \<lambda>prev current. if be_value prev > be_value current then prev else (current :: BidEvent)"
  shows "foldl pick b bs \<in> set (b # bs) \<and> (\<forall>x \<in> set (b # bs). be_value x \<le> be_value (foldl pick b bs))"
proof (induction bs arbitrary: b)
  case (Cons c cs)
  have p: "pick b c \<in> {b, c}" "be_value b \<le> be_value (pick b c)" "be_value c \<le> be_value (pick b c)"
    by (auto simp: pick_def)
  show ?case using Cons.IH[of "pick b c"] p by fastforce
qed simp

lemma maxBid_max:
  assumes "bs \<noteq> []"
  shows "\<exists>m. maxBid bs = Some m \<and> m \<in> set bs \<and> (\<forall>x \<in> set bs. be_value x \<le> be_value m)"
proof -
  obtain b cs where "bs = b # cs" using assms by (cases bs) auto
  then show ?thesis using foldl_max[where b = b and bs = cs] by (auto simp: maxBid_def)
qed

definition shows_bid :: "WAuction \<Rightarrow> BidEvent \<Rightarrow> bool" where
  "shows_bid a m \<longleftrightarrow> wa_amount a = be_value m \<and> wa_bidder a = be_sender m"

text \<open>The invariant: the store agrees with the house on everything but bids still being fetched.\<close>

definition follows :: "house \<Rightarrow> RootState \<Rightarrow> BidEvent list \<Rightarrow> bool" where
  "follows h r pending \<longleftrightarrow>
     house_ok h
     \<and> lastAuctionUNounId (onDisplayAuction r) = Some (wa_unounId (h_auction h))
     \<and> (\<forall>b \<in> set pending. be_unounId b \<le> wa_unounId (h_auction h))
     \<and> mset (bids (auction r)) + mset (current_bids h pending) = mset (h_bids h)
     \<and> (\<exists>a. activeAuction (auction r) = Some a
          \<and> wa_unounId a = wa_unounId (h_auction h) \<and> wa_startTime a = wa_startTime (h_auction h)
          \<and> wa_endTime a = wa_endTime (h_auction h) \<and> wa_settled a = wa_settled (h_auction h)
          \<and> (h_bids h = [] \<longrightarrow> wa_amount a = 0)
          \<and> (bids (auction r) \<noteq> [] \<longrightarrow>
               shows_bid a (the (maxBid (bids (auction r)))) \<or> wa_settled a \<and> shows_bid a (hd (h_bids h))))"

lemma follows_load:
  assumes "house_ok h" and "mset (current_bids h prev) = mset (h_bids h)"
    and "\<forall>b \<in> set prev. be_unounId b \<le> wa_unounId (h_auction h)"
  shows "follows h (load_current (h_auction h) (initial_root path)) prev"
  using assms
  by (auto simp: follows_def load_current_def auction_dispatch onDisplay_dispatch initial_root_def
      initial_auction_state_def setFullAuction_def setLastAuctionUNounId_def house_ok_def)

lemma follows_event:
  assumes "follows h r pending" and "house_step h e h'"
  shows "follows h' (notify e r) (pending @ awaiting e)"
proof -
  have ok: "house_ok h'" using assms house_step_ok by (auto simp: follows_def)
  from assms(2) show ?thesis
  proof cases
    case (Created i t0 t1)
    then have "current_bids h' pending = []"
      using assms(1) by (auto simp: follows_def current_bids_def filter_empty_conv)
    then show ?thesis
      using Created assms(1) ok
      by (auto simp: follows_def processAuctionCreated_def auction_dispatch onDisplay_dispatch setActiveAuction_def
          reduxSafeNewAuction_def as_create_event_def setOnDisplayAuctionUNounId_def setLastAuctionUNounId_def)
  next
    case (Bid b)
    then show ?thesis
      using assms(1) ok by (auto simp: follows_def current_bids_def)
  next
    case (Extended t1)
    then show ?thesis
      using assms(1) ok
      by (auto simp: follows_def current_bids_def processAuctionExtended_def auction_dispatch onDisplay_dispatch
          setAuctionExtended_def auctionsEqual_def shows_bid_def)
  next
    case Settled
    have "h_bids h \<noteq> []" if "bids (auction r) \<noteq> []"
      using that assms(1) by (auto simp: follows_def)
    then show ?thesis
      using Settled assms(1) ok
      by (auto simp: follows_def current_bids_def processAuctionSettled_def auction_dispatch onDisplay_dispatch
          setAuctionSettled_def auctionsEqual_def shows_bid_def house_ok_def neq_Nil_conv)
  qed
qed

lemma follows_deliver:
  assumes "follows h r (p1 @ b # p2)"
  shows "follows h (processBidFilter b r) (p1 @ p2)"
proof -
  obtain a where a: "activeAuction (auction r) = Some a" "wa_unounId a = wa_unounId (h_auction h)"
    and rest: "house_ok h" "mset (bids (auction r)) + mset (current_bids h (p1 @ b # p2)) = mset (h_bids h)"
    using assms by (auto simp: follows_def)
  show ?thesis
  proof (cases "be_unounId b = wa_unounId (h_auction h)")
    case False
    then have "auction (processBidFilter b r) = auction r"
      using a by (simp add: processBidFilter_def auction_dispatch appendBid_def auctionsEqual_def)
    then show ?thesis
      using assms False by (auto simp: follows_def current_bids_def processBidFilter_def onDisplay_dispatch)
  next
    case True
    have m: "mset (b # bids (auction r)) + mset (current_bids h (p1 @ p2)) = mset (h_bids h)"
      using rest(2) True by (simp add: current_bids_def)
    have "mset (map be_transactionHash (b # bids (auction r)))
        + mset (map be_transactionHash (current_bids h (p1 @ p2))) = mset (map be_transactionHash (h_bids h))"
      using arg_cong[OF m, of "image_mset be_transactionHash"] by simp
    then have "mset (map be_transactionHash ((b # bids (auction r)) @ current_bids h (p1 @ p2)))
        = mset (map be_transactionHash (h_bids h))" by simp
    moreover have "distinct (map be_transactionHash (h_bids h))" using rest(1) by (simp add: house_ok_def)
    ultimately have "distinct (map be_transactionHash ((b # bids (auction r)) @ current_bids h (p1 @ p2)))"
      by (metis mset_eq_imp_distinct_iff)
    then have fresh: "\<not> containsBid (bids (auction r)) b" by (auto simp: containsBid_def)
    have "h_bids h \<noteq> []" using m by auto
    then show ?thesis
      using assms True m fresh a
      by (auto simp: follows_def processBidFilter_def auction_dispatch onDisplay_dispatch appendBid_def
          auctionsEqual_def shows_bid_def Let_def)
  qed
qed

lemma follows_local: "follows h r pending \<Longrightarrow> is_local a \<Longrightarrow> follows h (dispatch a r) pending"
  by (simp add: follows_def local_keeps)

lemma sys_follows: "sys h r pending \<Longrightarrow> follows h r pending"
proof (induction rule: sys.induct)
  case (Load h prev path)
  then show ?case using follows_load house_reach_ok by blast
next
  case (Event h r pending e h')
  then show ?case using follows_event by blast
next
  case (Deliver h r p1 b p2)
  then show ?case using follows_deliver by blast
next
  case (Local h r pending a)
  then show ?case using follows_local by blast
qed

lemma max_is_highest:
  assumes "house_ok h" and "mset bs = mset (h_bids h)" and "bs \<noteq> []"
  shows "maxBid bs = Some (hd (h_bids h))"
proof -
  obtain m where m: "maxBid bs = Some m" "m \<in> set bs" "\<forall>x \<in> set bs. be_value x \<le> be_value m"
    using maxBid_max[OF assms(3)] by blast
  have eq: "set bs = set (h_bids h)" using assms(2) by (metis set_mset_mset)
  obtain x xs where x: "h_bids h = x # xs" using assms by (cases "h_bids h") auto
  have "m = x"
  proof (rule ccontr)
    assume "m \<noteq> x"
    then have "m \<in> set xs" using m(2) eq x by auto
    then have "be_value m < be_value x" using assms(1) x by (auto simp: house_ok_def)
    then show False using m(3) eq x by fastforce
  qed
  then show ?thesis using m x by simp
qed


definition sample_bid :: "int \<Rightarrow> string \<Rightarrow> BidEvent" where
  "sample_bid v tx = \<lparr>be_unounId = 7, be_sender = ''0xa'' @ tx, be_value = v, be_extended = False,
     be_transactionHash = tx, be_timestamp = v\<rparr>"

definition sample_auction :: WAuction where
  "sample_auction = \<lparr>wa_amount = 0, wa_bidder = zero_address, wa_startTime = 100, wa_endTime = 200,
     wa_unounId = 7, wa_settled = False\<rparr>"

definition sample_house :: "bool \<Rightarrow> house" where
  "sample_house done = \<lparr>h_auction = sample_auction\<lparr>wa_amount := 9, wa_bidder := ''0xay'', wa_settled := done\<rparr>,
     h_bids = [sample_bid 9 ''y'', sample_bid 5 ''x'']\<rparr>"

lemma sample_run:
  "\<exists>r. sys (sample_house True) r []"
proof -
  let ?h0 = "\<lparr>h_auction = sample_auction, h_bids = []\<rparr> :: house"
  let ?h1 = "\<lparr>h_auction = sample_auction\<lparr>wa_amount := 5, wa_bidder := ''0xax''\<rparr>, h_bids = [sample_bid 5 ''x'']\<rparr> :: house"
  have r0: "house_reach ?h0"
    using house_reach.First[of 100 200 7] by (simp add: sample_auction_def)
  have s0: "sys ?h0 (load_current (h_auction ?h0) (initial_root ''/'')) []"
    using sys.Load[OF r0, of "[]" "''/''"] by (simp add: current_bids_def)
  have "house_step ?h0 (EBid (sample_bid 5 ''x'')) ?h1"
    using house_step.Bid[of ?h0 "sample_bid 5 ''x''"] by (simp add: sample_auction_def sample_bid_def)
  from sys.Event[OF s0 this] obtain r1 where s1: "sys ?h1 r1 [sample_bid 5 ''x'']" by auto
  have "house_step ?h1 (EBid (sample_bid 9 ''y'')) (sample_house False)"
    using house_step.Bid[of ?h1 "sample_bid 9 ''y''"] by (simp add: sample_auction_def sample_bid_def sample_house_def)
  from sys.Event[OF s1 this] obtain r2 where s2: "sys (sample_house False) r2 [sample_bid 5 ''x'', sample_bid 9 ''y'']"
    by auto
  have "house_step (sample_house False) (ESettled 7 ''0xay'' 9) (sample_house True)"
    using house_step.Settled[of "sample_house False"] by (simp add: sample_auction_def sample_house_def)
  from sys.Event[OF s2 this] obtain r3 where "sys (sample_house True) r3 [sample_bid 5 ''x'', sample_bid 9 ''y'']"
    by auto
  from sys.Deliver[of _ _ "[sample_bid 5 ''x'']" "sample_bid 9 ''y''" "[]"] this
  obtain r4 where "sys (sample_house True) r4 [sample_bid 5 ''x'']" by auto
  from sys.Deliver[of _ _ "[]" "sample_bid 5 ''x''" "[]"] this show ?thesis by auto
qed


section \<open>What is on display\<close>

text \<open>Every entry that the subgraph's answer puts into the slice carries an auction, so the search of
  \<^verbatim>\<open>nounderNoun.ts\<close> does not throw.\<close>

definition shown_past :: "SgAuction \<Rightarrow> WAuction" where
  "shown_past sa =
     \<lparr>wa_amount = sa_amount sa, wa_bidder = (case sa_bidder sa of Some b \<Rightarrow> b | None \<Rightarrow> ''''),
      wa_startTime = sa_startTime sa, wa_endTime = sa_endTime sa, wa_unounId = sa_id sa, wa_settled = False\<rparr>"

definition past_entry :: "SgAuction \<Rightarrow> AuctionState" where
  "past_entry sa = \<lparr>activeAuction = Some (shown_past sa), bids = map (reduxSafePastBid sa) (sa_bids sa)\<rparr>"

lemma addPastAuctions_entries: "addPastAuctions l old = map past_entry l"
  by (simp add: addPastAuctions_def reduxSafePastAuctions_def past_entry_def shown_past_def)

lemma findAuction_past:
  "findAuction i (map past_entry l) = Inr (map_option shown_past (find (\<lambda>sa. sa_id sa = i) l))"
  by (induction l) (auto simp: past_entry_def shown_past_def)

lemma past_auction_of_past:
  "past_auction_of i (map past_entry l) = map_option past_entry (find (\<lambda>sa. sa_id sa = i) l)"
  by (induction l) (auto simp: past_entry_def shown_past_def past_auction_of_def)

text \<open>C19. The auction on display: given the subgraph's past auctions, the hook never throws and shows the current
  auction under its id, an empty auction that starts with the next one for Nouns minted to the founders or the
  council, and the subgraph's auction for any other id, or nothing if there is none; whatever it shows claims not to be settled.\<close>

theorem useOnDisplayAuction_spec:
  assumes "pastAuctions s = addPastAuctions l old" and "activeAuction (auction s) = Some cur"
    and "onDisplayAuctionUNounId (onDisplayAuction s) = Some i"
  shows "useOnDisplayAuction s = Inr
    (if i = wa_unounId cur then Some (cur\<lparr>wa_settled := False\<rparr>)
     else if isNounderNoun i \<or> isUNouncilUNoun i
     then Some ((emptyNounderAuction i)\<lparr>wa_startTime :=
            (case find (\<lambda>sa. sa_id sa = i + 1) l of None \<Rightarrow> 0 | Some sa \<Rightarrow> sa_startTime sa)\<rparr>)
     else map_option shown_past (find (\<lambda>sa. sa_id sa = i) l))"
  using assms
  by (auto simp: useOnDisplayAuction_def addPastAuctions_entries generateEmptyNounderAuction_def
      generateEmptyUNouncilAuction_def findAuction_past past_auction_of_past deserializeAuction_def
      emptyNounderAuction_def shown_past_def past_entry_def Let_def split: option.splits)

definition sample_past :: "SgAuction list" where
  "sample_past = [\<lparr>sa_id = 11, sa_amount = 4, sa_startTime = 50, sa_endTime = 60, sa_bidder = None, sa_bids = []\<rparr>]"

definition sample_root :: RootState where
  "sample_root = (initial_root ''/'')\<lparr>auction := \<lparr>activeAuction = Some sample_auction, bids = []\<rparr>,
     pastAuctions := addPastAuctions sample_past [],
     onDisplayAuction := \<lparr>lastAuctionUNounId = Some 7, onDisplayAuctionUNounId = Some 10\<rparr>\<rparr>"

theorem useOnDisplayAuction_spec_witness:
  "useOnDisplayAuction sample_root = Inr (Some ((emptyNounderAuction 10)\<lparr>wa_startTime := 50\<rparr>))"
  by (subst useOnDisplayAuction_spec[where l = sample_past and old = "[]" and cur = sample_auction and i = 10])
    (simp_all add: sample_root_def sample_past_def sample_auction_def isNounderNoun_def)

text \<open>Which Nouns \<^verbatim>\<open>UNounsToken.mint\<close> gives away without an auction.\<close>

definition minted_to_nounders :: "int \<Rightarrow> bool" where
  "minted_to_nounders i \<longleftrightarrow> i \<le> 1865 \<and> i mod 10 = 0"

definition minted_to_council :: "int \<Rightarrow> bool" where
  "minted_to_council i \<longleftrightarrow> i \<le> 222 \<and> i mod 10 = 2"

text \<open>The web app's idea of these Nouns misses the contract's in two places: Noun 222 goes to the council
  but is taken for an auctioned one, and every tenth Noun above 1865 is auctioned but taken for a founders' Noun.
  For the Noun below a council Noun the voting time is looked up under the council Noun's id, which has no
  auction, so it is 0.\<close>

theorem nounder_ids_differ:
  "(isUNouncilUNoun i \<noteq> minted_to_council i \<longleftrightarrow> i = 222)
    \<and> (isNounderNoun i \<noteq> minted_to_nounders i \<longleftrightarrow> 1865 < i \<and> i mod 10 = 0)
    \<and> (if minted_to_council (j + 1) \<and> pastAuctions s = addPastAuctions l old
           \<and> list_all (\<lambda>sa. \<not> minted_to_council (sa_id sa)) l
        then useNounCanVoteTimestamp j s = 0 else True)"
proof -
  have "useNounCanVoteTimestamp j s = 0"
    if c: "minted_to_council (j + 1)" "pastAuctions s = addPastAuctions l old"
      "list_all (\<lambda>sa. \<not> minted_to_council (sa_id sa)) l"
  proof -
    have "\<not> isNounderNoun (j + 1)" using c(1) by (auto simp: isNounderNoun_def minted_to_council_def)
    moreover have "find (\<lambda>sa. sa_id sa = j + 1) l = None"
      using c(1,3) by (auto simp: find_None_iff list_all_iff)
    ultimately show ?thesis
      using c(2) by (simp add: useNounCanVoteTimestamp_def addPastAuctions_entries past_auction_of_past)
  qed
  then show ?thesis
    by (auto simp: isUNouncilUNoun_def minted_to_council_def isNounderNoun_def minted_to_nounders_def)
qed

end
