(* ===== verification/Web_Logs.thy ===== *)
theory Web_Logs
  imports Js_Strings
begin

text \<open>
  Event logs in the web app: \<^verbatim>\<open>utils/logParsing.ts\<close>, the slice \<^verbatim>\<open>state/slices/logs.ts\<close>, the fetching in
  \<^verbatim>\<open>state/updaters/logs.ts\<close> and the hook \<^verbatim>\<open>hooks/useLogs.ts\<close>. The node's \<open>getLogs\<close> is a parameter, a
  function from the filter and the block range to a list of logs, or \<open>None\<close> when the call is rejected.
\<close>

section \<open>utils/logParsing.ts\<close>

datatype topic = TStr string | TArr "string list" | TNull

record EventFilter =
  ef_address :: "string option"
  ef_topics :: "topic list option"
  ef_fromBlock :: "int option"

record Log =
  lg_topics :: "string list"
  lg_transactionHash :: string
  lg_data :: string

text \<open>\<open>topic ? ... : '\0'\<close>: the empty string and \<open>null\<close> are falsy, an empty array is not.\<close>

fun topic_key :: "topic \<Rightarrow> string" where
  "topic_key (TStr s) = (if s = '''' then [CHR 0x00] else s)"
| "topic_key (TArr l) = join '';'' l"
| "topic_key TNull = [CHR 0x00]"

definition filterToKey :: "EventFilter \<Rightarrow> string" where
  "filterToKey f =
     (case ef_address f of None \<Rightarrow> '''' | Some a \<Rightarrow> a) @ '':''
     @ (case ef_topics f of None \<Rightarrow> '''' | Some ts \<Rightarrow> join ''-'' (map topic_key ts))"

definition topic_of :: "string \<Rightarrow> topic" where
  "topic_of t = (let parts = split_str '';'' t in if length parts = 1 then TStr (hd parts) else TArr parts)"

definition keyToFilter :: "string \<Rightarrow> EventFilter" where
  "keyToFilter key =
     (let pcs = split_str '':'' key;
          address = pcs ! 0;
          topics = map topic_of (split_str ''-'' (pcs ! 1))
      in \<lparr>ef_address = (if address = '''' then None else Some address), ef_topics = Some topics, ef_fromBlock = None\<rparr>)"

section \<open>state/slices/logs.ts\<close>

datatype log_results = Fetched int "Log list" | FetchError int

fun results_block :: "log_results \<Rightarrow> int" where
  "results_block (Fetched b l) = b"
| "results_block (FetchError b) = b"

record LogEntry =
  listeners :: int
  fetchingBlockNumber :: "int option"
  results :: "log_results option"

text \<open>An object keyed by strings, whose keys iterate in the order of insertion.\<close>

type_synonym LogsState = "(string \<times> LogEntry) list"

definition addListener :: "EventFilter \<Rightarrow> LogsState \<Rightarrow> LogsState" where
  "addListener f s =
     (let key = filterToKey f
      in case map_of s key of
           None \<Rightarrow> AList.update key \<lparr>listeners = 1, fetchingBlockNumber = None, results = None\<rparr> s
         | Some e \<Rightarrow> AList.update key (e\<lparr>listeners := listeners e + 1\<rparr>) s)"

definition fetching_one :: "int \<Rightarrow> EventFilter \<Rightarrow> LogsState \<Rightarrow> LogsState" where
  "fetching_one blockNumber f s =
     (let key = filterToKey f
      in case map_of s key of
           None \<Rightarrow> s
         | Some e \<Rightarrow> AList.update key (e\<lparr>fetchingBlockNumber := Some blockNumber\<rparr>) s)"

definition fetchingLogs :: "EventFilter list \<Rightarrow> int \<Rightarrow> LogsState \<Rightarrow> LogsState" where
  "fetchingLogs filters blockNumber s = fold (fetching_one blockNumber) filters s"

definition store_results :: "EventFilter \<Rightarrow> log_results \<Rightarrow> LogsState \<Rightarrow> LogsState" where
  "store_results f r s =
     (let key = filterToKey f
      in case map_of s key of
           None \<Rightarrow> s
         | Some e \<Rightarrow>
             if (case results e of None \<Rightarrow> False | Some old \<Rightarrow> results_block r < results_block old) then s
             else AList.update key (e\<lparr>results := Some r\<rparr>) s)"

definition fetchedLogs :: "EventFilter \<Rightarrow> int \<Rightarrow> Log list \<Rightarrow> LogsState \<Rightarrow> LogsState" where
  "fetchedLogs f blockNumber logs = store_results f (Fetched blockNumber logs)"

definition fetchedLogsError :: "EventFilter \<Rightarrow> int \<Rightarrow> LogsState \<Rightarrow> LogsState" where
  "fetchedLogsError f blockNumber = store_results f (FetchError blockNumber)"

definition removeListener :: "EventFilter \<Rightarrow> LogsState \<Rightarrow> LogsState" where
  "removeListener f s =
     (let key = filterToKey f
      in case map_of s key of
           None \<Rightarrow> s
         | Some e \<Rightarrow> AList.update key (e\<lparr>listeners := listeners e - 1\<rparr>) s)"

section \<open>state/updaters/logs.ts\<close>

definition MAX_BLOCKS_PER_CALL :: int where
  "MAX_BLOCKS_PER_CALL = 1000000"

definition needs_fetch :: "int \<Rightarrow> LogEntry \<Rightarrow> bool" where
  "needs_fetch blockNumber e =
     (if listeners e = 0 then False
      else if (case fetchingBlockNumber e of None \<Rightarrow> False | Some b \<Rightarrow> blockNumber \<le> b) then False
      else if (case results e of None \<Rightarrow> False | Some r \<Rightarrow> blockNumber \<le> results_block r) then False
      else True)"

definition filtersNeedFetch :: "int option \<Rightarrow> LogsState \<Rightarrow> EventFilter list" where
  "filtersNeedFetch blockNumber s =
     (case blockNumber of None \<Rightarrow> []
      | Some b \<Rightarrow> map (\<lambda>(key, e). keyToFilter key) (filter (\<lambda>(key, e). needs_fetch b e) s))"

text \<open>The loop that cuts the blocks into ranges.\<close>

function block_ranges :: "int \<Rightarrow> int \<Rightarrow> (int \<times> int) list" where
  "block_ranges fromBlock blockNumber =
     (if fromBlock \<le> blockNumber
      then (fromBlock, min (fromBlock + MAX_BLOCKS_PER_CALL) blockNumber)
             # block_ranges (fromBlock + MAX_BLOCKS_PER_CALL) blockNumber
      else [])"
  by pat_completeness auto
termination
  by (relation "measure (\<lambda>(f, b). nat (b + 1 - f))") (auto simp: MAX_BLOCKS_PER_CALL_def)

declare block_ranges.simps [simp del]

type_synonym node = "EventFilter \<Rightarrow> int \<Rightarrow> int \<Rightarrow> Log list option"

definition fetch_filter :: "node \<Rightarrow> int \<Rightarrow> EventFilter \<Rightarrow> LogsState \<Rightarrow> LogsState" where
  "fetch_filter getLogs blockNumber f =
     (let ranges = block_ranges (case ef_fromBlock f of None \<Rightarrow> 0 | Some b \<Rightarrow> b) blockNumber;
          answers = map (\<lambda>(a, b). getLogs f a b) ranges
      in if None \<in> set answers then fetchedLogsError f blockNumber
         else fetchedLogs f blockNumber (concat (map the answers)))"

text \<open>One run of the effect: the filters are marked as being fetched, and each answer is stored when it arrives
  (here in the order of the filters).\<close>

definition update_logs :: "node \<Rightarrow> int option \<Rightarrow> LogsState \<Rightarrow> LogsState" where
  "update_logs getLogs blockNumber s =
     (case blockNumber of None \<Rightarrow> s
      | Some b \<Rightarrow>
          let filters = filtersNeedFetch blockNumber s
          in if filters = [] then s
             else fold (fetch_filter getLogs b) filters (fetchingLogs filters b s))"

section \<open>hooks/useLogs.ts\<close>

datatype LogsStatus = INVALID | LOADING | SYNCING | ERROR | SYNCED

definition useLogs :: "EventFilter option \<Rightarrow> int option \<Rightarrow> LogsState \<Rightarrow> Log list option \<times> LogsStatus" where
  "useLogs f blockNumber logs =
     (case (f, blockNumber) of
        (Some f, Some b) \<Rightarrow>
          if b = 0 then (None, INVALID)
          else (case Option.bind (map_of logs (filterToKey f)) results of
                  None \<Rightarrow> (None, LOADING)
                | Some (FetchError _) \<Rightarrow> (None, ERROR)
                | Some (Fetched rb ls) \<Rightarrow> (Some ls, if b \<le> rb then SYNCED else SYNCING))
      | _ \<Rightarrow> (None, INVALID))"

text \<open>Mounting the hook with a filter adds a listener, unmounting it removes one.\<close>

definition mount_logs :: "EventFilter option \<Rightarrow> LogsState \<Rightarrow> LogsState" where
  "mount_logs f s = (case f of None \<Rightarrow> s | Some f \<Rightarrow> addListener f s)"

definition unmount_logs :: "EventFilter option \<Rightarrow> LogsState \<Rightarrow> LogsState" where
  "unmount_logs f s = (case f of None \<Rightarrow> s | Some f \<Rightarrow> removeListener f s)"

section \<open>Keys and filters\<close>

definition plain_text :: "string \<Rightarrow> bool" where
  "plain_text s \<longleftrightarrow> CHR '':'' \<notin> set s \<and> CHR '';'' \<notin> set s \<and> CHR ''-'' \<notin> set s"

fun plain_topic :: "topic \<Rightarrow> bool" where
  "plain_topic (TStr s) = plain_text s"
| "plain_topic (TArr l) = (2 \<le> length l \<and> list_all plain_text l)"
| "plain_topic TNull = True"

definition plain_filter :: "EventFilter \<Rightarrow> bool" where
  "plain_filter f \<longleftrightarrow>
     (case ef_address f of None \<Rightarrow> True | Some a \<Rightarrow> a \<noteq> '''' \<and> CHR '':'' \<notin> set a)
     \<and> (case ef_topics f of None \<Rightarrow> False | Some ts \<Rightarrow> ts \<noteq> [] \<and> list_all plain_topic ts)"

fun nulls_as_text :: "topic \<Rightarrow> topic" where
  "nulls_as_text (TStr s) = TStr (if s = '''' then [CHR 0x00] else s)"
| "nulls_as_text (TArr l) = TArr l"
| "nulls_as_text TNull = TStr [CHR 0x00]"

lemma set_join: "set (join sep l) \<subseteq> set sep \<union> \<Union> (set ` set l)"
  by (induction sep l rule: join.induct) auto

lemma plain_topic_key:
  assumes "plain_topic t"
  shows "CHR '':'' \<notin> set (topic_key t)" "CHR ''-'' \<notin> set (topic_key t)"
proof -
  have "set (topic_key t) \<subseteq> {CHR 0x00, CHR '';''} \<union> \<Union> (set ` set l)" if "t = TArr l" for l
    using set_join[of "'';''" l] that by auto
  moreover have "c \<notin> \<Union> (set ` set l)" if "t = TArr l" "c \<in> {CHR '':'', CHR ''-''}" for l c
    using assms that by (auto simp: plain_text_def list_all_iff)
  ultimately have arr: "CHR '':'' \<notin> set (topic_key t) \<and> CHR ''-'' \<notin> set (topic_key t)" if "t = TArr l" for l
    using that by blast
  show "CHR '':'' \<notin> set (topic_key t)" "CHR ''-'' \<notin> set (topic_key t)"
    using assms arr by (cases t; simp add: plain_text_def)+
qed

lemma topic_of_key: "plain_topic t \<Longrightarrow> topic_of (topic_key t) = nulls_as_text t"
proof (cases t)
  case (TStr s)
  then show "plain_topic t \<Longrightarrow> ?thesis" by (simp add: topic_of_def split_str_char_None plain_text_def)
next
  case (TArr l)
  assume p: "plain_topic t"
  then have "split_str '';'' (join '';'' l) = l"
    using TArr by (intro split_str_join) (auto simp: plain_text_def list_all_iff)
  then show ?thesis using TArr p by (simp add: topic_of_def)
next
  case TNull
  then show "plain_topic t \<Longrightarrow> ?thesis" by (simp add: topic_of_def split_str_char_None)
qed


definition sample_filter :: EventFilter where
  "sample_filter = \<lparr>ef_address = Some ''0xab'', ef_topics = Some [TStr ''0x1'', TNull, TArr [''0x2'', ''0x3'']], ef_fromBlock = Some 12\<rparr>"


section \<open>The ranges\<close>

definition ranges_of :: "int \<Rightarrow> int \<Rightarrow> int \<Rightarrow> (int \<times> int) list" where
  "ranges_of fromBlock blockNumber n = filter (\<lambda>(a, b). a \<le> n \<and> n \<le> b) (block_ranges fromBlock blockNumber)"

lemma block_ranges_from: "(a, b) \<in> set (block_ranges f n) \<Longrightarrow> f \<le> a \<and> a \<le> n \<and> b \<le> n"
proof (induction f n rule: block_ranges.induct)
  case (1 f n)
  then show ?case
    by (subst (asm) (2) block_ranges.simps) (auto simp: MAX_BLOCKS_PER_CALL_def split: if_splits)
qed

lemma ranges_of_step:
  "f \<le> n \<Longrightarrow> ranges_of f n k =
    (if f \<le> k \<and> k \<le> min (f + MAX_BLOCKS_PER_CALL) n then [(f, min (f + MAX_BLOCKS_PER_CALL) n)] else [])
      @ ranges_of (f + MAX_BLOCKS_PER_CALL) n k"
  "n < f \<Longrightarrow> ranges_of f n k = []"
  unfolding ranges_of_def by (subst block_ranges.simps; simp)+

lemma ranges_of_before: "k < f \<Longrightarrow> ranges_of f n k = []"
  using block_ranges_from[of _ _ f n] by (fastforce simp: ranges_of_def filter_empty_conv)

lemma ranges_of_count:
  assumes "f \<le> k" and "k \<le> n"
  shows "length (ranges_of f n k) = (if f < k \<and> (k - f) mod MAX_BLOCKS_PER_CALL = 0 then 2 else 1)"
  using assms
proof (induction f n rule: block_ranges.induct)
  case (1 f n)
  let ?M = MAX_BLOCKS_PER_CALL
  have M: "?M = 1000000" by (simp add: MAX_BLOCKS_PER_CALL_def)
  have fn: "f \<le> n" using "1.prems" by simp
  consider "k < f + ?M" | "k = f + ?M" | "f + ?M < k" by linarith
  then show ?case
  proof cases
    case 1
    then have "(k - f) mod ?M = k - f" using "1.prems" M by simp
    then show ?thesis using 1 "1.prems" fn by (auto simp: ranges_of_step(1)[OF fn] ranges_of_before)
  next
    case 2
    then have "length (ranges_of (f + ?M) n k) = 1" using "1.IH"[OF fn] "1.prems" by simp
    then show ?thesis using 2 "1.prems" M by (simp add: ranges_of_step(1)[OF fn])
  next
    case 3
    have "(k - (f + ?M)) mod ?M = (k - f) mod ?M" using M by (metis diff_diff_eq minus_mod_self2)
    then have "length (ranges_of (f + ?M) n k) = (if (k - f) mod ?M = 0 then 2 else 1)"
      using "1.IH"[OF fn] 3 "1.prems" by simp
    then show ?thesis using 3 "1.prems" M by (simp add: ranges_of_step(1)[OF fn])
  qed
qed

text \<open>C16. The ranges that the updater requests cover every block from the first to the current one and no other,
  but each block a multiple of 1,000,000 after the first is requested twice, so its logs appear twice in the store.\<close>

theorem block_ranges_cover:
  "length (ranges_of fromBlock blockNumber k) =
     (if k < fromBlock \<or> blockNumber < k then 0
      else if fromBlock < k \<and> (k - fromBlock) mod MAX_BLOCKS_PER_CALL = 0 then 2 else 1)"
proof (cases "k < fromBlock \<or> blockNumber < k")
  case True
  then show ?thesis
    using block_ranges_from[of _ _ fromBlock blockNumber] by (fastforce simp: ranges_of_def filter_empty_conv)
next
  case False
  then show ?thesis using ranges_of_count[of fromBlock k blockNumber] by simp
qed

section \<open>The updater serves its listeners\<close>

definition entry_of :: "string \<Rightarrow> LogsState \<Rightarrow> LogEntry option" where
  "entry_of k s = map_of s k"

definition fetch_answer :: "node \<Rightarrow> int \<Rightarrow> EventFilter \<Rightarrow> log_results" where
  "fetch_answer getLogs b f =
     (let answers = map (\<lambda>(x, y). getLogs f x y) (block_ranges (case ef_fromBlock f of None \<Rightarrow> 0 | Some n \<Rightarrow> n) b)
      in if None \<in> set answers then FetchError b else Fetched b (concat (map the answers)))"

lemma fetch_filter_store: "fetch_filter getLogs b f s = store_results f (fetch_answer getLogs b f) s"
  by (simp add: fetch_filter_def fetch_answer_def fetchedLogs_def fetchedLogsError_def Let_def)

lemma fetch_answer_block [simp]: "results_block (fetch_answer getLogs b f) = b"
  by (simp add: fetch_answer_def Let_def)

lemma entry_store_results:
  "entry_of k (store_results f r s) =
     (if k = filterToKey f
      then map_option (\<lambda>e. if (case results e of None \<Rightarrow> False | Some old \<Rightarrow> results_block r < results_block old)
             then e else e\<lparr>results := Some r\<rparr>) (entry_of k s)
      else entry_of k s)"
  by (auto simp: entry_of_def store_results_def Let_def update_conv' split: option.splits)

lemma entry_fetch_filter:
  "entry_of k (fetch_filter g b f s) =
     (if k = filterToKey f
      then map_option (\<lambda>e. if (case results e of None \<Rightarrow> False | Some old \<Rightarrow> b < results_block old)
             then e else e\<lparr>results := Some (fetch_answer g b f)\<rparr>) (entry_of k s)
      else entry_of k s)"
  unfolding fetch_filter_store entry_store_results fetch_answer_block ..

lemma entry_fetching_one:
  "entry_of k (fetching_one b f s) =
     (if k = filterToKey f then map_option (\<lambda>e. e\<lparr>fetchingBlockNumber := Some b\<rparr>) (entry_of k s) else entry_of k s)"
  by (auto simp: entry_of_def fetching_one_def Let_def update_conv' split: option.splits)

lemma entry_fetchingLogs:
  "entry_of k (fetchingLogs fs b s) =
     (if k \<in> filterToKey ` set fs then map_option (\<lambda>e. e\<lparr>fetchingBlockNumber := Some b\<rparr>) (entry_of k s)
      else entry_of k s)"
  unfolding fetchingLogs_def
  by (induction fs arbitrary: s) (auto simp: entry_fetching_one option.map_comp comp_def split: option.splits)

lemma entry_fold_other:
  "k \<notin> filterToKey ` set fs \<Longrightarrow> entry_of k (fold (fetch_filter g b) fs s) = entry_of k s"
  by (induction fs arbitrary: s) (auto simp: entry_fetch_filter)

lemma entry_fold_hit:
  assumes "distinct (map filterToKey fs)" and "f \<in> set fs" and "entry_of (filterToKey f) s = Some e"
    and "case results e of None \<Rightarrow> True | Some old \<Rightarrow> results_block old \<le> b"
  shows "entry_of (filterToKey f) (fold (fetch_filter g b) fs s) = Some (e\<lparr>results := Some (fetch_answer g b f)\<rparr>)"
  using assms
proof (induction fs arbitrary: s)
  case (Cons h fs)
  show ?case
  proof (cases "h = f")
    case True
    then have "filterToKey f \<notin> filterToKey ` set fs" using Cons.prems(1) by auto
    then have "entry_of (filterToKey f) (fold (fetch_filter g b) (h # fs) s) = entry_of (filterToKey f) (fetch_filter g b f s)"
      using True by (simp add: entry_fold_other)
    then show ?thesis
      using Cons.prems by (auto simp: entry_fetch_filter split: option.splits)
  next
    case False
    then have "f \<in> set fs" "filterToKey h \<noteq> filterToKey f" using Cons.prems by auto
    then show ?thesis
      using Cons.prems by (simp add: Cons.IH entry_fetch_filter)
  qed
qed simp

definition canonical_keys :: "LogsState \<Rightarrow> bool" where
  "canonical_keys s \<longleftrightarrow> distinct (map fst s) \<and> list_all (\<lambda>k. filterToKey (keyToFilter k) = k) (map fst s)"

lemma canonical_fetch_keys:
  assumes "canonical_keys s"
  shows "map filterToKey (filtersNeedFetch (Some b) s) = map fst (filter (\<lambda>(k, e). needs_fetch b e) s)"
    "distinct (map filterToKey (filtersNeedFetch (Some b) s))"
proof -
  show eq: "map filterToKey (filtersNeedFetch (Some b) s) = map fst (filter (\<lambda>(k, e). needs_fetch b e) s)"
    using assms by (auto simp: canonical_keys_def filtersNeedFetch_def list_all_iff)
  have "distinct (map fst (filter P s))" for P :: "string \<times> LogEntry \<Rightarrow> bool"
    using assms unfolding canonical_keys_def by (simp add: distinct_map_filter)
  then show "distinct (map filterToKey (filtersNeedFetch (Some b) s))" unfolding eq .
qed

lemma needs_fetch_older:
  "needs_fetch b e \<Longrightarrow> (case results e of None \<Rightarrow> True | Some old \<Rightarrow> results_block old \<le> b)"
  by (auto simp: needs_fetch_def split: if_splits option.splits)

lemma update_logs_entry:
  assumes "canonical_keys s" and "entry_of k s = Some e" and "needs_fetch b e"
  shows "entry_of k (update_logs g (Some b) s)
    = Some (e\<lparr>fetchingBlockNumber := Some b, results := Some (fetch_answer g b (keyToFilter k))\<rparr>)"
proof -
  let ?fs = "filtersNeedFetch (Some b) s"
  have "(k, e) \<in> set s" using assms(2) by (simp add: entry_of_def map_of_SomeD)
  then have mem: "keyToFilter k \<in> set ?fs" and canon: "filterToKey (keyToFilter k) = k"
    using assms(1,3) by (force simp: filtersNeedFetch_def canonical_keys_def list_all_iff)+
  then have "k \<in> filterToKey ` set ?fs" by (metis imageI)
  then have "entry_of k (fetchingLogs ?fs b s) = Some (e\<lparr>fetchingBlockNumber := Some b\<rparr>)"
    using assms(2) by (simp add: entry_fetchingLogs)
  then show ?thesis
    using entry_fold_hit[OF canonical_fetch_keys(2)[OF assms(1)] mem, of "fetchingLogs ?fs b s" _ b g] canon mem
      needs_fetch_older[OF assms(3)]
    by (auto simp: update_logs_def Let_def)
qed


definition short_filter :: EventFilter where
  "short_filter = \<lparr>ef_address = Some ''a'', ef_topics = Some [TStr ''t''], ef_fromBlock = None\<rparr>"


section \<open>A filter without topics is never served\<close>

text \<open>The key of a filter without topics does not lead back to itself, so what the updater stores for it goes
  nowhere: however often it runs, the hook stays in the loading state and the filter is requested again.\<close>

theorem no_topics_never_served:
  assumes "ef_topics f = None \<or> ef_topics f = Some []"
    and "case ef_address f of None \<Rightarrow> True | Some a \<Rightarrow> CHR '':'' \<notin> set a"
    and "s' = fold (\<lambda>b. update_logs getLogs (Some b)) blocks (mount_logs (Some f) [])" and "0 < b"
  shows "useLogs (Some f) (Some b) s' = (None, LOADING) \<and> length (filtersNeedFetch (Some b) s') = 1"
proof -
  define a where "a = (case ef_address f of None \<Rightarrow> [] | Some a \<Rightarrow> a)"
  have a: "CHR '':'' \<notin> set a" using assms(2) by (auto simp: a_def split: option.splits)
  have key: "filterToKey f = a @ '':''" using assms(1) by (auto simp: filterToKey_def a_def)
  let ?e = "\<lparr>listeners = 1, fetchingBlockNumber = None, results = None\<rparr> :: LogEntry"
  have pcs: "split_str '':'' (a @ '':'') = [a, []]"
    using split_str_char[OF a, of "[]"] by (simp add: split_str_char_None)
  have returns: "filterToKey (keyToFilter (a @ '':'')) = a @ '':'' @ [CHR 0x00]"
    unfolding keyToFilter_def pcs Let_def
    by (simp add: filterToKey_def topic_of_def split_str_char_None)
  have s0: "mount_logs (Some f) [] = [(a @ '':'', ?e)]"
    by (simp add: mount_logs_def addListener_def key Let_def)
  have need: "filtersNeedFetch (Some n) [(a @ '':'', ?e)] = [keyToFilter (a @ '':'')]" for n
    by (simp add: filtersNeedFetch_def needs_fetch_def)
  have "update_logs getLogs (Some n) [(a @ '':'', ?e)] = [(a @ '':'', ?e)]" for n
    by (simp add: update_logs_def need Let_def fetchingLogs_def fetching_one_def fetch_filter_store
        store_results_def returns)
  then have "fold (\<lambda>b. update_logs getLogs (Some b)) blocks [(a @ '':'', ?e)] = [(a @ '':'', ?e)]"
    by (induction blocks) simp_all
  then show ?thesis
    using assms(3,4) by (simp add: s0 useLogs_def key need)
qed

theorem no_topics_never_served_witness:
  "useLogs (Some \<lparr>ef_address = Some ''a'', ef_topics = None, ef_fromBlock = None\<rparr>) (Some 3)
     (fold (\<lambda>b. update_logs (\<lambda>f x y. Some []) (Some b)) [1, 2, 3]
       (mount_logs (Some \<lparr>ef_address = Some ''a'', ef_topics = None, ef_fromBlock = None\<rparr>) [])) = (None, LOADING)"
proof -
  let ?f = "\<lparr>ef_address = Some ''a'', ef_topics = None, ef_fromBlock = None\<rparr> :: EventFilter"
  show ?thesis
    using no_topics_never_served[of ?f _ "\<lambda>f x y. Some []" "[1, 2, 3]" 3, OF _ _ refl] by simp
qed

end
