(* ===== verification/Web_Activity.thy ===== *)
theory Web_Activity
  imports Web_Dao "HOL-Library.Multiset"
begin

text \<open>
  The activity feed of a Noun (\<^verbatim>\<open>wrappers/nounActivity.ts\<close>) and the seed cache and token reads of
  \<^verbatim>\<open>wrappers/nounToken.ts\<close>. A GraphQL query is a record of its loading and error flags and its data; the
  numbers of the subgraph are decimal numerals and stand here as integers. A contract call that has not
  answered is \<open>None\<close>. The browser's local storage holds the parsed JSON of the seed cache.
\<close>

section \<open>Queries and events\<close>

record 'a query =
  q_loading :: bool
  q_error :: bool
  q_data :: "'a option"

record NounVoteHistory =
  vh_proposal :: string
  vh_blockNumber :: int
  vh_voter :: string
  vh_supportDetailed :: int

record TransferRow =
  te_id :: string
  te_blockNumber :: int
  te_previousHolder :: string
  te_newHolder :: string

record DelegationRow =
  dl_id :: string
  dl_blockNumber :: int
  dl_previousDelegate :: string
  dl_newDelegate :: string

datatype NounEventType = PROPOSAL_VOTE | DELEGATION | TRANSFER | AUCTION_WIN

datatype event_payload =
    ProposalVotePayload PartialProposal "string option" "int option"
  | DelegationPayload string string string
  | TransferPayload string string string
  | NounWinPayload int string string

fun eventType :: "event_payload \<Rightarrow> NounEventType" where
  "eventType (ProposalVotePayload p v u) = PROPOSAL_VOTE"
| "eventType (DelegationPayload a b t) = DELEGATION"
| "eventType (TransferPayload a b t) = TRANSFER"
| "eventType (NounWinPayload i w t) = AUCTION_WIN"

record NounProfileEvent =
  ne_blockNumber :: int
  ne_payload :: event_payload

record FetcherResponse =
  fr_data :: "NounProfileEvent list option"
  fr_error :: bool
  fr_loading :: bool

definition response_loading :: FetcherResponse where
  "response_loading = \<lparr>fr_data = None, fr_error = False, fr_loading = True\<rparr>"

definition response_error :: FetcherResponse where
  "response_error = \<lparr>fr_data = None, fr_error = True, fr_loading = False\<rparr>"

definition response_data :: "NounProfileEvent list \<Rightarrow> FetcherResponse" where
  "response_data es = \<lparr>fr_data = Some es, fr_error = False, fr_loading = False\<rparr>"

section \<open>Votes on proposals\<close>

definition votes_by_proposal :: "NounVoteHistory list \<Rightarrow> (string \<rightharpoonup> NounVoteHistory)" where
  "votes_by_proposal votes = fold (\<lambda>h acc. acc(vh_proposal h \<mapsto> h)) votes Map.empty"

definition keep_proposal :: "int \<Rightarrow> int \<Rightarrow> PartialProposal \<Rightarrow> bool" where
  "keep_proposal nounCanVoteTimestamp proposalCreationTimestamp p =
     (if proposalCreationTimestamp < nounCanVoteTimestamp then False
      else if pp_status p = SCANCELLED
        \<and> num_eq (num_add (num_add (pp_forCount p) (pp_abstainCount p)) (pp_againstCount p)) (Some 0) then False
      else True)"

definition has_id :: "PartialProposal \<Rightarrow> bool" where
  "has_id p \<longleftrightarrow> pp_id p \<noteq> None \<and> pp_id p \<noteq> Some ''''"

text \<open>\<open>filter((p, id) => ...)\<close> reads the timestamp at the proposal's index and throws when there is none.\<close>

fun filter_proposals :: "int \<Rightarrow> int list \<Rightarrow> nat \<Rightarrow> PartialProposal list \<Rightarrow> (string, PartialProposal list) result" where
  "filter_proposals canVote timestamps i [] = Inr []"
| "filter_proposals canVote timestamps i (p # ps) =
     (if \<not> has_id p then filter_proposals canVote timestamps (Suc i) ps
      else if length timestamps \<le> i then Inl ''TypeError''
      else bind_result (filter_proposals canVote timestamps (Suc i) ps) (\<lambda>rest.
        Inr (if keep_proposal canVote (timestamps ! i) p then p # rest else rest)))"

definition vote_event :: "(string \<rightharpoonup> NounVoteHistory) \<Rightarrow> PartialProposal \<Rightarrow> NounProfileEvent" where
  "vote_event nounVotes proposal =
     (case nounVotes (the (pp_id proposal)) of
        Some v \<Rightarrow> \<lparr>ne_blockNumber = vh_blockNumber v,
          ne_payload = ProposalVotePayload proposal (Some (vh_voter v)) (Some (vh_supportDetailed v))\<rparr>
      | None \<Rightarrow> \<lparr>ne_blockNumber = the (pp_endBlock proposal), ne_payload = ProposalVotePayload proposal None None\<rparr>)"

definition useNounProposalVoteEvents ::
  "NounVoteHistory list query \<Rightarrow> int list query \<Rightarrow> int \<Rightarrow> PartialProposal list \<Rightarrow> (string, FetcherResponse) result" where
  "useNounProposalVoteEvents votes created nounCanVoteTimestamp proposals =
     (if q_loading votes \<or> proposals = [] \<or> q_loading created then Inr response_loading
      else if q_error votes \<or> q_error created then Inr response_error
      else case (q_data votes, q_data created) of
          (Some vs, Some ts) \<Rightarrow>
            bind_result (filter_proposals nounCanVoteTimestamp ts 0 proposals) (\<lambda>filteredProposals.
              Inr (response_data (map (vote_event (votes_by_proposal vs)) filteredProposals)))
        | _ \<Rightarrow> Inl ''TypeError'')"

section \<open>Transfers and delegations\<close>

text \<open>\<open>id.substring(0, id.indexOf('_'))\<close>: empty when there is no underscore.\<close>

definition tx_of_id :: "string \<Rightarrow> string" where
  "tx_of_id i = (case break_on ''_'' i of None \<Rightarrow> '''' | Some (a, b) \<Rightarrow> a)"

definition transfer_event :: "TransferRow \<Rightarrow> NounProfileEvent" where
  "transfer_event e =
     \<lparr>ne_blockNumber = te_blockNumber e,
      ne_payload = TransferPayload (te_previousHolder e) (te_newHolder e) (tx_of_id (te_id e))\<rparr>"

definition useNounTransferEvents :: "TransferRow list query \<Rightarrow> (string, FetcherResponse) result" where
  "useNounTransferEvents q =
     (if q_loading q then Inr response_loading
      else if q_error q then Inr response_error
      else case q_data q of None \<Rightarrow> Inl ''TypeError'' | Some rows \<Rightarrow> Inr (response_data (map transfer_event rows)))"

definition delegation_event :: "DelegationRow \<Rightarrow> NounProfileEvent" where
  "delegation_event e =
     \<lparr>ne_blockNumber = dl_blockNumber e,
      ne_payload = DelegationPayload (dl_previousDelegate e) (dl_newDelegate e) (tx_of_id (dl_id e))\<rparr>"

definition useDelegationEvents :: "DelegationRow list query \<Rightarrow> (string, FetcherResponse) result" where
  "useDelegationEvents q =
     (if q_loading q then Inr response_loading
      else if q_error q then Inr response_error
      else case q_data q of None \<Rightarrow> Inl ''TypeError'' | Some rows \<Rightarrow> Inr (response_data (map delegation_event rows)))"

section \<open>The feed\<close>

text \<open>\<open>slice(0, end)\<close>: a negative end counts from the end of the array.\<close>

definition slice_to :: "int \<Rightarrow> 'a list \<Rightarrow> 'a list" where
  "slice_to e xs = take (nat (if e < 0 then max 0 (int (length xs) + e) else e)) xs"

definition birth_events :: "int \<Rightarrow> int" where
  "birth_events unounId = (if unounId mod 10 = 0 then 2 else 4)"

definition win_event :: "int \<Rightarrow> NounProfileEvent list \<Rightarrow> NounProfileEvent list" where
  "win_event unounId transfers =
     (let sorted_transfers = sort_key ne_blockNumber transfers;
          i = (if unounId mod 10 = 0 then 0 else 1)
      in if i < length sorted_transfers
         then (case ne_payload (sorted_transfers ! i) of
                 TransferPayload a b t \<Rightarrow>
                   [\<lparr>ne_blockNumber = ne_blockNumber (sorted_transfers ! i), ne_payload = NounWinPayload unounId b t\<rparr>]
               | _ \<Rightarrow> [])
         else [])"

definition useNounActivity :: "int \<Rightarrow> FetcherResponse \<Rightarrow> FetcherResponse \<Rightarrow> FetcherResponse \<Rightarrow> FetcherResponse" where
  "useNounActivity unounId votes transfers delegations =
     (if fr_loading delegations \<or> fr_loading transfers \<or> fr_loading votes then response_loading
      else if fr_error votes \<or> fr_error transfers \<or> fr_error delegations then response_error
      else case (fr_data votes, fr_data transfers, fr_data delegations) of
          (Some votesData, Some nounTransferData, Some delegationEventsData) \<Rightarrow>
            let events = rev (sort_key ne_blockNumber (votesData @ nounTransferData @ delegationEventsData));
                postProcessedEvents = slice_to (int (length events) - birth_events unounId) events
            in response_data (postProcessedEvents @ win_event unounId nounTransferData)
        | _ \<Rightarrow> response_loading)"

section \<open>wrappers/nounToken.ts: seeds\<close>

record INounSeed =
  in_accessory :: int
  in_background :: int
  in_body :: int
  in_glasses :: int
  in_head :: int

type_synonym seed_cache = "(string \<rightharpoonup> INounSeed) option"

definition isSeedValid :: "INounSeed option \<Rightarrow> bool" where
  "isSeedValid seed =
     (case seed of None \<Rightarrow> False
      | Some s \<Rightarrow> in_background s \<noteq> 0 \<or> in_body s \<noteq> 0 \<or> in_accessory s \<noteq> 0 \<or> in_head s \<noteq> 0 \<or> in_glasses s \<noteq> 0)"

definition seedArrayToObject :: "(string \<times> INounSeed) list \<Rightarrow> (string \<rightharpoonup> INounSeed)" where
  "seedArrayToObject seeds = fold (\<lambda>(i, s) acc. acc(i \<mapsto> s)) seeds Map.empty"

text \<open>The hook reads the cache, and its effect fills an absent cache from the query.\<close>

definition useNounSeeds :: "(string \<times> INounSeed) list option \<Rightarrow> seed_cache \<Rightarrow> seed_cache \<times> seed_cache" where
  "useNounSeeds data cached =
     (cached,
      case (cached, data) of
        (None, Some seeds) \<Rightarrow> if seeds \<noteq> [] then Some (seedArrayToObject seeds) else None
      | _ \<Rightarrow> cached)"

definition useNounSeed :: "int \<Rightarrow> INounSeed option \<Rightarrow> seed_cache \<Rightarrow> INounSeed option \<times> seed_cache" where
  "useNounSeed unounId call cached =
     (let seed = Option.bind cached (\<lambda>m. m (int_to_dec unounId));
          response = (if seed \<noteq> None then None else call)
      in case response of
           None \<Rightarrow> (seed, cached)
         | Some r \<Rightarrow>
             (Some r, if cached \<noteq> None \<and> isSeedValid (Some r)
                      then Some ((the cached)(int_to_dec unounId \<mapsto> r)) else cached))"

text \<open>\<open>noun.split(';base64,').pop()\<close>, decoded and parsed by the parameters.\<close>

definition useNounToken :: "(string \<Rightarrow> string) \<Rightarrow> (string \<Rightarrow> 'j) \<Rightarrow> string option \<Rightarrow> 'j option" where
  "useNounToken atob json_parse noun =
     (case noun of None \<Rightarrow> None
      | Some n \<Rightarrow> if n = '''' then None else Some (json_parse (atob (last (split_str '';base64,'' n)))))"

definition zero_account :: string where
  "zero_account = ''0x0000000000000000000000000000000000000000''"

definition useAccountVotes :: "(string option \<Rightarrow> int option) \<Rightarrow> string option \<Rightarrow> int option" where
  "useAccountVotes getCurrentVotes acct = getCurrentVotes acct"

definition useUserVotes :: "(string option \<Rightarrow> int option) \<Rightarrow> string option \<Rightarrow> int option" where
  "useUserVotes getCurrentVotes acct =
     useAccountVotes getCurrentVotes (Some (case acct of None \<Rightarrow> zero_account | Some a \<Rightarrow> a))"

section \<open>What the feed shows\<close>

lemma slice_to_nat: "0 \<le> e \<Longrightarrow> slice_to e xs = take (nat e) xs"
  by (simp add: slice_to_def)

lemma sorted_rev_sort_key: "sorted_wrt (\<lambda>x y. f y \<le> f x) (rev (sort_key f xs))" for f :: "'a \<Rightarrow> int"
proof -
  have "sorted_wrt (\<lambda>x y. f x \<le> f y) (sort_key f xs)"
    using sorted_sort_key[of f xs] by (simp add: sorted_wrt_map sorted_map)
  then show ?thesis by (simp add: sorted_wrt_rev)
qed

lemma split_newest:
  fixes f :: "'a \<Rightarrow> int"
  assumes "n \<le> length xs" and "ys = rev (sort_key f xs)"
  shows "mset (take n ys) + mset (drop n ys) = mset xs \<and> length (drop n ys) = length xs - n
    \<and> sorted_wrt (\<lambda>x y. f y \<le> f x) (take n ys)
    \<and> list_all (\<lambda>x. list_all (\<lambda>y. f y \<le> f x) (drop n ys)) (take n ys)"
proof -
  have s: "sorted_wrt (\<lambda>x y. f y \<le> f x) ys" unfolding assms(2) by (rule sorted_rev_sort_key)
  have m: "mset ys = mset xs" unfolding assms(2) by simp
  have "mset (take n ys) + mset (drop n ys) = mset xs"
    using m by (metis append_take_drop_id mset_append)
  moreover have "sorted_wrt (\<lambda>x y. f y \<le> f x) (take n ys @ drop n ys)" using s by simp
  then have "sorted_wrt (\<lambda>x y. f y \<le> f x) (take n ys)"
    "list_all (\<lambda>x. list_all (\<lambda>y. f y \<le> f x) (drop n ys)) (take n ys)"
    unfolding sorted_wrt_append by (auto simp: list_all_iff)
  moreover have "length (drop n ys) = length xs - n" unfolding assms(2) by simp
  ultimately show ?thesis by blast
qed

definition answered :: "FetcherResponse \<Rightarrow> NounProfileEvent list \<Rightarrow> bool" where
  "answered r es \<longleftrightarrow> fr_data r = Some es \<and> \<not> fr_error r \<and> \<not> fr_loading r"


definition sample_transfer :: "int \<Rightarrow> string \<Rightarrow> TransferRow" where
  "sample_transfer n a = \<lparr>te_id = ''0xf_1'', te_blockNumber = n, te_previousHolder = ''0x0'', te_newHolder = a\<rparr>"

definition sample_delegation :: "int \<Rightarrow> DelegationRow" where
  "sample_delegation n = \<lparr>dl_id = ''0xf_1'', dl_blockNumber = n, dl_previousDelegate = ''0x0'', dl_newDelegate = ''0xa''\<rparr>"


section \<open>The seed cache\<close>

text \<open>A seed that the cache holds is never asked for again; an answer is stored unless all its traits are 0.\<close>

lemma useNounSeed_cached:
  "cached = Some m \<Longrightarrow> m (int_to_dec i) = Some s \<Longrightarrow> useNounSeed i call cached = (Some s, cached)"
  by (simp add: useNounSeed_def)

lemma useNounSeed_stores:
  assumes "cached = Some m" and "m (int_to_dec i) = None" and "isSeedValid (Some r)"
  shows "useNounSeed i (Some r) cached = (Some r, Some (m(int_to_dec i \<mapsto> r)))"
    "useNounSeed i call (snd (useNounSeed i (Some r) cached)) = (Some r, Some (m(int_to_dec i \<mapsto> r)))"
  using assms by (simp_all add: useNounSeed_def Let_def)

end
