(* ===== verification/Web_Bid.thy ===== *)
theory Web_Bid
  imports Web_Auction
begin

text \<open>
  The bid form of the auction page (\<open>nouns-webapp/src/components/Bid/index.tsx\<close>): the minimum of the next bid, the
  handlers of the input and the buttons, and the effects that follow the state of the two transactions. The
  number formats of ethers and bignumber.js are the parameters \<open>numerics\<close>; \<open>BigNumber\<close>'s arithmetic on amounts
  of wei is exact and is done on integers. Amounts are wei; \<open>dom_value\<close> is the value of the input element,
  \<open>bidInput\<close> the state it is bound to.
\<close>

section \<open>The minimum bid\<close>

record numerics =
  nm_parseEther :: "string \<Rightarrow> (string, int) result"
  nm_formatEther :: "int \<Rightarrow> string"
  nm_toFixed4Ceil :: "string \<Rightarrow> string"
  nm_toString :: "int \<Rightarrow> string"
  nm_from :: "string \<Rightarrow> (string, int) result"

text \<open>Division rounded away from zero: \<open>decimalPlaces(0, ROUND_UP)\<close>.\<close>

definition div_up :: "int \<Rightarrow> int \<Rightarrow> int" where
  "div_up a b = (if 0 \<le> a then (a + b - 1) div b else - ((- a + b - 1) div b))"

definition computeMinimumNextBid :: "int \<Rightarrow> int option \<Rightarrow> int" where
  "computeMinimumNextBid currentBid minBidIncPercentage =
     (case minBidIncPercentage of None \<Rightarrow> 0 | Some p \<Rightarrow> div_up (currentBid * (p + 100)) 100)"

definition minBidEth :: "numerics \<Rightarrow> int \<Rightarrow> (string, string) result" where
  "minBidEth nm minBid =
     (if minBid = 0 then Inr ''0.0222''
      else bind_result (nm_from nm (nm_toString nm minBid)) (\<lambda>wei. Inr (nm_toFixed4Ceil nm (nm_formatEther nm wei))))"

definition currentBid :: "numerics \<Rightarrow> string option \<Rightarrow> (string, int) result" where
  "currentBid nm bidInputRef =
     (case bidInputRef of Some (c # cs) \<Rightarrow> nm_parseEther nm (c # cs) | _ \<Rightarrow> Inr 22200000000000000)"

section \<open>The component\<close>

datatype button = Spinner | Label string

datatype tx_status = TxNone | TxPending | TxMining | TxSuccess | TxFail | TxException

record tx_state =
  tx_status :: tx_status
  tx_errorMessage :: "string option"

record BidAuction =
  ba_unounId :: int
  ba_amount :: int
  ba_bidder :: string

record BidTx =
  bt_unounId :: int
  bt_value :: int
  bt_gasLimit :: int

record BidForm =
  bidInput :: string
  dom_value :: "string option"
  buttonLoading :: bool
  buttonContent :: string
  showConnectModal :: bool
  placeBidState :: tx_state
  settleAuctionState :: tx_state
  shownModal :: "AlertModal option"
  placedBids :: "BidTx list"
  settleCalls :: nat

definition initial_bid_form :: "bool \<Rightarrow> BidForm" where
  "initial_bid_form auctionEnded =
     \<lparr>bidInput = [], dom_value = Some [], buttonLoading = False,
      buttonContent = (if auctionEnded then ''Settle'' else ''Place bid''), showConnectModal = False,
      placeBidState = \<lparr>tx_status = TxNone, tx_errorMessage = None\<rparr>,
      settleAuctionState = \<lparr>tx_status = TxNone, tx_errorMessage = None\<rparr>,
      shownModal = None, placedBids = [], settleCalls = 0\<rparr>"

definition hideModalHandler :: "BidForm \<Rightarrow> BidForm" where
  "hideModalHandler f = f\<lparr>showConnectModal := False\<rparr>"

definition show_modal :: "string \<Rightarrow> string \<Rightarrow> BidForm \<Rightarrow> BidForm" where
  "show_modal title message f = f\<lparr>shownModal := Some \<lparr>am_show = True, am_title = Some title, am_message = Some message\<rparr>\<rparr>"

text \<open>React writes the state into the bound input element when it renders.\<close>

definition setBidInput :: "string \<Rightarrow> BidForm \<Rightarrow> BidForm" where
  "setBidInput v f = f\<lparr>bidInput := v, dom_value := map_option (\<lambda>_. v) (dom_value f)\<rparr>"

definition bidInputHandler :: "string \<Rightarrow> BidForm \<Rightarrow> BidForm" where
  "bidInputHandler inp f =
     (if CHR ''.'' \<in> set inp \<and> 4 < length (split_str ''.'' inp ! 1) then f else setBidInput inp f)"

definition placeBidHandler :: "numerics \<Rightarrow> (int \<Rightarrow> int \<Rightarrow> (string, int) result) \<Rightarrow> BidAuction option \<Rightarrow> int \<Rightarrow> BidForm
    \<Rightarrow> (string, BidForm) result" where
  "placeBidHandler nm estimateGas auct minBid f =
     (case (auct, dom_value f) of
        (Some a, Some (c # cs)) \<Rightarrow>
          bind_result (currentBid nm (dom_value f)) (\<lambda>current.
            if current < minBid
            then bind_result (minBidEth nm minBid) (\<lambda>eth. Inr (setBidInput eth (show_modal ''Insufficient bid amount''
                   (''Please place a bid higher than or equal to the minimum bid amount of '' @ eth @ '' ETH'') f)))
            else bind_result (nm_parseEther nm (c # cs)) (\<lambda>v.
                 bind_result (estimateGas (ba_unounId a) v) (\<lambda>gasLimit.
                   Inr (f\<lparr>placedBids := placedBids f @
                     [\<lparr>bt_unounId = ba_unounId a, bt_value = v, bt_gasLimit = gasLimit + 10000\<rparr>]\<rparr>))))
      | _ \<Rightarrow> Inr f)"

definition settleAuctionHandler :: "BidForm \<Rightarrow> BidForm" where
  "settleAuctionHandler f = f\<lparr>settleCalls := settleCalls f + 1\<rparr>"

definition clearBidInput :: "BidForm \<Rightarrow> BidForm" where
  "clearBidInput f = f\<lparr>dom_value := map_option (\<lambda>_. []) (dom_value f)\<rparr>"

definition setBidButton :: "bool \<Rightarrow> string \<Rightarrow> BidForm \<Rightarrow> BidForm" where
  "setBidButton loading content f = f\<lparr>buttonLoading := loading, buttonContent := content\<rparr>"

text \<open>The effect on a new bid: the user's own transaction is taken for mined once the store holds its bid.\<close>

definition bid_landed_effect :: "numerics \<Rightarrow> string option \<Rightarrow> BidAuction \<Rightarrow> BidForm \<Rightarrow> (string, BidForm) result" where
  "bid_landed_effect nm user auct f =
     (case user of None \<Rightarrow> Inr f | Some acc \<Rightarrow>
        bind_result (currentBid nm (dom_value f)) (\<lambda>current.
          if tx_status (placeBidState f) = TxMining \<and> ba_bidder auct = acc \<and> current = ba_amount auct
          then Inr (clearBidInput (setBidButton False ''Place bid'' (show_modal ''Success'' ''Bid was placed successfully!''
                 (f\<lparr>placeBidState := (placeBidState f)\<lparr>tx_status := TxSuccess\<rparr>\<rparr>))))
          else Inr f))"

definition error_text :: "tx_state \<Rightarrow> string" where
  "error_text t = (case tx_errorMessage t of Some (c # cs) \<Rightarrow> c # cs | _ \<Rightarrow> ''Please try again.'')"

definition place_bid_effect :: "bool \<Rightarrow> BidForm \<Rightarrow> BidForm" where
  "place_bid_effect auctionEnded f =
     (if auctionEnded then f else
      (case tx_status (placeBidState f) of
         TxNone \<Rightarrow> setBidButton False ''Place bid'' f
       | TxMining \<Rightarrow> setBidButton True [] f
       | TxFail \<Rightarrow> setBidButton False ''Bid'' (show_modal ''Transaction Failed'' (error_text (placeBidState f)) f)
       | TxException \<Rightarrow> setBidButton False ''Bid'' (show_modal ''Error'' (error_text (placeBidState f)) f)
       | _ \<Rightarrow> f))"

definition settle_effect :: "bool \<Rightarrow> BidForm \<Rightarrow> BidForm" where
  "settle_effect auctionEnded f =
     (if \<not> auctionEnded then f else
      (case tx_status (settleAuctionState f) of
         TxNone \<Rightarrow> setBidButton False ''Settle Auction'' f
       | TxMining \<Rightarrow> setBidButton True [] f
       | TxSuccess \<Rightarrow> setBidButton False ''Settle Auction'' (show_modal ''Success'' ''Settled auction successfully!'' f)
       | TxFail \<Rightarrow> setBidButton False ''Settle Auction'' (show_modal ''Transaction Failed'' (error_text (settleAuctionState f)) f)
       | TxException \<Rightarrow> setBidButton False ''Settle Auction'' (show_modal ''Error'' (error_text (settleAuctionState f)) f)
       | TxPending \<Rightarrow> f))"

definition bid_disabled :: "string option \<Rightarrow> BidForm \<Rightarrow> bool" where
  "bid_disabled activeAccount f \<longleftrightarrow>
     tx_status (placeBidState f) = TxMining \<or> tx_status (settleAuctionState f) = TxMining
     \<or> activeAccount = None \<or> activeAccount = Some []"

text \<open>What is shown: the placeholder, the button for bids and the one that starts the next auction.\<close>

record BidView =
  vw_placeholder :: "string option"
  vw_bidButton :: "(button \<times> bool) option"
  vw_settleButton :: bool

definition render_bid :: "numerics \<Rightarrow> string option \<Rightarrow> bool \<Rightarrow> BidAuction option \<Rightarrow> int \<Rightarrow> BidForm
    \<Rightarrow> (string, BidView option) result" where
  "render_bid nm activeAccount auctionEnded auct minBid f =
     (case auct of None \<Rightarrow> Inr None | Some a \<Rightarrow>
        if auctionEnded
        then Inr (Some \<lparr>vw_placeholder = None, vw_bidButton = None, vw_settleButton = (activeAccount \<noteq> None)\<rparr>)
        else
          bind_result (if bidInput f = [] then bind_result (minBidEth nm minBid) (\<lambda>eth. Inr (Some (eth @ '' or more''))) else Inr None) (\<lambda>ph.
            Inr (Some \<lparr>vw_placeholder = ph,
              vw_bidButton = Some (if buttonLoading f then Spinner else Label (buttonContent f), bid_disabled activeAccount f),
              vw_settleButton = False\<rparr>)))"

section \<open>The minimum the form asks for\<close>

text \<open>The rule of the contract: the last bid and a percentage of it, rounded down.\<close>

definition contract_minimum :: "int \<Rightarrow> int \<Rightarrow> int" where
  "contract_minimum amount p = amount + (amount * p) div 100"

lemma computeMinimumNextBid_bounds:
  assumes "0 \<le> amount" and "0 \<le> p"
  shows "contract_minimum amount p \<le> computeMinimumNextBid amount (Some p)"
    and "computeMinimumNextBid amount (Some p) \<le> contract_minimum amount p + 1"
proof -
  have "0 \<le> amount * (p + 100)" using assms by simp
  then have "computeMinimumNextBid amount (Some p) = (amount * p + 99 + amount * 100) div 100"
    by (simp add: computeMinimumNextBid_def div_up_def algebra_simps)
  also have "\<dots> = (amount * p + 99) div 100 + amount" by simp
  finally have m: "computeMinimumNextBid amount (Some p) = (amount * p + 99) div 100 + amount" .
  show "contract_minimum amount p \<le> computeMinimumNextBid amount (Some p)"
    unfolding m contract_minimum_def by (simp add: zdiv_mono1)
  have "(amount * p + 99) div 100 \<le> (amount * p + 1 * 100) div 100" by (intro zdiv_mono1) simp_all
  then show "computeMinimumNextBid amount (Some p) \<le> contract_minimum amount p + 1"
    unfolding m contract_minimum_def by simp
qed

text \<open>
  What ethers and bignumber.js document: amounts below \<open>10 ^ 21\<close> are printed without an exponent and read back,
  larger ones are printed with one, which ethers does not read; formatting an amount of wei in ether,
  rounding it up to four decimals and parsing it gives the next multiple of \<open>10 ^ 14\<close>.
\<close>

definition documented_numerics :: "numerics \<Rightarrow> bool" where
  "documented_numerics nm \<longleftrightarrow>
     (\<forall>n. 0 \<le> n \<longrightarrow> n < 10 ^ 21 \<longrightarrow> nm_from nm (nm_toString nm n) = Inr n)
     \<and> (\<forall>n. 10 ^ 21 \<le> n \<longrightarrow> (\<exists>e. nm_from nm (nm_toString nm n) = Inl e))
     \<and> (\<forall>n. 0 \<le> n \<longrightarrow> nm_toFixed4Ceil nm (nm_formatEther nm n) \<noteq> []
          \<and> nm_parseEther nm (nm_toFixed4Ceil nm (nm_formatEther nm n)) = Inr (div_up n (10 ^ 14) * 10 ^ 14))"

lemma div_up_multiple: "0 \<le> n \<Longrightarrow> 0 < k \<Longrightarrow> n \<le> div_up n k * k \<and> div_up n k * k < n + k"
proof -
  assume "0 \<le> n" "0 < k"
  then have d: "div_up n k * k = (n + k - 1) - (n + k - 1) mod k"
    by (simp add: div_up_def minus_mod_eq_div_mult)
  have "0 \<le> (n + k - 1) mod k" "(n + k - 1) mod k < k" using \<open>0 < k\<close> by simp_all
  then show "n \<le> div_up n k * k \<and> div_up n k * k < n + k" using d by linarith
qed


text \<open>Numbers written in unary, which read back by their length.\<close>

definition unary_numerics :: numerics where
  "unary_numerics =
     \<lparr>nm_parseEther = (\<lambda>s. Inr (div_up (int (length s) - 1) (10 ^ 14) * 10 ^ 14)),
      nm_formatEther = (\<lambda>n. replicate (nat n) CHR ''0''), nm_toFixed4Ceil = (\<lambda>s. CHR ''0'' # s),
      nm_toString = (\<lambda>n. replicate (nat n) CHR ''0''),
      nm_from = (\<lambda>s. if int (length s) < 10 ^ 21 then Inr (int (length s)) else Inl ''invalid BigNumber string'')\<rparr>"

lemma unary_numerics_documented: "documented_numerics unary_numerics"
  by (auto simp: documented_numerics_def unary_numerics_def nat_less_iff)


end
