(* ===== verification/Web_Propose.thy ===== *)
theory Web_Propose
  imports Web_Proposals
begin

text \<open>
  The page that creates a proposal (\<open>nouns-webapp/src/pages/CreateProposal/index.tsx\<close>, \<open>components/CreateProposalButton\<close>)
  and the modal that builds its actions (\<open>components/ProposalActionsModal\<close> with the two review steps, the details of
  a transfer and the choice of an action). Addresses, amounts and ABIs are checked and encoded by ethers, the
  parameters \<open>propose_env\<close>; amounts of USDC are counted in millionths.
\<close>

section \<open>Transactions\<close>

record ProposalTransaction =
  pt_address :: string
  pt_value :: string
  pt_signature :: string
  pt_calldata :: string
  pt_decodedCalldata :: "string option"
  pt_usdcValue :: "int option"

datatype SupportedCurrency = ETH | USDC

datatype ProposalActionType = LUMP_SUM | FUNCTION_CALL

datatype ProposalActionCreationStep =
    SELECT_ACTION_TYPE | LUMP_SUM_DETAILS | LUMP_SUM_REVIEW
  | FUNCTION_CALL_SELECT_FUNCTION | FUNCTION_CALL_ADD_ARGUMENTS | FUNCTION_CALL_REVIEW

text \<open>An ABI is the list of its functions: the signature and the types of the inputs.\<close>

type_synonym abi = "(string \<times> string list) list"

record ProposalActionModalState =
  ms_actionType :: ProposalActionType
  ms_address :: string
  ms_amount :: "string option"
  ms_currency :: "SupportedCurrency option"
  ms_function :: "string option"
  ms_abi :: "abi option"
  ms_args :: "string list option"

record propose_env =
  pe_isAddress :: "string \<Rightarrow> bool"
  pe_parseEther :: "string \<Rightarrow> (string, string) result"
  pe_positive :: "string \<Rightarrow> bool"
  pe_usdcUnits :: "string \<Rightarrow> int"
  pe_encodeParams :: "string list \<Rightarrow> string list \<Rightarrow> (string, string) result"
  pe_payerContract :: string
  pe_tokenBuyer :: "string option"

text \<open>\<open>JSON.stringify\<close> of a list of strings.\<close>

definition json_char :: "char \<Rightarrow> string" where
  "json_char c =
     (if c = CHR 0x22 then [CHR 0x5C, CHR 0x22] else if c = CHR 0x5C then [CHR 0x5C, CHR 0x5C]
      else if c = CHR 0x0A then [CHR 0x5C, CHR ''n''] else if c = CHR 0x0D then [CHR 0x5C, CHR ''r'']
      else if c = CHR 0x09 then [CHR 0x5C, CHR ''t''] else if c = CHR 0x08 then [CHR 0x5C, CHR ''b'']
      else if c = CHR 0x0C then [CHR 0x5C, CHR ''f'']
      else if (of_char c :: nat) < 32 then [CHR 0x5C] @ ''u'' @ padStart 4 (CHR ''0'') (nat_to_base 16 (of_char c))
      else [c])"

definition json_strings :: "string list \<Rightarrow> string" where
  "json_strings xs = ''['' @ join '','' (map (\<lambda>x. [CHR 0x22] @ concat (map json_char x) @ [CHR 0x22]) xs) @ '']''"

section \<open>The modal\<close>

definition initial_modal :: "ProposalActionCreationStep \<times> ProposalActionModalState" where
  "initial_modal = (SELECT_ACTION_TYPE, \<lparr>ms_actionType = LUMP_SUM, ms_address = [], ms_amount = None, ms_currency = None,
     ms_function = None, ms_abi = None, ms_args = None\<rparr>)"

text \<open>Choosing an action: the kind and the step its details are asked for in.\<close>

definition first_step :: "ProposalActionModalState \<Rightarrow> ProposalActionCreationStep" where
  "first_step m = (case ms_actionType m of FUNCTION_CALL \<Rightarrow> FUNCTION_CALL_SELECT_FUNCTION | LUMP_SUM \<Rightarrow> LUMP_SUM_DETAILS)"

definition select_action :: "string \<Rightarrow> ProposalActionModalState \<Rightarrow> ProposalActionModalState \<times> ProposalActionCreationStep" where
  "select_action v m =
     (if v = ''Transfer Funds'' then (m\<lparr>ms_actionType := LUMP_SUM\<rparr>, LUMP_SUM_DETAILS)
      else (m\<lparr>ms_actionType := FUNCTION_CALL\<rparr>, FUNCTION_CALL_SELECT_FUNCTION))"

text \<open>The buttons: \<open>None\<close> closes the modal, or hands the action over from a review.\<close>

fun next_step :: "ProposalActionModalState \<Rightarrow> ProposalActionCreationStep \<Rightarrow> ProposalActionCreationStep option" where
  "next_step m SELECT_ACTION_TYPE = Some (first_step m)"
| "next_step m LUMP_SUM_DETAILS = Some LUMP_SUM_REVIEW"
| "next_step m LUMP_SUM_REVIEW = None"
| "next_step m FUNCTION_CALL_SELECT_FUNCTION = Some FUNCTION_CALL_ADD_ARGUMENTS"
| "next_step m FUNCTION_CALL_ADD_ARGUMENTS = Some FUNCTION_CALL_REVIEW"
| "next_step m FUNCTION_CALL_REVIEW = None"

fun prev_step :: "ProposalActionCreationStep \<Rightarrow> ProposalActionCreationStep option" where
  "prev_step SELECT_ACTION_TYPE = None"
| "prev_step LUMP_SUM_DETAILS = Some SELECT_ACTION_TYPE"
| "prev_step LUMP_SUM_REVIEW = Some LUMP_SUM_DETAILS"
| "prev_step FUNCTION_CALL_SELECT_FUNCTION = Some SELECT_ACTION_TYPE"
| "prev_step FUNCTION_CALL_ADD_ARGUMENTS = Some FUNCTION_CALL_SELECT_FUNCTION"
| "prev_step FUNCTION_CALL_REVIEW = Some FUNCTION_CALL_ADD_ARGUMENTS"

subsection \<open>The details of a transfer\<close>

record TransferDetails =
  td_currency :: SupportedCurrency
  td_amount :: string
  td_address :: string
  td_isValidForNextStage :: bool

definition mount_transfer :: "ProposalActionModalState \<Rightarrow> TransferDetails" where
  "mount_transfer m =
     \<lparr>td_currency = (case ms_currency m of None \<Rightarrow> ETH | Some c \<Rightarrow> c),
      td_amount = (case ms_amount m of None \<Rightarrow> [] | Some a \<Rightarrow> a), td_address = ms_address m,
      td_isValidForNextStage = False\<rparr>"

text \<open>The effect after every change of the inputs: it can only switch the button on.\<close>

definition transfer_effect :: "propose_env \<Rightarrow> TransferDetails \<Rightarrow> TransferDetails" where
  "transfer_effect env t =
     (if pe_isAddress env (td_address t) \<and> pe_positive env (td_amount t) \<and> \<not> td_isValidForNextStage t
      then t\<lparr>td_isValidForNextStage := True\<rparr> else t)"

datatype transfer_change = SetCurrency string | SetAmount string | SetAddress string

fun transfer_input :: "propose_env \<Rightarrow> transfer_change \<Rightarrow> TransferDetails \<Rightarrow> TransferDetails" where
  "transfer_input env (SetCurrency v) t = transfer_effect env (t\<lparr>td_currency := (if v = ''ETH'' then ETH else USDC)\<rparr>)"
| "transfer_input env (SetAmount v) t = transfer_effect env (t\<lparr>td_amount := v\<rparr>)"
| "transfer_input env (SetAddress v) t = transfer_effect env (t\<lparr>td_address := v\<rparr>)"

text \<open>The button is disabled until the inputs were once valid.\<close>

definition transfer_next :: "TransferDetails \<Rightarrow> ProposalActionModalState \<Rightarrow> ProposalActionModalState option" where
  "transfer_next t m =
     (if td_isValidForNextStage t
      then Some (m\<lparr>ms_amount := Some (td_amount t), ms_address := td_address t, ms_currency := Some (td_currency t)\<rparr>)
      else None)"

lemma transfer_stays_enabled: "td_isValidForNextStage t \<Longrightarrow> td_isValidForNextStage (transfer_input env i t)"
  by (cases i) (simp_all add: transfer_effect_def)

subsection \<open>The reviews\<close>

definition amount_in_wei :: "propose_env \<Rightarrow> string option \<Rightarrow> (string, string) result" where
  "amount_in_wei env amount = (case amount of Some (c # cs) \<Rightarrow> pe_parseEther env (c # cs) | _ \<Rightarrow> Inr ''0'')"

definition debt_signature :: string where
  "debt_signature = ''sendOrRegisterDebt(address,uint256)''"

text \<open>An unsupported currency only shows an alert.\<close>

definition transfer_action :: "propose_env \<Rightarrow> ProposalActionModalState \<Rightarrow> (string, ProposalTransaction option) result" where
  "transfer_action env m =
     (case ms_currency m of
        Some ETH \<Rightarrow>
          bind_result (amount_in_wei env (ms_amount m)) (\<lambda>v. Inr (Some
            \<lparr>pt_address = ms_address m, pt_value = v, pt_signature = [], pt_calldata = ''0x'',
             pt_decodedCalldata = None, pt_usdcValue = None\<rparr>))
      | Some USDC \<Rightarrow>
          (let units = pe_usdcUnits env (case ms_amount m of None \<Rightarrow> ''0'' | Some a \<Rightarrow> a);
               params = [ms_address m, int_to_dec units] in
           bind_result (pe_encodeParams env [''address'', ''uint256''] params) (\<lambda>data. Inr (Some
             \<lparr>pt_address = pe_payerContract env, pt_value = ''0'', pt_signature = debt_signature, pt_calldata = data,
              pt_decodedCalldata = Some (json_strings params), pt_usdcValue = Some units\<rparr>)))
      | None \<Rightarrow> Inr None)"

definition function_inputs :: "ProposalActionModalState \<Rightarrow> abi \<Rightarrow> string list" where
  "function_inputs m a =
     (case map_of a (case ms_function m of None \<Rightarrow> [] | Some f \<Rightarrow> f) of None \<Rightarrow> [] | Some ins \<Rightarrow> ins)"

text \<open>The step before has loaded an ABI and chosen a function of it.\<close>

definition call_action :: "propose_env \<Rightarrow> ProposalActionModalState \<Rightarrow> (string, ProposalTransaction) result" where
  "call_action env m =
     bind_result (amount_in_wei env (ms_amount m)) (\<lambda>v.
       let params = (case ms_args m of None \<Rightarrow> [] | Some as \<Rightarrow> as) in
       case (ms_abi m, ms_function m) of
         (Some a, Some f) \<Rightarrow>
           bind_result (pe_encodeParams env (function_inputs m a) params) (\<lambda>data. Inr
             \<lparr>pt_address = ms_address m, pt_value = v, pt_signature = f, pt_calldata = data,
              pt_decodedCalldata = Some (json_strings params), pt_usdcValue = None\<rparr>)
       | _ \<Rightarrow> Inl ''Cannot read properties of undefined'')"

section \<open>The page\<close>

record ProposePage =
  pp_transactions :: "ProposalTransaction list"
  pp_title :: string
  pp_body :: string
  pp_totalUSDCPayment :: int
  pp_tokenBuyerTopUpEth :: string
  pp_showModal :: bool
  pp_pending :: bool

definition initial_page :: ProposePage where
  "initial_page = \<lparr>pp_transactions = [], pp_title = [], pp_body = [], pp_totalUSDCPayment = 0,
     pp_tokenBuyerTopUpEth = ''0'', pp_showModal = False, pp_pending = False\<rparr>"

definition prefix_0x :: "string \<Rightarrow> string" where
  "prefix_0x s = (if starts_with s ''0x'' then s else ''0x'' @ s)"

definition handleAddProposalAction :: "ProposalTransaction \<Rightarrow> ProposePage \<Rightarrow> ProposePage" where
  "handleAddProposalAction t p =
     (let t' = t\<lparr>pt_address := prefix_0x (pt_address t), pt_calldata := prefix_0x (pt_calldata t)\<rparr> in
      p\<lparr>pp_totalUSDCPayment := (case pt_usdcValue t of None \<Rightarrow> pp_totalUSDCPayment p
                              | Some u \<Rightarrow> pp_totalUSDCPayment p + u),
        pp_transactions := pp_transactions p @ [t'], pp_showModal := False\<rparr>)"

text \<open>The list's buttons exist for its indexes only; outside of them \<open>proposalTransactions[index]\<close> is undefined.\<close>

definition handleRemoveProposalAction :: "nat \<Rightarrow> ProposePage \<Rightarrow> (string, ProposePage) result" where
  "handleRemoveProposalAction index p =
     (if index < length (pp_transactions p)
      then Inr (p\<lparr>
        pp_totalUSDCPayment := pp_totalUSDCPayment p
          - (case pt_usdcValue (pp_transactions p ! index) of None \<Rightarrow> 0 | Some u \<Rightarrow> u),
        pp_transactions := take index (pp_transactions p) @ drop (Suc index) (pp_transactions p)\<rparr>)
      else Inl ''Cannot read properties of undefined'')"

definition top_up_index :: "propose_env \<Rightarrow> ProposalTransaction list \<Rightarrow> nat option" where
  "top_up_index env ts =
     (let k = length (takeWhile (\<lambda>t. Some (pt_address t) \<noteq> pe_tokenBuyer env) ts) in
      if k < length ts then Some k else None)"

definition positive_int :: "string \<Rightarrow> bool" where
  "positive_int s = (case parseInt s of None \<Rightarrow> False | Some i \<Rightarrow> 0 < i)"

definition top_up_effect :: "propose_env \<Rightarrow> string option \<Rightarrow> ProposePage \<Rightarrow> ProposePage" where
  "top_up_effect env ethNeeded p =
     (case ethNeeded of None \<Rightarrow> p
      | Some e \<Rightarrow>
          (if e = pp_tokenBuyerTopUpEth p then p
           else
             (let p' =
                (case top_up_index env (pp_transactions p) of
                   None \<Rightarrow>
                     if positive_int e
                     then handleAddProposalAction
                       \<lparr>pt_address = (case pe_tokenBuyer env of None \<Rightarrow> [] | Some a \<Rightarrow> a), pt_value = e, pt_signature = [],
                        pt_calldata = ''0x'', pt_decodedCalldata = None, pt_usdcValue = None\<rparr> p
                     else p
                 | Some k \<Rightarrow>
                     if positive_int e
                     then p\<lparr>pp_transactions := (pp_transactions p)[k := (pp_transactions p ! k)\<lparr>pt_value := e\<rparr>]\<rparr>
                     else p) in
              p'\<lparr>pp_tokenBuyerTopUpEth := e\<rparr>)))"

definition isFormInvalid :: "ProposePage \<Rightarrow> bool" where
  "isFormInvalid p \<longleftrightarrow> pp_transactions p = [] \<or> pp_title p = [] \<or> pp_body p = []"

definition hasEnoughVote :: "int option \<Rightarrow> int option \<Rightarrow> bool" where
  "hasEnoughVote availableVotes proposalThreshold =
     (case (availableVotes, proposalThreshold) of (Some v, Some t) \<Rightarrow> v \<noteq> 0 \<and> t < v | _ \<Rightarrow> False)"

record propose_call =
  sp_targets :: "string list"
  sp_values :: "string list"
  sp_signatures :: "string list"
  sp_calldatas :: "string list"
  sp_description :: string

definition handleCreateProposal :: "ProposePage \<Rightarrow> propose_call option" where
  "handleCreateProposal p =
     (let ts = pp_transactions p in
      if ts = [] then None
      else Some \<lparr>sp_targets = map pt_address ts, sp_values = map pt_value ts, sp_signatures = map pt_signature ts,
             sp_calldatas = map pt_calldata ts,
             sp_description = ''# '' @ pp_title p @ [CHR 0x0A, CHR 0x0A] @ pp_body p\<rparr>)"

text \<open>The button: whether it is disabled, and its text.\<close>

definition create_button :: "bool \<Rightarrow> bool \<Rightarrow> int option \<Rightarrow> ProposePage \<Rightarrow> bool \<times> string" where
  "create_button hasActiveOrPending enough threshold p =
     (isFormInvalid p \<or> hasActiveOrPending \<or> \<not> enough,
      if hasActiveOrPending then ''You already have an active or pending proposal''
      else if \<not> enough then
        (case threshold of
           Some t \<Rightarrow> if t \<noteq> 0 then ''You must have '' @ int_to_dec (t + 1) @ '' votes to submit a proposal''
                     else ''You don't have enough votes to submit a proposal''
         | None \<Rightarrow> ''You don't have enough votes to submit a proposal'')
      else ''Create Proposal'')"

section \<open>A submitted proposal\<close>

text \<open>What the user and the TokenBuyer contract do to the page.\<close>

inductive page_step :: "propose_env \<Rightarrow> ProposePage \<Rightarrow> ProposePage \<Rightarrow> bool" for env where
  add_transfer: "transfer_action env m = Inr (Some t) \<Longrightarrow> page_step env p (handleAddProposalAction t p)"
| add_call: "call_action env m = Inr t \<Longrightarrow> page_step env p (handleAddProposalAction t p)"
| remove: "handleRemoveProposalAction i p = Inr p' \<Longrightarrow> page_step env p p'"
| top_up: "page_step env p (top_up_effect env e p)"
| edit_title: "page_step env p (p\<lparr>pp_title := v\<rparr>)"
| edit_body: "page_step env p (p\<lparr>pp_body := v\<rparr>)"

inductive page_reach :: "propose_env \<Rightarrow> ProposePage \<Rightarrow> bool" for env where
  start: "page_reach env initial_page"
| step: "page_reach env p \<Longrightarrow> page_step env p p' \<Longrightarrow> page_reach env p'"

definition usdc_of :: "ProposalTransaction \<Rightarrow> int" where
  "usdc_of t = (case pt_usdcValue t of None \<Rightarrow> 0 | Some u \<Rightarrow> u)"

definition page_ok :: "ProposePage \<Rightarrow> bool" where
  "page_ok p \<longleftrightarrow> pp_totalUSDCPayment p = sum_list (map usdc_of (pp_transactions p))
     \<and> list_all (\<lambda>t. starts_with (pt_address t) ''0x'' \<and> starts_with (pt_calldata t) ''0x'') (pp_transactions p)"

lemma prefix_0x_starts: "starts_with (prefix_0x s) ''0x''"
  by (simp add: prefix_0x_def starts_with_def)

lemma page_ok_add: "page_ok p \<Longrightarrow> page_ok (handleAddProposalAction t p)"
  by (auto simp: page_ok_def handleAddProposalAction_def usdc_of_def prefix_0x_starts Let_def split: option.splits)

lemma page_ok_remove:
  assumes "page_ok p" and "handleRemoveProposalAction i p = Inr p'"
  shows "page_ok p'"
proof -
  have i: "i < length (pp_transactions p)" using assms(2) by (auto simp: handleRemoveProposalAction_def split: if_splits)
  have split: "pp_transactions p = take i (pp_transactions p) @ (pp_transactions p ! i) # drop (Suc i) (pp_transactions p)"
    using i by (rule id_take_nth_drop)
  have "sum_list (map usdc_of (pp_transactions p))
      = sum_list (map usdc_of (take i (pp_transactions p) @ drop (Suc i) (pp_transactions p))) + usdc_of (pp_transactions p ! i)"
    by (subst split) simp
  moreover have "list_all Q (pp_transactions p) \<Longrightarrow> list_all Q (take i (pp_transactions p) @ drop (Suc i) (pp_transactions p))" for Q
    by (auto simp: list_all_iff dest: in_set_takeD in_set_dropD)
  ultimately show ?thesis
    using assms i by (auto simp: page_ok_def handleRemoveProposalAction_def usdc_of_def)
qed

lemma page_ok_value:
  assumes "page_ok p" and "k < length (pp_transactions p)"
  shows "page_ok (p\<lparr>pp_transactions := (pp_transactions p)[k := (pp_transactions p ! k)\<lparr>pt_value := e\<rparr>]\<rparr>)"
proof -
  have "map usdc_of ((pp_transactions p)[k := (pp_transactions p ! k)\<lparr>pt_value := e\<rparr>]) = map usdc_of (pp_transactions p)"
    using assms(2) by (simp add: map_update usdc_of_def list_update_same_conv)
  moreover have "list_all (\<lambda>t. starts_with (pt_address t) ''0x'' \<and> starts_with (pt_calldata t) ''0x'')
      ((pp_transactions p)[k := (pp_transactions p ! k)\<lparr>pt_value := e\<rparr>])"
    using assms by (auto simp: page_ok_def list_all_length nth_list_update)
  ultimately show ?thesis using assms(1) by (simp add: page_ok_def)
qed

lemma page_ok_top_up: "page_ok p \<Longrightarrow> page_ok (top_up_effect env e p)"
proof -
  assume ok: "page_ok p"
  have set: "page_ok (q\<lparr>pp_tokenBuyerTopUpEth := v\<rparr>)" if "page_ok q" for q v
    using that by (simp add: page_ok_def)
  show "page_ok (top_up_effect env e p)"
    using ok by (auto simp: top_up_effect_def top_up_index_def Let_def intro!: set page_ok_add page_ok_value
        split: option.splits if_splits)
qed

lemma page_reach_ok: "page_reach env p \<Longrightarrow> page_ok p"
proof (induction rule: page_reach.induct)
  case start
  show ?case by (simp add: page_ok_def initial_page_def)
next
  case (step p p')
  from step.hyps(2) step.IH show ?case
    by cases (auto simp: page_ok_add page_ok_top_up page_ok_remove, simp_all add: page_ok_def)
qed

text \<open>The TokenBuyer's top-up follows a growing need for ether, but is never taken back.\<close>

lemma top_up_not_removed: "\<not> positive_int e \<Longrightarrow> pp_transactions (top_up_effect env (Some e) p) = pp_transactions p"
  by (auto simp: top_up_effect_def Let_def split: option.splits)

lemma extractTitle_heading_line:
  assumes "t \<noteq> ''''" "CHR ''#'' \<notin> set t" "CHR 0x0A \<notin> set t"
    "\<not> contains_str t ''**''" "\<not> contains_str t ''__''" "\<not> is_space (hd t)" "\<not> is_space (last t)"
  shows "extractTitle (''# '' @ t @ [CHR 0x0A] @ body) = t"
proof (cases "CHR ''#'' \<in> set body")
  case True
  from split_list_first[OF this] obtain b1 b2 where body: "body = b1 @ CHR ''#'' # b2" "CHR ''#'' \<notin> set b1" by blast
  let ?p = "[CHR '' ''] @ t @ [CHR 0x0A] @ b1"
  have hash: "CHR ''#'' \<notin> set ?p" using assms(2) body(2) by simp
  have "split_str ''#'' (''# '' @ t @ [CHR 0x0A] @ body) = '''' # ?p # split_str ''#'' b2"
    using split_str_char[of "CHR ''#''" "''''" "?p @ CHR ''#'' # b2"] split_str_char[OF hash, of b2] body(1) by simp
  moreover obtain x xs where "split_str ''#'' b2 = x # xs" by (cases "split_str ''#'' b2") auto
  moreover have "split_str [CHR 0x0A] (?p @ x) = ([CHR '' ''] @ t) # split_str [CHR 0x0A] (b1 @ x)"
    using split_str_char[of "CHR 0x0A" "[CHR '' ''] @ t" "b1 @ x"] assms(3) by simp
  moreover have "trim ([CHR '' ''] @ t) = t"
    using trim_drop_space[of "CHR '' ''" t] trim_id[of t] assms(6,7) by (simp add: is_space_def)
  ultimately show ?thesis
    using assms(1,4,5) by (simp add: extractTitle_def Let_def replaceAll_absent)
qed (use assms extractTitle_markdown in blast)

lemma web_title_heading_line:
  assumes "t \<noteq> ''''" "CHR 0x0A \<notin> set t" "\<not> contains_str t ''**''" "\<not> contains_str t ''__''" "\<not> is_space (hd t)"
  shows "or_untitled (removeMarkdownStyle (web_extractTitle (Some (''# '' @ t @ [CHR 0x0A] @ body)))) = t"
proof -
  have "extractHashTitle (replicate 1 (CHR ''#'') @ '' '' @ t @ [CHR 0x0A] @ body) = Some t"
    using assms(1,2,5) by (intro hash_title) simp_all
  then have "web_extractTitle (Some (''# '' @ t @ [CHR 0x0A] @ body)) = Some t"
    by (simp add: web_extractTitle_def)
  then show ?thesis
    using assms(3,4) by (simp add: removeMarkdownStyle_def removeBold_def removeItalics_def or_untitled_def replaceAll_absent)
qed


definition sample_propose_env :: propose_env where
  "sample_propose_env = \<lparr>pe_isAddress = (\<lambda>s. length s = 42), pe_parseEther = (\<lambda>s. Inr (s @ replicate 18 CHR ''0'')),
     pe_positive = (\<lambda>s. s \<noteq> []), pe_usdcUnits = (\<lambda>s. 5000000), pe_encodeParams = (\<lambda>ts vs. Inr ''00''),
     pe_payerContract = ''d97Bcd9f47cEe35c0a9ec1dc40C1269afc9E8E1D'', pe_tokenBuyer = Some ''0x4f2acdc74f6941390d9b1804fabc3e780388cfe5''\<rparr>"

definition usdc_modal :: ProposalActionModalState where
  "usdc_modal = (snd initial_modal)\<lparr>ms_currency := Some USDC, ms_amount := Some ''5'', ms_address := ''0x01''\<rparr>"

definition usdc_action :: ProposalTransaction where
  "usdc_action = \<lparr>pt_address = pe_payerContract sample_propose_env, pt_value = ''0'', pt_signature = debt_signature,
     pt_calldata = ''00'', pt_decodedCalldata = Some (json_strings [''0x01'', int_to_dec 5000000]), pt_usdcValue = Some 5000000\<rparr>"

lemma usdc_action_built: "transfer_action sample_propose_env usdc_modal = Inr (Some usdc_action)"
  by (simp add: transfer_action_def usdc_modal_def usdc_action_def sample_propose_env_def initial_modal_def Let_def)

definition sample_page :: ProposePage where
  "sample_page = (top_up_effect sample_propose_env (Some ''7'') (handleAddProposalAction usdc_action initial_page))
     \<lparr>pp_title := ''Fund it'', pp_body := ''## Why''\<rparr>"

lemma sample_page_reach: "page_reach sample_propose_env sample_page"
proof -
  have "page_reach sample_propose_env (handleAddProposalAction usdc_action initial_page)"
    by (rule page_reach.step[OF page_reach.start add_transfer[OF usdc_action_built]])
  then have "page_reach sample_propose_env
      ((top_up_effect sample_propose_env (Some ''7'') (handleAddProposalAction usdc_action initial_page))\<lparr>pp_title := ''Fund it''\<rparr>)"
    by (intro page_reach.step[OF page_reach.step[OF _ top_up] edit_title])
  from page_reach.step[OF this edit_body[of _ _ "''## Why''"]] show ?thesis by (simp add: sample_page_def)
qed


end
