(* ===== verification/Js_Double.thy ===== *)
theory Js_Double
  imports Complex_Main "HOL-Library.Log_Nat"
begin

text \<open>
  The numbers of JavaScript where their rounding matters: IEEE 754 doubles with rounding to nearest, ties to
  even, over the rationals. The two zeros are not told apart. \<open>nearest_double\<close> is the value closest to a rational
  with 53 significant bits (fewer below the smallest normal number); \<open>to_double\<close> adds the overflow.
\<close>

section \<open>Rounding\<close>

definition pow2 :: "int \<Rightarrow> rat" where
  "pow2 e = (if 0 \<le> e then 2 ^ nat e else 1 / 2 ^ nat (- e))"

definition floor_log2 :: "rat \<Rightarrow> int" where
  "floor_log2 x =
     (let (p, q) = quotient_of x; k = bitlen p - bitlen q
      in if pow2 k \<le> x then k else k - 1)"

definition round_even :: "rat \<Rightarrow> int" where
  "round_even x =
     (let f = \<lfloor>x\<rfloor>; d = x - of_int f
      in if d < 1 / 2 \<or> d = 1 / 2 \<and> even f then f else f + 1)"

definition ulp_exponent :: "rat \<Rightarrow> int" where
  "ulp_exponent x = max (floor_log2 \<bar>x\<bar> - 52) (- 1074)"

definition nearest_double :: "rat \<Rightarrow> rat" where
  "nearest_double x =
     (if x = 0 then 0 else of_int (round_even (x / pow2 (ulp_exponent x))) * pow2 (ulp_exponent x))"

lemma pow2_powi: "pow2 e = 2 powi e"
  by (simp add: pow2_def power_int_def inverse_eq_divide power_one_over)

lemma pow2_pos [simp]: "0 < pow2 e"
  by (simp add: pow2_powi)

lemma pow2_nonzero [simp]: "pow2 e \<noteq> 0"
  by (simp add: pow2_powi)

lemma pow2_add: "pow2 (a + b) = pow2 a * pow2 b"
  by (simp add: pow2_powi power_int_add)

lemma pow2_mono: "a \<le> b \<Longrightarrow> pow2 a \<le> pow2 b"
  by (simp add: pow2_powi power_int_increasing)

lemma floor_log2_bounds:
  assumes "0 < x"
  shows "pow2 (floor_log2 x) \<le> x \<and> x < pow2 (floor_log2 x + 1)"
proof -
  obtain p q where pq: "quotient_of x = (p, q)" by (cases "quotient_of x")
  have q: "0 < q" using pq by (rule quotient_of_denom_pos)
  have x: "x = of_int p / of_int q" using pq by (rule quotient_of_div)
  have p: "0 < p" using assms q by (simp add: x zero_less_divide_iff)
  have b: "2 ^ nat (bitlen n - 1) \<le> n" "n < 2 ^ nat (bitlen n)" "1 \<le> bitlen n" if "0 < n" for n :: int
    using bitlen_bounds[OF that] bitlen_nonneg[of n] bitlen_eq_zero_iff[of n] that by auto
  have r: "pow2 (bitlen n - 1) \<le> of_int n" "of_int n < pow2 (bitlen n)" if "0 < n" for n :: int
  proof -
    have "of_int (2 ^ nat (bitlen n - 1)) \<le> (of_int n :: rat)" "(of_int n :: rat) < of_int (2 ^ nat (bitlen n))"
      using b[OF that] by (simp_all only: of_int_le_iff of_int_less_iff)
    then show "pow2 (bitlen n - 1) \<le> of_int n" "of_int n < pow2 (bitlen n)"
      using b(3)[OF that] by (simp_all add: pow2_def)
  qed
  let ?k = "bitlen p - bitlen q"
  have lo: "pow2 (?k - 1) \<le> x"
  proof -
    have "pow2 (?k - 1) * of_int q \<le> pow2 (?k - 1) * pow2 (bitlen q)"
      using r(2)[OF q] by (intro mult_left_mono) (simp_all add: less_imp_le)
    also have "\<dots> = pow2 (bitlen p - 1)" by (simp add: pow2_add[symmetric])
    also have "\<dots> \<le> of_int p" by (rule r(1)[OF p])
    finally show ?thesis using q by (simp add: x le_divide_eq)
  qed
  have hi: "x < pow2 (?k + 1)"
  proof -
    have "of_int p < pow2 (bitlen p)" by (rule r(2)[OF p])
    also have "\<dots> = pow2 (?k + 1) * pow2 (bitlen q - 1)" by (simp add: pow2_add[symmetric])
    also have "\<dots> \<le> pow2 (?k + 1) * of_int q" using r(1)[OF q] by (intro mult_left_mono) (simp_all add: less_imp_le)
    finally show ?thesis using q by (simp add: x divide_less_eq)
  qed
  show ?thesis using lo hi by (simp add: floor_log2_def pq Let_def)
qed

lemma round_even_error: "\<bar>of_int (round_even x) - x\<bar> \<le> 1 / 2"
proof -
  have "0 \<le> x - of_int \<lfloor>x\<rfloor>" "x - of_int \<lfloor>x\<rfloor> < 1" by linarith+
  then show ?thesis by (auto simp: round_even_def Let_def abs_le_iff)
qed

lemma round_even_of_int [simp]: "round_even (of_int n) = n"
  by (simp add: round_even_def)

lemma nearest_double_error:
  assumes "pow2 (- 1022) \<le> \<bar>x\<bar>"
  shows "\<bar>nearest_double x - x\<bar> \<le> \<bar>x\<bar> * pow2 (- 53)"
proof -
  have x: "0 < \<bar>x\<bar>" using assms pow2_pos[of "- 1022"] by linarith
  note fl = floor_log2_bounds[OF x]
  let ?e = "ulp_exponent x"
  have "- 1022 < floor_log2 \<bar>x\<bar> + 1"
  proof (rule ccontr)
    assume "\<not> ?thesis"
    then have "pow2 (floor_log2 \<bar>x\<bar> + 1) \<le> pow2 (- 1022)" by (intro pow2_mono) simp
    then show False using fl assms by linarith
  qed
  then have e: "?e = floor_log2 \<bar>x\<bar> - 52" by (simp add: ulp_exponent_def)
  have "nearest_double x - x = (of_int (round_even (x / pow2 ?e)) - x / pow2 ?e) * pow2 ?e"
    using x by (simp add: nearest_double_def algebra_simps)
  then have "\<bar>nearest_double x - x\<bar> = \<bar>of_int (round_even (x / pow2 ?e)) - x / pow2 ?e\<bar> * pow2 ?e"
    by (simp add: abs_mult less_imp_le)
  also have "\<dots> \<le> 1 / 2 * pow2 ?e"
    by (intro mult_right_mono round_even_error) (simp add: less_imp_le)
  also have "\<dots> = pow2 (floor_log2 \<bar>x\<bar>) * pow2 (- 53)"
  proof -
    have "1 / 2 * pow2 ?e = pow2 (- 1) * pow2 ?e" by (simp add: pow2_def)
    also have "\<dots> = pow2 (floor_log2 \<bar>x\<bar>) * pow2 (- 53)"
      unfolding pow2_add[symmetric] e by simp
    finally show ?thesis .
  qed
  also have "\<dots> \<le> \<bar>x\<bar> * pow2 (- 53)"
    using fl by (intro mult_right_mono) (simp_all add: less_imp_le)
  finally show ?thesis .
qed

lemma nearest_double_of_int:
  assumes "\<bar>n\<bar> < 2 ^ 53"
  shows "nearest_double (of_int n) = of_int n"
proof (cases "n = 0")
  case False
  let ?x = "of_int n :: rat"
  have x: "0 < \<bar>?x\<bar>" using False by simp
  note fl = floor_log2_bounds[OF x]
  have "floor_log2 \<bar>?x\<bar> < 53"
  proof (rule ccontr)
    assume "\<not> ?thesis"
    then have "pow2 53 \<le> pow2 (floor_log2 \<bar>?x\<bar>)" by (intro pow2_mono) simp
    then have "pow2 53 \<le> \<bar>?x\<bar>" using fl by linarith
    moreover have "pow2 53 = of_int (2 ^ 53)" by (simp add: pow2_def)
    ultimately have "(of_int (2 ^ 53) :: rat) \<le> of_int \<bar>n\<bar>" by simp
    then show False using assms by (simp only: of_int_le_iff)
  qed
  then have e: "ulp_exponent ?x \<le> 0" by (simp add: ulp_exponent_def)
  have "?x / pow2 (ulp_exponent ?x) = of_int (n * 2 ^ nat (- ulp_exponent ?x))"
    using e by (auto simp: pow2_def)
  then have "round_even (?x / pow2 (ulp_exponent ?x)) = n * 2 ^ nat (- ulp_exponent ?x)"
    by (simp only: round_even_of_int)
  moreover have "of_int (n * 2 ^ nat (- ulp_exponent ?x)) * pow2 (ulp_exponent ?x) = ?x"
    using e by (auto simp: pow2_def)
  ultimately show ?thesis using False by (simp add: nearest_double_def)
qed (simp add: nearest_double_def)

section \<open>Doubles and their operations\<close>

datatype double = DNum rat | DInf | DNegInf | DNaN

definition to_double :: "rat \<Rightarrow> double" where
  "to_double x =
     (let y = nearest_double x
      in if 2 ^ 1024 \<le> y then DInf else if y \<le> - (2 ^ 1024) then DNegInf else DNum y)"

definition d_int :: "int \<Rightarrow> double" where
  "d_int n = to_double (of_int n)"

fun d_neg :: "double \<Rightarrow> double" where
  "d_neg (DNum a) = DNum (- a)"
| "d_neg DInf = DNegInf"
| "d_neg DNegInf = DInf"
| "d_neg DNaN = DNaN"

fun d_add :: "double \<Rightarrow> double \<Rightarrow> double" where
  "d_add (DNum a) (DNum b) = to_double (a + b)"
| "d_add DNaN _ = DNaN"
| "d_add _ DNaN = DNaN"
| "d_add DInf DNegInf = DNaN"
| "d_add DNegInf DInf = DNaN"
| "d_add DInf _ = DInf"
| "d_add _ DInf = DInf"
| "d_add DNegInf _ = DNegInf"
| "d_add _ DNegInf = DNegInf"

definition d_sub :: "double \<Rightarrow> double \<Rightarrow> double" where
  "d_sub a b = d_add a (d_neg b)"

definition d_signed :: "rat \<Rightarrow> double" where
  "d_signed a = (if a = 0 then DNaN else if 0 < a then DInf else DNegInf)"

fun d_mul :: "double \<Rightarrow> double \<Rightarrow> double" where
  "d_mul (DNum a) (DNum b) = to_double (a * b)"
| "d_mul DNaN _ = DNaN"
| "d_mul _ DNaN = DNaN"
| "d_mul DInf (DNum b) = d_signed b"
| "d_mul (DNum a) DInf = d_signed a"
| "d_mul DNegInf (DNum b) = d_signed (- b)"
| "d_mul (DNum a) DNegInf = d_signed (- a)"
| "d_mul DInf b = b"
| "d_mul DNegInf b = d_neg b"

text \<open>A zero divisor is the positive zero.\<close>

fun d_div :: "double \<Rightarrow> double \<Rightarrow> double" where
  "d_div (DNum a) (DNum b) = (if b = 0 then d_signed a else to_double (a / b))"
| "d_div DNaN _ = DNaN"
| "d_div _ DNaN = DNaN"
| "d_div (DNum a) _ = DNum 0"
| "d_div DInf (DNum b) = (if b < 0 then DNegInf else DInf)"
| "d_div DNegInf (DNum b) = (if b < 0 then DInf else DNegInf)"
| "d_div _ _ = DNaN"

fun d_le :: "double \<Rightarrow> double \<Rightarrow> bool" where
  "d_le (DNum a) (DNum b) = (a \<le> b)"
| "d_le DNaN _ = False"
| "d_le _ DNaN = False"
| "d_le DNegInf _ = True"
| "d_le _ DInf = True"
| "d_le _ _ = False"

fun d_lt :: "double \<Rightarrow> double \<Rightarrow> bool" where
  "d_lt (DNum a) (DNum b) = (a < b)"
| "d_lt DNaN _ = False"
| "d_lt _ DNaN = False"
| "d_lt DNegInf b = (b \<noteq> DNegInf)"
| "d_lt a DInf = (a \<noteq> DInf)"
| "d_lt _ _ = False"

fun d_floor :: "double \<Rightarrow> double" where
  "d_floor (DNum a) = DNum (of_int \<lfloor>a\<rfloor>)"
| "d_floor x = x"

fun d_abs :: "double \<Rightarrow> double" where
  "d_abs (DNum a) = DNum \<bar>a\<bar>"
| "d_abs DNegInf = DInf"
| "d_abs x = x"

definition d_min :: "double \<Rightarrow> double \<Rightarrow> double" where
  "d_min a b = (if a = DNaN \<or> b = DNaN then DNaN else if d_le a b then a else b)"

definition d_max :: "double \<Rightarrow> double \<Rightarrow> double" where
  "d_max a b = (if a = DNaN \<or> b = DNaN then DNaN else if d_le a b then b else a)"

section \<open>One operation and its error\<close>

text \<open>A result of ordinary size lies within a relative error of \<open>10 ^ -15\<close> of the exact one.\<close>

lemma to_double_near:
  assumes "x = 0 \<or> 1 / 10 ^ 30 \<le> x" and "x \<le> 10 ^ 18"
  obtains y where "to_double x = DNum y" "x - x / 10 ^ 15 \<le> y" "y \<le> x + x / 10 ^ 15"
proof (cases "x = 0")
  case True
  then show ?thesis using that[of 0] by (simp add: to_double_def nearest_double_def)
next
  case False
  have "pow2 (- 1022) \<le> 1 / 10 ^ 30" by (simp add: pow2_def)
  moreover have "(0 :: rat) < 1 / 10 ^ 30" by simp
  ultimately have x: "0 < x" "pow2 (- 1022) \<le> \<bar>x\<bar>" using False assms(1) by linarith+
  have "\<bar>nearest_double x - x\<bar> \<le> \<bar>x\<bar> * pow2 (- 53)" by (rule nearest_double_error[OF x(2)])
  also have "\<dots> \<le> x * (1 / 10 ^ 15)"
    using x(1) by (intro mult_mono) (simp_all add: pow2_def)
  finally have "\<bar>nearest_double x - x\<bar> \<le> x / 10 ^ 15" unfolding times_divide_eq_right mult_1_right .
  then have err: "x - x / 10 ^ 15 \<le> nearest_double x" "nearest_double x \<le> x + x / 10 ^ 15"
    by linarith+
  have "x / 10 ^ 15 \<le> 1000" "0 \<le> x / 10 ^ 15" using assms(2) x(1) by simp_all
  then have "nearest_double x \<le> 10 ^ 18 + 1000" "- 1000 \<le> nearest_double x" using err assms(2) x(1) by linarith+
  moreover have "(10 :: rat) ^ 18 + 1000 < 2 ^ 1024" "- (2 ^ 1024) < (- 1000 :: rat)" by simp_all
  ultimately have "nearest_double x < 2 ^ 1024" "- (2 ^ 1024) < nearest_double x"
    by (blast intro: le_less_trans less_le_trans)+
  then have "to_double x = DNum (nearest_double x)" by (simp add: to_double_def Let_def)
  then show ?thesis using err by (rule that)
qed

lemma d_int_exact: "\<bar>n\<bar> < 2 ^ 53 \<Longrightarrow> d_int n = DNum (of_int n)"
proof -
  assume n: "\<bar>n\<bar> < 2 ^ 53"
  have "(of_int \<bar>n\<bar> :: rat) < of_int (2 ^ 53)" using n by (simp only: of_int_less_iff)
  moreover have "(of_int (2 ^ 53) :: rat) < 2 ^ 1024" by simp
  ultimately have "\<bar>of_int n :: rat\<bar> < 2 ^ 1024" by simp
  then show ?thesis
    by (simp add: d_int_def to_double_def nearest_double_of_int[OF n] Let_def abs_less_iff)
qed

text \<open>The same with an absolute bound, for a number that is zero or not tiny.\<close>

lemma to_double_step:
  assumes "x = 0 \<or> l \<le> x" and "x \<le> m" and "1 / 1000000000000 \<le> l" and "m \<le> 1000000000"
  obtains y where "to_double x = DNum y" "x - m / 1000000000000000 \<le> y" "y \<le> x + m / 1000000000000000" "y = 0 \<or> l / 2 \<le> y" "0 \<le> y"
proof -
  have "1 / 10 ^ 30 \<le> (1 / 1000000000000 :: rat)" by simp
  then have x: "0 \<le> x" "x = 0 \<or> 1 / 10 ^ 30 \<le> x" using assms(1,3) by linarith+
  have "x \<le> 10 ^ 18" using assms(2,4) by simp
  then obtain y where y: "to_double x = DNum y" "x - x / 10 ^ 15 \<le> y" "y \<le> x + x / 10 ^ 15"
    using to_double_near[OF x(2)] by blast
  define r where "r = x / 10 ^ 15"
  have m: "r \<le> m / 1000000000000000" unfolding r_def using assms(2) by (simp add: divide_right_mono)
  have h: "r \<le> x / 2" unfolding r_def using x(1) by (intro divide_left_mono) simp_all
  note y = y(1) y(2,3)[folded r_def]
  have "y = 0 \<or> l / 2 \<le> y"
    using assms(1)
  proof
    assume "x = 0"
    then show ?thesis using y(2,3) by (simp add: r_def)
  next
    assume "l \<le> x"
    then have "l / 2 \<le> y" using y(2) h by linarith
    then show ?thesis ..
  qed
  with y m h x(1) show ?thesis by (intro that[of y]) linarith+
qed

text \<open>Evaluation of an operation: round, then check the size.\<close>

lemma to_double_eq:
  assumes "nearest_double x = y" and "\<bar>y\<bar> \<le> 1000000000000"
  shows "to_double x = DNum y"
proof -
  have "(1000000000000 :: rat) < 2 ^ 1024" by simp
  then have "y < 2 ^ 1024" "- (2 ^ 1024) < y" using assms(2) by (simp_all only: abs_le_iff) (blast intro: le_less_trans, linarith)
  then show ?thesis using assms(1) by (simp add: to_double_def Let_def)
qed

end
