(* ===== verification/Web_Vote.thy ===== *)
theory Web_Vote
  imports Web_Proposals Web_Bid Js_Double
begin

text \<open>
  Voting in the web app: the vote dialog (\<open>components/VoteModal\<close>), the page of a proposal (\<open>pages/Vote\<close>), its header and
  status pill, and the list of proposals. A dialog run is a sequence of events: clicks, answers of the node and
  states of the four transaction hooks. Dates are milliseconds, an invalid date is \<open>NaN\<close>; texts are their English
  source texts.
\<close>

section \<open>The vote dialog\<close>

record VoteModal =
  vm_show :: bool
  vm_vote :: "WVote option"
  vm_voteReason :: string
  vm_isLoading :: bool
  vm_isVoteSuccessful :: bool
  vm_isVoteFailed :: bool
  vm_failureCopy :: string
  vm_errorMessage :: string

definition initial_vote_modal :: VoteModal where
  "initial_vote_modal = \<lparr>vm_show = False, vm_vote = None, vm_voteReason = [], vm_isLoading = False,
     vm_isVoteSuccessful = False, vm_isVoteFailed = False, vm_failureCopy = [], vm_errorMessage = []\<rparr>"

definition getVoteErrorMessage :: "string option \<Rightarrow> string option" where
  "getVoteErrorMessage err =
     (case err of None \<Rightarrow> None
      | Some e \<Rightarrow> if contains_str e ''voter already voted'' then Some ''User Already Voted'' else Some e)"

text \<open>\<open>x || y\<close> for a text that may be undefined or empty.\<close>

definition text_or :: "string option \<Rightarrow> string \<Rightarrow> string" where
  "text_or t d = (case t of Some (c # cs) \<Rightarrow> c # cs | _ \<Rightarrow> d)"

definition handleVoteStateChange :: "tx_state \<Rightarrow> VoteModal \<Rightarrow> VoteModal" where
  "handleVoteStateChange st m =
     (case tx_status st of
        TxNone \<Rightarrow> m\<lparr>vm_isLoading := False\<rparr>
      | TxPending \<Rightarrow> m
      | TxMining \<Rightarrow> m\<lparr>vm_isLoading := True\<rparr>
      | TxSuccess \<Rightarrow> m\<lparr>vm_isLoading := False, vm_isVoteSuccessful := True\<rparr>
      | TxFail \<Rightarrow> m\<lparr>vm_failureCopy := ''Transaction Failed'',
                    vm_errorMessage := text_or (tx_errorMessage st) ''Please try again.'',
                    vm_isLoading := False, vm_isVoteFailed := True\<rparr>
      | TxException \<Rightarrow> m\<lparr>vm_failureCopy := ''Error'',
                    vm_errorMessage := text_or (getVoteErrorMessage (tx_errorMessage st)) ''Please try again.'',
                    vm_isLoading := False, vm_isVoteFailed := True\<rparr>)"

text \<open>The effect on \<open>show\<close>, and the two ways the dialog closes.\<close>

definition show_effect :: "VoteModal \<Rightarrow> VoteModal" where
  "show_effect m = (if vm_show m then m else m\<lparr>vm_isVoteFailed := False\<rparr>)"

definition hide_vote_modal :: "VoteModal \<Rightarrow> VoteModal" where
  "hide_vote_modal m = show_effect (m\<lparr>vm_show := False\<rparr>)"

definition resetNonSuccessStateAndHideModal :: "VoteModal \<Rightarrow> VoteModal" where
  "resetNonSuccessStateAndHideModal m =
     hide_vote_modal (m\<lparr>vm_isLoading := False, vm_isVoteFailed := False, vm_errorMessage := [], vm_failureCopy := []\<rparr>)"

text \<open>\<open>signerIsContract\<close>: the code that the node answers for the account.\<close>

definition signerIsContract :: "bool \<Rightarrow> string option \<Rightarrow> string \<Rightarrow> bool" where
  "signerIsContract library acc code = (library \<and> acc \<noteq> None \<and> acc \<noteq> Some [] \<and> code \<noteq> ''0x'')"

record vote_call =
  vl_method :: string
  vl_proposalId :: string
  vl_vote :: WVote
  vl_reason :: "string option"
  vl_gasLimit :: "int option"

text \<open>A click on the button captures vote and reason, and goes on when the node has answered.\<close>

definition submit_vote :: "string option \<Rightarrow> VoteModal \<Rightarrow> VoteModal \<times> (string \<times> WVote \<times> string) option" where
  "submit_vote proposalId m =
     (case (vm_vote m, proposalId) of
        (Some v, Some (c # cs)) \<Rightarrow>
          if vm_isLoading m then (m, None) else (m\<lparr>vm_isLoading := True\<rparr>, Some (c # cs, v, vm_voteReason m))
      | _ \<Rightarrow> (m, None))"

definition useCastRefundableVote :: "vote_call \<Rightarrow> (string, int) result \<Rightarrow> (string, vote_call) result" where
  "useCastRefundableVote c gasLimit = bind_result gasLimit (\<lambda>g. Inr (c\<lparr>vl_gasLimit := Some (g + 20000)\<rparr>))"

definition send_vote :: "bool \<Rightarrow> string \<times> WVote \<times> string \<Rightarrow> (string, int) result \<Rightarrow> (string, vote_call) result" where
  "send_vote isContract pvr gasLimit =
     (let (proposalId, v, reason) = pvr;
          isReasonEmpty = (trim reason = []);
          c = \<lparr>vl_method = [], vl_proposalId = proposalId, vl_vote = v,
               vl_reason = (if isReasonEmpty then None else Some reason), vl_gasLimit = None\<rparr>
      in if isContract
         then Inr (c\<lparr>vl_method := (if isReasonEmpty then ''castVote'' else ''castVoteWithReason'')\<rparr>)
         else useCastRefundableVote
                (c\<lparr>vl_method := (if isReasonEmpty then ''castRefundableVote'' else ''castRefundableVoteWithReason'')\<rparr>) gasLimit)"

text \<open>What the dialog shows.\<close>

datatype vote_view = VoteThanks | VoteFailure string string | VoteForm bool "WVote option" bool

definition vote_modal_content :: "VoteModal \<Rightarrow> vote_view list" where
  "vote_modal_content m =
     (if vm_isVoteSuccessful m then [VoteThanks] else [])
     @ (if vm_isVoteFailed m then [VoteFailure (vm_failureCopy m) (vm_errorMessage m)] else [])
     @ (if \<not> vm_isVoteFailed m \<and> \<not> vm_isVoteSuccessful m then [VoteForm (vm_isLoading m) (vm_vote m) (vm_vote m = None)] else [])"

definition form_shown :: "VoteModal \<Rightarrow> bool" where
  "form_shown m \<longleftrightarrow> vm_show m \<and> \<not> vm_isVoteFailed m \<and> \<not> vm_isVoteSuccessful m"

section \<open>Runs of the dialog\<close>

text \<open>
  A session: the dialog, the clicks that wait for the node's answer, the votes whose transaction is under way and
  the finished ones. With \<open>free\<close> the dialog may be dismissed at any time, otherwise only while nothing is under way.
\<close>

record vote_session =
  vs_modal :: VoteModal
  vs_checks :: "(string \<times> WVote \<times> string) list"
  vs_pending :: "vote_call list"
  vs_finished :: "(vote_call \<times> bool) list"

definition idle :: "vote_session \<Rightarrow> bool" where
  "idle s \<longleftrightarrow> vs_checks s = [] \<and> vs_pending s = []"

inductive vote_step :: "bool \<Rightarrow> string option \<Rightarrow> vote_session \<Rightarrow> vote_session \<Rightarrow> bool" for free pid where
  open_it: "vote_step free pid s (s\<lparr>vs_modal := (vs_modal s)\<lparr>vm_show := True\<rparr>\<rparr>)"
| choose: "form_shown (vs_modal s) \<Longrightarrow> vote_step free pid s (s\<lparr>vs_modal := (vs_modal s)\<lparr>vm_vote := Some v\<rparr>\<rparr>)"
| edit_reason: "form_shown (vs_modal s) \<Longrightarrow> vote_step free pid s (s\<lparr>vs_modal := (vs_modal s)\<lparr>vm_voteReason := r\<rparr>\<rparr>)"
| click: "form_shown (vs_modal s) \<Longrightarrow> submit_vote pid (vs_modal s) = (m, Some c)
    \<Longrightarrow> vote_step free pid s (s\<lparr>vs_modal := m, vs_checks := c # vs_checks s\<rparr>)"
| sent: "c \<in> set (vs_checks s) \<Longrightarrow> send_vote isContract c gasLimit = Inr call
    \<Longrightarrow> vote_step free pid s (s\<lparr>vs_checks := remove1 c (vs_checks s), vs_pending := call # vs_pending s\<rparr>)"
| rejected: "c \<in> set (vs_checks s) \<Longrightarrow> vote_step free pid s (s\<lparr>vs_checks := remove1 c (vs_checks s)\<rparr>)"
| progress: "call \<in> set (vs_pending s) \<Longrightarrow> tx_status st \<in> {TxPending, TxMining}
    \<Longrightarrow> vote_step free pid s (s\<lparr>vs_modal := handleVoteStateChange st (vs_modal s)\<rparr>)"
| finished: "call \<in> set (vs_pending s) \<Longrightarrow> tx_status st \<in> {TxSuccess, TxFail, TxException}
    \<Longrightarrow> vote_step free pid s (s\<lparr>vs_modal := handleVoteStateChange st (vs_modal s),
          vs_pending := remove1 call (vs_pending s), vs_finished := (call, tx_status st = TxSuccess) # vs_finished s\<rparr>)"
| auto_close: "vm_isVoteSuccessful (vs_modal s) \<Longrightarrow> vote_step free pid s (s\<lparr>vs_modal := hide_vote_modal (vs_modal s)\<rparr>)"
| dismiss: "free \<or> idle s
    \<Longrightarrow> vote_step free pid s (s\<lparr>vs_modal := resetNonSuccessStateAndHideModal (vs_modal s)\<rparr>)"

inductive vote_reach :: "bool \<Rightarrow> string option \<Rightarrow> vote_session \<Rightarrow> bool" for free pid where
  start: "vote_reach free pid \<lparr>vs_modal = initial_vote_modal, vs_checks = [], vs_pending = [], vs_finished = []\<rparr>"
| step: "vote_reach free pid s \<Longrightarrow> vote_step free pid s t \<Longrightarrow> vote_reach free pid t"

definition under_way :: "vote_session \<Rightarrow> nat" where
  "under_way s = length (vs_checks s) + length (vs_pending s)"

definition session_ok :: "string option \<Rightarrow> vote_session \<Rightarrow> bool" where
  "session_ok pid s \<longleftrightarrow>
     (if idle s then True else under_way s = 1 \<and> vm_isLoading (vs_modal s)
        \<and> \<not> vm_isVoteFailed (vs_modal s) \<and> \<not> vm_isVoteSuccessful (vs_modal s))
     \<and> length (filter snd (vs_finished s)) = (if vm_isVoteSuccessful (vs_modal s) then 1 else 0)
     \<and> list_all (\<lambda>c. Some (fst c) = pid) (vs_checks s)
     \<and> list_all (\<lambda>c. Some (vl_proposalId c) = pid) (vs_pending s @ map fst (vs_finished s))"

lemma submit_vote_Some:
  assumes "submit_vote pid m = (m', Some c)"
  shows "\<not> vm_isLoading m \<and> m' = m\<lparr>vm_isLoading := True\<rparr> \<and> Some (fst c) = pid \<and> vm_vote m = Some (fst (snd c))"
  using assms by (auto simp: submit_vote_def split: option.splits list.splits if_splits)

lemma send_vote_proposal: "send_vote ic c g = Inr call \<Longrightarrow> vl_proposalId call = fst c"
  by (cases c) (auto simp: send_vote_def useCastRefundableVote_def Let_def js_simps split: if_splits)

lemmas modal_changes = hide_vote_modal_def show_effect_def resetNonSuccessStateAndHideModal_def handleVoteStateChange_def

lemma one_under_way:
  assumes "session_ok pid s"
  shows "c \<in> set (vs_checks s) \<Longrightarrow> vs_checks s = [c] \<and> vs_pending s = []"
    and "call \<in> set (vs_pending s) \<Longrightarrow> vs_pending s = [call] \<and> vs_checks s = []"
proof -
  have n: "length (vs_checks s) + length (vs_pending s) \<le> 1"
    using assms unfolding session_ok_def idle_def under_way_def by (auto split: if_splits)
  show "vs_checks s = [c] \<and> vs_pending s = []" if "c \<in> set (vs_checks s)"
    using n that by (cases "vs_checks s") auto
  show "vs_pending s = [call] \<and> vs_checks s = []" if "call \<in> set (vs_pending s)"
    using n that by (cases "vs_pending s") auto
qed

lemma vote_step_ok:
  assumes "vote_step False pid s t" and "session_ok pid s"
  shows "session_ok pid t"
  using assms
proof (induction rule: vote_step.induct)
  case (click s m c)
  then show ?case
    using submit_vote_Some[OF click(2)] by (auto simp: session_ok_def idle_def under_way_def form_shown_def split: if_splits)
next
  case (sent c s isContract gasLimit call)
  then show ?case
    using one_under_way(1)[OF sent(3,1)] send_vote_proposal[OF sent(2)] by (auto simp: session_ok_def idle_def under_way_def)
next
  case (rejected c s)
  then show ?case using one_under_way(1)[OF rejected(2,1)] by (auto simp: session_ok_def idle_def under_way_def)
next
  case (progress call s st)
  then show ?case
    using one_under_way(2)[OF progress(3,1)] by (auto simp: session_ok_def idle_def under_way_def handleVoteStateChange_def)
next
  case (finished call s st)
  then show ?case
    using one_under_way(2)[OF finished(3,1)] by (auto simp: session_ok_def idle_def under_way_def handleVoteStateChange_def)
qed (auto simp: session_ok_def idle_def under_way_def modal_changes split: if_splits)

lemma vote_reach_ok: "vote_reach False pid s \<Longrightarrow> session_ok pid s"
proof (induction rule: vote_reach.induct)
  case start
  show ?case by (simp add: session_ok_def idle_def initial_vote_modal_def)
next
  case (step s t)
  then show ?case using vote_step_ok by blast
qed

text \<open>C27. As long as the vote dialog is not dismissed while something is under way, at most one vote is under way, all
  votes are for the page's proposal, at most one succeeds, and after it no other can be submitted.\<close>

theorem vote_sent_once:
  assumes "vote_reach False pid s"
  shows "under_way s \<le> 1 \<and> length (filter snd (vs_finished s)) \<le> 1
    \<and> list_all (\<lambda>c. Some (vl_proposalId c) = pid) (vs_pending s @ map fst (vs_finished s))
    \<and> (if vm_isVoteSuccessful (vs_modal s) then idle s \<and> \<not> form_shown (vs_modal s)
       else list_all (\<lambda>c. \<not> snd c) (vs_finished s))
    \<and> (if idle s then True else submit_vote pid (vs_modal s) = (vs_modal s, None))"
proof -
  have ok: "session_ok pid s" using assms by (rule vote_reach_ok)
  have "under_way s \<le> 1" using ok unfolding session_ok_def by (auto simp: idle_def under_way_def split: if_splits)
  moreover have "submit_vote pid (vs_modal s) = (vs_modal s, None)" if "\<not> idle s"
    using ok that by (auto simp: session_ok_def submit_vote_def split: option.splits list.splits)
  moreover have "list_all (\<lambda>c. \<not> snd c) (vs_finished s)" if "\<not> vm_isVoteSuccessful (vs_modal s)"
    using ok that by (auto simp: session_ok_def list_all_iff filter_empty_conv)
  ultimately show ?thesis using ok by (auto simp: session_ok_def form_shown_def split: if_splits)
qed

lemma vote_steps: "vote_reach free pid s \<Longrightarrow> vote_step free pid s t \<Longrightarrow> t = u \<Longrightarrow> vote_reach free pid u"
  using vote_reach.step by blast

text \<open>The session after the first vote was sent: the dialog open, a vote for proposal 7 chosen and under way.\<close>

definition for_modal :: VoteModal where
  "for_modal = initial_vote_modal\<lparr>vm_show := True, vm_vote := Some VFOR, vm_isLoading := True\<rparr>"

definition refundable_vote :: "WVote \<Rightarrow> vote_call" where
  "refundable_vote v = \<lparr>vl_method = ''castRefundableVote'', vl_proposalId = ''7'', vl_vote = v, vl_reason = None,
     vl_gasLimit = Some 120000\<rparr>"

lemma send_refundable: "send_vote False (''7'', v, []) (Inr 100000) = Inr (refundable_vote v)"
proof -
  have "trim [] = []" by code_simp
  then show ?thesis by (simp add: send_vote_def useCastRefundableVote_def refundable_vote_def Let_def)
qed

lemma first_vote_sent:
  "vote_reach free (Some ''7'')
     \<lparr>vs_modal = for_modal, vs_checks = [], vs_pending = [refundable_vote VFOR], vs_finished = []\<rparr>"
proof -
  let ?s = "\<lambda>m cs ps. \<lparr>vs_modal = m, vs_checks = cs, vs_pending = ps, vs_finished = []\<rparr>"
  have "vote_reach free (Some ''7'') (?s (initial_vote_modal\<lparr>vm_show := True\<rparr>) [] [])"
    by (rule vote_steps[OF vote_reach.start open_it]) simp
  then have "vote_reach free (Some ''7'') (?s (initial_vote_modal\<lparr>vm_show := True, vm_vote := Some VFOR\<rparr>) [] [])"
    by (rule vote_steps[OF _ choose[where v = VFOR]]) (simp_all add: form_shown_def initial_vote_modal_def)
  then have "vote_reach free (Some ''7'') (?s for_modal [(''7'', VFOR, [])] [])"
    by (rule vote_steps[OF _ click[where m = for_modal and c = "(''7'', VFOR, [])"]])
      (simp_all add: form_shown_def initial_vote_modal_def submit_vote_def for_modal_def)
  then show ?thesis
    by (rule vote_steps[OF _ sent[OF _ send_refundable[of VFOR]]]) simp_all
qed

theorem vote_sent_once_witness:
  "\<exists>s. vs_finished s = [(refundable_vote VFOR, True)] \<and> idle s \<and> \<not> form_shown (vs_modal s)"
proof -
  let ?s = "\<lparr>vs_modal = for_modal\<lparr>vm_isLoading := False, vm_isVoteSuccessful := True\<rparr>, vs_checks = [], vs_pending = [],
    vs_finished = [(refundable_vote VFOR, True)]\<rparr>"
  have "vote_reach False (Some ''7'') ?s"
    by (rule vote_steps[OF first_vote_sent finished[where st = "\<lparr>tx_status = TxSuccess, tx_errorMessage = None\<rparr>"]])
      (simp_all add: handleVoteStateChange_def)
  from vote_sent_once[OF this] show ?thesis by (intro exI[of _ ?s]) simp
qed

text \<open>Dismissing the dialog resets the loading flag but not the transaction: a second, contrary vote can be sent.\<close>

lemma dismissed_votes_twice:
  "\<exists>s. vote_reach True (Some ''7'') s \<and> vs_pending s = [refundable_vote VAGAINST, refundable_vote VFOR]"
proof -
  let ?s = "\<lambda>m cs ps. \<lparr>vs_modal = m, vs_checks = cs, vs_pending = ps, vs_finished = []\<rparr>"
  let ?f = "[refundable_vote VFOR]"
  let ?m = "for_modal\<lparr>vm_isLoading := False\<rparr>"
  have "vote_reach True (Some ''7'') (?s (?m\<lparr>vm_show := False\<rparr>) [] ?f)"
    by (rule vote_steps[OF first_vote_sent dismiss]) (simp_all add: modal_changes for_modal_def initial_vote_modal_def)
  then have "vote_reach True (Some ''7'') (?s ?m [] ?f)"
    by (rule vote_steps[OF _ open_it]) (simp add: for_modal_def)
  then have "vote_reach True (Some ''7'') (?s (?m\<lparr>vm_vote := Some VAGAINST\<rparr>) [] ?f)"
    by (rule vote_steps[OF _ choose[where v = VAGAINST]]) (simp_all add: form_shown_def for_modal_def initial_vote_modal_def)
  then have "vote_reach True (Some ''7'') (?s (for_modal\<lparr>vm_vote := Some VAGAINST\<rparr>) [(''7'', VAGAINST, [])] ?f)"
    by (rule vote_steps[OF _ click[where m = "for_modal\<lparr>vm_vote := Some VAGAINST\<rparr>" and c = "(''7'', VAGAINST, [])"]])
      (simp_all add: form_shown_def for_modal_def initial_vote_modal_def submit_vote_def)
  then have "vote_reach True (Some ''7'') (?s (for_modal\<lparr>vm_vote := Some VAGAINST\<rparr>) [] [refundable_vote VAGAINST, refundable_vote VFOR])"
    by (rule vote_steps[OF _ sent[OF _ send_refundable[of VAGAINST]]]) simp_all
  then show ?thesis by (intro exI) (rule conjI, assumption, simp)
qed

text \<open>A vote whose gas cannot be estimated, because the contract would refuse it, leaves the dialog loading: nothing but
  dismissing it changes that, and no message is shown.\<close>

definition hanging :: "vote_session \<Rightarrow> bool" where
  "hanging s \<longleftrightarrow> idle s \<and> vm_isLoading (vs_modal s) \<and> \<not> vm_isVoteFailed (vs_modal s) \<and> \<not> vm_isVoteSuccessful (vs_modal s)"

lemma rejected_vote_hangs:
  assumes "vote_reach False pid s" and "c \<in> set (vs_checks s)"
  shows "hanging (s\<lparr>vs_checks := remove1 c (vs_checks s)\<rparr>)"
  using vote_reach_ok[OF assms(1)] one_under_way(1)[OF vote_reach_ok[OF assms(1)] assms(2)]
  by (auto simp: hanging_def session_ok_def idle_def)

lemma hanging_stays:
  assumes "vote_step free pid s t" and "hanging s"
  shows "hanging t \<or> t = s\<lparr>vs_modal := resetNonSuccessStateAndHideModal (vs_modal s)\<rparr>"
  using assms by (cases rule: vote_step.cases)
    (auto simp: hanging_def idle_def submit_vote_def split: option.splits list.splits if_splits)

section \<open>The page of a proposal\<close>

record VotePage =
  pg_showVoteModal :: bool
  pg_showDynamicQuorumInfoModal :: bool
  pg_isDelegateView :: bool
  pg_isQueuePending :: bool
  pg_isExecutePending :: bool
  pg_isCancelPending :: bool
  pg_showToast :: bool
  pg_alert :: "AlertModal option"

definition initial_vote_page :: VotePage where
  "initial_vote_page = \<lparr>pg_showVoteModal = False, pg_showDynamicQuorumInfoModal = False, pg_isDelegateView = False,
     pg_isQueuePending = False, pg_isExecutePending = False, pg_isCancelPending = False, pg_showToast = True, pg_alert = None\<rparr>"

definition AVERAGE_BLOCK_TIME_IN_SECS :: int where
  "AVERAGE_BLOCK_TIME_IN_SECS = 12"

text \<open>The estimated date of a block; undefined without a timestamp or a current block.\<close>

definition block_date :: "int \<Rightarrow> int option \<Rightarrow> num \<Rightarrow> num option" where
  "block_date timestamp currentBlock block =
     (if timestamp = 0 \<or> no_block currentBlock then None
      else Some (num_add (Some timestamp)
                   (map_option (\<lambda>d. 1000 * (AVERAGE_BLOCK_TIME_IN_SECS * d)) (num_sub block currentBlock))))"

definition isBefore :: "num option \<Rightarrow> int \<Rightarrow> bool" where
  "isBefore d now = (case d of None \<Rightarrow> False | Some n \<Rightarrow> num_lt n (Some now))"

definition isAfter :: "num option \<Rightarrow> int \<Rightarrow> bool" where
  "isAfter d now = (case d of None \<Rightarrow> False | Some n \<Rightarrow> num_lt (Some now) n)"

definition isActiveForVoting :: "num option \<Rightarrow> num option \<Rightarrow> int \<Rightarrow> bool" where
  "isActiveForVoting startDate endDate now = (isBefore startDate now \<and> isAfter endDate now)"

definition startOrEndTimeCopy :: "num option \<Rightarrow> num option \<Rightarrow> int \<Rightarrow> string" where
  "startOrEndTimeCopy startDate endDate now =
     (if isBefore startDate now \<and> isAfter endDate now then ''Ends''
      else if isBefore endDate now then ''Ended''
      else ''Starts'')"

definition startOrEndTimeTime :: "num option \<Rightarrow> num option \<Rightarrow> int \<Rightarrow> num option" where
  "startOrEndTimeTime startDate endDate now = (if \<not> isBefore startDate now then startDate else endDate)"

definition totalVotes :: "'a PartialProposal_scheme option \<Rightarrow> num" where
  "totalVotes proposal =
     (case proposal of None \<Rightarrow> None
      | Some p \<Rightarrow> num_add (num_add (pp_forCount p) (pp_againstCount p)) (pp_abstainCount p))"

definition double_of :: "num \<Rightarrow> double" where
  "double_of n = (case n of None \<Rightarrow> DNaN | Some i \<Rightarrow> d_int i)"

text \<open>The share of one count in percent; 0 without votes.\<close>

definition percentage :: "num \<Rightarrow> num \<Rightarrow> double" where
  "percentage votes total_votes =
     (if total_votes = None \<or> total_votes = Some 0 then d_int 0
      else d_div (d_mul (double_of votes) (d_int 100)) (double_of total_votes))"

definition isInNonFinalState :: "ProposalState option \<Rightarrow> bool" where
  "isInNonFinalState status =
     (case status of None \<Rightarrow> False | Some s \<Rightarrow> s \<in> {SPENDING, SACTIVE, SSUCCEEDED, SQUEUED})"

definition isCancellable :: "WProposal option \<Rightarrow> string option \<Rightarrow> bool" where
  "isCancellable proposal acc =
     (isInNonFinalState (map_option pp_status proposal)
      \<and> map_option to_lower (Option.bind proposal wp_proposer) = map_option to_lower acc)"

definition hasSucceeded :: "WProposal option \<Rightarrow> bool" where
  "hasSucceeded proposal = (map_option pp_status proposal = Some SSUCCEEDED)"

text \<open>\<open>new Date() >= (proposal?.eta ?? Number.MAX_SAFE_INTEGER)\<close>: \<open>pp_eta\<close> is in seconds, \<open>None\<close> if undefined.\<close>

definition isAwaitingStateChange :: "WProposal option \<Rightarrow> int \<Rightarrow> bool" where
  "isAwaitingStateChange proposal now =
     (if hasSucceeded proposal then True
      else case proposal of
        None \<Rightarrow> False
      | Some p \<Rightarrow> pp_status p = SQUEUED
          \<and> (case pp_eta p of None \<Rightarrow> 9007199254740991 \<le> now | Some e \<Rightarrow> 1000 * e \<le> now))"

definition isAwaitingDestructiveStateChange :: "WProposal option \<Rightarrow> string option \<Rightarrow> bool" where
  "isAwaitingDestructiveStateChange proposal acc = isCancellable proposal acc"

datatype page_call = QueueProposal string | ExecuteProposal string | CancelProposal string

definition with_id :: "(string \<Rightarrow> page_call) \<Rightarrow> WProposal option \<Rightarrow> page_call option" where
  "with_id f proposal =
     (case Option.bind proposal pp_id of Some (c # cs) \<Rightarrow> Some (f (c # cs)) | _ \<Rightarrow> None)"

definition moveStateAction :: "WProposal option \<Rightarrow> page_call option" where
  "moveStateAction proposal =
     (if hasSucceeded proposal then with_id QueueProposal proposal else with_id ExecuteProposal proposal)"

definition destructiveStateAction :: "WProposal option \<Rightarrow> string option \<Rightarrow> page_call option" where
  "destructiveStateAction proposal acc =
     (if isCancellable proposal acc then with_id CancelProposal proposal else None)"

definition final_alert :: "string \<Rightarrow> string \<Rightarrow> AlertModal" where
  "final_alert title message = \<lparr>am_show = True, am_title = Some title, am_message = Some message\<rparr>"

text \<open>The state of a transaction, reported with the success message, \<open>setPending\<close>, the message of an exception and the
  action on a final state.\<close>

definition onTransactionStateChange ::
  "tx_state \<Rightarrow> string option \<Rightarrow> (bool \<Rightarrow> VotePage \<Rightarrow> VotePage) \<Rightarrow> (string option \<Rightarrow> string option) \<Rightarrow> (VotePage \<Rightarrow> VotePage)
    \<Rightarrow> VotePage \<Rightarrow> VotePage" where
  "onTransactionStateChange tx successMessage setPending getErrorMessage onFinalState p =
     (let final = (\<lambda>a. onFinalState (setPending False (p\<lparr>pg_alert := Some a\<rparr>))) in
      case tx_status tx of
        TxNone \<Rightarrow> setPending False p
      | TxPending \<Rightarrow> p
      | TxMining \<Rightarrow> setPending True p
      | TxSuccess \<Rightarrow> final (final_alert ''Success'' (text_or successMessage ''Transaction Successful!''))
      | TxFail \<Rightarrow> final (final_alert ''Transaction Failed'' (text_or (tx_errorMessage tx) ''Please try again.''))
      | TxException \<Rightarrow> final (final_alert ''Error'' (text_or (getErrorMessage (tx_errorMessage tx)) ''Please try again.'')))"

definition queue_effect :: "tx_state \<Rightarrow> VotePage \<Rightarrow> VotePage" where
  "queue_effect tx = onTransactionStateChange tx (Some ''Proposal Queued!'') (\<lambda>b p. p\<lparr>pg_isQueuePending := b\<rparr>) (\<lambda>_. None) (\<lambda>p. p)"

definition execute_effect :: "tx_state \<Rightarrow> VotePage \<Rightarrow> VotePage" where
  "execute_effect tx = onTransactionStateChange tx (Some ''Proposal Executed!'') (\<lambda>b p. p\<lparr>pg_isExecutePending := b\<rparr>) (\<lambda>_. None) (\<lambda>p. p)"

definition cancel_effect :: "tx_state \<Rightarrow> VotePage \<Rightarrow> VotePage" where
  "cancel_effect tx = onTransactionStateChange tx (Some ''Proposal Canceled!'') (\<lambda>b p. p\<lparr>pg_isCancelPending := b\<rparr>) (\<lambda>_. None) (\<lambda>p. p)"

definition hide_toast :: "VotePage \<Rightarrow> VotePage" where
  "hide_toast p = p\<lparr>pg_showToast := False\<rparr>"

section \<open>Votes and Nouns\<close>

record ProposalVote =
  pv_voter :: string
  pv_supportDetailed :: int

record Delegate_snapshot =
  ds_id :: string
  ds_nounsRepresented :: "string list option"

record DelegateVote =
  dv_delegate :: string
  dv_supportDetailed :: int
  dv_nounsRepresented :: "string list"

text \<open>The object that maps delegates to their Nouns: a later entry replaces an earlier one.\<close>

definition delegateToUNounIds :: "Delegate_snapshot list \<Rightarrow> string \<Rightarrow> string list option" where
  "delegateToUNounIds ds = foldl (\<lambda>acc curr. acc(ds_id curr \<mapsto> (case ds_nounsRepresented curr of None \<Rightarrow> [] | Some ns \<Rightarrow> ns))) Map.empty ds"

definition vote_data :: "Delegate_snapshot list option \<Rightarrow> ProposalVote list option \<Rightarrow> DelegateVote list option" where
  "vote_data delegates voters =
     map_option (map (\<lambda>v.
       \<lparr>dv_delegate = pv_voter v, dv_supportDetailed = pv_supportDetailed v,
        dv_nounsRepresented = (case Option.bind delegates (\<lambda>ds. delegateToUNounIds ds (pv_voter v)) of None \<Rightarrow> [] | Some ns \<Rightarrow> ns)\<rparr>)) voters"

definition getNounVotes :: "DelegateVote list \<Rightarrow> int \<Rightarrow> string list" where
  "getNounVotes votes supportDetailed =
     concat (map dv_nounsRepresented (filter (\<lambda>v. dv_supportDetailed v = supportDetailed) votes))"

subsection \<open>The cards\<close>

datatype VoteCardVariant = FOR | AGAINST | ABSTAIN

fun support_of :: "VoteCardVariant \<Rightarrow> int" where
  "support_of FOR = 1"
| "support_of AGAINST = 0"
| "support_of ABSTAIN = 2"

fun count_of :: "VoteCardVariant \<Rightarrow> 'a PartialProposal_scheme \<Rightarrow> num" where
  "count_of FOR p = pp_forCount p"
| "count_of AGAINST p = pp_againstCount p"
| "count_of ABSTAIN p = pp_abstainCount p"

datatype card_count = Addresses nat | Votes num

record VoteCard =
  vcd_variant :: VoteCardVariant
  vcd_count :: card_count
  vcd_percentage :: double
  vcd_table :: "string list + DelegateVote list"

definition vote_card :: "WProposal \<Rightarrow> double \<Rightarrow> string list \<Rightarrow> VoteCardVariant \<Rightarrow> bool \<Rightarrow> DelegateVote list option \<Rightarrow> VoteCard" where
  "vote_card proposal pct nounIds variant delegateView delegateGroupedVoteData =
     (let filtered = (case delegateGroupedVoteData of None \<Rightarrow> []
                      | Some ds \<Rightarrow> filter (\<lambda>v. dv_supportDetailed v = support_of variant) ds) in
      \<lparr>vcd_variant = variant,
       vcd_count = (if delegateView then Addresses (length filtered) else Votes (count_of variant proposal)),
       vcd_percentage = pct,
       vcd_table = (if delegateView then Inr filtered else Inl nounIds)\<rparr>)"

section \<open>What the page shows\<close>

definition statusText :: "ProposalState option \<Rightarrow> string" where
  "statusText status = (case status of
       Some SPENDING \<Rightarrow> ''Pending'' | Some SACTIVE \<Rightarrow> ''Active'' | Some SSUCCEEDED \<Rightarrow> ''Succeeded''
     | Some SEXECUTED \<Rightarrow> ''Executed'' | Some SDEFEATED \<Rightarrow> ''Defeated'' | Some SQUEUED \<Rightarrow> ''Queued''
     | Some SCANCELLED \<Rightarrow> ''Canceled'' | Some SVETOED \<Rightarrow> ''Vetoed'' | Some SEXPIRED \<Rightarrow> ''Expired''
     | _ \<Rightarrow> ''Undetermined'')"

definition statusVariant :: "ProposalState option \<Rightarrow> string" where
  "statusVariant status = (case status of
       Some SPENDING \<Rightarrow> ''primary'' | Some SACTIVE \<Rightarrow> ''primary''
     | Some SSUCCEEDED \<Rightarrow> ''success'' | Some SEXECUTED \<Rightarrow> ''success''
     | Some SDEFEATED \<Rightarrow> ''danger'' | Some SVETOED \<Rightarrow> ''danger''
     | _ \<Rightarrow> ''secondary'')"

text \<open>The button of the header: shown while voting is active, with a hint, and disabled for who cannot vote.\<close>

record vote_button =
  vb_hint :: "string option"
  vb_disabled :: bool

definition header_vote_button :: "bool \<Rightarrow> bool \<Rightarrow> int option \<Rightarrow> bool \<Rightarrow> vote_button option" where
  "header_vote_button activeForVoting isWalletConnected votes hasVoted =
     (let availableVotes = (case votes of None \<Rightarrow> 0 | Some v \<Rightarrow> v) in
      if activeForVoting
      then Some \<lparr>vb_hint = (if isWalletConnected then (if availableVotes = 0 then Some ''You have no votes.'' else None)
                            else Some ''Connect a wallet to vote.''),
                 vb_disabled = (\<not> isWalletConnected \<or> availableVotes = 0 \<or> hasVoted)\<rparr>
      else None)"

definition getTranslatedVoteCopyFromString :: "string \<Rightarrow> string" where
  "getTranslatedVoteCopyFromString proposalVote =
     (if proposalVote = ''For'' then ''You voted For this proposal''
      else if proposalVote = ''Against'' then ''You voted Against this proposal''
      else ''You Abstained from this proposal'')"

record state_button =
  sb_label :: string
  sb_disabled :: bool
  sb_action :: "page_call option"

record VoteView =
  vw_quorumModal :: "nat option"
  vw_voteModal :: "bool \<times> string option \<times> int"
  vw_voteButton :: "vote_button option"
  vw_moveButton :: "state_button option"
  vw_cancelButton :: "state_button option"
  vw_toggle :: string
  vw_cards :: "VoteCard list"
  vw_threshold :: "string \<times> num"
  vw_when :: "string \<times> num option"
  vw_snapshot :: num

datatype vote_page = PageSpinner | FailedToFetch | ThePage VoteView

text \<open>The answers that the page waits for. \<open>vq_dq\<close> is the answer about the dynamic quorum, with a proposal that may be
  missing and its coefficient as the subgraph's numeral.\<close>

record vote_queries =
  vq_loading :: bool
  vq_error :: bool
  vq_voters :: "ProposalVote list option"
  vq_delegates :: "Delegate_snapshot list option"
  vq_loadingDQ :: bool
  vq_dqError :: bool
  vq_dq :: "string option option"

record vote_env =
  ve_account :: "string option"
  ve_activeAccount :: "string option"
  ve_timestamp :: int
  ve_now :: int
  ve_currentBlock :: "int option"
  ve_priorVotes :: "int option"
  ve_hasVoted :: bool
  ve_quorumVotes :: "int \<Rightarrow> int option"

definition dq_skip :: "vote_queries \<Rightarrow> bool" where
  "dq_skip q = (case Option.bind (vq_dq q) (\<lambda>p. p) of None \<Rightarrow> True | Some c \<Rightarrow> c = ''0'')"

definition currentQuorum_of :: "vote_env \<Rightarrow> vote_queries \<Rightarrow> WProposal option \<Rightarrow> int option" where
  "currentQuorum_of env q proposal =
     (case Option.bind proposal pp_id of
        Some (c # cs) \<Rightarrow> (case parseInt (c # cs) of Some i \<Rightarrow> useCurrentQuorum (ve_quorumVotes env) i (dq_skip q) | None \<Rightarrow> None)
      | _ \<Rightarrow> useCurrentQuorum (ve_quorumVotes env) 0 (dq_skip q))"

definition vote_view_of :: "vote_env \<Rightarrow> vote_queries \<Rightarrow> VotePage \<Rightarrow> WProposal \<Rightarrow> DelegateVote list \<Rightarrow> string \<Rightarrow> VoteView" where
  "vote_view_of env q pg p data coefficient =
     (let startDate = block_date (ve_timestamp env) (ve_currentBlock env) (pp_startBlock p);
          endDate = block_date (ve_timestamp env) (ve_currentBlock env) (pp_endBlock p);
          now = ve_now env;
          isV2Prop = num_lt (Some 0) (js_Number coefficient);
          pct = (\<lambda>v. percentage (count_of v p) (totalVotes (Some p)));
          card = (\<lambda>v. vote_card p (pct v) (getNounVotes data (support_of v)) v (pg_isDelegateView pg) (Some data));
          quorum = currentQuorum_of env q (Some p);
          busy = (pg_isQueuePending pg \<or> pg_isExecutePending pg) in
      \<lparr>vw_quorumModal = (if pg_showDynamicQuorumInfoModal pg then Some (length (getNounVotes data 0)) else None),
       vw_voteModal = (pg_showVoteModal pg, pp_id p, case ve_priorVotes env of None \<Rightarrow> 0 | Some v \<Rightarrow> v),
       vw_voteButton = header_vote_button (isActiveForVoting startDate endDate now) (ve_activeAccount env \<noteq> None)
                         (ve_priorVotes env) (ve_hasVoted env),
       vw_moveButton = (if isAwaitingStateChange (Some p) now
                        then Some \<lparr>sb_label = (if hasSucceeded (Some p) then ''Queue'' else ''Execute''), sb_disabled = busy,
                                   sb_action = moveStateAction (Some p)\<rparr> else None),
       vw_cancelButton = (if isAwaitingDestructiveStateChange (Some p) (ve_account env)
                        then Some \<lparr>sb_label = (if isCancellable (Some p) (ve_account env) then ''Cancel'' else ''''),
                                   sb_disabled = pg_isCancelPending pg,
                                   sb_action = destructiveStateAction (Some p) (ve_account env)\<rparr> else None),
       vw_toggle = (if pg_isDelegateView pg then ''Switch to UNoun view'' else ''Switch to delegate view''),
       vw_cards = [card FOR, card AGAINST, card ABSTAIN],
       vw_threshold = (if isV2Prop then (''Current Threshold'', Some (case quorum of None \<Rightarrow> 0 | Some n \<Rightarrow> n))
                       else (''Threshold'', pp_quorumVotes p)),
       vw_when = (startOrEndTimeCopy startDate endDate now, startOrEndTimeTime startDate endDate now),
       vw_snapshot = wp_createdBlock p\<rparr>)"

definition render_vote_page :: "vote_env \<Rightarrow> vote_queries \<Rightarrow> WProposal option \<Rightarrow> VotePage \<Rightarrow> (string, vote_page) result" where
  "render_vote_page env q proposal pg =
     (case (proposal, vote_data (vq_delegates q) (vq_voters q), vq_dq q) of
        (Some p, Some data, Some dq) \<Rightarrow>
          if vq_loading q \<or> vq_loadingDQ q then Inr PageSpinner
          else if vq_error q \<or> vq_dqError q then Inr FailedToFetch
          else (case dq of
                  None \<Rightarrow> Inl ''Cannot read properties of null''
                | Some coefficient \<Rightarrow> Inr (ThePage (vote_view_of env q pg p data coefficient)))
      | _ \<Rightarrow> Inr PageSpinner)"

text \<open>The clicks of the page.\<close>

definition toggle_view :: "VotePage \<Rightarrow> VotePage" where
  "toggle_view pg = pg\<lparr>pg_isDelegateView := \<not> pg_isDelegateView pg\<rparr>"

definition click_threshold :: "bool \<Rightarrow> VotePage \<Rightarrow> VotePage" where
  "click_threshold isV2Prop pg = pg\<lparr>pg_showDynamicQuorumInfoModal := True \<and> isV2Prop\<rparr>"

definition open_vote_modal :: "VotePage \<Rightarrow> VotePage" where
  "open_vote_modal pg = pg\<lparr>pg_showVoteModal := True\<rparr>"

definition close_vote_modal :: "VotePage \<Rightarrow> VotePage" where
  "close_vote_modal pg = pg\<lparr>pg_showVoteModal := False\<rparr>"

definition dismiss_quorum_modal :: "VotePage \<Rightarrow> VotePage" where
  "dismiss_quorum_modal pg = pg\<lparr>pg_showDynamicQuorumInfoModal := False\<rparr>"

section \<open>The page and the contract\<close>

lemma block_date_active:
  assumes "0 < ts" "ts \<le> now" "now < ts + 12000" "b \<noteq> 0"
  shows "isActiveForVoting (block_date ts (Some b) (Some x)) (block_date ts (Some b) (Some y)) now
    \<longleftrightarrow> (x < b \<or> x = b \<and> ts < now) \<and> b < y"
proof -
  have d: "block_date ts (Some b) (Some z) = Some (Some (ts + 12000 * (z - b)))" for z
    using assms by (simp add: block_date_def no_block_def AVERAGE_BLOCK_TIME_IN_SECS_def)
  have "ts + 12000 * (x - b) < now \<longleftrightarrow> x < b \<or> x = b \<and> ts < now"
    using assms(2,3) by (cases "x < b"; cases "x = b") auto
  moreover have "now < ts + 12000 * (y - b) \<longleftrightarrow> b < y"
    using assms(2,3) by (cases "b < y") auto
  ultimately show ?thesis by (simp add: isActiveForVoting_def isBefore_def isAfter_def d)
qed

text \<open>The pairs of states that the app and the contract can be in.\<close>

lemma web_contract_states:
  assumes "mirrors quorum c b p" and "pr_quorumVotes p = quorum c" and "b \<noteq> 0"
  shows "getProposalState (Some b) (Some t) (entity_of p) = contract_state quorum c b t
    \<or> getProposalState (Some b) (Some t) (entity_of p) = SACTIVE \<and> contract_state quorum c b t = SDEFEATED
    \<or> getProposalState (Some b) (Some t) (entity_of p) = SCANCELLED \<and> contract_state quorum c b t = SVETOED"
proof -
  consider "\<not> (pr_status p = PENDING \<and> cp_endBlock c < b \<or> pr_status p = CANCELLED \<and> cp_vetoed c)"
    | "pr_status p = PENDING" "cp_endBlock c < b" | "pr_status p = CANCELLED" "cp_vetoed c" by blast
  then show ?thesis
  proof cases
    case 1
    then show ?thesis using mirrors_state[OF assms, of t] by simp
  next
    case 2
    then have "\<not> cp_vetoed c" "\<not> cp_canceled c" "\<not> cp_executed c" "cp_eta c = 0" "cp_for c = 0" "cp_against c = 0"
      "cp_startBlock c < b" "pr_startBlock p = cp_startBlock c"
      using assms(1) by (auto simp: mirrors_def tally_def split: if_splits)
    then show ?thesis
      using 2 assms(3) by (simp add: getProposalState_def entity_of_def no_block_def Let_def contract_state_def passes_def)
  next
    case 3
    then show ?thesis by (simp add: getProposalState_def entity_of_def Let_def contract_state_def)
  qed
qed

lemma getProposalState_truncate:
  "getProposalState b t (PartialProposalSubgraphEntity.truncate e) = getProposalState b t e"
  by (simp only: getProposalState_def PartialProposalSubgraphEntity.truncate_def PartialProposalSubgraphEntity.simps)

lemma parsed_proposal:
  assumes "parseSubgraphProposal decode formatEther (Some b) (Some t) (Some e) = Inr (Some wp)"
    and "PartialProposalSubgraphEntity.truncate e = entity_of p"
  shows "pp_status wp = getProposalState (Some b) (Some t) (entity_of p)"
    "pp_startBlock wp = Some (pr_startBlock p)" "pp_endBlock wp = Some (pr_endBlock p)"
    "pp_eta wp = pr_executionETA p"
proof -
  have e: "pe_startBlock e = int_to_dec (pr_startBlock p)" "pe_endBlock e = int_to_dec (pr_endBlock p)"
    "pe_executionETA e = map_option int_to_dec (pr_executionETA p)"
    using assms(2) by (simp_all add: entity_of_def PartialProposalSubgraphEntity.truncate_def)
  show "pp_status wp = getProposalState (Some b) (Some t) (entity_of p)"
    using assms getProposalState_truncate[of "Some b" "Some t" e]
    by (auto simp: parseSubgraphProposal_def Let_def js_simps timestamp_or_0_def)
  show "pp_startBlock wp = Some (pr_startBlock p)" "pp_endBlock wp = Some (pr_endBlock p)" "pp_eta wp = pr_executionETA p"
    using assms(1) e
    by (auto simp: parseSubgraphProposal_def Let_def js_simps eta_date_def no_eta_def js_Number_def split: option.splits)
qed

text \<open>What the page offers, in terms of the entity it shows.\<close>

lemma moves_of_status:
  assumes "mirrors quorum c b p" and "pr_quorumVotes p = quorum c" and "b \<noteq> 0"
    and "pp_status wp = getProposalState (Some b) (Some t) (entity_of p)" and "pp_eta wp = pr_executionETA p"
  shows "hasSucceeded (Some wp) \<longleftrightarrow> contract_state quorum c b t = SSUCCEEDED"
    and "isAwaitingStateChange (Some wp) now \<longleftrightarrow> contract_state quorum c b t = SSUCCEEDED
      \<or> contract_state quorum c b t = SQUEUED \<and> 1000 * cp_eta c \<le> now"
    and "isCancellable (Some wp) acc \<Longrightarrow> contract_state quorum c b t \<noteq> SEXECUTED"
proof -
  note st = web_contract_states[OF assms(1-3), of t]
  show succ: "hasSucceeded (Some wp) \<longleftrightarrow> contract_state quorum c b t = SSUCCEEDED"
    using st assms(4) by (auto simp: hasSucceeded_def)
  show "isCancellable (Some wp) acc \<Longrightarrow> contract_state quorum c b t \<noteq> SEXECUTED"
    using st assms(4) by (auto simp: isCancellable_def isInNonFinalState_def)
  have queued: "pp_status wp = SQUEUED \<longleftrightarrow> contract_state quorum c b t = SQUEUED" using st assms(4) by auto
  have "pp_eta wp = Some (cp_eta c)" if "contract_state quorum c b t = SQUEUED"
    using contract_state_facts(3)[OF that] assms(1,5) by (auto simp: mirrors_def)
  then show "isAwaitingStateChange (Some wp) now \<longleftrightarrow> contract_state quorum c b t = SSUCCEEDED
      \<or> contract_state quorum c b t = SQUEUED \<and> 1000 * cp_eta c \<le> now"
    using succ queued by (auto simp: isAwaitingStateChange_def)
qed


text \<open>The subgraph's answer for a stored proposal without transactions.\<close>

definition answer_for :: "Proposal \<Rightarrow> ProposalSubgraphEntity" where
  "answer_for p = PartialProposalSubgraphEntity.extend (entity_of p)
     \<lparr>pe_description = None, pe_createdBlock = ''10'', pe_createdTransactionHash = ''0x01'', pe_proposer = Some ''0xa11ce'',
      pe_proposalThreshold = ''1'', pe_details = \<lparr>td_targets = [], td_values = [], td_signatures = [], td_calldatas = []\<rparr>\<rparr>"

lemma answer_for_truncate: "PartialProposalSubgraphEntity.truncate (answer_for p) = entity_of p"
  by (simp add: answer_for_def PartialProposalSubgraphEntity.defs)

lemma answer_for_parses:
  "\<exists>wp. parseSubgraphProposal (\<lambda>_ _. None) (\<lambda>_. '''') (Some b) (Some t) (Some (answer_for p)) = Inr (Some wp)"
  by (simp add: parseSubgraphProposal_def answer_for_def PartialProposalSubgraphEntity.defs
      formatProposalTransactionDetails_def Let_def)


text \<open>A failed query has no data (the default error policy of Apollo), so the page keeps its spinner and the message for
  a failed fetch is never shown.\<close>

lemma failure_never_shown:
  assumes "vq_error q \<longrightarrow> vq_voters q = None" and "vq_dqError q \<longrightarrow> vq_dq q = None"
  shows "render_vote_page env q proposal pg \<noteq> Inr FailedToFetch"
    and "vq_error q \<or> vq_dqError q \<Longrightarrow> render_vote_page env q proposal pg = Inr PageSpinner"
  using assms by (auto simp: render_vote_page_def vote_data_def split: option.splits)

text \<open>The three cards list every Noun of a vote with a known support once, in the order of the votes.\<close>

lemma cards_partition_nouns:
  assumes "list_all (\<lambda>v. dv_supportDetailed v \<in> {0, 1, 2}) data"
  shows "length (getNounVotes data 0) + length (getNounVotes data 1) + length (getNounVotes data 2)
    = sum_list (map (\<lambda>v. length (dv_nounsRepresented v)) data)"
  using assms by (induction data) (auto simp: getNounVotes_def)

end
