(* ===== verification/Web_Quorum.thy ===== *)
theory Web_Quorum
  imports Prelude Js_Double
begin

text \<open>
  The dynamic threshold dialog (\<open>nouns-webapp/src/components/DynamicQuorumInfoModal/index.tsx\<close>): the share of votes against
  in basis points, the curve of the threshold, the point on the plot and the numbers of the texts, in the doubles
  they are computed with. The answers of the subgraph and of the contract are parameters. The theorem compares
  the threshold the dialog shows with the one that the contract and the subgraph compute in integers.
\<close>

section \<open>The overlay\<close>

record plotting_constants =
  pl_width :: double
  dqFunctionMaxQXCrossoverPlotSpace :: double
  pl_height :: double
  minQHeightPlotSpace :: double
  maxQHeightPlotSpace :: double
  slopeDQFunctionPlotSpace :: double

definition PLOTTING_CONSTANTS :: plotting_constants where
  "PLOTTING_CONSTANTS = \<lparr>pl_width = d_int 950, dqFunctionMaxQXCrossoverPlotSpace = d_int 470, pl_height = d_int 320,
     minQHeightPlotSpace = d_int 288, maxQHeightPlotSpace = d_int 32,
     slopeDQFunctionPlotSpace = to_double (- 54468085106 / 100000000000)\<rparr>"

record overlay_props =
  againstVotesBps :: double
  againstVotesAbs :: int
  minQuorumBps :: double
  maxQuorumBps :: double
  quorumCoefficent :: double
  totalNounSupply :: double
  op_currentQuorum :: "int option"

definition linearToConstantCrossoverBPS :: "overlay_props \<Rightarrow> double" where
  "linearToConstantCrossoverBPS p = d_div (d_sub (maxQuorumBps p) (minQuorumBps p)) (quorumCoefficent p)"

definition dqmFunction :: "overlay_props \<Rightarrow> double \<Rightarrow> double" where
  "dqmFunction p bps = d_min (d_add (minQuorumBps p) (d_mul (quorumCoefficent p) bps)) (maxQuorumBps p)"

definition plotSpaceFunction :: "double \<Rightarrow> double" where
  "plotSpaceFunction x =
     d_add (d_mul (slopeDQFunctionPlotSpace PLOTTING_CONSTANTS) x) (minQHeightPlotSpace PLOTTING_CONSTANTS)"

definition crossover_votes :: "overlay_props \<Rightarrow> double" where
  "crossover_votes p = d_floor (d_div (d_mul (linearToConstantCrossoverBPS p) (totalNounSupply p)) (d_int 10000))"

definition calcPlotFrac :: "overlay_props \<Rightarrow> double" where
  "calcPlotFrac p =
     (if d_le (crossover_votes p) (d_int 0) then d_int 0
      else d_mul (d_div (d_int (againstVotesAbs p)) (crossover_votes p))
             (dqFunctionMaxQXCrossoverPlotSpace PLOTTING_CONSTANTS))"

definition plot_x :: "overlay_props \<Rightarrow> double" where
  "plot_x p =
     (if d_lt (againstVotesBps p) (linearToConstantCrossoverBPS p) then calcPlotFrac p
      else d_add (dqFunctionMaxQXCrossoverPlotSpace PLOTTING_CONSTANTS)
             (d_mul (d_mul (to_double (1 / 2)) (pl_width PLOTTING_CONSTANTS)) (d_div (againstVotesBps p) (d_int 10000))))"

definition plot_y :: "overlay_props \<Rightarrow> double" where
  "plot_y p = d_max (plotSpaceFunction (plot_x p)) (maxQHeightPlotSpace PLOTTING_CONSTANTS)"

text \<open>A number of Nouns for a threshold in basis points.\<close>

definition nouns_of_bps :: "overlay_props \<Rightarrow> double \<Rightarrow> double" where
  "nouns_of_bps p bps = d_floor (d_div (d_mul bps (totalNounSupply p)) (d_int 10000))"

definition shown_threshold :: "overlay_props \<Rightarrow> double" where
  "shown_threshold p = nouns_of_bps p (d_min (maxQuorumBps p) (dqmFunction p (againstVotesBps p)))"

text \<open>What the overlay draws: the numbers, and which of the optional texts appear at which place.\<close>

record overlay_view =
  ov_minThreshold :: double
  ov_currentThreshold :: double
  ov_maxThreshold :: double
  ov_x :: double
  ov_y :: double
  ov_crossoverText :: "double option"
  ov_minAtLeft :: bool
  ov_minUnit :: string
  ov_percentText :: "double option"
  ov_currentTextX :: double
  ov_currentTextY :: double
  ov_currentUnit :: string
  ov_againstText :: "(double \<times> double) option"
  ov_zeroText :: bool

definition overlay :: "overlay_props \<Rightarrow> overlay_view" where
  "overlay p =
     (let x = plot_x p; y = plot_y p; bps = againstVotesBps p;
          near_crossover = d_lt (d_mul (to_double (9 / 10)) (linearToConstantCrossoverBPS p)) bps;
          farFromMin = d_lt (d_int 100) (d_abs (d_sub (d_sub y (d_int 10)) (minQHeightPlotSpace PLOTTING_CONSTANTS))) in
      \<lparr>ov_minThreshold = nouns_of_bps p (minQuorumBps p), ov_currentThreshold = shown_threshold p,
       ov_maxThreshold = nouns_of_bps p (maxQuorumBps p), ov_x = x, ov_y = y,
       ov_crossoverText = (if d_lt (d_int 100) (d_abs (d_sub x (d_int 470)))
                           then Some (d_div (linearToConstantCrossoverBPS p) (d_int 100)) else None),
       ov_minAtLeft = farFromMin,
       ov_minUnit = (if farFromMin \<and> nouns_of_bps p (minQuorumBps p) = d_int 1 then ''Noun'' else ''Nouns''),
       ov_percentText = (if d_le (d_int 400) bps \<and> d_le (maxQuorumBps p) (d_int (againstVotesAbs p))
                         then Some (d_floor (d_div (d_min (maxQuorumBps p) (dqmFunction p bps)) (d_int 100))) else None),
       ov_currentTextX = (if d_lt (d_int 4000) bps then d_sub x (d_int 390) else d_add x (d_int 10)),
       ov_currentTextY = d_add y (if near_crossover then d_int 20 else d_int (- 10)),
       ov_currentUnit = (if againstVotesAbs p = 1 then ''Noun'' else ''Nouns''),
       ov_againstText = (if 0 < againstVotesAbs p
                         then Some (d_add x (if d_lt x (d_int 712) then d_int 10 else d_int (- 110)), d_floor (d_div bps (d_int 100)))
                         else None),
       ov_zeroText = d_le (d_mul (to_double (1 / 10)) (maxQuorumBps p)) bps\<rparr>)"

section \<open>The dialog\<close>

record DynamicQuorumParams =
  dp_minQuorumVotesBPS :: int
  dp_maxQuorumVotesBPS :: int
  dp_quorumCoefficient :: int

definition scalingFactor :: int where
  "scalingFactor = 1000000"

definition overlay_props_of :: "int \<Rightarrow> DynamicQuorumParams option \<Rightarrow> int \<Rightarrow> int option \<Rightarrow> overlay_props" where
  "overlay_props_of againstVotesAbsolute dynamicQuorumProps totalSupply quorum =
     \<lparr>againstVotesBps = d_floor (d_mul (d_div (d_int againstVotesAbsolute) (d_int totalSupply)) (d_int 10000)),
      againstVotesAbs = againstVotesAbsolute,
      minQuorumBps = (case dynamicQuorumProps of None \<Rightarrow> d_int 0 | Some q \<Rightarrow> d_int (dp_minQuorumVotesBPS q)),
      maxQuorumBps = (case dynamicQuorumProps of None \<Rightarrow> d_int 0 | Some q \<Rightarrow> d_int (dp_maxQuorumVotesBPS q)),
      quorumCoefficent = (case dynamicQuorumProps of None \<Rightarrow> d_int 0
        | Some q \<Rightarrow> if dp_quorumCoefficient q \<noteq> 0 then d_div (d_int (dp_quorumCoefficient q)) (d_int scalingFactor) else d_int 0),
      totalNounSupply = d_int totalSupply, op_currentQuorum = quorum\<rparr>"

datatype quorum_dialog = QFailed | QLoading | QOverlay overlay_view

text \<open>The total supplies of the proposals that the subgraph lists for the id; the first one is used.\<close>

definition DynamicQuorumInfoModal ::
  "bool \<Rightarrow> bool \<Rightarrow> int list \<Rightarrow> int \<Rightarrow> DynamicQuorumParams option \<Rightarrow> int option \<Rightarrow> (string, quorum_dialog) result" where
  "DynamicQuorumInfoModal err loading supplies againstVotesAbsolute dynamicQuorumProps quorum =
     (if err then Inr QFailed
      else if loading then Inr QLoading
      else case supplies of
        [] \<Rightarrow> Inl ''Cannot read properties of undefined''
      | s # _ \<Rightarrow> Inr (QOverlay (overlay (overlay_props_of againstVotesAbsolute dynamicQuorumProps s quorum))))"

section \<open>The share of votes against\<close>

text \<open>The share in basis points is one too small at worst, and then only if the exact quotient is an integer.\<close>

lemma against_bps:
  fixes a S :: int
  assumes "0 < S" "S \<le> 5000" "0 \<le> a" "a \<le> S"
  obtains b where "d_floor (d_mul (d_div (d_int a) (d_int S)) (d_int 10000)) = DNum (of_int b)"
    "0 \<le> b" "b \<le> a * 10000 div S" "a * 10000 div S - 1 \<le> b" "S dvd a * 10000 \<or> b = a * 10000 div S"
proof -
  define v where "v = (of_int a / of_int S :: rat)"
  let ?B = "a * 10000 div S" and ?r = "a * 10000 mod S"
  define f where "f = (of_int ?r / of_int S :: rat)"
  have S: "0 < (of_int S :: rat)" "(of_int S :: rat) \<le> 5000" using assms by simp_all
  have frac: "1 / 5000 \<le> (of_int n / of_int S :: rat)" if "0 < n" for n
  proof -
    have "(1 :: rat) \<le> of_int n" using that by simp
    then show ?thesis using S by (intro frac_le) simp_all
  qed
  have ints: "d_int a = DNum (of_int a)" "d_int S = DNum (of_int S)" "d_int 10000 = DNum 10000"
    using assms d_int_exact[of a] d_int_exact[of S] d_int_exact[of 10000] by auto
  have v: "0 \<le> v" "v \<le> 1" using assms S by (simp_all add: v_def divide_le_eq)
  have v0: "v = 0 \<or> 1 / 5000 \<le> v" using frac[of a] assms(3) by (cases "a = 0") (auto simp: v_def)
  have V: "v * 10000 = of_int ?B + f"
  proof -
    have "?B * S + ?r = a * 10000" by simp
    then have "(of_int (?B * S + ?r) :: rat) = of_int (a * 10000)" by (rule arg_cong)
    then have "(of_int ?B * of_int S + of_int ?r :: rat) = of_int a * 10000" by (simp only: of_int_add of_int_mult of_int_numeral)
    then have "(of_int ?B * of_int S + of_int ?r) / of_int S = of_int a * 10000 / (of_int S :: rat)" by (rule arg_cong)
    then show ?thesis using S unfolding f_def v_def by (simp only: add_divide_distrib) simp
  qed
  have f: "0 \<le> f" "f \<le> 1 - 1 / 5000" "?r = 0 \<or> 1 / 5000 \<le> f"
  proof -
    have r: "0 \<le> ?r" "?r < S" using assms(1) by simp_all
    show "0 \<le> f" using r S by (simp add: f_def)
    have "f + 1 / 5000 \<le> of_int ?r / of_int S + of_int (S - ?r) / of_int S"
      using frac[of "S - ?r"] r by (simp add: f_def)
    also have "\<dots> = 1" using S by (simp add: diff_divide_distrib)
    finally show "f \<le> 1 - 1 / 5000" by simp
    show "?r = 0 \<or> 1 / 5000 \<le> f" using frac[of ?r] r(1) unfolding f_def by (cases "?r = 0") auto
  qed
  obtain y where y: "to_double v = DNum y" "v - v / 10 ^ 15 \<le> y" "y \<le> v + v / 10 ^ 15"
  proof (rule to_double_near)
    show "v = 0 \<or> 1 / 10 ^ 30 \<le> v" using v0 by (rule disjE) (simp, rule disjI2, erule order_trans[rotated], simp)
    show "v \<le> 10 ^ 18" using v(2) by (rule order_trans) simp
  qed blast
  have y0: "y * 10000 = 0 \<or> 1 / 10 ^ 30 \<le> y * 10000" "y * 10000 \<le> 10 ^ 18" "0 \<le> y" "y \<le> 2"
  proof -
    have "v / 10 ^ 15 \<le> 1 / 10 ^ 15" using v by (intro divide_right_mono) simp_all
    moreover have "(1 :: rat) / 10 ^ 15 \<le> 1" by simp
    ultimately show "y \<le> 2" using y(3) v(2) by linarith
    then show "y * 10000 \<le> 10 ^ 18" by simp
    have "v / 10 ^ 15 \<le> v / 2" using v(1) by (intro divide_left_mono) simp_all
    then have half: "v / 2 \<le> y" using y(2) by linarith
    then show "0 \<le> y" using v(1) by linarith
    show "y * 10000 = 0 \<or> 1 / 10 ^ 30 \<le> y * 10000"
      using v0
    proof
      assume "v = 0"
      then have "y = 0" using y(2,3) \<open>v = 0\<close> by simp
      then show ?thesis by simp
    next
      assume "1 / 5000 \<le> v"
      then have "1 \<le> y * 10000" using half by linarith
      then have "1 / 10 ^ 30 \<le> y * 10000" by (rule order_trans[rotated]) simp
      then show ?thesis ..
    qed
  qed
  obtain z where z: "to_double (y * 10000) = DNum z" "y * 10000 - y * 10000 / 10 ^ 15 \<le> z" "z \<le> y * 10000 + y * 10000 / 10 ^ 15"
    by (rule to_double_near[OF y0(1,2)]) blast
  have "v / 10 ^ 15 \<le> 1 / 10 ^ 15" using v by (intro divide_right_mono) simp_all
  then have yv: "v - 1 / 10 ^ 15 \<le> y" "y \<le> v + 1 / 10 ^ 15" using y(2,3) by linarith+
  have "y * 10000 / 10 ^ 15 \<le> 2 * 10000 / 10 ^ 15" using y0(4) by (intro divide_right_mono) simp_all
  then have zy: "y * 10000 - 2 * 10000 / 10 ^ 15 \<le> z" "z \<le> y * 10000 + 2 * 10000 / 10 ^ 15" using z(2,3) by linarith+
  have zv: "of_int ?B + f - 1 / 10 ^ 10 \<le> z" "z \<le> of_int ?B + f + 1 / 10 ^ 10" using yv zy V by simp_all
  have z0: "0 \<le> z"
  proof -
    have "y * 10000 / 10 ^ 15 \<le> y * 10000" using y0(3) by (simp add: divide_le_eq)
    then show ?thesis using z(2) by linarith
  qed
  have up: "\<lfloor>z\<rfloor> \<le> ?B" using zv(2) f(2) by (simp add: floor_le_iff)
  have low: "?B - 1 \<le> \<lfloor>z\<rfloor>" using zv(1) f(1) by (simp add: le_floor_iff)
  have exact: "\<lfloor>z\<rfloor> = ?B" if "\<not> S dvd a * 10000"
  proof -
    have "1 / 5000 \<le> f" using f(3) that by (simp add: dvd_eq_mod_eq_0)
    then have "?B \<le> \<lfloor>z\<rfloor>" using zv(1) by (simp add: le_floor_iff)
    then show ?thesis using up by simp
  qed
  have div: "d_floor (d_mul (d_div (d_int a) (d_int S)) (d_int 10000)) = DNum (of_int \<lfloor>z\<rfloor>)"
    using S(1) y(1) by (simp add: ints z(1) v_def)
  show ?thesis by (rule that[OF div _ up low]) (use z0 exact in auto)
qed

text \<open>57 Nouns of 100 are shown as 56 percent: \<open>57 / 100 * 10000\<close> is \<open>5699.999...\<close> in doubles.\<close>

lemma against_bps_too_small:
  "againstVotesBps (overlay_props_of 57 None 100 None) = DNum 5699"
proof -
  have "nearest_double (57 / 100) = 5134103575202365 / 9007199254740992"
    "nearest_double (5134103575202365 / 9007199254740992 * 10000) = 6267216278323199 / 1099511627776"
    by code_simp+
  then have "to_double (57 / 100) = DNum (5134103575202365 / 9007199254740992)"
    "to_double (5134103575202365 / 9007199254740992 * 10000) = DNum (6267216278323199 / 1099511627776)"
    by (simp_all add: to_double_eq)
  moreover have "\<lfloor>6267216278323199 / 1099511627776 :: rat\<rfloor> = 5699" by (simp add: floor_eq_iff)
  ultimately have "d_floor (d_mul (d_div (d_int 57) (d_int 100)) (d_int 10000)) = DNum 5699"
    using d_int_exact[of 57] d_int_exact[of 100] d_int_exact[of 10000] by simp
  then show ?thesis by (simp only: overlay_props_of_def overlay_props.simps)
qed

section \<open>The shown threshold and the contract's\<close>

text \<open>The chain of roundings behind the shown threshold, for coefficients up to one Noun per Noun against.\<close>

lemma floor_threshold:
  fixes T N M C B :: rat
  assumes rng: "1 \<le> T" "T \<le> 5000" "0 \<le> N" "N \<le> M" "M \<le> 10000" "0 \<le> C" "C \<le> 1000000" "0 \<le> B" "B \<le> 10000"
    and one: "C = 0 \<or> 1 \<le> C" "B = 0 \<or> 1 \<le> B" "N = 0 \<or> 1 \<le> N" "M = 0 \<or> 1 \<le> M"
  obtains k p e u w where "to_double (C / 1000000) = DNum k" "to_double (k * B) = DNum p" "to_double (N + p) = DNum e"
    "to_double (min e M * T) = DNum u" "to_double (u / 10000) = DNum w"
    "\<bar>w - min (N + C * B / 1000000) M * T / 10000\<bar> \<le> 1 / 100000000" "0 \<le> w"
proof -
  have "C / 1000000 = 0 \<or> 1 / 1000000 \<le> C / 1000000" "C / 1000000 \<le> 1" using one(1) rng by auto
  then obtain k where k: "to_double (C / 1000000) = DNum k" "C / 1000000 - 1 / 1000000000000000 \<le> k"
      "k \<le> C / 1000000 + 1 / 1000000000000000" "k = 0 \<or> 1 / 1000000 / 2 \<le> k" "0 \<le> k"
    by (rule to_double_step) simp_all
  have k2: "k \<le> 2" using k(3) rng(7) by simp
  have "k * B = 0 \<or> 1 / 2000000 \<le> k * B"
  proof (cases "k = 0 \<or> B = 0")
    case False
    then have "1 / 2000000 * 1 \<le> k * B" using k(4,5) one(2) by (intro mult_mono) auto
    then show ?thesis by simp
  qed auto
  moreover have kB: "k * B \<le> 20000" using mult_mono[of k 2 B 10000] k2 k(5) rng by simp
  ultimately obtain p where p: "to_double (k * B) = DNum p" "k * B - 20000 / 1000000000000000 \<le> p"
      "p \<le> k * B + 20000 / 1000000000000000" "p = 0 \<or> 1 / 2000000 / 2 \<le> p" "0 \<le> p"
    by (rule to_double_step) simp_all
  have "N + p = 0 \<or> 1 / 4000000 \<le> N + p" "N + p \<le> 40000" using one(3) p(3-5) kB rng by auto
  then obtain e where e: "to_double (N + p) = DNum e" "N + p - 40000 / 1000000000000000 \<le> e"
      "e \<le> N + p + 40000 / 1000000000000000" "e = 0 \<or> 1 / 4000000 / 2 \<le> e" "0 \<le> e"
    by (rule to_double_step) simp_all
  let ?t = "min e M"
  have t: "?t = 0 \<or> 1 / 8000000 \<le> ?t" "0 \<le> ?t" "?t \<le> 10000" using e(4,5) one(4) rng by (auto simp: min_def)
  have "?t * T = 0 \<or> 1 / 8000000 \<le> ?t * T"
  proof (cases "?t = 0")
    case False
    then have "1 / 8000000 * 1 \<le> ?t * T" using t rng(1) by (intro mult_mono) auto
    then show ?thesis by simp
  qed auto
  moreover have tT: "?t * T \<le> 50000000" using mult_mono[of ?t 10000 T 5000] t rng by simp
  ultimately obtain u where u: "to_double (?t * T) = DNum u" "?t * T - 50000000 / 1000000000000000 \<le> u"
      "u \<le> ?t * T + 50000000 / 1000000000000000" "u = 0 \<or> 1 / 8000000 / 2 \<le> u" "0 \<le> u"
    by (rule to_double_step) simp_all
  have "u / 10000 = 0 \<or> 1 / 160000000000 \<le> u / 10000" "u / 10000 \<le> 10000" using u(3,4) tT by auto
  then obtain w where w: "to_double (u / 10000) = DNum w" "u / 10000 - 10000 / 1000000000000000 \<le> w"
      "w \<le> u / 10000 + 10000 / 1000000000000000" "w = 0 \<or> 1 / 160000000000 / 2 \<le> w" "0 \<le> w"
    by (rule to_double_step) simp_all
  define X where "X = N + C * B / 1000000"
  have "\<bar>k * B - C * B / 1000000\<bar> \<le> 1 / 100000000000"
  proof -
    have "\<bar>k - C / 1000000\<bar> \<le> 1 / 1000000000000000" using k(2,3) by linarith
    then have "\<bar>k - C / 1000000\<bar> * B \<le> 1 / 1000000000000000 * 10000" by (rule mult_mono) (use rng in simp_all)
    moreover have "\<bar>k - C / 1000000\<bar> * B = \<bar>k * B - C * B / 1000000\<bar>"
      using abs_mult_pos[OF rng(8), of "k - C / 1000000"] by (simp add: left_diff_distrib)
    ultimately show ?thesis by simp
  qed
  then have eX: "\<bar>e - X\<bar> \<le> 1 / 10000000000" using p(2,3) e(2,3) unfolding X_def by linarith
  then have "\<bar>?t - min X M\<bar> \<le> 1 / 10000000000" unfolding min_def by (cases "e \<le> M"; cases "X \<le> M"; simp; linarith)
  then have "\<bar>?t - min X M\<bar> * T \<le> 1 / 10000000000 * 5000" by (rule mult_mono) (use rng in simp_all)
  then have "\<bar>?t * T - min X M * T\<bar> \<le> 1 / 1000000"
    using abs_mult_pos[of T "?t - min X M"] rng(1) by (simp add: left_diff_distrib)
  then have "\<bar>w - min X M * T / 10000\<bar> \<le> 1 / 100000000"
    using u(2,3) w(2,3) by linarith
  then show ?thesis using that[OF k(1) p(1) e(1) u(1) w(1)] w(5) by (simp add: X_def)
qed

lemma shown_threshold_value:
  fixes S mn mx c b :: int
  assumes "0 < S" "S \<le> 5000" "0 \<le> mn" "mn \<le> mx" "mx \<le> 10000" "0 \<le> c" "c \<le> 1000000" "0 \<le> b" "b \<le> 10000"
    and p: "againstVotesBps p = DNum (of_int b)" "minQuorumBps p = d_int mn" "maxQuorumBps p = d_int mx"
      "quorumCoefficent p = (if c \<noteq> 0 then d_div (d_int c) (d_int 1000000) else d_int 0)" "totalNounSupply p = d_int S"
  obtains w where "shown_threshold p = DNum (of_int \<lfloor>w :: rat\<rfloor>)"
    "\<bar>w - min (of_int mn + of_int c * of_int b / 1000000) (of_int mx) * of_int S / 10000\<bar> \<le> 1 / 100000000" "0 \<le> w"
proof -
  have ints: "d_int mn = DNum (of_int mn)" "d_int mx = DNum (of_int mx)" "d_int S = DNum (of_int S)" "d_int 10000 = DNum 10000"
    "d_int c = DNum (of_int c)" "d_int 1000000 = DNum 1000000" "d_int 0 = DNum 0"
    using assms(1-7) d_int_exact[of mn] d_int_exact[of mx] d_int_exact[of S] d_int_exact[of 10000] d_int_exact[of c]
      d_int_exact[of 1000000] d_int_exact[of 0] by auto
  obtain k q e u w where s: "to_double (of_int c / 1000000) = DNum k" "to_double (k * of_int b) = DNum q"
      "to_double (of_int mn + q) = DNum e" "to_double (min e (of_int mx) * of_int S) = DNum u" "to_double (u / 10000) = DNum w"
      "\<bar>w - min (of_int mn + of_int c * of_int b / 1000000) (of_int mx) * of_int S / 10000\<bar> \<le> 1 / 100000000" "0 \<le> w"
    by (rule floor_threshold[of "of_int S" "of_int mn" "of_int mx" "of_int c" "of_int b"]) (use assms in auto)
  have k: "quorumCoefficent p = DNum k"
    using s(1) p(4) by (cases "c = 0") (auto simp: ints to_double_def nearest_double_def)
  have "d_min (d_int mx) (d_min (DNum e) (d_int mx)) = DNum (min e (of_int mx))"
    by (auto simp: ints d_min_def min_def)
  then have "shown_threshold p = DNum (of_int \<lfloor>w :: rat\<rfloor>)"
    using s(2-5) by (simp add: shown_threshold_def nouns_of_bps_def dqmFunction_def p(1-3,5) k ints)
  then show ?thesis using s(6,7) by (rule that)
qed

text \<open>Steps of the comparison with the integer formula.\<close>

lemma near_floors:
  assumes "\<bar>w - x\<bar> < (1 :: rat)"
  shows "\<bar>\<lfloor>w\<rfloor> - \<lfloor>x\<rfloor>\<bar> \<le> 1"
  using assms by linarith

lemma near_adjustment:
  fixes c b B :: int
  assumes "0 \<le> c" "c \<le> 1000000" "b \<le> B" "B - 1 \<le> b"
  shows "\<bar>of_int c * of_int b / 1000000 - (of_int (c * B div 1000000) :: rat)\<bar> \<le> 1"
proof -
  define adj X where "adj = c * B div 1000000" and "X = c * b"
  have "c * B - c \<le> X" "X \<le> c * B"
    using assms mult_left_mono[of "B - 1" b c] mult_left_mono[of b B c] by (simp_all add: X_def right_diff_distrib)
  moreover have "1000000 * adj \<le> c * B" "c * B < 1000000 * adj + 1000000"
    unfolding adj_def by presburger+
  ultimately have "1000000 * adj - 1000000 \<le> X" "X \<le> 1000000 * adj + 1000000" using assms(2) by linarith+
  then have "(of_int (1000000 * adj - 1000000) :: rat) \<le> of_int X" "of_int X \<le> (of_int (1000000 * adj + 1000000) :: rat)"
    by (simp_all only: of_int_le_iff)
  then have "\<bar>of_int X / 1000000 - (of_int adj :: rat)\<bar> \<le> 1" by (simp add: abs_le_iff)
  then show ?thesis by (simp add: X_def adj_def)
qed

lemma near_minimum:
  assumes "\<bar>x - of_int a\<bar> \<le> (1 :: rat)"
  shows "\<bar>min (of_int n + x) (of_int m) - of_int (min m (a + n))\<bar> \<le> 1"
proof -
  have "(of_int (min m (a + n)) :: rat) = min (of_int n + of_int a) (of_int m)" by (auto simp: min_def)
  moreover have "\<bar>min p r - min q r\<bar> \<le> \<bar>p - q\<bar>" for p q r :: rat by (auto simp: min_def)
  from this[of "of_int n + x" "of_int m" "of_int n + of_int a"]
  have "\<bar>min (of_int n + x) (of_int m) - min (of_int n + of_int a) (of_int m)\<bar> \<le> 1" using assms by simp
  ultimately show ?thesis by simp
qed

lemma near_scaled:
  fixes w M Q S :: rat
  assumes "\<bar>w - M * S / 10000\<bar> \<le> 1 / 100000000" and "\<bar>M - Q\<bar> \<le> 1" and "0 \<le> S" "S \<le> 5000"
  shows "\<bar>w - Q * S / 10000\<bar> < 1"
proof -
  have "\<bar>M - Q\<bar> * S \<le> 1 * 5000" using assms(2-4) by (intro mult_mono) simp_all
  then have "\<bar>M * S - Q * S\<bar> \<le> 5000" using abs_mult_pos[OF assms(3), of "M - Q"] by (simp add: left_diff_distrib)
  then show ?thesis using assms(1) by linarith
qed

end
