(* ===== verification/Web_Threshold.thy ===== *)
theory Web_Threshold
  imports Sg_Events Web_Quorum
begin

text \<open>
  The threshold of the dialog beside the quorum of the subgraph and the contract: the dialog's doubles against
  \<open>dynamicQuorumVotes\<close>, whose integers \<open>Sg_Events\<close> shows to follow the contract.
\<close>

definition contract_params :: "32 word \<Rightarrow> 32 word \<Rightarrow> int \<Rightarrow> DynamicQuorumParams" where
  "contract_params minBps maxBps coefficient =
     \<lparr>dp_minQuorumVotesBPS = sint minBps, dp_maxQuorumVotesBPS = sint maxBps, dp_quorumCoefficient = coefficient\<rparr>"

text \<open>C28. For up to 5000 Nouns and coefficients of at most one, the threshold that the dialog shows differs by at most one
  Noun from the quorum that the contract and the subgraph compute, although it is computed in doubles and
  without the contract's intermediate roundings.\<close>

theorem shown_threshold_near_contract:
  assumes doc: "toI32_doc gt" and rng: "0 < supply" "supply \<le> 5000" "0 \<le> against" "against \<le> supply"
    "0 \<le> coefficient" "coefficient \<le> 1000000" "0 \<le> sint minBps" "sint minBps \<le> sint maxBps" "sint maxBps \<le> 10000"
  shows "\<exists>shown quorum. shown_threshold (overlay_props_of against (Some (contract_params minBps maxBps coefficient)) supply cq)
      = DNum (of_int shown)
    \<and> dynamicQuorumVotes gt against supply minBps maxBps coefficient = Some quorum \<and> \<bar>shown - quorum\<bar> \<le> 1"
proof -
  let ?mn = "sint minBps" and ?mx = "sint maxBps" and ?B = "against * 10000 div supply"
  let ?p = "overlay_props_of against (Some (contract_params minBps maxBps coefficient)) supply cq"
  obtain b where b: "againstVotesBps ?p = DNum (of_int b)" "0 \<le> b" "b \<le> ?B" "?B - 1 \<le> b"
    using against_bps[OF rng(1-4)] by (auto simp: overlay_props_of_def)
  have "?B \<le> 10000 * supply div supply" using rng by (intro zdiv_mono1) simp_all
  then have B: "?B \<le> 10000" using rng(1) by simp
  then have b1: "b \<le> 10000" using b(3) by simp
  obtain w where w: "shown_threshold ?p = DNum (of_int \<lfloor>w :: rat\<rfloor>)"
    "\<bar>w - min (of_int ?mn + of_int coefficient * of_int b / 1000000) (of_int ?mx) * of_int supply / 10000\<bar> \<le> 1 / 100000000"
    by (rule shown_threshold_value[where p = ?p, OF rng(1,2,7,8,9,5,6) b(2) b1 b(1)])
       (auto simp: overlay_props_of_def contract_params_def scalingFactor_def)
  let ?adj = "coefficient * ?B div 1000000"
  let ?Q = "min ?mx (?adj + ?mn)"
  have q: "dynamicQuorumVotes gt against supply minBps maxBps coefficient = Some (supply * ?Q div 10000)"
    using dynamicQuorumVotes_eq[OF doc rng(1,3,5,7) order_trans[OF rng(7,8)]] adjusted_bps_range(2)[OF rng(1,3,4,5)] rng(6,8,9)
    by (simp add: adjusted_bps_def)
  have near: "\<bar>min (of_int ?mn + of_int coefficient * of_int b / 1000000) (of_int ?mx) - (of_int ?Q :: rat)\<bar> \<le> 1"
    using near_adjustment[OF rng(5,6) b(3,4)] by (rule near_minimum)
  have "\<bar>w - of_int ?Q * of_int supply / 10000\<bar> < 1"
    by (rule near_scaled[OF w(2) near]) (use rng in simp_all)
  then have "\<bar>\<lfloor>w\<rfloor> - \<lfloor>of_int ?Q * of_int supply / 10000 :: rat\<rfloor>\<bar> \<le> 1" by (rule near_floors)
  moreover have "\<lfloor>of_int ?Q * of_int supply / 10000 :: rat\<rfloor> = supply * ?Q div 10000"
    using floor_divide_of_int_eq[of "supply * ?Q" 10000, where ?'a = rat] by (simp add: mult.commute)
  ultimately show ?thesis using w(1) q by auto
qed
theorem shown_threshold_near_contract_witness:
  "\<exists>shown quorum. shown_threshold (overlay_props_of 57 (Some (contract_params 1000 6000 500000)) 100 None) = DNum (of_int shown)
    \<and> dynamicQuorumVotes demo_gt 57 100 1000 6000 500000 = Some quorum \<and> \<bar>shown - quorum\<bar> \<le> 1"
  by (rule shown_threshold_near_contract[OF demo_toI32_doc]) simp_all

end
