(* ===== verification/Web_Delegate.thy ===== *)
theory Web_Delegate
  imports Web_Bid
begin

text \<open>
  Delegating votes in the web app: the panels of the delegation dialog (\<open>components/ChangeDelegatePannel\<close>,
  \<open>DelegationModal\<close>, \<open>CurrentDelegatePannel\<close>, \<open>DelegationCandidateInfo\<close>), the deep link of the delegate page and
  \<open>utils/pickByState\<close>. Name lookups are asynchronous: a started lookup is an entry of \<open>dl_lookups\<close> until its
  answer comes, in any order. The node's resolver and ethers' \<open>isAddress\<close> are parameters.
\<close>

section \<open>The deep link\<close>

definition usePickByState :: "'s \<Rightarrow> 's list \<Rightarrow> 'r list \<Rightarrow> 'r option" where
  "usePickByState state states stateResults =
     (case find (\<lambda>i. states ! i = state) [0..<length states] of
        None \<Rightarrow> None
      | Some i \<Rightarrow> if i < length stateResults then Some (stateResults ! i) else None)"

text \<open>\<open>s.replace(p, '')\<close> for a text \<open>p\<close>: only the first occurrence goes.\<close>

definition remove_first :: "string \<Rightarrow> string \<Rightarrow> string" where
  "remove_first p s = (case break_on p s of None \<Rightarrow> s | Some (a, b) \<Rightarrow> a @ b)"

definition ends_with :: "string \<Rightarrow> string \<Rightarrow> bool" where
  "ends_with s p \<longleftrightarrow> starts_with (rev s) (rev p)"

text \<open>ethers' check of addresses, the percent coding of URLs, and the resolver (nothing when there is no name).\<close>

record delegate_env =
  de_isAddress :: "string \<Rightarrow> bool"
  de_decodeURI :: "string \<Rightarrow> string"
  de_encodedSuffix :: string
  de_library :: bool
  de_resolveName :: "string \<Rightarrow> string option"

definition getAddressFromQueryParams :: "delegate_env \<Rightarrow> string \<Rightarrow> string \<Rightarrow> string option" where
  "getAddressFromQueryParams env paramName useLocationResult =
     (let splitLocationResult = map (\<lambda>s. remove_first ''&'' (remove_first ''?'' s)) (split_str ''='' useLocationResult) in
      case find (\<lambda>i. splitLocationResult ! i = paramName) [0..<length splitLocationResult] of
        None \<Rightarrow> None
      | Some paramIndex \<Rightarrow>
          if paramIndex = length splitLocationResult - 1 then None
          else (let maybeAddress = splitLocationResult ! (paramIndex + 1) in
                if ends_with maybeAddress ''.eth'' \<or> ends_with maybeAddress (de_encodedSuffix env)
                then Some (de_decodeURI env maybeAddress)
                else if de_isAddress env maybeAddress then Some maybeAddress else None))"

text \<open>The delegate page passes on a link that is there and not empty.\<close>

definition delegate_page :: "delegate_env \<Rightarrow> string \<Rightarrow> string option" where
  "delegate_page env search =
     (case getAddressFromQueryParams env ''to'' search of Some (c # cs) \<Rightarrow> Some (c # cs) | _ \<Rightarrow> None)"

section \<open>The panel\<close>

datatype ChangeDelegateState = ENTER_DELEGATE_ADDRESS | CHANGING | CHANGE_SUCCESS | CHANGE_FAILURE

fun getTitleFromState :: "ChangeDelegateState \<Rightarrow> string" where
  "getTitleFromState CHANGING = ''Updating...''"
| "getTitleFromState CHANGE_SUCCESS = ''Delegate Updated!''"
| "getTitleFromState CHANGE_FAILURE = ''Delegate Update Failed''"
| "getTitleFromState ENTER_DELEGATE_ADDRESS = ''Update Delegate''"

record DelegatePanel =
  dl_changeState :: ChangeDelegateState
  dl_delegateAddress :: string
  dl_inputText :: string
  dl_inputClass :: string
  dl_hasResolved :: bool
  dl_lookups :: "string list"
  dl_sent :: "(string \<times> string) list"

definition address_class :: "delegate_env \<Rightarrow> string \<Rightarrow> string" where
  "address_class env a = (if a = [] then ''empty'' else if de_isAddress env a then ''valid'' else ''invalid'')"

text \<open>The panel after its first effects.\<close>

definition initial_panel :: "delegate_env \<Rightarrow> string option \<Rightarrow> DelegatePanel" where
  "initial_panel env delegateTo =
     (let a = (case delegateTo of None \<Rightarrow> [] | Some t \<Rightarrow> t) in
      \<lparr>dl_changeState = ENTER_DELEGATE_ADDRESS, dl_delegateAddress = a, dl_inputText = a, dl_inputClass = address_class env a,
       dl_hasResolved = False, dl_lookups = [a], dl_sent = []\<rparr>)"

text \<open>Setting the address runs the two effects that depend on it, unless it is the same.\<close>

definition setDelegateAddress :: "delegate_env \<Rightarrow> string \<Rightarrow> DelegatePanel \<Rightarrow> DelegatePanel" where
  "setDelegateAddress env a p =
     (if a = dl_delegateAddress p then p
      else p\<lparr>dl_delegateAddress := a, dl_inputClass := address_class env a, dl_lookups := dl_lookups p @ [a]\<rparr>)"

definition type_delegate :: "delegate_env \<Rightarrow> string \<Rightarrow> DelegatePanel \<Rightarrow> DelegatePanel" where
  "type_delegate env t p = (setDelegateAddress env t p)\<lparr>dl_inputText := t\<rparr>"

text \<open>The end of \<open>checkIsValidENS\<close> for one name.\<close>

definition checkIsValidENS :: "delegate_env \<Rightarrow> string \<Rightarrow> DelegatePanel \<Rightarrow> DelegatePanel" where
  "checkIsValidENS env name p =
     (let reverseENSResult = (if de_library env then de_resolveName env name else None);
          p' = (case reverseENSResult of Some (c # cs) \<Rightarrow> setDelegateAddress env (c # cs) p | _ \<Rightarrow> p)
      in p'\<lparr>dl_hasResolved := True, dl_inputClass := address_class env (dl_delegateAddress p')\<rparr>)"

definition delegate_state_effect :: "tx_status \<Rightarrow> DelegatePanel \<Rightarrow> DelegatePanel" where
  "delegate_state_effect st p =
     (let p1 = (if st = TxSuccess then p\<lparr>dl_changeState := CHANGE_SUCCESS\<rparr> else p);
          p2 = (if st = TxException \<or> st = TxFail then p1\<lparr>dl_changeState := CHANGE_FAILURE\<rparr> else p1)
      in if st = TxMining then p2\<lparr>dl_changeState := CHANGING\<rparr> else p2)"

definition delegate_disabled :: "delegate_env \<Rightarrow> int \<Rightarrow> DelegatePanel \<Rightarrow> bool" where
  "delegate_disabled env availableVotes p =
     (dl_changeState p = ENTER_DELEGATE_ADDRESS \<and> \<not> de_isAddress env (dl_delegateAddress p) \<or> availableVotes = 0)"

text \<open>The primary button: its text, whether it looks active, whether a click counts, and what a click does.\<close>

datatype primary_action = Delegate string | OpenEtherscan | DismissPanel

record primary_button =
  pb_text :: string
  pb_active :: bool
  pb_disabled :: bool
  pb_action :: primary_action

definition votes_text :: "int \<Rightarrow> string" where
  "votes_text n = ''Delegate '' @ int_to_dec n @ (if n = 1 then '' Vote'' else '' Votes'')"

definition primaryButton :: "delegate_env \<Rightarrow> int \<Rightarrow> string option \<Rightarrow> DelegatePanel \<Rightarrow> primary_button option" where
  "primaryButton env availableVotes currentDelegate p =
     (case usePickByState (dl_changeState p) [ENTER_DELEGATE_ADDRESS, CHANGING, CHANGE_SUCCESS, CHANGE_FAILURE]
        [Some \<lparr>pb_text = votes_text availableVotes,
           pb_active = (de_isAddress env (dl_delegateAddress p) \<and> Some (dl_delegateAddress p) \<noteq> currentDelegate \<and> 0 < availableVotes),
           pb_disabled = delegate_disabled env availableVotes p, pb_action = Delegate (dl_delegateAddress p)\<rparr>,
         Some \<lparr>pb_text = ''View on Etherscan'', pb_active = True, pb_disabled = False, pb_action = OpenEtherscan\<rparr>,
         Some \<lparr>pb_text = ''Close'', pb_active = True, pb_disabled = False, pb_action = DismissPanel\<rparr>,
         None] of None \<Rightarrow> None | Some b \<Rightarrow> b)"

definition primaryCopy :: "int \<Rightarrow> string option \<Rightarrow> DelegatePanel \<Rightarrow> string option" where
  "primaryCopy availableVotes errorMessage p =
     (case usePickByState (dl_changeState p) [ENTER_DELEGATE_ADDRESS, CHANGING, CHANGE_SUCCESS, CHANGE_FAILURE]
        [Some ''Enter the Ethereum address or ENS name of the account you would like to delegate your votes to.'',
         Some (''Your '' @ int_to_dec availableVotes @ '' votes are being delegated to a new account.''),
         Some (''Your '' @ int_to_dec availableVotes @ '' votes have been delegated to a new account.''),
         errorMessage] of None \<Rightarrow> None | Some c \<Rightarrow> c)"

definition primary_click :: "delegate_env \<Rightarrow> int \<Rightarrow> DelegatePanel \<Rightarrow> DelegatePanel" where
  "primary_click env availableVotes p =
     (case primaryButton env availableVotes None p of
        Some b \<Rightarrow> (case pb_action b of
            Delegate a \<Rightarrow> if pb_disabled b then p else p\<lparr>dl_sent := (dl_inputText p, a) # dl_sent p\<rparr>
          | _ \<Rightarrow> p)
      | None \<Rightarrow> p)"

text \<open>The second button: after a success it starts over, otherwise it dismisses the panel (\<open>None\<close>).\<close>

definition secondary_click :: "delegate_env \<Rightarrow> DelegatePanel \<Rightarrow> DelegatePanel option" where
  "secondary_click env p =
     (if dl_changeState p = CHANGE_SUCCESS
      then Some ((setDelegateAddress env [] p)\<lparr>dl_inputText := [], dl_changeState := ENTER_DELEGATE_ADDRESS\<rparr>)
      else None)"

definition input_shown :: "string option \<Rightarrow> DelegatePanel \<Rightarrow> bool" where
  "input_shown delegateTo p \<longleftrightarrow> dl_changeState p \<noteq> CHANGE_FAILURE \<and> delegateTo = None"

datatype candidate_view = AlreadyDelegated | Candidate string | NoCandidate

definition candidate_shown :: "delegate_env \<Rightarrow> string option \<Rightarrow> DelegatePanel \<Rightarrow> candidate_view" where
  "candidate_shown env currentDelegate p =
     (if de_isAddress env (dl_delegateAddress p) \<and> dl_changeState p \<noteq> CHANGE_FAILURE
      then (if dl_changeState p = ENTER_DELEGATE_ADDRESS \<and> Some (dl_delegateAddress p) = currentDelegate then AlreadyDelegated
            else Candidate (dl_delegateAddress p))
      else NoCandidate)"

section \<open>The other panels\<close>

text \<open>The vote count of the candidate: held while the change is under way, so that votes are not added twice.\<close>

definition willHaveVoteCount_effect :: "ChangeDelegateState \<Rightarrow> int \<Rightarrow> int \<Rightarrow> int \<Rightarrow> int" where
  "willHaveVoteCount_effect state countDelegatedNouns votesToAdd willHave =
     (if state = ENTER_DELEGATE_ADDRESS \<and> willHave \<noteq> 0 then 0
      else if 0 < willHave then willHave
      else if state \<noteq> ENTER_DELEGATE_ADDRESS \<and> willHave \<noteq> countDelegatedNouns + votesToAdd
      then countDelegatedNouns + votesToAdd
      else willHave)"

definition changeDelegateInfo :: "ChangeDelegateState \<Rightarrow> int \<Rightarrow> int \<Rightarrow> (string \<times> int \<times> bool) option" where
  "changeDelegateInfo state countDelegatedNouns willHave =
     usePickByState state [ENTER_DELEGATE_ADDRESS, CHANGING, CHANGE_SUCCESS]
       [(if 0 < countDelegatedNouns then ''Already has'' else ''Has'', countDelegatedNouns, False),
        (''Will have'', willHave, True),
        (''Now has'', countDelegatedNouns, False)]"

definition shown_delegate :: "string option \<Rightarrow> string option \<Rightarrow> string" where
  "shown_delegate delegate maybeAccount =
     (case delegate of Some d \<Rightarrow> d | None \<Rightarrow> (case maybeAccount of Some a \<Rightarrow> a | None \<Rightarrow> ''''))"

text \<open>\<open>DelegationModal\<close> starts with the current delegate unless it comes from a deep link.\<close>

definition initial_isChangingDelegation :: "string option \<Rightarrow> bool" where
  "initial_isChangingDelegation delegateTo = (delegateTo \<noteq> None)"

section \<open>Runs of the panel\<close>

text \<open>With \<open>patient\<close> the user types, or starts over, only when no lookup is under way.\<close>

inductive delegate_step :: "delegate_env \<Rightarrow> int \<Rightarrow> string option \<Rightarrow> bool \<Rightarrow> DelegatePanel \<Rightarrow> DelegatePanel \<Rightarrow> bool"
  for env votes to patient where
  types: "input_shown to p \<Longrightarrow> (if patient then dl_lookups p = [] else True)
    \<Longrightarrow> delegate_step env votes to patient p (type_delegate env t p)"
| answered: "name \<in> set (dl_lookups p)
    \<Longrightarrow> delegate_step env votes to patient p (checkIsValidENS env name (p\<lparr>dl_lookups := remove1 name (dl_lookups p)\<rparr>))"
| failed: "name \<in> set (dl_lookups p)
    \<Longrightarrow> delegate_step env votes to patient p (p\<lparr>dl_lookups := remove1 name (dl_lookups p)\<rparr>)"
| clicks: "delegate_step env votes to patient p (primary_click env votes p)"
| transaction: "delegate_step env votes to patient p (delegate_state_effect st p)"
| starts_over: "secondary_click env p = Some q \<Longrightarrow> (if patient then dl_lookups p = [] else True)
    \<Longrightarrow> delegate_step env votes to patient p q"

inductive delegate_reach :: "delegate_env \<Rightarrow> int \<Rightarrow> string option \<Rightarrow> bool \<Rightarrow> DelegatePanel \<Rightarrow> bool"
  for env votes to patient where
  opened: "delegate_reach env votes to patient (initial_panel env to)"
| step: "delegate_reach env votes to patient p \<Longrightarrow> delegate_step env votes to patient p q
    \<Longrightarrow> delegate_reach env votes to patient q"

text \<open>A resolver answers with addresses, and an address with the same address.\<close>

definition resolver_doc :: "delegate_env \<Rightarrow> bool" where
  "resolver_doc env \<longleftrightarrow> (\<forall>n a. de_resolveName env n = Some a \<longrightarrow> a \<noteq> [] \<and> de_isAddress env a \<and> de_resolveName env a = Some a)"

definition names :: "delegate_env \<Rightarrow> string \<Rightarrow> string \<Rightarrow> bool" where
  "names env t a \<longleftrightarrow> a = t \<or> de_resolveName env t = Some a"

definition panel_ok :: "delegate_env \<Rightarrow> int \<Rightarrow> DelegatePanel \<Rightarrow> bool" where
  "panel_ok env votes p \<longleftrightarrow>
     names env (dl_inputText p) (dl_delegateAddress p)
     \<and> (dl_lookups p = [] \<or> dl_lookups p = [dl_delegateAddress p])
     \<and> list_all (\<lambda>(t, a). names env t a \<and> de_isAddress env a) (dl_sent p)
     \<and> (if dl_sent p = [] then True else votes \<noteq> 0)"

lemmas panel_defs = type_delegate_def setDelegateAddress_def checkIsValidENS_def delegate_state_effect_def secondary_click_def

lemma address_of_panel [simp]:
  "dl_delegateAddress (setDelegateAddress env a p) = a"
  "dl_inputText (setDelegateAddress env a p) = dl_inputText p"
  "dl_sent (setDelegateAddress env a p) = dl_sent p"
  "dl_changeState (setDelegateAddress env a p) = dl_changeState p"
  by (simp_all add: setDelegateAddress_def)

lemma typed_ok:
  assumes "panel_ok env votes p" and "dl_lookups p = []"
  shows "panel_ok env votes (type_delegate env t p)"
  using assms by (simp add: panel_ok_def panel_defs names_def)

lemma answered_ok:
  assumes ok: "panel_ok env votes p" and doc: "resolver_doc env" and "name \<in> set (dl_lookups p)"
  shows "panel_ok env votes (checkIsValidENS env name (p\<lparr>dl_lookups := remove1 name (dl_lookups p)\<rparr>))"
proof -
  have l: "dl_lookups p = [dl_delegateAddress p]" "name = dl_delegateAddress p"
    using assms by (auto simp: panel_ok_def)
  show ?thesis
  proof (cases "de_library env \<and> (\<exists>a. de_resolveName env name = Some a)")
    case True
    then obtain a where a: "de_resolveName env name = Some a" by blast
    have "names env (dl_inputText p) a"
      using ok doc a l by (auto simp: panel_ok_def names_def resolver_doc_def)
    moreover have "a \<noteq> []" using doc a by (auto simp: resolver_doc_def)
    ultimately show ?thesis
      using ok a l True by (cases a) (auto simp: panel_ok_def checkIsValidENS_def setDelegateAddress_def Let_def)
  next
    case False
    then have "(if de_library env then de_resolveName env (dl_delegateAddress p) else None) = None" using l by auto
    then have "checkIsValidENS env name (p\<lparr>dl_lookups := remove1 name (dl_lookups p)\<rparr>) =
        p\<lparr>dl_lookups := [], dl_hasResolved := True, dl_inputClass := address_class env (dl_delegateAddress p)\<rparr>"
      unfolding checkIsValidENS_def l Let_def by (simp only:) simp
    then show ?thesis using ok by (simp add: panel_ok_def)
  qed
qed

lemma failed_ok:
  assumes "panel_ok env votes p" and "name \<in> set (dl_lookups p)"
  shows "panel_ok env votes (p\<lparr>dl_lookups := remove1 name (dl_lookups p)\<rparr>)"
  using assms by (auto simp: panel_ok_def)

lemma primary_click_eq:
  "primary_click env votes p =
     (if dl_changeState p = ENTER_DELEGATE_ADDRESS \<and> \<not> delegate_disabled env votes p
      then p\<lparr>dl_sent := (dl_inputText p, dl_delegateAddress p) # dl_sent p\<rparr> else p)"
  by (cases "dl_changeState p")
     (simp_all add: primary_click_def primaryButton_def usePickByState_def upt_rec)

lemma clicked_ok:
  assumes "panel_ok env votes p"
  shows "panel_ok env votes (primary_click env votes p)"
  using assms by (auto simp: primary_click_eq panel_ok_def delegate_disabled_def)

lemma transaction_ok:
  assumes "panel_ok env votes p"
  shows "panel_ok env votes (delegate_state_effect st p)"
  using assms by (simp add: delegate_state_effect_def panel_ok_def Let_def)

lemma started_over_ok:
  assumes "panel_ok env votes p" and "secondary_click env p = Some q" and "dl_lookups p = []"
  shows "panel_ok env votes q"
  using assms by (auto simp: secondary_click_def panel_ok_def setDelegateAddress_def names_def split: if_splits)

lemma delegate_step_ok:
  assumes "delegate_step env votes to True p q" and "panel_ok env votes p" and "resolver_doc env"
  shows "panel_ok env votes q"
  using assms
  by (cases rule: delegate_step.cases)
     (auto simp: typed_ok answered_ok failed_ok clicked_ok transaction_ok intro: started_over_ok)

lemma delegate_reach_ok:
  assumes "delegate_reach env votes to True p" and "resolver_doc env"
  shows "panel_ok env votes p"
  using assms(1)
proof induction
  case opened
  show ?case by (simp add: panel_ok_def initial_panel_def names_def Let_def)
next
  case (step p q)
  then show ?case using delegate_step_ok assms(2) by blast
qed

section \<open>Delegations go where the user said\<close>

text \<open>
  C29. A user who waits for each name to be looked up before typing on delegates only to what the input shows:
  every delegation the panel sends, whatever the order of typing, answers, failed lookups, clicks and transaction
  states, goes to a valid address that is the typed text or what the resolver answers for it, and none is sent by an
  account without votes.
\<close>

theorem delegations_follow_input:
  assumes "delegate_reach env votes to True p" and "resolver_doc env" and "(t, a) \<in> set (dl_sent p)"
  shows "de_isAddress env a \<and> (a = t \<or> de_resolveName env t = Some a) \<and> votes \<noteq> 0"
  using delegate_reach_ok[OF assms(1,2)] assms(3)
  by (auto simp: panel_ok_def names_def list_all_iff split: if_splits)

text \<open>A resolver with one name, and addresses that are the texts with \<open>0x\<close> in front.\<close>

definition sample_delegate_env :: delegate_env where
  "sample_delegate_env =
     \<lparr>de_isAddress = (\<lambda>s. starts_with s ''0x''), de_decodeURI = (\<lambda>s. s), de_encodedSuffix = ''%E2'', de_library = True,
      de_resolveName = (\<lambda>s. if s = ''a.eth'' then Some ''0xaa'' else if starts_with s ''0x'' then Some s else None)\<rparr>"

definition typed_panel :: "string \<Rightarrow> DelegatePanel" where
  "typed_panel t = type_delegate sample_delegate_env t
     (initial_panel sample_delegate_env None\<lparr>dl_lookups := []\<rparr>)"

lemma typed_panel_reach: "delegate_reach sample_delegate_env 2 None w (typed_panel t)"
proof -
  have "delegate_step sample_delegate_env 2 None w (initial_panel sample_delegate_env None)
          (initial_panel sample_delegate_env None\<lparr>dl_lookups := remove1 [] (dl_lookups (initial_panel sample_delegate_env None))\<rparr>)"
    by (rule delegate_step.failed) (simp add: initial_panel_def)
  then have "delegate_reach sample_delegate_env 2 None w (initial_panel sample_delegate_env None\<lparr>dl_lookups := []\<rparr>)"
    using delegate_reach.step[OF delegate_reach.opened] by (simp add: initial_panel_def)
  moreover have "delegate_step sample_delegate_env 2 None w (initial_panel sample_delegate_env None\<lparr>dl_lookups := []\<rparr>) (typed_panel t)"
    unfolding typed_panel_def by (rule delegate_step.types) (simp_all add: input_shown_def initial_panel_def)
  ultimately show ?thesis by (rule delegate_reach.step)
qed

definition answered_panel :: DelegatePanel where
  "answered_panel = checkIsValidENS sample_delegate_env ''a.eth'' (typed_panel ''a.eth''\<lparr>dl_lookups := []\<rparr>)"

lemma answered_panel_facts:
  "dl_delegateAddress answered_panel = ''0xaa''" "dl_inputText answered_panel = ''a.eth''"
  "dl_changeState answered_panel = ENTER_DELEGATE_ADDRESS"
  by code_simp+

lemma answered_panel_reach: "delegate_reach sample_delegate_env 2 None w answered_panel"
proof -
  have "dl_lookups (typed_panel ''a.eth'') = [''a.eth'']" by code_simp
  then have "delegate_step sample_delegate_env 2 None w (typed_panel ''a.eth'') answered_panel"
    unfolding answered_panel_def
    using delegate_step.answered[of "''a.eth''" "typed_panel ''a.eth''" sample_delegate_env 2 None w] by simp
  then show ?thesis using delegate_reach.step[OF typed_panel_reach] by blast
qed

lemma sample_resolver_doc: "resolver_doc sample_delegate_env"
  by (auto simp: resolver_doc_def sample_delegate_env_def starts_with_def split: if_splits)

lemma clicked_panel_reach:
  "delegate_reach env votes to w p \<Longrightarrow> delegate_reach env votes to w (primary_click env votes p)"
  by (blast intro: delegate_reach.step delegate_step.clicks)

lemma answered_panel_sends:
  "dl_sent (primary_click sample_delegate_env 2 answered_panel) = [(''a.eth'', ''0xaa'')]"
  by code_simp

theorem delegations_follow_input_witness:
  "de_isAddress sample_delegate_env ''0xaa''
   \<and> (''0xaa'' = ''a.eth'' \<or> de_resolveName sample_delegate_env ''a.eth'' = Some ''0xaa'') \<and> (2::int) \<noteq> 0"
  using delegations_follow_input[OF clicked_panel_reach[OF answered_panel_reach] sample_resolver_doc, of "''a.eth''" "''0xaa''"]
  by (simp add: answered_panel_sends)

text \<open>
  Without the patience: the answer for \<open>a.eth\<close> comes after the user typed another address, and overwrites it. The
  input still shows the address \<open>0xbb\<close>, and the click delegates to \<open>0xaa\<close>.
\<close>

definition overtaken_panel :: DelegatePanel where
  "overtaken_panel = checkIsValidENS sample_delegate_env ''a.eth''
     ((type_delegate sample_delegate_env ''0xbb'' (typed_panel ''a.eth''))\<lparr>dl_lookups := [''0xbb'']\<rparr>)"

lemma late_answer_redirects:
  "delegate_reach sample_delegate_env 2 None False (primary_click sample_delegate_env 2 overtaken_panel)"
  "dl_sent (primary_click sample_delegate_env 2 overtaken_panel) = [(''0xbb'', ''0xaa'')]"
proof -
  let ?q = "type_delegate sample_delegate_env ''0xbb'' (typed_panel ''a.eth'')"
  have "dl_changeState (typed_panel ''a.eth'') = ENTER_DELEGATE_ADDRESS" by code_simp
  then have "delegate_step sample_delegate_env 2 None False (typed_panel ''a.eth'') ?q"
    by (intro delegate_step.types) (simp_all add: input_shown_def)
  then have "delegate_reach sample_delegate_env 2 None False ?q"
    using delegate_reach.step[OF typed_panel_reach] by blast
  moreover have "dl_lookups ?q = [''a.eth'', ''0xbb'']" by code_simp
  then have "delegate_step sample_delegate_env 2 None False ?q overtaken_panel"
    unfolding overtaken_panel_def
    using delegate_step.answered[of "''a.eth''" ?q sample_delegate_env 2 None False] by simp
  ultimately show "delegate_reach sample_delegate_env 2 None False (primary_click sample_delegate_env 2 overtaken_panel)"
    by (blast intro: delegate_reach.step clicked_panel_reach)
  show "dl_sent (primary_click sample_delegate_env 2 overtaken_panel) = [(''0xbb'', ''0xaa'')]" by code_simp
qed

section \<open>The deep link takes one parameter\<close>

lemma deep_link_single:
  assumes "de_isAddress env a" and "\<not> ends_with a ''.eth''" and "\<not> ends_with a (de_encodedSuffix env)"
    and "CHR ''='' \<notin> set a" and "CHR ''?'' \<notin> set a" and "CHR ''&'' \<notin> set a"
  shows "getAddressFromQueryParams env ''to'' (''?to='' @ a) = Some a"
proof -
  have "split_str ''='' (''?to='' @ a) = [''?to'', a]"
    using split_str_char[of "CHR ''=''" "''?to''" a] split_str_char_None[of "CHR ''=''" a] assms(4) by simp
  moreover have "remove_first ''?'' a = a" "remove_first ''&'' a = a"
    using assms by (simp_all add: remove_first_def break_on_char_None)
  moreover have "remove_first ''&'' (remove_first ''?'' ''?to'') = ''to''" by code_simp
  ultimately show ?thesis
    using assms by (simp add: getAddressFromQueryParams_def Let_def upt_rec)
qed

text \<open>With a second parameter after the address the name is glued to it, and the link is dropped.\<close>

lemma deep_link_second_parameter:
  "getAddressFromQueryParams (sample_delegate_env\<lparr>de_isAddress := (\<lambda>s. s = ''0xaa'')\<rparr>) ''to'' ''?to=0xaa&lang=en'' = None"
  by code_simp

text \<open>Votes are added to the candidate's count once: the effect keeps a positive count until the panel starts over.\<close>

lemma willHaveVoteCount_settles:
  assumes "state \<noteq> ENTER_DELEGATE_ADDRESS" and "0 < c + v"
  shows "willHaveVoteCount_effect state c' v' (willHaveVoteCount_effect state c v 0) = c + v"
  using assms by (simp add: willHaveVoteCount_effect_def)

end
