(* ===== verification/Web_AuctionPage.thy ===== *)
theory Web_AuctionPage
  imports Web_Subscriber Web_Activity Web_Bid
begin

text \<open>
  The auction page of the web app on the redux state of \<open>Web_Auction\<close>: which Noun is on display and how the arrows,
  the keys and the path move it (\<open>pages/Auction\<close>, \<open>components/{Auction,AuctionNavigation,NounderNounContent,
  UNouncilUNounContent}\<close>, the routes of \<open>App.tsx\<close>), what is shown for it (\<open>AuctionActivity\<close>, \<open>CurrentBid\<close>, \<open>Winner\<close>,
  \<open>Holder\<close>, \<open>BidHistory\<close>, the info rows), and the clocks (\<open>AuctionTimer\<close>, \<open>SettleManuallyBtn\<close>). Times are Unix
  seconds or, for \<open>Date.now()\<close>, milliseconds.
\<close>

section \<open>Routes and the page's state\<close>

text \<open>
  \<open>BrowserRouter\<close> inside \<open>App\<close> keeps a history of its own, so \<open>connected-react-router\<close>'s \<open>push\<close> of the page's effect
  changes \<open>router\<close> of the root state and not the route of the page.
\<close>

datatype route = Home | NounRoute num | OtherRoute

record AuctionPage =
  ap_root :: RootState
  ap_route :: route
  ap_crashed :: bool

text \<open>The id of a path is \<open>NaN\<close> (\<open>None\<close>) unless it is a decimal numeral. \<open>/auction/:id\<close> redirects.\<close>

definition app_route :: "string \<Rightarrow> route" where
  "app_route path =
     (if path = ''/'' then Home
      else case strip_prefix ''/unoun/'' path of
          Some s \<Rightarrow> NounRoute (js_number s)
        | None \<Rightarrow> (case strip_prefix ''/auction/'' path of Some s \<Rightarrow> NounRoute (js_number s) | None \<Rightarrow> OtherRoute))"

definition on_root :: "(RootState \<Rightarrow> RootState) \<Rightarrow> AuctionPage \<Rightarrow> AuctionPage" where
  "on_root f p = p\<lparr>ap_root := f (ap_root p)\<rparr>"

text \<open>The last auction as the code tests it: the Noun with id 0 counts as none.\<close>

definition known_last :: "RootState \<Rightarrow> int option" where
  "known_last r = (case lastAuctionUNounId (onDisplayAuction r) of Some i \<Rightarrow> if i = 0 then None else Some i | None \<Rightarrow> None)"

text \<open>What the hook gives the page, a thrown error being a blank page.\<close>

definition shown_auction :: "AuctionPage \<Rightarrow> WAuction option" where
  "shown_auction p = (case useOnDisplayAuction (ap_root p) of Inl _ \<Rightarrow> None | Inr a \<Rightarrow> a)"

text \<open>
  With \<open>NaN\<close> in the path both comparisons fail, \<open>NaN\<close> goes on display, and \<open>BigNumber.from(NaN)\<close> of the hook throws
  during the rendering.
\<close>

definition page_effect :: "AuctionPage \<Rightarrow> AuctionPage" where
  "page_effect p =
     (case known_last (ap_root p) of
        None \<Rightarrow> p
      | Some l \<Rightarrow>
          (case ap_route p of
             NounRoute (Some i) \<Rightarrow>
               if i > l \<or> i < 0
               then on_root (dispatch (PushPath (nounPath l)) \<circ> dispatch (SetOnDisplayAuctionUNounId l)) p
               else if shown_auction p = None then on_root (dispatch (SetOnDisplayAuctionUNounId i)) p else p
           | NounRoute None \<Rightarrow> if shown_auction p = None then p\<lparr>ap_crashed := True\<rparr> else p
           | Home \<Rightarrow> on_root (dispatch (SetOnDisplayAuctionUNounId l)) p
           | OtherRoute \<Rightarrow> p))"

section \<open>Moving from Noun to Noun\<close>

text \<open>
  The handlers of \<open>Auction\<close>. In a click both updates are batched. In a key listener each renders at once, so the page's
  effect may run between them (\<open>between\<close>).
\<close>

definition move_to :: "web_action \<Rightarrow> int \<Rightarrow> bool \<Rightarrow> AuctionPage \<Rightarrow> AuctionPage" where
  "move_to a d between p =
     (let q = on_root (dispatch a) p;
          q' = (if between then page_effect q else q)
      in case shown_auction p of
           None \<Rightarrow> q'
         | Some cur \<Rightarrow> q'\<lparr>ap_route := app_route (nounPath (wa_unounId cur + d))\<rparr>)"

definition prevAuctionHandler :: "bool \<Rightarrow> AuctionPage \<Rightarrow> AuctionPage" where
  "prevAuctionHandler = move_to SetPrevOnDisplayAuctionUNounId (- 1)"

definition nextAuctionHandler :: "bool \<Rightarrow> AuctionPage \<Rightarrow> AuctionPage" where
  "nextAuctionHandler = move_to SetNextOnDisplayAuctionUNounId 1"

datatype activity = NounderContent | CouncilContent | ActivityContent

definition auction_content :: "AuctionPage \<Rightarrow> activity option" where
  "auction_content p =
     (case (shown_auction p, known_last (ap_root p)) of
        (Some a, Some l) \<Rightarrow>
          Some (if isNounderNoun (wa_unounId a) then NounderContent
                else if isUNouncilUNoun (wa_unounId a) then CouncilContent else ActivityContent)
      | _ \<Rightarrow> None)"

definition isFirstAuction :: "AuctionPage \<Rightarrow> bool" where
  "isFirstAuction p = (case shown_auction p of Some a \<Rightarrow> wa_unounId a = 0 | None \<Rightarrow> False)"

definition isLastAuction :: "AuctionPage \<Rightarrow> bool" where
  "isLastAuction p =
     (case shown_auction p of Some a \<Rightarrow> known_last (ap_root p) = Some (wa_unounId a) | None \<Rightarrow> False)"

definition prev_click :: "AuctionPage \<Rightarrow> AuctionPage" where
  "prev_click p = (if auction_content p = None \<or> isFirstAuction p then p else prevAuctionHandler False p)"

definition next_click :: "AuctionPage \<Rightarrow> AuctionPage" where
  "next_click p = (if auction_content p = None \<or> isLastAuction p then p else nextAuctionHandler False p)"

text \<open>The listener of \<open>AuctionNavigation\<close>.\<close>

definition navigation_key :: "string \<Rightarrow> bool \<Rightarrow> AuctionPage \<Rightarrow> AuctionPage" where
  "navigation_key key between p =
     (if auction_content p = None then p
      else if key = ''ArrowLeft''
      then (let q = (if isLastAuction p
                     then (case known_last (ap_root p) of None \<Rightarrow> p | Some l \<Rightarrow> p\<lparr>ap_route := app_route (nounPath l)\<rparr>)
                     else p)
            in if isFirstAuction p then q else prevAuctionHandler between q)
      else if key = ''ArrowRight'' \<and> \<not> isLastAuction p then nextAuctionHandler between p
      else p)"

text \<open>The listener that the pages of founders' and council's Nouns add, without the guards.\<close>

definition content_key :: "string \<Rightarrow> bool \<Rightarrow> AuctionPage \<Rightarrow> AuctionPage" where
  "content_key key between p =
     (if auction_content p = Some NounderContent \<or> auction_content p = Some CouncilContent
      then (if key = ''ArrowLeft'' then prevAuctionHandler between p
            else if key = ''ArrowRight'' then nextAuctionHandler between p else p)
      else p)"

section \<open>What the page shows\<close>

datatype below_auction = Feed int | Intro

definition auction_page_below :: "AuctionPage \<Rightarrow> below_auction" where
  "auction_page_below p =
     (case shown_auction p of
        Some a \<Rightarrow> if lastAuctionUNounId (onDisplayAuction (ap_root p)) = Some (wa_unounId a) then Intro else Feed (wa_unounId a)
      | None \<Rightarrow> Intro)"

definition loadedNounHandler :: "int \<Rightarrow> AuctionPage \<Rightarrow> AuctionPage" where
  "loadedNounHandler background = on_root (dispatch (SetStateBackgroundColor (if background = 0 then peace else grey)))"

text \<open>The column next to the bid, and which parts the activity of an auction has.\<close>

datatype timer_col = WinnerCol string | HolderCol int | TimerCol

datatype history_button = OpenBidHistoryModal | OpenEtherscanBidHistory

record ActivityView =
  av_modal :: bool
  av_navigation :: bool
  av_timer_col :: timer_col
  av_bid_form :: bool
  av_info_card :: bool
  av_bid_history :: "int option"
  av_history_button :: "history_button option"

definition AuctionActivity :: "WAuction \<Rightarrow> bool \<Rightarrow> bool \<Rightarrow> bool \<Rightarrow> bool \<Rightarrow> ActivityView" where
  "AuctionActivity a isLast displayGraphDepComps showBidHistoryModal auctionEnded =
     \<lparr>av_modal = showBidHistoryModal,
      av_navigation = displayGraphDepComps,
      av_timer_col = (if auctionEnded then (if isLast then WinnerCol (wa_bidder a) else HolderCol (wa_unounId a)) else TimerCol),
      av_bid_form = isLast,
      av_info_card = (\<not> isLast),
      av_bid_history = (if isLast \<and> displayGraphDepComps then Some 3 else None),
      av_history_button =
        (if isLast \<and> wa_amount a \<noteq> 0
         then Some (if displayGraphDepComps then OpenBidHistoryModal else OpenEtherscanBidHistory) else None)\<rparr>"

text \<open>An amount in Ether with four decimals. \<open>CurrentBid\<close> compares two new elements with \<open>===\<close>, which is never true.\<close>

definition truncated_amount :: "(string \<Rightarrow> string) \<Rightarrow> numerics \<Rightarrow> int \<Rightarrow> string" where
  "truncated_amount toFixed4 nm amount = toFixed4 (nm_formatEther nm amount)"

definition CurrentBid :: "(string \<Rightarrow> string) \<Rightarrow> numerics \<Rightarrow> int option \<Rightarrow> bool \<Rightarrow> string \<times> string" where
  "CurrentBid toFixed4 nm amount auctionEnded =
     (if auctionEnded then ''Winning bid'' else ''Current bid'',
      case amount of None \<Rightarrow> ''n/a'' | Some b \<Rightarrow> truncated_amount toFixed4 nm b)"

datatype winner_view = UNoundersLink | UNouncilLink | You | WinnerAddress string

definition saveUNouns :: string where
  "saveUNouns = ''0x93D788F6EE2D47C82BC075EA314D941d836093B6''"

definition isWinnerYou :: "maybe_account \<Rightarrow> string \<Rightarrow> bool" where
  "isWinnerYou activeAccount winner =
     (case activeAccount of AAddress a \<Rightarrow> to_lower a = to_lower winner | _ \<Rightarrow> False)"

definition Winner :: "maybe_account \<Rightarrow> string \<Rightarrow> bool \<Rightarrow> bool \<Rightarrow> winner_view" where
  "Winner activeAccount winner isNounders isUNouncil =
     (if isNounders then UNoundersLink
      else if isUNouncil then UNouncilLink
      else if isWinnerYou activeAccount winner then You
      else WinnerAddress (if winner \<noteq> [] then winner else saveUNouns))"

datatype holder_view = HolderNothing | HolderFailed | HeldBy "string option" | HeldByUNounders

definition Holder :: "string query \<Rightarrow> bool \<Rightarrow> holder_view" where
  "Holder q isNounders =
     (if q_loading q then HolderNothing
      else if q_error q then HolderFailed
      else if isNounders then HeldByUNounders else HeldBy (q_data q))"

text \<open>The bidder of a past auction; its query gives the bidder's id, none when nobody bid.\<close>

datatype info_holder = InfoLoading | SavedFromLoss | FailedToFetch | InfoAuctionHouse | InfoWinner string

definition NounInfoRowHolder :: "string \<Rightarrow> string option query \<Rightarrow> info_holder" where
  "NounInfoRowHolder auctionHouse q =
     (let winner = (case q_data q of None \<Rightarrow> None | Some b \<Rightarrow> b)
      in if q_loading q then InfoLoading
         else case winner of
             Some (c # cs) \<Rightarrow>
               if q_error q then FailedToFetch
               else if to_lower (c # cs) = to_lower auctionHouse then InfoAuctionHouse else InfoWinner (c # cs)
           | _ \<Rightarrow> SavedFromLoss)"

definition getNounBirthday :: "int \<Rightarrow> AuctionState list \<Rightarrow> int" where
  "getNounBirthday unounId past =
     (case past_auction_of unounId past of
        None \<Rightarrow> 0
      | Some s \<Rightarrow> (case activeAuction s of None \<Rightarrow> 0 | Some a \<Rightarrow> wa_startTime a))"

text \<open>The date, in milliseconds, or nothing before past auctions are there.\<close>

definition NounInfoRowBirthday :: "int \<Rightarrow> AuctionState list \<Rightarrow> int option" where
  "NounInfoRowBirthday unounId past =
     (let nounIdForQuery = (if isNounderNoun unounId then unounId + 1 else unounId)
      in if past = [] then None else Some (getNounBirthday nounIdForQuery past * 1000))"

text \<open>Both lists of bids: the newest of the page, and all of the modal with the trophy on the first.\<close>

definition bid_history :: "int \<Rightarrow> nat \<Rightarrow> RootState \<Rightarrow> BidEvent list" where
  "bid_history auctionId limit r =
     (case useAuctionBids auctionId r of None \<Rightarrow> [] | Some bs \<Rightarrow> take limit (sort_key (\<lambda>b. - be_timestamp b) bs))"

definition bid_history_modal :: "WAuction \<Rightarrow> RootState \<Rightarrow> (bool \<times> BidEvent) list option" where
  "bid_history_modal a r =
     (case useAuctionBids (wa_unounId a) r of
        Some (b # bs) \<Rightarrow> Some ((True, b) # map (\<lambda>x. (False, x)) bs)
      | _ \<Rightarrow> None)"

text \<open>Orders of bids by block or time and by the index in the block.\<close>

definition generateBidScore :: "int \<times> int \<Rightarrow> int" where
  "generateBidScore bid = fst bid * 1000000 + snd bid"

definition compareBids :: "int \<times> int \<Rightarrow> int \<times> int \<Rightarrow> int" where
  "compareBids bidA bidB = generateBidScore bidA - generateBidScore bidB"

definition compareBidsChronologically :: "int \<times> int \<Rightarrow> int \<times> int \<Rightarrow> int" where
  "compareBidsChronologically a b = (fst b * 1000000 + snd b) - (fst a * 1000000 + snd a)"

section \<open>Clocks\<close>

text \<open>The components of a duration in seconds, by \<open>dayjs\<close>.\<close>

record durations =
  du_hours :: "int \<Rightarrow> int"
  du_minutes :: "int \<Rightarrow> int"
  du_seconds :: "int \<Rightarrow> int"

text \<open>One run of the effect at a time in seconds: the new state, and whether the timer of a second is set.\<close>

definition auction_timer_effect :: "int \<Rightarrow> int \<Rightarrow> int \<times> bool" where
  "auction_timer_effect endTime now =
     (let timeLeft = endTime - now in if timeLeft \<le> 0 then (0, False) else (timeLeft, True))"

definition auction_timer_text :: "durations \<Rightarrow> int \<Rightarrow> string" where
  "auction_timer_text du timer =
     int_to_dec (du_hours du timer) @ ''h'' @ int_to_dec (du_minutes du timer) @ ''m'' @ int_to_dec (du_seconds du timer) @ ''s''"

definition endTimeUnix :: "int \<Rightarrow> int \<Rightarrow> int" where
  "endTimeUnix now_ms timer = now_ms div 1000 + timer"

definition auction_timer_title :: "bool \<Rightarrow> bool \<Rightarrow> bool \<Rightarrow> string option" where
  "auction_timer_title auctionEnded timerToggle narrow =
     (if timerToggle
      then Some (if auctionEnded then ''Auction ended'' else if narrow then ''Time left'' else ''Auction ends in'')
      else None)"

text \<open>The check of \<open>AuctionActivity\<close> at a time in milliseconds: ended, or after how many milliseconds to check again.\<close>

definition ended_check :: "int \<Rightarrow> int \<Rightarrow> int option" where
  "ended_check endTime now_ms =
     (let timeLeft = endTime - now_ms div 1000
      in if timeLeft \<le> 0 then None else Some (if timeLeft > 300 then 30000 else 1000))"

text \<open>When the flag is set, the i-th timer from now firing \<open>late i\<close> milliseconds late.\<close>

function ended_flag_set_at :: "(nat \<Rightarrow> nat) \<Rightarrow> nat \<Rightarrow> int \<Rightarrow> int \<Rightarrow> int" where
  "ended_flag_set_at late i endTime now_ms =
     (case ended_check endTime now_ms of
        None \<Rightarrow> now_ms
      | Some d \<Rightarrow> ended_flag_set_at late (Suc i) endTime (now_ms + d + int (late i)))"
  by pat_completeness auto

termination
  by (relation "measure (\<lambda>(late, i, endTime, now_ms). nat (endTime * 1000 - now_ms))")
     (auto simp: ended_check_def Let_def split: if_splits)

declare ended_flag_set_at.simps [simp del]

text \<open>The emergency settlement: enabled, timer in seconds, and whether the timer runs on.\<close>

definition settle_timer_effect :: "int \<Rightarrow> int \<Rightarrow> int \<Rightarrow> bool \<Rightarrow> bool \<times> int \<times> bool" where
  "settle_timer_effect chainId endTime now enabled =
     (if chainId \<noteq> 1 then (True, 0, False)
      else let timeLeft = 5 * 60 - (now - endTime)
           in if timeLeft \<le> 0 then (True, 0, False) else (enabled, timeLeft, True))"

definition settle_button_text :: "durations \<Rightarrow> bool \<Rightarrow> int \<Rightarrow> string" where
  "settle_button_text du settleEnabled timer =
     (if settleEnabled then ''Settle manually''
      else if du_minutes du timer \<noteq> 0
      then ''You can settle manually in '' @ int_to_dec (du_minutes du timer + 1) @ '' minutes''
      else ''You can settle manually in 1 minute'')"

section \<open>Runs of the page\<close>

definition keeps_display :: "web_action \<Rightarrow> bool" where
  "keeps_display a = (case a of
      SetActiveAuction _ \<Rightarrow> False | SetFullAuction _ \<Rightarrow> False | SetLastAuctionUNounId _ \<Rightarrow> False
    | SetOnDisplayAuctionUNounId _ \<Rightarrow> False | SetPrevOnDisplayAuctionUNounId \<Rightarrow> False | SetNextOnDisplayAuctionUNounId \<Rightarrow> False
    | _ \<Rightarrow> True)"

text \<open>
  The page's own steps, the user's clicks, keys and paths, and what the chain sends: the current auction once at the
  start, then auctions of growing ids.
\<close>

inductive auction_page_step :: "AuctionPage \<Rightarrow> AuctionPage \<Rightarrow> bool" where
  effect: "auction_page_step p (page_effect p)"
| previous: "auction_page_step p (prev_click p)"
| following: "auction_page_step p (next_click p)"
| keyed: "auction_page_step p (navigation_key key between p)"
| content_keyed: "auction_page_step p (content_key key between p)"
| path: "auction_page_step p (p\<lparr>ap_route := rt\<rparr>)"
| loaded: "lastAuctionUNounId (onDisplayAuction (ap_root p)) = None \<Longrightarrow> 0 \<le> wa_unounId cur
    \<Longrightarrow> auction_page_step p (on_root (load_current cur) p)"
| created: "lastAuctionUNounId (onDisplayAuction (ap_root p)) = Some l \<Longrightarrow> l < i
    \<Longrightarrow> auction_page_step p (on_root (processAuctionCreated i s e) p)"
| other: "keeps_display a \<Longrightarrow> auction_page_step p (on_root (dispatch a) p)"

inductive auction_page_reach :: "AuctionPage \<Rightarrow> bool" where
  opened: "auction_page_reach \<lparr>ap_root = initial_root url, ap_route = app_route url, ap_crashed = False\<rparr>"
| step: "auction_page_reach p \<Longrightarrow> auction_page_step p q \<Longrightarrow> auction_page_reach q"

abbreviation display_of :: "AuctionPage \<Rightarrow> OnDisplayAuctionState" where
  "display_of p \<equiv> onDisplayAuction (ap_root p)"

definition display_ok :: "OnDisplayAuctionState \<Rightarrow> bool" where
  "display_ok d =
     (case lastAuctionUNounId d of
        None \<Rightarrow> onDisplayAuctionUNounId d = None
      | Some l \<Rightarrow> 0 \<le> l
          \<and> (case onDisplayAuctionUNounId d of None \<Rightarrow> True | Some i \<Rightarrow> 0 \<le> i \<and> i \<le> l))"

abbreviation auction_page_ok :: "AuctionPage \<Rightarrow> bool" where
  "auction_page_ok p \<equiv> display_ok (display_of p)"

lemma display_dispatch [simp]: "onDisplayAuction (dispatch a r) = onDisplay_reducer a (onDisplayAuction r)"
  by (simp add: dispatch_def)

lemma root_on_root [simp]:
  "ap_root (on_root f p) = f (ap_root p)" "ap_route (on_root f p) = ap_route p" "ap_crashed (on_root f p) = ap_crashed p"
  by (simp_all add: on_root_def)

lemma keeps_display_reducer: "keeps_display a \<Longrightarrow> onDisplay_reducer a d = d"
  by (cases a) (simp_all add: keeps_display_def)

lemma display_route [simp]:
  "ap_root (p\<lparr>ap_route := rt\<rparr>) = ap_root p" "ap_root (p\<lparr>ap_crashed := c\<rparr>) = ap_root p"
  by simp_all

lemma display_ok_id: "display_ok d \<Longrightarrow> lastAuctionUNounId d = Some l \<Longrightarrow> 0 \<le> i \<Longrightarrow> i \<le> l \<Longrightarrow> display_ok (setOnDisplayAuctionUNounId i d)"
  by (simp add: display_ok_def setOnDisplayAuctionUNounId_def)

lemma known_last_Some: "known_last r = Some l \<longleftrightarrow> lastAuctionUNounId (onDisplayAuction r) = Some l \<and> l \<noteq> 0"
  by (auto simp: known_last_def split: option.splits)

lemma auction_page_ok_effect: "auction_page_ok p \<Longrightarrow> auction_page_ok (page_effect p)"
  by (auto simp: page_effect_def known_last_Some display_ok_def setOnDisplayAuctionUNounId_def
      split: option.splits route.splits)

lemma auction_page_ok_arrows:
  assumes "display_ok d"
  shows "display_ok (setPrevOnDisplayAuctionUNounId d)" and "display_ok (setNextOnDisplayAuctionUNounId d)"
  using assms
  by (auto simp: display_ok_def setPrevOnDisplayAuctionUNounId_def setNextOnDisplayAuctionUNounId_def split: option.splits)

lemma auction_page_ok_handlers:
  assumes "auction_page_ok p"
  shows "auction_page_ok (prevAuctionHandler b p)" and "auction_page_ok (nextAuctionHandler b p)"
  using assms
  by (auto simp: prevAuctionHandler_def nextAuctionHandler_def move_to_def Let_def auction_page_ok_effect auction_page_ok_arrows
      split: option.splits)

lemma auction_page_ok_step: "auction_page_step p q \<Longrightarrow> auction_page_ok p \<Longrightarrow> auction_page_ok q"
proof (induction rule: auction_page_step.induct)
  case (keyed p key between)
  then show ?case
    by (auto simp: navigation_key_def Let_def auction_page_ok_handlers split: option.splits)
next
  case (loaded p cur)
  then show ?case by (simp add: display_ok_def load_current_def setLastAuctionUNounId_def)
next
  case (created p l i s e)
  then show ?case
    by (simp add: display_ok_def processAuctionCreated_def Let_def setLastAuctionUNounId_def setOnDisplayAuctionUNounId_def)
qed (auto simp: auction_page_ok_effect auction_page_ok_handlers prev_click_def next_click_def content_key_def keeps_display_reducer)

lemma auction_page_reach_ok: "auction_page_reach p \<Longrightarrow> auction_page_ok p"
proof (induction rule: auction_page_reach.induct)
  case (opened url)
  show ?case by (simp add: display_ok_def initial_root_def initial_on_display_def)
qed (rule auction_page_ok_step)

text \<open>What is on display is the auction of the id on display.\<close>

lemma findAuction_Some: "findAuction i l = Inr (Some a) \<Longrightarrow> wa_unounId a = i"
  by (induction l) (auto split: option.splits if_splits)

lemma empty_auction_ids:
  "generateEmptyNounderAuction i l = Inr a \<Longrightarrow> wa_unounId a = i"
  "generateEmptyUNouncilAuction i l = Inr a \<Longrightarrow> wa_unounId a = i"
  by (auto simp: generateEmptyNounderAuction_def generateEmptyUNouncilAuction_def emptyNounderAuction_def Let_def
      bind_result_Inr_iff split: option.splits)

lemma shown_auction_id:
  assumes "shown_auction p = Some a"
  shows "onDisplayAuctionUNounId (display_of p) = Some (wa_unounId a)"
proof -
  have u: "useOnDisplayAuction (ap_root p) = Inr (Some a)"
    using assms by (auto simp: shown_auction_def split: sum.splits)
  then obtain i c where i: "onDisplayAuctionUNounId (display_of p) = Some i" "activeAuction (auction (ap_root p)) = Some c"
    by (auto simp: useOnDisplayAuction_def split: option.splits)
  have "wa_unounId a = i"
    using u i empty_auction_ids
    by (auto simp: useOnDisplayAuction_def deserializeAuction_def bind_result_Inr_iff past_auction_of_def
        find_Some_iff split: if_splits option.splits)
  then show ?thesis using i by simp
qed

lemma auction_dispatch_root [simp]: "auction (dispatch a r) = auction_reducer a (auction r)" "pastAuctions (dispatch a r) = pastAuctions_reducer a (pastAuctions r)"
  by (simp_all add: dispatch_def)

text \<open>
  C30. Whatever the order of clicks, keys, paths, effects of the page and events of the chain, the Noun whose auction the
  page shows exists: its id lies between 0 and the id of the last auction.
\<close>

theorem page_shows_existing_noun:
  assumes "auction_page_reach p" and "shown_auction p = Some a"
  shows "case lastAuctionUNounId (onDisplayAuction (ap_root p)) of
           Some l \<Rightarrow> 0 \<le> wa_unounId a \<and> wa_unounId a \<le> l | None \<Rightarrow> False"
  using auction_page_reach_ok[OF assms(1)] shown_auction_id[OF assms(2)]
  by (simp add: display_ok_def split: option.splits)

definition sample_auction_page :: AuctionPage where
  "sample_auction_page = page_effect (on_root (load_current sample_auction)
     \<lparr>ap_root = initial_root ''/'', ap_route = Home, ap_crashed = False\<rparr>)"

lemma sample_auction_page_reach: "auction_page_reach sample_auction_page"
proof -
  have "app_route ''/'' = Home" by (simp add: app_route_def)
  then have "auction_page_reach \<lparr>ap_root = initial_root ''/'', ap_route = Home, ap_crashed = False\<rparr>"
    using auction_page_reach.opened[of "''/''"] by simp
  then show ?thesis
    unfolding sample_auction_page_def
    by (rule auction_page_reach.step[OF auction_page_reach.step[OF _ auction_page_step.loaded] auction_page_step.effect])
       (simp_all add: initial_root_def initial_on_display_def sample_auction_def)
qed

lemma sample_auction_page_shows:
  "shown_auction sample_auction_page = Some (deserializeAuction sample_auction)"
  "lastAuctionUNounId (onDisplayAuction (ap_root sample_auction_page)) = Some 7"
proof -
  have k: "known_last (load_current sample_auction (initial_root ''/'')) = Some 7"
    by (simp add: known_last_Some load_current_def setLastAuctionUNounId_def sample_auction_def)
  have r: "ap_root sample_auction_page = dispatch (SetOnDisplayAuctionUNounId 7) (load_current sample_auction (initial_root ''/''))"
    using k by (simp add: sample_auction_page_def page_effect_def)
  show "lastAuctionUNounId (onDisplayAuction (ap_root sample_auction_page)) = Some 7"
    using k by (simp add: r known_last_Some setOnDisplayAuctionUNounId_def)
  show "shown_auction sample_auction_page = Some (deserializeAuction sample_auction)"
    by (simp add: shown_auction_def useOnDisplayAuction_def r load_current_def setOnDisplayAuctionUNounId_def
        setFullAuction_def sample_auction_def)
qed

theorem page_shows_existing_noun_witness:
  "case lastAuctionUNounId (onDisplayAuction (ap_root sample_auction_page)) of
     Some l \<Rightarrow> l = 7 \<and> 0 \<le> wa_unounId (deserializeAuction sample_auction) \<and> wa_unounId (deserializeAuction sample_auction) \<le> l
   | None \<Rightarrow> False"
  using page_shows_existing_noun[OF sample_auction_page_reach sample_auction_page_shows(1)] by (simp add: sample_auction_page_shows(2))

text \<open>The arrows move the display and the path together.\<close>

lemma app_route_nounPath [simp]: "app_route (nounPath i) = NounRoute (Some i)"
  by (simp add: app_route_def nounPath_def strip_prefix_append)

lemma known_last_arrows [simp]:
  "known_last (dispatch SetPrevOnDisplayAuctionUNounId r) = known_last r"
  "known_last (dispatch SetNextOnDisplayAuctionUNounId r) = known_last r"
  "known_last (dispatch (SetOnDisplayAuctionUNounId i) r) = known_last r"
  by (simp_all add: known_last_def setPrevOnDisplayAuctionUNounId_def setNextOnDisplayAuctionUNounId_def
      setOnDisplayAuctionUNounId_def split: option.splits)

lemma prev_click_moves:
  assumes "shown_auction p = Some a" and "auction_content p \<noteq> None" and "wa_unounId a \<noteq> 0"
  shows "ap_route (prev_click p) = NounRoute (Some (wa_unounId a - 1))"
    and "onDisplayAuctionUNounId (display_of (prev_click p)) = Some (wa_unounId a - 1)"
  using assms shown_auction_id[OF assms(1)]
  by (auto simp: prev_click_def isFirstAuction_def prevAuctionHandler_def move_to_def Let_def setPrevOnDisplayAuctionUNounId_def)

lemma next_click_moves:
  assumes "shown_auction p = Some a" and "auction_content p \<noteq> None"
    and "lastAuctionUNounId (display_of p) = Some l" and "wa_unounId a \<noteq> l"
  shows "ap_route (next_click p) = NounRoute (Some (wa_unounId a + 1))"
    and "onDisplayAuctionUNounId (display_of (next_click p)) = Some (wa_unounId a + 1)"
  using assms shown_auction_id[OF assms(1)]
  by (auto simp: next_click_def isLastAuction_def known_last_Some nextAuctionHandler_def move_to_def Let_def setNextOnDisplayAuctionUNounId_def)

text \<open>
  On the home page the effect would put the last Noun back between the two updates of a key: without the push of the
  listener the first key is lost, with it the key moves.
\<close>

lemma home_key_lost:
  assumes "ap_route p = Home" and "known_last (ap_root p) = Some l"
  shows "onDisplayAuctionUNounId (display_of (prevAuctionHandler True p)) = Some l"
  using assms
  by (simp add: prevAuctionHandler_def move_to_def Let_def page_effect_def setOnDisplayAuctionUNounId_def split: option.split)

lemma home_key_moves:
  assumes "shown_auction p = Some a" and "known_last (ap_root p) = Some (wa_unounId a)" and "0 < wa_unounId a"
    and "shown_auction (on_root (dispatch SetPrevOnDisplayAuctionUNounId) p) \<noteq> None"
  shows "onDisplayAuctionUNounId (display_of (navigation_key ''ArrowLeft'' True p)) = Some (wa_unounId a - 1)"
    and "ap_route (navigation_key ''ArrowLeft'' True p) = NounRoute (Some (wa_unounId a - 1))"
proof -
  let ?q = "p\<lparr>ap_route := NounRoute (Some (wa_unounId a))\<rparr>"
  have q: "shown_auction ?q = Some a" using assms(1) by (simp add: shown_auction_def)
  have l: "lastAuctionUNounId (display_of p) = Some (wa_unounId a)" using assms(2) by (simp add: known_last_Some)
  have d: "setPrevOnDisplayAuctionUNounId (display_of p) = (display_of p)\<lparr>onDisplayAuctionUNounId := Some (wa_unounId a - 1)\<rparr>"
    using shown_auction_id[OF assms(1)] assms(3) by (simp add: setPrevOnDisplayAuctionUNounId_def)
  have k: "navigation_key ''ArrowLeft'' True p = prevAuctionHandler True ?q"
    using assms by (simp add: navigation_key_def auction_content_def isLastAuction_def isFirstAuction_def)
  have e: "page_effect (on_root (dispatch SetPrevOnDisplayAuctionUNounId) ?q) = on_root (dispatch SetPrevOnDisplayAuctionUNounId) ?q"
    using assms(2-4) by (auto simp: page_effect_def shown_auction_def)
  show "onDisplayAuctionUNounId (display_of (navigation_key ''ArrowLeft'' True p)) = Some (wa_unounId a - 1)"
    "ap_route (navigation_key ''ArrowLeft'' True p) = NounRoute (Some (wa_unounId a - 1))"
    using d q by (simp_all add: k prevAuctionHandler_def move_to_def Let_def e)
qed

text \<open>
  The listener that the founders' Nouns add has no guard: on Noun 0, where the arrow is disabled, the left key opens
  the path of Noun -1, and the page's effect then shows the last auction.
\<close>

lemma first_noun_left_key:
  assumes "shown_auction p = Some a" and "wa_unounId a = 0" and "known_last (ap_root p) = Some l" and "0 < l"
  shows "prev_click p = p"
    and "ap_route (content_key ''ArrowLeft'' False p) = NounRoute (Some (- 1))"
    and "onDisplayAuctionUNounId (display_of (page_effect (content_key ''ArrowLeft'' False p))) = Some l"
proof -
  have c: "auction_content p = Some NounderContent"
    using assms by (simp add: auction_content_def isNounderNoun_def)
  have i: "onDisplayAuctionUNounId (display_of p) = Some 0" using shown_auction_id[OF assms(1)] assms(2) by simp
  show "prev_click p = p" using assms by (simp add: prev_click_def isFirstAuction_def)
  have r: "content_key ''ArrowLeft'' False p = (on_root (dispatch SetPrevOnDisplayAuctionUNounId) p)\<lparr>ap_route := NounRoute (Some (- 1))\<rparr>"
    using assms by (simp add: content_key_def c prevAuctionHandler_def move_to_def Let_def)
  then show "ap_route (content_key ''ArrowLeft'' False p) = NounRoute (Some (- 1))" by simp
  show "onDisplayAuctionUNounId (display_of (page_effect (content_key ''ArrowLeft'' False p))) = Some l"
    using assms i by (simp add: r page_effect_def setPrevOnDisplayAuctionUNounId_def setOnDisplayAuctionUNounId_def
        split: option.splits if_splits)
qed

text \<open>The browser's back button changes the path only: with an auction on display the effect keeps it.\<close>

lemma back_button_keeps_display:
  assumes "shown_auction p = Some a" and "known_last (ap_root p) = Some l" and "0 \<le> i" and "i \<le> l"
  shows "page_effect (p\<lparr>ap_route := NounRoute (Some i)\<rparr>) = p\<lparr>ap_route := NounRoute (Some i)\<rparr>"
  using assms by (simp add: page_effect_def shown_auction_def)

lemma text_path_crashes:
  assumes "shown_auction p = None" and "known_last (ap_root p) = Some l" and "ap_route p = app_route ''/unoun/abc''"
  shows "ap_crashed (page_effect p)"
proof -
  have "app_route ''/unoun/abc'' = NounRoute None" by code_simp
  then show ?thesis using assms by (simp add: page_effect_def)
qed

section \<open>The clocks keep time\<close>

lemma ended_flag_late:
  assumes late: "\<And>j. int (late j) \<le> L" and L: "L < 270000"
  shows "now_ms < endTime * 1000 \<Longrightarrow> endTime * 1000 \<le> ended_flag_set_at late i endTime now_ms
    \<and> ended_flag_set_at late i endTime now_ms < endTime * 1000 + 1000 + L"
  using late
proof (induction late i endTime now_ms rule: ended_flag_set_at.induct)
  case (1 late i endTime now_ms)
  obtain d where d: "ended_check endTime now_ms = Some d" "d = (if endTime - now_ms div 1000 > 300 then 30000 else 1000)"
    using 1(2) by (simp add: ended_check_def Let_def)
  let ?n = "now_ms + d + int (late i)"
  have e: "ended_flag_set_at late i endTime now_ms = ended_flag_set_at late (Suc i) endTime ?n"
    using d(1) by (simp add: ended_flag_set_at.simps[of late i])
  have b: "?n < endTime * 1000 + 1000 + L"
    using 1(2) 1(3)[of i] L d(2) by (auto split: if_splits)
  show ?case
  proof (cases "?n < endTime * 1000")
    case True
    then show ?thesis using 1(1)[OF d(1) True 1(3)] e by simp
  next
    case False
    then have "ended_check endTime ?n = None" by (simp add: ended_check_def Let_def)
    then have "ended_flag_set_at late (Suc i) endTime ?n = ?n"
      by (simp add: ended_flag_set_at.simps[of late "Suc i"])
    then show ?thesis using e b False by simp
  qed
qed

text \<open>
  C31. The page notices the end of an auction: from any moment before the end, its checks set the flag not before the
  end and less than a second plus one timer's lateness after it, although far from the end it only looks every 30
  seconds; timers may fire up to four and a half minutes late.
\<close>

theorem auction_end_noticed:
  assumes "now_ms < endTime * 1000" and "\<And>j. int (late j) \<le> L" and "L < 270000"
  shows "endTime * 1000 \<le> ended_flag_set_at late i endTime now_ms
    \<and> ended_flag_set_at late i endTime now_ms < endTime * 1000 + 1000 + L"
  using ended_flag_late[of late L now_ms endTime i] assms by blast

theorem auction_end_noticed_witness:
  "1700000000 * 1000 \<le> ended_flag_set_at (\<lambda>j. 4) 0 1700000000 1699999000123
    \<and> ended_flag_set_at (\<lambda>j. 4) 0 1700000000 1699999000123 < 1700000000 * 1000 + 1000 + (4 :: int)"
  by (rule auction_end_noticed) simp_all

definition documented_durations :: "durations \<Rightarrow> bool" where
  "documented_durations du \<longleftrightarrow> (\<forall>t \<ge> 0.
     du_hours du t = t div 3600 mod 24 \<and> du_minutes du t = t div 60 mod 60 \<and> du_seconds du t = t mod 60)"

text \<open>The shown hours, minutes and seconds are the time left, less whole days.\<close>

lemma timer_components:
  assumes "documented_durations du" and "0 \<le> t"
  shows "3600 * du_hours du t + 60 * du_minutes du t + du_seconds du t = t mod 86400"
proof -
  have "t mod 86400 = 3600 * (t div 3600 mod 24) + t mod 3600"
    using mod_mult2_eq'[of t 3600 24] zmod_zmult2_eq[of 24 t 3600] by simp
  moreover have "t mod 3600 = 60 * (t div 60 mod 60) + t mod 60"
    using zmod_zmult2_eq[of 60 t 60] by simp
  ultimately show ?thesis using assms by (simp add: documented_durations_def)
qed

lemma decimals: "int_to_dec 0 = ''0''" "int_to_dec 6 = ''6''"
  by code_simp+

text \<open>An auction of a whole day starts with no time left on the display.\<close>

lemma day_left_shows_zero:
  "documented_durations du \<Longrightarrow> auction_timer_text du 86400 = ''0h0m0s''"
  by (simp add: documented_durations_def auction_timer_text_def decimals)

text \<open>Exactly n minutes before the settlement the button says n + 1 minutes.\<close>

lemma settle_minutes_off:
  assumes "documented_durations du"
  shows "settle_timer_effect 1 endTime endTime False = (False, 300, True)"
    and "settle_button_text du False 300 = ''You can settle manually in 6 minutes''"
  using assms
  by (simp_all add: settle_timer_effect_def settle_button_text_def documented_durations_def decimals)

lemma settle_enabled_after_five_minutes:
  "fst (settle_timer_effect 1 endTime now False) \<longleftrightarrow> endTime + 300 \<le> now"
  by (simp add: settle_timer_effect_def Let_def)

section \<open>Bids, holders and birthdays\<close>

text \<open>The order of bids is by block, then by the index in it.\<close>

lemma compareBids_lex:
  assumes "0 \<le> snd a" "snd a < 1000000" "0 \<le> snd b" "snd b < 1000000"
  shows "compareBids a b < 0 \<longleftrightarrow> fst a < fst b \<or> fst a = fst b \<and> snd a < snd b"
  using assms by (auto simp: compareBids_def generateBidScore_def)

text \<open>The one called chronological puts the newest first.\<close>

lemma compareBidsChronologically_newest: "compareBidsChronologically a b = compareBids b a"
  by (simp add: compareBidsChronologically_def compareBids_def generateBidScore_def)

lemma failed_query_saved_from_loss:
  "NounInfoRowHolder house \<lparr>q_loading = False, q_error = True, q_data = None\<rparr> = SavedFromLoss"
  by (simp add: NounInfoRowHolder_def)

text \<open>A council's Noun, which has no auction, was born at the start of 1970.\<close>

lemma council_birthday:
  assumes "\<not> isNounderNoun i" and "past_auction_of i past = None" and "past \<noteq> []"
  shows "NounInfoRowBirthday i past = Some 0"
  using assms by (simp add: NounInfoRowBirthday_def getNounBirthday_def)

lemma bid_history_newest:
  assumes "useAuctionBids i r = Some bs"
  shows "bid_history i n r = take n bs" and "sorted (map (\<lambda>b. - be_timestamp b) bs)"
proof -
  obtain l where "bs = deserializeBids l"
    using assms by (auto simp: useAuctionBids_def split: if_splits)
  then show s: "sorted (map (\<lambda>b. - be_timestamp b) bs)" by (simp add: deserializeBids_def)
  show "bid_history i n r = take n bs" using assms s by (simp add: bid_history_def sort_key_id_if_sorted)
qed

end
