(* ===== verification/Web_Names.thy ===== *)
theory Web_Names
  imports Js_Strings Sdk_Contracts
begin

text \<open>
  The web app's configuration (\<open>config.ts\<close>), links to the block explorer (\<open>utils/etherscan.ts\<close>) and names of addresses:
  the call to the name resolver (\<open>utils/lookupNNSOrENS.ts\<close>), the hook that looks a name up through a cache in the
  browser's storage (\<open>utils/ensLookup.ts\<close>), the prefetch of \<open>VoteCard\<close>, and how addresses are shown
  (\<open>utils/addressAndENSDisplayUtils.ts\<close>, \<open>ShortAddress\<close>, \<open>EnsOrLongAddress\<close>, \<open>BidHistoryModalRow\<close>). Times are in
  milliseconds. The environment, the blocklist and UTF-8 decoding are parameters.
\<close>

section \<open>config.ts\<close>

record CacheBucket =
  cb_name :: string
  cb_version :: string

definition seed_bucket :: CacheBucket where "seed_bucket = \<lparr>cb_name = ''seed'', cb_version = ''v1''\<rparr>"
definition ens_bucket :: CacheBucket where "ens_bucket = \<lparr>cb_name = ''ens'', cb_version = ''v1''\<rparr>"

definition cacheKey :: "CacheBucket \<Rightarrow> string list \<Rightarrow> string" where
  "cacheKey bucket parts = to_lower (join ''-'' (cb_name bucket # cb_version bucket # parts))"

type_synonym process_env = "string \<Rightarrow> string option"

definition CHAIN_ID :: "process_env \<Rightarrow> int option" where
  "CHAIN_ID env = parseInt (case env ''REACT_APP_CHAIN_ID'' of Some s \<Rightarrow> s | None \<Rightarrow> ''4'')"

definition char_upper :: "char \<Rightarrow> char" where
  "char_upper c = (let n = of_char c in if 97 \<le> n \<and> n \<le> (122::nat) then char_of (n - 32) else c)"

definition infura_project :: "process_env \<Rightarrow> string" where
  "infura_project env = (case env ''REACT_APP_INFURA_PROJECT_ID'' of Some p \<Rightarrow> p | None \<Rightarrow> ''undefined'')"

definition createNetworkHttpUrl :: "process_env \<Rightarrow> string \<Rightarrow> string" where
  "createNetworkHttpUrl env network =
     (case env (''REACT_APP_'' @ map char_upper network @ ''_JSONRPC'') of
        Some (c # cs) \<Rightarrow> c # cs
      | _ \<Rightarrow> ''https://'' @ network @ ''.infura.io/v3/'' @ infura_project env)"

definition createNetworkWsUrl :: "process_env \<Rightarrow> string \<Rightarrow> string" where
  "createNetworkWsUrl env network =
     (case env (''REACT_APP_'' @ map char_upper network @ ''_WSRPC'') of
        Some (c # cs) \<Rightarrow> c # cs
      | _ \<Rightarrow> ''wss://'' @ network @ ''.infura.io/ws/v3/'' @ infura_project env)"

record AppConfig =
  jsonRpcUri :: string
  wsRpcUri :: string
  subgraphApiUri :: string
  enableHistory :: bool

definition app_config :: "process_env \<Rightarrow> string \<Rightarrow> string \<Rightarrow> AppConfig" where
  "app_config env network subgraph =
     \<lparr>jsonRpcUri = createNetworkHttpUrl env network, wsRpcUri = createNetworkWsUrl env network,
      subgraphApiUri = subgraph, enableHistory = (env ''REACT_APP_ENABLE_HISTORY'' = Some ''true'')\<rparr>"

text \<open>Chains 4, 5, 1 and 31337: Rinkeby, Goerli, the main net and Hardhat.\<close>

definition app_of_chain :: "process_env \<Rightarrow> int \<Rightarrow> AppConfig option" where
  "app_of_chain env chain =
     (if chain = 4 then Some (app_config env ''rinkeby'' ''https://api.thegraph.com/subgraphs/name/nounsdao/nouns-subgraph-rinkeby-v5'')
      else if chain = 5 then Some (app_config env ''goerli'' ''https://api.thegraph.com/subgraphs/name/unounsdao/test-unoun'')
      else if chain = 1 then Some (app_config env ''mainnet'' ''https://api.thegraph.com/subgraphs/name/unounsdao/unouns-subgraph'')
      else if chain = 31337
      then Some \<lparr>jsonRpcUri = ''http://localhost:8545'', wsRpcUri = ''ws://localhost:8545'',
             subgraphApiUri = ''http://localhost:8000/subgraphs/name/nounsdao/nouns-subgraph'',
             enableHistory = (env ''REACT_APP_ENABLE_HISTORY'' = Some ''true'')\<rparr>
      else None)"

text \<open>The token and the buyer contracts have no address on any chain; an unknown chain has no contract at all.\<close>

record ExternalContractAddresses =
  lidoToken :: "string option"
  usdcToken :: "string option"
  chainlinkEthUsdc :: "string option"
  payerContract :: "string option"
  tokenBuyer :: "string option"

definition external_addresses :: "int \<Rightarrow> ExternalContractAddresses" where
  "external_addresses chain =
     \<lparr>lidoToken = None, usdcToken = None, chainlinkEthUsdc = None, payerContract = None, tokenBuyer = None\<rparr>"

definition getAddresses :: "address_book \<Rightarrow> int \<Rightarrow> ContractAddresses option \<times> ExternalContractAddresses" where
  "getAddresses book chain =
     (case getContractAddressesForChainOrThrow book chain of Inl _ \<Rightarrow> None | Inr a \<Rightarrow> Some a, external_addresses chain)"

text \<open>Without addresses \<open>toLowerCase\<close> of \<open>undefined\<close> throws.\<close>

definition resolveNounContractAddress :: "ContractAddresses option \<Rightarrow> string \<Rightarrow> (string, string option) result" where
  "resolveNounContractAddress addresses a =
     (case addresses of
        None \<Rightarrow> Inl ''Cannot read properties of undefined''
      | Some c \<Rightarrow> Inr (if to_lower a = to_lower (nounsDAOProxy c) then Some ''UNouns DAO Proxy''
          else if to_lower a = to_lower (nounsAuctionHouseProxy c) then Some ''UNouns Auction House Proxy''
          else if to_lower a = to_lower (nounsDaoExecutor c) then Some ''UNouns DAO Treasury''
          else None))"

section \<open>utils/etherscan.ts\<close>

text \<open>\<open>new URL(path, base)\<close> for a relative path of unreserved characters appends it.\<close>

definition getBaseURL :: "int \<Rightarrow> string" where
  "getBaseURL network =
     (if network = 4 then ''https://rinkeby.etherscan.io/''
      else if network = 5 then ''https://goerli.etherscan.io/'' else ''https://etherscan.io/'')"

definition buildEtherscanTxLink :: "int \<Rightarrow> string \<Rightarrow> string" where
  "buildEtherscanTxLink chain txHash = getBaseURL chain @ ''tx/'' @ txHash"

definition buildEtherscanAddressLink :: "int \<Rightarrow> string \<Rightarrow> string" where
  "buildEtherscanAddressLink chain a = getBaseURL chain @ ''address/'' @ a"

definition buildEtherscanTokenLink :: "int \<Rightarrow> string \<Rightarrow> int \<Rightarrow> string" where
  "buildEtherscanTokenLink chain tokenContractAddress tokenId =
     getBaseURL chain @ ''token/'' @ tokenContractAddress @ ''?a='' @ int_to_dec tokenId"

definition buildEtherscanHoldingsLink :: "int \<Rightarrow> string \<Rightarrow> string" where
  "buildEtherscanHoldingsLink chain a = getBaseURL chain @ ''tokenholdings?a='' @ a"

definition getApiBaseURL :: "int \<Rightarrow> string" where
  "getApiBaseURL network =
     (if network = 4 then ''https://api-rinkeby.etherscan.io/''
      else if network = 5 then ''https://api-goerli.etherscan.io/'' else ''https://api.etherscan.io/'')"

definition buildEtherscanApiQuery :: "process_env \<Rightarrow> int \<Rightarrow> string \<Rightarrow> string \<Rightarrow> string \<Rightarrow> string" where
  "buildEtherscanApiQuery env chain a module action =
     getApiBaseURL chain @ ''api?module='' @ module @ ''&action='' @ action @ ''&address='' @ a @ ''&apikey=''
       @ (case env ''REACT_APP_ETHERSCAN_API_KEY'' of Some k \<Rightarrow> k | None \<Rightarrow> '''')"

section \<open>utils/addressAndENSDisplayUtils.ts\<close>

text \<open>\<open>substr\<close>: a negative start counts from the end, or from the start where the text is too short.\<close>

definition substr :: "string \<Rightarrow> int \<Rightarrow> nat \<Rightarrow> string" where
  "substr s start n =
     (let from = (if start < 0 then max 0 (int (length s) + start) else start) in take n (drop (nat from) s))"

definition veryShortENS :: "string \<Rightarrow> string" where
  "veryShortENS ens = substr ens 0 1 @ ''...'' @ substr ens (int (length ens) - 3) 3"

definition veryShortAddress :: "string \<Rightarrow> string" where
  "veryShortAddress a = substr a 0 3 @ ''...'' @ substr a (int (length a) - 1) 1"

definition shortENS :: "int \<Rightarrow> string \<Rightarrow> string" where
  "shortENS innerWidth ens =
     (if length ens < 15 \<or> innerWidth > 480 then ens
      else substr ens 0 4 @ ''...'' @ substr ens (int (length ens) - 8) 8)"

definition useShortAddress :: "string \<Rightarrow> string" where
  "useShortAddress a = (if a = [] then [] else substr a 0 4 @ ''...'' @ substr a 38 4)"

text \<open>What is shown for an address with a looked-up name (empty when there is none) and a blocklist.\<close>

definition ShortAddress :: "(string \<Rightarrow> bool) \<Rightarrow> string \<Rightarrow> string option \<Rightarrow> string \<Rightarrow> string" where
  "ShortAddress blocked name contract a =
     (let ens = (if name \<noteq> [] then name else case contract of Some c \<Rightarrow> c | None \<Rightarrow> [])
      in if ens \<noteq> [] \<and> \<not> blocked ens then ens else useShortAddress a)"

definition EnsOrLongAddress :: "(string \<Rightarrow> bool) \<Rightarrow> string \<Rightarrow> string \<Rightarrow> string" where
  "EnsOrLongAddress blocked name a = (if name \<noteq> [] \<and> \<not> blocked name then name else a)"

definition bid_row_name :: "(string \<Rightarrow> bool) \<Rightarrow> int \<Rightarrow> string \<Rightarrow> string \<Rightarrow> string" where
  "bid_row_name blocked innerWidth name sender =
     (if name \<noteq> [] \<and> \<not> blocked name then shortENS innerWidth name else useShortAddress sender)"

text \<open>The blocklist of a language: the profanity filter, then the regular expressions of the language.\<close>

definition containsBlockedText :: "(string \<Rightarrow> bool) \<Rightarrow> (string \<Rightarrow> string \<Rightarrow> bool) \<Rightarrow> (string \<Rightarrow> string list option)
    \<Rightarrow> string \<Rightarrow> string \<Rightarrow> bool" where
  "containsBlockedText isProfane matches moderationRegexes text language =
     (case moderationRegexes language of
        None \<Rightarrow> False
      | Some regexes \<Rightarrow> isProfane text \<or> list_ex (matches text) regexes)"

section \<open>utils/lookupNNSOrENS.ts\<close>

text \<open>\<open>hexDataSlice\<close> on bytes, and \<open>BigNumber.from(...).toNumber()\<close> with the errors it throws.\<close>

definition hexDataSlice :: "nat list \<Rightarrow> nat \<Rightarrow> nat \<Rightarrow> nat list" where
  "hexDataSlice bytes offset endOffset = take (endOffset - offset) (drop offset bytes)"

definition bytes_value :: "nat list \<Rightarrow> nat" where
  "bytes_value = foldl (\<lambda>n b. 256 * n + b) 0"

definition bytes_number :: "nat list \<Rightarrow> nat option" where
  "bytes_number bytes = (if bytes = [] \<or> 2 ^ 53 \<le> bytes_value bytes then None else Some (bytes_value bytes))"

definition lookup_call_data :: "string \<Rightarrow> string" where
  "lookup_call_data a = ''0x55ea6c47000000000000000000000000'' @ drop 2 a"

text \<open>The whole function: the node's answer to a call (none when it fails), and UTF-8 decoding (none when invalid).\<close>

definition lookupNNSOrENS :: "(nat list \<Rightarrow> string option) \<Rightarrow> (string \<Rightarrow> string \<Rightarrow> nat list option) \<Rightarrow> string \<Rightarrow> string option" where
  "lookupNNSOrENS toUtf8String call a =
     (case call ''0x5982ce3554b18a5cf02169049e81ec43bfb73961'' (lookup_call_data a) of
        None \<Rightarrow> None
      | Some res \<Rightarrow>
          (case bytes_number (hexDataSlice res 0 32) of
             None \<Rightarrow> None
           | Some offset \<Rightarrow>
               (case bytes_number (hexDataSlice res offset (offset + 32)) of
                  None \<Rightarrow> None
                | Some len \<Rightarrow>
                    (case toUtf8String (hexDataSlice res (offset + 32) (offset + 32 + len)) of
                       Some (c # cs) \<Rightarrow> Some (c # cs)
                     | _ \<Rightarrow> None))))"

subsection \<open>The answer is an ABI-encoded string\<close>

text \<open>A number as big-endian bytes, and a string as a contract returns it: its offset 32, its length, its bytes, padding.\<close>

primrec be_bytes :: "nat \<Rightarrow> nat \<Rightarrow> nat list" where
  "be_bytes 0 n = []"
| "be_bytes (Suc k) n = be_bytes k (n div 256) @ [n mod 256]"

definition abi_string :: "nat list \<Rightarrow> nat \<Rightarrow> nat list" where
  "abi_string bytes pad = be_bytes 32 32 @ be_bytes 32 (length bytes) @ bytes @ replicate pad 0"

lemma length_be_bytes [simp]: "length (be_bytes k n) = k"
  by (induction k arbitrary: n) simp_all

lemma bytes_value_be_bytes: "n < 256 ^ k \<Longrightarrow> bytes_value (be_bytes k n) = n"
proof (induction k arbitrary: n)
  case (Suc k)
  then have "n div 256 < 256 ^ k" by (simp add: less_mult_imp_div_less mult.commute)
  then show ?case using Suc.IH[of "n div 256"] by (simp add: bytes_value_def)
qed (simp add: bytes_value_def)

lemma bytes_number_word: "n < 2 ^ 53 \<Longrightarrow> bytes_number (be_bytes 32 n) = Some n"
proof -
  assume n: "n < 2 ^ 53"
  then have "n < 256 ^ 32" by simp
  then have "bytes_value (be_bytes 32 n) = n" by (rule bytes_value_be_bytes)
  moreover have "be_bytes 32 n \<noteq> []" using length_be_bytes[of 32 n] by (metis list.size(3) zero_neq_numeral)
  ultimately show ?thesis using n by (simp add: bytes_number_def)
qed

lemma slices_of_abi_string:
  "hexDataSlice (abi_string bytes pad) 0 32 = be_bytes 32 32"
  "hexDataSlice (abi_string bytes pad) 32 64 = be_bytes 32 (length bytes)"
  "hexDataSlice (abi_string bytes pad) 64 (64 + length bytes) = bytes"
  by (simp_all add: hexDataSlice_def abi_string_def)

text \<open>
  C33. When the resolver returns a name as an ABI-encoded string, whatever its padding, the app reads exactly that name.
\<close>

theorem lookup_reads_abi_string:
  assumes "call ''0x5982ce3554b18a5cf02169049e81ec43bfb73961'' (lookup_call_data a) = Some (abi_string bytes pad)"
    and "length bytes < 2 ^ 53" and "toUtf8String bytes = Some name" and "name \<noteq> []"
  shows "lookupNNSOrENS toUtf8String call a = Some name"
proof -
  have "bytes_number (be_bytes 32 32) = Some 32" by (rule bytes_number_word) simp
  moreover have "bytes_number (be_bytes 32 (length bytes)) = Some (length bytes)"
    using assms(2) by (rule bytes_number_word)
  ultimately show ?thesis
    using assms by (cases name) (simp_all add: lookupNNSOrENS_def slices_of_abi_string)
qed

definition ascii_text :: "nat list \<Rightarrow> string option" where
  "ascii_text bytes = (if list_all (\<lambda>b. b < 128) bytes then Some (map char_of bytes) else None)"

theorem lookup_reads_abi_string_witness:
  "lookupNNSOrENS ascii_text (\<lambda>to data. if data = ''0x55ea6c47000000000000000000000000ab'' then Some (abi_string [97, 46, 101] 29) else None) ''0xab''
   = Some ''a.e''"
proof (rule lookup_reads_abi_string[where bytes = "[97, 46, 101]" and pad = 29])
  show "ascii_text [97, 46, 101] = Some ''a.e''" by code_simp
  show "(if lookup_call_data ''0xab'' = ''0x55ea6c47000000000000000000000000ab'' then Some (abi_string [97, 46, 101] 29) else None)
    = Some (abi_string [97, 46, 101] 29)"
    by (simp add: lookup_call_data_def)
qed simp_all

section \<open>utils/ensLookup.ts and the prefetch of VoteCard\<close>

text \<open>
  The browser: the time, the storage of names with the time they expire, the hook of one component (its address, what
  it shows, how often it was mounted), and the lookups under way, of a mount or of a prefetch.
\<close>

datatype lookup = HookLookup nat string | PrefetchLookup string

record Browser =
  br_now :: int
  br_storage :: "string \<rightharpoonup> string \<times> int"
  br_address :: string
  br_ens :: string
  br_set_at :: int
  br_mount :: nat
  br_lookups :: "lookup list"

definition ensCacheKey :: "int \<Rightarrow> string \<Rightarrow> string" where
  "ensCacheKey chain a = cacheKey ens_bucket [int_to_dec chain, a]"

text \<open>\<open>parseInt(expires) > Date.now() / 1000\<close> on the seconds that were stored.\<close>

definition unexpired :: "int \<Rightarrow> int \<Rightarrow> bool" where
  "unexpired expires now \<longleftrightarrow> now < expires div 1000 * 1000"

definition store_name :: "int \<Rightarrow> string \<Rightarrow> string \<Rightarrow> Browser \<Rightarrow> Browser" where
  "store_name chain a name b = b\<lparr>br_storage := (br_storage b)(ensCacheKey chain a \<mapsto> (name, br_now b + 30 * 60 * 1000))\<rparr>"

definition setEns :: "string \<Rightarrow> Browser \<Rightarrow> Browser" where
  "setEns name b = b\<lparr>br_ens := name, br_set_at := br_now b\<rparr>"

text \<open>The hook with a new address: the cleanup of the effect before, then the effect with a node.\<close>

definition mount_hook :: "int \<Rightarrow> string \<Rightarrow> Browser \<Rightarrow> Browser" where
  "mount_hook chain a b0 =
     (let b = (setEns [] b0)\<lparr>br_address := a, br_mount := Suc (br_mount b0)\<rparr> in
      if a = [] then b
      else let key = ensCacheKey chain a;
               b1 = (case br_storage b key of
                       None \<Rightarrow> b
                     | Some (name, expires) \<Rightarrow>
                         if unexpired expires (br_now b) then setEns name b
                         else b\<lparr>br_storage := (br_storage b)(key := None)\<rparr>)
           in if br_storage b1 key = None then b1\<lparr>br_lookups := br_lookups b1 @ [HookLookup (br_mount b1) a]\<rparr> else b1)"

definition prefetch :: "int \<Rightarrow> string \<Rightarrow> Browser \<Rightarrow> Browser" where
  "prefetch chain a b =
     (if br_storage b (ensCacheKey chain a) \<noteq> None then b else b\<lparr>br_lookups := br_lookups b @ [PrefetchLookup a]\<rparr>)"

definition prefetch_all :: "int \<Rightarrow> string list \<Rightarrow> Browser \<Rightarrow> Browser" where
  "prefetch_all chain delegates b = foldl (\<lambda>s a. prefetch chain a s) b delegates"

fun lookup_answer :: "int \<Rightarrow> lookup \<Rightarrow> string option \<Rightarrow> Browser \<Rightarrow> Browser" where
  "lookup_answer chain (HookLookup m a) name b =
     (case name of
        None \<Rightarrow> b
      | Some n \<Rightarrow> if br_mount b = m then setEns n (store_name chain a n b) else b)"
| "lookup_answer chain (PrefetchLookup a) name b =
     (case name of None \<Rightarrow> b | Some n \<Rightarrow> store_name chain a n b)"

text \<open>Names change over time: an answer is what the resolver says when it arrives.\<close>

inductive browser_step :: "int \<Rightarrow> (int \<Rightarrow> string \<Rightarrow> string option) \<Rightarrow> Browser \<Rightarrow> Browser \<Rightarrow> bool"
  for chain resolver where
  passes: "br_now b \<le> t \<Longrightarrow> browser_step chain resolver b (b\<lparr>br_now := t\<rparr>)"
| mounts: "browser_step chain resolver b (mount_hook chain a b)"
| prefetches: "browser_step chain resolver b (prefetch_all chain delegates b)"
| answered: "l \<in> set (br_lookups b)
    \<Longrightarrow> name = resolver (br_now b) (case l of HookLookup m a \<Rightarrow> a | PrefetchLookup a \<Rightarrow> a)
    \<Longrightarrow> browser_step chain resolver b (lookup_answer chain l name (b\<lparr>br_lookups := remove1 l (br_lookups b)\<rparr>))"
| failed: "browser_step chain resolver b (b\<lparr>br_lookups := remove1 l (br_lookups b)\<rparr>)"

inductive browser_reach :: "int \<Rightarrow> (int \<Rightarrow> string \<Rightarrow> string option) \<Rightarrow> Browser \<Rightarrow> bool"
  for chain resolver where
  opened: "browser_reach chain resolver
     \<lparr>br_now = t, br_storage = Map.empty, br_address = [], br_ens = [], br_set_at = t, br_mount = 0, br_lookups = []\<rparr>"
| step: "browser_reach chain resolver b \<Longrightarrow> browser_step chain resolver b b' \<Longrightarrow> browser_reach chain resolver b'"

subsection \<open>A shown name is the address's own, and half an hour old at most\<close>

lemma to_lower_append: "to_lower (xs @ ys) = to_lower xs @ to_lower ys"
  by (simp add: to_lower_def)

lemma to_lower_Cons: "to_lower (c # cs) = char_lower c # to_lower cs"
  by (simp add: to_lower_def)

lemma ensCacheKey_eq: "ensCacheKey chain a = ensCacheKey chain b \<longleftrightarrow> to_lower a = to_lower b"
  by (simp add: ensCacheKey_def cacheKey_def ens_bucket_def to_lower_append to_lower_Cons)

definition names_one_address :: "(int \<Rightarrow> string \<Rightarrow> string option) \<Rightarrow> bool" where
  "names_one_address resolver \<longleftrightarrow> (\<forall>t a b. to_lower a = to_lower b \<longrightarrow> resolver t a = resolver t b)"

definition storage_ok :: "int \<Rightarrow> (int \<Rightarrow> string \<Rightarrow> string option) \<Rightarrow> Browser \<Rightarrow> bool" where
  "storage_ok chain resolver b \<longleftrightarrow>
     (\<forall>key name expires. br_storage b key = Some (name, expires) \<longrightarrow>
        expires - 1800000 \<le> br_now b \<and> (\<exists>a. key = ensCacheKey chain a \<and> resolver (expires - 1800000) a = Some name))"

definition shown_ok :: "(int \<Rightarrow> string \<Rightarrow> string option) \<Rightarrow> Browser \<Rightarrow> bool" where
  "shown_ok resolver b \<longleftrightarrow> br_ens b = [] \<or>
     (\<exists>t. resolver t (br_address b) = Some (br_ens b) \<and> t \<le> br_set_at b \<and> br_set_at b < t + 1800000)"

definition lookups_ok :: "Browser \<Rightarrow> bool" where
  "lookups_ok b \<longleftrightarrow>
     (\<forall>m a. HookLookup m a \<in> set (br_lookups b) \<longrightarrow> m \<le> br_mount b \<and> (m = br_mount b \<longrightarrow> a = br_address b))"

lemma storage_ok_name:
  assumes "storage_ok chain resolver b" and "names_one_address resolver"
    and "br_storage b (ensCacheKey chain a) = Some (name, expires)"
  shows "resolver (expires - 1800000) a = Some name" and "expires - 1800000 \<le> br_now b"
proof -
  obtain c where "ensCacheKey chain a = ensCacheKey chain c" "resolver (expires - 1800000) c = Some name"
    using assms(1,3) unfolding storage_ok_def by blast
  then show "resolver (expires - 1800000) a = Some name"
    using assms(2) unfolding names_one_address_def ensCacheKey_eq by metis
  show "expires - 1800000 \<le> br_now b" using assms(1,3) unfolding storage_ok_def by blast
qed

lemma storage_ok_store:
  assumes "storage_ok chain resolver b" and "resolver (br_now b) a = Some name"
  shows "storage_ok chain resolver (store_name chain a name b)"
  using assms unfolding storage_ok_def store_name_def by (auto split: if_splits)

lemma unexpired_after: "unexpired e now \<Longrightarrow> now < e"
  by (auto simp: unexpired_def)

lemma mount_hook_mount:
  "br_mount (mount_hook chain a b) = Suc (br_mount b)" "br_address (mount_hook chain a b) = a"
  by (auto simp: mount_hook_def setEns_def Let_def split: option.splits)

lemma mount_hook_lookups:
  "l \<in> set (br_lookups (mount_hook chain a b)) \<Longrightarrow> l \<in> set (br_lookups b) \<or> l = HookLookup (Suc (br_mount b)) a"
  by (auto simp: mount_hook_def setEns_def Let_def split: option.splits if_splits)

lemma lookups_ok_mounted:
  "lookups_ok b \<Longrightarrow> HookLookup m a \<in> set (br_lookups b) \<Longrightarrow> m \<le> Suc (br_mount b) \<and> m \<noteq> Suc (br_mount b)"
  by (fastforce simp: lookups_ok_def)

lemma mount_hook_ok:
  assumes st: "storage_ok chain resolver b" and lk: "lookups_ok b" and one: "names_one_address resolver"
  shows "storage_ok chain resolver (mount_hook chain a b)"
    and "shown_ok resolver (mount_hook chain a b)"
    and "lookups_ok (mount_hook chain a b)"
proof -
  show "storage_ok chain resolver (mount_hook chain a b)"
    using st by (auto simp: storage_ok_def mount_hook_def setEns_def Let_def split: option.splits)
  show "lookups_ok (mount_hook chain a b)"
    using lookups_ok_mounted[OF lk] mount_hook_lookups[of _ chain a b]
    unfolding lookups_ok_def mount_hook_mount by fastforce
  show "shown_ok resolver (mount_hook chain a b)"
  proof (cases "br_storage b (ensCacheKey chain a)")
    case None
    then show ?thesis by (simp add: shown_ok_def mount_hook_def setEns_def Let_def)
  next
    case (Some ne)
    obtain n e where ne: "ne = (n, e)" by fastforce
    have r: "resolver (e - 1800000) a = Some n" "e - 1800000 \<le> br_now b"
      using storage_ok_name[OF st one] Some ne by auto
    then show ?thesis
      using Some ne unexpired_after[of e "br_now b"]
      by (auto simp: shown_ok_def mount_hook_def setEns_def Let_def intro!: exI[of _ "e - 1800000"])
  qed
qed

lemma prefetch_all_same:
  "br_storage (prefetch_all chain ds b) = br_storage b" "br_now (prefetch_all chain ds b) = br_now b"
  "br_ens (prefetch_all chain ds b) = br_ens b" "br_address (prefetch_all chain ds b) = br_address b"
  "br_set_at (prefetch_all chain ds b) = br_set_at b" "br_mount (prefetch_all chain ds b) = br_mount b"
  "HookLookup m a \<in> set (br_lookups (prefetch_all chain ds b)) \<longleftrightarrow> HookLookup m a \<in> set (br_lookups b)"
  by (induction ds arbitrary: b) (simp_all add: prefetch_all_def prefetch_def)

lemma time_passes_ok:
  assumes "storage_ok chain resolver b" "shown_ok resolver b" "lookups_ok b" and "br_now b \<le> t"
  shows "storage_ok chain resolver (b\<lparr>br_now := t\<rparr>) \<and> shown_ok resolver (b\<lparr>br_now := t\<rparr>) \<and> lookups_ok (b\<lparr>br_now := t\<rparr>)"
  using assms order_trans[OF _ assms(4)] by (simp add: storage_ok_def shown_ok_def lookups_ok_def)

lemma fewer_lookups_ok:
  assumes "storage_ok chain resolver b" "shown_ok resolver b" "lookups_ok b"
  shows "storage_ok chain resolver (b\<lparr>br_lookups := remove1 l (br_lookups b)\<rparr>)
    \<and> shown_ok resolver (b\<lparr>br_lookups := remove1 l (br_lookups b)\<rparr>) \<and> lookups_ok (b\<lparr>br_lookups := remove1 l (br_lookups b)\<rparr>)"
  using assms set_remove1_subset[of l "br_lookups b"] by (auto simp: storage_ok_def shown_ok_def lookups_ok_def)

lemma lookup_answer_ok:
  assumes st: "storage_ok chain resolver b" and sh: "shown_ok resolver b" and lk: "lookups_ok b"
    and l: "l \<in> set (br_lookups b)"
    and name: "name = resolver (br_now b) (case l of HookLookup m a \<Rightarrow> a | PrefetchLookup a \<Rightarrow> a)"
  defines "b' \<equiv> lookup_answer chain l name (b\<lparr>br_lookups := remove1 l (br_lookups b)\<rparr>)"
  shows "storage_ok chain resolver b'" and "shown_ok resolver b'" and "lookups_ok b'"
proof -
  have r: "lookups_ok (b\<lparr>br_lookups := remove1 l (br_lookups b)\<rparr>)"
    using fewer_lookups_ok[OF st sh lk] by blast
  show "storage_ok chain resolver b'"
    using st name
    by (cases l) (auto simp: b'_def store_name_def setEns_def storage_ok_def split: option.splits)
  show "lookups_ok b'"
    using r by (cases l) (auto simp: b'_def store_name_def setEns_def lookups_ok_def split: option.splits)
  show "shown_ok resolver b'"
  proof (cases "\<exists>m a n. l = HookLookup m a \<and> name = Some n \<and> br_mount b = m")
    case True
    then obtain m a n where h: "l = HookLookup m a" "name = Some n" "br_mount b = m" by blast
    then have "a = br_address b" using lk l by (auto simp: lookups_ok_def)
    then show ?thesis using h name by (auto simp: b'_def shown_ok_def setEns_def store_name_def)
  next
    case False
    then show ?thesis
      using sh by (cases l; cases name) (auto simp: b'_def shown_ok_def store_name_def)
  qed
qed

lemma browser_step_ok:
  assumes "browser_step chain resolver b b'" and "names_one_address resolver"
    and "storage_ok chain resolver b" "shown_ok resolver b" "lookups_ok b"
  shows "storage_ok chain resolver b' \<and> shown_ok resolver b' \<and> lookups_ok b'"
  using assms
proof (cases rule: browser_step.cases)
  case (passes t)
  then show ?thesis using assms(3-5) time_passes_ok by simp
next
  case (mounts a)
  then show ?thesis using mount_hook_ok assms by blast
next
  case (prefetches ds)
  then show ?thesis using assms(3-5) by (simp add: storage_ok_def shown_ok_def lookups_ok_def prefetch_all_same)
next
  case (answered l name)
  then show ?thesis using lookup_answer_ok[OF assms(3-5)] by simp
next
  case (failed l)
  then show ?thesis using assms(3-5) fewer_lookups_ok by simp
qed

lemma browser_reach_ok:
  assumes "browser_reach chain resolver b" and "names_one_address resolver"
  shows "storage_ok chain resolver b \<and> shown_ok resolver b \<and> lookups_ok b"
  using assms(1)
proof induction
  case (opened t)
  show ?case by (simp add: storage_ok_def shown_ok_def lookups_ok_def)
next
  case (step b b')
  then show ?case using browser_step_ok assms(2) by blast
qed

text \<open>
  C32. Over any run of mounts, prefetches, late and failed answers, a name that is shown belongs to the address shown
  now: the resolver gave it for that address less than half an hour before it was put on the screen.
\<close>

theorem shown_name_is_fresh:
  assumes "browser_reach chain resolver b" and "names_one_address resolver" and "br_ens b \<noteq> []"
  shows "\<exists>t. resolver t (br_address b) = Some (br_ens b) \<and> t \<le> br_set_at b \<and> br_set_at b < t + 30 * 60 * 1000"
  using browser_reach_ok[OF assms(1,2)] assms(3) by (simp add: shown_ok_def)

text \<open>A name that changes with time, looked up and answered at second 5.\<close>

definition changing_resolver :: "int \<Rightarrow> string \<Rightarrow> string option" where
  "changing_resolver t a = (if to_lower a = ''0xab'' then Some (if t < 9000 then ''a.eth'' else ''b.eth'') else None)"

definition sample_browser :: Browser where
  "sample_browser = lookup_answer 1 (HookLookup 1 ''0xAB'') (Some ''a.eth'')
     (\<lparr>br_now = 5000, br_storage = Map.empty, br_address = ''0xAB'', br_ens = [], br_set_at = 5000, br_mount = 1, br_lookups = []\<rparr>)"

lemma sample_browser_reach: "browser_reach 1 changing_resolver sample_browser"
proof -
  let ?b0 = "\<lparr>br_now = 5000, br_storage = Map.empty, br_address = [], br_ens = [], br_set_at = 5000, br_mount = 0, br_lookups = []\<rparr> :: Browser"
  have "browser_reach 1 changing_resolver (mount_hook 1 ''0xAB'' ?b0)"
    by (rule browser_reach.step[OF browser_reach.opened browser_step.mounts])
  moreover have m: "mount_hook 1 ''0xAB'' ?b0 = \<lparr>br_now = 5000, br_storage = Map.empty, br_address = ''0xAB'', br_ens = [], br_set_at = 5000,
      br_mount = 1, br_lookups = [HookLookup 1 ''0xAB'']\<rparr>"
    by (simp add: mount_hook_def setEns_def Let_def)
  ultimately have r: "browser_reach 1 changing_resolver \<lparr>br_now = 5000, br_storage = Map.empty, br_address = ''0xAB'', br_ens = [],
      br_set_at = 5000, br_mount = 1, br_lookups = [HookLookup 1 ''0xAB'']\<rparr>" (is "browser_reach _ _ ?b1")
    by simp
  have n: "changing_resolver 5000 ''0xAB'' = Some ''a.eth''" by code_simp
  have "browser_step 1 changing_resolver ?b1
      (lookup_answer 1 (HookLookup 1 ''0xAB'') (Some ''a.eth'') (?b1\<lparr>br_lookups := remove1 (HookLookup 1 ''0xAB'') (br_lookups ?b1)\<rparr>))"
    by (rule browser_step.answered) (simp_all add: n)
  moreover have "?b1\<lparr>br_lookups := remove1 (HookLookup 1 ''0xAB'') (br_lookups ?b1)\<rparr>
      = \<lparr>br_now = 5000, br_storage = Map.empty, br_address = ''0xAB'', br_ens = [], br_set_at = 5000, br_mount = 1, br_lookups = []\<rparr>"
    by simp
  ultimately show ?thesis
    unfolding sample_browser_def by (metis browser_reach.step[OF r])
qed

lemma changing_resolver_one: "names_one_address changing_resolver"
  by (simp add: names_one_address_def changing_resolver_def)

lemma sample_browser_shows:
  "br_address sample_browser = ''0xAB''" "br_ens sample_browser = ''a.eth''" "br_set_at sample_browser = 5000"
  by (simp_all add: sample_browser_def setEns_def store_name_def)

theorem shown_name_is_fresh_witness:
  "\<exists>t. changing_resolver t ''0xAB'' = Some ''a.eth'' \<and> t \<le> 5000 \<and> 5000 < t + 30 * 60 * 1000"
  using shown_name_is_fresh[OF sample_browser_reach changing_resolver_one] by (simp add: sample_browser_shows)

text \<open>An expired entry keeps the prefetch from looking the name up again; only the hook removes it.\<close>

lemma prefetch_keeps_expired:
  "br_storage b (ensCacheKey chain a) = Some (name, expires) \<Longrightarrow> \<not> unexpired expires (br_now b) \<Longrightarrow> prefetch chain a b = b"
  by (simp add: prefetch_def)

text \<open>A short address keeps the first four and the last four characters of an address of 42.\<close>

lemma useShortAddress_form:
  assumes "length a = 42"
  shows "useShortAddress a = take 4 a @ ''...'' @ drop 38 a"
  using assms by (auto simp: useShortAddress_def substr_def)

lemma shortENS_length:
  assumes "innerWidth \<le> 480" and "15 \<le> length ens"
  shows "length (shortENS innerWidth ens) = 15" and "length (shortENS innerWidth ens) \<le> length ens"
  using assms by (simp_all add: shortENS_def substr_def nat_diff_distrib)

text \<open>The keys of the two caches differ.\<close>

lemma cache_buckets_differ: "cacheKey seed_bucket ps \<noteq> cacheKey ens_bucket qs"
  by (simp add: cacheKey_def seed_bucket_def ens_bucket_def to_lower_Cons join_Cons) code_simp

end
