(* ===== verification/Web_Explore.thy ===== *)
theory Web_Explore
  imports Web_Activity
begin

text \<open>
  The explore page of the web app (\<open>pages/Explore\<close>, \<open>components/ExploreGrid\<close> with its item, navigation and detail,
  \<open>hooks/useKeyPress\<close>): loading the list of Nouns in chunks from a picture service, choosing one by mouse and keys,
  and the detail with its traits. The picture service is a parameter: the ids and pictures of a range, or \<open>None\<close> when
  the request fails.
\<close>

section \<open>Loading the list\<close>

text \<open>A Noun of the list; a placeholder has no id. Lists are newest first.\<close>

record ExploreNoun =
  en_id :: "int option"
  en_imgSrc :: "string option"

type_synonym noun_pics = "int \<Rightarrow> int \<Rightarrow> (int \<times> string) list option"

definition placeholderNoun :: ExploreNoun where
  "placeholderNoun = \<lparr>en_id = None, en_imgSrc = None\<rparr>"

definition placeholders :: "ExploreNoun list" where
  "placeholders = replicate 100 placeholderNoun"

definition initial_count :: "int \<Rightarrow> int" where
  "initial_count nounCount = nounCount mod 10 + 1"

text \<open>\<open>%\<close> and \<open>mod\<close> agree since the count is not negative.\<close>

definition getInitialNouns :: "int \<Rightarrow> int \<Rightarrow> ExploreNoun list" where
  "getInitialNouns nounCount individualCount =
     rev (map (\<lambda>i. let n = int i + (nounCount - individualCount) in
         \<lparr>en_id = Some n, en_imgSrc = Some (''https://noun.pics/'' @ int_to_dec n @ ''.svg'')\<rparr>) [0..<nat individualCount])"

text \<open>\<open>slice(0, n)\<close>, where a negative end counts from the end of the list.\<close>

definition slice_end :: "int \<Rightarrow> 'a list \<Rightarrow> 'a list" where
  "slice_end n xs = take (nat (if n < 0 then max 0 (int (length xs) + n) else n)) xs"

text \<open>
  One request and its update of the list. \<open>known\<close> is the number of individual Nouns in the state as the effect captured
  it. An index behind the list reads \<open>undefined\<close>, whose \<open>id\<close> throws while React renders: \<open>None\<close>.
\<close>

definition fetchNouns :: "noun_pics \<Rightarrow> int \<Rightarrow> nat \<Rightarrow> int \<Rightarrow> int \<Rightarrow> ExploreNoun list \<Rightarrow> ExploreNoun list option" where
  "fetchNouns pics nounCount known start fin arr =
     (case pics start fin of
        None \<Rightarrow> Some arr
      | Some json \<Rightarrow>
          (let rangeNouns = map (\<lambda>(i, svg). \<lparr>en_id = Some i, en_imgSrc = Some svg\<rparr>) (rev json) in
           if length arr \<le> known + 1 then None
           else if en_id (arr ! (known + 1)) = None then Some (take known arr @ rangeNouns)
           else Some (slice_end (nounCount - 1 - fin) arr @ rangeNouns)))"

function rangeCalls :: "noun_pics \<Rightarrow> int \<Rightarrow> nat \<Rightarrow> int \<Rightarrow> ExploreNoun list \<Rightarrow> ExploreNoun list option" where
  "rangeCalls pics nounCount known i arr =
     (if i < 0 then Some arr
      else case fetchNouns pics nounCount known (if i - 100 < 0 then 0 else i - 100) (i - 1) arr of
          None \<Rightarrow> None
        | Some arr' \<Rightarrow> rangeCalls pics nounCount known (i - 100) arr')"
  by pat_completeness auto

termination
  by (relation "measure (\<lambda>(pics, nounCount, known, i, arr). nat (i + 100))") auto

declare rangeCalls.simps [simp del]

text \<open>The effect of the grid once the count is known, up to its last request.\<close>

definition load_grid :: "noun_pics \<Rightarrow> int \<Rightarrow> nat \<Rightarrow> ExploreNoun list option" where
  "load_grid pics nounCount known =
     (if nounCount < 0 then Some placeholders
      else let nouns = getInitialNouns nounCount (initial_count nounCount)
           in rangeCalls pics nounCount known (nounCount - int (length nouns)) (nouns @ placeholders))"

text \<open>The documented answers: the Nouns of a range in ascending order, none for a range that ends before it starts.\<close>

definition documented_pics :: "(int \<Rightarrow> string) \<Rightarrow> noun_pics \<Rightarrow> bool" where
  "documented_pics svg pics \<longleftrightarrow>
     (\<forall>s e. 0 \<le> s \<longrightarrow> s \<le> e \<longrightarrow> pics s e = Some (map (\<lambda>i. (i, svg i)) [s..e]))
     \<and> (pics 0 (- 1) = None \<or> pics 0 (- 1) = Some [])"

definition loaded_ids :: "ExploreNoun list \<Rightarrow> int option list" where
  "loaded_ids = map en_id"

definition down_to :: "int \<Rightarrow> int \<Rightarrow> int list" where
  "down_to hi lo = rev [lo..hi]"

lemma length_down_to [simp]: "length (down_to hi lo) = nat (hi - lo + 1)"
  by (simp add: down_to_def)

lemma down_to_append:
  assumes "lo \<le> m" and "m \<le> hi + 1"
  shows "down_to hi m @ down_to (m - 1) lo = down_to hi lo"
proof -
  have "[lo..m - 1] @ [m..hi] = [lo..hi]"
  proof (cases "m = lo")
    case False
    then have "[lo..hi] = [lo..m - 1] @ [m - 1 + 1..hi]" using assms by (intro upto_split2) auto
    then show ?thesis by simp
  qed simp
  then show ?thesis unfolding down_to_def rev_append[symmetric] by simp
qed

lemma down_to_empty: "hi < lo \<Longrightarrow> down_to hi lo = []"
  by (simp add: down_to_def)

lemma getInitialNouns_ids:
  assumes "0 \<le> c"
  shows "map en_id (getInitialNouns n c) = map Some (down_to (n - 1) (n - c))"
proof -
  have "map (\<lambda>i. int i + (n - c)) [0..<nat c] = [n - c..n - 1]"
    using assms by (intro nth_equalityI) (simp_all add: nth_upto)
  then have "map Some (map (\<lambda>i. int i + (n - c)) [0..<nat c]) = map Some [n - c..n - 1]" by (rule arg_cong)
  then show ?thesis
    by (simp add: getInitialNouns_def down_to_def Let_def rev_map[symmetric] comp_def)
qed

lemma placeholders_ids: "map en_id placeholders = replicate 100 None"
  by (simp add: placeholders_def placeholderNoun_def)

definition range_nouns :: "(int \<Rightarrow> string) \<Rightarrow> int \<Rightarrow> int \<Rightarrow> ExploreNoun list" where
  "range_nouns svg s e = map (\<lambda>(i, svg). \<lparr>en_id = Some i, en_imgSrc = Some svg\<rparr>) (rev (map (\<lambda>i. (i, svg i)) [s..e]))"

lemma range_nouns_ids: "map en_id (range_nouns svg s e) = map Some (down_to e s)"
  by (simp add: range_nouns_def down_to_def rev_map[symmetric] comp_def)

text \<open>A request that finds a Noun with an id at the tested place keeps the list and appends the range.\<close>

lemma fetch_appends:
  assumes "documented_pics svg pics" and "0 \<le> s" and "s \<le> e" and "1 < length arr" and "en_id (arr ! 1) \<noteq> None" and "e \<le> n - 1"
  shows "fetchNouns pics n 0 s e arr = Some (take (nat (n - 1 - e)) arr @ range_nouns svg s e)"
proof -
  have "pics s e = Some (map (\<lambda>i. (i, svg i)) [s..e])" using assms unfolding documented_pics_def by blast
  then show ?thesis using assms by (auto simp: fetchNouns_def slice_end_def range_nouns_def Let_def)
qed

text \<open>One that finds a placeholder there drops the list.\<close>

lemma fetch_drops:
  assumes "documented_pics svg pics" and "0 \<le> s" and "s \<le> e" and "1 < length arr" and "en_id (arr ! 1) = None"
  shows "fetchNouns pics n 0 s e arr = Some (range_nouns svg s e)"
proof -
  have "pics s e = Some (map (\<lambda>i. (i, svg i)) [s..e])" using assms unfolding documented_pics_def by blast
  then show ?thesis using assms by (auto simp: fetchNouns_def range_nouns_def Let_def)
qed

lemma second_id:
  assumes "map en_id arr = map Some (down_to hi lo) @ rest" and "lo + 1 \<le> hi"
  shows "1 < length arr" and "en_id (arr ! 1) \<noteq> None"
proof -
  have "length arr = nat (hi - lo + 1) + length rest" using arg_cong[OF assms(1), of length] by simp
  then show l: "1 < length arr" using assms(2) by simp
  have "map en_id arr ! 1 = Some (down_to hi lo ! 1)" unfolding assms(1) using assms(2) by (simp add: nth_append)
  then show "en_id (arr ! 1) \<noteq> None" using l by simp
qed

lemma fetch_extends:
  assumes "documented_pics svg pics" and "0 \<le> s" and "s \<le> e" and "e + 2 \<le> hi" and "hi \<le> n - 1"
    and ids: "map en_id arr = map Some (down_to hi (e + 1)) @ rest" and "rest = [] \<or> hi = n - 1"
  shows "\<exists>arr'. fetchNouns pics n 0 s e arr = Some arr' \<and> map en_id arr' = map Some (down_to hi s)"
proof -
  have f: "fetchNouns pics n 0 s e arr = Some (take (nat (n - 1 - e)) arr @ range_nouns svg s e)"
    using second_id[OF ids] assms by (intro fetch_appends) auto
  have "map en_id (take (nat (n - 1 - e)) arr) = take (nat (n - 1 - e)) (map en_id arr)" by (simp add: take_map)
  also have "\<dots> = map Some (down_to hi (e + 1))" unfolding ids using assms(5,7) by auto
  finally have "map en_id (take (nat (n - 1 - e)) arr @ range_nouns svg s e) = map Some (down_to hi (e + 1) @ down_to (e + 1 - 1) s)"
    by (simp add: range_nouns_ids)
  also have "down_to hi (e + 1) @ down_to (e + 1 - 1) s = down_to hi s" using assms by (intro down_to_append) auto
  finally show ?thesis using f by blast
qed

lemma range_calls_rest:
  assumes "documented_pics svg pics" and "hi \<le> n - 1"
  shows "map en_id arr = map Some (down_to hi (max 0 i)) \<Longrightarrow> max 0 i + 1 \<le> hi
    \<Longrightarrow> \<exists>arr'. rangeCalls pics n 0 i arr = Some arr' \<and> map en_id arr' = map Some (down_to hi 0)"
proof (induction i arbitrary: arr rule: measure_induct_rule[where f = "\<lambda>i. nat (i + 100)"])
  case (less i)
  show ?case
  proof (cases "i < 0")
    case True
    then show ?thesis using less(2) by (simp add: rangeCalls.simps)
  next
    case False
    let ?s = "if i - 100 < 0 then 0 else i - 100"
    have "\<exists>arr'. fetchNouns pics n 0 ?s (i - 1) arr = Some arr' \<and> map en_id arr' = map Some (down_to hi (max 0 (i - 100)))"
    proof (cases "i = 0")
      case True
      have l: "length arr = nat (hi + 1)" using arg_cong[OF less(2), of length] True by simp
      have "pics 0 (- 1) = None \<or> pics 0 (- 1) = Some []" using assms(1) unfolding documented_pics_def by blast
      moreover have "1 < length arr" "en_id (arr ! 1) \<noteq> None"
        using second_id[of arr hi 0 "[]"] less(2,3) True by auto
      moreover have "nat (n - 1 - (- 1)) \<ge> length arr" using l assms(2) by simp
      ultimately have "fetchNouns pics n 0 0 (- 1) arr = Some arr"
        using assms(2) less(3) True by (auto simp: fetchNouns_def slice_end_def Let_def)
      then show ?thesis using less(2) True by simp
    next
      case nonzero: False
      have "\<exists>arr'. fetchNouns pics n 0 ?s (i - 1) arr = Some arr' \<and> map en_id arr' = map Some (down_to hi ?s)"
        using False nonzero less(2,3) assms
        by (intro fetch_extends[where rest = "[]"]) (auto simp: max_def)
      then show ?thesis by (simp add: max_def not_less split: if_splits)
    qed
    then obtain arr' where f: "fetchNouns pics n 0 ?s (i - 1) arr = Some arr'"
      and ids: "map en_id arr' = map Some (down_to hi (max 0 (i - 100)))" by blast
    have "\<exists>arr''. rangeCalls pics n 0 (i - 100) arr' = Some arr'' \<and> map en_id arr'' = map Some (down_to hi 0)"
      using False less(3) by (intro less(1) ids) auto
    then show ?thesis using f False by (subst rangeCalls.simps) simp
  qed
qed

lemma first_chunk:
  assumes "documented_pics svg pics" and "10 \<le> n"
  defines "k \<equiv> initial_count n"
  defines "s \<equiv> (if n - k - 100 < 0 then 0 else n - k - 100)"
  shows "\<exists>arr. fetchNouns pics n 0 s (n - k - 1) (getInitialNouns n k @ placeholders) = Some arr
    \<and> map en_id arr = map Some (down_to (if n mod 10 = 0 then n - 2 else n - 1) s)"
proof -
  have k: "1 \<le> k" "k \<le> 10" "k = 1 \<longleftrightarrow> n mod 10 = 0" by (auto simp: k_def initial_count_def)
  have nk: "1 \<le> n - k"
  proof (cases "n = 10")
    case True
    then show ?thesis by (simp add: k_def initial_count_def)
  next
    case False
    then show ?thesis using assms(2) k(2) by simp
  qed
  have s: "0 \<le> s" "s \<le> n - k - 1" using nk by (auto simp: s_def)
  have ids: "map en_id (getInitialNouns n k @ placeholders) = map Some (down_to (n - 1) (n - k - 1 + 1)) @ replicate 100 None"
    using k(1) by (simp add: getInitialNouns_ids placeholders_ids)
  show ?thesis
  proof (cases "n mod 10 = 0")
    case True
    then have k1: "k = 1" using k(3) by simp
    have "length (getInitialNouns n k) = 1" by (simp add: getInitialNouns_def k1)
    then have "(getInitialNouns n k @ placeholders) ! 1 = placeholderNoun"
      by (simp add: nth_append placeholders_def)
    then have "en_id ((getInitialNouns n k @ placeholders) ! 1) = None" by (simp add: placeholderNoun_def)
    moreover have "1 < length (getInitialNouns n k @ placeholders)" by (simp add: placeholders_def)
    ultimately have "fetchNouns pics n 0 s (n - k - 1) (getInitialNouns n k @ placeholders) = Some (range_nouns svg s (n - k - 1))"
      using assms(1) s by (intro fetch_drops)
    moreover have "n - k - 1 = n - 2" using k1 by simp
    ultimately show ?thesis using True by (simp add: range_nouns_ids)
  next
    case False
    then have "2 \<le> k" using k by auto
    then show ?thesis
      using fetch_extends[OF assms(1) s _ _ ids] False by simp
  qed
qed

text \<open>
  From ten Nouns on, with every request answered, the list of the explore page ends up with every Noun once, from
  the newest to Noun 0, whatever the chunks; but when the number of Nouns is a multiple of ten the newest is missing,
  since the test for a list of placeholders looks at the captured, empty list of individual Nouns.
\<close>

lemma explore_list_loaded:
  assumes "documented_pics svg pics" and "10 \<le> n"
  shows "\<exists>l. load_grid pics n 0 = Some l
    \<and> map en_id l = map Some (rev [0..(if n mod 10 = 0 then n - 2 else n - 1)])"
proof -
  let ?k = "initial_count n" and ?hi = "if n mod 10 = 0 then n - 2 else n - 1"
  let ?s = "if n - ?k - 100 < 0 then 0 else n - ?k - 100"
  have k: "1 \<le> ?k" "?k \<le> 10" by (simp_all add: initial_count_def)
  obtain arr where f: "fetchNouns pics n 0 ?s (n - ?k - 1) (getInitialNouns n ?k @ placeholders) = Some arr"
    and ids: "map en_id arr = map Some (down_to ?hi ?s)"
    using first_chunk[OF assms] by blast
  have m: "?s = max 0 (n - ?k - 100)" by simp
  have "\<exists>l. rangeCalls pics n 0 (n - ?k - 100) arr = Some l \<and> map en_id l = map Some (down_to ?hi 0)"
    using assms k ids unfolding m by (intro range_calls_rest[OF assms(1)]) auto
  moreover have "int (length (getInitialNouns n ?k)) = ?k" using k by (simp add: getInitialNouns_def)
  moreover have "\<not> n - ?k < 0" using assms(2) k by simp
  ultimately show ?thesis
    using f assms(2) by (simp add: load_grid_def Let_def rangeCalls.simps[of _ _ _ "n - ?k"] down_to_def)
qed

definition sample_pics :: noun_pics where
  "sample_pics s e = (if s \<le> e then Some (map (\<lambda>i. (i, ''<svg>'')) [s..e]) else None)"

lemma sample_pics_documented: "documented_pics (\<lambda>i. ''<svg>'') sample_pics"
  by (simp add: documented_pics_def sample_pics_def)

text \<open>With fewer than ten Nouns the grid makes up a Noun -1 and never asks for a range.\<close>

lemma few_nouns:
  assumes "1 \<le> n" and "n \<le> 9"
  shows "\<exists>l. load_grid pics n known = Some (l @ placeholders) \<and> map en_id l = map Some (down_to (n - 1) (- 1))"
proof -
  have k: "initial_count n = n + 1" using assms by (simp add: initial_count_def)
  have "length (getInitialNouns n (n + 1)) = nat (n + 1)" by (simp add: getInitialNouns_def)
  then have "load_grid pics n known = Some (getInitialNouns n (n + 1) @ placeholders)"
    using assms by (simp add: load_grid_def k Let_def rangeCalls.simps)
  moreover have "map en_id (getInitialNouns n (n + 1)) = map Some (down_to (n - 1) (- 1))"
    using getInitialNouns_ids[of "n + 1" n] assms by simp
  ultimately show ?thesis by blast
qed

section \<open>Choosing a Noun\<close>

record ExplorePage =
  ex_width :: int
  ex_sidebarVisible :: bool
  ex_selected :: "int option"
  ex_active :: int
  ex_sortOrder :: string
  ex_hoverDisabled :: bool

definition explore_count :: "int option \<Rightarrow> int" where
  "explore_count currentAuctionId = (case currentAuctionId of Some i \<Rightarrow> i + 1 | None \<Rightarrow> - 1)"

definition ex_isMobile :: "ExplorePage \<Rightarrow> bool" where
  "ex_isMobile p \<longleftrightarrow> ex_width p \<le> 991"

definition initial_explore :: "int \<Rightarrow> ExplorePage" where
  "initial_explore innerWidth =
     \<lparr>ex_width = innerWidth, ex_sidebarVisible = (\<not> innerWidth \<le> 991), ex_selected = None, ex_active = - 1, ex_sortOrder = [],
      ex_hoverDisabled = False\<rparr>"

definition pick_noun :: "int \<Rightarrow> ExplorePage \<Rightarrow> ExplorePage" where
  "pick_noun i p = p\<lparr>ex_active := i, ex_selected := Some i\<rparr>"

definition handleNounNavigation :: "string \<Rightarrow> ExplorePage \<Rightarrow> ExplorePage" where
  "handleNounNavigation direction p =
     (if ex_sortOrder p = ''date-ascending'' \<and> direction = ''next'' \<or> ex_sortOrder p = ''date-descending'' \<and> direction = ''prev''
      then pick_noun (ex_active p + 1) p else pick_noun (ex_active p - 1) p)"

text \<open>The test reads the order before the change.\<close>

definition handleSortOrderChange :: "int \<Rightarrow> string \<Rightarrow> ExplorePage \<Rightarrow> ExplorePage" where
  "handleSortOrderChange nounCount orderValue p =
     (let q = p\<lparr>ex_sortOrder := orderValue\<rparr> in
      if ex_isMobile p \<or> \<not> ex_sidebarVisible p then q
      else if ex_sortOrder p = ''date-ascending'' then pick_noun (nounCount - 1) q else pick_noun 0 q)"

definition handleCloseDetail :: "ExplorePage \<Rightarrow> ExplorePage" where
  "handleCloseDetail p = p\<lparr>ex_sidebarVisible := False, ex_active := - 1, ex_selected := None\<rparr>"

definition handleScrollTo :: "ExplorePage \<Rightarrow> ExplorePage" where
  "handleScrollTo p = p\<lparr>ex_hoverDisabled := True\<rparr>"

definition handleFocusNoun :: "int \<Rightarrow> ExplorePage \<Rightarrow> ExplorePage" where
  "handleFocusNoun i p = (pick_noun i p)\<lparr>ex_sidebarVisible := True\<rparr>"

text \<open>The last of three tests that holds wins.\<close>

definition amountToMove :: "int \<Rightarrow> int" where
  "amountToMove width =
     (let a = 10;
          b = (if width \<le> 400 then 3 else a);
          c = (if width \<le> 991 then 5 else b)
      in if width \<le> 1399 then 8 else c)"

record pressed_keys =
  k_prev :: bool
  k_next :: bool
  k_up :: bool
  k_down :: bool
  k_esc :: bool

text \<open>\<open>useKeyPress\<close> for one key.\<close>

definition key_press :: "string \<Rightarrow> bool \<Rightarrow> string \<Rightarrow> bool \<Rightarrow> bool" where
  "key_press targetKey down key keyPressed = (if key = targetKey then down else keyPressed)"

definition move_key :: "int \<Rightarrow> bool \<Rightarrow> int \<Rightarrow> ExplorePage \<Rightarrow> ExplorePage" where
  "move_key nounCount pressed target p = (if pressed \<and> 0 \<le> target \<and> target < nounCount then handleFocusNoun target p else p)"

text \<open>The effect of the keys; every call starts from the same selected Noun.\<close>

definition key_effect :: "int \<Rightarrow> pressed_keys \<Rightarrow> ExplorePage \<Rightarrow> ExplorePage" where
  "key_effect nounCount k p0 =
     (let p = p0\<lparr>ex_hoverDisabled := True\<rparr>; m = amountToMove (ex_width p) in
      case ex_selected p of
        None \<Rightarrow> p
      | Some i \<Rightarrow>
          if i < 0 then p
          else let p1 = (if k_esc k then handleCloseDetail p else p) in
               if ex_sortOrder p = ''date-descending''
               then move_key nounCount (k_down k) (i - m) (move_key nounCount (k_up k) (i + m)
                      (move_key nounCount (k_next k) (i - 1) (move_key nounCount (k_prev k) (i + 1) p1)))
               else move_key nounCount (k_down k) (i + m) (move_key nounCount (k_up k) (i - m)
                      (move_key nounCount (k_next k) (i + 1) (move_key nounCount (k_prev k) (i - 1) p1))))"

definition count_effect :: "int \<Rightarrow> ExplorePage \<Rightarrow> ExplorePage" where
  "count_effect nounCount p = (if 0 \<le> nounCount \<and> \<not> ex_isMobile p then pick_noun (nounCount - 1) p else p)"

definition disablePrev :: "int \<Rightarrow> ExplorePage \<Rightarrow> bool" where
  "disablePrev nounCount p \<longleftrightarrow>
     ex_sortOrder p = ''date-ascending'' \<and> ex_active p = 0
     \<or> ex_sortOrder p = ''date-descending'' \<and> ex_active p = nounCount - 1"

definition disableNext :: "int \<Rightarrow> ExplorePage \<Rightarrow> bool" where
  "disableNext nounCount p \<longleftrightarrow>
     ex_sortOrder p = ''date-ascending'' \<and> ex_active p = nounCount - 1
     \<or> ex_sortOrder p = ''date-descending'' \<and> ex_active p = 0"

definition noun_hover :: "int \<Rightarrow> ExplorePage \<Rightarrow> ExplorePage" where
  "noun_hover i p = (if ex_hoverDisabled p then p else p\<lparr>ex_active := i\<rparr>)"

definition noun_out :: "ExplorePage \<Rightarrow> ExplorePage" where
  "noun_out p = (case ex_selected p of None \<Rightarrow> p | Some i \<Rightarrow> p\<lparr>ex_active := i\<rparr>)"

definition mouse_moves :: "ExplorePage \<Rightarrow> ExplorePage" where
  "mouse_moves p = p\<lparr>ex_hoverDisabled := False\<rparr>"

definition shown_list :: "ExplorePage \<Rightarrow> ExploreNoun list \<Rightarrow> ExploreNoun list" where
  "shown_list p l = (if ex_sortOrder p = ''date-ascending'' then rev l else l)"

text \<open>The Noun given to the detail: \<open>undefined\<close> outside the list.\<close>

definition detail_noun :: "ExplorePage \<Rightarrow> ExploreNoun list \<Rightarrow> ExploreNoun option" where
  "detail_noun p l = (if 0 \<le> ex_active p \<and> ex_active p < int (length l) then Some (rev l ! nat (ex_active p)) else None)"

text \<open>The navigation sets the first order when it mounts.\<close>

definition sort_options :: "string list" where
  "sort_options = [''date-descending'', ''date-ascending'']"

definition opened_explore :: "int \<Rightarrow> int \<Rightarrow> ExplorePage" where
  "opened_explore nounCount innerWidth = count_effect nounCount ((initial_explore innerWidth)\<lparr>ex_sortOrder := hd sort_options\<rparr>)"

section \<open>The detail\<close>

definition capitalizeFirstLetter :: "string \<Rightarrow> string" where
  "capitalizeFirstLetter s = (case s of [] \<Rightarrow> [] | c # cs \<Rightarrow>
     (let n = of_char c in if 97 \<le> n \<and> n \<le> (122::nat) then char_of (n - 32) else c) # cs)"

definition parseTraitName :: "string \<Rightarrow> string" where
  "parseTraitName partName =
     (let rest = (case break_on ''-'' partName of None \<Rightarrow> partName | Some (a, b) \<Rightarrow> b)
      in capitalizeFirstLetter (replaceAll ''-'' '' '' rest))"

fun traitTypeKeys :: "string \<Rightarrow> (string, string) result" where
  "traitTypeKeys s =
     (if s = ''background'' then Inr ''backgrounds''
      else if s = ''body'' then Inr ''bodies''
      else if s = ''accessory'' then Inr ''accessories''
      else if s = ''head'' then Inr ''heads''
      else if s = ''glasses'' then Inr ''glasses''
      else Inl (''Trait key for '' @ s @ '' not found''))"

definition loadingNounTraits :: "(string \<times> string \<times> int) list" where
  "loadingNounTraits =
     [(''head'', ''Skull'', - 1), (''glasses'', ''Processing'', - 1), (''accessory'', ''Loading'', - 1), (''body'', ''Placeholder'', - 1),
      (''background'', ''cool'', - 1)]"

text \<open>Names per layer: backgrounds, then the layers of the art in their order; a name that is missing throws.\<close>

definition trait_name :: "string list list \<Rightarrow> nat \<Rightarrow> int \<Rightarrow> (string, string) result" where
  "trait_name traitNames layer i =
     (if layer < length traitNames \<and> 0 \<le> i \<and> i < int (length (traitNames ! layer))
      then Inr (parseTraitName (traitNames ! layer ! nat i)) else Inl ''Cannot read properties of undefined'')"

definition getOrderedTraits :: "string list list \<Rightarrow> INounSeed option \<Rightarrow> (string, (string \<times> string \<times> int) list) result" where
  "getOrderedTraits images seed =
     (case seed of
        None \<Rightarrow> Inr loadingNounTraits
      | Some sd \<Rightarrow>
          (let traitNames = [''cool'', ''peace''] # images in
           bind_result (trait_name traitNames 3 (in_head sd)) (\<lambda>h.
           bind_result (trait_name traitNames 4 (in_glasses sd)) (\<lambda>g.
           bind_result (trait_name traitNames 2 (in_accessory sd)) (\<lambda>a.
           bind_result (trait_name traitNames 1 (in_body sd)) (\<lambda>b.
           bind_result (trait_name traitNames 0 (in_background sd)) (\<lambda>bg.
             Inr [(''head'', h, in_head sd), (''glasses'', g, in_glasses sd), (''accessory'', a, in_accessory sd),
                  (''body'', b, in_body sd), (''background'', bg, in_background sd)])))))))"

definition detail_background :: "INounSeed option \<Rightarrow> string option" where
  "detail_background seed =
     (case seed of None \<Rightarrow> Some ''#d5d7e1''
      | Some sd \<Rightarrow> if in_background sd = 0 then Some ''#d5d7e1'' else if in_background sd = 1 then Some ''#e1d7d5'' else None)"

definition detail_id :: "ExploreNoun option \<Rightarrow> int option" where
  "detail_id noun =
     (case noun of None \<Rightarrow> None | Some x \<Rightarrow> (case en_id x of None \<Rightarrow> None | Some i \<Rightarrow> if 0 \<le> i then Some i else None))"

definition detail_seed_id :: "ExploreNoun option \<Rightarrow> int" where
  "detail_seed_id noun = (case detail_id noun of Some i \<Rightarrow> i | None \<Rightarrow> 0)"

text \<open>The grid's picture: when it cannot be loaded it is drawn from the seed, for an id that is not 0.\<close>

definition item_fallback :: "int option \<Rightarrow> bool \<Rightarrow> bool" where
  "item_fallback unounId isImageError \<longleftrightarrow> isImageError \<and> unounId \<noteq> None \<and> unounId \<noteq> Some 0"

section \<open>Runs of the page\<close>

inductive explore_step :: "int \<Rightarrow> ExplorePage \<Rightarrow> ExplorePage \<Rightarrow> bool" for n where
  previous: "ex_sidebarVisible p \<Longrightarrow> \<not> disablePrev n p \<Longrightarrow> explore_step n p (handleNounNavigation ''prev'' p)"
| following: "ex_sidebarVisible p \<Longrightarrow> \<not> disableNext n p \<Longrightarrow> explore_step n p (handleNounNavigation ''next'' p)"
| sorted_by: "order \<in> set sort_options \<Longrightarrow> explore_step n p (handleSortOrderChange n order p)"
| closed: "explore_step n p (handleCloseDetail p)"
| focused: "0 \<le> i \<Longrightarrow> i < n \<Longrightarrow> explore_step n p (handleFocusNoun i p)"
| hovered: "0 \<le> i \<Longrightarrow> i < n \<Longrightarrow> explore_step n p (noun_hover i p)"
| left: "explore_step n p (noun_out p)"
| mouse: "explore_step n p (mouse_moves p)"
| keys: "explore_step n p (key_effect n k p)"
| scrolled: "explore_step n p (handleScrollTo p)"
| resized: "explore_step n p (p\<lparr>ex_width := w\<rparr>)"

inductive explore_reach :: "int \<Rightarrow> ExplorePage \<Rightarrow> bool" for n where
  opened: "explore_reach n (opened_explore n w)"
| step: "explore_reach n p \<Longrightarrow> explore_step n p q \<Longrightarrow> explore_reach n q"

definition explore_ok :: "int \<Rightarrow> ExplorePage \<Rightarrow> bool" where
  "explore_ok n p \<longleftrightarrow>
     - 1 \<le> ex_active p \<and> ex_active p < n
     \<and> (case ex_selected p of None \<Rightarrow> True | Some i \<Rightarrow> 0 \<le> i \<and> i < n)
     \<and> (if ex_sidebarVisible p then 0 \<le> ex_active p \<and> ex_selected p \<noteq> None else True)
     \<and> ex_sortOrder p \<in> set sort_options"

lemma explore_ok_pick: "explore_ok n p \<Longrightarrow> 0 \<le> i \<Longrightarrow> i < n \<Longrightarrow> explore_ok n (pick_noun i p)"
  by (simp add: explore_ok_def pick_noun_def)

lemma explore_ok_close: "explore_ok n p \<Longrightarrow> 1 \<le> n \<Longrightarrow> explore_ok n (handleCloseDetail p)"
  by (simp add: explore_ok_def handleCloseDetail_def)

lemma explore_ok_focus: "explore_ok n p \<Longrightarrow> 0 \<le> i \<Longrightarrow> i < n \<Longrightarrow> explore_ok n (handleFocusNoun i p)"
  by (simp add: explore_ok_def handleFocusNoun_def pick_noun_def)

lemma explore_ok_hover_flag: "explore_ok n (p\<lparr>ex_hoverDisabled := h\<rparr>) = explore_ok n p"
  by (simp add: explore_ok_def)

lemma explore_ok_move_key: "explore_ok n p \<Longrightarrow> explore_ok n (move_key n b i p)"
  by (simp add: move_key_def explore_ok_focus)

lemma explore_ok_keys: "explore_ok n p \<Longrightarrow> 1 \<le> n \<Longrightarrow> explore_ok n (key_effect n k p)"
  by (auto simp: key_effect_def Let_def explore_ok_hover_flag
      intro!: explore_ok_move_key explore_ok_close split: option.splits)

lemma explore_ok_navigation:
  assumes "explore_ok n p" and "ex_sidebarVisible p"
  shows "\<not> disablePrev n p \<Longrightarrow> explore_ok n (handleNounNavigation ''prev'' p)"
    and "\<not> disableNext n p \<Longrightarrow> explore_ok n (handleNounNavigation ''next'' p)"
  using assms
  by (auto simp: explore_ok_def handleNounNavigation_def pick_noun_def disablePrev_def disableNext_def sort_options_def
      split: option.splits)

lemma explore_ok_sort:
  assumes "explore_ok n p" and "order \<in> set sort_options" and "1 \<le> n"
  shows "explore_ok n (handleSortOrderChange n order p)"
  using assms by (auto simp: handleSortOrderChange_def explore_ok_def pick_noun_def Let_def split: option.splits)

lemma explore_step_ok:
  assumes "explore_step n p q" and "explore_ok n p" and "1 \<le> n"
  shows "explore_ok n q"
  using assms
proof (cases rule: explore_step.cases)
  case (hovered i)
  then show ?thesis using assms by (auto simp: noun_hover_def explore_ok_def split: option.splits)
next
  case left
  then show ?thesis using assms by (auto simp: noun_out_def explore_ok_def split: option.splits)
next
  case (resized w)
  then show ?thesis using assms by (simp add: explore_ok_def)
qed (auto simp: explore_ok_navigation explore_ok_sort explore_ok_close explore_ok_focus explore_ok_keys mouse_moves_def
      handleScrollTo_def explore_ok_hover_flag)

lemma explore_reach_ok:
  assumes "explore_reach n p" and "1 \<le> n"
  shows "explore_ok n p"
  using assms(1)
proof induction
  case (opened w)
  show ?case using assms(2)
    by (auto simp: opened_explore_def count_effect_def initial_explore_def ex_isMobile_def explore_ok_def pick_noun_def sort_options_def)
next
  case (step p q)
  then show ?case using explore_step_ok assms(2) by blast
qed



text \<open>While ranges are missing, the detail shows another Noun: the list is read from its oldest loaded entry.\<close>

lemma partial_list_shows_other:
  assumes "map en_id l = map Some (down_to (n - 1) m)" and "0 \<le> ex_active p" and "ex_active p < n - m" and "m \<le> n"
    and "0 \<le> m"
  shows "detail_id (detail_noun p l) = Some (m + ex_active p)"
proof -
  have "length (map en_id l) = length (map Some (down_to (n - 1) m))" by (simp only: assms(1))
  then have len: "int (length l) = n - m" using assms(4) by simp
  have "map en_id (rev l) = rev (map en_id l)" by (simp add: rev_map)
  also have "\<dots> = map Some [m..n - 1]" unfolding assms(1) by (simp add: rev_map down_to_def)
  finally have "map en_id (rev l) ! nat (ex_active p) = map Some [m..n - 1] ! nat (ex_active p)" by simp
  then have "en_id (rev l ! nat (ex_active p)) = Some (m + ex_active p)"
    using assms len by (simp add: nth_upto)
  then show ?thesis using assms len by (simp add: detail_noun_def detail_id_def)
qed

text \<open>The keys move by eight rows' worth on every narrow screen: the smaller steps are overwritten.\<close>

lemma amountToMove_narrow: "width \<le> 1399 \<Longrightarrow> amountToMove width = 8"
  by (simp add: amountToMove_def)

text \<open>Changing the order with the detail open jumps to the first Noun of the new order.\<close>

lemma sort_change_first:
  assumes "explore_ok n p" and "ex_sidebarVisible p" and "\<not> ex_isMobile p" and "order \<in> set sort_options" and "order \<noteq> ex_sortOrder p"
    and "map en_id l = map Some (down_to (n - 1) 0)" and "1 \<le> n"
  shows "en_id (hd (shown_list (handleSortOrderChange n order p) l)) = Some (ex_active (handleSortOrderChange n order p))"
proof -
  have s: "ex_sortOrder p \<in> set sort_options" using assms(1) by (simp add: explore_ok_def)
  have hdl: "map en_id l ! 0 = Some (n - 1)" and ldl: "map en_id (rev l) ! 0 = Some 0"
  proof -
    show "map en_id l ! 0 = Some (n - 1)" unfolding assms(6) using assms(7) by (simp add: down_to_def rev_nth nth_upto)
    have "map en_id (rev l) = rev (map en_id l)" by (simp add: rev_map)
    also have "\<dots> = map Some [0..n - 1]" unfolding assms(6) by (simp add: rev_map down_to_def)
    finally show "map en_id (rev l) ! 0 = Some 0" using assms(7) by (simp add: nth_upto)
  qed
  have "length (map en_id l) = length (map Some (down_to (n - 1) 0))" by (simp only: assms(6))
  then have "l \<noteq> []" "rev l \<noteq> []" using assms(7) by auto
  then have "en_id (hd l) = Some (n - 1)" "en_id (hd (rev l)) = Some 0"
    using hdl ldl by (simp_all add: hd_conv_nth)
  then show ?thesis
    using s assms(2-5) by (auto simp: handleSortOrderChange_def pick_noun_def shown_list_def sort_options_def Let_def)
qed

lemma trait_names:
  "parseTraitName ''head-queen-of-hearts'' = ''Queen of hearts''" "parseTraitName ''cool'' = ''Cool''"
  by code_simp+

end
