(* ===== verification/Web_Tables.thy ===== *)
theory Web_Tables
  imports Web_Vote Web_Activity
begin

text \<open>
  Lists and tables of the web app's governance: the shuffled, paged tables of the Nouns or delegates that voted
  (\<open>utils/pseudoRandomPredictableShuffle\<close>, \<open>NounImageVoteTable\<close>, \<open>DelegateGroupedNounImageVoteTable\<close>, \<open>VoteCardPager\<close>),
  stacks of Nouns and hover cards, the list of proposals with its countdowns (\<open>components/Proposals\<close>), and the activity
  feed of a Noun (\<open>ProfileActivityFeed\<close> and its two tables, \<open>NounProfileVoteRow\<close>).
\<close>

section \<open>utils/pseudoRandomPredictableShuffle.ts\<close>

text \<open>
  \<open>idx seed n\<close> is the index taken from \<open>n\<close> elements: \<open>n\<close> times the fraction of \<open>10000 sin(seed)\<close>, rounded down. The sine
  of the engine is a parameter. An index behind the input takes \<open>undefined\<close> and removes nothing.
\<close>

definition remove_index :: "nat \<Rightarrow> 'a list \<Rightarrow> 'a list" where
  "remove_index i xs = take i xs @ drop (Suc i) xs"

definition element_at :: "nat \<Rightarrow> 'a list \<Rightarrow> 'a option" where
  "element_at i xs = (if i < length xs then Some (xs ! i) else None)"

partial_function (option) shuffle_loop :: "(int \<Rightarrow> nat \<Rightarrow> nat) \<Rightarrow> int \<Rightarrow> 'a list \<Rightarrow> 'a option list option" where
  "shuffle_loop idx seed input =
     (if input = [] then Some []
      else let s = (if seed = 0 then seed + 1 else seed); i = idx s (length input)
           in Option.bind (shuffle_loop idx (s + 1) (remove_index i input)) (\<lambda>out. Some (element_at i input # out)))"

definition pseudoRandomPredictableShuffle :: "(int \<Rightarrow> nat \<Rightarrow> nat) \<Rightarrow> 'a list option \<Rightarrow> int option \<Rightarrow> 'a option list option" where
  "pseudoRandomPredictableShuffle idx input seed =
     shuffle_loop idx (case seed of Some s \<Rightarrow> s | None \<Rightarrow> 1) (case input of Some xs \<Rightarrow> xs | None \<Rightarrow> [])"

text \<open>A fraction of a count is below the count.\<close>

definition proper_indices :: "(int \<Rightarrow> nat \<Rightarrow> nat) \<Rightarrow> bool" where
  "proper_indices idx \<longleftrightarrow> (\<forall>s n. 0 < n \<longrightarrow> idx s n < n)"

lemma mset_remove_index: "i < length xs \<Longrightarrow> add_mset (xs ! i) (mset (remove_index i xs)) = mset xs"
  by (metis add_mset_add_single id_take_nth_drop mset.simps(2) mset_append remove_index_def union_mset_add_mset_right)

lemma length_remove_index: "i < length xs \<Longrightarrow> length (remove_index i xs) = length xs - 1"
  by (simp add: remove_index_def)

lemma shuffle_loop_permutes:
  assumes "proper_indices idx"
  shows "\<exists>ys. shuffle_loop idx seed xs = Some (map Some ys) \<and> mset ys = mset xs"
proof (induction xs arbitrary: seed rule: length_induct)
  case (1 xs)
  show ?case
  proof (cases "xs = []")
    case True
    then show ?thesis by (simp add: shuffle_loop.simps)
  next
    case False
    let ?s = "if seed = 0 then seed + 1 else seed"
    let ?i = "idx ?s (length xs)"
    have i: "?i < length xs" using assms False by (simp add: proper_indices_def)
    then have "length (remove_index ?i xs) < length xs" by (simp add: length_remove_index)
    then obtain ys where ys: "shuffle_loop idx (?s + 1) (remove_index ?i xs) = Some (map Some ys)"
        "mset ys = mset (remove_index ?i xs)"
      using 1 by blast
    have "shuffle_loop idx seed xs = Some (map Some (xs ! ?i # ys))"
      using False i ys(1) by (subst shuffle_loop.simps) (simp add: Let_def element_at_def)
    moreover have "mset (xs ! ?i # ys) = mset xs" using mset_remove_index[OF i] ys(2) by simp
    ultimately show ?thesis by blast
  qed
qed

lemma shuffle_permutes:
  assumes "proper_indices idx"
  obtains ys where "pseudoRandomPredictableShuffle idx (Some xs) seed = Some (map Some ys)" and "mset ys = mset xs"
  using shuffle_loop_permutes[OF assms] by (auto simp: pseudoRandomPredictableShuffle_def)

section \<open>Paged tables\<close>

text \<open>A cell holds an entry or a grey circle (\<open>None\<close>).\<close>

definition padded_page :: "nat \<Rightarrow> nat \<Rightarrow> 'a list \<Rightarrow> 'a option list" where
  "padded_page per page xs = map Some (take per (drop (page * per) xs)) @ replicate per None"

definition table_rows :: "nat \<Rightarrow> nat \<Rightarrow> nat \<Rightarrow> nat \<Rightarrow> 'a list \<Rightarrow> 'a option list list" where
  "table_rows per rows rowLength page xs =
     map (\<lambda>i. map (\<lambda>j. padded_page per page xs ! (i * rowLength + j)) [0..<rowLength]) [0..<rows]"

definition noun_table :: "bool \<Rightarrow> nat \<Rightarrow> 'a list \<Rightarrow> 'a option list list" where
  "noun_table isXLScreen = table_rows 15 3 (if isXLScreen then 5 else 4)"

definition delegate_table :: "nat \<Rightarrow> 'a list \<Rightarrow> 'a option list list" where
  "delegate_table = table_rows 12 3 4"

definition numPages :: "nat \<Rightarrow> nat \<Rightarrow> nat" where
  "numPages per n = n div per + 1"

definition left_enabled :: "nat \<Rightarrow> nat \<Rightarrow> nat \<Rightarrow> bool" where
  "left_enabled per n page \<longleftrightarrow> \<not> (page = 0 \<or> numPages per n = 1)"

definition right_enabled :: "nat \<Rightarrow> nat \<Rightarrow> nat \<Rightarrow> bool" where
  "right_enabled per n page \<longleftrightarrow> \<not> ((page + 1) * per > n \<or> numPages per n = 1)"

definition page_dots :: "nat \<Rightarrow> nat \<Rightarrow> nat \<Rightarrow> bool list" where
  "page_dots per n page = map (\<lambda>k. k = page) [0..<numPages per n]"

text \<open>The pages a user can reach with the arrows.\<close>

inductive reaches_page :: "nat \<Rightarrow> nat \<Rightarrow> nat \<Rightarrow> bool" for per n where
  first_page: "reaches_page per n 0"
| right: "reaches_page per n p \<Longrightarrow> right_enabled per n p \<Longrightarrow> reaches_page per n (p + 1)"
| left: "reaches_page per n p \<Longrightarrow> left_enabled per n p \<Longrightarrow> reaches_page per n (p - 1)"

definition shown_entries :: "'a option list list \<Rightarrow> 'a list" where
  "shown_entries rows = List.map_filter (\<lambda>x. x) (concat rows)"

lemma concat_rows:
  assumes "rows * k \<le> length xs"
  shows "concat (map (\<lambda>i. map (\<lambda>j. xs ! (i * k + j)) [0..<k]) [0..<rows]) = take (rows * k) xs"
  using assms
proof (induction rows)
  case (Suc rows)
  have "map (\<lambda>j. xs ! (rows * k + j)) [0..<k] = take k (drop (rows * k) xs)"
    using Suc.prems by (intro nth_equalityI) auto
  then show ?case using Suc by (simp add: take_add[symmetric] add.commute)
qed simp

lemma map_filter_cells: "List.map_filter (\<lambda>x. x) (map Some xs @ replicate m None) = xs"
  by (induction xs) (simp_all add: map_filter_def)

lemma shown_table:
  assumes "rows * k \<le> per"
  shows "shown_entries (table_rows per rows k page xs) = take (rows * k) (take per (drop (page * per) xs))"
proof -
  have "concat (table_rows per rows k page xs) = take (rows * k) (padded_page per page xs)"
    unfolding table_rows_def using assms by (intro concat_rows) (simp add: padded_page_def)
  also have "\<dots> = map Some (take (rows * k) (take per (drop (page * per) xs)))
      @ replicate (min (rows * k - length (take per (drop (page * per) xs))) per) None"
    by (simp add: padded_page_def take_map)
  finally show ?thesis by (simp add: shown_entries_def map_filter_cells)
qed

lemma nths_shift:
  assumes "0 < per"
  shows "{j. j + per \<in> {i. i mod per < c}} = {i. i mod per < (c :: nat)}"
  by simp

lemma pages_are_nths:
  assumes "0 < per"
  shows "concat (map (\<lambda>p. take c (take per (drop (p * per) xs))) [0..<Suc (length xs div per)]) = nths xs {i. i mod per < c}"
proof (induction xs rule: length_induct)
  case (1 xs)
  show ?case
  proof (cases "length xs < per")
    case True
    have "nths xs {i. i mod per < c} = nths xs {..<c}"
      using True by (auto intro!: filter_cong arg_cong[where f = "map fst"] simp: nths_def set_zip)
    also have "\<dots> = take c xs" by (rule nths_upt_eq_take)
    finally show ?thesis using True by simp
  next
    case False
    let ?ys = "drop per xs"
    have len: "length ?ys < length xs" "length xs div per = Suc (length ?ys div per)"
      using False assms le_div_geq[of per "length xs"] by simp_all
    have t: "length (take per xs) = per" using False by simp
    have "nths xs {i. i mod per < c} = nths (take per xs @ ?ys) {i. i mod per < c}" by simp
    also have "\<dots> = nths (take per xs) {i. i mod per < c} @ nths ?ys {i. i mod per < c}"
      unfolding nths_append t using nths_shift[OF assms, of c] by simp
    also have "nths (take per xs) {i. i mod per < c} = nths (take per xs) {..<c}"
      using assms by (auto intro!: filter_cong arg_cong[where f = "map fst"] simp: nths_def set_zip)
    also have "\<dots> = take c (take per xs)" by (rule nths_upt_eq_take)
    finally have n: "nths xs {i. i mod per < c} = take c (take per xs) @ nths ?ys {i. i mod per < c}" .
    have "[0..<Suc (length xs div per)] = 0 # map Suc [0..<Suc (length ?ys div per)]"
      unfolding len(2) by (simp add: map_Suc_upt upt_conv_Cons del: upt_Suc)
    then have "concat (map (\<lambda>p. take c (take per (drop (p * per) xs))) [0..<Suc (length xs div per)])
        = take c (take per xs) @ concat (map (\<lambda>p. take c (take per (drop (p * per) ?ys))) [0..<Suc (length ?ys div per)])"
      by (simp add: comp_def add.commute del: upt_Suc)
    also have "\<dots> = nths xs {i. i mod per < c}" by (simp only: 1[rule_format, OF len(1)] n)
    finally show ?thesis .
  qed
qed

lemma reaches_page_iff:
  assumes "0 < per"
  shows "reaches_page per n p \<longleftrightarrow> p < numPages per n"
proof
  show "reaches_page per n p \<Longrightarrow> p < numPages per n"
  proof (induction rule: reaches_page.induct)
    case first_page
    show ?case by (simp add: numPages_def)
  next
    case (right p)
    then have "(p + 1) * per \<le> n" by (simp add: right_enabled_def)
    then have "p + 1 \<le> n div per" using assms by (simp add: less_eq_div_iff_mult_less_eq)
    then show ?case by (simp add: numPages_def)
  next
    case (left p)
    then show ?case by simp
  qed
next
  show "p < numPages per n \<Longrightarrow> reaches_page per n p"
  proof (induction p)
    case 0
    show ?case by (rule reaches_page.first_page)
  next
    case (Suc p)
    then have "p + 1 \<le> n div per" by (simp add: numPages_def)
    then have "(p + 1) * per \<le> n" using assms less_eq_div_iff_mult_less_eq by blast
    then have "right_enabled per n p" using Suc.prems by (auto simp: right_enabled_def numPages_def)
    then show ?case using reaches_page.right[of per n p] Suc by simp
  qed
qed

lemma nths_mod_all: "0 < per \<Longrightarrow> nths xs {i. i mod per < (per :: nat)} = xs"
  by (simp add: nths_all)

lemma noun_table_pages:
  "concat (map (\<lambda>p. shown_entries (noun_table xl p xs)) [0..<numPages 15 (length xs)])
    = nths xs {i. i mod 15 < (if xl then 15 else 12)}"
proof -
  let ?c = "if xl then 15 else 12 :: nat"
  have "shown_entries (noun_table xl p xs) = take ?c (take 15 (drop (p * 15) xs))" for p
    using shown_table[of 3 "if xl then 5 else 4" 15 p xs] by (simp add: noun_table_def)
  then show ?thesis using pages_are_nths[of 15 ?c xs] by (simp add: numPages_def del: upt_Suc)
qed

lemma delegate_table_pages:
  "concat (map (\<lambda>p. shown_entries (delegate_table p xs)) [0..<numPages 12 (length xs)]) = xs"
proof -
  have "shown_entries (delegate_table p xs) = take 12 (take 12 (drop (p * 12) xs))" for p
    using shown_table[of 3 4 12 p xs] by (simp add: delegate_table_def)
  then show ?thesis using pages_are_nths[of 12 12 xs] nths_mod_all[of 12 xs] by (simp add: numPages_def del: upt_Suc)
qed

lemma filter_below: "m \<le> n \<Longrightarrow> filter (\<lambda>p. p < m) [0..<n] = [0..<m]" for m n :: nat
proof -
  assume "m \<le> n"
  then have "[0..<n] = [0..<m] @ [m..<n]" using upt_add_eq_append[of 0 m "n - m"] by simp
  then show ?thesis by (simp add: filter_empty_conv)
qed

text \<open>
  C35. On a wide screen the pages of a vote card, those its arrows reach, show every Noun that voted exactly once, in
  an order that depends on the proposal only; on a screen of up to 1200 pixels the table has twelve cells for pages of
  fifteen, and the last three Nouns of every full page are on no page.
\<close>

theorem vote_table_shows:
  assumes "proper_indices idx"
  shows "\<exists>ys. pseudoRandomPredictableShuffle idx (Some xs) (Some propId) = Some (map Some ys) \<and> mset ys = mset xs
    \<and> concat (map (\<lambda>p. shown_entries (noun_table xl p ys)) (filter (reaches_page 15 (length xs)) [0..<Suc (length xs)]))
      = nths ys {i. i mod 15 < (if xl then 15 else 12)}"
proof -
  obtain ys where ys: "pseudoRandomPredictableShuffle idx (Some xs) (Some propId) = Some (map Some ys)" "mset ys = mset xs"
    by (rule shuffle_permutes[OF assms])
  have len: "length ys = length xs" using ys(2) by (metis size_mset)
  have "numPages 15 (length xs) \<le> Suc (length xs)" by (simp add: numPages_def)
  then have "filter (\<lambda>p. p < numPages 15 (length xs)) [0..<Suc (length xs)] = [0..<numPages 15 (length xs)]"
    by (rule filter_below)
  moreover have "reaches_page 15 (length xs) = (\<lambda>p. p < numPages 15 (length xs))"
    by (intro ext) (simp add: reaches_page_iff)
  ultimately have "filter (reaches_page 15 (length xs)) [0..<Suc (length xs)] = [0..<numPages 15 (length xs)]"
    by (simp only:)
  then show ?thesis using ys noun_table_pages[of xl ys] len by (auto simp del: upt_Suc)
qed

text \<open>Always the first index, on a narrow screen: the thirteenth to fifteenth of sixteen Nouns are not shown.\<close>

definition sample_voters :: "string list" where
  "sample_voters = map nat_to_dec [0..<16]"

theorem vote_table_shows_witness:
  "\<exists>ys. pseudoRandomPredictableShuffle (\<lambda>s n. 0) (Some sample_voters) (Some 3) = Some (map Some ys) \<and> mset ys = mset sample_voters
    \<and> concat (map (\<lambda>p. shown_entries (noun_table False p ys)) (filter (reaches_page 15 (length sample_voters)) [0..<Suc (length sample_voters)]))
      = nths ys {i. i mod 15 < (if False then 15 else 12)}"
  by (rule vote_table_shows) (simp add: proper_indices_def)

lemma thirteenth_not_shown: "nths sample_voters {i. i mod 15 < 12} = map nat_to_dec ([0..<12] @ [15])"
proof -
  have "nths sample_voters {i. i mod 15 < 12} = map nat_to_dec (nths [0..<16] {i. i mod 15 < 12})"
    unfolding sample_voters_def nths_map ..
  also have "[0..<16] = [0,1,2,3,4,5,6,7,8,9,10,11,12,13,14,15 :: nat]" by (simp add: upt_rec)
  also have "nths [0,1,2,3,4,5,6,7,8,9,10,11,12,13,14,15 :: nat] {i. i mod 15 < 12} = [0,1,2,3,4,5,6,7,8,9,10,11,15]"
    by (simp add: nths_Cons)
  finally show ?thesis by (simp add: upt_rec)
qed

text \<open>With a full last page one more, empty page can be reached.\<close>

lemma full_page_then_empty:
  assumes "0 < per" and "0 < k"
  shows "reaches_page per (k * per) k" and "\<And>xs. length xs = k * per \<Longrightarrow> padded_page per k xs = replicate per None"
  using assms by (simp_all add: reaches_page_iff numPages_def padded_page_def)

section \<open>Stacks and hover cards\<close>

text \<open>At most three or six Nouns, each with its place, the first drawn last.\<close>

definition TightStackedCircleNouns :: "int list \<Rightarrow> (int \<times> nat) list" where
  "TightStackedCircleNouns nounIds = rev (zip (take 3 nounIds) [0..<3])"

definition circle_place :: "nat \<Rightarrow> int \<times> int \<times> int \<times> int" where
  "circle_place index = (28 + int index * 3, 55 - 21 - int index * 3, 8 + int index * 3, 14 - int index * 3)"

definition HorizontalStackedNouns :: "string list \<Rightarrow> (string \<times> nat) list" where
  "HorizontalStackedNouns nounIds = rev (zip (take 6 nounIds) (map (\<lambda>i. 25 * i) [0..<6]))"

datatype hover_card = CardSpinner | CardError | DelegateCard "string list" string string | NounCard string int string

text \<open>The delegates a query gave, each with its id and the ids of its Nouns.\<close>

definition DelegateHoverCard :: "(string \<times> string list) list query \<Rightarrow> hover_card" where
  "DelegateHoverCard q =
     (case (q_loading q, q_data q) of
        (False, Some ((i, nouns) # ds)) \<Rightarrow>
          if q_error q then CardError
          else DelegateCard (map fst (HorizontalStackedNouns nouns)) i
                 (''Voted with'' @ nat_to_dec (length nouns) @ (if length nouns = 1 then ''Noun'' else ''Nouns''))
      | _ \<Rightarrow> CardSpinner)"

definition unwrappedDelegateId :: "string \<Rightarrow> string" where
  "unwrappedDelegateId delegateId =
     (case break_on ''delegate-'' delegateId of None \<Rightarrow> delegateId | Some (a, b) \<Rightarrow> a @ b)"

text \<open>Up to twelve ids in ascending order, separated by commas, then how many more.\<close>

definition byline_ids :: "int list \<Rightarrow> string" where
  "byline_ids nouns =
     (let sortedIds = sort nouns; shown = take 12 sortedIds
      in concat (map (\<lambda>i. int_to_dec (shown ! i) @ (if i \<noteq> min 12 (length sortedIds) - 1 then '', '' else []) @ '' '') [0..<length shown])
         @ (if length sortedIds > 12 then ''... and '' @ nat_to_dec (length sortedIds - 12) @ '' more'' else []))"

text \<open>Without data and without an error the card throws: \<open>None\<close>.\<close>

definition ByLineHoverCard :: "(string \<times> string list) list query \<Rightarrow> hover_card option" where
  "ByLineHoverCard q =
     (if q_loading q \<or> q_data q = Some [] then Some CardSpinner
      else if q_error q then Some CardError
      else case q_data q of
          Some ((i, nouns) # ds) \<Rightarrow>
            Some (DelegateCard (map fst (HorizontalStackedNouns nouns)) i
              ((if length nouns = 1 then ''Delegated UNoun: '' else ''Delegated UNouns: '')
               @ byline_ids (List.map_filter parseInt nouns)))
        | _ \<Rightarrow> None)"

lemma byline_error_without_data:
  "ByLineHoverCard \<lparr>q_loading = False, q_error = False, q_data = None\<rparr> = None"
  by (simp add: ByLineHoverCard_def)

lemma stacked_nouns:
  "map fst (rev (HorizontalStackedNouns xs)) = take (min (length xs) 6) xs" "length (TightStackedCircleNouns is) = min 3 (length is)"
  by (simp_all add: HorizontalStackedNouns_def TightStackedCircleNouns_def map_fst_zip_take)

section \<open>components/Proposals\<close>

text \<open>Dates in milliseconds; \<open>now\<close> is read after \<open>timestamp\<close>. A missing eta counts from now.\<close>

datatype countdown = Ends int | Expires int | Starts int

definition AVERAGE_BLOCK_TIME_MS :: int where "AVERAGE_BLOCK_TIME_MS = 12000"

definition block_time :: "int \<Rightarrow> int \<Rightarrow> int \<Rightarrow> int option" where
  "block_time timestamp currentBlock block =
     (if currentBlock = 0 then None else Some (timestamp + AVERAGE_BLOCK_TIME_MS * (block - currentBlock)))"

definition getCountdownCopy :: "int \<Rightarrow> int \<Rightarrow> int \<Rightarrow> int \<Rightarrow> num \<Rightarrow> int \<Rightarrow> countdown" where
  "getCountdownCopy timestamp now startBlock endBlock eta currentBlock =
     (let startDate = block_time timestamp currentBlock startBlock;
          endDate = block_time timestamp currentBlock endBlock;
          expiresDate = (case eta of Some e \<Rightarrow> e * 1000 | None \<Rightarrow> now) + 14 * 86400 * 1000
      in case (startDate, endDate) of
           (Some s, Some e) \<Rightarrow> if s < now \<and> now < e then Ends e else if e < now then Expires expiresDate else Starts s
         | _ \<Rightarrow> Starts now)"

definition isPropInStateToHaveCountDown :: "ProposalState \<Rightarrow> bool" where
  "isPropInStateToHaveCountDown status \<longleftrightarrow> status = SPENDING \<or> status = SACTIVE \<or> status = SQUEUED"

definition proposal_threshold :: "int option \<Rightarrow> int" where
  "proposal_threshold contractThreshold = (case contractThreshold of Some t \<Rightarrow> t | None \<Rightarrow> 0) + 1"

definition hasEnoughVotesToPropose :: "maybe_account \<Rightarrow> int option \<Rightarrow> int option \<Rightarrow> bool" where
  "hasEnoughVotesToPropose acc votes contractThreshold \<longleftrightarrow>
     acc \<noteq> AUndefined \<and> proposal_threshold contractThreshold \<le> (case votes of Some v \<Rightarrow> v | None \<Rightarrow> 0)"

definition nullStateCopy :: "maybe_account \<Rightarrow> int option \<Rightarrow> int option \<Rightarrow> string" where
  "nullStateCopy acc votes contractThreshold =
     (if acc \<noteq> ANull
      then (if 0 < (case votes of Some v \<Rightarrow> v | None \<Rightarrow> 0)
            then ''Making a proposal requires '' @ int_to_dec (proposal_threshold contractThreshold) @ '' votes''
            else ''You have no Votes.'')
      else ''Connect wallet to make a proposal.'')"

record proposal_row =
  row_link :: string
  row_id :: num
  row_title :: string
  row_countdown :: bool
  row_status :: ProposalState

definition proposal_row_of :: "PartialProposal \<Rightarrow> proposal_row" where
  "proposal_row_of p =
     \<lparr>row_link = ''/vote/'' @ (case pp_id p of Some i \<Rightarrow> i | None \<Rightarrow> ''undefined''),
      row_id = parseInt (case pp_id p of Some (c # cs) \<Rightarrow> c # cs | _ \<Rightarrow> ''0''),
      row_title = pp_title p, row_countdown = isPropInStateToHaveCountDown (pp_status p), row_status = pp_status p\<rparr>"

record proposals_view =
  pv_submit :: bool
  pv_delegate :: bool
  pv_copy :: "string option"
  pv_rows :: "proposal_row list option"

text \<open>The newest proposal first, or a notice when there is none.\<close>

definition Proposals :: "maybe_account \<Rightarrow> int option \<Rightarrow> int option \<Rightarrow> int option \<Rightarrow> bool \<Rightarrow> PartialProposal list \<Rightarrow> proposals_view" where
  "Proposals acc votes contractThreshold nounBalance isMobile proposals =
     (let enough = hasEnoughVotesToPropose acc votes contractThreshold;
          hasNounBalance = 0 < (case nounBalance of Some b \<Rightarrow> b | None \<Rightarrow> 0)
      in \<lparr>pv_submit = enough,
          pv_delegate = hasNounBalance,
          pv_copy = (if isMobile \<or> \<not> enough then Some (nullStateCopy acc votes contractThreshold) else None),
          pv_rows = (if proposals = [] then None else Some (map proposal_row_of (rev proposals)))\<rparr>)"

text \<open>The countdown says what the blocks say, except at the block where voting ends.\<close>

lemma countdown_fits:
  assumes "currentBlock \<noteq> 0" and "timestamp \<le> now" and "now < timestamp + AVERAGE_BLOCK_TIME_MS" and "startBlock < endBlock"
  shows "startBlock < currentBlock \<Longrightarrow> currentBlock < endBlock
      \<Longrightarrow> getCountdownCopy timestamp now startBlock endBlock eta currentBlock
        = Ends (timestamp + 12000 * (endBlock - currentBlock))"
    and "endBlock < currentBlock \<Longrightarrow> \<exists>t. getCountdownCopy timestamp now startBlock endBlock eta currentBlock = Expires t"
    and "currentBlock < startBlock \<Longrightarrow> getCountdownCopy timestamp now startBlock endBlock eta currentBlock
        = Starts (timestamp + 12000 * (startBlock - currentBlock))"
  using assms by (auto simp: getCountdownCopy_def block_time_def AVERAGE_BLOCK_TIME_MS_def Let_def)

lemma countdown_last_block:
  assumes "timestamp \<le> now"
  shows "getCountdownCopy timestamp now startBlock endBlock eta endBlock \<noteq> Ends t"
  using assms by (simp add: getCountdownCopy_def block_time_def Let_def)

text \<open>A wallet that is not connected is \<open>undefined\<close> for the first test and \<open>null\<close> for the second.\<close>

lemma disconnected_copy:
  "\<not> hasEnoughVotesToPropose AUndefined votes t" "nullStateCopy AUndefined None t = ''You have no Votes.''"
  by (simp_all add: hasEnoughVotesToPropose_def nullStateCopy_def)

section \<open>The activity feed of a Noun\<close>

datatype feed_view = FeedNoProposal | FeedFailed | FeedNoActivity
  | FeedEvents "NounProfileEvent list" "(bool \<times> NounProfileEvent list)" "string option"

text \<open>The events above the fold, the others with whether they are open, and the toggle.\<close>

definition ProfileActivityFeed :: "bool \<Rightarrow> FetcherResponse \<Rightarrow> feed_view" where
  "ProfileActivityFeed isExpanded r =
     (case (fr_loading r, fr_data r) of
        (False, Some events) \<Rightarrow>
          if fr_error r then FeedFailed
          else if events = [] then FeedNoActivity
          else FeedEvents (take 5 events) (isExpanded, drop 5 events)
                 (if length events > 5
                  then Some (if isExpanded then ''Show fewer'' else ''Show all '' @ nat_to_dec (length events) @ '' events '') else None)
      | _ \<Rightarrow> FeedNoProposal)"

datatype event_row = VoteRow | DelegationEventRow | TransferEventRow | WinRow

definition getComponentFromEvent :: "NounProfileEvent \<Rightarrow> event_row" where
  "getComponentFromEvent e =
     (let t = eventType (ne_payload e) in
      if t = PROPOSAL_VOTE then VoteRow
      else if t = DELEGATION then DelegationEventRow
      else if t = TRANSFER then TransferEventRow
      else WinRow)"

datatype vote_icon = PendingVoteIcon | AbsentVoteIcon | YesVoteIcon | AbstainVoteIcon | NoVoteIcon

definition selectIconForNounVoteActivityRow :: "ProposalState \<Rightarrow> NounVoteHistory option \<Rightarrow> vote_icon" where
  "selectIconForNounVoteActivityRow status vote =
     (case vote of
        None \<Rightarrow> if status = SPENDING \<or> status = SACTIVE then PendingVoteIcon else AbsentVoteIcon
      | Some v \<Rightarrow> if vh_supportDetailed v = 0 then NoVoteIcon
                  else if vh_supportDetailed v = 1 then YesVoteIcon else AbstainVoteIcon)"

definition selectVotingInfoText :: "ProposalState \<Rightarrow> NounVoteHistory option \<Rightarrow> string" where
  "selectVotingInfoText status vote =
     (case vote of
        None \<Rightarrow> if status = SPENDING \<or> status = SACTIVE then ''Waiting for'' else ''Absent for''
      | Some v \<Rightarrow> if vh_supportDetailed v = 0 then ''Voted against''
                  else if vh_supportDetailed v = 1 then ''Voted for'' else ''Abstained on'')"

definition selectProposalStatus :: "ProposalState \<Rightarrow> string" where
  "selectProposalStatus status =
     (if status = SSUCCEEDED \<or> status = SEXECUTED \<or> status = SQUEUED then ''success''
      else if status = SDEFEATED \<or> status = SVETOED then ''failure''
      else ''pending'')"

definition selectProposalText :: "ProposalState \<Rightarrow> string" where
  "selectProposalText status = (case status of
       SPENDING \<Rightarrow> ''Pending'' | SACTIVE \<Rightarrow> ''Active'' | SSUCCEEDED \<Rightarrow> ''Succeeded'' | SEXECUTED \<Rightarrow> ''Executed''
     | SDEFEATED \<Rightarrow> ''Defeated'' | SQUEUED \<Rightarrow> ''Queued'' | SCANCELLED \<Rightarrow> ''Canceled'' | SVETOED \<Rightarrow> ''Vetoed''
     | SEXPIRED \<Rightarrow> ''Expired'' | UNDETERMINED \<Rightarrow> ''Undetermined'')"

definition useProposalStatus :: "ProposalState \<Rightarrow> string" where
  "useProposalStatus status =
     (if status \<in> {SSUCCEEDED, SEXECUTED, SQUEUED} then ''success''
      else if status \<in> {SDEFEATED, SVETOED} then ''failure'' else ''pending'')"

definition ProposalStatusCopy :: "ProposalState \<Rightarrow> string" where
  "ProposalStatusCopy status = (case status of
       SPENDING \<Rightarrow> ''Pending'' | SACTIVE \<Rightarrow> ''Active'' | SSUCCEEDED \<Rightarrow> ''Succeeded'' | SEXECUTED \<Rightarrow> ''Executed''
     | SDEFEATED \<Rightarrow> ''Defeated'' | SQUEUED \<Rightarrow> ''Queued'' | SCANCELLED \<Rightarrow> ''Canceled'' | SVETOED \<Rightarrow> ''Vetoed''
     | SEXPIRED \<Rightarrow> ''Expired'' | UNDETERMINED \<Rightarrow> ''Undetermined'')"

datatype pill_class = PillPass | PillFail | PillPending

definition VoteStatusPill :: "string \<Rightarrow> pill_class" where
  "VoteStatusPill status =
     (if status = ''success'' then PillPass else if status = ''failure'' then PillFail else PillPending)"

record vote_row =
  vr_icon :: vote_icon
  vr_text :: string
  vr_title :: string
  vr_voter :: "string option"
  vr_pill :: "pill_class \<times> string"
  vr_link :: string

definition NounProfileVoteRow :: "PartialProposal \<Rightarrow> NounVoteHistory option \<Rightarrow> vote_row" where
  "NounProfileVoteRow p vote =
     \<lparr>vr_icon = selectIconForNounVoteActivityRow (pp_status p) vote, vr_text = selectVotingInfoText (pp_status p) vote,
      vr_title = pp_title p, vr_voter = map_option vh_voter vote,
      vr_pill = (VoteStatusPill (selectProposalStatus (pp_status p)), selectProposalText (pp_status p)),
      vr_link = (case pp_id p of Some (c # cs) \<Rightarrow> ''/vote/'' @ (c # cs) | _ \<Rightarrow> ''/vote'')\<rparr>"

text \<open>The status icon, the text and the proposal page agree; an expired or cancelled proposal is shown as pending.\<close>

lemma status_displays_agree:
  "useProposalStatus = selectProposalStatus" "ProposalStatusCopy = selectProposalText" "statusText (Some s) = selectProposalText s"
proof -
  show "useProposalStatus = selectProposalStatus" by (intro ext) (simp add: useProposalStatus_def selectProposalStatus_def)
  show "ProposalStatusCopy = selectProposalText" by (intro ext) (simp add: ProposalStatusCopy_def selectProposalText_def)
  show "statusText (Some s) = selectProposalText s" by (cases s) (simp_all add: statusText_def selectProposalText_def)
qed

lemma expired_shown_pending: "VoteStatusPill (selectProposalStatus SEXPIRED) = PillPending"
  by (simp add: VoteStatusPill_def selectProposalStatus_def)

text \<open>
  The feed shows every event of the activity, split at the fold; a failed query, whose response has no data, is shown
  as a Noun without proposals, and the message for failures is never reached.
\<close>

lemma feed_shows_all:
  assumes "ProfileActivityFeed x r = FeedEvents es1 (opened, es2) toggle"
  shows "fr_data r = Some (es1 @ es2)" and "length es1 \<le> 5" and "toggle = None \<longleftrightarrow> es2 = []"
  using assms by (auto simp: ProfileActivityFeed_def split: option.splits bool.splits if_splits)

lemma failed_feed_shows_no_proposal:
  "ProfileActivityFeed x response_error = FeedNoProposal"
  "ProfileActivityFeed x (useNounActivity i v t d) \<noteq> FeedFailed"
  by (auto simp: ProfileActivityFeed_def response_error_def response_loading_def response_data_def useNounActivity_def Let_def
      split: option.splits bool.splits if_splits)

end
