(* ===== verification/Web_Feed.thy ===== *)
theory Web_Feed
  imports Web_Tables Web_Names
begin

text \<open>
  The rows of a Noun's activity feed in the web app (\<open>components/profileEvent\<close>): what each event says, which pages its
  parts open, and the icon of a vote. How an address is shown is a parameter; clicks list the windows they open, in
  order, the inner element's before those of the elements around it.
\<close>

section \<open>Pieces of a row\<close>

definition getProposalVoteIcon :: "ProposalState \<Rightarrow> int option \<Rightarrow> vote_icon" where
  "getProposalVoteIcon status supportDetailed =
     (case supportDetailed of
        None \<Rightarrow> if status = SPENDING \<or> status = SACTIVE then PendingVoteIcon else AbsentVoteIcon
      | Some s \<Rightarrow> if s = 1 then YesVoteIcon else if s = 2 then AbstainVoteIcon else NoVoteIcon)"

text \<open>The headline of a vote, with the link of the voter when there is one.\<close>

definition ProposalVoteHeadline :: "int \<Rightarrow> (string \<Rightarrow> string) \<Rightarrow> ProposalState \<Rightarrow> int option \<Rightarrow> string option \<Rightarrow> string \<times> string option" where
  "ProposalVoteHeadline chain display status supportDetailed voter =
     (case supportDetailed of
        None \<Rightarrow> (if status = SPENDING \<or> status = SACTIVE then ''Waiting for'' else ''Absent for'', None)
      | Some s \<Rightarrow>
          (let v = (case voter of Some a \<Rightarrow> a | None \<Rightarrow> [])
           in (display v @ (if s = 1 then '' voted for'' else if s = 2 then '' abstained on'' else '' voted against''),
               Some (buildEtherscanAddressLink chain v))))"

definition ProposalVoteInfoPillsContainer :: "ProposalState \<Rightarrow> pill_class \<times> string" where
  "ProposalVoteInfoPillsContainer status = (VoteStatusPill (useProposalStatus status), ProposalStatusCopy status)"

definition TransactionHashPill :: "int \<Rightarrow> string \<Rightarrow> string \<times> string" where
  "TransactionHashPill chain h = (take 4 h @ ''...'' @ drop (length h - 4) h, buildEtherscanTxLink chain h)"

section \<open>Rows\<close>

datatype row_icon = CakeIcon | SwitchIcon | ScaleIcon | VoteIcon vote_icon

record event_view =
  ev_icon :: row_icon
  ev_text :: string
  ev_links :: "string list"
  ev_pill :: string
  ev_pill_click :: "string list"
  ev_row_click :: "string list"

definition win_text :: "(string \<Rightarrow> string) \<Rightarrow> int \<Rightarrow> string \<Rightarrow> string" where
  "win_text display unounId winner =
     '' UNoun '' @ int_to_dec unounId @ (if unounId mod 10 = 0 then '' sent to  '' else '' won by  '') @ display winner"

definition DesktopNounWinEvent :: "int \<Rightarrow> (string \<Rightarrow> string) \<Rightarrow> int \<Rightarrow> string \<Rightarrow> string \<Rightarrow> event_view" where
  "DesktopNounWinEvent chain display unounId winner tx =
     (let pill = TransactionHashPill chain tx in
      \<lparr>ev_icon = CakeIcon, ev_text = win_text display unounId winner, ev_links = [buildEtherscanAddressLink chain winner],
       ev_pill = fst pill, ev_pill_click = [snd pill, buildEtherscanTxLink chain tx], ev_row_click = []\<rparr>)"

definition DesktopTransferEvent :: "int \<Rightarrow> (string \<Rightarrow> string) \<Rightarrow> string \<Rightarrow> string \<Rightarrow> string \<Rightarrow> event_view" where
  "DesktopTransferEvent chain display from to tx =
     (let pill = TransactionHashPill chain tx in
      \<lparr>ev_icon = SwitchIcon, ev_text = ''Holder changed from  '' @ display from @ '' to '' @ display to,
       ev_links = [buildEtherscanAddressLink chain from, buildEtherscanAddressLink chain to],
       ev_pill = fst pill, ev_pill_click = [snd pill, buildEtherscanTxLink chain tx], ev_row_click = []\<rparr>)"

definition DesktopDelegationEvent :: "int \<Rightarrow> (string \<Rightarrow> string) \<Rightarrow> string \<Rightarrow> string \<Rightarrow> string \<Rightarrow> event_view" where
  "DesktopDelegationEvent chain display previousDelegate newDelegate tx =
     (let pill = TransactionHashPill chain tx in
      \<lparr>ev_icon = ScaleIcon, ev_text = ''Delegate changed from '' @ display previousDelegate @ '' to '' @ display newDelegate,
       ev_links = [buildEtherscanAddressLink chain previousDelegate, buildEtherscanAddressLink chain newDelegate],
       ev_pill = fst pill, ev_pill_click = [snd pill], ev_row_click = []\<rparr>)"

definition proposal_page_link :: "PartialProposal \<Rightarrow> string" where
  "proposal_page_link p = (case pp_id p of Some (c # cs) \<Rightarrow> ''/vote/'' @ (c # cs) | _ \<Rightarrow> ''/vote'')"

definition DesktopProposalVoteEvent :: "int \<Rightarrow> (string \<Rightarrow> string) \<Rightarrow> PartialProposal \<Rightarrow> string option \<Rightarrow> int option \<Rightarrow> event_view" where
  "DesktopProposalVoteEvent chain display p voter supportDetailed =
     (let headline = ProposalVoteHeadline chain display (pp_status p) supportDetailed voter in
      \<lparr>ev_icon = VoteIcon (getProposalVoteIcon (pp_status p) supportDetailed),
       ev_text = fst headline @ '' '' @ pp_title p,
       ev_links = (case snd headline of Some l \<Rightarrow> [l] | None \<Rightarrow> []) @ [proposal_page_link p],
       ev_pill = snd (ProposalVoteInfoPillsContainer (pp_status p)), ev_pill_click = [], ev_row_click = []\<rparr>)"

text \<open>On a small screen the whole row opens a page, also when the click was on its pill.\<close>

definition MobileNounWinEvent :: "int \<Rightarrow> (string \<Rightarrow> string) \<Rightarrow> int \<Rightarrow> string \<Rightarrow> string \<Rightarrow> event_view" where
  "MobileNounWinEvent chain display unounId winner tx =
     (let pill = TransactionHashPill chain tx; row = [buildEtherscanTxLink chain tx] in
      \<lparr>ev_icon = CakeIcon, ev_text = win_text display unounId winner, ev_links = [],
       ev_pill = fst pill, ev_pill_click = snd pill # row, ev_row_click = row\<rparr>)"

definition MobileTransferEvent :: "int \<Rightarrow> (string \<Rightarrow> string) \<Rightarrow> string \<Rightarrow> string \<Rightarrow> string \<Rightarrow> event_view" where
  "MobileTransferEvent chain display from to tx =
     (let pill = TransactionHashPill chain tx; row = [buildEtherscanTxLink chain tx] in
      \<lparr>ev_icon = SwitchIcon, ev_text = ''Holder changed from '' @ display from @ '' to '' @ display to, ev_links = [],
       ev_pill = fst pill, ev_pill_click = snd pill # row, ev_row_click = row\<rparr>)"

definition MobileDelegationEvent :: "int \<Rightarrow> (string \<Rightarrow> string) \<Rightarrow> string \<Rightarrow> string \<Rightarrow> string \<Rightarrow> event_view" where
  "MobileDelegationEvent chain display previousDelegate newDelegate tx =
     (let pill = TransactionHashPill chain tx; row = [buildEtherscanTxLink chain tx] in
      \<lparr>ev_icon = ScaleIcon, ev_text = ''Delegate changed from '' @ display previousDelegate @ '' to '' @ display newDelegate,
       ev_links = [], ev_pill = fst pill, ev_pill_click = snd pill # row, ev_row_click = row\<rparr>)"

definition MobileProposalVoteEvent :: "int \<Rightarrow> (string \<Rightarrow> string) \<Rightarrow> PartialProposal \<Rightarrow> string option \<Rightarrow> int option \<Rightarrow> event_view" where
  "MobileProposalVoteEvent chain display p voter supportDetailed =
     (let headline = ProposalVoteHeadline chain display (pp_status p) supportDetailed voter; row = [proposal_page_link p] in
      \<lparr>ev_icon = VoteIcon (getProposalVoteIcon (pp_status p) supportDetailed),
       ev_text = fst headline @ '' '' @ pp_title p,
       ev_links = (case snd headline of Some l \<Rightarrow> [l] | None \<Rightarrow> []),
       ev_pill = snd (ProposalVoteInfoPillsContainer (pp_status p)), ev_pill_click = row, ev_row_click = row\<rparr>)"

fun desktop_event :: "int \<Rightarrow> (string \<Rightarrow> string) \<Rightarrow> event_payload \<Rightarrow> event_view" where
  "desktop_event chain display (ProposalVotePayload p voter s) = DesktopProposalVoteEvent chain display p voter s"
| "desktop_event chain display (DelegationPayload a b tx) = DesktopDelegationEvent chain display a b tx"
| "desktop_event chain display (TransferPayload a b tx) = DesktopTransferEvent chain display a b tx"
| "desktop_event chain display (NounWinPayload i w tx) = DesktopNounWinEvent chain display i w tx"

fun mobile_event :: "int \<Rightarrow> (string \<Rightarrow> string) \<Rightarrow> event_payload \<Rightarrow> event_view" where
  "mobile_event chain display (ProposalVotePayload p voter s) = MobileProposalVoteEvent chain display p voter s"
| "mobile_event chain display (DelegationPayload a b tx) = MobileDelegationEvent chain display a b tx"
| "mobile_event chain display (TransferPayload a b tx) = MobileTransferEvent chain display a b tx"
| "mobile_event chain display (NounWinPayload i w tx) = MobileNounWinEvent chain display i w tx"

section \<open>Facts\<close>

text \<open>Both layouts show the same icon and the same pill for every event.\<close>

lemma layouts_agree:
  "ev_icon (mobile_event chain display e) = ev_icon (desktop_event chain display e)
   \<and> ev_pill (mobile_event chain display e) = ev_pill (desktop_event chain display e)"
  by (cases e) (simp_all add: DesktopNounWinEvent_def DesktopTransferEvent_def DesktopDelegationEvent_def DesktopProposalVoteEvent_def
      MobileNounWinEvent_def MobileTransferEvent_def MobileDelegationEvent_def MobileProposalVoteEvent_def Let_def)

text \<open>The icon of the feed is the icon of the vote row.\<close>

lemma vote_icons_agree:
  assumes "case vote of None \<Rightarrow> True | Some v \<Rightarrow> vh_supportDetailed v \<in> {0, 1, 2}"
  shows "getProposalVoteIcon status (map_option vh_supportDetailed vote) = selectIconForNounVoteActivityRow status vote"
  using assms by (auto simp: getProposalVoteIcon_def selectIconForNounVoteActivityRow_def split: option.splits)

text \<open>
  The pill opens the transaction, and so does the element around it: except for a delegation on a wide screen, one
  click on the pill opens the same page twice.
\<close>

lemma pill_opens_twice:
  "ev_pill_click (desktop_event chain display (TransferPayload a b tx)) = [buildEtherscanTxLink chain tx, buildEtherscanTxLink chain tx]"
  "ev_pill_click (desktop_event chain display (NounWinPayload i w tx)) = [buildEtherscanTxLink chain tx, buildEtherscanTxLink chain tx]"
  "ev_pill_click (mobile_event chain display (DelegationPayload a b tx)) = [buildEtherscanTxLink chain tx, buildEtherscanTxLink chain tx]"
  "ev_pill_click (desktop_event chain display (DelegationPayload a b tx)) = [buildEtherscanTxLink chain tx]"
  by (simp_all add: DesktopNounWinEvent_def DesktopTransferEvent_def DesktopDelegationEvent_def MobileDelegationEvent_def
      TransactionHashPill_def Let_def)

end
