(* ===== verification/Web_Call.thy ===== *)
theory Web_Call
  imports Web_Propose Web_Names
begin

text \<open>
  The two steps of the proposal modal that build a function call
  (\<^verbatim>\<open>components/ProposalActionsModal/steps/FunctionCallSelectFunctionStep\<close>, \<^verbatim>\<open>FunctionCallEnterArgsStep\<close> and the rows
  of \<^verbatim>\<open>FunctionCallReviewStep\<close>). The block explorer answers requests in any order, files are read and error timers
  fire at any time; a state change makes a new render, whose local variable \<^verbatim>\<open>abiErrorTimeout\<close> is fresh. Addresses,
  the parser of ABIs and the encoder of arguments are ethers', parameters here.
\<close>

section \<open>The ABI of a contract\<close>

record contract_info =
  ci_Proxy :: "string option"
  ci_Implementation :: "string option"
  ci_ABI :: string

record call_env =
  ce_isAddress :: "string \<Rightarrow> bool"
  ce_parse_abi :: "string \<Rightarrow> abi option"
  ce_process :: process_env
  ce_chain :: int

text \<open>The first result of the answer, if there is one; a failed request throws.\<close>

type_synonym explorer = "string \<Rightarrow> (string, contract_info option) result"

definition getContractInformation :: "call_env \<Rightarrow> explorer \<Rightarrow> string \<Rightarrow> (string, contract_info option) result" where
  "getContractInformation env fetch a = fetch (buildEtherscanApiQuery (ce_process env) (ce_chain env) a ''contract'' ''getsourcecode'')"

definition getABI :: "call_env \<Rightarrow> explorer \<Rightarrow> string \<Rightarrow> (string, string) result" where
  "getABI env fetch a =
     bind_result (getContractInformation env fetch a) (\<lambda>info.
       let implementation = (case info of
             Some i \<Rightarrow> (case ci_Implementation i of
               Some impl \<Rightarrow> if ci_Proxy i = Some ''1'' \<and> ce_isAddress env impl then Some impl else None
             | None \<Rightarrow> None)
           | None \<Rightarrow> None)
       in bind_result (case implementation of Some impl \<Rightarrow> getContractInformation env fetch impl | None \<Rightarrow> Inr info)
            (\<lambda>info'. case info' of None \<Rightarrow> Inl ''Cannot read properties of undefined'' | Some i \<Rightarrow> Inr (ci_ABI i)))"

section \<open>Selecting the function\<close>

text \<open>An ABI object has an identity: 0 for the modal's, a fresh number for every parsed one.\<close>

record FunctionSelect =
  fs_address :: string
  fs_abi :: "(nat \<times> abi) option"
  fs_value :: string
  fs_func :: "string option"
  fs_uploadValid :: "bool option"
  fs_fileName :: "string option"
  fs_valid :: bool
  fs_requests :: "string list"
  fs_reads :: "(nat \<times> string \<times> string) list"
  fs_timers :: "nat list"
  fs_errorTimeout :: "nat option"
  fs_render :: nat
  fs_fresh :: nat

definition fs_visible :: "FunctionSelect \<Rightarrow> string \<times> (nat \<times> abi) option \<times> string \<times> string option \<times> bool option \<times> string option \<times> bool" where
  "fs_visible p = (fs_address p, fs_abi p, fs_value p, fs_func p, fs_uploadValid p, fs_fileName p, fs_valid p)"

text \<open>The first effect: the modal's ABI, and its address when that is valid.\<close>

definition state_effect :: "call_env \<Rightarrow> ProposalActionModalState \<Rightarrow> FunctionSelect \<Rightarrow> FunctionSelect" where
  "state_effect env m p =
     (case ms_abi m of None \<Rightarrow> p
      | Some a \<Rightarrow> p\<lparr>fs_abi := Some (0, a), fs_fileName := Some ''etherscan-abi-download.json'',
          fs_valid := fs_valid p \<or> ms_address m \<noteq> [] \<and> ce_isAddress env (ms_address m)\<rparr>)"

definition upload_effect :: "call_env \<Rightarrow> FunctionSelect \<Rightarrow> FunctionSelect" where
  "upload_effect env p =
     (if fs_address p \<noteq> [] \<and> ce_isAddress env (fs_address p) \<and> fs_uploadValid p = Some True
      then p\<lparr>fs_valid := True\<rparr> else p)"

definition first_function :: "FunctionSelect \<Rightarrow> FunctionSelect" where
  "first_function p = (case fs_abi p of None \<Rightarrow> p
     | Some (i, a) \<Rightarrow> p\<lparr>fs_func := (case a of [] \<Rightarrow> None | (f, ins) # _ \<Rightarrow> Some f)\<rparr>)"

text \<open>
  The effects after a change from \<open>p\<close> to \<open>q\<close>, to rest: the second one may switch the button on, then the first
  one runs again and puts the modal's ABI back; whenever the ABI object changed, the first function is chosen.
\<close>

definition settle :: "call_env \<Rightarrow> ProposalActionModalState \<Rightarrow> FunctionSelect \<Rightarrow> FunctionSelect \<Rightarrow> FunctionSelect" where
  "settle env m p q =
     (let q1 = upload_effect env q;
          q2 = (if fs_valid q1 \<noteq> fs_valid p then state_effect env m q1 else q1);
          q3 = (if fs_abi q \<noteq> fs_abi p \<or> fs_abi q2 \<noteq> fs_abi q then first_function q2 else q2)
      in if fs_visible q3 = fs_visible p then q3
         else q3\<lparr>fs_render := Suc (fs_render q3), fs_errorTimeout := None\<rparr>)"

definition mount_select :: "call_env \<Rightarrow> ProposalActionModalState \<Rightarrow> FunctionSelect" where
  "mount_select env m =
     first_function (state_effect env m
       \<lparr>fs_address = ms_address m, fs_abi = None,
        fs_value = (case ms_amount m of None \<Rightarrow> [] | Some v \<Rightarrow> v),
        fs_func = (case ms_function m of None \<Rightarrow> Some [] | Some f \<Rightarrow> Some f),
        fs_uploadValid = None, fs_fileName = Some [], fs_valid = False, fs_requests = [], fs_reads = [],
        fs_timers = [], fs_errorTimeout = None, fs_render = 0, fs_fresh = 1\<rparr>)"

definition clear_timer :: "FunctionSelect \<Rightarrow> FunctionSelect" where
  "clear_timer p = (case fs_errorTimeout p of None \<Rightarrow> p | Some t \<Rightarrow> p\<lparr>fs_timers := filter (\<lambda>u. u \<noteq> t) (fs_timers p)\<rparr>)"

definition populateABIIfExists :: "string \<Rightarrow> FunctionSelect \<Rightarrow> FunctionSelect" where
  "populateABIIfExists a p = (let p' = clear_timer p in p'\<lparr>fs_requests := fs_requests p' @ [a]\<rparr>)"

definition addressValidator :: "call_env \<Rightarrow> string \<Rightarrow> FunctionSelect \<Rightarrow> bool \<times> FunctionSelect" where
  "addressValidator env s p = (if \<not> ce_isAddress env s then (False, p) else (True, populateABIIfExists s p))"

definition type_address :: "call_env \<Rightarrow> string \<Rightarrow> FunctionSelect \<Rightarrow> FunctionSelect" where
  "type_address env s p = snd (addressValidator env s (p\<lparr>fs_address := s\<rparr>))"

definition set_parsed :: "abi \<Rightarrow> string \<Rightarrow> FunctionSelect \<Rightarrow> FunctionSelect" where
  "set_parsed a name p = p\<lparr>fs_abi := Some (fs_fresh p, a), fs_uploadValid := Some True, fs_fileName := Some name,
     fs_fresh := Suc (fs_fresh p)\<rparr>"

text \<open>The answer to a request, whatever the address is by now.\<close>

definition explorer_answer :: "call_env \<Rightarrow> explorer \<Rightarrow> string \<Rightarrow> FunctionSelect \<Rightarrow> FunctionSelect" where
  "explorer_answer env fetch a p =
     (case getABI env fetch a of
        Inr text \<Rightarrow>
          (case ce_parse_abi env text of
             Some parsed \<Rightarrow> set_parsed parsed ''etherscan-abi-download.json'' p
           | None \<Rightarrow> p\<lparr>fs_uploadValid := None, fs_fileName := None\<rparr>)
      | Inl e \<Rightarrow> p\<lparr>fs_uploadValid := None, fs_fileName := None\<rparr>)"

text \<open>The timer is kept in the variable of the render that chose the file.\<close>

definition setABIInvalid :: "nat \<Rightarrow> FunctionSelect \<Rightarrow> FunctionSelect" where
  "setABIInvalid render p =
     (let p1 = p\<lparr>fs_uploadValid := Some False, fs_fileName := None, fs_timers := fs_timers p @ [fs_fresh p],
                 fs_fresh := Suc (fs_fresh p)\<rparr>
      in if render = fs_render p then p1\<lparr>fs_errorTimeout := Some (fs_fresh p)\<rparr> else p1)"

definition validateAndSetABI :: "(string \<times> string) option \<Rightarrow> FunctionSelect \<Rightarrow> FunctionSelect" where
  "validateAndSetABI file p =
     (let p' = clear_timer p in
      case file of None \<Rightarrow> p' | Some (name, content) \<Rightarrow> p'\<lparr>fs_reads := fs_reads p' @ [(fs_render p', name, content)]\<rparr>)"

definition file_read :: "call_env \<Rightarrow> nat \<times> string \<times> string \<Rightarrow> FunctionSelect \<Rightarrow> FunctionSelect" where
  "file_read env f p =
     (case f of (render, name, content) \<Rightarrow>
        (case ce_parse_abi env content of Some a \<Rightarrow> set_parsed a name p | None \<Rightarrow> setABIInvalid render p))"

definition function_options :: "FunctionSelect \<Rightarrow> string list" where
  "function_options p = (case fs_abi p of None \<Rightarrow> [] | Some (i, a) \<Rightarrow> map fst a)"

inductive select_step :: "call_env \<Rightarrow> ProposalActionModalState \<Rightarrow> FunctionSelect \<Rightarrow> FunctionSelect \<Rightarrow> bool" for env m where
  address: "select_step env m p (settle env m p (type_address env s p))"
| amount: "select_step env m p (settle env m p (p\<lparr>fs_value := v\<rparr>))"
| function_chosen: "f \<in> set (function_options p) \<Longrightarrow> select_step env m p (settle env m p (p\<lparr>fs_func := Some f\<rparr>))"
| file_chosen: "select_step env m p (settle env m p (validateAndSetABI file p))"
| read_done: "i < length (fs_reads p) \<Longrightarrow> select_step env m p (settle env m p
     (file_read env (fs_reads p ! i) (p\<lparr>fs_reads := take i (fs_reads p) @ drop (Suc i) (fs_reads p)\<rparr>)))"
| answered: "i < length (fs_requests p) \<Longrightarrow> select_step env m p (settle env m p
     (explorer_answer env fetch (fs_requests p ! i) (p\<lparr>fs_requests := take i (fs_requests p) @ drop (Suc i) (fs_requests p)\<rparr>)))"
| timer: "t \<in> set (fs_timers p) \<Longrightarrow> select_step env m p (settle env m p
     (p\<lparr>fs_uploadValid := None, fs_timers := filter (\<lambda>u. u \<noteq> t) (fs_timers p)\<rparr>))"

inductive select_reach :: "call_env \<Rightarrow> ProposalActionModalState \<Rightarrow> FunctionSelect \<Rightarrow> bool" for env m where
  select_mount: "select_reach env m (mount_select env m)"
| select_more: "select_reach env m p \<Longrightarrow> select_step env m p p' \<Longrightarrow> select_reach env m p'"

definition select_next :: "FunctionSelect \<Rightarrow> ProposalActionModalState \<Rightarrow> ProposalActionModalState option" where
  "select_next p m =
     (if fs_valid p
      then Some (m\<lparr>ms_abi := map_option snd (fs_abi p), ms_amount := Some (fs_value p), ms_address := fs_address p,
             ms_function := fs_func p\<rparr>)
      else None)"

text \<open>Once it is on, the button stays on; with it there is an ABI and a function of it.\<close>

definition select_ok :: "FunctionSelect \<Rightarrow> bool" where
  "select_ok p \<longleftrightarrow>
     (fs_uploadValid p = Some True \<longrightarrow> fs_abi p \<noteq> None) \<and> (fs_valid p \<longrightarrow> fs_abi p \<noteq> None)
     \<and> (case fs_abi p of None \<Rightarrow> True | Some (i, a) \<Rightarrow>
          (case fs_func p of None \<Rightarrow> a = [] | Some f \<Rightarrow> f \<in> set (map fst a)))"

definition func_ok :: "FunctionSelect \<Rightarrow> bool" where
  "func_ok p \<longleftrightarrow> (case fs_abi p of None \<Rightarrow> True | Some (i, a) \<Rightarrow>
     (case fs_func p of None \<Rightarrow> a = [] | Some f \<Rightarrow> f \<in> set (map fst a)))"

lemma func_ok_first: "func_ok (first_function p)"
  by (auto simp: func_ok_def first_function_def split: option.splits list.splits)

lemma first_function_keeps [simp]:
  "fs_uploadValid (first_function p) = fs_uploadValid p" "fs_valid (first_function p) = fs_valid p"
  "fs_abi (first_function p) = fs_abi p"
  by (simp_all add: first_function_def split: option.split)

lemma settle_ok:
  assumes "fs_uploadValid q = Some True \<Longrightarrow> fs_abi q \<noteq> None" "fs_valid q = fs_valid p" "fs_valid p \<Longrightarrow> fs_abi q \<noteq> None"
    and "fs_abi q = fs_abi p \<Longrightarrow> func_ok q"
  shows "select_ok (settle env m p q)"
proof -
  define q1 where "q1 = upload_effect env q"
  define q2 where "q2 = (if fs_valid q1 \<noteq> fs_valid p then state_effect env m q1 else q1)"
  define q3 where "q3 = (if fs_abi q \<noteq> fs_abi p \<or> fs_abi q2 \<noteq> fs_abi q then first_function q2 else q2)"
  have 1: "fs_abi q1 = fs_abi q" "fs_uploadValid q1 = fs_uploadValid q" "fs_func q1 = fs_func q"
    "fs_valid q1 \<Longrightarrow> fs_valid q \<or> fs_uploadValid q = Some True"
    by (auto simp: q1_def upload_effect_def split: if_splits)
  have 2: "fs_uploadValid q2 = fs_uploadValid q" "fs_func q2 = fs_func q" "fs_abi q \<noteq> None \<Longrightarrow> fs_abi q2 \<noteq> None"
    "fs_valid q2 \<Longrightarrow> fs_valid q1 \<or> fs_abi q2 \<noteq> None"
    using 1 by (auto simp: q2_def state_effect_def split: option.split if_splits)
  have 3: "fs_uploadValid q3 = fs_uploadValid q" "fs_abi q3 = fs_abi q2" "fs_valid q3 = fs_valid q2"
    by (simp_all add: q3_def 2)
  have f: "func_ok q3"
  proof (cases "fs_abi q \<noteq> fs_abi p \<or> fs_abi q2 \<noteq> fs_abi q")
    case True then show ?thesis by (simp add: q3_def func_ok_first)
  next
    case False
    then have "func_ok q" "fs_abi q3 = fs_abi q" "fs_func q3 = fs_func q" using assms(4) 2(2) by (simp_all add: q3_def)
    then show ?thesis by (simp only: func_ok_def)
  qed
  have up: "fs_abi q3 \<noteq> None" if "fs_uploadValid q3 = Some True"
    using that assms(1) 2(3) 3 2(1) by simp
  have va: "fs_abi q3 \<noteq> None" if "fs_valid q3"
  proof (cases "fs_abi q2 = None")
    case True
    then have "fs_abi q = None" using 2(3) by blast
    moreover have "fs_valid q1" using True that 2(4) 3(3) by simp
    ultimately show ?thesis using 1(4) assms(1-3) by auto
  qed (simp add: 3)
  have "select_ok q3"
    using f up va unfolding select_ok_def func_ok_def by blast
  moreover have "select_ok (q3\<lparr>fs_render := r, fs_errorTimeout := t\<rparr>) = select_ok q3" for r t by (simp add: select_ok_def split: option.split)
  moreover have "settle env m p q = (if fs_visible q3 = fs_visible p then q3
      else q3\<lparr>fs_render := Suc (fs_render q3), fs_errorTimeout := None\<rparr>)"
    by (simp only: settle_def q1_def q2_def q3_def Let_def)
  ultimately show ?thesis by simp
qed

lemma mount_select_ok: "select_ok (mount_select env m)"
  by (auto simp: select_ok_def mount_select_def first_function_def state_effect_def split: option.split list.split)

lemma select_keeps [simp]:
  "fs_abi (clear_timer p) = fs_abi p" "fs_func (clear_timer p) = fs_func p" "fs_valid (clear_timer p) = fs_valid p"
  "fs_uploadValid (clear_timer p) = fs_uploadValid p" "fs_reads (clear_timer p) = fs_reads p"
  "fs_requests (clear_timer p) = fs_requests p" "fs_address (clear_timer p) = fs_address p"
  by (simp_all add: clear_timer_def split: option.split)

lemma select_step_ok:
  assumes "select_step env m p p'" and "select_ok p"
  shows "select_ok p'"
  using assms
proof (induction rule: select_step.induct)
  case (address p s)
  then show ?case by (intro settle_ok) (auto simp: type_address_def addressValidator_def populateABIIfExists_def Let_def
        select_ok_def func_ok_def split: option.splits if_splits)
next
  case (function_chosen f p)
  then show ?case by (intro settle_ok) (auto simp: function_options_def select_ok_def func_ok_def split: option.splits)
next
  case (file_chosen p f)
  then show ?case by (intro settle_ok) (auto simp: validateAndSetABI_def Let_def select_ok_def func_ok_def split: option.splits prod.splits)
next
  case (read_done i p)
  then show ?case by (intro settle_ok) (auto simp: file_read_def set_parsed_def setABIInvalid_def Let_def
        select_ok_def func_ok_def split: option.splits prod.splits)
next
  case (answered i p fetch)
  then show ?case by (intro settle_ok) (auto simp: explorer_answer_def set_parsed_def
        select_ok_def func_ok_def split: option.splits sum.splits)
qed (intro settle_ok; auto simp: select_ok_def func_ok_def split: option.splits)+

lemma select_reach_ok: "select_reach env m p \<Longrightarrow> select_ok p"
  by (induction rule: select_reach.induct) (auto intro: mount_select_ok select_step_ok)

section \<open>Entering the arguments\<close>

text \<open>\<open>None\<close> in the list of inputs is a hole; a parsed tuple is a JSON value.\<close>

datatype 'j call_arg = ArgText string | ArgJson 'j

definition arg_type :: "abi option \<Rightarrow> string \<Rightarrow> nat \<Rightarrow> (string, string option) result" where
  "arg_type a func i =
     (case a of None \<Rightarrow> Inr None
      | Some fs \<Rightarrow> (case map_of fs func of None \<Rightarrow> Inr None
          | Some ins \<Rightarrow> if i < length ins then Inr (Some (ins ! i)) else Inl ''Cannot read properties of undefined''))"

definition parse_argument :: "(string \<Rightarrow> 'j option) \<Rightarrow> abi option \<Rightarrow> string \<Rightarrow> nat \<Rightarrow> string \<Rightarrow> (string, 'j call_arg) result" where
  "parse_argument json a func i text =
     bind_result (arg_type a func i) (\<lambda>ty.
       if ty = Some ''tuple''
       then (case json text of None \<Rightarrow> Inl ''Unexpected token in JSON'' | Some j \<Rightarrow> Inr (ArgJson j))
       else Inr (ArgText text))"

fun parse_from :: "(string \<Rightarrow> 'j option) \<Rightarrow> abi option \<Rightarrow> string \<Rightarrow> nat \<Rightarrow> string option list \<Rightarrow> (string, 'j call_arg option list) result" where
  "parse_from json a func i [] = Inr []"
| "parse_from json a func i (None # xs) = bind_result (parse_from json a func (Suc i) xs) (\<lambda>ys. Inr (None # ys))"
| "parse_from json a func i (Some x # xs) =
     bind_result (parse_argument json a func i x) (\<lambda>y.
       bind_result (parse_from json a func (Suc i) xs) (\<lambda>ys. Inr (Some y # ys)))"

definition parseArguments :: "(string \<Rightarrow> 'j option) \<Rightarrow> abi option \<Rightarrow> string \<Rightarrow> string option list \<Rightarrow> (string, 'j call_arg option list) result" where
  "parseArguments json a func args = parse_from json a func 0 args"

record EnterArgs =
  ea_args :: "string option list"
  ea_valid :: bool

definition state_func :: "ProposalActionModalState \<Rightarrow> string" where
  "state_func m = (case ms_function m of None \<Rightarrow> [] | Some f \<Rightarrow> f)"

text \<open>The inputs of the function, if the ABI has it; the encoder answers a non-empty text or throws.\<close>

definition state_inputs :: "ProposalActionModalState \<Rightarrow> string list option" where
  "state_inputs m = (case ms_abi m of None \<Rightarrow> None | Some a \<Rightarrow> map_of a (state_func m))"

definition argumentsValidator ::
  "(string \<Rightarrow> 'j option) \<Rightarrow> (string list option \<Rightarrow> 'j call_arg option list \<Rightarrow> (string, string) result)
    \<Rightarrow> ProposalActionModalState \<Rightarrow> string option list \<Rightarrow> bool \<times> bool" where
  "argumentsValidator json encode m args =
     (if state_func m = [] then (True, False)
      else case parseArguments json (ms_abi m) (state_func m) args of
        Inl e \<Rightarrow> (case ms_abi m of None \<Rightarrow> (False, False) | Some _ \<Rightarrow> (False, True))
      | Inr parsed \<Rightarrow> (case ms_abi m of None \<Rightarrow> (False, False)
          | Some _ \<Rightarrow> (case encode (state_inputs m) parsed of Inl e \<Rightarrow> (False, True) | Inr data \<Rightarrow> (data \<noteq> [], False))))"

text \<open>
  The effects after a change of the arguments: the state at rest, and whether the message about invalid arguments is
  shown in each of the renders until then. The effect that hides the message runs again as soon as it is shown.
\<close>

definition args_effects ::
  "(string \<Rightarrow> 'j option) \<Rightarrow> (string list option \<Rightarrow> 'j call_arg option list \<Rightarrow> (string, string) result)
    \<Rightarrow> ProposalActionModalState \<Rightarrow> EnterArgs \<Rightarrow> EnterArgs \<times> bool list" where
  "args_effects json encode m e =
     (let r = argumentsValidator json encode m (ea_args e)
      in (e\<lparr>ea_valid := ea_valid e \<or> fst r\<rparr>, if snd r then [False, True, False] else [False]))"

definition mount_args ::
  "(string \<Rightarrow> 'j option) \<Rightarrow> (string list option \<Rightarrow> 'j call_arg option list \<Rightarrow> (string, string) result)
    \<Rightarrow> ProposalActionModalState \<Rightarrow> EnterArgs" where
  "mount_args json encode m = fst (args_effects json encode m \<lparr>ea_args = [], ea_valid = False\<rparr>)"

definition put_arg :: "nat \<Rightarrow> string \<Rightarrow> string option list \<Rightarrow> string option list" where
  "put_arg i v args = (if i < length args then args[i := Some v] else args @ replicate (i - length args) None @ [Some v])"

definition setArgument ::
  "(string \<Rightarrow> 'j option) \<Rightarrow> (string list option \<Rightarrow> 'j call_arg option list \<Rightarrow> (string, string) result)
    \<Rightarrow> ProposalActionModalState \<Rightarrow> nat \<Rightarrow> string \<Rightarrow> EnterArgs \<Rightarrow> EnterArgs" where
  "setArgument json encode m i v e = fst (args_effects json encode m (e\<lparr>ea_args := put_arg i v (ea_args e)\<rparr>))"

text \<open>There is an input for every argument of the function.\<close>

inductive args_reach ::
  "(string \<Rightarrow> 'j option) \<Rightarrow> (string list option \<Rightarrow> 'j call_arg option list \<Rightarrow> (string, string) result)
    \<Rightarrow> ProposalActionModalState \<Rightarrow> EnterArgs \<Rightarrow> bool" for json encode m where
  args_mount: "args_reach json encode m (mount_args json encode m)"
| args_typed: "args_reach json encode m e \<Longrightarrow> state_inputs m = Some ins \<Longrightarrow> i < length ins
    \<Longrightarrow> args_reach json encode m (setArgument json encode m i v e)"

definition args_next_disabled :: "ProposalActionModalState \<Rightarrow> EnterArgs \<Rightarrow> bool" where
  "args_next_disabled m e = (case state_inputs m of Some (i # is) \<Rightarrow> \<not> ea_valid e | _ \<Rightarrow> False)"

text \<open>The button: \<open>None\<close> while disabled; a tuple that is not JSON throws in the handler.\<close>

definition args_next :: "(string \<Rightarrow> 'j option) \<Rightarrow> ProposalActionModalState \<Rightarrow> EnterArgs \<Rightarrow> (string, 'j call_arg option list) result option" where
  "args_next json m e =
     (if args_next_disabled m e then None else Some (parseArguments json (ms_abi m) (state_func m) (ea_args e)))"

section \<open>The review\<close>

text \<open>The rows of the review: the address, the amount if there is one, the function, and a row per input.\<close>

record call_review =
  rv_address :: string
  rv_link :: string
  rv_value :: "string option"
  rv_function :: "string option"
  rv_no_arguments :: bool
  rv_arguments :: "(string \<times> string option) list"

definition FunctionCallReviewStep :: "int \<Rightarrow> ProposalActionModalState \<Rightarrow> (string \<Rightarrow> string list) \<Rightarrow> call_review" where
  "FunctionCallReviewStep chain m names =
     \<lparr>rv_address = ms_address m, rv_link = buildEtherscanAddressLink chain (ms_address m),
      rv_value = (case ms_amount m of Some (c # cs) \<Rightarrow> Some ((c # cs) @ '' ETH'') | _ \<Rightarrow> None),
      rv_function = (case ms_function m of Some (c # cs) \<Rightarrow> Some (c # cs) | _ \<Rightarrow> None),
      rv_no_arguments = (case state_inputs m of Some (i # is) \<Rightarrow> False | _ \<Rightarrow> True),
      rv_arguments = (case state_inputs m of None \<Rightarrow> []
        | Some ins \<Rightarrow> map (\<lambda>i. (names (state_func m) ! i,
            let args = (case ms_args m of None \<Rightarrow> [] | Some as \<Rightarrow> as) in if i < length args then Some (args ! i) else None))
            [0..<length ins])\<rparr>"

section \<open>Facts\<close>

lemma select_step_stays_valid: "select_step env m p p' \<Longrightarrow> fs_valid p \<Longrightarrow> fs_valid p'"
proof (induction rule: select_step.induct)
  have settle: "fs_valid (settle env m p q)" if "fs_valid q" for p q
  proof -
    define q1 where "q1 = upload_effect env q"
    have "fs_valid q1" using that by (simp add: q1_def upload_effect_def)
    moreover have "fs_valid (state_effect env m r)" if "fs_valid r" for r
      using that by (simp add: state_effect_def split: option.split)
    ultimately show ?thesis by (simp add: settle_def q1_def[symmetric] Let_def)
  qed
  note defs = type_address_def addressValidator_def populateABIIfExists_def validateAndSetABI_def file_read_def set_parsed_def
    setABIInvalid_def explorer_answer_def Let_def
  { case (address p s) then show ?case by (intro settle) (simp add: defs)
  next case (amount p v) then show ?case by (intro settle) simp
  next case (function_chosen f p) then show ?case by (intro settle) simp
  next case (file_chosen p f) then show ?case by (intro settle) (simp add: defs split: option.split)
  next case (read_done i p) then show ?case by (intro settle) (simp add: defs split: option.split prod.split)
  next case (answered i p fetch) then show ?case by (intro settle) (simp add: defs split: option.split sum.split)
  next case (timer t p) then show ?case by (intro settle) simp }
qed

text \<open>So a text that is no address any more is handed over with the rest.\<close>

lemma invalid_address_handed_over:
  assumes "fs_valid p" and "\<not> ce_isAddress env s"
  shows "\<exists>m'. select_next (settle env m p (type_address env s p)) m = Some m'
    \<and> ms_address m' = s \<and> \<not> ce_isAddress env (ms_address m')"
proof -
  let ?q = "type_address env s p"
  have q: "?q = p\<lparr>fs_address := s\<rparr>" using assms(2) by (simp add: type_address_def addressValidator_def)
  have "upload_effect env ?q = ?q" using assms(2) by (simp add: q upload_effect_def)
  then have "fs_valid (settle env m p ?q)" "fs_address (settle env m p ?q) = s"
    using assms(1) by (simp_all add: settle_def Let_def q)
  then show ?thesis using assms(2) by (simp add: select_next_def)
qed

text \<open>Going back to this step chooses the first function again, whatever was chosen before.\<close>

lemma going_back_resets_function:
  "ms_abi m = Some ((f, ins) # a) \<Longrightarrow> fs_func (mount_select env m) = Some f"
  by (simp add: mount_select_def first_function_def state_effect_def)

text \<open>The ABI of an address that was typed earlier replaces the one on the screen, whose address stays.\<close>

lemma late_answer_wins:
  assumes "getABI env fetch a = Inr text" and "ce_parse_abi env text = Some ab"
  shows "fs_abi (explorer_answer env fetch a p) = Some (fs_fresh p, ab) \<and> fs_address (explorer_answer env fetch a p) = fs_address p"
  using assms by (simp add: explorer_answer_def set_parsed_def)

text \<open>The timer of an invalid file cannot be cleared: its render is over when it is set.\<close>

lemma error_timer_lost:
  assumes "fs_uploadValid p \<noteq> Some False"
  shows "fs_errorTimeout (settle env m p (setABIInvalid (fs_render p) p)) = None"
proof -
  let ?q = "setABIInvalid (fs_render p) p"
  have "fs_uploadValid ?q = Some False" by (simp add: setABIInvalid_def Let_def)
  then have up: "fs_uploadValid (upload_effect env ?q) = Some False" "upload_effect env ?q = ?q"
    by (simp_all add: upload_effect_def)
  have "fs_valid ?q = fs_valid p" "fs_abi ?q = fs_abi p" by (simp_all add: setABIInvalid_def Let_def)
  then show ?thesis using up assms by (auto simp: settle_def fs_visible_def Let_def)
qed

text \<open>The message about invalid arguments is hidden one render after it is shown.\<close>

lemma message_flickers: "snd (args_effects json encode m e) \<in> {[False], [False, True, False]}"
  by (simp add: args_effects_def Let_def)

lemma parse_from_texts:
  assumes "map_of a f = Some ins" and "''tuple'' \<notin> set ins" and "i + length xs \<le> length ins"
  shows "parse_from json (Some a) f i xs = Inr (map (map_option ArgText) xs)"
  using assms(3)
proof (induction xs arbitrary: i)
  case (Cons x xs)
  have "ins ! i \<noteq> ''tuple''" using assms(2) Cons.prems nth_mem[of i ins] by (metis Suc_le_eq add_Suc_right add_lessD1 length_Cons)
  then have "parse_argument json (Some a) f i t = Inr (ArgText t)" for t
    using assms(1) Cons.prems by (simp add: parse_argument_def arg_type_def)
  then show ?case using Cons by (cases x) simp_all
qed simp

lemma length_put_arg: "i < n \<Longrightarrow> length xs \<le> n \<Longrightarrow> length (put_arg i v xs) \<le> n"
  by (simp add: put_arg_def)

lemma args_reach_length:
  "args_reach json encode m e \<Longrightarrow> state_inputs m = Some ins \<Longrightarrow> length (ea_args e) \<le> length ins"
  by (induction rule: args_reach.induct)
     (auto simp: mount_args_def setArgument_def args_effects_def Let_def length_put_arg)


text \<open>A proxy contract whose implementation the explorer knows.\<close>

definition sample_call_env :: call_env where
  "sample_call_env = \<lparr>ce_isAddress = (\<lambda>s. starts_with s ''0x''),
     ce_parse_abi = (\<lambda>t. if t = ''abi'' then Some [(''mint(uint256)'', [''uint256''])] else None),
     ce_process = (\<lambda>k. None), ce_chain = 1\<rparr>"

definition sample_explorer :: explorer where
  "sample_explorer url = Inr (Some (if contains_str url ''0xa1''
     then \<lparr>ci_Proxy = Some ''1'', ci_Implementation = Some ''0xb2'', ci_ABI = ''proxy''\<rparr>
     else \<lparr>ci_Proxy = None, ci_Implementation = None, ci_ABI = ''abi''\<rparr>))"

definition sample_typed :: FunctionSelect where
  "sample_typed = (let p = mount_select sample_call_env (snd initial_modal)
     in settle sample_call_env (snd initial_modal) p (type_address sample_call_env ''0xa1'' p))"

definition sample_selected :: FunctionSelect where
  "sample_selected = settle sample_call_env (snd initial_modal) sample_typed
     (explorer_answer sample_call_env sample_explorer ''0xa1'' (sample_typed\<lparr>fs_requests := []\<rparr>))"

lemma sample_requests: "fs_requests sample_typed = [''0xa1'']"
  by code_simp

lemma sample_select_reach: "select_reach sample_call_env (snd initial_modal) sample_selected"
proof -
  have 1: "select_reach sample_call_env (snd initial_modal) sample_typed"
    unfolding sample_typed_def Let_def by (intro select_more[OF select_mount] select_step.address)
  have "select_step sample_call_env (snd initial_modal) sample_typed sample_selected"
    using select_step.answered[of 0 sample_typed sample_call_env "snd initial_modal" sample_explorer]
    by (simp add: sample_requests sample_selected_def)
  with 1 show ?thesis by (rule select_more)
qed

definition sample_state :: ProposalActionModalState where
  "sample_state = (snd initial_modal)\<lparr>ms_abi := Some [(''mint(uint256)'', [''uint256''])], ms_amount := Some [],
     ms_address := ''0xa1'', ms_function := Some ''mint(uint256)''\<rparr>"

lemma sample_next: "select_next sample_selected (snd initial_modal) = Some sample_state"
proof -
  have "fs_valid sample_selected" "map_option snd (fs_abi sample_selected) = Some [(''mint(uint256)'', [''uint256''])]"
    "fs_value sample_selected = []" "fs_address sample_selected = ''0xa1''" "fs_func sample_selected = Some ''mint(uint256)''"
    by code_simp+
  then show ?thesis by (simp add: select_next_def sample_state_def)
qed

definition sample_encode :: "string list option \<Rightarrow> unit call_arg option list \<Rightarrow> (string, string) result" where
  "sample_encode ins args = (if list_all (\<lambda>a. a \<noteq> None) args \<and> map_option length ins = Some (length args) then Inr ''0x07'' else Inl ''types/values length mismatch'')"

definition sample_args :: EnterArgs where
  "sample_args = setArgument (\<lambda>t. None) sample_encode sample_state 0 ''7'' (mount_args (\<lambda>t. None) sample_encode sample_state)"


end
