(* ===== verification/Web_Playground.thy ===== *)
theory Web_Playground
  imports Assets Web_Names
begin

text \<open>
  Pictures of Nouns in the web app: \<^verbatim>\<open>components/StandaloneNoun\<close>, the playground (\<^verbatim>\<open>pages/Playground/index.tsx\<close>, its
  \<^verbatim>\<open>NounModal\<close>) and \<^verbatim>\<open>utils/svg2png.ts\<close>. The playground changes two objects of its module, the images of
  \<^verbatim>\<open>@nouns/assets\<close> and one encoder, when a trait is uploaded. PNG files are decoded by pngjs, a parameter of the
  events; the five random numbers of a Noun are arguments. An error timer may fire at any time.
\<close>

section \<open>Pictures\<close>

text \<open>\<open>None\<close> where the drawing does not end; an image that is missing throws.\<close>

definition noun_svg :: "string list \<Rightarrow> NounData \<Rightarrow> (string, string) result option" where
  "noun_svg palette nd =
     (case those (map (\<lambda>p. Option.bind p image_data) (nd_parts nd)) of
        None \<Rightarrow> Some (Inl ''Cannot read properties of undefined'')
      | Some parts \<Rightarrow> map_option Inr (buildSVG parts palette (nd_background nd)))"

record noun_picture =
  np_name :: string
  np_description :: string
  np_image :: string

definition getUNoun :: "(string \<Rightarrow> string) \<Rightarrow> AssetImages \<Rightarrow> string list \<Rightarrow> string \<Rightarrow> NounSeed \<Rightarrow> (string, noun_picture) result option" where
  "getUNoun btoa imgs palette unounId seed =
     map_option (\<lambda>r. bind_result r (\<lambda>svg. Inr
       \<lparr>np_name = ''UNoun '' @ unounId, np_description = ''UNoun '' @ unounId @ '' is a member of the UNouns DAO'',
        np_image = ''data:image/svg+xml;base64,'' @ btoa svg\<rparr>))
       (noun_svg palette (getNounData imgs seed))"

text \<open>What the components show: the picture, its text, and the page and auction a click opens, if it is a link.\<close>

record standalone =
  sn_imgPath :: string
  sn_alt :: string
  sn_link :: "(string \<times> int) option"

definition noun_link :: "int \<Rightarrow> string \<times> int" where
  "noun_link unounId = (''/unoun/'' @ int_to_dec unounId, unounId)"

definition StandaloneNoun :: "int \<Rightarrow> noun_picture option \<Rightarrow> standalone" where
  "StandaloneNoun unounId noun =
     \<lparr>sn_imgPath = (case noun of None \<Rightarrow> [] | Some n \<Rightarrow> np_image n),
      sn_alt = (case noun of None \<Rightarrow> ''UNoun'' | Some n \<Rightarrow> np_description n), sn_link = Some (noun_link unounId)\<rparr>"

definition blank_noun :: standalone where
  "blank_noun = \<lparr>sn_imgPath = [], sn_alt = ''UNoun'', sn_link = None\<rparr>"

definition StandaloneNounCircular :: "int option \<Rightarrow> noun_picture option \<Rightarrow> standalone" where
  "StandaloneNounCircular unounId noun =
     (case (unounId, noun) of (Some i, Some n) \<Rightarrow> StandaloneNoun i (Some n) | _ \<Rightarrow> blank_noun)"

definition seedIsInvalid :: "NounSeed option \<Rightarrow> bool" where
  "seedIsInvalid seed =
     (case seed of None \<Rightarrow> True
      | Some s \<Rightarrow> list_all (\<lambda>v. v = 0) [background s, body s, accessory s, head s, glasses s])"

text \<open>The Noun of the auction: the seed is handed to \<open>onLoadSeed\<close> (the second part) when it is shown.\<close>

definition StandaloneNounWithSeed ::
  "(NounSeed \<Rightarrow> (string, noun_picture) result option) \<Rightarrow> int option \<Rightarrow> NounSeed option \<Rightarrow> bool \<Rightarrow> bool
    \<Rightarrow> (string, standalone \<times> NounSeed option) result option" where
  "StandaloneNounWithSeed picture unounId seed hasOnLoadSeed shouldLinkToProfile =
     (case (seed, unounId) of
        (Some s, Some i) \<Rightarrow>
          if seedIsInvalid seed \<or> \<not> hasOnLoadSeed then Some (Inr (blank_noun, None))
          else map_option (\<lambda>r. bind_result r (\<lambda>n. Inr
                 (\<lparr>sn_imgPath = np_image n, sn_alt = np_description n,
                   sn_link = (if shouldLinkToProfile then Some (noun_link i) else None)\<rparr>, Some s))) (picture s)
      | _ \<Rightarrow> Some (Inr (blank_noun, None)))"

section \<open>utils/svg2png.ts\<close>

text \<open>
  The decimals of \<open>desired / current\<close> as JavaScript prints it, for sizes below a million: at most one exactly if ten
  times the desired size is a multiple of the current one. A missing or empty attribute is the size 0, and the
  quotient \<open>Infinity\<close> has no decimals.
\<close>

definition canScale :: "int \<Rightarrow> int \<Rightarrow> bool" where
  "canScale current desired \<longleftrightarrow> current = 0 \<or> (10 * desired) mod current = 0"

datatype png_result = PngThrows string | PngNever | PngData string

text \<open>\<open>draw\<close> is the canvas: its data URL, \<open>None\<close> without a 2D context, when the promise is never resolved.\<close>

definition svg2png :: "(string \<Rightarrow> int \<times> int) \<Rightarrow> (string \<Rightarrow> int \<Rightarrow> int \<Rightarrow> string option) \<Rightarrow> string \<Rightarrow> int \<Rightarrow> int \<Rightarrow> png_result" where
  "svg2png attributes draw svg newWidth newHeight =
     (case attributes svg of (width, height) \<Rightarrow>
        if \<not> canScale width newWidth \<or> \<not> canScale height newHeight
        then PngThrows ''Unable to scale canvas without unwanted pixel gap''
        else (case draw svg newWidth newHeight of None \<Rightarrow> PngNever | Some png \<Rightarrow> PngData png))"

text \<open>The modal: the picture, and whether the download button is there.\<close>

definition NounModal :: "png_result \<Rightarrow> int \<Rightarrow> string option \<times> bool" where
  "NounModal png width =
     (case png of PngData (c # cs) \<Rightarrow> (Some (c # cs), \<not> width \<le> 991) | _ \<Rightarrow> (None, False))"

section \<open>The playground\<close>

record PendingCustomTrait =
  pc_type :: string
  pc_data :: string
  pc_filename :: string

record Playground =
  pg_images :: AssetImages
  pg_encoder :: PNGCollectionEncoder
  pg_nounSvgs :: "string list option"
  pg_traits :: "(string \<times> string list) list option"
  pg_modSeed :: "string \<rightharpoonup> int"
  pg_initLoad :: bool
  pg_displayNoun :: bool
  pg_indexOfNounToDisplay :: "nat option"
  pg_selectIndexes :: "string \<rightharpoonup> int"
  pg_pendingTrait :: "PendingCustomTrait option"
  pg_isPendingTraitValid :: "bool option"

definition encoder_data_palette :: "Playground \<Rightarrow> string list" where
  "encoder_data_palette p = palette_of (data_getter (pg_encoder p))"

definition capitalizeFirstLetter :: "string \<Rightarrow> string" where
  "capitalizeFirstLetter s = map char_upper (take 1 s) @ drop 1 s"

definition parseTraitName :: "string \<Rightarrow> string" where
  "parseTraitName partName =
     capitalizeFirstLetter (case break_on ''-'' partName of None \<Rightarrow> partName | Some (a, b) \<Rightarrow> b)"

text \<open>\<open>{ ...getRandomNounSeed(), ...modSeed }\<close>\<close>

definition mod_seed :: "(string \<rightharpoonup> int) \<Rightarrow> NounSeed \<Rightarrow> NounSeed" where
  "mod_seed m s =
     (let pick = (\<lambda>t d. case m t of Some i \<Rightarrow> i | None \<Rightarrow> d)
      in \<lparr>background = pick ''background'' (background s), body = pick ''body'' (body s),
          accessory = pick ''accessory'' (accessory s), head = pick ''head'' (head s), glasses = pick ''glasses'' (glasses s)\<rparr>)"

definition generated_data :: "(nat \<Rightarrow> rat) \<Rightarrow> Playground \<Rightarrow> NounData" where
  "generated_data random p = getNounData (pg_images p) (mod_seed (pg_modSeed p) (getRandomNounSeed (pg_images p) random))"

text \<open>One Noun for every source of random numbers in the list.\<close>

fun generateNounSvg :: "(nat \<Rightarrow> rat) list \<Rightarrow> Playground \<Rightarrow> (string, Playground) result option" where
  "generateNounSvg [] p = Some (Inr p)"
| "generateNounSvg (random # rs) p =
     (case noun_svg (encoder_data_palette p) (generated_data random p) of
        None \<Rightarrow> None
      | Some (Inl e) \<Rightarrow> Some (Inl e)
      | Some (Inr svg) \<Rightarrow>
          generateNounSvg rs (p\<lparr>pg_nounSvgs := (case pg_nounSvgs p of None \<Rightarrow> Some [svg] | Some prev \<Rightarrow> Some (svg # prev))\<rparr>))"

definition trait_lists :: "AssetImages \<Rightarrow> (string \<times> string list) list" where
  "trait_lists imgs =
     zip [''background'', ''body'', ''accessory'', ''head'', ''glasses'']
       [[''peace'', ''cool''], map filename (bodies imgs), map filename (accessories imgs), map filename (heads imgs),
        map filename (glasses_images imgs)]"

text \<open>The effect, with the sources of the eight first Nouns.\<close>

definition traits_effect :: "(nat \<Rightarrow> rat) list \<Rightarrow> Playground \<Rightarrow> (string, Playground) result option" where
  "traits_effect rs p =
     (let p1 = p\<lparr>pg_traits := Some (trait_lists (pg_images p))\<rparr>
      in if pg_initLoad p1
         then map_option (\<lambda>r. bind_result r (\<lambda>p2. Inr (p2\<lparr>pg_initLoad := False\<rparr>))) (generateNounSvg rs p1)
         else Some (Inr p1))"

definition initial_playground :: "AssetImages \<Rightarrow> string list \<Rightarrow> Playground" where
  "initial_playground imgs colors =
     \<lparr>pg_images = imgs, pg_encoder = new_PNGCollectionEncoder (Some colors), pg_nounSvgs = None, pg_traits = None,
      pg_modSeed = Map.empty, pg_initLoad = True, pg_displayNoun = False, pg_indexOfNounToDisplay = None,
      pg_selectIndexes = Map.empty, pg_pendingTrait = None, pg_isPendingTraitValid = None\<rparr>"

text \<open>After the first Nouns the effect only reads the traits again, when a pending trait or the seed changed.\<close>

definition refresh_traits :: "Playground \<Rightarrow> Playground" where
  "refresh_traits p = p\<lparr>pg_traits := Some (trait_lists (pg_images p))\<rparr>"

definition traitOptions :: "string list \<Rightarrow> string list" where
  "traitOptions names = ''Random'' # map parseTraitName names"

definition traitButtonHandler :: "string \<Rightarrow> int \<Rightarrow> Playground \<Rightarrow> Playground" where
  "traitButtonHandler title traitIndex p =
     (if traitIndex < 0 then p\<lparr>pg_modSeed := (pg_modSeed p)(title := None)\<rparr>
      else p\<lparr>pg_modSeed := (pg_modSeed p)(title \<mapsto> traitIndex)\<rparr>)"

definition trait_selected :: "string \<Rightarrow> nat \<Rightarrow> Playground \<Rightarrow> Playground" where
  "trait_selected title selectedIndex p =
     (let p1 = traitButtonHandler title (int selectedIndex - 1) p
      in refresh_traits (p1\<lparr>pg_selectIndexes := (pg_selectIndexes p1)(title \<mapsto> int selectedIndex - 1)\<rparr>))"

text \<open>The value of a select: the name at the chosen index, \<open>-1\<close> where there is none.\<close>

definition select_value :: "string \<times> string list \<Rightarrow> Playground \<Rightarrow> string" where
  "select_value trait p =
     (case Option.bind (pg_selectIndexes p (fst trait)) (array_get (snd trait)) of Some n \<Rightarrow> n | None \<Rightarrow> ''-1'')"

subsection \<open>Uploaded traits\<close>

text \<open>The picture of a decoded file: four bytes per pixel, row by row.\<close>

definition png_pixels :: "int \<Rightarrow> int \<Rightarrow> (int \<Rightarrow> int) \<Rightarrow> PngImage" where
  "png_pixels w h data =
     \<lparr>png_width = w, png_height = h,
      rgbaAt = (\<lambda>x y. let idx = (w * y + x) * 4
        in \<lparr>rgba_r = data idx, rgba_g = data (idx + 1), rgba_b = data (idx + 2), rgba_a = data (idx + 3)\<rparr>)\<rparr>"

definition trait_filename :: "string \<Rightarrow> string" where
  "trait_filename name =
     (let n = (case break_on ''.png'' name of None \<Rightarrow> name | Some (a, b) \<Rightarrow> a @ b) in if n = [] then ''custom'' else n)"

text \<open>The file is read: \<open>None\<close> when pngjs throws. A bad file leaves the trait that was pending.\<close>

definition custom_trait_read :: "string \<Rightarrow> (int \<times> int \<times> (int \<Rightarrow> int)) option \<Rightarrow> Playground \<Rightarrow> Playground" where
  "custom_trait_read name png p =
     (case png of
        None \<Rightarrow> p\<lparr>pg_isPendingTraitValid := Some False\<rparr>
      | Some (w, h, data) \<Rightarrow>
          if w \<noteq> 32 \<or> h \<noteq> 32 then p\<lparr>pg_isPendingTraitValid := Some False\<rparr>
          else (case encodeImage (pg_encoder p) (trait_filename name) (png_pixels w h data) None of
                  (rle, enc) \<Rightarrow> refresh_traits
                    (p\<lparr>pg_encoder := enc, pg_isPendingTraitValid := Some True,
                       pg_pendingTrait := Some \<lparr>pc_type = ''heads'', pc_data = rle, pc_filename = trait_filename name\<rparr>\<rparr>)))"

definition traitKeyToTitle :: "string \<Rightarrow> string option" where
  "traitKeyToTitle = map_of [(''heads'', ''head''), (''glasses'', ''glasses''), (''bodies'', ''body''), (''accessories'', ''accessory'')]"

definition trait_type_selected :: "string \<Rightarrow> Playground \<Rightarrow> Playground" where
  "trait_type_selected ty p = refresh_traits
     (case pg_pendingTrait p of None \<Rightarrow> p | Some t \<Rightarrow> p\<lparr>pg_pendingTrait := Some (t\<lparr>pc_type := ty\<rparr>)\<rparr>)"

definition unshift_image :: "string \<Rightarrow> EncodedImage \<Rightarrow> AssetImages \<Rightarrow> AssetImages" where
  "unshift_image ty e imgs =
     (if ty = ''heads'' then imgs\<lparr>heads := e # heads imgs\<rparr>
      else if ty = ''glasses'' then imgs\<lparr>glasses_images := e # glasses_images imgs\<rparr>
      else if ty = ''bodies'' then imgs\<lparr>bodies := e # bodies imgs\<rparr>
      else if ty = ''accessories'' then imgs\<lparr>accessories := e # accessories imgs\<rparr> else imgs)"

text \<open>The types of the form are the four keys; for another one \<open>images[type]\<close> would be undefined.\<close>

definition uploadCustomTrait :: "Playground \<Rightarrow> Playground" where
  "uploadCustomTrait p =
     (case pg_pendingTrait p of
        Some t \<Rightarrow>
          (case traitKeyToTitle (pc_type t) of
             Some title \<Rightarrow>
               if pc_data t = [] \<or> pc_filename t = [] then p
               else (let p1 = p\<lparr>pg_images := unshift_image (pc_type t) \<lparr>filename = pc_filename t, image_data = Some (pc_data t)\<rparr> (pg_images p),
                              pg_pendingTrait := None, pg_isPendingTraitValid := None\<rparr>;
                         p2 = traitButtonHandler title 0 p1
                     in refresh_traits (p2\<lparr>pg_selectIndexes := (pg_selectIndexes p2)(title \<mapsto> 0)\<rparr>))
           | None \<Rightarrow> p)
      | None \<Rightarrow> p)"

definition open_noun :: "nat \<Rightarrow> Playground \<Rightarrow> Playground" where
  "open_noun i p = p\<lparr>pg_indexOfNounToDisplay := Some i, pg_displayNoun := True\<rparr>"

definition dismiss_noun :: "Playground \<Rightarrow> Playground" where
  "dismiss_noun p = p\<lparr>pg_displayNoun := False\<rparr>"

definition shown_in_modal :: "Playground \<Rightarrow> string option" where
  "shown_in_modal p =
     (case (pg_displayNoun p, pg_indexOfNounToDisplay p, pg_nounSvgs p) of
        (True, Some i, Some svgs) \<Rightarrow> if i < length svgs then Some (svgs ! i) else None | _ \<Rightarrow> None)"

text \<open>\<open>parseInt((n / 365).toFixed(2))\<close>: rounded to hundredths, then down; there are no ties.\<close>

definition years_generated :: "nat option \<Rightarrow> nat" where
  "years_generated n = (case n of None \<Rightarrow> 0 | Some k \<Rightarrow> (200 * k + 365) div 730 div 100)"

section \<open>Runs of the playground\<close>

definition random_source :: "(nat \<Rightarrow> rat) \<Rightarrow> bool" where
  "random_source r \<longleftrightarrow> (\<forall>i. 0 \<le> r i \<and> r i < 1)"

inductive playground_step :: "Playground \<Rightarrow> Playground \<Rightarrow> bool" where
  generate: "random_source r \<Longrightarrow> generateNounSvg [r] p = Some (Inr p') \<Longrightarrow> playground_step p p'"
| select: "pg_traits p = Some ts \<Longrightarrow> (title, names) \<in> set ts \<Longrightarrow> k \<le> length names \<Longrightarrow> playground_step p (trait_selected title k p)"
| file_read: "playground_step p (custom_trait_read name png p)"
| trait_type: "traitKeyToTitle ty \<noteq> None \<Longrightarrow> playground_step p (trait_type_selected ty p)"
| upload: "playground_step p (uploadCustomTrait p)"
| open_modal: "playground_step p (open_noun i p)"
| close_modal: "playground_step p (dismiss_noun p)"
| error_timer: "playground_step p (p\<lparr>pg_isPendingTraitValid := None\<rparr>)"

inductive playground_reach :: "AssetImages \<Rightarrow> string list \<Rightarrow> Playground \<Rightarrow> bool" for imgs colors where
  playground_start: "list_all random_source rs \<Longrightarrow> traits_effect rs (initial_playground imgs colors) = Some (Inr p)
    \<Longrightarrow> playground_reach imgs colors p"
| playground_more: "playground_reach imgs colors p \<Longrightarrow> playground_step p p' \<Longrightarrow> playground_reach imgs colors p'"

definition decodes :: "EncodedImage \<Rightarrow> bool" where
  "decodes e = (case image_data e of None \<Rightarrow> False | Some d \<Rightarrow> part_rects d \<noteq> None)"

definition images_ok :: "AssetImages \<Rightarrow> bool" where
  "images_ok imgs \<longleftrightarrow> list_all decodes (bodies imgs @ accessories imgs @ heads imgs @ glasses_images imgs)"

definition images_there :: "AssetImages \<Rightarrow> bool" where
  "images_there imgs \<longleftrightarrow> length (bgcolors imgs) = 2 \<and> bodies imgs \<noteq> [] \<and> accessories imgs \<noteq> [] \<and> heads imgs \<noteq> [] \<and> glasses_images imgs \<noteq> []"

definition trait_count :: "AssetImages \<Rightarrow> string \<Rightarrow> nat" where
  "trait_count imgs t = (case map_of (trait_lists imgs) t of None \<Rightarrow> 0 | Some ns \<Rightarrow> length ns)"

definition mods_ok :: "AssetImages \<Rightarrow> (string \<rightharpoonup> int) \<Rightarrow> bool" where
  "mods_ok imgs m \<longleftrightarrow> (\<forall>t i. m t = Some i \<longrightarrow> 0 \<le> i \<and> i < int (trait_count imgs t))"

definition pending_ok :: "PendingCustomTrait option \<Rightarrow> bool" where
  "pending_ok t = (case t of None \<Rightarrow> True | Some t \<Rightarrow> traitKeyToTitle (pc_type t) \<noteq> None \<and> pc_data t \<noteq> [] \<and> pc_filename t \<noteq> [])"

definition pending_decodes :: "PendingCustomTrait option \<Rightarrow> bool" where
  "pending_decodes t = (case t of None \<Rightarrow> True | Some t \<Rightarrow> part_rects (pc_data t) \<noteq> None)"

definition playground_ok :: "Playground \<Rightarrow> bool" where
  "playground_ok p \<longleftrightarrow> pg_traits p = Some (trait_lists (pg_images p)) \<and> images_there (pg_images p)
     \<and> mods_ok (pg_images p) (pg_modSeed p) \<and> palette_wf (enc_colors (pg_encoder p)) \<and> pending_ok (pg_pendingTrait p)
     \<and> (length (enc_colors (pg_encoder p)) \<le> 256 \<longrightarrow> images_ok (pg_images p) \<and> pending_decodes (pg_pendingTrait p))"

lemma trait_count_simps:
  "trait_count imgs ''background'' = 2" "trait_count imgs ''body'' = length (bodies imgs)"
  "trait_count imgs ''accessory'' = length (accessories imgs)" "trait_count imgs ''head'' = length (heads imgs)"
  "trait_count imgs ''glasses'' = length (glasses_images imgs)"
  by (simp_all add: trait_count_def trait_lists_def)

lemma trait_lists_mem:
  assumes "(t, ns) \<in> set (trait_lists imgs)"
  shows "trait_count imgs t = length ns"
proof -
  have "distinct (map fst (trait_lists imgs))" by (simp add: trait_lists_def)
  then show ?thesis using assms by (simp add: trait_count_def)
qed

lemma trait_count_unshift: "trait_count imgs t \<le> trait_count (unshift_image ty e imgs) t"
  by (simp add: trait_count_def trait_lists_def unshift_image_def)

lemma unshift_ok:
  "images_there imgs \<Longrightarrow> images_there (unshift_image ty e imgs)"
  "images_ok imgs \<Longrightarrow> decodes e \<Longrightarrow> images_ok (unshift_image ty e imgs)"
  by (simp_all add: images_there_def images_ok_def unshift_image_def)

lemma mods_okD: "mods_ok imgs m \<Longrightarrow> m t = Some i \<Longrightarrow> 0 \<le> i \<and> i < int (trait_count imgs t)"
  by (simp add: mods_ok_def)

lemma pick_range:
  assumes "mods_ok imgs m" and "0 \<le> d" "d < int (trait_count imgs t)"
  shows "0 \<le> (case m t of Some i \<Rightarrow> i | None \<Rightarrow> d)" "(case m t of Some i \<Rightarrow> i | None \<Rightarrow> d) < int (trait_count imgs t)"
  using mods_okD[OF assms(1), of t] assms(2,3) by (simp_all split: option.split)

lemma mod_seed_range:
  assumes "mods_ok imgs m" and there: "images_there imgs" and "random_source r"
  defines "s \<equiv> mod_seed m (getRandomNounSeed imgs r)"
  shows "0 \<le> background s \<and> background s < 2" "0 \<le> body s \<and> body s < int (length (bodies imgs))"
    "0 \<le> accessory s \<and> accessory s < int (length (accessories imgs))" "0 \<le> head s \<and> head s < int (length (heads imgs))"
    "0 \<le> glasses s \<and> glasses s < int (length (glasses_images imgs))"
proof -
  have r: "0 \<le> r i" "r i < 1" for i using assms(3) by (simp_all add: random_source_def)
  note rr = random_index_range[OF r]
  note p = pick_range[OF assms(1)]
  have ne: "bgcolors imgs \<noteq> []" "length (bgcolors imgs) = 2" "bodies imgs \<noteq> []" "accessories imgs \<noteq> []" "heads imgs \<noteq> []"
    "glasses_images imgs \<noteq> []" using there by (auto simp: images_there_def)
  note s = s_def mod_seed_def getRandomNounSeed_def Let_def
  show "0 \<le> background s \<and> background s < 2"
    using p[of "random_index (r 0) (bgcolors imgs)" "''background''"] rr[OF ne(1), of 0] ne(2) by (simp add: s trait_count_simps del: One_nat_def)
  show "0 \<le> body s \<and> body s < int (length (bodies imgs))"
    using p[of "random_index (r 1) (bodies imgs)" "''body''"] rr[OF ne(3), of 1] by (simp add: s trait_count_simps del: One_nat_def)
  show "0 \<le> accessory s \<and> accessory s < int (length (accessories imgs))"
    using p[of "random_index (r 2) (accessories imgs)" "''accessory''"] rr[OF ne(4), of 2] by (simp add: s trait_count_simps del: One_nat_def)
  show "0 \<le> head s \<and> head s < int (length (heads imgs))"
    using p[of "random_index (r 3) (heads imgs)" "''head''"] rr[OF ne(5), of 3] by (simp add: s trait_count_simps del: One_nat_def)
  show "0 \<le> glasses s \<and> glasses s < int (length (glasses_images imgs))"
    using p[of "random_index (r 4) (glasses_images imgs)" "''glasses''"] rr[OF ne(6), of 4] by (simp add: s trait_count_simps del: One_nat_def)
qed

text \<open>The drawn parts: the data of the four chosen images.\<close>

definition chosen_parts :: "AssetImages \<Rightarrow> NounSeed \<Rightarrow> EncodedImage list" where
  "chosen_parts imgs s = [bodies imgs ! nat (body s), accessories imgs ! nat (accessory s), heads imgs ! nat (head s), glasses_images imgs ! nat (glasses s)]"

definition part_data :: "EncodedImage \<Rightarrow> string" where
  "part_data e = (case image_data e of None \<Rightarrow> [] | Some d \<Rightarrow> d)"

lemma decodes_data: "decodes e \<Longrightarrow> image_data e = Some (part_data e) \<and> part_rects (part_data e) \<noteq> None"
  by (simp add: decodes_def part_data_def split: option.splits)

lemma chosen_parts_decode:
  assumes "images_ok imgs" and "mods_ok imgs m" "images_there imgs" "random_source r"
  defines "s \<equiv> mod_seed m (getRandomNounSeed imgs r)"
  shows "list_all decodes (chosen_parts imgs s)"
    "those (map (\<lambda>p. Option.bind p image_data) (nd_parts (getNounData imgs s))) = Some (map part_data (chosen_parts imgs s))"
proof -
  note rng = mod_seed_range[OF assms(2-4), folded s_def]
  have ix: "bodies imgs ! nat (body s) \<in> set (bodies imgs)" "accessories imgs ! nat (accessory s) \<in> set (accessories imgs)"
    "heads imgs ! nat (head s) \<in> set (heads imgs)" "glasses_images imgs ! nat (glasses s) \<in> set (glasses_images imgs)"
    using rng by (auto simp: nat_less_iff)
  then show d: "list_all decodes (chosen_parts imgs s)"
    using assms(1) by (simp add: chosen_parts_def images_ok_def list_all_iff)
  have "nd_parts (getNounData imgs s) = map Some (chosen_parts imgs s)"
    using rng by (simp add: getNounData_def chosen_parts_def array_get_Some)
  then show "those (map (\<lambda>p. Option.bind p image_data) (nd_parts (getNounData imgs s))) = Some (map part_data (chosen_parts imgs s))"
    using d by (simp add: chosen_parts_def decodes_data)
qed

lemma buildSVG_of_decodable: "list_all (\<lambda>d. part_rects d \<noteq> None) parts \<Longrightarrow> \<exists>svg. buildSVG parts palette bg = Some svg"
  using build_parts_eq[of parts palette "svg_header bg"] by (simp add: buildSVG_def)

lemma generate_returns:
  assumes ok: "playground_ok p" and small: "length (enc_colors (pg_encoder p)) \<le> 256" and r: "random_source r"
  defines "s \<equiv> mod_seed (pg_modSeed p) (getRandomNounSeed (pg_images p) r)"
  shows "\<exists>svg. buildSVG (map part_data (chosen_parts (pg_images p) s)) (encoder_data_palette p) (nd_background (getNounData (pg_images p) s)) = Some svg
    \<and> generateNounSvg [r] p = Some (Inr (p\<lparr>pg_nounSvgs := Some (svg # (case pg_nounSvgs p of None \<Rightarrow> [] | Some prev \<Rightarrow> prev))\<rparr>))"
proof -
  have i: "images_ok (pg_images p)" "mods_ok (pg_images p) (pg_modSeed p)" "images_there (pg_images p)"
    using ok small by (simp_all add: playground_ok_def)
  note c = chosen_parts_decode[OF i r, folded s_def]
  have "list_all (\<lambda>d. part_rects d \<noteq> None) (map part_data (chosen_parts (pg_images p) s))"
    using c(1) by (auto simp: list_all_iff dest: decodes_data)
  then obtain svg where svg: "buildSVG (map part_data (chosen_parts (pg_images p) s)) (encoder_data_palette p)
      (nd_background (getNounData (pg_images p) s)) = Some svg" using buildSVG_of_decodable by blast
  then have "noun_svg (encoder_data_palette p) (generated_data r p) = Some (Inr svg)"
    using c(2) by (simp add: noun_svg_def generated_data_def s_def[symmetric])
  then show ?thesis using svg by (simp split: option.split)
qed

lemma trait_filename_nonempty: "trait_filename name \<noteq> []"
  by (simp add: trait_filename_def Let_def)

lemma encode_trait:
  assumes wf: "palette_wf (enc_colors enc)" and e: "encodeImage enc name (png_pixels 32 32 data) None = (rle, enc')"
  shows "palette_wf (enc_colors enc')" "length (enc_colors enc) \<le> length (enc_colors enc')" "rle \<noteq> []"
    "length (enc_colors enc') \<le> 256 \<Longrightarrow> \<exists>rs. part_rects rle = Some rs \<and> (\<forall>X Y h.
      (\<exists>rc \<in> set rs. covers rc X Y \<and> palette_color (omap_keys (enc_colors enc')) (rcColor rc) = h)
        \<longleftrightarrow> visible (image_of (png_pixels 32 32 data)) X Y \<and> h = pixel_hex (image_of (png_pixels 32 32 data)) (X, Y))"
proof -
  show "palette_wf (enc_colors enc')" "length (enc_colors enc) \<le> length (enc_colors enc')"
    using encodeImage_palette[of enc name "png_pixels 32 32 data" None] e wf by auto
  obtain im' where rle: "toRLE (image_of (png_pixels 32 32 data)) (enc_colors enc) = (rle, im', enc_colors enc')"
    using encodeImage_facts[OF e] by blast
  then show "rle \<noteq> []" by (auto simp: toRLE_def Let_def split: prod.splits)
  assume small: "length (enc_colors enc') \<le> 256"
  have dim: "0 < img_width (image_of (png_pixels 32 32 data))" "img_width (image_of (png_pixels 32 32 data)) \<le> 255"
    "0 < img_height (image_of (png_pixels 32 32 data))" "img_height (image_of (png_pixels 32 32 data)) \<le> 256"
    by (simp_all add: image_of_def new_Image_def png_pixels_def)
  show "\<exists>rs. part_rects rle = Some rs \<and> (\<forall>X Y h.
      (\<exists>rc \<in> set rs. covers rc X Y \<and> palette_color (omap_keys (enc_colors enc')) (rcColor rc) = h)
        \<longleftrightarrow> visible (image_of (png_pixels 32 32 data)) X Y \<and> h = pixel_hex (image_of (png_pixels 32 32 data)) (X, Y))"
    using rects_of_encoded[OF dim wf rle small, of "[]"] by simp
qed

lemma playground_ok_read:
  assumes "playground_ok p"
  shows "playground_ok (custom_trait_read name png p)"
proof (cases png)
  case None
  then show ?thesis using assms by (simp add: custom_trait_read_def playground_ok_def)
next
  case (Some wd)
  obtain w h data where wd: "wd = (w, h, data)" by (cases wd)
  obtain rle enc where e: "encodeImage (pg_encoder p) (trait_filename name) (png_pixels w h data) None = (rle, enc)"
    by (cases "encodeImage (pg_encoder p) (trait_filename name) (png_pixels w h data) None")
  show ?thesis
  proof (cases "w = 32 \<and> h = 32")
    case False
    then show ?thesis using assms Some wd by (auto simp: custom_trait_read_def playground_ok_def)
  next
    case True
    have wf: "palette_wf (enc_colors (pg_encoder p))" using assms by (simp add: playground_ok_def)
    note t = encode_trait[OF wf e[unfolded True[THEN conjunct1] True[THEN conjunct2]]]
    have eq: "custom_trait_read name png p = refresh_traits (p\<lparr>pg_encoder := enc, pg_isPendingTraitValid := Some True,
         pg_pendingTrait := Some \<lparr>pc_type = ''heads'', pc_data = rle, pc_filename = trait_filename name\<rparr>\<rparr>)"
      using True Some wd e by (simp add: custom_trait_read_def)
    have "pending_ok (Some \<lparr>pc_type = ''heads'', pc_data = rle, pc_filename = trait_filename name\<rparr>)"
      using t(3) trait_filename_nonempty by (simp add: pending_ok_def traitKeyToTitle_def)
    moreover have "images_ok (pg_images p) \<and> pending_decodes (Some \<lparr>pc_type = ''heads'', pc_data = rle, pc_filename = trait_filename name\<rparr>)"
      if "length (enc_colors enc) \<le> 256"
      using t(2) t(4)[OF that] that assms by (auto simp: pending_decodes_def playground_ok_def)
    ultimately show ?thesis using assms t(1) unfolding eq by (simp add: playground_ok_def refresh_traits_def)
  qed
qed

lemma title_of_key: "traitKeyToTitle ty = Some title \<Longrightarrow> 0 < trait_count (unshift_image ty e imgs) title"
  by (auto simp: traitKeyToTitle_def unshift_image_def trait_count_simps split: if_splits)

lemma playground_ok_upload:
  assumes "playground_ok p"
  shows "playground_ok (uploadCustomTrait p)"
proof (cases "pg_pendingTrait p")
  case None then show ?thesis using assms by (simp add: uploadCustomTrait_def)
next
  case (Some t)
  have pend: "pc_data t \<noteq> []" "pc_filename t \<noteq> []" using assms Some by (auto simp: playground_ok_def pending_ok_def)
  obtain title where title: "traitKeyToTitle (pc_type t) = Some title"
    using assms Some by (auto simp: playground_ok_def pending_ok_def)
  let ?e = "\<lparr>filename = pc_filename t, image_data = Some (pc_data t)\<rparr>"
  let ?imgs = "unshift_image (pc_type t) ?e (pg_images p)"
  have "mods_ok ?imgs ((pg_modSeed p)(title \<mapsto> 0))"
  proof -
    have "0 \<le> i \<and> i < int (trait_count ?imgs u)" if "((pg_modSeed p)(title \<mapsto> 0)) u = Some i" for u i
    proof (cases "u = title")
      case True then show ?thesis using that title_of_key[OF title, where e = ?e and imgs = "pg_images p"] by simp
    next
      case False
      then have "0 \<le> i \<and> i < int (trait_count (pg_images p) u)"
        using that assms mods_okD[of "pg_images p" "pg_modSeed p" u i] by (simp add: playground_ok_def)
      then show ?thesis using trait_count_unshift[of "pg_images p" u "pc_type t" ?e] by linarith
    qed
    then show ?thesis by (simp only: mods_ok_def) blast
  qed
  moreover have "decodes ?e" if "part_rects (pc_data t) \<noteq> None" using that by (simp add: decodes_def)
  ultimately show ?thesis
    using assms Some title pend unshift_ok[where imgs = "pg_images p" and ty = "pc_type t" and e = ?e]
    by (simp add: uploadCustomTrait_def Let_def playground_ok_def traitButtonHandler_def refresh_traits_def
        pending_ok_def pending_decodes_def)
qed

lemma playground_ok_select:
  assumes "playground_ok p" and "pg_traits p = Some ts" and "(title, names) \<in> set ts" and "k \<le> length names"
  shows "playground_ok (trait_selected title k p)"
proof -
  have c: "trait_count (pg_images p) title = length names"
    using assms(1-3) by (auto simp: playground_ok_def intro: trait_lists_mem)
  have "mods_ok (pg_images p) (pg_modSeed (traitButtonHandler title (int k - 1) p))"
    using assms(1,4) c by (auto simp: playground_ok_def traitButtonHandler_def mods_ok_def)
  then show ?thesis
    using assms(1) by (simp add: trait_selected_def Let_def playground_ok_def refresh_traits_def)
      (simp add: traitButtonHandler_def split: if_splits)
qed

lemma generate_frame:
  "generateNounSvg rs p = Some (Inr p') \<Longrightarrow> \<exists>svgs. p' = p\<lparr>pg_nounSvgs := svgs\<rparr>"
proof (induction rs p rule: generateNounSvg.induct)
  case (1 p)
  then have "p' = p\<lparr>pg_nounSvgs := pg_nounSvgs p\<rparr>" by simp
  then show ?case ..
next
  case (2 random rs p)
  then show ?case by (auto split: option.splits sum.splits)
qed

lemma playground_ok_svgs: "playground_ok (p\<lparr>pg_nounSvgs := s\<rparr>) = playground_ok p"
  by (simp add: playground_ok_def)

lemma playground_step_ok: "playground_step p p' \<Longrightarrow> playground_ok p \<Longrightarrow> playground_ok p'"
proof (induction rule: playground_step.induct)
  case (generate r p p')
  then show ?case using generate_frame[OF generate(2)] playground_ok_svgs by auto
next
  case (select p ts title names k)
  then show ?case by (intro playground_ok_select)
next
  case (file_read p name png) then show ?case by (intro playground_ok_read)
next
  case (trait_type ty p)
  then show ?case by (auto simp: trait_type_selected_def refresh_traits_def playground_ok_def pending_ok_def pending_decodes_def
        split: option.splits)
next
  case (upload p) then show ?case by (intro playground_ok_upload)
qed (simp_all add: open_noun_def dismiss_noun_def playground_ok_def)

definition assets_ok :: "AssetImages \<Rightarrow> string list \<Rightarrow> bool" where
  "assets_ok imgs colors \<longleftrightarrow> images_there imgs \<and> images_ok imgs \<and> (\<exists>cs. colors = '''' # cs \<and> distinct colors)"

lemma playground_reach_ok:
  assumes "assets_ok imgs colors"
  shows "playground_reach imgs colors p \<Longrightarrow> playground_ok p"
proof (induction rule: playground_reach.induct)
  case (playground_start rs p)
  have "palette_wf (enc_colors (new_PNGCollectionEncoder (Some colors)))"
    using assms by (intro new_encoder_palette) (auto simp: assets_ok_def)
  then have ok: "playground_ok ((initial_playground imgs colors)\<lparr>pg_traits := Some (trait_lists imgs)\<rparr>)"
    using assms by (simp add: playground_ok_def initial_playground_def assets_ok_def mods_ok_def pending_ok_def pending_decodes_def)
  have "pg_images (initial_playground imgs colors) = imgs" "pg_initLoad (initial_playground imgs colors)"
    by (simp_all add: initial_playground_def)
  then obtain p1 where "generateNounSvg rs ((initial_playground imgs colors)\<lparr>pg_traits := Some (trait_lists imgs)\<rparr>) = Some (Inr p1)"
    "p = p1\<lparr>pg_initLoad := False\<rparr>"
    using playground_start(2) by (auto simp: traits_effect_def Let_def bind_result_Inr_iff)
  then show ?case using generate_frame ok playground_ok_svgs by (fastforce simp: playground_ok_def)
qed (rule playground_step_ok)

section \<open>The uploaded trait is drawn\<close>

text \<open>Where a trait is among the parts of a Noun.\<close>

definition part_position :: "string \<Rightarrow> nat" where
  "part_position ty = (if ty = ''bodies'' then 0 else if ty = ''accessories'' then 1 else if ty = ''heads'' then 2 else 3)"

text \<open>Reading the file, choosing its type and pressing Upload.\<close>

definition upload_run :: "string \<Rightarrow> (int \<Rightarrow> int) \<Rightarrow> string \<Rightarrow> Playground \<Rightarrow> Playground" where
  "upload_run name data ty p = uploadCustomTrait (trait_type_selected ty (custom_trait_read name (Some (32, 32, data)) p))"

lemma upload_run_reach:
  assumes "playground_reach imgs colors p" and "traitKeyToTitle ty \<noteq> None"
  shows "playground_reach imgs colors (upload_run name data ty p)"
  unfolding upload_run_def using assms
  by (intro playground_more[OF _ upload] playground_more[OF _ trait_type] playground_more[OF _ file_read])

lemma upload_run_state:
  assumes title: "traitKeyToTitle ty = Some title" and e: "encodeImage (pg_encoder p) (trait_filename name) (png_pixels 32 32 data) None = (rle, enc)"
    and ne: "rle \<noteq> []"
  defines "q \<equiv> upload_run name data ty p"
  shows "pg_images q = unshift_image ty \<lparr>filename = trait_filename name, image_data = Some rle\<rparr> (pg_images p)"
    "pg_modSeed q = (pg_modSeed p)(title \<mapsto> 0)" "pg_encoder q = enc" "pg_nounSvgs q = pg_nounSvgs p"
  using title e ne trait_filename_nonempty
  by (simp_all add: q_def upload_run_def custom_trait_read_def trait_type_selected_def refresh_traits_def uploadCustomTrait_def
      traitButtonHandler_def Let_def)

lemma chosen_upload:
  assumes "traitKeyToTitle ty = Some title"
  shows "chosen_parts (unshift_image ty e imgs) (mod_seed (m(title \<mapsto> 0)) s) ! part_position ty = e"
  using assms by (auto simp: traitKeyToTitle_def unshift_image_def mod_seed_def chosen_parts_def part_position_def Let_def
      split: if_splits)


text \<open>One image of every kind, and a file with a single red pixel.\<close>

definition tiny_assets :: AssetImages where
  "tiny_assets = (let e = \<lparr>filename = ''one'', image_data = Some ''0x00000100000101''\<rparr> in
     \<lparr>bodies = [e], accessories = [e], heads = [e], glasses_images = [e], bgcolors = [''26b1f3'', ''d8dadf'']\<rparr>)"

definition red_dot :: "int \<Rightarrow> int" where
  "red_dot i = (if i = 0 \<or> i = 3 then 255 else 0)"

definition zero_source :: "nat \<Rightarrow> rat" where
  "zero_source i = 0"

lemma tiny_assets_ok: "assets_ok tiny_assets ['''', ''000000'']"
proof -
  have "\<forall>(n, c) \<in> set (rects (decodeImage ''0x00000100000101'')). n \<noteq> None" by code_simp
  then have "part_rects ''0x00000100000101'' \<noteq> None"
    unfolding part_rects_def Let_def by (intro draw_runs_ends) (simp add: list_all_iff)
  then show ?thesis
    by (simp add: assets_ok_def images_there_def images_ok_def decodes_def tiny_assets_def Let_def)
qed

definition tiny_start :: Playground where
  "tiny_start = (initial_playground tiny_assets ['''', ''000000''])\<lparr>pg_traits := Some (trait_lists tiny_assets), pg_initLoad := False\<rparr>"

lemma tiny_start_reach: "playground_reach tiny_assets ['''', ''000000''] tiny_start"
  by (rule playground_start[of "[]"])
    (simp_all add: traits_effect_def initial_playground_def tiny_start_def)

lemma tiny_upload_small: "length (enc_colors (pg_encoder (upload_run ''dot.png'' red_dot ''heads'' tiny_start))) \<le> 256"
  by code_simp


section \<open>Other facts\<close>

text \<open>The modal's size and the default one fit the builder's 320 pixels; an SVG without a size passes the check too.\<close>

lemma sizes_scale: "canScale 320 512" "canScale 320 320" "canScale 0 desired" "\<not> canScale 320 500"
  by (simp_all add: canScale_def)

text \<open>364 Nouns count as a year.\<close>

lemma years_round_up: "years_generated (Some 364) = 1" "years_generated (Some 363) = 0"
  by (simp_all add: years_generated_def)

text \<open>A file that is refused leaves the trait of the file before to be uploaded.\<close>

lemma bad_file_keeps_pending:
  "pg_pendingTrait (custom_trait_read name None p) = pg_pendingTrait p"
  "w \<noteq> 32 \<Longrightarrow> pg_pendingTrait (custom_trait_read name (Some (w, h, data)) p) = pg_pendingTrait p"
  by (simp_all add: custom_trait_read_def)

text \<open>The Noun whose traits are all the first of their list is never shown by the auction's component.\<close>

lemma zero_seed_blank:
  assumes "s = \<lparr>background = 0, body = 0, accessory = 0, head = 0, glasses = 0\<rparr>"
  shows "StandaloneNounWithSeed picture (Some i) (Some s) True link = Some (Inr (blank_noun, None))"
  using assms by (simp add: StandaloneNounWithSeed_def seedIsInvalid_def)

text \<open>A Noun generated while the modal is open moves every picture one place on.\<close>

lemma modal_follows_index:
  assumes "shown_in_modal p = Some svg" and "generateNounSvg [r] p = Some (Inr p')"
  shows "case pg_indexOfNounToDisplay p of Some (Suc i) \<Rightarrow> map_option (\<lambda>s. s ! i) (pg_nounSvgs p) = shown_in_modal p' | _ \<Rightarrow> True"
  using assms by (auto simp: shown_in_modal_def split: option.splits sum.splits bool.splits if_splits nat.split)

end
