(* ===== verification/Web_Queries.thy ===== *)
theory Web_Queries
  imports Js_Strings
begin

text \<open>
  The GraphQL queries that the web app (\<^verbatim>\<open>wrappers/subgraph.ts\<close>), its serverless functions
  (\<^verbatim>\<open>functions/theGraph.ts\<close>) and the bots (\<^verbatim>\<open>nouns-bots/src/subgraph.ts\<close>) send, as the trees that their texts parse
  to, and \<^verbatim>\<open>schema.graphql\<close> as a table of types. \<open>query_ok\<close> is what GraphQL requires of a query against the interface
  that graph-node documents for such a schema: a root field per type for one row (\<open>id\<close>) and one for a list (\<open>where\<close>,
  \<open>first\<close>, \<open>orderBy\<close>, \<open>block\<close>), list fields with the same arguments, leaves exactly at scalars. A text that is
  interpolated into a query is a value only if it lexes as one: \<open>bare\<close> and \<open>quoted\<close> give \<open>GBroken\<close> otherwise.
\<close>

section \<open>Queries\<close>

datatype gvalue =
    GInt int
  | GStr string
  | GEnum string
  | GObj "(string \<times> gvalue) list"
  | GList "gvalue list"
  | GBroken string

datatype gfield = GField (gf_name: string) (gf_args: "(string \<times> gvalue) list") (gf_sub: "gfield list")

abbreviation leaf :: "string \<Rightarrow> gfield" where
  "leaf n \<equiv> GField n [] []"

abbreviation node :: "string \<Rightarrow> gfield list \<Rightarrow> gfield" where
  "node n sub \<equiv> GField n [] sub"

definition decimal :: "string \<Rightarrow> bool" where
  "decimal s \<longleftrightarrow> s \<noteq> [] \<and> list_all (is_digit_in 10) s"

definition quotable :: "string \<Rightarrow> bool" where
  "quotable s \<longleftrightarrow> list_all (\<lambda>c. c \<noteq> CHR 0x22 \<and> c \<noteq> CHR 0x5C \<and> c \<noteq> CHR 0x0A \<and> c \<noteq> CHR 0x0D) s"

definition bare :: "string \<Rightarrow> gvalue" where
  "bare s = (if decimal s then GInt (int (digits_value 10 s)) else GBroken s)"

definition quoted :: "string \<Rightarrow> gvalue" where
  "quoted s = (if quotable s then GStr s else GBroken s)"

definition page :: "int \<Rightarrow> int option \<Rightarrow> gvalue" where
  "page default_first first = GInt (case first of None \<Rightarrow> default_first | Some n \<Rightarrow> n)"

section \<open>The queries of the web app\<close>

definition seedsQuery :: "int option \<Rightarrow> gfield" where
  "seedsQuery first =
     GField ''seeds'' [(''first'', page 1000 first)]
       [leaf ''id'', leaf ''background'', leaf ''body'', leaf ''accessory'', leaf ''head'', leaf ''glasses'']"

definition proposalQuery :: "string \<Rightarrow> gfield" where
  "proposalQuery i =
     GField ''proposal'' [(''id'', bare i)]
       [leaf ''id'', leaf ''description'', leaf ''status'', leaf ''proposalThreshold'', leaf ''quorumVotes'',
        leaf ''forVotes'', leaf ''againstVotes'', leaf ''abstainVotes'', leaf ''createdTransactionHash'',
        leaf ''createdBlock'', leaf ''startBlock'', leaf ''endBlock'', leaf ''executionETA'', leaf ''targets'',
        leaf ''values'', leaf ''signatures'', leaf ''calldatas'', node ''proposer'' [leaf ''id'']]"

definition partialProposalsQuery :: "int option \<Rightarrow> gfield" where
  "partialProposalsQuery first =
     GField ''proposals''
       [(''first'', page 1000 first), (''orderBy'', GEnum ''createdBlock''), (''orderDirection'', GEnum ''asc'')]
       [leaf ''id'', leaf ''title'', leaf ''status'', leaf ''forVotes'', leaf ''againstVotes'', leaf ''abstainVotes'',
        leaf ''quorumVotes'', leaf ''executionETA'', leaf ''startBlock'', leaf ''endBlock'']"

definition auctionQuery :: "int \<Rightarrow> gfield" where
  "auctionQuery auctionId =
     GField ''auction'' [(''id'', GInt auctionId)]
       [leaf ''id'', leaf ''amount'', leaf ''settled'', node ''bidder'' [leaf ''id''], leaf ''startTime'', leaf ''endTime'',
        node ''noun''
          [leaf ''id'',
           node ''seed''
             [leaf ''id'', leaf ''background'', leaf ''body'', leaf ''accessory'', leaf ''head'', leaf ''glasses''],
           node ''owner'' [leaf ''id'']],
        node ''bids'' [leaf ''id'', leaf ''blockNumber'', leaf ''txIndex'', leaf ''amount'']]"

definition bidsByAuctionQuery :: "string \<Rightarrow> gfield" where
  "bidsByAuctionQuery auctionId =
     GField ''bids'' [(''where'', GObj [(''auction'', quoted auctionId)])]
       [leaf ''id'', leaf ''amount'', leaf ''blockNumber'', leaf ''blockTimestamp'', leaf ''txIndex'',
        node ''bidder'' [leaf ''id''], node ''noun'' [leaf ''id'']]"

definition nounQuery :: "string \<Rightarrow> gfield" where
  "nounQuery i =
     GField ''noun'' [(''id'', quoted i)]
       [leaf ''id'',
        node ''seed'' [leaf ''background'', leaf ''body'', leaf ''accessory'', leaf ''head'', leaf ''glasses''],
        node ''owner'' [leaf ''id'']]"

definition nounsIndex :: gfield where
  "nounsIndex = node ''nouns'' [leaf ''id'', node ''owner'' [leaf ''id'']]"

definition latestAuctionsQuery :: gfield where
  "latestAuctionsQuery =
     GField ''auctions''
       [(''orderBy'', GEnum ''startTime''), (''orderDirection'', GEnum ''desc''), (''first'', GInt 1000)]
       [leaf ''id'', leaf ''amount'', leaf ''settled'', node ''bidder'' [leaf ''id''], leaf ''startTime'', leaf ''endTime'',
        node ''noun'' [leaf ''id'', node ''owner'' [leaf ''id'']],
        node ''bids''
          [leaf ''id'', leaf ''amount'', leaf ''blockNumber'', leaf ''blockTimestamp'', leaf ''txIndex'',
           node ''bidder'' [leaf ''id'']]]"

definition latestBidsQuery :: "int option \<Rightarrow> gfield" where
  "latestBidsQuery first =
     GField ''bids''
       [(''first'', page 10 first), (''orderBy'', GEnum ''blockTimestamp''), (''orderDirection'', GEnum ''desc'')]
       [leaf ''id'', node ''bidder'' [leaf ''id''], leaf ''amount'', leaf ''blockTimestamp'', leaf ''txIndex'',
        leaf ''blockNumber'',
        node ''auction'' [leaf ''id'', leaf ''startTime'', leaf ''endTime'', leaf ''settled'']]"

definition nounVotingHistoryQuery :: "int \<Rightarrow> int option \<Rightarrow> gfield" where
  "nounVotingHistoryQuery unounId first =
     GField ''noun'' [(''id'', GInt unounId)]
       [leaf ''id'',
        GField ''votes'' [(''first'', page 1000 first)]
          [leaf ''blockNumber'', node ''proposal'' [leaf ''id''], leaf ''support'', leaf ''supportDetailed'',
           node ''voter'' [leaf ''id'']]]"

definition nounTransferHistoryQuery :: "int \<Rightarrow> int option \<Rightarrow> gfield" where
  "nounTransferHistoryQuery unounId first =
     GField ''transferEvents''
       [(''where'', GObj [(''noun'', quoted (int_to_dec unounId))]), (''first'', page 1000 first)]
       [leaf ''id'', node ''previousHolder'' [leaf ''id''], node ''newHolder'' [leaf ''id''], leaf ''blockNumber'']"

definition nounDelegationHistoryQuery :: "int \<Rightarrow> int option \<Rightarrow> gfield" where
  "nounDelegationHistoryQuery unounId first =
     GField ''delegationEvents''
       [(''where'', GObj [(''noun'', quoted (int_to_dec unounId))]), (''first'', page 1000 first)]
       [leaf ''id'', node ''previousDelegate'' [leaf ''id''], node ''newDelegate'' [leaf ''id''], leaf ''blockNumber'']"

definition createTimestampAllProposals :: gfield where
  "createTimestampAllProposals =
     GField ''proposals''
       [(''orderBy'', GEnum ''createdTimestamp''), (''orderDirection'', GEnum ''asc''), (''first'', GInt 1000)]
       [leaf ''id'', leaf ''createdTimestamp'']"

definition proposalVotesQuery :: "string \<Rightarrow> gfield" where
  "proposalVotesQuery proposalId =
     GField ''votes'' [(''where'', GObj [(''proposal'', quoted proposalId), (''votesRaw_gt'', GInt 0)])]
       [leaf ''supportDetailed'', node ''voter'' [leaf ''id'']]"

definition delegateNounsAtBlockQuery :: "string list \<Rightarrow> int \<Rightarrow> gfield" where
  "delegateNounsAtBlockQuery delegates block =
     GField ''delegates''
       [(''where'', GObj [(''id_in'', GList (map GStr delegates))]), (''block'', GObj [(''number'', GInt block)])]
       [leaf ''id'', node ''nounsRepresented'' [leaf ''id'']]"

definition currentlyDelegatedNouns :: "string \<Rightarrow> gfield" where
  "currentlyDelegatedNouns delegate =
     GField ''delegates'' [(''where'', GObj [(''id'', quoted delegate)])]
       [leaf ''id'', node ''nounsRepresented'' [leaf ''id'']]"

definition totalNounSupplyAtPropSnapshot :: "string \<Rightarrow> gfield" where
  "totalNounSupplyAtPropSnapshot proposalId =
     GField ''proposals'' [(''where'', GObj [(''id'', bare proposalId)])] [leaf ''totalSupply'']"

definition propUsingDynamicQuorum :: "string \<Rightarrow> gfield" where
  "propUsingDynamicQuorum propoaslId = GField ''proposal'' [(''id'', quoted propoaslId)] [leaf ''quorumCoefficient'']"

section \<open>The queries of the functions and of the bots\<close>

definition nounsGql :: gfield where
  "nounsGql =
     node ''nouns''
       [leaf ''id'', node ''owner'' [leaf ''id'', node ''delegate'' [leaf ''id'']],
        node ''votes'' [node ''proposal'' [leaf ''id''], leaf ''supportDetailed''],
        node ''seed'' [leaf ''background'', leaf ''body'', leaf ''accessory'', leaf ''head'', leaf ''glasses'']]"

definition lastAuctionBidsQuery :: gfield where
  "lastAuctionBidsQuery =
     GField ''auctions''
       [(''orderBy'', GEnum ''startTime''), (''orderDirection'', GEnum ''desc''), (''first'', GInt 1)]
       [leaf ''id'', leaf ''endTime'',
        GField ''bids''
          [(''orderBy'', GEnum ''blockNumber''), (''orderDirection'', GEnum ''desc''), (''first'', GInt 1)]
          [leaf ''id'', leaf ''amount'', node ''bidder'' [leaf ''id'']]]"

definition allProposalsQuery :: gfield where
  "allProposalsQuery =
     node ''proposals''
       [leaf ''id'', node ''proposer'' [leaf ''id''], leaf ''description'', leaf ''status'', leaf ''quorumVotes'',
        leaf ''proposalThreshold'', leaf ''startBlock'', leaf ''endBlock'', leaf ''executionETA'',
        node ''votes''
          [leaf ''id'', node ''voter'' [leaf ''id''], leaf ''votes'', leaf ''supportDetailed'', leaf ''reason'']]"

section \<open>The schema\<close>

text \<open>The types of \<^verbatim>\<open>schema.graphql\<close>. A list of scalars is a scalar here: neither takes a selection.\<close>

datatype gscalar = SID | SBigInt | SInt | SString | SBytes | SBoolean | SStatus
datatype gtype = Scalar gscalar | Scalars gscalar | Ref string | ListRef string

definition schema :: "(string \<times> (string \<times> gtype) list) list" where
  "schema =
     [(''DelegationEvent'',
         [(''id'', Scalar SID), (''noun'', Ref ''Noun''), (''previousDelegate'', Ref ''Delegate''),
          (''newDelegate'', Ref ''Delegate''), (''blockNumber'', Scalar SBigInt), (''blockTimestamp'', Scalar SBigInt)]),
      (''TransferEvent'',
         [(''id'', Scalar SID), (''noun'', Ref ''Noun''), (''previousHolder'', Ref ''Account''),
          (''newHolder'', Ref ''Account''), (''blockNumber'', Scalar SBigInt), (''blockTimestamp'', Scalar SBigInt)]),
      (''Seed'',
         [(''id'', Scalar SID), (''background'', Scalar SBigInt), (''body'', Scalar SBigInt),
          (''accessory'', Scalar SBigInt), (''head'', Scalar SBigInt), (''glasses'', Scalar SBigInt)]),
      (''Noun'',
         [(''id'', Scalar SID), (''seed'', Ref ''Seed''), (''owner'', Ref ''Account''), (''votes'', ListRef ''Vote'')]),
      (''Bid'',
         [(''id'', Scalar SID), (''noun'', Ref ''Noun''), (''amount'', Scalar SBigInt), (''bidder'', Ref ''Account''),
          (''blockNumber'', Scalar SBigInt), (''txIndex'', Scalar SBigInt), (''auction'', Ref ''Auction''),
          (''blockTimestamp'', Scalar SBigInt)]),
      (''Auction'',
         [(''id'', Scalar SID), (''noun'', Ref ''Noun''), (''amount'', Scalar SBigInt), (''startTime'', Scalar SBigInt),
          (''endTime'', Scalar SBigInt), (''bidder'', Ref ''Account''), (''settled'', Scalar SBoolean),
          (''bids'', ListRef ''Bid'')]),
      (''Account'',
         [(''id'', Scalar SID), (''delegate'', Ref ''Delegate''), (''tokenBalanceRaw'', Scalar SBigInt),
          (''tokenBalance'', Scalar SBigInt), (''totalTokensHeldRaw'', Scalar SBigInt),
          (''totalTokensHeld'', Scalar SBigInt), (''nouns'', ListRef ''Noun'')]),
      (''Delegate'',
         [(''id'', Scalar SID), (''delegatedVotesRaw'', Scalar SBigInt), (''delegatedVotes'', Scalar SBigInt),
          (''tokenHoldersRepresentedAmount'', Scalar SInt), (''tokenHoldersRepresented'', ListRef ''Account''),
          (''nounsRepresented'', ListRef ''Noun''), (''votes'', ListRef ''Vote''), (''proposals'', ListRef ''Proposal'')]),
      (''Proposal'',
         [(''id'', Scalar SID), (''proposer'', Ref ''Delegate''), (''targets'', Scalars SBytes),
          (''values'', Scalars SBigInt), (''signatures'', Scalars SString), (''calldatas'', Scalars SBytes),
          (''createdTimestamp'', Scalar SBigInt), (''createdBlock'', Scalar SBigInt),
          (''createdTransactionHash'', Scalar SBytes), (''startBlock'', Scalar SBigInt), (''endBlock'', Scalar SBigInt),
          (''proposalThreshold'', Scalar SBigInt), (''quorumVotes'', Scalar SBigInt), (''forVotes'', Scalar SBigInt),
          (''againstVotes'', Scalar SBigInt), (''abstainVotes'', Scalar SBigInt), (''title'', Scalar SString),
          (''description'', Scalar SString), (''status'', Scalar SStatus), (''executionETA'', Scalar SBigInt),
          (''votes'', ListRef ''Vote''), (''totalSupply'', Scalar SBigInt), (''minQuorumVotesBPS'', Scalar SInt),
          (''maxQuorumVotesBPS'', Scalar SInt), (''quorumCoefficient'', Scalar SBigInt)]),
      (''Vote'',
         [(''id'', Scalar SID), (''support'', Scalar SBoolean), (''supportDetailed'', Scalar SInt),
          (''votesRaw'', Scalar SBigInt), (''votes'', Scalar SBigInt), (''reason'', Scalar SString),
          (''voter'', Ref ''Delegate''), (''nouns'', ListRef ''Noun''), (''proposal'', Ref ''Proposal''),
          (''blockNumber'', Scalar SBigInt)])]"

definition fields_of :: "string \<Rightarrow> (string \<times> gtype) list" where
  "fields_of t = (case map_of schema t of None \<Rightarrow> [] | Some fs \<Rightarrow> fs)"

text \<open>The root fields: one row of a type, or a list of them.\<close>

definition root_fields :: "(string \<times> gtype) list" where
  "root_fields =
     [(''proposal'', Ref ''Proposal''), (''auction'', Ref ''Auction''), (''noun'', Ref ''Noun''),
      (''seeds'', ListRef ''Seed''), (''proposals'', ListRef ''Proposal''), (''bids'', ListRef ''Bid''),
      (''nouns'', ListRef ''Noun''), (''auctions'', ListRef ''Auction''), (''transferEvents'', ListRef ''TransferEvent''),
      (''delegationEvents'', ListRef ''DelegationEvent''), (''votes'', ListRef ''Vote''),
      (''delegates'', ListRef ''Delegate'')]"

section \<open>Queries against the schema\<close>

fun scalar_value :: "gscalar \<Rightarrow> gvalue \<Rightarrow> bool" where
  "scalar_value SID (GInt _) = True"
| "scalar_value SBigInt (GInt _) = True"
| "scalar_value SInt (GInt _) = True"
| "scalar_value SID (GStr _) = True"
| "scalar_value SBigInt (GStr _) = True"
| "scalar_value SString (GStr _) = True"
| "scalar_value SBytes (GStr _) = True"
| "scalar_value SStatus (GEnum _) = True"
| "scalar_value _ _ = False"

text \<open>A filter on a reference takes the id of the row as a string.\<close>

fun field_value :: "gtype \<Rightarrow> gvalue \<Rightarrow> bool" where
  "field_value (Scalar s) v = scalar_value s v"
| "field_value (Ref _) (GStr _) = True"
| "field_value _ _ = False"

definition filter_ok :: "string \<Rightarrow> string \<times> gvalue \<Rightarrow> bool" where
  "filter_ok t kv =
     (let f = takeWhile (\<lambda>c. c \<noteq> CHR ''_'') (fst kv); op = drop (length f) (fst kv) in
      case map_of (fields_of t) f of
        None \<Rightarrow> False
      | Some ft \<Rightarrow>
          (if op \<in> {'''', ''_not'', ''_gt'', ''_lt'', ''_gte'', ''_lte''} then field_value ft (snd kv)
           else if op \<in> {''_in'', ''_not_in''}
             then (case snd kv of GList vs \<Rightarrow> list_all (field_value ft) vs | _ \<Rightarrow> False)
           else False))"

definition list_arg_ok :: "string \<Rightarrow> string \<times> gvalue \<Rightarrow> bool" where
  "list_arg_ok t kv =
     (case kv of
        (k, GInt n) \<Rightarrow> k = ''first'' \<and> 1 \<le> n \<and> n \<le> 1000 \<or> k = ''skip'' \<and> 0 \<le> n \<and> n \<le> 5000
      | (k, GEnum e) \<Rightarrow>
          k = ''orderBy'' \<and> map_of (fields_of t) e \<noteq> None \<or> k = ''orderDirection'' \<and> e \<in> {''asc'', ''desc''}
      | (k, GObj fs) \<Rightarrow>
          k = ''where'' \<and> distinct (map fst fs) \<and> list_all (filter_ok t) fs
      | _ \<Rightarrow> False)"

definition list_args_ok :: "string \<Rightarrow> (string \<times> gvalue) list \<Rightarrow> bool" where
  "list_args_ok t args \<longleftrightarrow> distinct (map fst args) \<and> list_all (list_arg_ok t) args"

fun field_ok :: "string \<Rightarrow> gfield \<Rightarrow> bool" where
  "field_ok t (GField n args sub) =
     (case map_of (fields_of t) n of
        None \<Rightarrow> False
      | Some (Scalar _) \<Rightarrow> args = [] \<and> sub = []
      | Some (Scalars _) \<Rightarrow> args = [] \<and> sub = []
      | Some (Ref u) \<Rightarrow> args = [] \<and> sub \<noteq> [] \<and> list_all (field_ok u) sub
      | Some (ListRef u) \<Rightarrow> list_args_ok u args \<and> sub \<noteq> [] \<and> list_all (field_ok u) sub)"

definition block_ok :: "string \<times> gvalue \<Rightarrow> bool" where
  "block_ok kv = (case kv of (k, GObj [(n, GInt b)]) \<Rightarrow> k = ''block'' \<and> n = ''number'' \<and> 0 \<le> b | _ \<Rightarrow> False)"

definition query_ok :: "gfield \<Rightarrow> bool" where
  "query_ok q =
     (case map_of root_fields (gf_name q) of
        Some (Ref u) \<Rightarrow>
          (case gf_args q of
             [(k, v)] \<Rightarrow> k = ''id'' \<and> scalar_value SID v
           | _ \<Rightarrow> False)
          \<and> gf_sub q \<noteq> [] \<and> list_all (field_ok u) (gf_sub q)
      | Some (ListRef u) \<Rightarrow>
          list_args_ok u (filter (\<lambda>kv. fst kv \<noteq> ''block'') (gf_args q))
          \<and> list_all block_ok (filter (\<lambda>kv. fst kv = ''block'') (gf_args q))
          \<and> gf_sub q \<noteq> [] \<and> list_all (field_ok u) (gf_sub q)
      | _ \<Rightarrow> False)"

text \<open>
  The lists of a query that no \<open>first\<close> bounds: for these graph-node gives its default page of 100 rows, so any
  further row is missing from the answer.
\<close>

fun unbounded_lists :: "string \<Rightarrow> gfield \<Rightarrow> string list" where
  "unbounded_lists t (GField n args sub) =
     (case map_of (fields_of t) n of
        Some (Ref u) \<Rightarrow> concat (map (unbounded_lists u) sub)
      | Some (ListRef u) \<Rightarrow>
          (if map_of args ''first'' = None then [t @ ''.'' @ n] else []) @ concat (map (unbounded_lists u) sub)
      | _ \<Rightarrow> [])"

definition cut_at_100 :: "gfield \<Rightarrow> string list" where
  "cut_at_100 q =
     (case map_of root_fields (gf_name q) of
        Some (Ref u) \<Rightarrow> concat (map (unbounded_lists u) (gf_sub q))
      | Some (ListRef u) \<Rightarrow>
          (if map_of (gf_args q) ''first'' = None then [gf_name q] else [])
          @ concat (map (unbounded_lists u) (gf_sub q))
      | _ \<Rightarrow> [])"

text \<open>The paths of names that a query asks for, down to its leaves.\<close>

fun paths :: "gfield \<Rightarrow> string list list" where
  "paths (GField n args sub) =
     (if sub = [] then [[n]] else map (\<lambda>p. n # p) (concat (map paths sub)))"

section \<open>Every query fits the schema\<close>

definition page_ok :: "int option \<Rightarrow> bool" where
  "page_ok first \<longleftrightarrow> (case first of None \<Rightarrow> True | Some n \<Rightarrow> 1 \<le> n \<and> n \<le> 1000)"

named_theorems query_args "arguments of the queries that fit"

lemma page_fits [query_args]: "page_ok first \<Longrightarrow> d \<in> {10, 1000} \<Longrightarrow> list_arg_ok t (''first'', page d first)"
  by (auto simp: page_ok_def page_def list_arg_ok_def split: option.splits)

lemma bare_fits [query_args]: "scalar_value SID (bare s) \<longleftrightarrow> decimal s"
  by (simp add: bare_def)

lemma quoted_fits [query_args]:
  "scalar_value SID (quoted s) \<longleftrightarrow> quotable s"
  "field_value (Scalar SID) (quoted s) \<longleftrightarrow> quotable s"
  "field_value (Ref u) (quoted s) \<longleftrightarrow> quotable s"
  by (simp_all add: quoted_def)

lemma quotable_decimal [query_args]: "quotable (int_to_dec n)"
proof -
  have digits: "quotable (nat_to_dec m)" for m
  proof -
    have "list_all (is_digit_in 10) (nat_to_dec m)"
      by (simp add: nat_to_dec_def nat_to_base_digits)
    moreover have "is_digit_in 10 c \<Longrightarrow> c \<noteq> CHR 0x22 \<and> c \<noteq> CHR 0x5C \<and> c \<noteq> CHR 0x0A \<and> c \<noteq> CHR 0x0D" for c
      by (auto simp: is_digit_in_def digit_val_def)
    ultimately show ?thesis
      unfolding quotable_def by (rule list.pred_mono_strong) blast
  qed
  then show ?thesis
    by (simp add: int_to_dec_def int_to_base_def nat_to_dec_def quotable_def)
qed

lemma strings_fit [query_args]: "list_all (field_value (Scalar SID)) (map GStr ds)"
  by (induction ds) simp_all

text \<open>A root field fits if its selection does and its arguments do, one by one.\<close>

definition root_type :: "string \<Rightarrow> string" where
  "root_type n = (case map_of root_fields n of Some (Ref u) \<Rightarrow> u | Some (ListRef u) \<Rightarrow> u | _ \<Rightarrow> [])"

definition is_list_root :: "string \<Rightarrow> bool" where
  "is_list_root n = (case map_of root_fields n of Some (ListRef u) \<Rightarrow> True | _ \<Rightarrow> False)"

definition selection_ok :: "string \<Rightarrow> gfield list \<Rightarrow> bool" where
  "selection_ok t sub \<longleftrightarrow> sub \<noteq> [] \<and> list_all (field_ok t) sub"

lemma row_query:
  assumes "map_of root_fields n = Some (Ref (root_type n)) \<and> selection_ok (root_type n) sub"
  shows "query_ok (GField n [(''id'', v)] sub) = scalar_value SID v"
  using assms by (simp add: query_ok_def selection_ok_def)

lemma list_query:
  assumes "is_list_root n \<and> distinct (map fst args) \<and> selection_ok (root_type n) sub"
    and "list_all (\<lambda>a. if fst a = ''block'' then block_ok a else list_arg_ok (root_type n) a) args"
  shows "query_ok (GField n args sub)"
proof -
  obtain u where u: "map_of root_fields n = Some (ListRef u)" "root_type n = u"
    using assms(1) by (auto simp: is_list_root_def root_type_def split: option.splits gtype.splits)
  have "distinct (map fst (filter P args))" for P
    using assms(1) by (auto intro: distinct_map_filter)
  then show ?thesis
    using assms u by (auto simp: query_ok_def list_args_ok_def selection_ok_def list_all_iff)
qed

text \<open>The fixed arguments.\<close>

lemma orders_fit [query_args]:
  "list_arg_ok (root_type ''proposals'') (''orderBy'', GEnum ''createdBlock'')"
  "list_arg_ok (root_type ''proposals'') (''orderBy'', GEnum ''createdTimestamp'')"
  "list_arg_ok (root_type ''auctions'') (''orderBy'', GEnum ''startTime'')"
  "list_arg_ok (root_type ''bids'') (''orderBy'', GEnum ''blockTimestamp'')"
  "list_arg_ok t (''orderDirection'', GEnum ''asc'')"
  "list_arg_ok t (''orderDirection'', GEnum ''desc'')"
  "list_arg_ok t (''first'', GInt 1000)"
  by code_simp+

lemma where_fits [query_args]:
  "list_arg_ok t (''where'', GObj fs) \<longleftrightarrow> distinct (map fst fs) \<and> list_all (filter_ok t) fs"
  by (simp add: list_arg_ok_def)

lemma filters_fit [query_args]:
  "filter_ok (root_type ''bids'') (''auction'', v) = field_value (Ref ''Auction'') v"
  "filter_ok (root_type ''transferEvents'') (''noun'', v) = field_value (Ref ''Noun'') v"
  "filter_ok (root_type ''delegationEvents'') (''noun'', v) = field_value (Ref ''Noun'') v"
  "filter_ok (root_type ''votes'') (''proposal'', v) = field_value (Ref ''Proposal'') v"
  "filter_ok (root_type ''votes'') (''votesRaw_gt'', GInt n) = True"
  "filter_ok (root_type ''delegates'') (''id'', v) = field_value (Scalar SID) v"
  "filter_ok (root_type ''delegates'') (''id_in'', GList vs) = list_all (field_value (Scalar SID)) vs"
  "filter_ok (root_type ''proposals'') (''id'', v) = field_value (Scalar SID) v"
  by code_simp+

lemma block_fits [query_args]: "block_ok (''block'', GObj [(''number'', GInt b)]) \<longleftrightarrow> 0 \<le> b"
  by (simp add: block_ok_def)

text \<open>The queries, by their arguments.\<close>

lemma proposalQuery_ok [query_args]: "query_ok (proposalQuery i) = scalar_value SID (bare i)"
  unfolding proposalQuery_def by (rule row_query) code_simp

lemma auctionQuery_ok [query_args]: "query_ok (auctionQuery n) = scalar_value SID (GInt n)"
  unfolding auctionQuery_def by (rule row_query) code_simp

lemma nounQuery_ok [query_args]: "query_ok (nounQuery s) = scalar_value SID (quoted s)"
  unfolding nounQuery_def by (rule row_query) code_simp

lemma propUsingDynamicQuorum_ok [query_args]: "query_ok (propUsingDynamicQuorum s) = scalar_value SID (quoted s)"
  unfolding propUsingDynamicQuorum_def by (rule row_query) code_simp

lemma seedsQuery_ok [query_args]: "page_ok first \<Longrightarrow> query_ok (seedsQuery first)"
  unfolding seedsQuery_def by (rule list_query, code_simp) (simp add: query_args)

lemma partialProposalsQuery_ok [query_args]: "page_ok first \<Longrightarrow> query_ok (partialProposalsQuery first)"
  unfolding partialProposalsQuery_def by (rule list_query, code_simp) (simp add: query_args)

lemma bidsByAuctionQuery_ok [query_args]: "quotable s \<Longrightarrow> query_ok (bidsByAuctionQuery s)"
  unfolding bidsByAuctionQuery_def by (rule list_query, code_simp) (simp add: query_args)

lemma latestBidsQuery_ok [query_args]: "page_ok first \<Longrightarrow> query_ok (latestBidsQuery first)"
  unfolding latestBidsQuery_def by (rule list_query, code_simp) (simp add: query_args)

lemma nounTransferHistoryQuery_ok [query_args]: "page_ok first \<Longrightarrow> query_ok (nounTransferHistoryQuery n first)"
  unfolding nounTransferHistoryQuery_def by (rule list_query, code_simp) (simp add: query_args)

lemma nounDelegationHistoryQuery_ok [query_args]: "page_ok first \<Longrightarrow> query_ok (nounDelegationHistoryQuery n first)"
  unfolding nounDelegationHistoryQuery_def by (rule list_query, code_simp) (simp add: query_args)

lemma proposalVotesQuery_ok [query_args]: "quotable s \<Longrightarrow> query_ok (proposalVotesQuery s)"
  unfolding proposalVotesQuery_def by (rule list_query, code_simp) (simp add: query_args)

lemma delegateNounsAtBlockQuery_ok [query_args]: "0 \<le> block \<Longrightarrow> query_ok (delegateNounsAtBlockQuery ds block)"
  unfolding delegateNounsAtBlockQuery_def by (rule list_query, code_simp) (simp add: query_args)

lemma currentlyDelegatedNouns_ok [query_args]: "quotable s \<Longrightarrow> query_ok (currentlyDelegatedNouns s)"
  unfolding currentlyDelegatedNouns_def by (rule list_query, code_simp) (simp add: query_args)

lemma totalNounSupplyAtPropSnapshot_ok [query_args]: "decimal s \<Longrightarrow> query_ok (totalNounSupplyAtPropSnapshot s)"
  unfolding totalNounSupplyAtPropSnapshot_def by (rule list_query, code_simp) (simp add: query_args)

lemma constant_queries_ok [query_args]:
  "query_ok nounsIndex" "query_ok latestAuctionsQuery" "query_ok createTimestampAllProposals"
  "query_ok nounsGql" "query_ok lastAuctionBidsQuery" "query_ok allProposalsQuery"
  by code_simp+

lemma noun_votes_field:
  "field_ok ''Noun'' (GField ''votes'' [(''first'', v)] sub)
     \<longleftrightarrow> list_arg_ok ''Vote'' (''first'', v) \<and> sub \<noteq> [] \<and> list_all (field_ok ''Vote'') sub"
  by (simp add: fields_of_def schema_def list_args_ok_def)

lemma vote_leaves: "list_all (field_ok ''Vote'')
    [leaf ''blockNumber'', node ''proposal'' [leaf ''id''], leaf ''support'', leaf ''supportDetailed'',
     node ''voter'' [leaf ''id'']]"
  by code_simp

lemma noun_root [simp]: "root_type ''noun'' = ''Noun''" "map_of root_fields ''noun'' = Some (Ref ''Noun'')"
  by code_simp+

lemma noun_id_leaf: "field_ok ''Noun'' (leaf ''id'')"
  by code_simp

lemma nounVotingHistoryQuery_ok [query_args]:
  assumes "page_ok first"
  shows "query_ok (nounVotingHistoryQuery n first)"
proof -
  have "selection_ok ''Noun'' [leaf ''id'', GField ''votes'' [(''first'', page 1000 first)]
      [leaf ''blockNumber'', node ''proposal'' [leaf ''id''], leaf ''support'', leaf ''supportDetailed'',
       node ''voter'' [leaf ''id'']]]"
    using assms vote_leaves noun_id_leaf
    by (simp add: selection_ok_def noun_votes_field page_fits del: field_ok.simps)
  then show ?thesis
    unfolding nounVotingHistoryQuery_def by (subst row_query) simp_all
qed

section \<open>What the readers of the answers find\<close>

text \<open>
  A query with the fields of its answer that the code reads: \<open>seedArrayToObject\<close>, \<open>parseSubgraphProposal\<close>,
  \<open>parsePartialSubgraphProposal\<close>, \<open>NounInfoRowHolder\<close>, \<open>Holder\<close> and \<open>NounHoverCard\<close>, \<open>reduceSubgraphAuctionsToPastAuctions\<close>,
  the three feeds of \<open>useNounActivity\<close>, the page of a proposal, the hover cards, the quorum dialog, \<open>normalizeNoun\<close> of the
  functions and the bots. Four queries of the wrapper have no caller and read nothing.
\<close>

definition readers ::
    "int option \<Rightarrow> string \<Rightarrow> string \<Rightarrow> int \<Rightarrow> string list \<Rightarrow> int \<Rightarrow> (gfield \<times> string list list) list" where
  "readers first i s n ds block =
     [(seedsQuery first, map (\<lambda>f. [''seeds'', f]) [''id'', ''background'', ''body'', ''accessory'', ''head'', ''glasses'']),
      (proposalQuery i,
        [''proposal'', ''proposer'', ''id'']
        # map (\<lambda>f. [''proposal'', f])
            [''id'', ''description'', ''status'', ''proposalThreshold'', ''quorumVotes'', ''forVotes'', ''againstVotes'',
             ''abstainVotes'', ''createdBlock'', ''startBlock'', ''endBlock'', ''executionETA'', ''targets'', ''values'',
             ''signatures'', ''calldatas'', ''createdTransactionHash'']),
      (partialProposalsQuery first,
        map (\<lambda>f. [''proposals'', f])
          [''id'', ''title'', ''status'', ''startBlock'', ''endBlock'', ''forVotes'', ''againstVotes'', ''abstainVotes'',
           ''quorumVotes'', ''executionETA'']),
      (auctionQuery n, [[''auction'', ''bidder'', ''id'']]),
      (bidsByAuctionQuery s, []),
      (nounQuery s, [[''noun'', ''owner'', ''id'']]),
      (nounsIndex, []),
      (latestAuctionsQuery,
        map (\<lambda>p. ''auctions'' # p)
          [[''id''], [''amount''], [''bidder'', ''id''], [''startTime''], [''endTime''], [''bids'', ''id''],
           [''bids'', ''amount''], [''bids'', ''bidder'', ''id''], [''bids'', ''blockTimestamp'']]),
      (latestBidsQuery first, []),
      (nounVotingHistoryQuery n first,
        map (\<lambda>p. ''noun'' # ''votes'' # p)
          [[''proposal'', ''id''], [''voter'', ''id''], [''blockNumber''], [''supportDetailed'']]),
      (nounTransferHistoryQuery n first,
        map (\<lambda>p. ''transferEvents'' # p)
          [[''id''], [''blockNumber''], [''previousHolder'', ''id''], [''newHolder'', ''id'']]),
      (nounDelegationHistoryQuery n first,
        map (\<lambda>p. ''delegationEvents'' # p)
          [[''id''], [''blockNumber''], [''previousDelegate'', ''id''], [''newDelegate'', ''id'']]),
      (createTimestampAllProposals, [[''proposals'', ''createdTimestamp'']]),
      (proposalVotesQuery s, [[''votes'', ''supportDetailed''], [''votes'', ''voter'', ''id'']]),
      (delegateNounsAtBlockQuery ds block, [[''delegates'', ''id''], [''delegates'', ''nounsRepresented'', ''id'']]),
      (currentlyDelegatedNouns s, [[''delegates'', ''id''], [''delegates'', ''nounsRepresented'', ''id'']]),
      (totalNounSupplyAtPropSnapshot i, [[''proposals'', ''totalSupply'']]),
      (propUsingDynamicQuorum s, [[''proposal'', ''quorumCoefficient'']]),
      (nounsGql,
        map (\<lambda>p. ''nouns'' # p)
          ([[''id''], [''owner'', ''id''], [''owner'', ''delegate'', ''id''], [''votes'', ''proposal'', ''id''],
            [''votes'', ''supportDetailed'']]
           @ map (\<lambda>f. [''seed'', f]) [''background'', ''body'', ''glasses'', ''accessory'', ''head''])),
      (lastAuctionBidsQuery,
        map (\<lambda>p. ''auctions'' # p)
          [[''id''], [''endTime''], [''bids'', ''id''], [''bids'', ''amount''], [''bids'', ''bidder'', ''id'']]),
      (allProposalsQuery,
        map (\<lambda>p. ''proposals'' # p)
          [[''id''], [''proposer'', ''id''], [''description''], [''status''], [''quorumVotes''], [''proposalThreshold''],
           [''startBlock''], [''endBlock''], [''executionETA''], [''votes'', ''id''], [''votes'', ''voter'', ''id''],
           [''votes'', ''votes''], [''votes'', ''supportDetailed''], [''votes'', ''reason'']])]"

lemma readers_find: "list_all (\<lambda>(q, reads). list_all (\<lambda>p. p \<in> set (paths q)) reads) (readers first i s n ds block)"
  by code_simp

lemma cut_lists:
  "map (cut_at_100 \<circ> fst) (readers first i s n ds block) =
     [[], [], [], [''Auction.bids''], [''bids''], [], [''nouns''], [''Auction.bids''], [], [], [], [], [], [''votes''],
      [''delegates'', ''Delegate.nounsRepresented''], [''delegates'', ''Delegate.nounsRepresented''], [''proposals''], [],
      [''nouns'', ''Noun.votes''], [], [''proposals'', ''Proposal.votes'']]"
  by code_simp

text \<open>
  C39. Every query that the web app, its functions and the bots send fits the schema of the subgraph (types, fields,
  filters, orders, page sizes), for all Noun numbers, addresses and blocks, all numeric ids and all quotable texts; its
  answer has every field that the code reads from it. The pages of one row and the paged lists of at most a thousand rows
  apart, these lists are asked for without a bound and come as their first hundred rows: the Nouns and votes of the functions,
  the proposals and votes of the bots, the votes of a proposal, a delegate's Nouns and an auction's bids.
\<close>

theorem queries_fit_schema:
  assumes "page_ok first" "decimal i" "quotable s" "0 \<le> block"
  shows "list_all (\<lambda>(q, reads). query_ok q \<and> list_all (\<lambda>p. p \<in> set (paths q)) reads) (readers first i s n ds block)
    \<and> concat (map (cut_at_100 \<circ> fst) (readers first i s n ds block)) =
        [''Auction.bids'', ''bids'', ''nouns'', ''Auction.bids'', ''votes'',
         ''delegates'', ''Delegate.nounsRepresented'', ''delegates'', ''Delegate.nounsRepresented'', ''proposals'',
         ''nouns'', ''Noun.votes'', ''proposals'', ''Proposal.votes'']"
proof -
  have "list_all (query_ok \<circ> fst) (readers first i s n ds block)"
    using assms by (simp add: readers_def query_args)
  with readers_find [of first i s n ds block] show ?thesis
    unfolding cut_lists by (simp add: list_all_iff case_prod_unfold)
qed

lemma queries_fit_schema_witness:
  "list_all (\<lambda>(q, reads). query_ok q \<and> list_all (\<lambda>p. p \<in> set (paths q)) reads)
     (readers None ''12'' ''0xab'' 7 [''0xab''] 100)"
  using queries_fit_schema [of None "''12''" "''0xab''" 100 7 "[''0xab'']"]
  by (simp add: page_ok_def decimal_def quotable_def is_digit_in_def digit_val_def list_all_iff)

text \<open>
  The id in the path of a proposal's page is put into two queries as it is: a path that is no number, or holds a quotation
  mark, makes a query that is none.
\<close>

lemma path_breaks_query:
  "\<not> query_ok (proposalQuery ''abc'')" "\<not> query_ok (propUsingDynamicQuorum [CHR 0x22])"
  by code_simp+

end
