(* ===== verification/Web_Shell.thy ===== *)
theory Web_Shell
  imports Web_Auction Web_Names Js_Double
begin

text \<open>
  The frame of the web app: the language (\<^verbatim>\<open>hooks/useActivateLocale.ts\<close>, \<^verbatim>\<open>i18n\<close> and its two menus), the treasury
  (\<^verbatim>\<open>hooks/useTokenBuyerBalance.ts\<close>, \<^verbatim>\<open>hooks/useTreasuryBalance.ts\<close>), the time of a block
  (\<^verbatim>\<open>hooks/useBlockTimestamp.ts\<close>), the navigation bar with the wallet (\<^verbatim>\<open>components/NavBar\<close>, \<open>NavWallet\<close>,
  \<open>WalletConnectModal\<close>, \<open>NetworkAlert\<close>) and the ENS avatar (\<^verbatim>\<open>utils/ensAvatar.ts\<close>). Everything that is loaded
  (catalogs, balances, blocks, names) is answered in any order by a step of its own. Catalogs, the detector of
  \<^verbatim>\<open>@lingui/detect-locale\<close> and the node are parameters; labels in other scripts and styles are left out.
\<close>

section \<open>Languages\<close>

definition SUPPORTED_LOCALES :: "string list" where
  "SUPPORTED_LOCALES = [''en-US'', ''ja-JP'']"

definition DEFAULT_LOCALE :: string where
  "DEFAULT_LOCALE = ''en-US''"

definition parseLocale :: "string option \<Rightarrow> string option" where
  "parseLocale maybeSupportedLocale =
     (case maybeSupportedLocale of
        None \<Rightarrow> None
      | Some s \<Rightarrow>
          find (\<lambda>locale. to_lower locale = to_lower s \<or> hd (split_str ''-'' locale) = to_lower s) SUPPORTED_LOCALES)"

text \<open>\<open>navigator.language\<close> may be missing or empty; the region is what stands between the first two hyphens.\<close>

definition navigatorLocale :: "string option \<Rightarrow> string option" where
  "navigatorLocale nav =
     (case nav of
        None \<Rightarrow> None
      | Some s \<Rightarrow>
          (if s = '''' then None
           else (case split_str ''-'' s of
                   language # region # _ \<Rightarrow>
                     (if region = '''' then parseLocale (Some language)
                      else (case parseLocale (Some (language @ ''-'' @ map char_upper region)) of
                              Some l \<Rightarrow> Some l
                            | None \<Rightarrow> parseLocale (Some language)))
                 | parts \<Rightarrow> parseLocale (Some (hd parts)))))"

text \<open>The locale under \<open>lang\<close> in the browser's storage is \<open>lang\<close>; the detector of the library is \<open>fromNavigator\<close>.\<close>

definition initialLocale :: "string option \<Rightarrow> string option \<Rightarrow> string" where
  "initialLocale lang nav =
     (case parseLocale lang of
        Some l \<Rightarrow> l
      | None \<Rightarrow> (case navigatorLocale nav of Some l \<Rightarrow> l | None \<Rightarrow> DEFAULT_LOCALE))"

definition useActiveLocale :: "string option \<Rightarrow> string option \<Rightarrow> string option \<Rightarrow> string" where
  "useActiveLocale fromNavigator lang nav =
     (case lang of
        Some l \<Rightarrow> l
      | None \<Rightarrow>
          (case navigatorLocale nav of
             Some l \<Rightarrow> l
           | None \<Rightarrow> (case fromNavigator of Some l \<Rightarrow> l | None \<Rightarrow> DEFAULT_LOCALE)))"

text \<open>The plural rules, by the locale that is activated.\<close>

definition plurals :: "string \<Rightarrow> string option" where
  "plurals locale =
     (if locale = ''en-US'' then Some ''en'' else if locale = ''ja-JP'' then Some ''ja''
      else if locale = ''pseudo'' then Some ''en'' else None)"

text \<open>
  \<open>dynamicActivate\<close> first fetches the catalog of a locale and activates the locale when the catalog is there or its
  import failed. A request of the provider's effect is followed by a second one (\<open>onActivate\<close>).
\<close>

record LocaleState =
  lc_lang :: "string option"
  lc_active :: "string option"
  lc_loading :: "(string \<times> bool) list"

definition dynamicActivate :: "bool \<Rightarrow> string \<Rightarrow> LocaleState \<Rightarrow> LocaleState" where
  "dynamicActivate again locale s = s\<lparr>lc_loading := lc_loading s @ [(locale, again)]\<rparr>"

definition catalog_loaded :: "nat \<Rightarrow> LocaleState \<Rightarrow> LocaleState" where
  "catalog_loaded i s =
     (let (locale, again) = lc_loading s ! i;
          s' = s\<lparr>lc_active := Some locale, lc_loading := take i (lc_loading s) @ drop (Suc i) (lc_loading s)\<rparr>
      in if again then dynamicActivate False locale s' else s')"

definition setLocale :: "string \<Rightarrow> LocaleState \<Rightarrow> LocaleState" where
  "setLocale locale s =
     (if lc_lang s \<noteq> Some locale then dynamicActivate False locale (s\<lparr>lc_lang := Some locale\<rparr>) else s)"

text \<open>The start: the module activates the initial locale, the provider's effect the one in use.\<close>

definition start_locale :: "string option \<Rightarrow> string option \<Rightarrow> string option \<Rightarrow> LocaleState" where
  "start_locale fromNavigator lang nav =
     dynamicActivate True (useActiveLocale fromNavigator lang nav)
       (dynamicActivate False (initialLocale lang nav) \<lparr>lc_lang = lang, lc_active = None, lc_loading = []\<rparr>)"

text \<open>The two menus: every supported locale with a check mark at the one in use.\<close>

definition locale_menu :: "string \<Rightarrow> (string \<times> bool) list" where
  "locale_menu activeLocale = map (\<lambda>locale. (locale, activeLocale = locale)) SUPPORTED_LOCALES"

definition dropdown_styles :: "string list" where
  "dropdown_styles =
     map (\<lambda>index. if index = 0 then ''dropDownTop''
                  else if index = length SUPPORTED_LOCALES - 1 then ''dropDownBottom'' else ''dropDownInterior'')
       [0..<length SUPPORTED_LOCALES]"

section \<open>The treasury\<close>

text \<open>
  The balances known so far: of the token buyer in wei, of the payer in USDC (six decimals) and the price of an ETH in
  USD (eight decimals). \<open>BigNumber.div\<close> truncates and throws for zero; \<open>ethBalance?.add(...)\<close> evaluates its argument
  only when the balance is known.
\<close>

record TokenBuyer =
  tb_ethBalance :: "int option"
  tb_usdcBalance :: "int option"
  tb_ethUsdcPrice :: "int option"

definition bn_div :: "int \<Rightarrow> int \<Rightarrow> (string, int) result" where
  "bn_div a b = (if b = 0 then Inl ''division-by-zero'' else Inr (sgn a * sgn b * (\<bar>a\<bar> div \<bar>b\<bar>)))"

definition useTokenBuyerBalance :: "TokenBuyer \<Rightarrow> (string, int option) result" where
  "useTokenBuyerBalance t =
     (case tb_ethUsdcPrice t of
        None \<Rightarrow> Inr (tb_ethBalance t)
      | Some price \<Rightarrow>
          (case tb_ethBalance t of
             None \<Rightarrow> Inr None
           | Some e \<Rightarrow>
               (case tb_usdcBalance t of
                  None \<Rightarrow> Inr (Some e)
                | Some u \<Rightarrow>
                    (case bn_div (u * 10 ^ 20) price of
                       Inl err \<Rightarrow> Inl err
                     | Inr q \<Rightarrow> Inr (Some (e + q))))))"

definition or_zero :: "int option \<Rightarrow> int" where
  "or_zero x = (case x of None \<Rightarrow> 0 | Some n \<Rightarrow> n)"

definition useTreasuryBalance :: "int option \<Rightarrow> int option \<Rightarrow> TokenBuyer \<Rightarrow> (string, int) result" where
  "useTreasuryBalance ethBalance lidoBalanceAsETH t =
     (case useTokenBuyerBalance t of
        Inl err \<Rightarrow> Inl err
      | Inr tokenBuyerBalanceAsETH \<Rightarrow>
          Inr (case ethBalance of
                 None \<Rightarrow> 0
               | Some e \<Rightarrow> e + or_zero lidoBalanceAsETH + or_zero tokenBuyerBalanceAsETH))"

text \<open>\<open>Number(formatEther(...))\<close> is the double nearest to the amount in ETH; an unknown price is \<open>NaN\<close>.\<close>

definition ether_number :: "int \<Rightarrow> double" where
  "ether_number wei = to_double (of_int wei / 10 ^ 18)"

definition useTreasuryUSDValue :: "rat option \<Rightarrow> int \<Rightarrow> double" where
  "useTreasuryUSDValue etherPrice treasuryBalance =
     d_mul (case etherPrice of None \<Rightarrow> DNaN | Some p \<Rightarrow> to_double p) (ether_number treasuryBalance)"

section \<open>The time of a block\<close>

record BlockTime =
  bt_blockNumber :: "int option"
  bt_library :: bool
  bt_blockTimestamp :: "int option"
  bt_pending :: "int list"

text \<open>The effect of a new block number or library: without a library the stored time is dropped at once.\<close>

definition updateBlockTimestamp :: "BlockTime \<Rightarrow> BlockTime" where
  "updateBlockTimestamp s =
     (case bt_blockNumber s of
        None \<Rightarrow> s
      | Some n \<Rightarrow>
          (if n = 0 then s
           else if bt_library s then s\<lparr>bt_pending := bt_pending s @ [n]\<rparr>
           else s\<lparr>bt_blockTimestamp := None\<rparr>))"

definition block_answered :: "(int \<Rightarrow> int option) \<Rightarrow> nat \<Rightarrow> BlockTime \<Rightarrow> BlockTime" where
  "block_answered getBlock i s =
     s\<lparr>bt_blockTimestamp := (case getBlock (bt_pending s ! i) of Some t \<Rightarrow> if t = 0 then None else Some t | None \<Rightarrow> None),
       bt_pending := take i (bt_pending s) @ drop (Suc i) (bt_pending s)\<rparr>"

section \<open>The navigation bar\<close>

datatype NavBarButtonStyle =
    COOL_INFO | COOL_WALLET | WARM_INFO | WARM_WALLET | WHITE_INFO | WHITE_ACTIVE | WHITE_ACTIVE_VOTE_SUBMIT
  | WHITE_WALLET | DELEGATE_BACK | DELEGATE_PRIMARY | DELEGATE_SECONDARY | DELEGATE_DISABLED | FOR_VOTE_SUBMIT
  | AGAINST_VOTE_SUBMIT | ABSTAIN_VOTE_SUBMIT

fun getNavBarButtonVariant :: "NavBarButtonStyle option \<Rightarrow> string" where
  "getNavBarButtonVariant (Some COOL_INFO) = ''coolInfo''"
| "getNavBarButtonVariant (Some COOL_WALLET) = ''coolWallet''"
| "getNavBarButtonVariant (Some WARM_INFO) = ''warmInfo''"
| "getNavBarButtonVariant (Some WARM_WALLET) = ''warmWallet''"
| "getNavBarButtonVariant (Some WHITE_INFO) = ''whiteInfo''"
| "getNavBarButtonVariant (Some WHITE_ACTIVE) = ''whiteActive''"
| "getNavBarButtonVariant (Some WHITE_ACTIVE_VOTE_SUBMIT) = ''whiteActiveVoteSubmit''"
| "getNavBarButtonVariant (Some WHITE_WALLET) = ''whiteWallet''"
| "getNavBarButtonVariant (Some DELEGATE_BACK) = ''delegateBack''"
| "getNavBarButtonVariant (Some DELEGATE_PRIMARY) = ''delegatePrimary''"
| "getNavBarButtonVariant (Some DELEGATE_SECONDARY) = ''delegateSecondary''"
| "getNavBarButtonVariant (Some DELEGATE_DISABLED) = ''delegateDisabled''"
| "getNavBarButtonVariant (Some FOR_VOTE_SUBMIT) = ''forVoteSubmit''"
| "getNavBarButtonVariant (Some AGAINST_VOTE_SUBMIT) = ''againstVoteSubmit''"
| "getNavBarButtonVariant (Some ABSTAIN_VOTE_SUBMIT) = ''abstainVoteSubmit''"
| "getNavBarButtonVariant None = ''info''"

text \<open>A click on the button of the bar: a disabled one swallows it.\<close>

definition NavBarButton_click :: "bool option \<Rightarrow> ('s \<Rightarrow> 's) \<Rightarrow> 's \<Rightarrow> 's" where
  "NavBarButton_click disabled onClick = (if disabled = Some True then (\<lambda>s. s) else onClick)"

definition shouldUseStateBg :: "string \<Rightarrow> bool" where
  "shouldUseStateBg pathname \<longleftrightarrow> pathname = ''/'' \<or> contains_str pathname ''/unoun'' \<or> contains_str pathname ''/auction''"

definition pick_by_background :: "'a \<Rightarrow> 'a \<Rightarrow> 'a \<Rightarrow> bool \<Rightarrow> string \<Rightarrow> 'a" where
  "pick_by_background whiteState coolState warmState isCool pathname =
     (if \<not> shouldUseStateBg pathname then whiteState else if isCool then coolState else warmState)"

definition useStateBg :: "string \<Rightarrow> bool" where
  "useStateBg pathname \<longleftrightarrow> pathname = ''/'' \<or> contains_str pathname ''/unoun/'' \<or> contains_str pathname ''/auction/''"

definition nonWalletButtonStyle :: "bool \<Rightarrow> string \<Rightarrow> NavBarButtonStyle" where
  "nonWalletButtonStyle isCool pathname =
     (if \<not> useStateBg pathname then WHITE_INFO else if isCool then COOL_INFO else WARM_INFO)"

definition connectWalletButtonStyle :: "bool \<Rightarrow> string \<Rightarrow> NavBarButtonStyle" where
  "connectWalletButtonStyle isCool pathname = pick_by_background WHITE_WALLET COOL_WALLET WARM_WALLET isCool pathname"

definition treasuryStyleClass :: "NavBarButtonStyle \<Rightarrow> string" where
  "treasuryStyleClass s =
     (case s of WARM_INFO \<Rightarrow> ''warmInfo'' | COOL_INFO \<Rightarrow> ''coolInfo'' | _ \<Rightarrow> ''whiteInfo'')"

record NavBar =
  nb_backgroundColor :: string
  nb_testnet :: bool
  nb_treasury :: "(string \<times> double) option"
  nb_buttonStyle :: NavBarButtonStyle
  nb_walletAddress :: string

text \<open>
  The balance is a \<open>BigNumber\<close>, an object, so it is shown also when it is zero. The chain id is \<open>None\<close> for \<open>NaN\<close>.
\<close>

definition NavBar_view ::
    "num \<Rightarrow> string \<Rightarrow> ApplicationState \<Rightarrow> string option \<Rightarrow> int \<Rightarrow> string \<Rightarrow> NavBar" where
  "NavBar_view chain executor app activeAccount treasuryBalance pathname =
     (let link = (case chain of Some c \<Rightarrow> buildEtherscanHoldingsLink c executor | None \<Rightarrow> buildEtherscanHoldingsLink 0 executor)
      in \<lparr>nb_backgroundColor = (if useStateBg pathname then stateBackgroundColor app else ''white''),
          nb_testnet = (chain \<noteq> Some 1),
          nb_treasury = Some (link, ether_number treasuryBalance),
          nb_buttonStyle = nonWalletButtonStyle (isCoolBackground app) pathname,
          nb_walletAddress = (case activeAccount of Some a \<Rightarrow> if a = '''' then ''0'' else a | None \<Rightarrow> ''0'')\<rparr>)"

text \<open>The alert about a wrong network, and the two names it gives it.\<close>

definition network_alert_shown :: "num \<Rightarrow> int option \<Rightarrow> bool" where
  "network_alert_shown configured chainId \<longleftrightarrow>
     (case (configured, chainId) of (Some c, Some d) \<Rightarrow> c \<noteq> d | _ \<Rightarrow> True)"

definition networkName :: "num \<Rightarrow> string" where
  "networkName chain =
     (if chain = Some 1 then ''Ethereum Mainnet'' else if chain = Some 4 then ''the Rinkeby network''
      else ''Network '' @ num_to_string chain)"

definition metamaskNetworkName :: "num \<Rightarrow> string" where
  "metamaskNetworkName chain =
     (if chain = Some 1 then ''Ethereum Mainnet'' else if chain = Some 4 then ''Rinkeby Test Network''
      else ''Network '' @ num_to_string chain)"

datatype ExternalURL = XTwitter | XNotion | XDiscourse | XDiscord | XInstagram | XNounsCenter

fun externalURL :: "ExternalURL \<Rightarrow> string" where
  "externalURL XTwitter = ''https://twitter.com/unouns_dao''"
| "externalURL XNotion = ''https://separate-sundial-e59.notion.site/Explorer-UNouns-4f6263dd577647aaaf2982689f9aca80''"
| "externalURL XDiscourse = ''https://discourse.unouns.wtf/''"
| "externalURL XDiscord = ''https://discord.com/invite/stur9CK3f9''"
| "externalURL XInstagram = ''https://www.instagram.com/unouns_dao/''"
| "externalURL XNounsCenter = ''https://nouns.center/''"

section \<open>The wallet\<close>

record NavWallet =
  nw_buttonUp :: bool
  nw_showConnectModal :: bool
  nw_activeAccount :: "string option"

definition initial_wallet :: NavWallet where
  "initial_wallet = \<lparr>nw_buttonUp = False, nw_showConnectModal = False, nw_activeAccount = None\<rparr>"

definition setModalStateHandler :: "bool \<Rightarrow> NavWallet \<Rightarrow> NavWallet" where
  "setModalStateHandler state s = s\<lparr>nw_showConnectModal := state\<rparr>"

text \<open>Both handlers also call \<open>deactivate\<close>: the second component says so. The account goes by an event of its own.\<close>

definition switchWalletHandler :: "NavWallet \<Rightarrow> NavWallet \<times> bool" where
  "switchWalletHandler s = (s\<lparr>nw_buttonUp := False, nw_showConnectModal := True\<rparr>, True)"

definition disconectWalletHandler :: "NavWallet \<Rightarrow> NavWallet \<times> bool" where
  "disconectWalletHandler s = (s\<lparr>nw_buttonUp := False, nw_showConnectModal := False\<rparr>, True)"

definition toggle_menu :: "NavWallet \<Rightarrow> NavWallet" where
  "toggle_menu s = s\<lparr>nw_buttonUp := \<not> nw_buttonUp s\<rparr>"

text \<open>An account is a non-empty text: the code tests it for truth in one place and for \<open>undefined\<close> in the other.\<close>

definition connect_modal_shown :: "NavWallet \<Rightarrow> bool" where
  "connect_modal_shown s \<longleftrightarrow> nw_showConnectModal s \<and> nw_activeAccount s = None"

definition account_shown :: "NavWallet \<Rightarrow> bool" where
  "account_shown s \<longleftrightarrow> (case nw_activeAccount s of None \<Rightarrow> False | Some a \<Rightarrow> a \<noteq> '''')"

definition renderENS :: "int \<Rightarrow> string \<Rightarrow> string \<Rightarrow> string" where
  "renderENS innerWidth activeLocale ens = (if activeLocale = ''ja-JP'' then veryShortENS ens else shortENS innerWidth ens)"

definition renderAddress :: "string \<Rightarrow> string \<Rightarrow> string" where
  "renderAddress activeLocale a = (if activeLocale = ''ja-JP'' then veryShortAddress a else useShortAddress a)"

definition wallet_text_mobile :: "int \<Rightarrow> string \<Rightarrow> string option \<Rightarrow> string \<Rightarrow> string" where
  "wallet_text_mobile innerWidth activeLocale ens a =
     (case ens of
        Some e \<Rightarrow> if e = '''' then renderAddress activeLocale a else renderENS innerWidth activeLocale e
      | None \<Rightarrow> renderAddress activeLocale a)"

definition wallet_text_desktop :: "string option \<Rightarrow> string \<Rightarrow> string" where
  "wallet_text_desktop ens a =
     (case ens of Some e \<Rightarrow> if e = '''' then useShortAddress a else e | None \<Rightarrow> useShortAddress a)"

datatype wallet_event =
    ConnectClicked | ModalDismissed | MenuToggled | SwitchClicked | DisconnectClicked | AccountChanged "string option"

text \<open>What is not shown cannot be clicked.\<close>

definition wallet_step :: "NavWallet \<Rightarrow> wallet_event \<Rightarrow> NavWallet" where
  "wallet_step s e =
     (case e of
        ConnectClicked \<Rightarrow> if account_shown s then s else setModalStateHandler True s
      | ModalDismissed \<Rightarrow> if connect_modal_shown s then setModalStateHandler False s else s
      | MenuToggled \<Rightarrow> if account_shown s then toggle_menu s else s
      | SwitchClicked \<Rightarrow> if account_shown s then fst (switchWalletHandler s) else s
      | DisconnectClicked \<Rightarrow> if account_shown s then fst (disconectWalletHandler s) else s
      | AccountChanged a \<Rightarrow> s\<lparr>nw_activeAccount := a\<rparr>)"

abbreviation wallet_run :: "wallet_event list \<Rightarrow> NavWallet" where
  "wallet_run es \<equiv> foldl wallet_step initial_wallet es"

text \<open>The connectors of the connect dialog.\<close>

datatype WALLET_TYPE = metamask | brave | ledger | walletconnect | fortmatic | trezor | coinbaseWallet

fun wallet_name :: "WALLET_TYPE \<Rightarrow> string" where
  "wallet_name metamask = ''Metamask''"
| "wallet_name brave = ''Brave''"
| "wallet_name ledger = ''Ledger''"
| "wallet_name walletconnect = ''WalletConnect''"
| "wallet_name fortmatic = ''Fortmatic''"
| "wallet_name trezor = ''Trezor''"
| "wallet_name coinbaseWallet = ''Coinbase Wallet''"

fun wallet_logo :: "WALLET_TYPE \<Rightarrow> string" where
  "wallet_logo metamask = ''metamask-fox.svg''"
| "wallet_logo fortmatic = ''fortmatic.svg''"
| "wallet_logo walletconnect = ''walletconnect-logo.svg''"
| "wallet_logo brave = ''brave.svg''"
| "wallet_logo ledger = ''ledger.svg''"
| "wallet_logo trezor = ''trezor.svg''"
| "wallet_logo coinbaseWallet = ''coinbase-wallet-dot.svg''"

datatype connector =
    InjectedConnector "num list"
  | FortmaticConnector string num
  | WalletConnectConnector "num list" num "(num \<times> string) list"
  | WalletLinkConnector string string string "num list"
  | TrezorConnector num string string string

definition wallet_buttons :: "num \<Rightarrow> AppConfig \<Rightarrow> (WALLET_TYPE \<times> connector) list" where
  "wallet_buttons chain app =
     [(metamask, InjectedConnector [chain]),
      (fortmatic, FortmaticConnector ''pk_live_60FAF077265B4CBA'' chain),
      (walletconnect, WalletConnectConnector [chain] chain [(chain, jsonRpcUri app)]),
      (coinbaseWallet,
        WalletLinkConnector ''Nouns.WTF'' ''https://unouns.wtf/static/media/logo.cdea1650.svg'' (jsonRpcUri app) [chain]),
      (brave, InjectedConnector [chain]),
      (trezor, TrezorConnector chain (jsonRpcUri app) ''https://unouns.wtf'' ''nounops+trezorconnect@protonmail.com'')]"

section \<open>The ENS avatar\<close>

text \<open>
  Every run of the effect has a flag \<open>mounted\<close> of its own, which its clean-up clears; here the runs are numbered and
  \<open>av_run\<close> is the one whose flag is set. Its three requests are one answer: the avatar, or nothing.
\<close>

record Avatar =
  av_address :: string
  av_run :: nat
  av_pending :: "(nat \<times> string) list"
  av_ensAvatar :: "string option"

definition start_lookup :: "bool \<Rightarrow> Avatar \<Rightarrow> Avatar" where
  "start_lookup library s =
     (if av_address s \<noteq> '''' \<and> library then s\<lparr>av_pending := av_pending s @ [(av_run s, av_address s)]\<rparr> else s)"

definition change_avatar_address :: "bool \<Rightarrow> string \<Rightarrow> Avatar \<Rightarrow> Avatar" where
  "change_avatar_address library a s =
     start_lookup library (s\<lparr>av_address := a, av_run := Suc (av_run s), av_ensAvatar := Some ''''\<rparr>)"

definition avatar_answered :: "(string \<Rightarrow> string option) \<Rightarrow> nat \<Rightarrow> Avatar \<Rightarrow> Avatar" where
  "avatar_answered avatar i s =
     (let (run, a) = av_pending s ! i;
          s' = s\<lparr>av_pending := take i (av_pending s) @ drop (Suc i) (av_pending s)\<rparr>
      in case avatar a of
           None \<Rightarrow> s'
         | Some v \<Rightarrow> if run = av_run s then s'\<lparr>av_ensAvatar := Some v\<rparr> else s')"

section \<open>What the frame promises\<close>

subsection \<open>Languages\<close>

lemma parseLocale_supported: "parseLocale x = Some l \<Longrightarrow> l \<in> set SUPPORTED_LOCALES"
  by (auto simp: parseLocale_def split: option.splits dest!: find_Some_iff [THEN iffD1])

lemma navigatorLocale_supported: "navigatorLocale x = Some l \<Longrightarrow> l \<in> set SUPPORTED_LOCALES"
  by (auto simp: navigatorLocale_def split: option.splits if_splits list.splits dest!: parseLocale_supported)

lemma initialLocale_supported: "initialLocale lang nav \<in> set SUPPORTED_LOCALES"
  by (auto simp: initialLocale_def DEFAULT_LOCALE_def SUPPORTED_LOCALES_def split: option.splits
      dest!: parseLocale_supported navigatorLocale_supported)

text \<open>The locale in use is not checked: neither what is stored nor what the browser says.\<close>

lemma french_browser:
  "initialLocale None (Some ''fr-FR'') = ''en-US''"
  "useActiveLocale (Some ''fr-FR'') None (Some ''fr-FR'') = ''fr-FR''" "plurals ''fr-FR'' = None"
  by code_simp+

text \<open>Runs of the language menu: choices, and catalogs that arrive, in the order of the requests or in any.\<close>

inductive locale_reach :: "bool \<Rightarrow> LocaleState \<Rightarrow> LocaleState \<Rightarrow> bool" for fifo s where
  start: "locale_reach fifo s s"
| choice: "locale_reach fifo s t \<Longrightarrow> l \<in> set SUPPORTED_LOCALES \<Longrightarrow> locale_reach fifo s (setLocale l t)"
| loaded: "locale_reach fifo s t \<Longrightarrow> i < length (lc_loading t) \<Longrightarrow> (fifo \<longrightarrow> i = 0)
    \<Longrightarrow> locale_reach fifo s (catalog_loaded i t)"

definition newest_request :: "LocaleState \<Rightarrow> string option" where
  "newest_request t = (if lc_loading t = [] then lc_active t else Some (fst (last (lc_loading t))))"

definition locale_ok :: "LocaleState \<Rightarrow> bool" where
  "locale_ok t \<longleftrightarrow> list_all (\<lambda>r. \<not> snd r) (lc_loading t) \<and> newest_request t = lc_lang t"

lemma setLocale_ok: "locale_ok t \<Longrightarrow> locale_ok (setLocale l t)"
  by (auto simp: locale_ok_def newest_request_def setLocale_def dynamicActivate_def split: if_splits)

lemma catalog_loaded_ok: "locale_ok t \<Longrightarrow> lc_loading t \<noteq> [] \<Longrightarrow> locale_ok (catalog_loaded 0 t)"
  by (cases "lc_loading t") (auto simp: locale_ok_def newest_request_def catalog_loaded_def split: if_splits)

lemma locale_follows_choice:
  assumes "locale_reach True s t" and "lc_loading s = []" and "lc_active s = lc_lang s" and "lc_loading t = []"
  shows "lc_active t = lc_lang t"
proof -
  have "locale_ok t"
    using assms(1)
  proof induction
    case start
    show ?case using assms(2,3) by (simp add: locale_ok_def newest_request_def)
  next
    case (choice t l)
    then show ?case by (simp add: setLocale_ok)
  next
    case (loaded t i)
    then show ?case by (auto intro: catalog_loaded_ok)
  qed
  then show ?thesis using assms(4) by (simp add: locale_ok_def newest_request_def)
qed

text \<open>
  Without that order the last catalog to arrive wins: after Japanese and back to English, the late Japanese catalog is the
  active one, while English is stored and marked in the menu.
\<close>

lemma late_catalog_wins:
  "\<exists>t. locale_reach False \<lparr>lc_lang = Some ''en-US'', lc_active = Some ''en-US'', lc_loading = []\<rparr> t
     \<and> lc_loading t = [] \<and> lc_lang t = Some ''en-US'' \<and> lc_active t = Some ''ja-JP''"
proof -
  let ?s = "\<lparr>lc_lang = Some ''en-US'', lc_active = Some ''en-US'', lc_loading = []\<rparr>"
  let ?t = "setLocale ''en-US'' (setLocale ''ja-JP'' ?s)"
  have t: "locale_reach False ?s ?t"
    by (intro locale_reach.intros) (simp_all add: SUPPORTED_LOCALES_def)
  have "locale_reach False ?s (catalog_loaded 0 (catalog_loaded 1 ?t))"
    by (intro locale_reach.loaded t) (simp_all add: setLocale_def dynamicActivate_def catalog_loaded_def)
  then show ?thesis
    by (intro exI conjI) (assumption, simp_all add: setLocale_def dynamicActivate_def catalog_loaded_def)
qed

text \<open>A choice made while the app starts is undone by the second request of the provider, whatever the order.\<close>

lemma choice_undone_at_start:
  "\<exists>t. locale_reach True (start_locale None (Some ''en-US'') None) t
     \<and> lc_loading t = [] \<and> lc_lang t = Some ''ja-JP'' \<and> lc_active t = Some ''en-US''"
proof -
  let ?s = "start_locale None (Some ''en-US'') None"
  let ?l = "catalog_loaded 0"
  have s: "?s = \<lparr>lc_lang = Some ''en-US'', lc_active = None, lc_loading = [(''en-US'', False), (''en-US'', True)]\<rparr>"
    by code_simp
  let ?t = "setLocale ''ja-JP'' ?s"
  have t: "locale_reach True ?s ?t"
    by (intro locale_reach.intros) (simp add: SUPPORTED_LOCALES_def)
  have "locale_reach True ?s (?l (?l (?l (?l ?t))))"
    by (intro locale_reach.loaded t) (simp_all add: s setLocale_def dynamicActivate_def catalog_loaded_def)
  then show ?thesis
    by (intro exI conjI) (assumption, simp_all add: s setLocale_def dynamicActivate_def catalog_loaded_def)
qed

subsection \<open>The treasury\<close>

text \<open>What is loaded, each part by an answer of its own, and the balances that the chain has.\<close>

record Treasury =
  tr_eth :: "int option"
  tr_lido :: "int option"
  tr_buyer :: TokenBuyer

record Balances =
  ba_eth :: int
  ba_lido :: int
  ba_buyer :: int
  ba_usdc :: int
  ba_price :: int

definition nothing_loaded :: Treasury where
  "nothing_loaded = \<lparr>tr_eth = None, tr_lido = None,
     tr_buyer = \<lparr>tb_ethBalance = None, tb_usdcBalance = None, tb_ethUsdcPrice = None\<rparr>\<rparr>"

definition treasury_shown :: "Treasury \<Rightarrow> (string, int) result" where
  "treasury_shown s = useTreasuryBalance (tr_eth s) (tr_lido s) (tr_buyer s)"

definition treasury_total :: "Balances \<Rightarrow> int" where
  "treasury_total b = ba_eth b + ba_lido b + ba_buyer b + ba_usdc b * 10 ^ 20 div ba_price b"

inductive treasury_reach :: "Balances \<Rightarrow> Treasury \<Rightarrow> bool" for b where
  start: "treasury_reach b nothing_loaded"
| eth: "treasury_reach b s \<Longrightarrow> treasury_reach b (s\<lparr>tr_eth := Some (ba_eth b)\<rparr>)"
| lido: "treasury_reach b s \<Longrightarrow> treasury_reach b (s\<lparr>tr_lido := Some (ba_lido b)\<rparr>)"
| buyer: "treasury_reach b s \<Longrightarrow> treasury_reach b (s\<lparr>tr_buyer := (tr_buyer s)\<lparr>tb_ethBalance := Some (ba_buyer b)\<rparr>\<rparr>)"
| usdc: "treasury_reach b s \<Longrightarrow> treasury_reach b (s\<lparr>tr_buyer := (tr_buyer s)\<lparr>tb_usdcBalance := Some (ba_usdc b)\<rparr>\<rparr>)"
| price: "treasury_reach b s \<Longrightarrow> treasury_reach b (s\<lparr>tr_buyer := (tr_buyer s)\<lparr>tb_ethUsdcPrice := Some (ba_price b)\<rparr>\<rparr>)"

definition loaded_as :: "Balances \<Rightarrow> Treasury \<Rightarrow> bool" where
  "loaded_as b s \<longleftrightarrow>
     tr_eth s \<in> {None, Some (ba_eth b)} \<and> tr_lido s \<in> {None, Some (ba_lido b)}
     \<and> tb_ethBalance (tr_buyer s) \<in> {None, Some (ba_buyer b)} \<and> tb_usdcBalance (tr_buyer s) \<in> {None, Some (ba_usdc b)}
     \<and> tb_ethUsdcPrice (tr_buyer s) \<in> {None, Some (ba_price b)}"

lemma treasury_reach_loaded: "treasury_reach b s \<Longrightarrow> loaded_as b s"
  by (induction rule: treasury_reach.induct) (simp_all add: loaded_as_def nothing_loaded_def)

definition all_loaded :: "Treasury \<Rightarrow> bool" where
  "all_loaded s \<longleftrightarrow> tr_eth s \<noteq> None \<and> tr_lido s \<noteq> None \<and> tb_ethBalance (tr_buyer s) \<noteq> None
     \<and> tb_usdcBalance (tr_buyer s) \<noteq> None \<and> tb_ethUsdcPrice (tr_buyer s) \<noteq> None"

lemma bn_div_pos: "0 \<le> a \<Longrightarrow> 0 < b \<Longrightarrow> bn_div a b = Inr (a div b)"
  by (cases "a = 0") (simp_all add: bn_div_def)

lemma buyer_share:
  assumes "loaded_as b s" "0 \<le> ba_buyer b" "0 \<le> ba_usdc b" "0 < ba_price b"
  shows "\<exists>x. useTokenBuyerBalance (tr_buyer s) = Inr x
    \<and> 0 \<le> or_zero x \<and> or_zero x \<le> ba_buyer b + ba_usdc b * 10 ^ 20 div ba_price b
    \<and> (all_loaded s \<longrightarrow> or_zero x = ba_buyer b + ba_usdc b * 10 ^ 20 div ba_price b)"
proof -
  have "0 \<le> ba_usdc b * 10 ^ 20 div ba_price b"
    using assms by (simp add: pos_imp_zdiv_nonneg_iff)
  then show ?thesis
    using assms by (auto simp: loaded_as_def all_loaded_def useTokenBuyerBalance_def or_zero_def bn_div_pos split: option.splits)
qed


text \<open>Three ETH, two staked, one with the buyer and 2000 USDC at 1000 USD make eight.\<close>

definition sample_balances :: Balances where
  "sample_balances = \<lparr>ba_eth = 3 * 10 ^ 18, ba_lido = 2 * 10 ^ 18, ba_buyer = 10 ^ 18, ba_usdc = 2000 * 10 ^ 6,
     ba_price = 1000 * 10 ^ 8\<rparr>"


text \<open>A price feed that answers zero makes the hook throw.\<close>

lemma zero_price_throws:
  "useTokenBuyerBalance \<lparr>tb_ethBalance = Some 1, tb_usdcBalance = Some 1, tb_ethUsdcPrice = Some 0\<rparr> = Inl ''division-by-zero''"
  by code_simp

subsection \<open>Blocks and avatars\<close>

text \<open>Answers that come in the order of their requests leave the time of the last block asked for.\<close>

inductive block_reach :: "(int \<Rightarrow> int option) \<Rightarrow> bool \<Rightarrow> BlockTime \<Rightarrow> bool" for getBlock fifo where
  start: "block_reach getBlock fifo \<lparr>bt_blockNumber = None, bt_library = True, bt_blockTimestamp = None, bt_pending = []\<rparr>"
| new_block: "block_reach getBlock fifo s \<Longrightarrow> n \<noteq> 0
    \<Longrightarrow> block_reach getBlock fifo (updateBlockTimestamp (s\<lparr>bt_blockNumber := Some n\<rparr>))"
| answer: "block_reach getBlock fifo s \<Longrightarrow> i < length (bt_pending s) \<Longrightarrow> (fifo \<longrightarrow> i = 0)
    \<Longrightarrow> block_reach getBlock fifo (block_answered getBlock i s)"

definition block_ok :: "(int \<Rightarrow> int option) \<Rightarrow> BlockTime \<Rightarrow> bool" where
  "block_ok getBlock s \<longleftrightarrow> bt_library s
     \<and> (if bt_pending s \<noteq> [] then bt_blockNumber s = Some (last (bt_pending s))
        else case bt_blockNumber s of
               None \<Rightarrow> bt_blockTimestamp s = None
             | Some n \<Rightarrow> bt_blockTimestamp s = (case getBlock n of Some t \<Rightarrow> if t = 0 then None else Some t | None \<Rightarrow> None))"

lemma new_block_ok: "block_ok getBlock s \<Longrightarrow> n \<noteq> 0 \<Longrightarrow> block_ok getBlock (updateBlockTimestamp (s\<lparr>bt_blockNumber := Some n\<rparr>))"
  by (simp add: block_ok_def updateBlockTimestamp_def)

lemma block_answered_ok: "block_ok getBlock s \<Longrightarrow> bt_pending s \<noteq> [] \<Longrightarrow> block_ok getBlock (block_answered getBlock 0 s)"
  by (cases "bt_pending s") (simp_all add: block_ok_def block_answered_def split: if_splits)

lemma block_time_of_last_block:
  assumes "block_reach getBlock True s" and "bt_pending s = []" and "bt_blockNumber s = Some n"
  shows "bt_blockTimestamp s = (case getBlock n of Some t \<Rightarrow> if t = 0 then None else Some t | None \<Rightarrow> None)"
proof -
  have "block_ok getBlock s"
    using assms(1)
  proof induction
    case start
    show ?case by (simp add: block_ok_def)
  next
    case (new_block s n)
    then show ?case by (simp add: new_block_ok)
  next
    case (answer s i)
    then show ?case by (auto intro: block_answered_ok)
  qed
  then show ?thesis using assms(2,3) by (simp add: block_ok_def)
qed

text \<open>The answer for an older block, coming late, replaces the time of the newer one.\<close>

lemma late_block_wins:
  "\<exists>s. block_reach Some False s \<and> bt_pending s = [] \<and> bt_blockNumber s = Some 2 \<and> bt_blockTimestamp s = Some 1"
proof -
  let ?s = "\<lparr>bt_blockNumber = None, bt_library = True, bt_blockTimestamp = None, bt_pending = []\<rparr>"
  let ?n = "\<lambda>n s. updateBlockTimestamp (s\<lparr>bt_blockNumber := Some n\<rparr>)"
  let ?t = "block_answered Some 0 (block_answered Some 1 (?n 2 (?n 1 ?s)))"
  have "block_reach Some False ?t"
    by (intro block_reach.intros) (simp_all add: updateBlockTimestamp_def block_answered_def)
  moreover have "bt_pending ?t = [] \<and> bt_blockNumber ?t = Some 2 \<and> bt_blockTimestamp ?t = Some 1"
    by (simp add: updateBlockTimestamp_def block_answered_def)
  ultimately show ?thesis by blast
qed

text \<open>The avatar hook does not have that fault: its flag drops the answers for an earlier address.\<close>

inductive avatar_reach :: "(string \<Rightarrow> string option) \<Rightarrow> Avatar \<Rightarrow> bool" for avatar where
  mount: "avatar_reach avatar (start_lookup lib \<lparr>av_address = a, av_run = 0, av_pending = [], av_ensAvatar = None\<rparr>)"
| new_address: "avatar_reach avatar s \<Longrightarrow> avatar_reach avatar (change_avatar_address lib a s)"
| answer: "avatar_reach avatar s \<Longrightarrow> i < length (av_pending s) \<Longrightarrow> avatar_reach avatar (avatar_answered avatar i s)"

definition avatar_ok :: "(string \<Rightarrow> string option) \<Rightarrow> Avatar \<Rightarrow> bool" where
  "avatar_ok avatar s \<longleftrightarrow>
     list_all (\<lambda>(run, a). run \<le> av_run s \<and> (run = av_run s \<longrightarrow> a = av_address s)) (av_pending s)
     \<and> (\<forall>v. av_ensAvatar s = Some v \<longrightarrow> v = '''' \<or> avatar (av_address s) = Some v)"

lemma start_lookup_ok: "avatar_ok avatar s \<Longrightarrow> avatar_ok avatar (start_lookup lib s)"
  by (simp add: avatar_ok_def start_lookup_def)

lemma change_address_ok: "avatar_ok avatar s \<Longrightarrow> avatar_ok avatar (change_avatar_address lib a s)"
  unfolding change_avatar_address_def by (rule start_lookup_ok) (auto simp: avatar_ok_def list_all_iff)

lemma list_all_without: "list_all P xs \<Longrightarrow> list_all P (take i xs @ drop (Suc i) xs)"
  by (auto simp: list_all_iff dest: in_set_takeD in_set_dropD)

lemma avatar_answered_ok:
  assumes "avatar_ok avatar s" and "i < length (av_pending s)"
  shows "avatar_ok avatar (avatar_answered avatar i s)"
proof -
  obtain run a where r: "av_pending s ! i = (run, a)" by (cases "av_pending s ! i")
  have pending: "list_all (\<lambda>(run, a). run \<le> av_run s \<and> (run = av_run s \<longrightarrow> a = av_address s)) (av_pending s)"
    using assms(1) by (simp only: avatar_ok_def)
  then have "run = av_run s \<Longrightarrow> a = av_address s"
    using assms(2) r by (auto simp: list_all_length)
  then show ?thesis
    using assms(1) list_all_without [OF pending, of i]
    by (cases "avatar a"; cases "run = av_run s") (simp_all add: avatar_answered_def r avatar_ok_def Let_def)
qed

lemma avatar_of_shown_address:
  assumes "avatar_reach avatar s" and "av_ensAvatar s = Some v" and "v \<noteq> ''''"
  shows "avatar (av_address s) = Some v"
proof -
  have "avatar_ok avatar s"
    using assms(1)
  proof induction
    case (mount lib a)
    show ?case by (rule start_lookup_ok) (simp add: avatar_ok_def)
  next
    case (new_address s lib a)
    then show ?case by (intro change_address_ok)
  next
    case (answer s i)
    then show ?case by (intro avatar_answered_ok)
  qed
  then show ?thesis using assms(2,3) by (auto simp: avatar_ok_def)
qed

subsection \<open>The bar and the wallet\<close>

text \<open>
  The bar and the buttons in it test different paths: on the page of the founders, whose path starts with \<open>/unoun\<close>, the bar
  is white and the wallet and language buttons have the colours of the auction page.
\<close>

lemma same_background:
  "contains_str p ''/unoun/'' = contains_str p ''/unoun'' \<Longrightarrow> contains_str p ''/auction/'' = contains_str p ''/auction''
     \<Longrightarrow> useStateBg p = shouldUseStateBg p"
  by (simp add: useStateBg_def shouldUseStateBg_def)

lemma unounders_page_mixed:
  "nonWalletButtonStyle True ''/unounders'' = WHITE_INFO" "connectWalletButtonStyle True ''/unounders'' = COOL_WALLET"
  by code_simp+

text \<open>Every way to connect asks for the chain that the app is configured for.\<close>

fun connector_chains :: "connector \<Rightarrow> num list" where
  "connector_chains (InjectedConnector cs) = cs"
| "connector_chains (FortmaticConnector k c) = [c]"
| "connector_chains (WalletConnectConnector cs c rpc) = cs @ [c] @ map fst rpc"
| "connector_chains (WalletLinkConnector n l u cs) = cs"
| "connector_chains (TrezorConnector c u m e) = [c]"

lemma wallets_of_configured_chain:
  "list_all (\<lambda>(w, c). list_all (\<lambda>x. x = chain) (connector_chains c)) (wallet_buttons chain app)"
  by (simp add: wallet_buttons_def)

lemma no_wrong_network: "network_alert_shown (Some c) (Some d) \<longleftrightarrow> c \<noteq> d"
  by (simp add: network_alert_shown_def)

text \<open>After a disconnect nothing but a click on connect opens the dialog again, whatever the wallet does.\<close>

lemma modal_stays_closed:
  "\<not> nw_showConnectModal s \<Longrightarrow> list_all (\<lambda>e. e \<noteq> ConnectClicked \<and> e \<noteq> SwitchClicked) es
     \<Longrightarrow> \<not> nw_showConnectModal (foldl wallet_step s es)"
proof (induction es arbitrary: s)
  case (Cons e es)
  have "\<not> nw_showConnectModal (wallet_step s e)"
    using Cons.prems
    by (cases e) (simp_all add: wallet_step_def setModalStateHandler_def toggle_menu_def disconectWalletHandler_def)
  then show ?case using Cons by simp
qed simp

lemma disconnect_closes_dialog:
  assumes "account_shown (wallet_run es)" and "list_all (\<lambda>e. e \<noteq> ConnectClicked \<and> e \<noteq> SwitchClicked) fs"
  shows "\<not> connect_modal_shown (wallet_run (es @ DisconnectClicked # fs))"
  using modal_stays_closed [OF _ assms(2), of "fst (disconectWalletHandler (wallet_run es))"] assms(1)
  by (simp add: connect_modal_shown_def wallet_step_def disconectWalletHandler_def)

text \<open>
  Connecting does not close the dialog, it only hides it: when the wallet ends the connection by itself, the dialog is back
  without a click.
\<close>

lemma dialog_comes_back:
  "connect_modal_shown (wallet_run [ConnectClicked, AccountChanged (Some ''0xab''), AccountChanged None])"
  by code_simp

end
