(* ===== verification/Web_Contracts.thy ===== *)
theory Web_Contracts
  imports Web_Vote Web_Propose Web_Activity
begin

text \<open>
  The calls that the web app makes on the contracts: the hooks of \<^verbatim>\<open>wrappers/nounsDao.ts\<close>, \<^verbatim>\<open>wrappers/nounToken.ts\<close>,
  \<^verbatim>\<open>wrappers/nounsAuction.ts\<close> and \<^verbatim>\<open>tokenBuyer.ts\<close> that read a value or hand a transaction over. A read is a call
  record with the answer decoded; the node is the parameter that answers calls. Beside them stand the functions of the
  contracts as their Solidity sources declare them (\<^verbatim>\<open>NounsDAOLogicV2.sol\<close>, \<^verbatim>\<open>UNounsToken.sol\<close> with its bases,
  \<^verbatim>\<open>NounsAuctionHouse.sol\<close>; the token buyer is not in the repository). \<open>call_fits\<close>: the method exists and every
  argument can be encoded as its parameter's type.
\<close>

section \<open>Calls and contracts\<close>

datatype call_arg = AInt int | AText string | AInts "int list" | ATexts "string list" | AUndef

datatype sol_type = SolUint nat | SolAddress | SolString | SolArray sol_type | SolBytes

record ContractCall =
  cc_address :: string
  cc_method :: string
  cc_args :: "call_arg list"

definition address_text :: "string \<Rightarrow> bool" where
  "address_text s \<longleftrightarrow> starts_with s ''0x'' \<and> length s = 42 \<and> list_all (is_digit_in 16) (drop 2 (to_lower s))"

text \<open>A non-negative number, or its numeral, in the range of the type.\<close>

definition uint_text :: "nat \<Rightarrow> string \<Rightarrow> bool" where
  "uint_text w s \<longleftrightarrow> s \<noteq> [] \<and> list_all (is_digit_in 10) s \<and> digits_value 10 s < 2 ^ w"

fun encodes :: "sol_type \<Rightarrow> call_arg \<Rightarrow> bool" where
  "encodes (SolUint w) (AInt n) = (0 \<le> n \<and> n < 2 ^ w)"
| "encodes (SolUint w) (AText s) = uint_text w s"
| "encodes SolAddress (AText s) = address_text s"
| "encodes SolString (AText s) = True"
| "encodes (SolArray (SolUint w)) (AInts ns) = list_all (\<lambda>n. 0 \<le> n \<and> n < 2 ^ w) ns"
| "encodes (SolArray t) (ATexts ss) = list_all (\<lambda>s. encodes t (AText s)) ss"
| "encodes SolBytes (AText s) = (starts_with s ''0x'' \<and> even (length s) \<and> list_all (is_digit_in 16) (drop 2 (to_lower s)))"
| "encodes _ _ = False"

definition dao_functions :: "(string \<times> sol_type list) list" where
  "dao_functions =
     [(''quorumVotes'', [SolUint 256]), (''getDynamicQuorumParamsAt'', [SolUint 256]),
      (''getReceipt'', [SolUint 256, SolAddress]), (''proposalCount'', []), (''proposalThreshold'', []),
      (''proposals'', [SolUint 256]), (''state'', [SolUint 256]),
      (''castVote'', [SolUint 256, SolUint 8]), (''castVoteWithReason'', [SolUint 256, SolUint 8, SolString]),
      (''castRefundableVote'', [SolUint 256, SolUint 8]),
      (''castRefundableVoteWithReason'', [SolUint 256, SolUint 8, SolString]),
      (''propose'', [SolArray SolAddress, SolArray (SolUint 256), SolArray SolString, SolArray SolBytes, SolString]),
      (''queue'', [SolUint 256]), (''cancel'', [SolUint 256]), (''execute'', [SolUint 256])]"

definition token_functions :: "(string \<times> sol_type list) list" where
  "token_functions =
     [(''dataURI'', [SolUint 256]), (''seeds'', [SolUint 256]), (''getCurrentVotes'', [SolAddress]),
      (''getPriorVotes'', [SolAddress, SolUint 256]), (''delegates'', [SolAddress]), (''delegate'', [SolAddress]),
      (''balanceOf'', [SolAddress])]"

definition house_functions :: "(string \<times> sol_type list) list" where
  "house_functions =
     [(''auction'', []), (''duration'', []), (''minBidIncrementPercentage'', []), (''nouns'', []),
      (''createBid'', [SolUint 256]), (''settleCurrentAndCreateNewAuction'', [])]"

definition call_fits :: "(string \<times> sol_type list) list \<Rightarrow> ContractCall \<Rightarrow> bool" where
  "call_fits fs c \<longleftrightarrow>
     (case map_of fs (cc_method c) of None \<Rightarrow> False | Some ts \<Rightarrow> list_all2 encodes ts (cc_args c))"

section \<open>The governor: wrappers/nounsDao.ts\<close>

definition quorumVotes_call :: "string \<Rightarrow> int \<Rightarrow> bool \<Rightarrow> ContractCall option" where
  "quorumVotes_call nounsDao proposalId skip =
     (if skip then None else Some \<lparr>cc_address = nounsDao, cc_method = ''quorumVotes'', cc_args = [AInt proposalId]\<rparr>)"

definition useDynamicQuorumProps :: "(ContractCall \<Rightarrow> 'p option) \<Rightarrow> string \<Rightarrow> int \<Rightarrow> 'p option" where
  "useDynamicQuorumProps answer nounsDao block =
     answer \<lparr>cc_address = nounsDao, cc_method = ''getDynamicQuorumParamsAt'', cc_args = [AInt block]\<rparr>"

definition text_arg :: "string option \<Rightarrow> call_arg" where
  "text_arg t = (case t of None \<Rightarrow> AUndef | Some s \<Rightarrow> AText s)"

definition getReceipt_call :: "string \<Rightarrow> string option \<Rightarrow> string option \<Rightarrow> ContractCall" where
  "getReceipt_call dao proposalId acct =
     \<lparr>cc_address = dao, cc_method = ''getReceipt'', cc_args = [text_arg proposalId, text_arg acct]\<rparr>"

definition hasVotedOnProposal :: "(ContractCall \<Rightarrow> Receipt option) \<Rightarrow> string \<Rightarrow> string option \<Rightarrow> string option \<Rightarrow> bool" where
  "hasVotedOnProposal answer dao proposalId acct = useHasVotedOnProposal (answer (getReceipt_call dao proposalId acct))"

definition proposalVote :: "(ContractCall \<Rightarrow> Receipt option) \<Rightarrow> string \<Rightarrow> string option \<Rightarrow> string option \<Rightarrow> string" where
  "proposalVote answer dao proposalId acct = useProposalVote (answer (getReceipt_call dao proposalId acct))"

text \<open>\<open>BigNumber.toNumber\<close> throws outside the safe integers.\<close>

definition toNumber :: "int \<Rightarrow> (string, int) result" where
  "toNumber n = (if \<bar>n\<bar> < 2 ^ 53 then Inr n else Inl ''overflow'')"

definition number_of_answer :: "int option \<Rightarrow> (string, int option) result" where
  "number_of_answer x = (case x of None \<Rightarrow> Inr None | Some n \<Rightarrow> bind_result (toNumber n) (\<lambda>m. Inr (Some m)))"

definition plain_call :: "string \<Rightarrow> string \<Rightarrow> ContractCall" where
  "plain_call a method = \<lparr>cc_address = a, cc_method = method, cc_args = []\<rparr>"

definition useProposalCount :: "(ContractCall \<Rightarrow> int option) \<Rightarrow> string \<Rightarrow> (string, int option) result" where
  "useProposalCount answer dao = number_of_answer (answer (plain_call dao ''proposalCount''))"

definition useProposalThreshold :: "(ContractCall \<Rightarrow> int option) \<Rightarrow> string \<Rightarrow> (string, int option) result" where
  "useProposalThreshold answer dao = number_of_answer (answer (plain_call dao ''proposalThreshold''))"

text \<open>The calls of the list that is read from the chain, for every proposal index.\<close>

definition proposal_requests :: "bool \<Rightarrow> string \<Rightarrow> int option \<Rightarrow> string \<Rightarrow> ContractCall option list" where
  "proposal_requests skip dao proposalCount method =
     (if skip then [None]
      else map (\<lambda>index. Some \<lparr>cc_address = dao, cc_method = method, cc_args = [AInt index]\<rparr>) (countToIndices proposalCount))"

text \<open>Transactions: the vote as the vote dialog sends it, the proposal as the create page does, the three transitions.\<close>

fun vote_number :: "WVote \<Rightarrow> int" where
  "vote_number VAGAINST = 0"
| "vote_number VFOR = 1"
| "vote_number VABSTAIN = 2"

definition cast_tx :: "string \<Rightarrow> vote_call \<Rightarrow> ContractCall" where
  "cast_tx dao c =
     \<lparr>cc_address = dao, cc_method = vl_method c,
      cc_args = [AText (vl_proposalId c), AInt (vote_number (vl_vote c))]
        @ (case vl_reason c of None \<Rightarrow> [] | Some r \<Rightarrow> [AText r])\<rparr>"

definition usePropose :: "string \<Rightarrow> propose_call \<Rightarrow> ContractCall" where
  "usePropose dao c =
     \<lparr>cc_address = dao, cc_method = ''propose'',
      cc_args = [ATexts (sp_targets c), ATexts (sp_values c), ATexts (sp_signatures c), ATexts (sp_calldatas c),
                 AText (sp_description c)]\<rparr>"

definition useQueueProposal :: "string \<Rightarrow> string \<Rightarrow> ContractCall" where
  "useQueueProposal dao i = \<lparr>cc_address = dao, cc_method = ''queue'', cc_args = [AText i]\<rparr>"

definition useCancelProposal :: "string \<Rightarrow> string \<Rightarrow> ContractCall" where
  "useCancelProposal dao i = \<lparr>cc_address = dao, cc_method = ''cancel'', cc_args = [AText i]\<rparr>"

definition useExecuteProposal :: "string \<Rightarrow> string \<Rightarrow> ContractCall" where
  "useExecuteProposal dao i = \<lparr>cc_address = dao, cc_method = ''execute'', cc_args = [AText i]\<rparr>"

section \<open>The token: wrappers/nounToken.ts\<close>

definition token_call :: "string \<Rightarrow> string \<Rightarrow> call_arg list \<Rightarrow> ContractCall" where
  "token_call nounsToken method args = \<lparr>cc_address = nounsToken, cc_method = method, cc_args = args\<rparr>"

definition useUserDelegatee :: "(ContractCall \<Rightarrow> string option) \<Rightarrow> string \<Rightarrow> string option \<Rightarrow> string option" where
  "useUserDelegatee answer nounsToken acct = answer (token_call nounsToken ''delegates'' [text_arg acct])"

definition useUserVotesAsOfBlock ::
    "(ContractCall \<Rightarrow> int option) \<Rightarrow> string \<Rightarrow> string option \<Rightarrow> int option \<Rightarrow> (string, int option) result" where
  "useUserVotesAsOfBlock answer nounsToken acct block =
     number_of_answer (answer (token_call nounsToken ''getPriorVotes''
       [text_arg acct, case block of None \<Rightarrow> AUndef | Some b \<Rightarrow> AInt b]))"

definition useNounTokenBalance :: "(ContractCall \<Rightarrow> int option) \<Rightarrow> string \<Rightarrow> string \<Rightarrow> (string, int option) result" where
  "useNounTokenBalance answer nounsToken a = number_of_answer (answer (token_call nounsToken ''balanceOf'' [AText a]))"

definition useUserNounTokenBalance ::
    "(ContractCall \<Rightarrow> int option) \<Rightarrow> string \<Rightarrow> string option \<Rightarrow> (string, int option) result" where
  "useUserNounTokenBalance answer nounsToken acct =
     number_of_answer (answer (token_call nounsToken ''balanceOf'' [text_arg acct]))"

definition useDelegateVotes :: "string \<Rightarrow> string \<Rightarrow> ContractCall" where
  "useDelegateVotes nounsToken delegatee = token_call nounsToken ''delegate'' [AText delegatee]"

text \<open>The calls of \<open>useNounToken\<close>, \<open>useNounSeed\<close> and \<open>useAccountVotes\<close>, whose answers \<open>Web_Activity\<close> models.\<close>

definition dataURI_call :: "string \<Rightarrow> int \<Rightarrow> ContractCall" where
  "dataURI_call nounsToken unounId = token_call nounsToken ''dataURI'' [AInt unounId]"

definition seeds_call :: "string \<Rightarrow> 'seed option \<Rightarrow> int \<Rightarrow> ContractCall option" where
  "seeds_call nounsToken seed unounId =
     (case seed of None \<Rightarrow> Some (token_call nounsToken ''seeds'' [AInt unounId]) | Some _ \<Rightarrow> None)"

definition getCurrentVotes_call :: "string \<Rightarrow> string option \<Rightarrow> ContractCall" where
  "getCurrentVotes_call nounsToken acct = token_call nounsToken ''getCurrentVotes'' [text_arg acct]"

section \<open>The auction house and the token buyer\<close>

definition useAuction :: "(ContractCall \<Rightarrow> 'auction option) \<Rightarrow> string \<Rightarrow> 'auction option" where
  "useAuction answer auctionHouseProxyAddress = answer (plain_call auctionHouseProxyAddress ''auction'')"

definition minBidIncrement_call :: "string \<Rightarrow> ContractCall" where
  "minBidIncrement_call house = plain_call house ''minBidIncrementPercentage''"

definition BUFFER_BPS :: int where
  "BUFFER_BPS = 5000"

definition useEthNeeded :: "(ContractCall \<Rightarrow> int option) \<Rightarrow> string \<Rightarrow> int \<Rightarrow> string option" where
  "useEthNeeded answer a additionalTokens =
     map_option int_to_dec
       (answer \<lparr>cc_address = a, cc_method = ''ethNeeded'', cc_args = [AInt additionalTokens, AInt BUFFER_BPS]\<rparr>)"

section \<open>The calls fit the contracts\<close>

lemmas call_defs = call_fits_def token_call_def plain_call_def text_arg_def getReceipt_call_def quorumVotes_call_def
  dataURI_call_def seeds_call_def getCurrentVotes_call_def minBidIncrement_call_def
  useQueueProposal_def useCancelProposal_def useExecuteProposal_def useDelegateVotes_def

definition good_id :: "string \<Rightarrow> bool" where
  "good_id i \<longleftrightarrow> uint_text 256 i"

lemma dao_lookup [simp]:
  "map_of dao_functions ''getReceipt'' = Some [SolUint 256, SolAddress]"
  "map_of dao_functions ''castVote'' = Some [SolUint 256, SolUint 8]"
  "map_of dao_functions ''castVoteWithReason'' = Some [SolUint 256, SolUint 8, SolString]"
  "map_of dao_functions ''castRefundableVote'' = Some [SolUint 256, SolUint 8]"
  "map_of dao_functions ''castRefundableVoteWithReason'' = Some [SolUint 256, SolUint 8, SolString]"
  "map_of dao_functions ''queue'' = Some [SolUint 256]" "map_of dao_functions ''cancel'' = Some [SolUint 256]"
  "map_of dao_functions ''execute'' = Some [SolUint 256]" "map_of dao_functions ''proposals'' = Some [SolUint 256]"
  "map_of dao_functions ''state'' = Some [SolUint 256]" "map_of dao_functions ''quorumVotes'' = Some [SolUint 256]"
  "map_of dao_functions ''proposalCount'' = Some []" "map_of dao_functions ''proposalThreshold'' = Some []"
  by code_simp+

lemma token_lookup [simp]:
  "map_of token_functions ''delegates'' = Some [SolAddress]" "map_of token_functions ''delegate'' = Some [SolAddress]"
  "map_of token_functions ''getPriorVotes'' = Some [SolAddress, SolUint 256]"
  "map_of token_functions ''balanceOf'' = Some [SolAddress]" "map_of token_functions ''dataURI'' = Some [SolUint 256]"
  "map_of token_functions ''seeds'' = Some [SolUint 256]" "map_of token_functions ''getCurrentVotes'' = Some [SolAddress]"
  by code_simp+

lemma transitions_fit:
  "good_id i \<Longrightarrow> call_fits dao_functions (useQueueProposal dao i)"
  "good_id i \<Longrightarrow> call_fits dao_functions (useCancelProposal dao i)"
  "good_id i \<Longrightarrow> call_fits dao_functions (useExecuteProposal dao i)"
  by (simp_all add: call_defs good_id_def)

lemma receipt_fits_iff:
  "call_fits dao_functions (getReceipt_call dao p a)
     \<longleftrightarrow> (\<exists>i acct. p = Some i \<and> a = Some acct \<and> good_id i \<and> address_text acct)"
  by (auto simp: call_defs good_id_def split: option.split)

lemma chain_list_fits:
  assumes "0 \<le> n" "n < 2 ^ 256" and "method = ''proposals'' \<or> method = ''state''"
  shows "list_all (\<lambda>c. call_fits dao_functions (the c)) (proposal_requests False dao (Some n) method)"
  using assms by (auto simp: proposal_requests_def countToIndices_def list_all_iff call_fits_def)

text \<open>Every vote of the vote dialog: what is sent has a method and arguments that belong together.\<close>

definition vote_fits :: "vote_call \<Rightarrow> bool" where
  "vote_fits c \<longleftrightarrow>
     (case vl_reason c of
        None \<Rightarrow> vl_method c \<in> {''castVote'', ''castRefundableVote''}
      | Some r \<Rightarrow> vl_method c \<in> {''castVoteWithReason'', ''castRefundableVoteWithReason''})"

lemma send_vote_fits: "send_vote ic c g = Inr call \<Longrightarrow> vote_fits call"
  by (cases c) (auto simp: send_vote_def useCastRefundableVote_def vote_fits_def Let_def js_simps split: if_splits)

lemma cast_fits:
  assumes "vote_fits c" and "good_id (vl_proposalId c)"
  shows "call_fits dao_functions (cast_tx dao c)"
proof (cases "vl_reason c")
  case None
  then show ?thesis using assms
    by (cases "vl_vote c") (auto simp: vote_fits_def cast_tx_def call_fits_def good_id_def)
next
  case (Some r)
  then show ?thesis using assms
    by (cases "vl_vote c") (auto simp: vote_fits_def cast_tx_def call_fits_def good_id_def)
qed

lemma cast_tx_head: "hd (cc_args (cast_tx dao c)) = AText (vl_proposalId c)"
  by (simp add: cast_tx_def)

lemma propose_fits_iff:
  "call_fits dao_functions (usePropose dao c)
     \<longleftrightarrow> list_all address_text (sp_targets c) \<and> list_all (uint_text 256) (sp_values c)
         \<and> list_all (\<lambda>d. encodes SolBytes (AText d)) (sp_calldatas c)"
proof -
  have "map_of dao_functions ''propose'' =
      Some [SolArray SolAddress, SolArray (SolUint 256), SolArray SolString, SolArray SolBytes, SolString]"
    by code_simp
  then show ?thesis by (simp add: usePropose_def call_fits_def list.pred_True)
qed

text \<open>Without an account three reads are made with an undefined argument.\<close>

lemma reads_without_account:
  "\<not> call_fits dao_functions (getReceipt_call dao p None)"
  "\<not> call_fits token_functions (token_call t ''delegates'' [text_arg None])"
  "\<not> call_fits token_functions (token_call t ''balanceOf'' [text_arg None])"
  by (simp_all add: call_defs split: option.split)

definition votes_ok :: "string \<Rightarrow> vote_session \<Rightarrow> bool" where
  "votes_ok pid s \<longleftrightarrow> list_all (\<lambda>c. fst c = pid) (vs_checks s)
     \<and> list_all (\<lambda>c. vote_fits c \<and> vl_proposalId c = pid) (vs_pending s @ map fst (vs_finished s))"

lemma list_all_remove1: "list_all P xs \<Longrightarrow> list_all P (remove1 x xs)"
  by (auto simp: list_all_iff dest: notin_set_remove1)

lemma vote_step_votes_ok:
  assumes "vote_step free (Some pid) s t" and "votes_ok pid s"
  shows "votes_ok pid t"
  using assms
proof (induction rule: vote_step.induct)
  case (click s m c)
  then show ?case using submit_vote_Some [OF click(2)] by (simp add: votes_ok_def)
next
  case (sent c s isContract gasLimit call)
  then have "fst c = pid" by (simp add: votes_ok_def list_all_iff)
  then show ?case
    using sent send_vote_fits [OF sent(2)] send_vote_proposal [OF sent(2)] by (simp add: votes_ok_def list_all_remove1)
next
  case (finished call s st)
  then have "vote_fits call \<and> vl_proposalId call = pid" by (simp add: votes_ok_def list_all_iff)
  then show ?case using finished by (simp add: votes_ok_def list_all_remove1)
qed (simp_all add: votes_ok_def list_all_remove1)

lemma vote_reach_votes_ok: "vote_reach free (Some pid) s \<Longrightarrow> votes_ok pid s"
  by (induction rule: vote_reach.induct) (auto simp: votes_ok_def [of _ "\<lparr>vs_modal = _, vs_checks = [], vs_pending = [], vs_finished = []\<rparr>"]
      intro: vote_step_votes_ok)

text \<open>
  In every run of the vote dialog, dismissed at any time or not, each transaction under way or finished calls a function
  that the governor has, with arguments of its types: with a reason exactly the two functions that take one, for the page's
  proposal and a support of 0, 1 or 2.
\<close>

lemma votes_fit_contract:
  assumes "vote_reach free (Some pid) s" and "good_id pid"
  shows "list_all (\<lambda>c. call_fits dao_functions (cast_tx dao c) \<and> hd (cc_args (cast_tx dao c)) = AText pid)
    (vs_pending s @ map fst (vs_finished s))"
proof -
  have "list_all (\<lambda>c. vote_fits c \<and> vl_proposalId c = pid) (vs_pending s @ map fst (vs_finished s))"
    using vote_reach_votes_ok [OF assms(1)] by (simp only: votes_ok_def)
  then show ?thesis
    by (rule list.pred_mono_strong) (use assms(2) cast_fits in \<open>auto simp: cast_tx_head\<close>)
qed

lemma votes_fit_contract_witness:
  "\<exists>s :: vote_session. vs_pending s = [refundable_vote VFOR]
     \<and> list_all (\<lambda>c. call_fits dao_functions (cast_tx ''0xda0'' c)) (vs_pending s)"
proof -
  let ?s = "\<lparr>vs_modal = for_modal, vs_checks = [], vs_pending = [refundable_vote VFOR], vs_finished = []\<rparr>"
  have "good_id ''7''"
    by (simp add: good_id_def uint_text_def is_digit_in_def digit_val_def digits_value_def)
  then have votes: "list_all (\<lambda>c. call_fits dao_functions (cast_tx ''0xda0'' c) \<and> hd (cc_args (cast_tx ''0xda0'' c)) = AText ''7'')
      (vs_pending ?s @ map fst (vs_finished ?s))"
    by (rule votes_fit_contract [OF first_vote_sent])
  show ?thesis
    by (rule exI [of _ ?s]) (use votes in simp)
qed

end
