(* ===== verification/Web_Panels.thy ===== *)
theory Web_Panels
  imports Web_Shell Web_Contracts Web_AuctionPage Web_Playground Web_Delegate
begin

text \<open>
  The panels of the web app that show what the other components compute: the content of a proposal
  (\<^verbatim>\<open>components/ProposalContent\<close>) and its draft (\<open>ProposalTransactions\<close>, \<open>ProposalEditor\<close>), the governance page, the history of
  Nouns (\<open>HistoryCollection\<close>), the cards of a Noun (\<open>NounInfoCard\<close>, \<open>NounHoverCard\<close>, \<open>StandalonePart\<close>, \<open>Noun\<close>), and the small
  parts of the votes and of the modals. Each is a function of its properties to the texts, links and classes that it shows;
  texts are the English ones. ethers' address check and number formats are parameters.
\<close>

section \<open>The content of a proposal\<close>

datatype linked = Anchor string string | Plain string

definition linkIfAddress :: "(string \<Rightarrow> bool) \<Rightarrow> int \<Rightarrow> string \<Rightarrow> linked" where
  "linkIfAddress isAddress chain content =
     (if isAddress content then Anchor (buildEtherscanAddressLink chain content) content else Plain content)"

definition transactionLink :: "int \<Rightarrow> string \<Rightarrow> linked" where
  "transactionLink chain content = Anchor (buildEtherscanTxLink chain content) (take 7 content)"

text \<open>\<open>descriptionText.replace(proposalTitle, '')\<close>\<close>

definition processProposalDescriptionText :: "string \<Rightarrow> string \<Rightarrow> string" where
  "processProposalDescriptionText descriptionText proposalTitle =
     (case break_on proposalTitle descriptionText of None \<Rightarrow> descriptionText | Some (a, b) \<Rightarrow> a @ b)"

definition call_lines :: "(string \<Rightarrow> bool) \<Rightarrow> int \<Rightarrow> string \<Rightarrow> (linked \<times> string) list" where
  "call_lines isAddress chain callData =
     (let parts = split_str '','' callData
      in map (\<lambda>(i, content). (linkIfAddress isAddress chain content, if length parts - 1 = i then '''' else '',''))
           (enumerate 0 parts))"

record detail_row =
  dr_target :: linked
  dr_signature :: string
  dr_value :: string
  dr_lines :: "(linked \<times> string) list"
  dr_topUp :: bool
  dr_payment :: "(string \<times> string) option"

definition same_address :: "string \<Rightarrow> string option \<Rightarrow> bool" where
  "same_address target configured \<longleftrightarrow> (case configured of None \<Rightarrow> False | Some c \<Rightarrow> to_lower target = to_lower c)"

text \<open>
  One transaction: \<open>usdc\<close> is \<open>formatUnits\<close> with six decimals and the number format, which throw for what is no number; the
  second part of the call data of a payment may be missing.
\<close>

definition proposal_detail ::
    "(string \<Rightarrow> bool) \<Rightarrow> (string option \<Rightarrow> (string, string) result) \<Rightarrow> int \<Rightarrow> string option \<Rightarrow> string option
      \<Rightarrow> ProposalDetail \<Rightarrow> (string, detail_row) result" where
  "proposal_detail isAddress usdc chain buyer payer d =
     (let row = \<lparr>dr_target = linkIfAddress isAddress chain (de_target d), dr_signature = de_functionSig d,
                 dr_value = (case de_value d of None \<Rightarrow> '''' | Some v \<Rightarrow> v),
                 dr_lines = call_lines isAddress chain (de_callData d),
                 dr_topUp = same_address (de_target d) buyer, dr_payment = None\<rparr>;
          parts = split_str '','' (de_callData d)
      in if same_address (de_target d) payer
         then bind_result (usdc (if 1 < length parts then Some (parts ! 1) else None))
                (\<lambda>amount. Inr (row\<lparr>dr_payment := Some (amount, hd parts)\<rparr>))
         else Inr row)"

fun all_results :: "('e, 'a) result list \<Rightarrow> ('e, 'a list) result" where
  "all_results [] = Inr []"
| "all_results (r # rs) = bind_result r (\<lambda>x. bind_result (all_results rs) (\<lambda>xs. Inr (x # xs)))"

definition ProposalContent ::
    "(string \<Rightarrow> bool) \<Rightarrow> (string option \<Rightarrow> (string, string) result) \<Rightarrow> int \<Rightarrow> string option \<Rightarrow> string option
      \<Rightarrow> (string \<times> string \<times> ProposalDetail list) option \<Rightarrow> (string, string option \<times> detail_row list) result" where
  "ProposalContent isAddress usdc chain buyer payer proposal =
     (case proposal of
        None \<Rightarrow> Inr (None, [])
      | Some (title, description, details) \<Rightarrow>
          bind_result (all_results (map (proposal_detail isAddress usdc chain buyer payer) details))
            (\<lambda>rows. Inr (if description = '''' then None else Some (processProposalDescriptionText description title), rows)))"

section \<open>The draft of a proposal\<close>

record transaction_row =
  tw_number :: nat
  tw_title :: string
  tw_address :: "linked"
  tw_valueText :: string
  tw_function :: string
  tw_calldata :: string

definition js_or :: "string \<Rightarrow> string \<Rightarrow> string" where
  "js_or a b = (if a = '''' then b else a)"

definition ProposalTransactions :: "(string \<Rightarrow> string) \<Rightarrow> int \<Rightarrow> ProposalTransaction list \<Rightarrow> transaction_row list" where
  "ProposalTransactions formatEther chain txs =
     map (\<lambda>(i, tx). \<lparr>tw_number = i + 1, tw_title = js_or (pt_signature tx) ''transfer()'',
            tw_address = Anchor (buildEtherscanAddressLink chain (pt_address tx)) (pt_address tx),
            tw_valueText = (if pt_value tx = '''' then ''None'' else formatEther (pt_value tx) @ '' ETH''),
            tw_function = js_or (pt_signature tx) ''None'',
            tw_calldata = (if pt_calldata tx = ''0x'' then ''None''
                           else case pt_decodedCalldata tx of
                                  Some s \<Rightarrow> js_or s (pt_calldata tx)
                                | None \<Rightarrow> pt_calldata tx)\<rparr>) (enumerate 0 txs)"

text \<open>The editor: the preview follows the texts typed here, not the property \<open>body\<close>.\<close>

record ProposalEditor =
  ed_proposalText :: string
  ed_body :: string

definition onBodyChange :: "string \<Rightarrow> ProposalEditor \<Rightarrow> ProposalEditor" where
  "onBodyChange text e = e\<lparr>ed_proposalText := text, ed_body := text\<rparr>"

definition editor_preview :: "string \<Rightarrow> ProposalEditor \<Rightarrow> (string option \<times> string) option" where
  "editor_preview title e =
     (if ed_proposalText e = '''' then None
      else Some (if title = '''' then None else Some title, ed_proposalText e))"

section \<open>The governance page\<close>

record GovernancePage =
  go_nounsRequired :: string
  go_noun :: string
  go_eth :: string
  go_usd :: string

text \<open>\<open>fixed\<close> is \<open>Number(x.toFixed(0))\<close> with the number format; \<open>0\<close> and \<open>NaN\<close> are shown as themselves.\<close>

definition GovernancePage_view ::
    "(double \<Rightarrow> string) \<Rightarrow> (double \<Rightarrow> string) \<Rightarrow> int option \<Rightarrow> rat option \<Rightarrow> int \<Rightarrow> GovernancePage" where
  "GovernancePage_view fixed usd threshold etherPrice treasuryBalance =
     (let usdValue = useTreasuryUSDValue etherPrice treasuryBalance
      in \<lparr>go_nounsRequired = (case threshold of Some t \<Rightarrow> int_to_dec (t + 1) | None \<Rightarrow> ''...''),
          go_noun = (if threshold = Some 0 then ''UNoun'' else ''UNouns''),
          go_eth = fixed (ether_number treasuryBalance),
          go_usd = (if usdValue = DNum 0 then ''0'' else if usdValue = DNaN then ''NaN'' else usd usdValue)\<rparr>)"

section \<open>Nouns\<close>

text \<open>\<open>None\<close> stands for the loading picture.\<close>

definition HistoryCollection :: "bool \<Rightarrow> nat \<Rightarrow> int option \<Rightarrow> int option list option" where
  "HistoryCollection enabled historyCount latestUNounId =
     (case latestUNounId of
        None \<Rightarrow> None
      | Some latest \<Rightarrow>
          (if latest = 0 then None
           else Some (if \<not> enabled then []
                else let startAtZero = latest - int historyCount < 0
                     in map (\<lambda>i. if int i < latest
                                 then Some ((if startAtZero then 0 else latest - int historyCount) + int i)
                                 else None) [0..<historyCount])))"

definition NounInfoCard :: "int \<Rightarrow> string \<Rightarrow> int option \<Rightarrow> int \<Rightarrow> string \<times> string" where
  "NounInfoCard chain token lastUNounId unounId =
     (buildEtherscanTokenLink chain token unounId,
      if lastUNounId = Some unounId then ''Bids'' else ''Bid history'')"

datatype hover_card = HoverNothing | HoverSpinner | HoverFailed | HoverNoun int string

text \<open>
  The card of a Noun: the id as a text, the state of the query with the owner in its data, and the past auctions. The
  birthday is a \<open>BigNumber\<close>, an object, so it counts as there even when it is zero.
\<close>

definition NounHoverCard :: "string \<Rightarrow> bool \<Rightarrow> bool \<Rightarrow> string option \<Rightarrow> AuctionState list \<Rightarrow> hover_card" where
  "NounHoverCard unounId loading failed owner past =
     (if past = [] then HoverNothing
      else case owner of
             None \<Rightarrow> HoverSpinner
           | Some a \<Rightarrow>
               (if loading \<or> unounId = '''' then HoverSpinner
                else let n = int (digits_value 10 unounId);
                         startTime = getNounBirthday (if isNounderNoun n then n + 1 else n) past
                     in if failed then HoverFailed else HoverNoun (startTime * 1000) a))"

definition getBackground :: "(string \<Rightarrow> string) \<Rightarrow> AssetImages \<Rightarrow> nat \<Rightarrow> string" where
  "getBackground btoa imgs partIndex =
     (let bgColor = (if partIndex < length (bgcolors imgs) then bgcolors imgs ! partIndex else ''undefined'')
      in ''data:image/svg+xml;base64,'' @ btoa (''<svg width=\"320\" height=\"320\" viewBox=\"0 0 320 320\" xmlns=\"http://www.w3.org/2000/svg\" shape-rendering=\"crispEdges\"><rect width=\"100%\" height=\"100%\" fill=\"#'' @ bgColor @ ''\" /></svg>''))"

text \<open>\<open>None\<close> where the drawing does not end, as for \<open>noun_svg\<close>.\<close>

definition getPart :: "(string \<Rightarrow> string) \<Rightarrow> AssetImages \<Rightarrow> string list \<Rightarrow> string \<Rightarrow> int \<Rightarrow> (string, string) result option" where
  "getPart btoa imgs palette partType partIndex =
     (case getPartData imgs partType partIndex of
        Inr (Some part) \<Rightarrow>
          map_option (\<lambda>svg. Inr (''data:image/svg+xml;base64,'' @ btoa svg)) (buildSVG [part] palette None)
      | _ \<Rightarrow> Some (Inl ''TypeError''))"

definition StandalonePart ::
    "(string \<Rightarrow> string) \<Rightarrow> AssetImages \<Rightarrow> string list \<Rightarrow> string \<Rightarrow> nat \<Rightarrow> (string, string) result option" where
  "StandalonePart btoa imgs palette partType partIndex =
     (if partType = ''backgrounds'' then Some (Inr (getBackground btoa imgs partIndex))
      else getPart btoa imgs palette partType (int partIndex))"

definition Noun_src :: "string \<Rightarrow> string \<Rightarrow> string" where
  "Noun_src loadingNoun imgPath = js_or imgPath loadingNoun"

section \<open>Small parts\<close>

fun VoteProgressBar :: "VoteCardVariant \<Rightarrow> string \<Rightarrow> string \<times> string \<times> string" where
  "VoteProgressBar FOR width = (''forWrapper'', ''forProgressBar'', width @ ''%'')"
| "VoteProgressBar AGAINST width = (''againstWrapper'', ''againstProgressBar'', width @ ''%'')"
| "VoteProgressBar ABSTAIN width = (''abstainWrapper'', ''abstainProgressBar'', width @ ''%'')"

definition DelegatePill :: "string \<Rightarrow> string" where
  "DelegatePill proposalId = ''Delegate for Proposal '' @ proposalId"

definition DelegationCandidateVoteCountInfo :: "int \<Rightarrow> bool \<Rightarrow> bool \<times> string" where
  "DelegationCandidateVoteCountInfo voteCount isLoading =
     (isLoading, if voteCount = 1 then int_to_dec voteCount @ '' Vote'' else int_to_dec voteCount @ '' Votes'')"

text \<open>The picture of an account: the fallback once the first choice has thrown, nothing without a provider.\<close>

datatype identicon = NoIdenticon | Davatar nat | Jazzicon nat

definition Identicon :: "bool \<Rightarrow> bool \<Rightarrow> nat option \<Rightarrow> identicon" where
  "Identicon provider thrown sz =
     (if \<not> provider then NoIdenticon
      else let n = (case sz of None \<Rightarrow> 24 | Some k \<Rightarrow> k) in if thrown then Jazzicon n else Davatar n)"

definition ModalBottomButtonRow :: "bool \<Rightarrow> NavBarButtonStyle \<times> bool" where
  "ModalBottomButtonRow isNextBtnDisabled =
     (if isNextBtnDisabled then DELEGATE_DISABLED else DELEGATE_SECONDARY, isNextBtnDisabled)"

definition ABIUpload_label :: "string option \<Rightarrow> string" where
  "ABIUpload_label abiFileName =
     (if abiFileName = Some ''etherscan-abi-download.json'' then ''etherscan-abi-download.json'' else ''ABI'')"

fun transition_style :: "string \<Rightarrow> 's \<times> 's \<times> 's \<times> 's \<Rightarrow> 's option" where
  "transition_style state (entering, entered, exiting, exited) =
     (if state = ''entering'' then Some entering else if state = ''entered'' then Some entered
      else if state = ''exiting'' then Some exiting else if state = ''exited'' then Some exited else None)"

section \<open>What the panels show\<close>

text \<open>
  A proposal written on the create page is shown without its title: the heading is the first place where a title without
  \<open>#\<close> and leading space can occur.
\<close>

lemma heading_removed:
  assumes "title \<noteq> []" "hd title \<noteq> CHR ''#''" "hd title \<noteq> CHR '' ''"
  shows "processProposalDescriptionText (''# '' @ title @ rest) title = ''# '' @ rest"
proof -
  obtain c cs where t: "title = c # cs" using assms(1) by (cases title) auto
  have "break_on title (title @ rest) = Some ([], rest)" by (rule break_on_prefix)
  then have "break_on title (''# '' @ title @ rest) = Some (''# '', rest)"
    using assms t by simp
  then show ?thesis by (simp add: processProposalDescriptionText_def)
qed

text \<open>A title in bold letters is not found, since its stars were taken off: it is shown twice.\<close>

lemma bold_title_shown_twice:
  "processProposalDescriptionText ''# **Fund** it'' ''Fund it'' = ''# **Fund** it''"
  by code_simp

text \<open>
  A call of the payer that is no payment, with less than two arguments, makes the whole page of the proposal throw.
\<close>

lemma payer_call_throws:
  assumes "usdc None = Inl e" and "de_target d = payer" and "CHR '','' \<notin> set (de_callData d)"
  shows "ProposalContent isAddress usdc chain buyer (Some payer) (Some (title, description, [d])) = Inl e"
  using assms by (simp add: ProposalContent_def proposal_detail_def same_address_def split_str_char_None js_simps)

lemma all_results_Inr: "list_all (\<lambda>d. f d = Inr (g d)) ds \<Longrightarrow> all_results (map f ds) = Inr (map g ds)"
  by (induction ds) (simp_all add: js_simps)

text \<open>Any other proposal is shown with one row per transaction.\<close>

lemma content_without_payer:
  assumes "list_all (\<lambda>d. \<not> same_address (de_target d) payer) details"
  shows "\<exists>text rows. ProposalContent isAddress usdc chain buyer payer (Some (title, description, details)) = Inr (text, rows)
    \<and> length rows = length details \<and> list_all2 (\<lambda>r d. dr_signature r = de_functionSig d \<and> dr_payment r = None) rows details"
proof -
  define row where "row d = (case proposal_detail isAddress usdc chain buyer payer d of Inr r \<Rightarrow> r)" for d
  have row: "proposal_detail isAddress usdc chain buyer payer d = Inr (row d)
      \<and> dr_signature (row d) = de_functionSig d \<and> dr_payment (row d) = None" if "d \<in> set details" for d
    using assms that by (auto simp: row_def proposal_detail_def list_all_iff)
  then have "all_results (map (proposal_detail isAddress usdc chain buyer payer) details) = Inr (map row details)"
    by (intro all_results_Inr) (simp add: list_all_iff)
  then show ?thesis
    using row by (simp add: ProposalContent_def js_simps list_all2_conv_all_nth)
qed

lemma call_lines_text:
  "join '','' (map (\<lambda>(l, sep). case l of Anchor h t \<Rightarrow> t | Plain t \<Rightarrow> t) (call_lines isAddress chain callData)) = callData"
proof -
  have "map (\<lambda>(l, sep). case l of Anchor h t \<Rightarrow> t | Plain t \<Rightarrow> t) (call_lines isAddress chain callData) = split_str '','' callData"
    by (rule nth_equalityI) (simp_all add: call_lines_def Let_def linkIfAddress_def nth_enumerate_eq)
  then show ?thesis by (simp add: join_split_str)
qed

text \<open>The buttons of the draft remove the transaction whose row they stand in.\<close>

lemma transaction_rows:
  "length (ProposalTransactions f chain txs) = length txs"
  "i < length txs \<Longrightarrow> tw_number (ProposalTransactions f chain txs ! i) = i + 1
     \<and> tw_address (ProposalTransactions f chain txs ! i) =
         Anchor (buildEtherscanAddressLink chain (pt_address (txs ! i))) (pt_address (txs ! i))"
  by (simp_all add: ProposalTransactions_def nth_enumerate_eq)

text \<open>
  The history shows the Nouns before the latest one, as many as asked for or as there are, in order, each once; the places
  that are left show the loading picture.
\<close>

lemma history_ids:
  assumes "0 < latest"
  shows "HistoryCollection True n (Some latest) =
    Some (map Some [max 0 (latest - int n)..latest - 1] @ replicate (n - nat latest) None)"
proof (cases "int n \<le> latest")
  case True
  have "map (\<lambda>i. if int i < latest then Some (latest - int n + int i) else None) [0..<n]
      = map Some [latest - int n..latest - 1]"
    using True by (intro nth_equalityI) (auto simp: nth_upto)
  then show ?thesis using assms True by (simp add: HistoryCollection_def)
next
  case False
  have "map (\<lambda>i. if int i < latest then Some (int i) else None) [0..<n]
      = map Some [0..latest - 1] @ replicate (n - nat latest) None"
    using False assms by (intro nth_equalityI) (auto simp: nth_upto nth_append)
  then show ?thesis using assms False by (simp add: HistoryCollection_def cong: if_cong)
qed

text \<open>A failed query has no data, so the card of a Noun keeps its spinner and never says that it failed.\<close>

lemma hover_card_failure_never_shown: "NounHoverCard i False True None past \<noteq> HoverFailed"
  by (simp add: NounHoverCard_def)

text \<open>Noun 0 has no history before it, and none is shown for the first Noun of all: its id is falsy.\<close>

lemma history_of_first_noun: "HistoryCollection enabled n (Some 0) = None"
  by (simp add: HistoryCollection_def)

text \<open>The page asks for one Noun more than the threshold, and its word agrees with that number.\<close>

lemma nouns_required:
  assumes "0 \<le> t"
  shows "go_nounsRequired (GovernancePage_view f u (Some t) p b) = int_to_dec (t + 1)
    \<and> (go_noun (GovernancePage_view f u (Some t) p b) = ''UNoun'' \<longleftrightarrow> t + 1 = 1)"
  using assms by (simp add: GovernancePage_view_def Let_def)

lemma unknown_price_shows_nan: "go_usd (GovernancePage_view f u t None b) = ''NaN''"
  by (simp add: GovernancePage_view_def Let_def useTreasuryUSDValue_def d_mul.simps)

section \<open>The header of a proposal\<close>

text \<open>
  Beside the vote button (\<open>header_vote_button\<close>): the number, title, by-line and the two alerts. \<open>shortAddress\<close> is what
  \<open>ShortAddress\<close> shows for the proposer, \<open>date\<close> the number of milliseconds formatted.
\<close>

record header_view =
  hv_number :: string
  hv_title :: string
  hv_japanese :: bool
  hv_proposer :: linked
  hv_hoverTip :: string
  hv_transaction :: linked
  hv_votedAlert :: "string option"
  hv_eligibleAlert :: "string option"

definition ProposalHeader_view ::
    "(string \<Rightarrow> string) \<Rightarrow> (int \<Rightarrow> string) \<Rightarrow> int \<Rightarrow> string \<Rightarrow> string \<times> string \<times> string option \<times> string
      \<Rightarrow> bool \<Rightarrow> bool \<Rightarrow> string \<Rightarrow> int option \<Rightarrow> int option \<Rightarrow> header_view" where
  "ProposalHeader_view shortAddress date chain activeLocale prop active voted voteText votes creationTimestamp =
     (let (i, title, proposer, transactionHash) = prop;
          a = (case proposer of None \<Rightarrow> '''' | Some p \<Rightarrow> p);
          availableVotes = (case votes of None \<Rightarrow> 0 | Some n \<Rightarrow> n)
      in \<lparr>hv_number = ''Proposal '' @ num_to_string (parseInt (js_or i ''0'')), hv_title = title,
          hv_japanese = (activeLocale = ''ja-JP''),
          hv_proposer = Anchor (buildEtherscanAddressLink chain a) (shortAddress a), hv_hoverTip = a,
          hv_transaction = transactionLink chain transactionHash,
          hv_votedAlert = (if active \<and> voted then Some (getTranslatedVoteCopyFromString voteText) else None),
          hv_eligibleAlert =
            (case creationTimestamp of
               Some t \<Rightarrow> if active \<and> t \<noteq> 0 \<and> availableVotes \<noteq> 0 \<and> \<not> voted
                 then Some (''Only Nouns you owned or were delegated to you before '' @ date (t * 1000) @ '' are eligible to vote.'')
                 else None
             | None \<Rightarrow> None)\<rparr>)"

text \<open>The two alerts never stand together, and none is shown outside the voting period.\<close>

lemma header_alerts:
  "hv_votedAlert (ProposalHeader_view f d c l p active voted v n t) = None
     \<or> hv_eligibleAlert (ProposalHeader_view f d c l p active voted v n t) = None"
  "hv_votedAlert (ProposalHeader_view f d c l p False voted v n t) = None"
  "hv_eligibleAlert (ProposalHeader_view f d c l p False voted v n t) = None"
  by (simp_all add: ProposalHeader_view_def Let_def split: prod.split option.split)

end
