(* ===== verification/Web_Start.thy ===== *)
theory Web_Start
  imports Web_Subscriber Web_Names Web_Propose Web_Vote
begin

text \<open>
  The start of the web app: \<open>loadState\<close> of \<^verbatim>\<open>nouns-webapp/src/index.tsx\<close> with the two places where it awaits an answer of
  the node, between which the auction house goes on, and the refresh of the past auctions. At the end the handlers of
  the page that creates a proposal (\<^verbatim>\<open>pages/CreateProposal/index.tsx\<close>) for its texts and for the status of its transaction.
\<close>

section \<open>loadState\<close>

text \<open>A node that cannot decode a log answers an event whose \<open>args\<close> are undefined. The loop hands the bids in front of
  it over and returns from the whole of \<open>loadState\<close>, before the listeners; the flag says whether it got through.\<close>

definition BLOCKS_PER_DAY :: int where
  "BLOCKS_PER_DAY = 7200"

fun process_previous :: "BidEvent option list \<Rightarrow> BidEvent list \<times> bool" where
  "process_previous [] = ([], True)"
| "process_previous (None # events) = ([], False)"
| "process_previous (Some b # events) = (let (bs, ok) = process_previous events in (b # bs, ok))"

datatype load_phase = Connecting | Fetched | Listening | Stopped

record app_session =
  ss_house :: house
  ss_root :: RootState
  ss_pending :: "BidEvent list"
  ss_phase :: load_phase
  ss_gap :: "house_event list"

text \<open>\<open>ss_pending\<close> holds the bids whose block is being fetched, \<open>ss_gap\<close> records the events between the answer of
  \<open>auction()\<close> and the listeners.\<close>

definition open_app :: "house \<Rightarrow> string \<Rightarrow> app_session" where
  "open_app h path =
     \<lparr>ss_house = h, ss_root = initial_root path, ss_pending = [], ss_phase = Connecting, ss_gap = []\<rparr>"

definition auction_answer :: "app_session \<Rightarrow> app_session" where
  "auction_answer s = s\<lparr>ss_root := load_current (h_auction (ss_house s)) (ss_root s), ss_phase := Fetched\<rparr>"

definition bids_answer :: "BidEvent option list \<Rightarrow> app_session \<Rightarrow> app_session" where
  "bids_answer events s =
     (let (bs, ok) = process_previous events
      in s\<lparr>ss_pending := ss_pending s @ bs, ss_phase := (if ok then Listening else Stopped)\<rparr>)"

definition chain_event :: "house_event \<Rightarrow> house \<Rightarrow> app_session \<Rightarrow> app_session" where
  "chain_event e h' s =
     (case ss_phase s of
        Listening \<Rightarrow> s\<lparr>ss_house := h', ss_root := notify e (ss_root s), ss_pending := ss_pending s @ awaiting e\<rparr>
      | Fetched \<Rightarrow> s\<lparr>ss_house := h', ss_gap := ss_gap s @ [e]\<rparr>
      | _ \<Rightarrow> s\<lparr>ss_house := h'\<rparr>)"

text \<open>The node answers the bids of the current auction, and of earlier ones.\<close>

definition answers_bids :: "BidEvent option list \<Rightarrow> house \<Rightarrow> bool" where
  "answers_bids events h \<longleftrightarrow>
     mset (current_bids h (map the (filter (\<lambda>e. e \<noteq> None) events))) = mset (h_bids h)
     \<and> list_all (\<lambda>e. case e of None \<Rightarrow> True | Some b \<Rightarrow> be_unounId b \<le> wa_unounId (h_auction h)) events"

inductive start_step :: "app_session \<Rightarrow> app_session \<Rightarrow> bool" where
  Auction_Answer: "ss_phase s = Connecting \<Longrightarrow> start_step s (auction_answer s)"
| Auction_Fails: "ss_phase s = Connecting \<Longrightarrow> start_step s (s\<lparr>ss_phase := Stopped\<rparr>)"
| Bids_Answer: "ss_phase s = Fetched \<Longrightarrow> answers_bids events (ss_house s) \<Longrightarrow> start_step s (bids_answer events s)"
| Bids_Fail: "ss_phase s = Fetched \<Longrightarrow> start_step s (s\<lparr>ss_phase := Stopped\<rparr>)"
| Chain: "house_step (ss_house s) e h' \<Longrightarrow> start_step s (chain_event e h' s)"
| Delivered: "ss_pending s = p1 @ b # p2
    \<Longrightarrow> start_step s (s\<lparr>ss_root := processBidFilter b (ss_root s), ss_pending := p1 @ p2\<rparr>)"
| Local_Action: "is_local a \<Longrightarrow> start_step s (s\<lparr>ss_root := dispatch a (ss_root s)\<rparr>)"

inductive start_reach :: "app_session \<Rightarrow> bool" where
  Opened: "house_reach h \<Longrightarrow> start_reach (open_app h path)"
| Steps: "start_reach s \<Longrightarrow> start_step s s' \<Longrightarrow> start_reach s'"

inductive_cases start_stepE: "start_step s s'"

lemma process_previous_ok:
  "process_previous events = (bs, True) \<Longrightarrow> bs = map the (filter (\<lambda>e. e \<noteq> None) events)"
  by (induction events arbitrary: bs rule: process_previous.induct) (auto split: prod.splits)

section \<open>What the store has when the listeners are on\<close>

definition is_bid_event :: "house_event \<Rightarrow> bool" where
  "is_bid_event e = (case e of EBid b \<Rightarrow> True | _ \<Rightarrow> False)"

text \<open>Between the two answers the store shows the auction as it was, apart from what the bids since then changed.\<close>

definition half_loaded :: "house \<Rightarrow> RootState \<Rightarrow> bool" where
  "half_loaded h r \<longleftrightarrow>
     house_ok h \<and> bids (auction r) = []
     \<and> lastAuctionUNounId (onDisplayAuction r) = Some (wa_unounId (h_auction h))
     \<and> (\<exists>a. activeAuction (auction r) = Some a
          \<and> wa_unounId a = wa_unounId (h_auction h) \<and> wa_startTime a = wa_startTime (h_auction h)
          \<and> wa_endTime a = wa_endTime (h_auction h) \<and> wa_settled a = wa_settled (h_auction h)
          \<and> (h_bids h = [] \<longrightarrow> wa_amount a = 0))"

definition started :: "app_session \<Rightarrow> bool" where
  "started s =
     (case ss_phase s of
        Connecting \<Rightarrow> house_ok (ss_house s) \<and> bids (auction (ss_root s)) = [] \<and> ss_pending s = [] \<and> ss_gap s = []
      | Fetched \<Rightarrow> ss_pending s = [] \<and> (list_all is_bid_event (ss_gap s) \<longrightarrow> half_loaded (ss_house s) (ss_root s))
      | Listening \<Rightarrow> list_all is_bid_event (ss_gap s) \<longrightarrow> follows (ss_house s) (ss_root s) (ss_pending s)
      | Stopped \<Rightarrow> True)"

lemma half_loaded_answer:
  "house_ok h \<Longrightarrow> bids (auction r) = [] \<Longrightarrow> half_loaded h (load_current (h_auction h) r)"
  by (auto simp: half_loaded_def load_current_def auction_dispatch onDisplay_dispatch setFullAuction_def
      setLastAuctionUNounId_def house_ok_def)

lemma half_loaded_bid:
  assumes "half_loaded h r" and "house_step h e h'" and "is_bid_event e"
  shows "half_loaded h' r"
proof -
  have ok: "house_ok h'" using assms house_step_ok by (auto simp: half_loaded_def)
  from assms(2) show ?thesis
    using ok assms(1,3) by cases (auto simp: half_loaded_def is_bid_event_def)
qed

lemma half_loaded_listens:
  assumes "half_loaded h r" and "answers_bids events h" and "process_previous events = (bs, True)"
  shows "follows h r bs"
proof -
  have bs: "bs = map the (filter (\<lambda>e. e \<noteq> None) events)" using process_previous_ok[OF assms(3)] .
  have "\<forall>b \<in> set bs. be_unounId b \<le> wa_unounId (h_auction h)"
    using assms(2) by (auto simp: bs answers_bids_def list_all_iff)
  then show ?thesis
    using assms(1,2) by (auto simp: follows_def half_loaded_def answers_bids_def bs)
qed

lemma started_step:
  assumes "started s" and "start_step s s'"
  shows "started s'"
  using assms(2)
proof cases
  case Auction_Answer
  then show ?thesis using assms(1) half_loaded_answer by (simp add: started_def auction_answer_def)
next
  case (Bids_Answer events)
  then show ?thesis
    using assms(1) half_loaded_listens
    by (auto simp: started_def bids_answer_def split: prod.splits)
next
  case (Chain e h')
  show ?thesis
  proof (cases "ss_phase s")
    case Fetched
    then show ?thesis using assms(1) Chain half_loaded_bid by (auto simp: started_def chain_event_def)
  next
    case Listening
    then show ?thesis using assms(1) Chain follows_event by (auto simp: started_def chain_event_def)
  qed (use assms(1) Chain house_step_ok in \<open>auto simp: started_def chain_event_def\<close>)
next
  case (Delivered p1 b p2)
  then show ?thesis
    using assms(1) follows_deliver by (cases "ss_phase s") (auto simp: started_def)
next
  case (Local_Action a)
  have half: "half_loaded h (dispatch a r) = half_loaded h r" for h r
    using local_keeps[OF Local_Action(2)] by (simp add: half_loaded_def)
  show ?thesis
    using assms(1) Local_Action follows_local half local_keeps[OF Local_Action(2)]
    by (cases "ss_phase s") (auto simp: started_def)
qed (simp_all add: started_def)

lemma start_started: "start_reach s \<Longrightarrow> started s"
proof (induction rule: start_reach.induct)
  case (Opened h path)
  then show ?case
    using house_reach_ok by (simp add: started_def open_app_def initial_root_def initial_auction_state_def)
next
  case (Steps s s')
  then show ?case using started_step by blast
qed

text \<open>If nothing but bids happened between the answer of \<open>auction()\<close> and the listeners, then from then on the store
  follows the auction house, whatever the order of events, of blocks fetched and of navigation.\<close>

lemma start_follows_house:
  assumes "start_reach s" and "ss_phase s = Listening" and "list_all is_bid_event (ss_gap s)"
  shows "follows (ss_house s) (ss_root s) (ss_pending s)"
  using start_started[OF assms(1)] assms(2,3) by (simp add: started_def)

section \<open>What the start loses\<close>

definition bare_house :: "int \<Rightarrow> house" where
  "bare_house end_time = \<lparr>h_auction = sample_auction\<lparr>wa_endTime := end_time\<rparr>, h_bids = []\<rparr>"

lemma bare_house_reach: "house_reach (bare_house 200)"
  using house_reach.First[of 100 200 7] by (simp add: bare_house_def sample_auction_def)

text \<open>An extension between the two answers is lost: with the listeners on and nothing pending the store shows the old end.\<close>

lemma gap_extension_lost:
  "\<exists>s. start_reach s \<and> ss_phase s = Listening \<and> ss_pending s = [] \<and> wa_endTime (h_auction (ss_house s)) = 500
    \<and> map_option wa_endTime (activeAuction (auction (ss_root s))) = Some 200"
proof -
  let ?s0 = "open_app (bare_house 200) ''/''"
  let ?s1 = "auction_answer ?s0"
  let ?s2 = "chain_event (EExtended 7 500) (bare_house 500) ?s1"
  let ?s3 = "bids_answer [] ?s2"
  have "start_reach ?s0" using bare_house_reach by (rule Opened)
  moreover have "start_step ?s0 ?s1" by (rule Auction_Answer) (simp add: open_app_def)
  moreover have "house_step (bare_house 200) (EExtended 7 500) (bare_house 500)"
    using house_step.Extended[of "bare_house 200" 500] by (simp add: bare_house_def sample_auction_def)
  then have "start_step ?s1 ?s2" by (intro Chain) (simp add: open_app_def auction_answer_def)
  moreover have "start_step ?s2 ?s3"
    by (rule Bids_Answer)
      (simp_all add: open_app_def auction_answer_def chain_event_def answers_bids_def current_bids_def bare_house_def)
  ultimately have "start_reach ?s3" by (meson Steps)
  then show ?thesis
    by (intro exI[of _ ?s3])
      (simp add: bids_answer_def chain_event_def auction_answer_def open_app_def bare_house_def sample_auction_def
        load_current_def auction_dispatch setFullAuction_def initial_root_def)
qed

text \<open>A log whose arguments are undefined leaves the page deaf: no later event of the auction house reaches the store.\<close>

lemma undefined_args_stop: "None \<in> set events \<Longrightarrow> ss_phase (bids_answer events s) = Stopped"
proof -
  assume "None \<in> set events"
  then have "\<not> snd (process_previous events)"
    by (induction events rule: process_previous.induct) (auto split: prod.splits)
  then show ?thesis by (cases "process_previous events") (simp add: bids_answer_def)
qed

lemma stopped_stays:
  assumes "ss_phase s = Stopped" and "start_step s s'"
  shows "ss_phase s' = Stopped"
    and "ss_pending s = [] \<Longrightarrow> activeAuction (auction (ss_root s')) = activeAuction (auction (ss_root s))"
  using assms(2,1) by (cases; simp add: chain_event_def local_keeps)+

section \<open>PastAuctions and the configuration of the chain\<close>

text \<open>The effect runs when the answer or the last auction's id changed; the query itself is sent once.\<close>

definition past_auctions_effect :: "SgAuction list option \<Rightarrow> RootState \<Rightarrow> RootState" where
  "past_auctions_effect data r = (case data of None \<Rightarrow> r | Some l \<Rightarrow> dispatch (AddPastAuctions l) r)"

text \<open>So a new auction makes the effect write the answer it already had: the auction that has just ended is not among the
  past ones until the page is loaded again, and nothing is shown for it.\<close>

lemma past_auctions_not_refreshed:
  assumes "find (\<lambda>sa. sa_id sa = i) l = None" and "pastAuctions r = addPastAuctions l old"
    and "activeAuction (auction r) = Some cur" and "wa_unounId cur = i"
    and "j > i" and "\<not> isNounderNoun i" and "\<not> isUNouncilUNoun i"
  shows "useOnDisplayAuction (dispatch (SetOnDisplayAuctionUNounId i)
           (past_auctions_effect (Some l) (processAuctionCreated j t0 t1 r))) = Inr None"
  using assms
  by (simp add: useOnDisplayAuction_def past_auctions_effect_def processAuctionCreated_def dispatch_def
      setOnDisplayAuctionUNounId_def setLastAuctionUNounId_def setActiveAuction_def reduxSafeNewAuction_def
      as_create_event_def addPastAuctions_entries past_auction_of_past)

definition supportedChainURLs :: "process_env \<Rightarrow> int \<Rightarrow> string option" where
  "supportedChainURLs env chain =
     (if chain = 1 then Some (createNetworkHttpUrl env ''mainnet'')
      else if chain = 4 then Some (createNetworkHttpUrl env ''rinkeby'')
      else if chain = 31337 then Some ''http://localhost:8545''
      else if chain = 5 then Some (createNetworkHttpUrl env ''goerli'')
      else None)"

record DappConfig =
  dc_readOnlyChainId :: "int option"
  dc_readOnlyUrls :: "int \<Rightarrow> string option"
  dc_multicallAddresses :: "int \<Rightarrow> string option"

definition useDappConfig :: "process_env \<Rightarrow> string \<Rightarrow> DappConfig" where
  "useDappConfig env multicallOnLocalhost =
     \<lparr>dc_readOnlyChainId = CHAIN_ID env,
      dc_readOnlyUrls = (\<lambda>chain. if CHAIN_ID env = Some chain then supportedChainURLs env chain else None),
      dc_multicallAddresses = (\<lambda>chain. if chain = 31337 then Some multicallOnLocalhost else None)\<rparr>"

text \<open>The chain is read through the same node as the rest of the app's configuration names, for every chain it knows.\<close>

lemma read_url_is_configured:
  "CHAIN_ID env = Some c
    \<Longrightarrow> dc_readOnlyUrls (useDappConfig env m) c = map_option jsonRpcUri (app_of_chain env c)"
  by (simp add: useDappConfig_def supportedChainURLs_def app_of_chain_def app_config_def)

section \<open>The page that creates a proposal\<close>

definition handleTitleInput :: "string \<Rightarrow> ProposePage \<Rightarrow> ProposePage" where
  "handleTitleInput title p = p\<lparr>ProposePage.pp_title := title\<rparr>"

definition handleBodyInput :: "string \<Rightarrow> ProposePage \<Rightarrow> ProposePage" where
  "handleBodyInput text p = p\<lparr>ProposePage.pp_body := text\<rparr>"

definition propose_effect :: "tx_state \<Rightarrow> ProposePage \<times> RootState \<Rightarrow> ProposePage \<times> RootState" where
  "propose_effect tx pr =
     (let (p, r) = pr;
          final = (\<lambda>title message.
            (p\<lparr>pp_pending := False\<rparr>, dispatch (SetAlertModal (final_alert title message)) r))
      in case tx_status tx of
           TxNone \<Rightarrow> (p\<lparr>pp_pending := False\<rparr>, r)
         | TxPending \<Rightarrow> (p, r)
         | TxMining \<Rightarrow> (p\<lparr>pp_pending := True\<rparr>, r)
         | TxSuccess \<Rightarrow> final ''Success'' ''Proposal Created!''
         | TxFail \<Rightarrow> final ''Transaction Failed'' (text_or (tx_errorMessage tx) ''Please try again.'')
         | TxException \<Rightarrow> final ''Error'' (text_or (tx_errorMessage tx) ''Please try again.''))"

text \<open>The form survives its transaction, and its button with it: what was sent can be sent again.\<close>

definition propose_pending :: "tx_state \<Rightarrow> bool \<Rightarrow> bool" where
  "propose_pending tx old = (case tx_status tx of TxPending \<Rightarrow> old | TxMining \<Rightarrow> True | _ \<Rightarrow> False)"

lemma propose_effect_page: "fst (propose_effect tx (p, r)) = p\<lparr>pp_pending := propose_pending tx (pp_pending p)\<rparr>"
  unfolding propose_effect_def propose_pending_def Let_def prod.case
  by (cases "tx_status tx") (simp_all only: tx_status.case fst_conv, simp)

lemma pending_keeps_form:
  "handleCreateProposal (p\<lparr>pp_pending := b\<rparr>) = handleCreateProposal p"
  "isFormInvalid (p\<lparr>pp_pending := b\<rparr>) = isFormInvalid p"
  by (simp_all add: handleCreateProposal_def isFormInvalid_def Let_def)

lemma propose_effect_keeps_form:
  "handleCreateProposal (fst (propose_effect tx (p, r))) = handleCreateProposal p"
  "create_button active enough threshold (fst (propose_effect tx (p, r))) = create_button active enough threshold p"
  by (simp_all only: propose_effect_page pending_keeps_form create_button_def)

definition usdc_note_shown :: "ProposePage \<Rightarrow> bool" where
  "usdc_note_shown p \<longleftrightarrow> 0 < pp_totalUSDCPayment p"

lemma usdc_note_spec:
  assumes "page_reach env p" and "list_all (\<lambda>t. 0 \<le> usdc_of t) (pp_transactions p)"
  shows "usdc_note_shown p \<longleftrightarrow> \<not> list_all (\<lambda>t. usdc_of t = 0) (pp_transactions p)"
proof -
  have "list_all (\<lambda>t. 0 \<le> usdc_of t) ts
    \<Longrightarrow> 0 \<le> sum_list (map usdc_of ts) \<and> (sum_list (map usdc_of ts) = 0 \<longleftrightarrow> list_all (\<lambda>t. usdc_of t = 0) ts)" for ts
    by (induction ts) (auto simp: add_nonneg_eq_0_iff)
  from this[OF assms(2)] show ?thesis
    using page_reach_ok[OF assms(1)] by (auto simp: usdc_note_shown_def page_ok_def)
qed

text \<open>Whether the user's own proposal is still open: of the latest proposal only, and with \<open>===\<close> on the addresses.\<close>

definition hasActiveOrPendingProposal :: "WProposal option \<Rightarrow> string option \<Rightarrow> bool" where
  "hasActiveOrPendingProposal latestProposal acc =
     (case latestProposal of
        None \<Rightarrow> False
      | Some p \<Rightarrow> (PartialProposal.pp_status p = SACTIVE \<or> PartialProposal.pp_status p = SPENDING) \<and> wp_proposer p = acc)"

text \<open>The subgraph names the proposer in lower case, the wallet the account with a checksum: unless the two spellings agree
  the page does not notice the user's own open proposal. The page of a proposal compares without case.\<close>

lemma own_proposal_missed:
  assumes "wp_proposer p = Some (to_lower a)" and "to_lower a \<noteq> a"
  shows "\<not> hasActiveOrPendingProposal (Some p) (Some a)"
    and "PartialProposal.pp_status p = SACTIVE \<Longrightarrow> to_lower (to_lower a) = to_lower a \<Longrightarrow> isCancellable (Some p) (Some a)"
  using assms by (auto simp: hasActiveOrPendingProposal_def isCancellable_def isInNonFinalState_def)

end
