(* ===== verification/Services.thy ===== *)
theory Services
  imports Bots_Data
begin

text \<open>
  The small services: the Netlify functions of \<^verbatim>\<open>packages/nouns-webapp/functions\<close> (owners, delegates, votes
  of Nouns, signature checks) and the metadata server of \<^verbatim>\<open>packages/nouns-api\<close>. A response body is the
  value that is turned to JSON. The subgraph's answer, the signature recovery, the contract, the picture
  rendering, the IPFS store and the validator are parameters.
\<close>

section \<open>functions/utils.ts and theGraph.ts\<close>

text \<open>\<open>BigNumber.from\<close> of a text: hexadecimal after \<open>0x\<close>, or a decimal numeral; it throws on anything else.\<close>

definition BigNumber_from :: "string \<Rightarrow> (string, int) result" where
  "BigNumber_from s =
     (if strip_0x s \<noteq> s \<and> list_all (is_digit_in 16) (strip_0x s) \<and> strip_0x s \<noteq> ''''
      then Inr (int (digits_value 16 (strip_0x s)))
      else case js_number s of Some i \<Rightarrow> Inr i | None \<Rightarrow> Inl ''invalid BigNumber string'')"

definition bigNumbersEqual :: "string \<Rightarrow> string \<Rightarrow> (string, bool) result" where
  "bigNumbersEqual a b =
     bind_result (BigNumber_from a) (\<lambda>x. bind_result (BigNumber_from b) (\<lambda>y. Inr (x = y)))"

record NormalizedVote =
  nv_proposalId :: int
  nv_supportDetailed :: int

record FSeed =
  fs_background :: int
  fs_body :: int
  fs_accessory :: int
  fs_head :: int
  fs_glasses :: int

record NormalizedNoun =
  nn_id :: int
  nn_owner :: string
  nn_delegatedTo :: "string option"
  nn_votes :: "NormalizedVote list"
  nn_seed :: FSeed

text \<open>The subgraph's answer, whose numbers are decimal texts.\<close>

record GraphVote =
  gq_proposal :: string
  gq_supportDetailed :: string

record GraphSeed =
  gs_background :: string
  gs_body :: string
  gs_accessory :: string
  gs_head :: string
  gs_glasses :: string

record GraphNoun =
  gn_id :: string
  gn_owner :: string
  gn_delegate :: "string option"
  gn_votes :: "GraphVote list"
  gn_seed :: GraphSeed

definition normalizeVote :: "GraphVote \<Rightarrow> NormalizedVote" where
  "normalizeVote vote =
     \<lparr>nv_proposalId = Number_of (gq_proposal vote), nv_supportDetailed = Number_of (gq_supportDetailed vote)\<rparr>"

definition normalizeSeed :: "GraphSeed \<Rightarrow> FSeed" where
  "normalizeSeed seed =
     \<lparr>fs_background = Number_of (gs_background seed), fs_body = Number_of (gs_body seed),
      fs_accessory = Number_of (gs_accessory seed), fs_head = Number_of (gs_head seed),
      fs_glasses = Number_of (gs_glasses seed)\<rparr>"

definition normalizeVotes :: "GraphVote list \<Rightarrow> NormalizedVote list" where
  "normalizeVotes votes = map normalizeVote votes"

definition normalizeNoun :: "GraphNoun \<Rightarrow> NormalizedNoun" where
  "normalizeNoun noun =
     \<lparr>nn_id = Number_of (gn_id noun), nn_owner = gn_owner noun, nn_delegatedTo = gn_delegate noun,
      nn_votes = normalizeVotes (gn_votes noun), nn_seed = normalizeSeed (gn_seed noun)\<rparr>"

definition normalizeNouns :: "GraphNoun list \<Rightarrow> NormalizedNoun list" where
  "normalizeNouns nouns = map normalizeNoun nouns"

fun filter_result :: "('a \<Rightarrow> ('e, bool) result) \<Rightarrow> 'a list \<Rightarrow> ('e, 'a list) result" where
  "filter_result p [] = Inr []"
| "filter_result p (x # xs) =
     bind_result (p x) (\<lambda>b. bind_result (filter_result p xs) (\<lambda>ys. Inr (if b then x # ys else ys)))"

definition ownerFilterFactory :: "string \<Rightarrow> NormalizedNoun list \<Rightarrow> (string, NormalizedNoun list) result" where
  "ownerFilterFactory address = filter_result (\<lambda>noun. bigNumbersEqual address (nn_owner noun))"

definition isNounOwner :: "string \<Rightarrow> NormalizedNoun list \<Rightarrow> (string, bool) result" where
  "isNounOwner address nouns = bind_result (ownerFilterFactory address nouns) (\<lambda>l. Inr (0 < length l))"

definition delegateFilterFactory :: "string \<Rightarrow> NormalizedNoun list \<Rightarrow> (string, NormalizedNoun list) result" where
  "delegateFilterFactory address = filter_result (\<lambda>noun.
     case nn_delegatedTo noun of
       None \<Rightarrow> Inr False
     | Some d \<Rightarrow> if d = '''' then Inr False else bigNumbersEqual address d)"

definition isNounDelegate :: "string \<Rightarrow> NormalizedNoun list \<Rightarrow> (string, bool) result" where
  "isNounDelegate address nouns = bind_result (delegateFilterFactory address nouns) (\<lambda>l. Inr (0 < length l))"

section \<open>The handlers\<close>

record 'b response =
  statusCode :: int
  headers :: "(string \<times> string) list"
  body :: 'b

definition sharedResponseHeaders :: "(string \<times> string) list" where
  "sharedResponseHeaders = [(''Access-Control-Allow-Origin'', ''*'')]"

definition json_ok :: "'b \<Rightarrow> 'b response" where
  "json_ok b = \<lparr>statusCode = 200, headers = (''Content-Type'', ''application/json'') # sharedResponseHeaders, body = b\<rparr>"

definition handler_is_noun_delegate :: "string \<Rightarrow> GraphNoun list \<Rightarrow> (string, bool response) result" where
  "handler_is_noun_delegate event_body answer =
     bind_result (isNounDelegate event_body (normalizeNouns answer)) (\<lambda>b. Inr (json_ok b))"

definition handler_is_noun_owner :: "string \<Rightarrow> GraphNoun list \<Rightarrow> (string, bool response) result" where
  "handler_is_noun_owner event_body answer =
     bind_result (isNounOwner event_body (normalizeNouns answer)) (\<lambda>b. Inr (json_ok b))"

record LiteNoun =
  ln_id :: int
  ln_owner :: string
  ln_delegatedTo :: "string option"

definition lightenNoun :: "NormalizedNoun \<Rightarrow> LiteNoun" where
  "lightenNoun n = \<lparr>ln_id = nn_id n, ln_owner = nn_owner n, ln_delegatedTo = nn_delegatedTo n\<rparr>"

definition handler_noun_owners :: "GraphNoun list \<Rightarrow> LiteNoun list response" where
  "handler_noun_owners answer = json_ok (map lightenNoun (normalizeNouns answer))"

record SeededNoun =
  sn_id :: int
  sn_seed :: FSeed

definition buildSeededNoun :: "NormalizedNoun \<Rightarrow> SeededNoun" where
  "buildSeededNoun n = \<lparr>sn_id = nn_id n, sn_seed = nn_seed n\<rparr>"

definition handler_noun_seeds :: "GraphNoun list \<Rightarrow> SeededNoun list response" where
  "handler_noun_seeds answer = json_ok (map buildSeededNoun (normalizeNouns answer))"

record NounVote = LiteNoun +
  nl_votes :: "NormalizedVote list"

definition buildNounVote :: "NormalizedNoun \<Rightarrow> NounVote" where
  "buildNounVote n =
     \<lparr>ln_id = nn_id n, ln_owner = nn_owner n, ln_delegatedTo = nn_delegatedTo n, nl_votes = nn_votes n\<rparr>"

definition handler_noun_votes :: "GraphNoun list \<Rightarrow> NounVote list response" where
  "handler_noun_votes answer = json_ok (map buildNounVote (normalizeNouns answer))"

record ProposalVote =
  pv_unounId :: int
  pv_owner :: string
  pv_delegatedTo :: "string option"
  pv_supportDetailed :: int

type_synonym ProposalVotes = "int \<rightharpoonup> ProposalVote list"

definition builtProposalVote :: "NormalizedNoun \<Rightarrow> NormalizedVote \<Rightarrow> ProposalVote" where
  "builtProposalVote noun vote =
     \<lparr>pv_unounId = nn_id noun, pv_owner = nn_owner noun, pv_delegatedTo = nn_delegatedTo noun,
      pv_supportDetailed = nv_supportDetailed vote\<rparr>"

definition push_vote :: "NormalizedNoun \<Rightarrow> NormalizedVote \<Rightarrow> ProposalVotes \<Rightarrow> ProposalVotes" where
  "push_vote noun vote acc =
     (let acc1 = (if acc (nv_proposalId vote) = None then acc(nv_proposalId vote \<mapsto> []) else acc)
      in acc1(nv_proposalId vote \<mapsto> the (acc1 (nv_proposalId vote)) @ [builtProposalVote noun vote]))"

definition reduceProposalVotes :: "NormalizedNoun list \<Rightarrow> ProposalVotes" where
  "reduceProposalVotes nouns = fold (\<lambda>noun acc. fold (push_vote noun) (nn_votes noun) acc) nouns Map.empty"

definition handler_proposal_votes :: "GraphNoun list \<Rightarrow> ProposalVotes response" where
  "handler_proposal_votes answer = json_ok (reduceProposalVotes (normalizeNouns answer))"

subsection \<open>v0-verify-signature\<close>

record ErrorReason =
  er_error :: string
  er_message :: string

definition errorBuilder :: "string \<Rightarrow> string \<Rightarrow> ErrorReason" where
  "errorBuilder e m = \<lparr>er_error = e, er_message = m\<rparr>"

text \<open>What \<open>JSON.parse\<close> gives for the body: the fields that the handler reads, each possibly undefined.\<close>

record SignedBody =
  sg_message :: "string option"
  sg_signature :: "string option"
  sg_signer :: "string option"

text \<open>\<open>has\<close> of ramda is curried: \<open>has('msg')\<close> is a function that still waits for its object, and a function is
  truthy.\<close>

datatype 'a curried = Waiting "'a \<Rightarrow> bool" | Value bool

fun truthy :: "'a curried \<Rightarrow> bool" where
  "truthy (Waiting f) = True"
| "truthy (Value b) = b"

definition has :: "string \<Rightarrow> string set curried" where
  "has k = Waiting (\<lambda>keys. k \<in> keys)"

definition invalidBodyCheck :: "string option \<Rightarrow> ErrorReason option" where
  "invalidBodyCheck b =
     (if b = None \<or> b = Some '''' then Some (errorBuilder ''empty_body'' ''Request body is missing or empty'')
      else if \<not> truthy (has ''msg'') then Some (errorBuilder ''missing_msg'' ''Request is missing msg'')
      else if \<not> truthy (has ''sig'') then Some (errorBuilder ''missing_sig'' ''Request is missing signature'')
      else if \<not> truthy (has ''signer'') then Some (errorBuilder ''missing_signer'' ''Request is missing signer'')
      else None)"

record Verified =
  vf_message :: "string option"
  vf_signature :: "string option"
  vf_providedSigner :: string
  vf_recoveredAddress :: string
  vf_validSignature :: bool
  vf_participation :: "(bool \<times> bool) option"

definition participation_of :: "string \<Rightarrow> NormalizedNoun list \<Rightarrow> (string, bool \<times> bool) result" where
  "participation_of signer nouns =
     bind_result (isNounDelegate signer nouns) (\<lambda>d. bind_result (isNounOwner signer nouns) (\<lambda>ow. Inr (d, ow)))"

definition handler_verify_signature ::
  "(string \<Rightarrow> (string, SignedBody) result) \<Rightarrow> (string option \<Rightarrow> string option \<Rightarrow> (string, string) result)
    \<Rightarrow> string option \<Rightarrow> bool \<Rightarrow> GraphNoun list \<Rightarrow> (string, (ErrorReason + Verified) response) result" where
  "handler_verify_signature json_parse verifyMessage event_body fetchParticipation answer =
     (case invalidBodyCheck event_body of
        Some reason \<Rightarrow> Inr \<lparr>statusCode = 400, headers = [], body = Inl reason\<rparr>
      | None \<Rightarrow>
          bind_result (json_parse (the event_body)) (\<lambda>b.
          bind_result (verifyMessage (sg_message b) (sg_signature b)) (\<lambda>recoveredAddress.
          case sg_signer b of
            None \<Rightarrow> Inl ''invalid BigNumber value''
          | Some signer \<Rightarrow>
              bind_result (bigNumbersEqual signer recoveredAddress) (\<lambda>validSignature.
              bind_result
                (if fetchParticipation \<and> validSignature
                 then bind_result (participation_of signer (normalizeNouns answer)) (\<lambda>p. Inr (Some p))
                 else Inr None) (\<lambda>participantData.
              Inr (json_ok (Inr
                \<lparr>vf_message = sg_message b, vf_signature = sg_signature b, vf_providedSigner = signer,
                 vf_recoveredAddress = recoveredAddress, vf_validSignature = validSignature,
                 vf_participation = participantData\<rparr>)))))))"

section \<open>nouns-api\<close>

record ApiMetadata =
  md_name :: string
  md_description :: string
  md_image :: string

definition getMetadataKey :: "string \<Rightarrow> string" where
  "getMetadataKey tokenId = ''metadata_'' @ tokenId"

record api_env =
  ae_dataURI :: "string \<Rightarrow> string option"
  ae_decode :: "string \<Rightarrow> ApiMetadata"
  ae_png :: "string \<Rightarrow> string"
  ae_storeBlob :: "string \<Rightarrow> string"
  ae_isInt :: "int \<Rightarrow> int \<Rightarrow> string \<Rightarrow> bool"

type_synonym api_cache = "string \<rightharpoonup> ApiMetadata"

definition getTokenMetadata :: "api_env \<Rightarrow> string \<Rightarrow> api_cache \<Rightarrow> ApiMetadata option \<times> api_cache" where
  "getTokenMetadata env tokenId redis =
     (let key = getMetadataKey tokenId
      in case redis key of
           Some cachedMetadata \<Rightarrow> (Some cachedMetadata, redis)
         | None \<Rightarrow>
             (case ae_dataURI env tokenId of
                None \<Rightarrow> (None, redis)
              | Some dataURI \<Rightarrow>
                  let data = ae_decode env (drop 29 dataURI);
                      png = ae_png env (drop 26 (md_image data));
                      imageCID = ae_storeBlob env png;
                      metadata = \<lparr>md_name = md_name data, md_description = md_description data,
                                  md_image = ''ipfs://'' @ imageCID\<rparr>
                  in (Some metadata, redis(key \<mapsto> metadata))))"

datatype api_body = ApiMessage string | ApiErrors | ApiError string | ApiMetadataBody ApiMetadata

definition api_root :: "int \<times> api_body" where
  "api_root = (200, ApiMessage ''Nouns API Root'')"

definition api_metadata :: "api_env \<Rightarrow> string \<Rightarrow> api_cache \<Rightarrow> (int \<times> api_body) \<times> api_cache" where
  "api_metadata env tokenId redis =
     (if \<not> ae_isInt env 0 1000 tokenId then ((400, ApiErrors), redis)
      else let (metadata, redis') = getTokenMetadata env tokenId redis
           in ((case metadata of None \<Rightarrow> (500, ApiError ''Failed to fetch token metadata'')
                | Some m \<Rightarrow> (200, ApiMetadataBody m)), redis'))"

record ApiConfig =
  ac_serverPort :: num
  ac_redisPort :: num
  ac_redisHost :: string
  ac_nounsTokenAddress :: string
  ac_jsonRpcUrl :: string

definition api_config :: "(string \<rightharpoonup> string) \<Rightarrow> ApiConfig" where
  "api_config env =
     \<lparr>ac_serverPort = js_Number (env_or env ''SERVER_PORT'' ''5000''),
      ac_redisPort = js_Number (env_or env ''REDIS_PORT'' ''6379''),
      ac_redisHost = env_or env ''REDIS_HOST'' ''localhost'',
      ac_nounsTokenAddress = env_or env ''NOUNS_TOKEN_ADDRESS'' ''0xcf7ed3acca5a467e9e704c703e8d87f634fb0fc9'',
      ac_jsonRpcUrl = env_or env ''JSON_RPC_URL'' ''http://localhost:8545''\<rparr>"

subsection \<open>server.ts\<close>

text \<open>The sockets that are open, what was asked of them, and how the process ended.\<close>

record server =
  connections :: "nat list"
  ended :: "nat list"
  destroyed :: "nat list"
  closing :: bool
  exit_code :: "int option"

datatype server_event = Connection nat | Close nat | Shutdown | After5s | After10s | ServerClosed

fun server_step :: "server_event \<Rightarrow> server \<Rightarrow> server" where
  "server_step (Connection c) s = s\<lparr>connections := connections s @ [c]\<rparr>"
| "server_step (Close c) s = s\<lparr>connections := filter (\<lambda>curr. curr \<noteq> c) (connections s)\<rparr>"
| "server_step Shutdown s = s\<lparr>closing := True, ended := ended s @ connections s\<rparr>"
| "server_step After5s s = (if closing s then s\<lparr>destroyed := destroyed s @ connections s\<rparr> else s)"
| "server_step After10s s = (if closing s \<and> exit_code s = None then s\<lparr>exit_code := Some 1\<rparr> else s)"
| "server_step ServerClosed s =
     (if closing s \<and> connections s = [] \<and> exit_code s = None then s\<lparr>exit_code := Some 0\<rparr> else s)"

section \<open>Votes by proposal\<close>

definition votes_on :: "int \<Rightarrow> NormalizedNoun list \<Rightarrow> ProposalVote list" where
  "votes_on p nouns = concat (map (\<lambda>n. map (builtProposalVote n) (filter (\<lambda>v. nv_proposalId v = p) (nn_votes n))) nouns)"

definition list_at :: "ProposalVotes \<Rightarrow> int \<Rightarrow> ProposalVote list" where
  "list_at acc p = (case acc p of None \<Rightarrow> [] | Some l \<Rightarrow> l)"

lemma list_at_push:
  "list_at (push_vote n v acc) p = list_at acc p @ (if nv_proposalId v = p then [builtProposalVote n v] else [])"
  "(push_vote n v acc p = None) = (acc p = None \<and> nv_proposalId v \<noteq> p)"
  by (auto simp: list_at_def push_vote_def Let_def split: option.splits)

lemma list_at_fold_push:
  "list_at (fold (push_vote n) vs acc) p = list_at acc p @ map (builtProposalVote n) (filter (\<lambda>v. nv_proposalId v = p) vs)"
  "(fold (push_vote n) vs acc p = None) = (acc p = None \<and> filter (\<lambda>v. nv_proposalId v = p) vs = [])"
  by (induction vs arbitrary: acc) (auto simp: list_at_push)

lemma list_at_reduce:
  "list_at (fold (\<lambda>noun acc. fold (push_vote noun) (nn_votes noun) acc) nouns acc) p = list_at acc p @ votes_on p nouns"
  "(fold (\<lambda>noun acc. fold (push_vote noun) (nn_votes noun) acc) nouns acc p = None)
     = (acc p = None \<and> votes_on p nouns = [])"
  by (induction nouns arbitrary: acc) (simp_all add: list_at_fold_push votes_on_def)

text \<open>The votes function groups every vote under its proposal and loses none: the list of a proposal holds, in the
  order of the Nouns and of each Noun's votes, one entry per vote on it, and a proposal has a list exactly if
  some Noun voted on it.\<close>

theorem reduceProposalVotes_groups:
  "reduceProposalVotes nouns p = (if votes_on p nouns = [] then None else Some (votes_on p nouns))"
  using list_at_reduce[of nouns Map.empty p]
  by (auto simp: reduceProposalVotes_def list_at_def split: option.splits)

section \<open>Signatures\<close>

lemma invalidBodyCheck_iff: "invalidBodyCheck b \<noteq> None \<longleftrightarrow> b = None \<or> b = Some ''''"
  by (simp add: invalidBodyCheck_def has_def)

lemma bigNumbersEqual_result:
  "bigNumbersEqual a b = Inr r \<longleftrightarrow> (\<exists>x y. BigNumber_from a = Inr x \<and> BigNumber_from b = Inr y \<and> r = (x = y))"
  by (auto simp: bigNumbersEqual_def js_simps)



section \<open>The metadata cache\<close>

text \<open>Once a token's metadata has been fetched it is served from the cache, and a failed fetch leaves no trace.\<close>

lemma getTokenMetadata_cached:
  assumes "getTokenMetadata env i r = (Some m, r')"
  shows "getTokenMetadata env' i r' = (Some m, r')"
  using assms by (auto simp: getTokenMetadata_def Let_def split: option.splits)

lemma getTokenMetadata_failed: "getTokenMetadata env i r = (None, r') \<Longrightarrow> r' = r"
  by (auto simp: getTokenMetadata_def Let_def split: option.splits)

lemma getTokenMetadata_other: "i \<noteq> j \<Longrightarrow> snd (getTokenMetadata env i r) (getMetadataKey j) = r (getMetadataKey j)"
  by (auto simp: getTokenMetadata_def getMetadataKey_def Let_def split: option.splits)

section \<open>Graceful shutdown\<close>

lemma server_open: "c \<in> set (connections (fold server_step es s)) \<Longrightarrow> c \<in> set (connections s) \<or> Connection c \<in> set es"
proof (induction es arbitrary: s)
  case (Cons e es)
  then show ?case by (cases e) (fastforce split: if_splits)+
qed simp

end
