(* ===== verification/Deploy.thy ===== *)
theory Deploy
  imports Js_Strings
begin

text \<open>
  The hardhat task \<open>deploy\<close> (\<open>nouns-contracts/tasks/deploy.ts\<close>) with its types (\<open>tasks/types/index.ts\<close>). Three
  contracts are needed by contracts that are deployed before them, so the task predicts their addresses from the
  nonce of the deployer's account; two of the predictions are checked after the deployment.

  A thunk \<open>() => deployment.X.address\<close> of the source is the symbol \<open>AddressOf X\<close>, the thunk that encodes the call
  of \<open>initialize\<close> the symbol \<open>Initialize\<close>; \<open>eval_arg\<close> runs them on the deployment made so far. The parameters are
  the functions of ethers, the network and the compiled contracts (record \<open>deploy_env\<close>) and the operator at
  the console (record \<open>operator\<close>), who may also send transactions of his own from the same account.
\<close>

section \<open>Types\<close>

datatype val = VStr string | VNum int | VQuorum int int int | VUndefined

datatype deploy_arg = Value val | AddressOf string | Initialize "deploy_arg list"

record DeployedContract =
  dc_name :: string
  dc_address :: string
  dc_constructorArguments :: "val list"
  dc_libraries :: "(string \<times> string) list"

type_synonym deployment = "string \<rightharpoonup> DeployedContract"

record ContractDeployment =
  cd_args :: "deploy_arg list"
  cd_libraries :: "(string \<times> string) list option"
  cd_waitForConfirmation :: bool
  cd_validateDeployment :: "(deployment \<Rightarrow> (string, unit) result) option"

definition no_args :: ContractDeployment where
  "no_args = \<lparr>cd_args = [], cd_libraries = None, cd_waitForConfirmation = False, cd_validateDeployment = None\<rparr>"

record operator =
  op_gasPrice :: "int option"
  op_confirm :: string
  op_foreign :: nat

record deploy_env =
  env_chainId :: int
  env_network :: string
  env_deployer :: string
  env_contractAddress :: "string \<Rightarrow> nat \<Rightarrow> string"
  env_encodeInitialize :: "val list \<Rightarrow> (string, string) result"
  env_gasPrice :: "string \<Rightarrow> int"
  env_factory :: "string \<Rightarrow> (string \<times> string) list option \<Rightarrow> string option"
  env_transaction :: "string \<Rightarrow> val list \<Rightarrow> string option"
  env_estimateGas :: "string \<Rightarrow> val list \<Rightarrow> int \<Rightarrow> (string, int) result"
  env_deployed :: "string \<Rightarrow> string option"

record chain =
  ch_nonce :: nat
  ch_sent :: "(string \<times> string \<times> val list \<times> int option) list"

section \<open>Arguments\<close>

definition address_of :: "string \<Rightarrow> deployment \<Rightarrow> (string, string) result" where
  "address_of x dep = (case dep x of None \<Rightarrow> Inl ''Cannot read properties of undefined'' | Some d \<Rightarrow> Inr (dc_address d))"

fun eval_arg :: "deploy_env \<Rightarrow> deployment \<Rightarrow> deploy_arg \<Rightarrow> (string, val) result"
and eval_args :: "deploy_env \<Rightarrow> deployment \<Rightarrow> deploy_arg list \<Rightarrow> (string, val list) result" where
  "eval_arg env dep (Value v) = Inr v"
| "eval_arg env dep (AddressOf x) = bind_result (address_of x dep) (\<lambda>a. Inr (VStr a))"
| "eval_arg env dep (Initialize as) =
     bind_result (eval_args env dep as) (\<lambda>vs. bind_result (env_encodeInitialize env vs) (\<lambda>d. Inr (VStr d)))"
| "eval_args env dep [] = Inr []"
| "eval_args env dep (a # as) =
     bind_result (eval_arg env dep a) (\<lambda>v. bind_result (eval_args env dep as) (\<lambda>vs. Inr (v # vs)))"

fun eval_libraries :: "deployment \<Rightarrow> (string \<times> string) list \<Rightarrow> (string, (string \<times> string) list) result" where
  "eval_libraries dep [] = Inr []"
| "eval_libraries dep ((k, x) # ls) =
     bind_result (address_of x dep) (\<lambda>a. bind_result (eval_libraries dep ls) (\<lambda>r. Inr ((k, a) # r)))"

definition run_libraries :: "deployment \<Rightarrow> ContractDeployment \<Rightarrow> (string, (string \<times> string) list option) result" where
  "run_libraries dep c =
     (case cd_libraries c of None \<Rightarrow> Inr None | Some ls \<Rightarrow> bind_result (eval_libraries dep ls) (\<lambda>r. Inr (Some r)))"

text \<open>\<open>validateDeployment\<close>: the address a contract got is the predicted one, up to the case of its letters.\<close>

definition expect_address :: "string \<Rightarrow> string \<Rightarrow> string \<Rightarrow> deployment \<Rightarrow> (string, unit) result" where
  "expect_address label x predicted dep =
     (let expected = to_lower predicted in
      bind_result (address_of x dep) (\<lambda>a.
        let actual = to_lower a in
        if expected \<noteq> actual
        then Inl (''Unexpected '' @ label @ '' proxy address. Expected: '' @ expected @ ''. Actual: '' @ actual @ ''.'')
        else Inr ()))"

section \<open>The network's addresses\<close>

definition Mainnet :: int where "Mainnet = 1"
definition Ropsten :: int where "Ropsten = 3"
definition Rinkeby :: int where "Rinkeby = 4"
definition Goerli :: int where "Goerli = 5"
definition Kovan :: int where "Kovan = 42"

lemmas chain_ids = Mainnet_def Ropsten_def Rinkeby_def Goerli_def Kovan_def

definition proxyRegistries :: "int \<rightharpoonup> string" where
  "proxyRegistries =
     [Mainnet \<mapsto> ''0xa5409ec958c83c3f309868babaca7c86dcb077c1'',
      Rinkeby \<mapsto> ''0xf57b2c51ded3a29e6891aba85459d600256cf317'']"

definition wethContracts :: "int \<rightharpoonup> string" where
  "wethContracts =
     [Mainnet \<mapsto> ''0xC02aaA39b223FE8D0A0e5C4F27eAD9083C756Cc2'',
      Ropsten \<mapsto> ''0xc778417e063141139fce010982780140aa0cd5ab'',
      Rinkeby \<mapsto> ''0xc778417e063141139fce010982780140aa0cd5ab'',
      Kovan \<mapsto> ''0xd0a1e359811322d97991e03f863a0c30c2cf029c'',
      Goerli \<mapsto> ''0xB4FBF271143F4FBf7B91A5ded31805e42b2208d6'']"

definition nounsDAOTeasuries :: "int \<rightharpoonup> string" where
  "nounsDAOTeasuries =
     [Mainnet \<mapsto> ''0x0BC3807Ec262cB779b38D65b38158acC3bfedE10'',
      Rinkeby \<mapsto> ''0x06C0BaC8E6a697eC883372d3e9Db9B200fF93C03'',
      Goerli \<mapsto> ''0x2f12ABA664E6D2b4DDD264E2a175d29703836AaE'']"

definition unoundersDAOAddresses :: "int \<rightharpoonup> string" where
  "unoundersDAOAddresses =
     [Mainnet \<mapsto> ''0x4fF1B94b57E32B30b23e49c8aC087389b910646E'',
      Goerli \<mapsto> ''0xDEF60ef4d2a6fDE245dA5C7FB957b2CbF53F6962'']"

definition unouncilDAOAddresses :: "int \<rightharpoonup> string" where
  "unouncilDAOAddresses =
     [Mainnet \<mapsto> ''0x8653E82f262FCeAF4a479B5501310DD4CfB69e17'',
      Goerli \<mapsto> ''0xb9E9061e342257074214e73a26c83746ff6c52DB'']"

definition halloffameAddresses :: "int \<rightharpoonup> string" where
  "halloffameAddresses =
     [Mainnet \<mapsto> ''0x93D788F6EE2D47C82BC075EA314D941d836093B6'',
      Goerli \<mapsto> ''0x2672F15DD5129099cF5C4f66b3e82E7f5589f0c3'']"

definition proxyRegistryAddress :: "deploy_env \<Rightarrow> string" where
  "proxyRegistryAddress env =
     (case proxyRegistries (env_chainId env) of Some a \<Rightarrow> a | None \<Rightarrow> the (proxyRegistries Rinkeby))"

section \<open>The parameters of the task\<close>

record DeployArgs =
  autoDeploy :: bool
  arg_weth :: "string option"
  arg_nounsdaoTreasury :: "string option"
  arg_halloffame :: "string option"
  arg_unoundersdao :: "string option"
  arg_unouncildao :: "string option"
  auctionTimeBuffer :: int
  auctionReservePrice :: string
  auctionMinIncrementBidPercentage :: int
  auctionDuration :: int
  timelockDelay :: int
  proceedsShareEndTime :: int
  votingPeriod :: int
  votingDelay :: int
  proposalThresholdBps :: int
  quorumVotesBps :: int

definition default_args :: DeployArgs where
  "default_args =
    \<lparr>autoDeploy = False, arg_weth = None, arg_nounsdaoTreasury = None, arg_halloffame = None,
     arg_unoundersdao = None, arg_unouncildao = None,
     auctionTimeBuffer = 5 * 60, auctionReservePrice = ''22200000000000000'',
     auctionMinIncrementBidPercentage = 5, auctionDuration = 60 * 60 * 24, timelockDelay = 60 * 60 * 24 * 2,
     proceedsShareEndTime = 1834790400,
     votingPeriod = (2 * (4 * 60 * 24 * 60) + 13) div (2 * 13),
     votingDelay = (2 * (3 * 60 * 24 * 60) + 13) div (2 * 13),
     proposalThresholdBps = 100, quorumVotesBps = 1000\<rparr>"

record DeployAddresses =
  da_unoundersdao :: string
  da_unouncildao :: string
  da_weth :: string
  da_nounsdaoTreasury :: string
  da_halloffame :: string

text \<open>An address parameter that was not given (or is empty) is looked up for the chain.\<close>

definition auto_detect :: "deploy_env \<Rightarrow> (int \<rightharpoonup> string) \<Rightarrow> string \<Rightarrow> string \<Rightarrow> string option \<Rightarrow> (string, string) result" where
  "auto_detect env tbl what flag given =
     (case given of Some (c # cs) \<Rightarrow> Inr (c # cs)
      | _ \<Rightarrow> (case tbl (env_chainId env) of
            Some (c # cs) \<Rightarrow> Inr (c # cs)
          | _ \<Rightarrow> Inl (''Can not auto-detect '' @ what @ '' on chain '' @ env_network env
                       @ ''. Provide it with the --'' @ flag @ '' arg.'')))"

definition resolve_addresses :: "deploy_env \<Rightarrow> DeployArgs \<Rightarrow> (string, DeployAddresses) result" where
  "resolve_addresses env ps =
     bind_result (auto_detect env unoundersDAOAddresses ''unounders DAO multisig address'' ''unoundersdao'' (arg_unoundersdao ps)) (\<lambda>u.
     bind_result (auto_detect env unouncilDAOAddresses ''unouncil DAO multisig address'' ''unouncildao'' (arg_unouncildao ps)) (\<lambda>c.
     bind_result (auto_detect env wethContracts ''WETH contract'' ''weth'' (arg_weth ps)) (\<lambda>w.
     bind_result (auto_detect env nounsDAOTeasuries ''nouns DAO treasury Contract contract'' ''nounsdaoTreasury'' (arg_nounsdaoTreasury ps)) (\<lambda>t.
     bind_result (auto_detect env halloffameAddresses ''nouns DAO treasury Contract contract'' ''halloffame'' (arg_halloffame ps)) (\<lambda>h.
       Inr \<lparr>da_unoundersdao = u, da_unouncildao = c, da_weth = w, da_nounsdaoTreasury = t, da_halloffame = h\<rparr>)))))"

section \<open>The contracts and their order\<close>

definition UNOUNS_ART_NONCE_OFFSET :: nat where "UNOUNS_ART_NONCE_OFFSET = 4"
definition AUCTION_HOUSE_PROXY_NONCE_OFFSET :: nat where "AUCTION_HOUSE_PROXY_NONCE_OFFSET = 9"
definition GOVERNOR_N_DELEGATOR_NONCE_OFFSET :: nat where "GOVERNOR_N_DELEGATOR_NONCE_OFFSET = 12"

lemmas nonce_offsets =
  UNOUNS_ART_NONCE_OFFSET_def AUCTION_HOUSE_PROXY_NONCE_OFFSET_def GOVERNOR_N_DELEGATOR_NONCE_OFFSET_def

definition predicted :: "deploy_env \<Rightarrow> nat \<Rightarrow> string" where
  "predicted env n = env_contractAddress env (env_deployer env) n"

definition deploy_contracts :: "deploy_env \<Rightarrow> DeployArgs \<times> DeployAddresses \<Rightarrow> nat \<Rightarrow> (string \<times> ContractDeployment) list" where
  "deploy_contracts env pa nonce =
    (let ps = fst pa; ad = snd pa;
         expectedNounsArtAddress = predicted env (nonce + UNOUNS_ART_NONCE_OFFSET);
         expectedAuctionHouseProxyAddress = predicted env (nonce + AUCTION_HOUSE_PROXY_NONCE_OFFSET);
         expectedNounsDAOProxyAddress = predicted env (nonce + GOVERNOR_N_DELEGATOR_NONCE_OFFSET) in
     [(''NFTDescriptorV2'', no_args),
      (''SVGRenderer'', no_args),
      (''NounsDescriptorV2'', no_args\<lparr>
         cd_args := [Value (VStr expectedNounsArtAddress), AddressOf ''SVGRenderer''],
         cd_libraries := Some [(''NFTDescriptorV2'', ''NFTDescriptorV2'')]\<rparr>),
      (''Inflator'', no_args),
      (''NounsArt'', no_args\<lparr>cd_args := [AddressOf ''NounsDescriptorV2'', AddressOf ''Inflator'']\<rparr>),
      (''NounsSeeder'', no_args),
      (''NounsToken'', no_args\<lparr>cd_args :=
         [Value (VStr (da_unoundersdao ad)), Value (VStr (da_unouncildao ad)),
          Value (VStr expectedAuctionHouseProxyAddress), AddressOf ''NounsDescriptorV2'', AddressOf ''NounsSeeder'',
          Value (VStr (proxyRegistryAddress env))]\<rparr>),
      (''NounsAuctionHouse'', no_args\<lparr>cd_waitForConfirmation := True\<rparr>),
      (''NounsAuctionHouseProxyAdmin'', no_args),
      (''NounsAuctionHouseProxy'', no_args\<lparr>
         cd_args := [AddressOf ''NounsAuctionHouse'', AddressOf ''NounsAuctionHouseProxyAdmin'',
           Initialize [AddressOf ''NounsToken'', Value (VStr (da_weth ad)), Value (VStr (da_nounsdaoTreasury ad)),
             Value (VStr (da_halloffame ad)), Value (VNum (auctionTimeBuffer ps)), Value (VNum (proceedsShareEndTime ps)),
             Value (VStr (auctionReservePrice ps)), Value (VNum (auctionMinIncrementBidPercentage ps)),
             Value (VNum (auctionDuration ps))]],
         cd_waitForConfirmation := True,
         cd_validateDeployment :=
           Some (expect_address ''auction house'' ''NounsAuctionHouseProxy'' expectedAuctionHouseProxyAddress)\<rparr>),
      (''NounsDAOExecutor'', no_args\<lparr>cd_args :=
         [Value (VStr expectedNounsDAOProxyAddress), Value (VNum (timelockDelay ps))]\<rparr>),
      (''NounsDAOLogicV1'', no_args\<lparr>cd_waitForConfirmation := True\<rparr>),
      (''NounsDAOProxy'', no_args\<lparr>
         cd_args := [AddressOf ''NounsDAOExecutor'', AddressOf ''NounsToken'', Value (VStr (da_unoundersdao ad)),
           AddressOf ''NounsDAOExecutor'', AddressOf ''NounsDAOLogicV1'', Value (VNum (votingPeriod ps)),
           Value (VNum (votingDelay ps)), Value (VNum (proposalThresholdBps ps)), Value (VNum (quorumVotesBps ps))],
         cd_waitForConfirmation := True,
         cd_validateDeployment :=
           Some (expect_address ''UNouns DAO'' ''NounsDAOProxy'' expectedNounsDAOProxyAddress)\<rparr>)])"

section \<open>The deployment loop\<close>

definition gasInGwei :: "int \<Rightarrow> int" where
  "gasInGwei gasPrice = (gasPrice + 500000000) div 1000000000"

definition ask_gasPrice :: "int \<Rightarrow> operator \<Rightarrow> int" where
  "ask_gasPrice gasPrice inp =
     (case op_gasPrice inp of None \<Rightarrow> gasInGwei gasPrice | Some g \<Rightarrow> g) * 1000000000"

text \<open>The answer to the question \<open>confirm\<close>: \<open>prompt\<close> returns an object with this one property.\<close>

definition confirm_prompt :: "operator \<Rightarrow> (string \<rightharpoonup> string)" where
  "confirm_prompt inp = [''confirm'' \<mapsto> op_confirm inp]"

datatype outcome = Continue deployment | Return

text \<open>Everything of a round before the deployment: the factory, the arguments and the gas estimate.\<close>

definition prepare :: "deploy_env \<Rightarrow> string \<Rightarrow> int \<Rightarrow> ContractDeployment \<Rightarrow> deployment
    \<Rightarrow> (string, (string \<times> string) list option \<times> val list) result" where
  "prepare env factory gasPrice c dep =
     bind_result (run_libraries dep c) (\<lambda>libs.
       case env_factory env factory libs of Some e \<Rightarrow> Inl e | None \<Rightarrow>
       bind_result (eval_args env dep (cd_args c)) (\<lambda>vs.
         case env_transaction env factory vs of Some e \<Rightarrow> Inl e | None \<Rightarrow>
         bind_result (env_estimateGas env factory vs gasPrice) (\<lambda>_. Inr (libs, vs))))"

definition send_deployment :: "deploy_env \<Rightarrow> string \<Rightarrow> val list \<Rightarrow> int option \<Rightarrow> operator \<Rightarrow> chain \<Rightarrow> string \<times> chain" where
  "send_deployment env factory vs gasPrice inp s =
     (let n = ch_nonce s + op_foreign inp; a = env_contractAddress env (env_deployer env) n in
      (a, \<lparr>ch_nonce = n + 1, ch_sent = ch_sent s @ [(factory, a, vs, gasPrice)]\<rparr>))"

definition deploy_round :: "deploy_env \<Rightarrow> (string \<Rightarrow> string) \<Rightarrow> bool \<Rightarrow> operator \<Rightarrow> string \<times> ContractDeployment
    \<Rightarrow> chain \<Rightarrow> deployment \<Rightarrow> (string, outcome) result \<times> chain" where
  "deploy_round env nameForFactory auto inp nc s dep =
     (let x = fst nc; c = snd nc; factory = nameForFactory x;
          gasPrice = (if auto then env_gasPrice env x else ask_gasPrice (env_gasPrice env x) inp) in
      case prepare env factory gasPrice c dep of
        Inl e \<Rightarrow> (Inl e, s)
      | Inr (libs, vs) \<Rightarrow>
          if \<not> auto \<and> confirm_prompt inp ''operation'' = Some ''SKIP'' then (Inr (Continue dep), s)
          else if \<not> auto \<and> confirm_prompt inp ''operation'' = Some ''EXIT'' then (Inr Return, s)
          else
            (let (a, s') = send_deployment env factory vs (Some gasPrice) inp s in
             case (if cd_waitForConfirmation c then env_deployed env factory else None) of
               Some e \<Rightarrow> (Inl e, s')
             | None \<Rightarrow>
                 (let dep' = dep(x \<mapsto> \<lparr>dc_name = factory, dc_address = a, dc_constructorArguments = vs,
                                      dc_libraries = (case libs of None \<Rightarrow> [] | Some l \<Rightarrow> l)\<rparr>) in
                  (case (case cd_validateDeployment c of None \<Rightarrow> Inr () | Some v \<Rightarrow> v dep') of
                     Inl e \<Rightarrow> (Inl e, s')
                   | Inr _ \<Rightarrow> (Inr (Continue dep'), s')))))"

fun deploy_loop :: "deploy_env \<Rightarrow> (string \<Rightarrow> string) \<Rightarrow> bool \<Rightarrow> (string \<Rightarrow> operator) \<Rightarrow> (string \<times> ContractDeployment) list
    \<Rightarrow> chain \<Rightarrow> deployment \<Rightarrow> (string, deployment option) result \<times> chain" where
  "deploy_loop env nff auto ops [] s dep = (Inr (Some dep), s)"
| "deploy_loop env nff auto ops (nc # ncs) s dep =
     (case deploy_round env nff auto (ops (fst nc)) nc s dep of
        (Inl e, s') \<Rightarrow> (Inl e, s')
      | (Inr Return, s') \<Rightarrow> (Inr None, s')
      | (Inr (Continue dep'), s') \<Rightarrow> deploy_loop env nff auto ops ncs s' dep')"

definition deploy :: "deploy_env \<Rightarrow> DeployArgs \<Rightarrow> (string \<Rightarrow> operator) \<Rightarrow> chain
    \<Rightarrow> (string, deployment option) result \<times> chain" where
  "deploy env ps ops s =
     (case resolve_addresses env ps of
        Inl e \<Rightarrow> (Inl e, s)
      | Inr ad \<Rightarrow> deploy_loop env (\<lambda>x. x) (autoDeploy ps) ops (deploy_contracts env (ps, ad) (ch_nonce s)) s Map.empty)"

section \<open>What a completed run has deployed\<close>

lemma no_operation_answer [simp]: "confirm_prompt inp ''operation'' = None"
  by (simp add: confirm_prompt_def)

lemma address_of_Inr_iff: "address_of x dep = Inr a \<longleftrightarrow> (\<exists>d. dep x = Some d \<and> dc_address d = a)"
  by (auto simp: address_of_def split: option.splits)

lemma address_of_mono: "dep \<subseteq>\<^sub>m dep' \<Longrightarrow> address_of x dep = Inr a \<Longrightarrow> address_of x dep' = Inr a"
  by (auto simp: address_of_Inr_iff map_le_def dom_def)

lemma eval_mono:
  "dep \<subseteq>\<^sub>m dep' \<Longrightarrow> eval_arg env dep a = Inr v \<Longrightarrow> eval_arg env dep' a = Inr v"
  "dep \<subseteq>\<^sub>m dep' \<Longrightarrow> eval_args env dep as = Inr vs \<Longrightarrow> eval_args env dep' as = Inr vs"
proof (induction env dep a and env dep as arbitrary: v and vs rule: eval_arg_eval_args.induct)
  case (2 env dep x)
  then show ?case by (auto simp: js_simps intro: address_of_mono)
qed (fastforce simp: js_simps)+

lemma expect_address_ok:
  "expect_address label x e dep = Inr u \<longleftrightarrow> (\<exists>d. dep x = Some d \<and> to_lower e = to_lower (dc_address d))"
  by (auto simp: expect_address_def Let_def js_simps address_of_Inr_iff)

text \<open>A contract of the plan as a run leaves it: sent with nonce \<open>n\<close>, with the arguments its thunks denote.\<close>

definition made :: "deploy_env \<Rightarrow> deployment \<Rightarrow> string \<times> ContractDeployment \<Rightarrow> nat \<Rightarrow> bool" where
  "made env dep nc n \<longleftrightarrow>
     (\<exists>d. dep (fst nc) = Some d \<and> dc_address d = predicted env n

        \<and> eval_args env dep (cd_args (snd nc)) = Inr (dc_constructorArguments d)
        \<and> (\<forall>label e. cd_validateDeployment (snd nc) = Some (expect_address label (fst nc) e)
             \<longrightarrow> to_lower e = to_lower (dc_address d)))"

lemma deploy_round_Inr:
  assumes "deploy_round env nff auto inp (x, c) s dep = (Inr out, s')" and "x \<notin> dom dep"
  obtains dep' where "out = Continue dep'" and "dep \<subseteq>\<^sub>m dep'" and "dom dep' = insert x (dom dep)"
    and "made env dep' (x, c) (ch_nonce s + op_foreign inp)" and "ch_nonce s' = ch_nonce s + op_foreign inp + 1"
proof -
  obtain libs vs where p: "prepare env (nff x) (if auto then env_gasPrice env x else ask_gasPrice (env_gasPrice env x) inp) c dep
      = Inr (libs, vs)"
    using assms(1) by (cases "prepare env (nff x) (if auto then env_gasPrice env x else ask_gasPrice (env_gasPrice env x) inp) c dep")
      (auto simp: deploy_round_def Let_def)
  define d where "d = \<lparr>dc_name = nff x, dc_address = predicted env (ch_nonce s + op_foreign inp),
    dc_constructorArguments = vs, dc_libraries = (case libs of None \<Rightarrow> [] | Some l \<Rightarrow> l)\<rparr>"
  have le: "dep \<subseteq>\<^sub>m dep(x \<mapsto> d)" using assms(2) by (auto simp: map_le_def)
  have "eval_args env dep (cd_args c) = Inr vs"
    using p by (auto simp: prepare_def js_simps split: option.splits)
  then have args: "eval_args env (dep(x \<mapsto> d)) (cd_args c) = Inr vs" by (rule eval_mono(2)[OF le])
  have out: "out = Continue (dep(x \<mapsto> d))" and n: "ch_nonce s' = ch_nonce s + op_foreign inp + 1"
    and v: "(case cd_validateDeployment c of None \<Rightarrow> Inr () | Some v \<Rightarrow> v (dep(x \<mapsto> d))) = Inr ()"
    using assms(1) p
    by (auto simp: deploy_round_def send_deployment_def Let_def d_def predicted_def split: option.splits sum.splits)
  have "made env (dep(x \<mapsto> d)) (x, c) (ch_nonce s + op_foreign inp)"
    using args v by (auto simp: made_def d_def expect_address_ok)
  then show thesis using that[of "dep(x \<mapsto> d)"] out n le by simp
qed

lemma made_mono: "dep \<subseteq>\<^sub>m dep' \<Longrightarrow> made env dep nc n \<Longrightarrow> made env dep' nc n"
proof -
  assume le: "dep \<subseteq>\<^sub>m dep'" and "made env dep nc n"
  then obtain d where d: "dep (fst nc) = Some d" "dc_address d = predicted env n"

    "eval_args env dep (cd_args (snd nc)) = Inr (dc_constructorArguments d)"
    "\<forall>label e. cd_validateDeployment (snd nc) = Some (expect_address label (fst nc) e) \<longrightarrow> to_lower e = to_lower (dc_address d)"
    unfolding made_def by blast
  have "dep' (fst nc) = Some d" using le d(1) by (metis map_le_def domI)
  with d eval_mono(2)[OF le d(3)] show "made env dep' nc n" unfolding made_def by blast
qed

lemma deploy_loop_Inr:
  assumes "deploy_loop env nff auto ops plan s dep = (Inr r, s')"
    and "distinct (map fst plan)" and "set (map fst plan) \<inter> dom dep = {}"
  shows "\<exists>dep' ns. r = Some dep' \<and> dep \<subseteq>\<^sub>m dep' \<and> sorted_wrt (<) ns \<and> (\<forall>n\<in>set ns. ch_nonce s \<le> n)
    \<and> list_all2 (made env dep') plan ns"
  using assms
proof (induction plan arbitrary: s dep)
  case (Cons nc plan)
  obtain x c where nc: "nc = (x, c)" by (cases nc)
  have fresh: "x \<notin> dom dep" using Cons.prems(3) nc by auto
  obtain out s1 where round: "deploy_round env nff auto (ops x) (x, c) s dep = (Inr out, s1)"
    using Cons.prems(1) nc by (auto split: sum.splits prod.splits)
  then obtain dep1 where 1: "out = Continue dep1" "dep \<subseteq>\<^sub>m dep1" "dom dep1 = insert x (dom dep)"
    "made env dep1 (x, c) (ch_nonce s + op_foreign (ops x))" "ch_nonce s1 = ch_nonce s + op_foreign (ops x) + 1"
    using fresh by (rule deploy_round_Inr)
  have "deploy_loop env nff auto ops plan s1 dep1 = (Inr r, s')"
    using Cons.prems(1) nc round 1(1) by simp
  moreover have "distinct (map fst plan)" "set (map fst plan) \<inter> dom dep1 = {}"
    using Cons.prems(2,3) nc 1(3) by auto
  ultimately obtain dep' ns where 2: "r = Some dep'" "dep1 \<subseteq>\<^sub>m dep'" "sorted_wrt (<) ns"
    "\<forall>n\<in>set ns. ch_nonce s1 \<le> n" "list_all2 (made env dep') plan ns"
    using Cons.IH by blast
  have "list_all2 (made env dep') (nc # plan) ((ch_nonce s + op_foreign (ops x)) # ns)"
    using 1(4) 2(2,5) nc by (auto intro: made_mono)
  moreover have "sorted_wrt (<) ((ch_nonce s + op_foreign (ops x)) # ns)"
    "\<forall>n\<in>set ((ch_nonce s + op_foreign (ops x)) # ns). ch_nonce s \<le> n"
    using 1(5) 2(3,4) by auto
  moreover have "dep \<subseteq>\<^sub>m dep'" using 1(2) 2(2) by (rule map_le_trans)
  ultimately show ?case using 2(1) by blast
qed auto

text \<open>Nonces that only grow and end at the last one predicted leave room for no other transaction.\<close>

lemma consecutive_nonces:
  assumes "sorted_wrt (<) ns" and "\<forall>n\<in>set ns. N \<le> n" and "ns \<noteq> []" and "last ns = N + length ns - 1"
  shows "ns = [N..<N + length ns]"
  using assms
proof (induction ns arbitrary: N)
  case (Cons n ns)
  show ?case
  proof (cases "ns = []")
    case False
    have len: "sorted_wrt (<) xs \<Longrightarrow> \<forall>k\<in>set xs. m \<le> k \<Longrightarrow> xs \<noteq> [] \<Longrightarrow> m + length xs - 1 \<le> last xs"
      for xs :: "nat list" and m
    proof (induction xs arbitrary: m)
      case (Cons y ys)
      then show ?case using Cons.IH[of "Suc y"] by (cases "ys = []") (force simp: Suc_le_eq)+
    qed simp
    have "Suc n + length ns - 1 \<le> last ns" using len[of ns "Suc n"] Cons.prems False by (auto simp: Suc_le_eq)
    then have n: "n = N" using Cons.prems False by auto
    have "ns = [Suc N..<Suc N + length ns]"
      using Cons.IH[of "Suc N"] Cons.prems False n by (auto simp: Suc_le_eq)
    then show ?thesis using n upt_conv_Cons[of N "Suc N + length ns"] by (metis add_Suc_right add_Suc_shift le_add1 length_Cons less_Suc_eq_le)
  qed (use Cons.prems in auto)
qed simp

text \<open>Position \<open>i\<close> of the constructor arguments of \<open>x\<close> holds the address that \<open>y\<close> got.\<close>

definition wired :: "deployment \<Rightarrow> string \<times> nat \<times> string \<Rightarrow> bool" where
  "wired dep r =
     (case r of (x, i, y) \<Rightarrow> (case dep x of None \<Rightarrow> False | Some d \<Rightarrow> (case dep y of None \<Rightarrow> False | Some e \<Rightarrow>
        i < length (dc_constructorArguments d) \<and> dc_constructorArguments d ! i = VStr (dc_address e))))"

definition position :: "string list \<Rightarrow> string \<Rightarrow> nat" where
  "position names y = length (takeWhile (\<lambda>z. z \<noteq> y) names)"

lemma position_lt: "y \<in> set names \<Longrightarrow> position names y < length names \<and> names ! position names y = y"
  unfolding position_def by (induction names) auto

text \<open>In a plan the argument is a thunk that reads the address, or the prediction for the nonce that \<open>y\<close> will have.\<close>

definition refers :: "deploy_env \<Rightarrow> nat \<Rightarrow> string list \<Rightarrow> (string \<times> ContractDeployment) list
    \<Rightarrow> string \<times> nat \<times> string \<Rightarrow> bool" where
  "refers env n names plan r =
     (case r of (x, i, y) \<Rightarrow> y \<in> set names \<and> (case map_of plan x of None \<Rightarrow> False | Some c \<Rightarrow>
        i < length (cd_args c) \<and> (cd_args c ! i = AddressOf y
          \<or> cd_args c ! i = Value (VStr (predicted env (n + position names y))))))"

lemma eval_args_nth:
  "eval_args env dep as = Inr vs \<Longrightarrow> i < length as \<Longrightarrow> i < length vs \<and> eval_arg env dep (as ! i) = Inr (vs ! i)"
proof (induction as arbitrary: vs i)
  case (Cons a as)
  then show ?case by (cases i) (auto simp: js_simps)
qed simp

text \<open>
  What the plans of the deployment tasks have in common: fixed names, and a last contract that is checked against
  the prediction made for it before the first one was sent.
\<close>

locale deploy_plan =
  fixes plan :: "deploy_env \<Rightarrow> 'a \<Rightarrow> nat \<Rightarrow> (string \<times> ContractDeployment) list"
    and names :: "string list" and label :: string
  assumes plan_names: "map fst (plan env ps n) = names"
    and distinct_names: "distinct names" and some_name: "names \<noteq> []"
    and last_checked: "cd_validateDeployment (snd (last (plan env ps n)))
      = Some (expect_address label (last names) (predicted env (n + length names - 1)))"
begin

lemma run_made:
  assumes inj: "inj (\<lambda>n. to_lower (predicted env n))"
    and run: "deploy_loop env nff auto ops (plan env ps (ch_nonce s)) s Map.empty = (Inr r, s')"
  shows "\<exists>dep. r = Some dep
    \<and> list_all2 (made env dep) (plan env ps (ch_nonce s)) [ch_nonce s..<ch_nonce s + length names]"
proof -
  let ?plan = "plan env ps (ch_nonce s)"
  have "distinct (map fst ?plan)" by (simp add: plan_names distinct_names)
  from deploy_loop_Inr[OF run this] obtain dep ns where 1: "r = Some dep" "sorted_wrt (<) ns"
    "\<forall>n\<in>set ns. ch_nonce s \<le> n" "list_all2 (made env dep) ?plan ns" by auto
  have len: "length ns = length names" "length ?plan = length names"
    using 1(4) plan_names[of env ps "ch_nonce s"] by (metis length_map list_all2_lengthD)+
  then have ne: "ns \<noteq> []" "?plan \<noteq> []" using some_name by auto
  then have "made env dep (last ?plan) (last ns)"
    using 1(4) by (simp add: last_conv_nth list_all2_conv_all_nth)
  moreover have "fst (last ?plan) = last names"
    using plan_names[of env ps "ch_nonce s"] ne(2) by (metis last_map)
  ultimately have "to_lower (predicted env (ch_nonce s + length names - 1)) = to_lower (predicted env (last ns))"
    using last_checked[of env ps "ch_nonce s"] by (auto simp: made_def)
  then have "last ns = ch_nonce s + length ns - 1" using inj len(1) by (auto dest: injD)
  with 1(2,3) ne(1) have "ns = [ch_nonce s..<ch_nonce s + length ns]" by (intro consecutive_nonces)
  with 1(1,4) len(1) show ?thesis by metis
qed

lemma made_at:
  assumes "list_all2 (made env dep) (plan env ps n) [n..<n + length names]" and "i < length names"
  shows "\<exists>d. dep (names ! i) = Some d \<and> dc_address d = predicted env (n + i)"
proof -
  have "length (plan env ps n) = length names" using plan_names[of env ps n] by (metis length_map)
  moreover have "fst (plan env ps n ! i) = names ! i"
    using plan_names[of env ps n] assms(2) calculation by (metis nth_map)
  ultimately show ?thesis using assms by (fastforce simp: list_all2_conv_all_nth made_def)
qed

lemma made_wired:
  assumes m: "list_all2 (made env dep) (plan env ps n) [n..<n + length names]"
    and r: "refers env n names (plan env ps n) r"
  shows "wired dep r"
proof -
  obtain x i y c where y: "r = (x, i, y)" "y \<in> set names" "map_of (plan env ps n) x = Some c" "i < length (cd_args c)"
    "cd_args c ! i = AddressOf y \<or> cd_args c ! i = Value (VStr (predicted env (n + position names y)))"
    using r by (auto simp: refers_def split: prod.splits option.splits)
  obtain e where e: "dep y = Some e" "dc_address e = predicted env (n + position names y)"
    using made_at[OF m] position_lt[OF y(2)] by metis
  obtain k where "made env dep (x, c) k"
    using m map_of_SomeD[OF y(3)] by (metis in_set_conv_nth list_all2_conv_all_nth)
  then obtain d where d: "dep x = Some d" "eval_args env dep (cd_args c) = Inr (dc_constructorArguments d)"
    by (auto simp: made_def)
  show ?thesis
    using eval_args_nth[OF d(2) y(4)] y(1,5) d(1) e by (auto simp: wired_def address_of_def)
qed

text \<open>Every run that returns has deployed all contracts at consecutive nonces and connected them.\<close>

lemma run_wired:
  assumes "inj (\<lambda>n. to_lower (predicted env n))"
    and "deploy_loop env nff auto ops (plan env ps (ch_nonce s)) s Map.empty = (Inr r, s')"
    and "list_all (refers env (ch_nonce s) names (plan env ps (ch_nonce s))) refs"
  shows "\<exists>dep. r = Some dep
    \<and> map (\<lambda>x. map_option dc_address (dep x)) names = map (\<lambda>i. Some (predicted env (ch_nonce s + i))) [0..<length names]
    \<and> list_all (wired dep) refs"
proof -
  obtain dep where dep: "r = Some dep"
    and m: "list_all2 (made env dep) (plan env ps (ch_nonce s)) [ch_nonce s..<ch_nonce s + length names]"
    using run_made[OF assms(1,2)] by blast
  have "map (\<lambda>x. map_option dc_address (dep x)) names = map (\<lambda>i. Some (predicted env (ch_nonce s + i))) [0..<length names]"
    using made_at[OF m] by (fastforce intro: nth_equalityI)
  moreover have "list_all (wired dep) refs"
    using made_wired[OF m] assms(3) by (auto simp: list_all_iff)
  ultimately show ?thesis using dep by blast
qed

end

definition deploy_names :: "string list" where
  "deploy_names = [''NFTDescriptorV2'', ''SVGRenderer'', ''NounsDescriptorV2'', ''Inflator'', ''NounsArt'', ''NounsSeeder'',
     ''NounsToken'', ''NounsAuctionHouse'', ''NounsAuctionHouseProxyAdmin'', ''NounsAuctionHouseProxy'',
     ''NounsDAOExecutor'', ''NounsDAOLogicV1'', ''NounsDAOProxy'']"

lemma length_deploy_names [simp]: "length deploy_names = 13"
  by (simp add: deploy_names_def)

interpretation deploy_task: deploy_plan deploy_contracts deploy_names "''UNouns DAO''"
proof unfold_locales
  show "map fst (deploy_contracts env ps n) = deploy_names" for env ps n
    by (simp add: deploy_contracts_def deploy_names_def Let_def)
  show "distinct deploy_names" and "deploy_names \<noteq> []"
    by (simp_all add: deploy_names_def)
  have "last deploy_names = ''NounsDAOProxy''" by (simp add: deploy_names_def)
  then show "cd_validateDeployment (snd (last (deploy_contracts env ps n)))
      = Some (expect_address ''UNouns DAO'' (last deploy_names) (predicted env (n + length deploy_names - 1)))" for env ps n
    by (simp add: deploy_contracts_def Let_def nonce_offsets add.commute)
qed

definition deploy_wiring :: "(string \<times> nat \<times> string) list" where
  "deploy_wiring =
     [(''NounsDescriptorV2'', 0, ''NounsArt''), (''NounsDescriptorV2'', 1, ''SVGRenderer''),
      (''NounsArt'', 0, ''NounsDescriptorV2''), (''NounsArt'', 1, ''Inflator''),
      (''NounsToken'', 2, ''NounsAuctionHouseProxy''), (''NounsToken'', 3, ''NounsDescriptorV2''),
      (''NounsToken'', 4, ''NounsSeeder''),
      (''NounsAuctionHouseProxy'', 0, ''NounsAuctionHouse''), (''NounsAuctionHouseProxy'', 1, ''NounsAuctionHouseProxyAdmin''),
      (''NounsDAOExecutor'', 0, ''NounsDAOProxy''),
      (''NounsDAOProxy'', 0, ''NounsDAOExecutor''), (''NounsDAOProxy'', 1, ''NounsToken''),
      (''NounsDAOProxy'', 3, ''NounsDAOExecutor''), (''NounsDAOProxy'', 4, ''NounsDAOLogicV1'')]"

lemma deploy_refers: "list_all (refers env n deploy_names (deploy_contracts env pa n)) deploy_wiring"
  by (simp add: refers_def deploy_wiring_def deploy_contracts_def deploy_names_def no_args_def Let_def nonce_offsets
      position_def eval_nat_numeral)


section \<open>Runs that complete\<close>

text \<open>The compiled contracts take the arguments of the plan: no factory, transaction or estimate fails.\<close>

definition accepts :: "deploy_env \<Rightarrow> bool" where
  "accepts env \<longleftrightarrow> (\<forall>f libs. env_factory env f libs = None) \<and> (\<forall>f vs. env_transaction env f vs = None)
     \<and> (\<forall>f vs g. \<exists>e. env_estimateGas env f vs g = Inr e) \<and> (\<forall>f. env_deployed env f = None)
     \<and> (\<forall>vs. length vs = 9 \<longrightarrow> (\<exists>d. env_encodeInitialize env vs = Inr d))"

fun refers_back :: "string set \<Rightarrow> deploy_arg \<Rightarrow> bool" where
  "refers_back seen (Value v) = True"
| "refers_back seen (AddressOf x) = (x \<in> seen)"
| "refers_back seen (Initialize as) = (length as = 9 \<and> list_all (refers_back seen) as)"

lemma length_eval_args: "eval_args env dep as = Inr vs \<Longrightarrow> length vs = length as"
  by (induction as arbitrary: vs) (auto simp: js_simps)

lemma eval_refers_back:
  "accepts env \<Longrightarrow> refers_back (dom dep) a \<Longrightarrow> \<exists>v. eval_arg env dep a = Inr v"
  "accepts env \<Longrightarrow> list_all (refers_back (dom dep)) as \<Longrightarrow> \<exists>vs. eval_args env dep as = Inr vs"
proof (induction env dep a and env dep as rule: eval_arg_eval_args.induct)
  case (3 env dep as)
  then obtain vs where vs: "eval_args env dep as = Inr vs" by auto
  then have "length vs = 9" using 3(3) by (simp add: length_eval_args)
  then obtain d where "env_encodeInitialize env vs = Inr d" using 3(2) unfolding accepts_def by blast
  then show ?case using vs by simp
qed (auto simp: address_of_def)

text \<open>A plan whose thunks read what was deployed before them and whose predictions match the nonces of the plan.\<close>

fun in_order :: "deploy_env \<Rightarrow> string set \<Rightarrow> nat \<Rightarrow> (string \<times> ContractDeployment) list \<Rightarrow> bool" where
  "in_order env seen n [] = True"
| "in_order env seen n ((x, c) # plan) =
     (list_all (refers_back seen) (cd_args c)
      \<and> (case cd_libraries c of None \<Rightarrow> True | Some ls \<Rightarrow> list_all (\<lambda>(k, y). y \<in> seen) ls)
      \<and> (case cd_validateDeployment c of None \<Rightarrow> True
         | Some v \<Rightarrow> \<forall>dep d. dep x = Some d \<longrightarrow> dc_address d = predicted env n \<longrightarrow> v dep = Inr ())
      \<and> in_order env (insert x seen) (n + 1) plan)"

lemma run_libraries_in_order:
  "(case cd_libraries c of None \<Rightarrow> True | Some ls \<Rightarrow> list_all (\<lambda>(k, y). y \<in> dom dep) ls)
    \<Longrightarrow> \<exists>libs. run_libraries dep c = Inr libs"
proof -
  have *: "list_all (\<lambda>(k, y). y \<in> dom dep) ls \<Longrightarrow> \<exists>r. eval_libraries dep ls = Inr r" for ls
    by (induction ls) (auto simp: address_of_def)
  show "(case cd_libraries c of None \<Rightarrow> True | Some ls \<Rightarrow> list_all (\<lambda>(k, y). y \<in> dom dep) ls)
    \<Longrightarrow> \<exists>libs. run_libraries dep c = Inr libs"
    by (auto simp: run_libraries_def split: option.splits dest: *)
qed

lemma deploy_loop_completes:
  assumes "accepts env" and "\<And>x. op_foreign (ops x) = 0" and "in_order env (dom dep) (ch_nonce s) plan"
  shows "\<exists>dep' s'. deploy_loop env nff auto ops plan s dep = (Inr (Some dep'), s')
    \<and> map fst (ch_sent s') = map fst (ch_sent s) @ map (nff \<circ> fst) plan"
  using assms(3)
proof (induction plan arbitrary: s dep)
  case (Cons nc plan)
  obtain x c where nc: "nc = (x, c)" by (cases nc)
  let ?g = "if auto then env_gasPrice env x else ask_gasPrice (env_gasPrice env x) (ops x)"
  let ?n = "ch_nonce s"
  obtain vs where vs: "eval_args env dep (cd_args c) = Inr vs"
    using Cons.prems nc eval_refers_back(2)[OF assms(1)] by auto
  obtain libs where libs: "run_libraries dep c = Inr libs"
    using Cons.prems nc run_libraries_in_order[of dep c] by auto
  obtain e where "env_estimateGas env (nff x) vs ?g = Inr e" using assms(1) unfolding accepts_def by blast
  then have p: "prepare env (nff x) ?g c dep = Inr (libs, vs)"
    using vs libs assms(1) by (simp add: prepare_def accepts_def)
  define d where "d = \<lparr>dc_name = nff x, dc_address = predicted env ?n, dc_constructorArguments = vs,
    dc_libraries = (case libs of None \<Rightarrow> [] | Some l \<Rightarrow> l)\<rparr>"
  define s1 where "s1 = \<lparr>ch_nonce = ?n + 1, ch_sent = ch_sent s @ [(nff x, predicted env ?n, vs, Some ?g)]\<rparr>"
  have send: "send_deployment env (nff x) vs (Some ?g) (ops x) s = (predicted env ?n, s1)"
    using assms(2) by (simp add: send_deployment_def s1_def predicted_def Let_def)
  have "(case cd_validateDeployment c of None \<Rightarrow> Inr () | Some v \<Rightarrow> v (dep(x \<mapsto> d))) = Inr ()"
    using Cons.prems nc by (auto simp: d_def split: option.splits)
  then have round: "deploy_round env nff auto (ops x) (x, c) s dep = (Inr (Continue (dep(x \<mapsto> d))), s1)"
    using p assms(1) send unfolding deploy_round_def d_def
    by (simp add: accepts_def Let_def)
  have "in_order env (dom (dep(x \<mapsto> d))) (ch_nonce s1) plan"
    using Cons.prems nc by (simp add: s1_def)
  from Cons.IH[OF this] obtain dep' s' where "deploy_loop env nff auto ops plan s1 (dep(x \<mapsto> d)) = (Inr (Some dep'), s')"
    "map fst (ch_sent s') = map fst (ch_sent s1) @ map (nff \<circ> fst) plan" by blast
  then have "deploy_loop env nff auto ops (nc # plan) s dep = (Inr (Some dep'), s')
      \<and> map fst (ch_sent s') = map fst (ch_sent s) @ map (nff \<circ> fst) (nc # plan)"
    using round nc by (simp add: s1_def)
  then show ?case by blast
qed simp

text \<open>Where the contracts take their arguments and no other transaction comes between, the deploy task deploys
  all thirteen contracts in order whatever the operator answers to its question: typing SKIP or EXIT, which
  the question offers, neither skips a contract nor ends the task.\<close>

theorem deploy_whatever_the_answer:
  assumes "resolve_addresses env ps = Inr ad" and "accepts env" and "op_foreign \<circ> ops = (\<lambda>_. 0)"
  shows "\<exists>dep s'. deploy env ps ops s = (Inr (Some dep), s') \<and> map fst (ch_sent s') = map fst (ch_sent s) @ deploy_names"
proof -
  have "in_order env {} n (deploy_contracts env pa n)" for n pa
    by (simp add: deploy_contracts_def no_args_def Let_def nonce_offsets expect_address_ok eval_nat_numeral)
  then have "in_order env (dom Map.empty) (ch_nonce s) (deploy_contracts env (ps, ad) (ch_nonce s))" by simp
  from deploy_loop_completes[OF assms(2) _ this, of ops "\<lambda>x. x" "autoDeploy ps"] assms(1,3)
  have "\<exists>dep s'. deploy env ps ops s = (Inr (Some dep), s')
    \<and> map fst (ch_sent s') = map fst (ch_sent s) @ map fst (deploy_contracts env (ps, ad) (ch_nonce s))"
    by (simp add: deploy_def fun_eq_iff comp_def)
  then show ?thesis by (simp only: deploy_task.plan_names)
qed

section \<open>A sample network\<close>

definition sample_env :: deploy_env where
  "sample_env = \<lparr>env_chainId = 5, env_network = ''goerli'', env_deployer = ''0xd'',
     env_contractAddress = (\<lambda>d n. replicate n CHR ''a''),
     env_encodeInitialize = (\<lambda>vs. if length vs = 9 then Inr ''0x87'' else Inl ''types/values length mismatch''),
     env_gasPrice = (\<lambda>_. 7), env_factory = (\<lambda>_ _. None),
     env_transaction = (\<lambda>f vs. None), env_estimateGas = (\<lambda>_ _ _. Inr 21000), env_deployed = (\<lambda>_. None)\<rparr>"

lemma sample_env_accepts: "accepts sample_env"
  by (simp add: accepts_def sample_env_def)

lemma sample_env_inj: "inj (\<lambda>n. to_lower (predicted sample_env n))"
  by (auto simp: inj_def predicted_def sample_env_def to_lower_def)

definition sample_addresses :: DeployAddresses where
  "sample_addresses = \<lparr>da_unoundersdao = ''0xDEF60ef4d2a6fDE245dA5C7FB957b2CbF53F6962'',
     da_unouncildao = ''0xb9E9061e342257074214e73a26c83746ff6c52DB'', da_weth = ''0xB4FBF271143F4FBf7B91A5ded31805e42b2208d6'',
     da_nounsdaoTreasury = ''0x2f12ABA664E6D2b4DDD264E2a175d29703836AaE'',
     da_halloffame = ''0x2672F15DD5129099cF5C4f66b3e82E7f5589f0c3''\<rparr>"

lemma sample_resolves: "resolve_addresses sample_env default_args = Inr sample_addresses"
  by (simp add: resolve_addresses_def auto_detect_def sample_env_def default_args_def sample_addresses_def
      unoundersDAOAddresses_def unouncilDAOAddresses_def wethContracts_def nounsDAOTeasuries_def halloffameAddresses_def
      chain_ids)

definition exit_operator :: "string \<Rightarrow> operator" where
  "exit_operator x = \<lparr>op_gasPrice = None, op_confirm = ''EXIT'', op_foreign = 0\<rparr>"

lemma sample_completes:
  "\<exists>dep s'. deploy sample_env default_args exit_operator \<lparr>ch_nonce = 3, ch_sent = []\<rparr> = (Inr (Some dep), s')"
proof -
  have "in_order sample_env (dom Map.empty) 3 (deploy_contracts sample_env (default_args, sample_addresses) 3)"
    by (simp add: deploy_contracts_def no_args_def Let_def nonce_offsets expect_address_ok)
  from deploy_loop_completes[OF sample_env_accepts, of exit_operator Map.empty "\<lparr>ch_nonce = 3, ch_sent = []\<rparr>"] this
  show ?thesis by (simp add: deploy_def sample_resolves exit_operator_def) metis
qed


theorem deploy_whatever_the_answer_witness:
  "\<exists>dep s'. deploy sample_env default_args exit_operator \<lparr>ch_nonce = 3, ch_sent = []\<rparr> = (Inr (Some dep), s')
    \<and> map fst (ch_sent s') = deploy_names"
  using deploy_whatever_the_answer[OF sample_resolves sample_env_accepts, of exit_operator "\<lparr>ch_nonce = 3, ch_sent = []\<rparr>"]
  by (auto simp: exit_operator_def comp_def)

end
