(* ===== verification/Deploy_Tasks.thy ===== *)
theory Deploy_Tasks
  imports Deploy
begin

text \<open>
  The other deployment tasks of \<open>nouns-contracts/tasks\<close>: \<open>deploy-short-times.ts\<close> and \<open>deploy-short-times-daov1.ts\<close>, which
  run the loop of \<open>deploy.ts\<close> over plans of their own with the harness contracts as factories, and \<open>deploy-local.ts\<close>,
  whose loop neither asks nor estimates nor validates.
\<close>

section \<open>Short governance times\<close>

record ShortArgs =
  sa_autoDeploy :: bool
  sa_weth :: "string option"
  sa_noundersdao :: "string option"
  sa_auctionTimeBuffer :: int
  sa_auctionReservePrice :: int
  sa_auctionMinIncrementBidPercentage :: int
  sa_auctionDuration :: int
  sa_timelockDelay :: int
  sa_votingPeriod :: int
  sa_votingDelay :: int
  sa_proposalThresholdBps :: int

record ShortArgsDAOV1 = ShortArgs +
  sa_quorumVotesBps :: int

text \<open>\<open>sa_quorumCoefficient\<close> is the coefficient in millionths: what \<open>parseUnits(quorumCoefficient.toString(), 6)\<close> gives.\<close>

record ShortArgsDAOV2 = ShortArgs +
  sa_minQuorumVotesBPS :: int
  sa_maxQuorumVotesBPS :: int
  sa_quorumCoefficient :: int

definition short_defaults :: "ShortArgs" where
  "short_defaults = \<lparr>sa_autoDeploy = False, sa_weth = None, sa_noundersdao = None, sa_auctionTimeBuffer = 30,
     sa_auctionReservePrice = 1, sa_auctionMinIncrementBidPercentage = 2, sa_auctionDuration = 60 * 2, sa_timelockDelay = 60,
     sa_votingPeriod = 80, sa_votingDelay = 1, sa_proposalThresholdBps = 100\<rparr>"

definition short_defaults_daov1 :: ShortArgsDAOV1 where
  "short_defaults_daov1 = ShortArgs.extend short_defaults (ShortArgsDAOV1.fields 1000)"

definition short_defaults_daov2 :: ShortArgsDAOV2 where
  "short_defaults_daov2 = ShortArgs.extend short_defaults (ShortArgsDAOV2.fields 1000 4000 1000000)"

text \<open>The founders' address defaults to the deployer; WETH is detected as in \<open>deploy.ts\<close>.\<close>

definition short_addresses :: "deploy_env \<Rightarrow> 'a ShortArgs_scheme \<Rightarrow> (string, string \<times> string) result" where
  "short_addresses env ps =
     (let nounders = (case sa_noundersdao ps of Some (c # cs) \<Rightarrow> c # cs | _ \<Rightarrow> env_deployer env) in
      bind_result (auto_detect env wethContracts ''WETH contract'' ''weth'' (sa_weth ps)) (\<lambda>w. Inr (nounders, w)))"

definition initialize_args :: "'a ShortArgs_scheme \<Rightarrow> deploy_arg \<Rightarrow> deploy_arg list" where
  "initialize_args ps weth = [AddressOf ''NounsToken'', weth, Value (VNum (sa_auctionTimeBuffer ps)),
     Value (VNum (sa_auctionReservePrice ps)), Value (VNum (sa_auctionMinIncrementBidPercentage ps)),
     Value (VNum (sa_auctionDuration ps))]"

definition short_base_contracts :: "deploy_env \<Rightarrow> 'a ShortArgs_scheme \<Rightarrow> string \<Rightarrow> string \<Rightarrow> nat \<Rightarrow> (string \<times> ContractDeployment) list" where
  "short_base_contracts env ps nounders weth nonce =
    (let expectedNounsArtAddress = predicted env (nonce + UNOUNS_ART_NONCE_OFFSET);
         expectedAuctionHouseProxyAddress = predicted env (nonce + AUCTION_HOUSE_PROXY_NONCE_OFFSET);
         expectedNounsDAOProxyAddress = predicted env (nonce + GOVERNOR_N_DELEGATOR_NONCE_OFFSET) in
     [(''NFTDescriptorV2'', no_args),
      (''SVGRenderer'', no_args),
      (''NounsDescriptorV2'', no_args\<lparr>
         cd_args := [Value (VStr expectedNounsArtAddress), AddressOf ''SVGRenderer''],
         cd_libraries := Some [(''NFTDescriptorV2'', ''NFTDescriptorV2'')]\<rparr>),
      (''Inflator'', no_args),
      (''NounsArt'', no_args\<lparr>cd_args := [AddressOf ''NounsDescriptorV2'', AddressOf ''Inflator'']\<rparr>),
      (''NounsSeeder'', no_args),
      (''NounsToken'', no_args\<lparr>cd_args :=
         [Value (VStr nounders), Value (VStr expectedAuctionHouseProxyAddress), AddressOf ''NounsDescriptorV2'',
          AddressOf ''NounsSeeder'', Value (VStr (proxyRegistryAddress env))]\<rparr>),
      (''NounsAuctionHouse'', no_args\<lparr>cd_waitForConfirmation := True\<rparr>),
      (''NounsAuctionHouseProxyAdmin'', no_args),
      (''NounsAuctionHouseProxy'', no_args\<lparr>
         cd_args := [AddressOf ''NounsAuctionHouse'', AddressOf ''NounsAuctionHouseProxyAdmin'',
           Initialize (initialize_args ps (Value (VStr weth)))],
         cd_waitForConfirmation := True,
         cd_validateDeployment :=
           Some (expect_address ''auction house'' ''NounsAuctionHouseProxy'' expectedAuctionHouseProxyAddress)\<rparr>),
      (''NounsDAOExecutor'', no_args\<lparr>cd_args :=
         [Value (VStr expectedNounsDAOProxyAddress), Value (VNum (sa_timelockDelay ps))]\<rparr>)])"

definition governor_args :: "'a ShortArgs_scheme \<Rightarrow> string \<Rightarrow> string \<Rightarrow> val \<Rightarrow> deploy_arg list" where
  "governor_args ps nounders logic quorum =
     [AddressOf ''NounsDAOExecutor'', AddressOf ''NounsToken'', Value (VStr nounders), AddressOf ''NounsDAOExecutor'',
      AddressOf logic, Value (VNum (sa_votingPeriod ps)), Value (VNum (sa_votingDelay ps)),
      Value (VNum (sa_proposalThresholdBps ps)), Value quorum]"

definition governor_contracts :: "deploy_env \<Rightarrow> string \<Rightarrow> string \<Rightarrow> deploy_arg list \<Rightarrow> nat \<Rightarrow> (string \<times> ContractDeployment) list" where
  "governor_contracts env logic proxy as nonce =
     [(logic, no_args\<lparr>cd_waitForConfirmation := True\<rparr>),
      (proxy, no_args\<lparr>cd_args := as, cd_waitForConfirmation := True,
         cd_validateDeployment :=
           Some (expect_address ''UNouns DAO'' proxy (predicted env (nonce + GOVERNOR_N_DELEGATOR_NONCE_OFFSET)))\<rparr>)]"

definition short_contracts :: "deploy_env \<Rightarrow> ShortArgsDAOV2 \<times> string \<times> string \<Rightarrow> nat \<Rightarrow> (string \<times> ContractDeployment) list" where
  "short_contracts env = (\<lambda>(ps, nounders, weth) nonce.
     short_base_contracts env ps nounders weth nonce
     @ governor_contracts env ''NounsDAOLogicV2'' ''NounsDAOProxyV2''
         (governor_args ps nounders ''NounsDAOLogicV2''
           (VQuorum (sa_minQuorumVotesBPS ps) (sa_maxQuorumVotesBPS ps) (sa_quorumCoefficient ps))) nonce)"

definition short_contracts_daov1 :: "deploy_env \<Rightarrow> ShortArgsDAOV1 \<times> string \<times> string \<Rightarrow> nat \<Rightarrow> (string \<times> ContractDeployment) list" where
  "short_contracts_daov1 env = (\<lambda>(ps, nounders, weth) nonce.
     short_base_contracts env ps nounders weth nonce
     @ governor_contracts env ''NounsDAOLogicV1'' ''NounsDAOProxy''
         (governor_args ps nounders ''NounsDAOLogicV1'' (VNum (sa_quorumVotesBps ps))) nonce)"

definition nameForFactory :: "string \<Rightarrow> string" where
  "nameForFactory x =
     (if x = ''NounsDAOExecutor'' then ''NounsDAOExecutorTest''
      else if x = ''NounsDAOLogicV2'' then ''NounsDAOLogicV2Harness'' else x)"

definition nameForFactory_daov1 :: "string \<Rightarrow> string" where
  "nameForFactory_daov1 x =
     (if x = ''NounsDAOExecutor'' then ''NounsDAOExecutorTest''
      else if x = ''NounsDAOLogicV1'' then ''NounsDAOLogicV1Harness'' else x)"

definition deploy_short_times :: "deploy_env \<Rightarrow> ShortArgsDAOV2 \<Rightarrow> (string \<Rightarrow> operator) \<Rightarrow> chain
    \<Rightarrow> (string, deployment option) result \<times> chain" where
  "deploy_short_times env ps ops s =
     (case short_addresses env ps of
        Inl e \<Rightarrow> (Inl e, s)
      | Inr ad \<Rightarrow> deploy_loop env nameForFactory (sa_autoDeploy ps) ops (short_contracts env (ps, ad) (ch_nonce s)) s Map.empty)"

definition deploy_short_times_daov1 :: "deploy_env \<Rightarrow> ShortArgsDAOV1 \<Rightarrow> (string \<Rightarrow> operator) \<Rightarrow> chain
    \<Rightarrow> (string, deployment option) result \<times> chain" where
  "deploy_short_times_daov1 env ps ops s =
     (case short_addresses env ps of
        Inl e \<Rightarrow> (Inl e, s)
      | Inr ad \<Rightarrow> deploy_loop env nameForFactory_daov1 (sa_autoDeploy ps) ops
                  (short_contracts_daov1 env (ps, ad) (ch_nonce s)) s Map.empty)"

section \<open>The local node\<close>

text \<open>
  \<open>contracts.X.instance?.address\<close> is undefined where \<open>deployment.X.address\<close> throws. A library at an undefined address
  makes \<open>getContractFactory\<close> throw, as \<open>run_libraries\<close> does.
\<close>

fun local_arg :: "deploy_env \<Rightarrow> deployment \<Rightarrow> deploy_arg \<Rightarrow> (string, val) result"
and local_args :: "deploy_env \<Rightarrow> deployment \<Rightarrow> deploy_arg list \<Rightarrow> (string, val list) result" where
  "local_arg env dep (Value v) = Inr v"
| "local_arg env dep (AddressOf x) = Inr (case dep x of None \<Rightarrow> VUndefined | Some d \<Rightarrow> VStr (dc_address d))"
| "local_arg env dep (Initialize as) =
     bind_result (local_args env dep as) (\<lambda>vs. bind_result (env_encodeInitialize env vs) (\<lambda>d. Inr (VStr d)))"
| "local_args env dep [] = Inr []"
| "local_args env dep (a # as) =
     bind_result (local_arg env dep a) (\<lambda>v. bind_result (local_args env dep as) (\<lambda>vs. Inr (v # vs)))"

definition local_defaults :: ShortArgsDAOV2 where
  "local_defaults = \<lparr>sa_autoDeploy = True, sa_weth = None, sa_noundersdao = None, sa_auctionTimeBuffer = 30,
     sa_auctionReservePrice = 1, sa_auctionMinIncrementBidPercentage = 5, sa_auctionDuration = 60 * 2,
     sa_timelockDelay = 60 * 60 * 24 * 2, sa_votingPeriod = 4 * 60 * 24 * 3, sa_votingDelay = 1,
     sa_proposalThresholdBps = 500, sa_minQuorumVotesBPS = 1000, sa_maxQuorumVotesBPS = 4000,
     sa_quorumCoefficient = 1000000\<rparr>"

definition local_contracts :: "deploy_env \<Rightarrow> ShortArgsDAOV2 \<Rightarrow> nat \<Rightarrow> (string \<times> ContractDeployment) list" where
  "local_contracts env ps nonce =
    (let expectedNounsArtAddress = predicted env (nonce + 5);
         expectedNounsDAOProxyAddress = predicted env (nonce + 13);
         expectedAuctionHouseProxyAddress = predicted env (nonce + 10);
         nounders = (case sa_noundersdao ps of Some (c # cs) \<Rightarrow> c # cs | _ \<Rightarrow> env_deployer env) in
     [(''WETH'', no_args),
      (''NFTDescriptorV2'', no_args),
      (''SVGRenderer'', no_args),
      (''NounsDescriptorV2'', no_args\<lparr>
         cd_args := [Value (VStr expectedNounsArtAddress), AddressOf ''SVGRenderer''],
         cd_libraries := Some [(''NFTDescriptorV2'', ''NFTDescriptorV2'')]\<rparr>),
      (''Inflator'', no_args),
      (''NounsArt'', no_args\<lparr>cd_args := [AddressOf ''NounsDescriptorV2'', AddressOf ''Inflator'']\<rparr>),
      (''NounsSeeder'', no_args),
      (''NounsToken'', no_args\<lparr>cd_args :=
         [Value (VStr nounders), Value (VStr expectedAuctionHouseProxyAddress), AddressOf ''NounsDescriptorV2'',
          AddressOf ''NounsSeeder'', Value (VStr ''0xa5409ec958c83c3f309868babaca7c86dcb077c1'')]\<rparr>),
      (''NounsAuctionHouse'', no_args\<lparr>cd_waitForConfirmation := True\<rparr>),
      (''NounsAuctionHouseProxyAdmin'', no_args),
      (''NounsAuctionHouseProxy'', no_args\<lparr>cd_args :=
         [AddressOf ''NounsAuctionHouse'', AddressOf ''NounsAuctionHouseProxyAdmin'',
          Initialize (initialize_args ps (AddressOf ''WETH''))]\<rparr>),
      (''NounsDAOExecutor'', no_args\<lparr>cd_args :=
         [Value (VStr expectedNounsDAOProxyAddress), Value (VNum (sa_timelockDelay ps))]\<rparr>),
      (''NounsDAOLogicV2'', no_args\<lparr>cd_waitForConfirmation := True\<rparr>),
      (''NounsDAOProxyV2'', no_args\<lparr>
         cd_args := governor_args ps nounders ''NounsDAOLogicV2''
           (VQuorum (sa_minQuorumVotesBPS ps) (sa_maxQuorumVotesBPS ps) (sa_quorumCoefficient ps)),
         cd_waitForConfirmation := True\<rparr>),
      (''Multicall2'', no_args)])"

definition local_prepare :: "deploy_env \<Rightarrow> string \<Rightarrow> ContractDeployment \<Rightarrow> deployment
    \<Rightarrow> (string, (string \<times> string) list option \<times> val list) result" where
  "local_prepare env x c dep =
     bind_result (run_libraries dep c) (\<lambda>libs.
       case env_factory env x libs of Some e \<Rightarrow> Inl e | None \<Rightarrow>
       bind_result (local_args env dep (cd_args c)) (\<lambda>vs.
         case env_transaction env x vs of Some e \<Rightarrow> Inl e | None \<Rightarrow> Inr (libs, vs)))"

definition local_round :: "deploy_env \<Rightarrow> string \<times> ContractDeployment \<Rightarrow> chain \<Rightarrow> deployment
    \<Rightarrow> (string, deployment) result \<times> chain" where
  "local_round env nc s dep =
     (let x = fst nc; c = snd nc in
      case local_prepare env x c dep of
        Inl e \<Rightarrow> (Inl e, s)
      | Inr (libs, vs) \<Rightarrow>
          (let (a, s') = send_deployment env x vs None \<lparr>op_gasPrice = None, op_confirm = [], op_foreign = 0\<rparr> s in
           case (if cd_waitForConfirmation c then env_deployed env x else None) of
             Some e \<Rightarrow> (Inl e, s')
           | None \<Rightarrow> (Inr (dep(x \<mapsto> \<lparr>dc_name = x, dc_address = a, dc_constructorArguments = vs,
                               dc_libraries = (case libs of None \<Rightarrow> [] | Some l \<Rightarrow> l)\<rparr>)), s')))"

fun local_loop :: "deploy_env \<Rightarrow> (string \<times> ContractDeployment) list \<Rightarrow> chain \<Rightarrow> deployment
    \<Rightarrow> (string, deployment) result \<times> chain" where
  "local_loop env [] s dep = (Inr dep, s)"
| "local_loop env (nc # ncs) s dep =
     (case local_round env nc s dep of
        (Inl e, s') \<Rightarrow> (Inl e, s')
      | (Inr dep', s') \<Rightarrow> local_loop env ncs s' dep')"

definition deploy_local :: "deploy_env \<Rightarrow> ShortArgsDAOV2 \<Rightarrow> chain \<Rightarrow> (string, deployment option) result \<times> chain" where
  "deploy_local env ps s =
     (if env_chainId env \<noteq> 31337 then (Inr None, s)
      else (case local_loop env (local_contracts env ps (ch_nonce s)) s Map.empty of
              (Inl e, s') \<Rightarrow> (Inl e, s')
            | (Inr dep, s') \<Rightarrow> (Inr (Some dep), s')))"

section \<open>The plans\<close>

definition short_names :: "string list" where
  "short_names = take 11 deploy_names @ [''NounsDAOLogicV2'', ''NounsDAOProxyV2'']"

lemma short_names: "length short_names = 13" "distinct short_names" "short_names \<noteq> []" "last short_names = ''NounsDAOProxyV2''"
  by (simp_all add: short_names_def deploy_names_def eval_nat_numeral)

interpretation short_task: deploy_plan short_contracts short_names "''UNouns DAO''"
proof unfold_locales
  show "map fst (short_contracts env ps n) = short_names" for env ps n
    by (cases ps) (simp add: short_contracts_def short_base_contracts_def governor_contracts_def short_names_def
        deploy_names_def Let_def eval_nat_numeral)
  show "cd_validateDeployment (snd (last (short_contracts env ps n)))
      = Some (expect_address ''UNouns DAO'' (last short_names) (predicted env (n + length short_names - 1)))" for env ps n
    by (cases ps) (simp add: short_contracts_def governor_contracts_def short_names nonce_offsets add.commute)
qed (simp_all add: short_names)

interpretation short_task_daov1: deploy_plan short_contracts_daov1 deploy_names "''UNouns DAO''"
proof unfold_locales
  show "map fst (short_contracts_daov1 env ps n) = deploy_names" for env ps n
    by (cases ps) (simp add: short_contracts_daov1_def short_base_contracts_def governor_contracts_def deploy_names_def Let_def)
  have "last deploy_names = ''NounsDAOProxy''" by (simp add: deploy_names_def)
  then show "cd_validateDeployment (snd (last (short_contracts_daov1 env ps n)))
      = Some (expect_address ''UNouns DAO'' (last deploy_names) (predicted env (n + length deploy_names - 1)))" for env ps n
    by (cases ps) (simp add: short_contracts_daov1_def governor_contracts_def nonce_offsets add.commute)
qed (simp_all add: deploy_task.distinct_names deploy_task.some_name)

section \<open>Constructors with too few arguments\<close>

lemma deploy_loop_arity:
  assumes "deploy_loop env nff auto ops plan s dep = (Inr r, s')" and "(x, c) \<in> set plan"
  shows "\<exists>vs. length vs = length (cd_args c) \<and> env_transaction env (nff x) vs = None"
  using assms
proof (induction plan arbitrary: s dep)
  case (Cons nc plan)
  obtain y b where nc: "nc = (y, b)" by (cases nc)
  let ?g = "if auto then env_gasPrice env y else ask_gasPrice (env_gasPrice env y) (ops y)"
  obtain out s1 where round: "deploy_round env nff auto (ops y) (y, b) s dep = (Inr out, s1)"
    using Cons.prems(1) nc by (auto split: sum.splits prod.splits)
  then obtain libs vs where p: "prepare env (nff y) ?g b dep = Inr (libs, vs)"
    by (cases "prepare env (nff y) ?g b dep") (auto simp: deploy_round_def Let_def)
  then have vs: "length vs = length (cd_args b)" "env_transaction env (nff y) vs = None"
    by (auto simp: prepare_def js_simps length_eval_args split: option.splits)
  obtain dep1 where "out = Continue dep1"
    using round p unfolding deploy_round_def Let_def by (auto split: prod.splits option.splits sum.splits)
  then have rest: "deploy_loop env nff auto ops plan s1 dep1 = (Inr r, s')" using Cons.prems(1) nc round by simp
  show ?case
  proof (cases "(x, c) = nc")
    case True
    then show ?thesis using vs nc by auto
  next
    case False
    then show ?thesis using Cons.IH[OF rest] Cons.prems(2) by auto
  qed
qed simp

lemma length_local_args: "local_args env dep as = Inr vs \<Longrightarrow> length vs = length as"
  by (induction as arbitrary: vs) (auto simp: js_simps)

lemma local_loop_arity:
  "local_loop env plan s dep = (Inr r, s') \<Longrightarrow> (x, c) \<in> set plan
    \<Longrightarrow> \<exists>vs. length vs = length (cd_args c) \<and> env_transaction env x vs = None"
proof (induction plan arbitrary: s dep)
  case (Cons nc plan)
  obtain y b where nc: "nc = (y, b)" by (cases nc)
  obtain dep1 s1 where round: "local_round env (y, b) s dep = (Inr dep1, s1)"
    and rest: "local_loop env plan s1 dep1 = (Inr r, s')"
    using Cons.prems(1) nc by (auto split: sum.splits prod.splits)
  obtain libs vs where "local_prepare env y b dep = Inr (libs, vs)"
    using round by (cases "local_prepare env y b dep") (auto simp: local_round_def Let_def)
  then have "length vs = length (cd_args b)" "env_transaction env y vs = None"
    by (auto simp: local_prepare_def js_simps length_local_args split: option.splits)
  then show ?case using Cons.IH[OF rest] Cons.prems(2) nc by (cases "(x, c) = nc") auto
qed simp

text \<open>The constructor of \<open>NounsToken\<close> takes six arguments; the three tasks for test deployments still pass the five
  it had before the council was added. Where ethers refuses a wrong number of arguments none of them ever
  returns a deployment.\<close>

theorem test_deployments_fail:
  assumes "\<And>vs. length vs \<noteq> 6 \<Longrightarrow> env_transaction env ''NounsToken'' vs \<noteq> None"
  shows "(case fst (deploy_short_times env ps2 ops s) of Inl e \<Rightarrow> True | Inr r \<Rightarrow> False)
    \<and> (case fst (deploy_short_times_daov1 env ps1 ops s) of Inl e \<Rightarrow> True | Inr r \<Rightarrow> False)
    \<and> (case fst (deploy_local env ps2 s) of Inl e \<Rightarrow> True | Inr r \<Rightarrow> r = None)"
proof (intro conjI)
  let ?tok = "\<lambda>plan. \<exists>c. (''NounsToken'', c) \<in> set plan \<and> length (cd_args c) = 5"

  have base1: "?tok (short_base_contracts env qs u w n)" for qs :: ShortArgsDAOV1 and u w n
    by (simp add: short_base_contracts_def no_args_def Let_def)
  have base2: "?tok (short_base_contracts env qs u w n)" for qs :: ShortArgsDAOV2 and u w n
    by (simp add: short_base_contracts_def no_args_def Let_def)
  have s2: "?tok (short_contracts env (ps2, ad) n)" for ad n
    using base2 by (cases ad) (fastforce simp: short_contracts_def)
  have s1: "?tok (short_contracts_daov1 env (ps1, ad) n)" for ad n
    using base1 by (cases ad) (fastforce simp: short_contracts_daov1_def)
  have l: "?tok (local_contracts env ps2 n)" for n
    by (simp add: local_contracts_def no_args_def Let_def)
  have no5: "env_transaction env ''NounsToken'' vs = None \<Longrightarrow> length vs \<noteq> 5" for vs using assms[of vs] by auto
  have nf: "nameForFactory ''NounsToken'' = ''NounsToken''" "nameForFactory_daov1 ''NounsToken'' = ''NounsToken''"
    by (simp_all add: nameForFactory_def nameForFactory_daov1_def)
  have "fst (deploy_loop env nameForFactory auto ops (short_contracts env (ps2, ad) n) s dep) \<noteq> Inr r" for auto ad n dep r
    using s2[of ad n] deploy_loop_arity[of env nameForFactory auto ops "short_contracts env (ps2, ad) n" s dep r] no5 nf
    by (metis prod.collapse)
  then show "case fst (deploy_short_times env ps2 ops s) of Inl e \<Rightarrow> True | Inr r \<Rightarrow> False"
    by (auto simp: deploy_short_times_def split: sum.splits)
  have "fst (deploy_loop env nameForFactory_daov1 auto ops (short_contracts_daov1 env (ps1, ad) n) s dep) \<noteq> Inr r" for auto ad n dep r
    using s1[of ad n] deploy_loop_arity[of env nameForFactory_daov1 auto ops "short_contracts_daov1 env (ps1, ad) n" s dep r] no5 nf
    by (metis prod.collapse)
  then show "case fst (deploy_short_times_daov1 env ps1 ops s) of Inl e \<Rightarrow> True | Inr r \<Rightarrow> False"
    by (auto simp: deploy_short_times_daov1_def split: sum.splits)
  have "fst (local_loop env (local_contracts env ps2 n) s dep) \<noteq> Inr r" for n dep r
    using l[of n] local_loop_arity[of env "local_contracts env ps2 n" s dep r] no5 by (metis prod.collapse)
  then show "case fst (deploy_local env ps2 s) of Inl e \<Rightarrow> True | Inr r \<Rightarrow> r = None"
    by (auto simp: deploy_local_def split: sum.splits prod.splits) (metis fst_conv)
qed

definition strict_env :: deploy_env where
  "strict_env = sample_env\<lparr>env_transaction :=
     (\<lambda>f vs. if f = ''NounsToken'' \<and> length vs \<noteq> 6 then Some ''missing argument: in Contract constructor'' else None)\<rparr>"

theorem test_deployments_fail_witness:
  "case fst (deploy_short_times strict_env short_defaults_daov2 exit_operator \<lparr>ch_nonce = 0, ch_sent = []\<rparr>) of
     Inl e \<Rightarrow> True | Inr r \<Rightarrow> False"
  using test_deployments_fail[of strict_env short_defaults_daov2 exit_operator "\<lparr>ch_nonce = 0, ch_sent = []\<rparr>"
      short_defaults_daov1]
  by (simp add: strict_env_def)

end
