(* ===== verification/Deploy_Config.thy ===== *)
theory Deploy_Config
  imports Deploy_Tasks Sdk_Contracts
begin

text \<open>
  What follows a deployment (\<open>nouns-contracts/tasks\<close>): the tasks that fill the descriptor with its art
  (\<open>populate-descriptor.ts\<close>, \<open>populate-descriptor-v1.ts\<close>, \<open>populate-descriptor-via-proposal.ts\<close>), write the addresses into the
  configurations (\<open>update-configs.ts\<close>, \<open>update-configs-daov2.ts\<close>), verify the contracts (\<open>verify-etherscan.ts\<close>,
  \<open>verify-etherscan-daov2.ts\<close>) and run all of it (\<open>deploy-and-configure.ts\<close> and the two variants for short times).
  Transactions to deployed contracts are values in the order of their sending; a contract may revert any of
  them. The ABI encoder and deflate are the parameters of \<open>codec\<close>.
\<close>

section \<open>Calls of contracts\<close>

datatype call_arg = ANum int | AStr string | AStrs "string list" | ANums "int list"

datatype call = Call (target: string) (selector: string) (arguments: "call_arg list")

text \<open>
  Calls are awaited one by one: one that reverts ends the task and stays the last one sent, and so does an error in
  working out the next call.
\<close>

fun send_calls :: "(call list \<Rightarrow> call \<Rightarrow> string option) \<Rightarrow> (string, call) result list \<Rightarrow> call list
    \<Rightarrow> (string, unit) result \<times> call list" where
  "send_calls reverts [] sent = (Inr (), sent)"
| "send_calls reverts (Inl e # cs) sent = (Inl e, sent)"
| "send_calls reverts (Inr c # cs) sent =
     (case reverts sent c of
        Some e \<Rightarrow> (Inl e, sent @ [c])
      | None \<Rightarrow> send_calls reverts cs (sent @ [c]))"

lemma send_calls_Inr:
  "send_calls reverts cs sent = (Inr u, sent') \<Longrightarrow> \<exists>sent_calls. cs = map Inr sent_calls \<and> sent' = sent @ sent_calls"
proof (induction reverts cs sent rule: send_calls.induct)
  case (3 reverts c cs sent)
  then obtain sent_calls where "cs = map Inr sent_calls" "sent' = (sent @ [c]) @ sent_calls" by (auto split: option.splits)
  then have "Inr c # cs = map Inr (c # sent_calls) \<and> sent' = sent @ (c # sent_calls)" by simp
  then show ?case by (rule exI)
qed auto

section \<open>Art\<close>

record codec =
  co_encode :: "string list \<Rightarrow> call_arg list \<Rightarrow> string"
  co_deflate :: "string \<Rightarrow> string"

record descriptor_input =
  di_encodedCompressed :: string
  di_originalLength :: nat
  di_itemCount :: nat

text \<open>Half the number of hex digits is whole: the encoder gives two of them for every byte.\<close>

definition dataToDescriptorInput :: "codec \<Rightarrow> string list \<Rightarrow> descriptor_input" where
  "dataToDescriptorInput co datas =
     (let abiEncoded = co_encode co [''bytes[]''] [AStrs datas] in
      \<lparr>di_encodedCompressed = ''0x'' @ co_deflate co (drop 2 abiEncoded),
       di_originalLength = length (drop 2 abiEncoded) div 2,
       di_itemCount = length datas\<rparr>)"

record ImageData =
  im_bgcolors :: "string list"
  im_palette :: "string list"
  im_bodies :: "string list"
  im_accessories :: "string list"
  im_heads :: "string list"
  im_glasses :: "string list"

definition page_args :: "descriptor_input \<Rightarrow> call_arg list" where
  "page_args p = [AStr (di_encodedCompressed p), ANum (int (di_originalLength p)), ANum (int (di_itemCount p))]"

definition palette_bytes :: "string list \<Rightarrow> string" where
  "palette_bytes colors = ''0x000000'' @ concat colors"

definition populate_descriptor :: "codec \<Rightarrow> ImageData \<Rightarrow> string \<Rightarrow> call list" where
  "populate_descriptor co im d =
     (let bodiesPage = dataToDescriptorInput co (im_bodies im);
          headsPage = dataToDescriptorInput co (im_heads im);
          glassesPage = dataToDescriptorInput co (im_glasses im);
          accessoriesPage = dataToDescriptorInput co (im_accessories im) in
      [Call d ''addManyBackgrounds'' [AStrs (im_bgcolors im)],
       Call d ''setPalette'' [ANum 0, AStr (palette_bytes (im_palette im))],
       Call d ''addBodies'' (page_args bodiesPage),
       Call d ''addHeads'' (page_args headsPage),
       Call d ''addGlasses'' (page_args glassesPage),
       Call d ''addAccessories'' (page_args accessoriesPage)])"

text \<open>\<open>chunkArray\<close>: the loop steps by \<open>size\<close>, which its callers choose positive.\<close>

fun chunkArray :: "'a list \<Rightarrow> nat \<Rightarrow> 'a list list" where
  "chunkArray xs n = (if xs = [] \<or> n = 0 then [] else take n xs # chunkArray (drop n xs) n)"

declare chunkArray.simps [simp del]

definition populate_descriptor_v1 :: "ImageData \<Rightarrow> string \<Rightarrow> call list" where
  "populate_descriptor_v1 im d =
     [Call d ''addManyBackgrounds'' [AStrs (im_bgcolors im)],
      Call d ''addManyColorsToPalette'' [ANum 0, AStrs (im_palette im)],
      Call d ''addManyBodies'' [AStrs (im_bodies im)]]
     @ map (\<lambda>chunk. Call d ''addManyAccessories'' [AStrs chunk]) (chunkArray (im_accessories im) 10)
     @ map (\<lambda>chunk. Call d ''addManyHeads'' [AStrs chunk]) (chunkArray (im_heads im) 10)
     @ [Call d ''addManyGlasses'' [AStrs (im_glasses im)]]"

lemma chunkArray_concat: "0 < n \<Longrightarrow> concat (chunkArray xs n) = xs"
  by (induction xs n rule: chunkArray.induct) (subst chunkArray.simps, auto)

lemma chunkArray_bounds: "0 < n \<Longrightarrow> list_all (\<lambda>c. c \<noteq> [] \<and> length c \<le> n) (chunkArray xs n)"
  by (induction xs n rule: chunkArray.induct) (subst chunkArray.simps, auto)

subsection \<open>Art by a proposal\<close>

text \<open>The JSON file of \<open>populate-descriptor-via-proposal.ts\<close>, every property of which may be missing.\<close>

record ImageFile =
  if_bgcolors :: "string list option"
  if_palettes :: "(int \<times> string list) list option"
  if_bodies :: "string list option"
  if_heads :: "string list option"
  if_glasses :: "string list option"
  if_accessories :: "string list option"

record action =
  ac_target :: string
  ac_value :: int
  ac_signature :: string
  ac_calldata :: string

definition background_actions :: "codec \<Rightarrow> string \<Rightarrow> string list option \<Rightarrow> action list" where
  "background_actions co d bg =
     (case bg of None \<Rightarrow> []
      | Some colors \<Rightarrow> [\<lparr>ac_target = d, ac_value = 0, ac_signature = ''addManyBackgrounds(string[])'',
          ac_calldata = co_encode co [''string[]''] [AStrs colors]\<rparr>])"

definition palette_actions :: "codec \<Rightarrow> string \<Rightarrow> (int \<times> string list) list option \<Rightarrow> action list" where
  "palette_actions co d ps =
     (case ps of None \<Rightarrow> []
      | Some l \<Rightarrow> map (\<lambda>(index, colors). \<lparr>ac_target = d, ac_value = 0, ac_signature = ''setPalette(uint8,bytes)'',
          ac_calldata = co_encode co [''uint8'', ''bytes''] [ANum index, AStr (palette_bytes colors)]\<rparr>) l)"

definition page_actions :: "codec \<Rightarrow> string \<Rightarrow> string \<Rightarrow> string list option \<Rightarrow> action list" where
  "page_actions co d signature parts =
     (case parts of None \<Rightarrow> []
      | Some datas \<Rightarrow> [\<lparr>ac_target = d, ac_value = 0, ac_signature = signature,
          ac_calldata = co_encode co [''bytes'', ''uint80'', ''uint16''] (page_args (dataToDescriptorInput co datas))\<rparr>])"

definition populate_via_proposal :: "codec \<Rightarrow> ImageFile \<Rightarrow> string \<Rightarrow> action list" where
  "populate_via_proposal co im d =
     background_actions co d (if_bgcolors im) @ palette_actions co d (if_palettes im)
     @ page_actions co d ''addBodies(bytes,uint80,uint16)'' (if_bodies im)
     @ page_actions co d ''addHeads(bytes,uint80,uint16)'' (if_heads im)
     @ page_actions co d ''addGlasses(bytes,uint80,uint16)'' (if_glasses im)
     @ page_actions co d ''addAccessories(bytes,uint80,uint16)'' (if_accessories im)"

definition propose_call :: "string \<Rightarrow> action list \<Rightarrow> string \<Rightarrow> call" where
  "propose_call dao as description =
     Call dao ''propose'' [AStrs (map ac_target as), ANums (map ac_value as), AStrs (map ac_signature as),
       AStrs (map ac_calldata as), AStr description]"

definition upgrade_descriptor_via_proposal :: "codec \<Rightarrow> string \<Rightarrow> string \<Rightarrow> string \<Rightarrow> call" where
  "upgrade_descriptor_via_proposal co descriptor dao token =
     propose_call dao [\<lparr>ac_target = token, ac_value = 0, ac_signature = ''setDescriptor(address)'',
         ac_calldata = co_encode co [''address''] [AStr descriptor]\<rparr>]
       (''# Upgrade NounsToken descriptor to V2'' @ [CHR 0x0A]
        @ ''This proposal calls a function on NounsToken to set its descriptor to V2.'')"

definition create_proposal :: "string \<Rightarrow> string \<Rightarrow> call" where
  "create_proposal nounsDaoProxy deployer =
     propose_call nounsDaoProxy
       [\<lparr>ac_target = deployer, ac_value = 1000000000000000000, ac_signature = [], ac_calldata = ''0x''\<rparr>]
       (''# Test Proposal'' @ [CHR 0x0A] @ ''## This is a **test**.'')"

section \<open>Configurations\<close>

record ContractConfig =
  cc_address :: string
  cc_startBlock :: "int option"

record SubgraphConfig =
  sc_network :: string
  sc_nounsToken :: ContractConfig
  sc_nounsAuctionHouse :: ContractConfig
  sc_nounsDAO :: ContractConfig

record configs =
  cf_addresses :: address_book
  cf_subgraph :: "string \<rightharpoonup> SubgraphConfig"

text \<open>
  \<open>contracts.A ? contracts.A.address : contracts.B.address\<close>; the block of a deployment's transaction is the
  parameter \<open>block\<close>, unknown while it is pending.
\<close>

definition address_or :: "string \<Rightarrow> string \<Rightarrow> deployment \<Rightarrow> (string, string) result" where
  "address_or x y dep = (if dep x = None then address_of y dep else address_of x dep)"

definition sdk_addresses :: "string \<Rightarrow> string \<Rightarrow> deployment \<Rightarrow> (string, ContractAddresses) result" where
  "sdk_addresses proxy logic dep =
     bind_result (address_of ''NounsToken'' dep) (\<lambda>t.
     bind_result (address_of ''NounsSeeder'' dep) (\<lambda>sd.
     bind_result (address_or ''NounsDescriptorV2'' ''NounsDescriptor'' dep) (\<lambda>d.
     bind_result (address_or ''NFTDescriptorV2'' ''NFTDescriptor'' dep) (\<lambda>nd.
     bind_result (address_of ''NounsAuctionHouse'' dep) (\<lambda>h.
     bind_result (address_of ''NounsAuctionHouseProxy'' dep) (\<lambda>hp.
     bind_result (address_of ''NounsAuctionHouseProxyAdmin'' dep) (\<lambda>ha.
     bind_result (address_of ''NounsDAOExecutor'' dep) (\<lambda>ex.
     bind_result (address_of proxy dep) (\<lambda>p.
     bind_result (address_of logic dep) (\<lambda>l. Inr
       \<lparr>nounsToken = t, nounsSeeder = sd, nounsDescriptor = d, nftDescriptor = nd, nounsAuctionHouse = h,
        nounsAuctionHouseProxy = hp, nounsAuctionHouseProxyAdmin = ha, nounsDaoExecutor = ex,
        nounsDAOProxy = p, nounsDAOLogicV1 = l, nounsDAOLogicV2 = None\<rparr>))))))))))"

definition subgraph_config :: "string \<Rightarrow> (string \<Rightarrow> int option) \<Rightarrow> string \<Rightarrow> deployment \<Rightarrow> (string, SubgraphConfig) result" where
  "subgraph_config network block proxy dep =
     bind_result (address_of ''NounsToken'' dep) (\<lambda>t.
     bind_result (address_of ''NounsAuctionHouseProxy'' dep) (\<lambda>h.
     bind_result (address_of proxy dep) (\<lambda>p. Inr
       \<lparr>sc_network = network,
        sc_nounsToken = \<lparr>cc_address = t, cc_startBlock = block ''NounsToken''\<rparr>,
        sc_nounsAuctionHouse = \<lparr>cc_address = h, cc_startBlock = block ''NounsAuctionHouseProxy''\<rparr>,
        sc_nounsDAO = \<lparr>cc_address = p, cc_startBlock = block proxy\<rparr>\<rparr>)))"

text \<open>The SDK's file is written before the subgraph's configuration is put together.\<close>

definition write_configs :: "deploy_env \<Rightarrow> (string \<Rightarrow> int option) \<Rightarrow> string \<Rightarrow> string \<Rightarrow> deployment \<Rightarrow> configs
    \<Rightarrow> (string, unit) result \<times> configs" where
  "write_configs env block proxy logic dep cf =
     (case sdk_addresses proxy logic dep of
        Inl e \<Rightarrow> (Inl e, cf)
      | Inr a \<Rightarrow>
          (let cf1 = cf\<lparr>cf_addresses := (cf_addresses cf)(int_to_dec (env_chainId env) \<mapsto> a)\<rparr> in
           case subgraph_config (env_network env) block proxy dep of
             Inl e \<Rightarrow> (Inl e, cf1)
           | Inr c \<Rightarrow> (Inr (), cf1\<lparr>cf_subgraph := (cf_subgraph cf)(env_network env @ ''-fork'' \<mapsto> c)\<rparr>)))"

definition update_configs :: "deploy_env \<Rightarrow> (string \<Rightarrow> int option) \<Rightarrow> deployment \<Rightarrow> configs \<Rightarrow> (string, unit) result \<times> configs" where
  "update_configs env block = write_configs env block ''NounsDAOProxy'' ''NounsDAOLogicV1''"

text \<open>
  The variant for the second logic contract never falls back to the first descriptor, whose names its
  deployments do not have; it writes the address of \<open>NounsDAOLogicV2\<close> under \<open>nounsDAOLogicV1\<close>.
\<close>

definition update_configs_daov2 :: "deploy_env \<Rightarrow> (string \<Rightarrow> int option) \<Rightarrow> deployment \<Rightarrow> configs \<Rightarrow> (string, unit) result \<times> configs" where
  "update_configs_daov2 env block dep cf =
     (if dep ''NounsDescriptorV2'' = None \<or> dep ''NFTDescriptorV2'' = None
      then (Inl ''Cannot read properties of undefined'', cf)
      else write_configs env block ''NounsDAOProxyV2'' ''NounsDAOLogicV2'' dep cf)"

section \<open>Verification on Etherscan\<close>

record verify_request =
  vr_contract :: DeployedContract
  vr_fullyQualified :: "string option"

definition nameToFullyQualifiedName :: "string \<rightharpoonup> string" where
  "nameToFullyQualifiedName =
     [''NounsAuctionHouseProxy'' \<mapsto> ''contracts/proxies/NounsAuctionHouseProxy.sol:NounsAuctionHouseProxy'',
      ''NounsAuctionHouseProxyAdmin'' \<mapsto> ''contracts/proxies/NounsAuctionHouseProxyAdmin.sol:NounsAuctionHouseProxyAdmin'',
      ''NounsDAOLogicV1Harness'' \<mapsto> ''contracts/test/NounsDAOLogicV1Harness.sol:NounsDAOLogicV1Harness'']"

definition nameToFullyQualifiedName_daov2 :: "string \<rightharpoonup> string" where
  "nameToFullyQualifiedName_daov2 =
     [''NounsAuctionHouseProxy'' \<mapsto> ''contracts/proxies/NounsAuctionHouseProxy.sol:NounsAuctionHouseProxy'',
      ''NounsAuctionHouseProxyAdmin'' \<mapsto> ''contracts/proxies/NounsAuctionHouseProxyAdmin.sol:NounsAuctionHouseProxyAdmin'',
      ''NounsDAOLogicV2Harness'' \<mapsto> ''contracts/test/NounsDAOLogicV2Harness.sol:NounsDAOLogicV2Harness'']"

text \<open>
  The contracts are taken in the order of the object's entries. The service answers a request or throws a
  message. The result holds the requests made and the messages
  printed as errors: no failure ends the loop.
\<close>

fun verify_etherscan :: "(string \<rightharpoonup> string) \<Rightarrow> (verify_request \<Rightarrow> string option) \<Rightarrow> DeployedContract list
    \<Rightarrow> verify_request list \<times> string list" where
  "verify_etherscan qualified service [] = ([], [])"
| "verify_etherscan qualified service (c # cs) =
     (let r = \<lparr>vr_contract = c, vr_fullyQualified = qualified (dc_name c)\<rparr>; (rs, es) = verify_etherscan qualified service cs in
      (r # rs,
       (case service r of None \<Rightarrow> es
        | Some message \<Rightarrow> if contains_str message ''Reason: Already Verified'' then es else message # es)))"

section \<open>Deploy and configure\<close>

record world =
  w_chain :: chain
  w_calls :: "call list"
  w_configs :: configs
  w_verified :: "verify_request list"

record outside =
  ou_env :: deploy_env
  ou_operator :: "string \<Rightarrow> operator"
  ou_codec :: codec
  ou_images :: ImageData
  ou_reverts :: "call list \<Rightarrow> call \<Rightarrow> string option"
  ou_service :: "verify_request \<Rightarrow> string option"
  ou_block :: "string \<Rightarrow> int option"

definition transfer_ownership :: "string \<Rightarrow> string \<Rightarrow> call" where
  "transfer_ownership c owner = Call c ''transferOwnership'' [AStr owner]"

definition unpause :: "string \<Rightarrow> call" where
  "unpause c = Call c ''unpause'' []"

definition owner_call :: "string \<Rightarrow> deployment \<Rightarrow> (string, call) result" where
  "owner_call x dep =
     bind_result (address_of ''NounsDAOExecutor'' dep) (\<lambda>executor.
     bind_result (address_of x dep) (\<lambda>a. Inr (transfer_ownership a executor)))"

text \<open>All the calls of the task after the deployment: art, owners, and the first auction if it is asked for.\<close>

definition configure_calls :: "codec \<Rightarrow> ImageData \<Rightarrow> bool \<Rightarrow> deployment \<Rightarrow> (string, call) result list" where
  "configure_calls co im startAuction dep =
     (case bind_result (address_of ''NFTDescriptorV2'' dep) (\<lambda>_. address_of ''NounsDescriptorV2'' dep) of
        Inl e \<Rightarrow> [Inl e]
      | Inr descriptor \<Rightarrow> map Inr (populate_descriptor co im descriptor))
     @ [owner_call ''NounsDescriptorV2'' dep, owner_call ''NounsToken'' dep, owner_call ''NounsAuctionHouseProxyAdmin'' dep]
     @ (if startAuction
        then [bind_result (address_of ''NounsAuctionHouse'' dep) (\<lambda>_.
                bind_result (address_of ''NounsAuctionHouseProxy'' dep) (\<lambda>house. Inr (unpause house))),
              owner_call ''NounsAuctionHouseProxy'' dep]
        else [])"

definition configure :: "outside \<Rightarrow> (string \<rightharpoonup> string) \<Rightarrow> string list
    \<Rightarrow> (deployment \<Rightarrow> configs \<Rightarrow> (string, unit) result \<times> configs) \<Rightarrow> bool \<Rightarrow> bool
    \<Rightarrow> (string, deployment option) result \<times> chain \<Rightarrow> world \<Rightarrow> (string, deployment) result \<times> world" where
  "configure out qualified names update startAuction updateConfigs deployed w =
     (let w1 = w\<lparr>w_chain := snd deployed\<rparr> in
      case fst deployed of
        Inl e \<Rightarrow> (Inl e, w1)
      | Inr None \<Rightarrow> (Inl ''Cannot read properties of undefined'', w1)
      | Inr (Some dep) \<Rightarrow>
          (let w2 = w1\<lparr>w_verified := w_verified w
                 @ fst (verify_etherscan qualified (ou_service out) (map (the \<circ> dep) (filter (\<lambda>x. dep x \<noteq> None) names)))\<rparr> in
           case send_calls (ou_reverts out) (configure_calls (ou_codec out) (ou_images out) startAuction dep) (w_calls w) of
             (Inl e, calls) \<Rightarrow> (Inl e, w2\<lparr>w_calls := calls\<rparr>)
           | (Inr _, calls) \<Rightarrow>
               (if updateConfigs
                then (case update dep (w_configs w) of
                        (Inl e, cf) \<Rightarrow> (Inl e, w2\<lparr>w_calls := calls, w_configs := cf\<rparr>)
                      | (Inr _, cf) \<Rightarrow> (Inr dep, w2\<lparr>w_calls := calls, w_configs := cf\<rparr>))
                else (Inr dep, w2\<lparr>w_calls := calls\<rparr>))))"

definition deploy_and_configure :: "outside \<Rightarrow> bool \<Rightarrow> bool \<Rightarrow> DeployArgs \<Rightarrow> world \<Rightarrow> (string, deployment) result \<times> world" where
  "deploy_and_configure out startAuction updateConfigs ps w =
     configure out nameToFullyQualifiedName deploy_names (update_configs (ou_env out) (ou_block out)) startAuction updateConfigs
       (deploy (ou_env out) ps (ou_operator out) (w_chain w)) w"

definition deploy_and_configure_short_times :: "outside \<Rightarrow> bool \<Rightarrow> bool \<Rightarrow> ShortArgsDAOV2 \<Rightarrow> world
    \<Rightarrow> (string, deployment) result \<times> world" where
  "deploy_and_configure_short_times out startAuction updateConfigs ps w =
     configure out nameToFullyQualifiedName_daov2 short_names (update_configs_daov2 (ou_env out) (ou_block out))
       startAuction updateConfigs (deploy_short_times (ou_env out) ps (ou_operator out) (w_chain w)) w"

definition deploy_and_configure_short_times_daov1 :: "outside \<Rightarrow> bool \<Rightarrow> bool \<Rightarrow> ShortArgsDAOV1 \<Rightarrow> world
    \<Rightarrow> (string, deployment) result \<times> world" where
  "deploy_and_configure_short_times_daov1 out startAuction updateConfigs ps w =
     configure out nameToFullyQualifiedName deploy_names (update_configs (ou_env out) (ou_block out))
       startAuction updateConfigs (deploy_short_times_daov1 (ou_env out) ps (ou_operator out) (w_chain w)) w"

section \<open>A configured deployment\<close>

lemma deploy_addresses:
  assumes "inj (\<lambda>n. to_lower (predicted env n))" and "fst (deploy env ps ops s) = Inr r"
  shows "\<exists>dep. r = Some dep \<and> (\<forall>i<13. address_of (deploy_names ! i) dep = Inr (predicted env (ch_nonce s + i)))"
proof -
  obtain ad s' where "deploy_loop env (\<lambda>x. x) (autoDeploy ps) ops (deploy_contracts env (ps, ad) (ch_nonce s)) s Map.empty
      = (Inr r, s')"
    using assms(2) by (cases "resolve_addresses env ps") (auto simp: deploy_def prod_eq_iff)
  from deploy_task.run_made[OF assms(1) this] obtain dep where "r = Some dep"
    and m: "list_all2 (made env dep) (deploy_contracts env (ps, ad) (ch_nonce s)) [ch_nonce s..<ch_nonce s + length deploy_names]"
    by blast
  moreover have "address_of (deploy_names ! i) dep = Inr (predicted env (ch_nonce s + i))" if "i < 13" for i
    using deploy_task.made_at[OF m, of i] that by (auto simp: address_of_def)
  ultimately show ?thesis by blast
qed

text \<open>The owner a contract was last given by a sequence of calls.\<close>

definition new_owner :: "string \<Rightarrow> string option \<Rightarrow> call \<Rightarrow> string option" where
  "new_owner c owner x =
     (if target x = c \<and> selector x = ''transferOwnership''
      then (case arguments x of [AStr a] \<Rightarrow> Some a | _ \<Rightarrow> owner) else owner)"

definition owner_after :: "call list \<Rightarrow> string \<Rightarrow> string option" where
  "owner_after cs c = foldl (new_owner c) None cs"

lemma owner_after_populate: "foldl (new_owner c) owner (populate_descriptor co im d) = owner"
  by (simp add: populate_descriptor_def Let_def new_owner_def)

lemma new_owner_simps:
  "new_owner c owner (transfer_ownership d e) = (if d = c then Some e else owner)"
  "new_owner c owner (unpause d) = owner"
  by (simp_all add: new_owner_def transfer_ownership_def unpause_def)

definition deployed_addresses :: "deploy_env \<Rightarrow> nat \<Rightarrow> ContractAddresses" where
  "deployed_addresses env n =
     \<lparr>nounsToken = predicted env (n + 6), nounsSeeder = predicted env (n + 5), nounsDescriptor = predicted env (n + 2),
      nftDescriptor = predicted env n, nounsAuctionHouse = predicted env (n + 7),
      nounsAuctionHouseProxy = predicted env (n + 9), nounsAuctionHouseProxyAdmin = predicted env (n + 8),
      nounsDaoExecutor = predicted env (n + 10), nounsDAOProxy = predicted env (n + 12),
      nounsDAOLogicV1 = predicted env (n + 11), nounsDAOLogicV2 = None\<rparr>"

lemma address_or_first: "address_of x dep = Inr a \<Longrightarrow> address_or x y dep = Inr a"
  by (auto simp: address_or_def address_of_def split: option.splits)

definition deployed_at :: "deploy_env \<Rightarrow> nat \<Rightarrow> deployment \<Rightarrow> bool" where
  "deployed_at env n dep \<longleftrightarrow> (\<forall>i<13. address_of (deploy_names ! i) dep = Inr (predicted env (n + i)))"

lemma deployed_at:
  assumes "deployed_at env n dep"
  shows "address_of ''NFTDescriptorV2'' dep = Inr (predicted env n)"
    "address_of ''NounsDescriptorV2'' dep = Inr (predicted env (n + 2))"
    "address_of ''NounsSeeder'' dep = Inr (predicted env (n + 5))"
    "address_of ''NounsToken'' dep = Inr (predicted env (n + 6))"
    "address_of ''NounsAuctionHouse'' dep = Inr (predicted env (n + 7))"
    "address_of ''NounsAuctionHouseProxyAdmin'' dep = Inr (predicted env (n + 8))"
    "address_of ''NounsAuctionHouseProxy'' dep = Inr (predicted env (n + 9))"
    "address_of ''NounsDAOExecutor'' dep = Inr (predicted env (n + 10))"
    "address_of ''NounsDAOLogicV1'' dep = Inr (predicted env (n + 11))"
    "address_of ''NounsDAOProxy'' dep = Inr (predicted env (n + 12))"
proof -
  have a: "address_of (deploy_names ! i) dep = Inr (predicted env (n + i))" if "i < 13" for i
    using assms that by (simp add: deployed_at_def)
  show "address_of ''NFTDescriptorV2'' dep = Inr (predicted env n)"
    "address_of ''NounsDescriptorV2'' dep = Inr (predicted env (n + 2))"
    "address_of ''NounsSeeder'' dep = Inr (predicted env (n + 5))"
    "address_of ''NounsToken'' dep = Inr (predicted env (n + 6))"
    "address_of ''NounsAuctionHouse'' dep = Inr (predicted env (n + 7))"
    "address_of ''NounsAuctionHouseProxyAdmin'' dep = Inr (predicted env (n + 8))"
    "address_of ''NounsAuctionHouseProxy'' dep = Inr (predicted env (n + 9))"
    "address_of ''NounsDAOExecutor'' dep = Inr (predicted env (n + 10))"
    "address_of ''NounsDAOLogicV1'' dep = Inr (predicted env (n + 11))"
    "address_of ''NounsDAOProxy'' dep = Inr (predicted env (n + 12))"
    using a[of 0] a[of 2] a[of 5] a[of 6] a[of 7] a[of 8] a[of 9] a[of 10] a[of 11] a[of 12]
    by (simp_all add: deploy_names_def)
qed

lemma configure_calls_at:
  assumes "deployed_at env n dep" and "configure_calls co im startAuction dep = map Inr cs"
  shows "cs = populate_descriptor co im (predicted env (n + 2))
      @ map (\<lambda>k. transfer_ownership (predicted env (n + k)) (predicted env (n + 10))) [2, 6, 8]
      @ (if startAuction then [unpause (predicted env (n + 9)), transfer_ownership (predicted env (n + 9)) (predicted env (n + 10))]
         else [])"
    (is "cs = ?cs")
proof -
  have "configure_calls co im startAuction dep = map Inr ?cs"
    by (cases startAuction) (simp_all add: configure_calls_def owner_call_def deployed_at[OF assms(1)])
  then have "map Inr cs = (map Inr ?cs :: (string, call) result list)" using assms(2) by simp
  then show ?thesis by (simp only: inj_map_eq_map[OF inj_Inr])
qed

lemma update_configs_at:
  assumes "deployed_at env n dep"
  shows "cf_addresses (snd (update_configs env block dep cf))
    = (cf_addresses cf)(int_to_dec (env_chainId env) \<mapsto> deployed_addresses env n)"
  using deployed_at[OF assms] deployed_at(1,2)[OF assms, THEN address_or_first]
  by (simp add: update_configs_def write_configs_def sdk_addresses_def subgraph_config_def deployed_addresses_def Let_def)

text \<open>C21. A run of the deploy-and-configure task that completes leaves the DAO's executor, not the deployer, as the owner of
  the descriptor, the token and the proxy's admin, and of the auction house exactly if the auction was started;
  and if it wrote the configurations, the SDK finds the addresses of this deployment for the network's chain,
  the auction house and the DAO at the proxies that the token and the executor were told of.\<close>

theorem configured_deployment:
  assumes "inj (\<lambda>n. to_lower (predicted (ou_env out) n))" and "env = ou_env out" and "n = ch_nonce (w_chain w)"
    and "deploy_and_configure out startAuction updateConfigs ps w = (Inr dep, w')"
  shows "\<exists>cs. w_calls w' = w_calls w @ cs
    \<and> map (owner_after cs) (map (\<lambda>k. predicted env (n + k)) [2, 6, 8, 9])
        = (let e = Some (predicted env (n + 10)) in [e, e, e, if startAuction then e else None])
    \<and> getContractAddressesForChainOrThrow (cf_addresses (w_configs w')) (env_chainId env)
        = (if updateConfigs then Inr (deployed_addresses env n)
           else getContractAddressesForChainOrThrow (cf_addresses (w_configs w)) (env_chainId env))"
proof -
  have run: "fst (deploy env ps (ou_operator out) (w_chain w)) = Inr (Some dep)"
    using assms(2,4) by (auto simp: deploy_and_configure_def configure_def Let_def split: sum.splits option.splits prod.splits if_splits)
  have at: "deployed_at env n dep"
    using deploy_addresses[OF assms(1)[folded assms(2)] run] assms(3) by (auto simp: deployed_at_def)
  let ?calls = "configure_calls (ou_codec out) (ou_images out) startAuction dep"
  obtain u where sent: "send_calls (ou_reverts out) ?calls (w_calls w) = (Inr u, w_calls w')"
    and cf: "w_configs w' = (if updateConfigs then snd (update_configs env (ou_block out) dep (w_configs w)) else w_configs w)"
    using assms(2,4) run unfolding deploy_and_configure_def configure_def Let_def
    by (auto split: sum.splits option.splits prod.splits if_splits)
  from send_calls_Inr[OF sent] obtain cs where cs: "?calls = map Inr cs" "w_calls w' = w_calls w @ cs" by blast
  have inj: "predicted env i = predicted env j \<longleftrightarrow> i = j" for i j
    using injD[OF assms(1), of i j] assms(2) by auto
  have "map (owner_after cs) (map (\<lambda>k. predicted env (n + k)) [2, 6, 8, 9])
        = (let e = Some (predicted env (n + 10)) in [e, e, e, if startAuction then e else None])"
    using configure_calls_at[OF at cs(1)]
    by (cases startAuction) (simp_all add: owner_after_def owner_after_populate new_owner_simps inj Let_def)
  moreover have "getContractAddressesForChainOrThrow (cf_addresses (w_configs w')) (env_chainId env)
        = (if updateConfigs then Inr (deployed_addresses env n)
           else getContractAddressesForChainOrThrow (cf_addresses (w_configs w)) (env_chainId env))"
    using cf by (simp add: getContractAddressesForChainOrThrow_def update_configs_at[OF at])
  ultimately show ?thesis using cs(2) by blast
qed

definition sample_outside :: outside where
  "sample_outside = \<lparr>ou_env = sample_env, ou_operator = exit_operator,
     ou_codec = \<lparr>co_encode = (\<lambda>_ _. ''0x00''), co_deflate = (\<lambda>x. x)\<rparr>,
     ou_images = \<lparr>im_bgcolors = [''d5d7e1''], im_palette = [''000000''], im_bodies = [''0x00''], im_accessories = [],
       im_heads = [], im_glasses = []\<rparr>,
     ou_reverts = (\<lambda>_ _. None), ou_service = (\<lambda>_. None), ou_block = (\<lambda>_. None)\<rparr>"

definition sample_world :: world where
  "sample_world = \<lparr>w_chain = \<lparr>ch_nonce = 3, ch_sent = []\<rparr>, w_calls = [],
     w_configs = \<lparr>cf_addresses = Map.empty, cf_subgraph = Map.empty\<rparr>, w_verified = []\<rparr>"

lemma send_calls_completes: "(\<And>sent c. reverts sent c = None) \<Longrightarrow> send_calls reverts (map Inr cs) sent = (Inr (), sent @ cs)"
  by (induction cs arbitrary: sent) auto

lemma sample_configures:
  "\<exists>dep w'. deploy_and_configure sample_outside True True default_args sample_world = (Inr dep, w')"
proof -
  obtain dep s' where run: "deploy sample_env default_args exit_operator \<lparr>ch_nonce = 3, ch_sent = []\<rparr> = (Inr (Some dep), s')"
    using sample_completes by blast
  then have at: "deployed_at sample_env 3 dep"
    using deploy_addresses[OF sample_env_inj, of default_args exit_operator "\<lparr>ch_nonce = 3, ch_sent = []\<rparr>" "Some dep"]
    by (auto simp: deployed_at_def)
  have "\<exists>cs. configure_calls (ou_codec sample_outside) (ou_images sample_outside) True dep = map Inr cs"
    by (simp add: configure_calls_def owner_call_def deployed_at[OF at] ex_map_conv)
  then obtain cs where cs: "configure_calls (ou_codec sample_outside) (ou_images sample_outside) True dep = map Inr cs" ..
  have "fst (update_configs sample_env block dep cf) = Inr ()" for block cf
    using deployed_at[OF at] deployed_at(1,2)[OF at, THEN address_or_first]
    by (simp add: update_configs_def write_configs_def sdk_addresses_def subgraph_config_def Let_def)
  then show ?thesis
    using run cs by (simp add: deploy_and_configure_def configure_def sample_outside_def sample_world_def Let_def
        send_calls_completes split: prod.splits sum.splits) (metis fst_conv sum.distinct(1))
qed

theorem configured_deployment_witness:
  "\<exists>dep w'. deploy_and_configure sample_outside True True default_args sample_world = (Inr dep, w')
    \<and> getContractAddressesForChainOrThrow (cf_addresses (w_configs w')) 5 = Inr (deployed_addresses sample_env 3)"
proof -
  obtain dep w' where run: "deploy_and_configure sample_outside True True default_args sample_world = (Inr dep, w')"
    using sample_configures by blast
  have env: "ou_env sample_outside = sample_env" "env_chainId sample_env = 5" by (simp_all add: sample_outside_def sample_env_def)
  show ?thesis
    using configured_deployment[of sample_outside sample_env 3 sample_world, OF _ _ _ run] run env sample_env_inj
    by (auto simp: sample_world_def)
qed

end
