(* ===== verification/Deploy_Scripts.thy ===== *)
theory Deploy_Scripts
  imports Deploy_Config
begin

text \<open>
  The smaller tasks of \<open>nouns-contracts/tasks\<close>: \<open>run-local.ts\<close>, \<open>deploy-ci.ts\<close>, \<open>deploy-descriptor-v2.ts\<close>, \<open>deploy-v2-logic.ts\<close>,
  \<open>deploy-test-token.ts\<close>, \<open>mint-noun.ts\<close>, \<open>descriptor-art-to-console.ts\<close>, and the helpers of \<open>tasks/utils/index.ts\<close>. Printing to
  the console, waiting and the file system are left out; what is printed as a table or written to a file
  is a value.
\<close>

section \<open>The table of contracts\<close>

record ContractRow =
  cr_Address :: string
  cr_DeploymentHash :: "string option"

text \<open>\<open>acc[contract.name] = ...\<close> over the contracts in order: a later contract of the same name replaces the row.\<close>

definition printContractsTable :: "(string \<Rightarrow> string option) \<Rightarrow> DeployedContract list \<Rightarrow> (string \<rightharpoonup> ContractRow)" where
  "printContractsTable hash cs =
     foldl (\<lambda>acc c. acc(dc_name c \<mapsto> \<lparr>cr_Address = dc_address c, cr_DeploymentHash = hash (dc_address c)\<rparr>)) Map.empty cs"

section \<open>The second logic contract\<close>

definition getDeploymentConfirmationWithPrompt :: "operator \<Rightarrow> bool" where
  "getDeploymentConfirmationWithPrompt inp = (confirm_prompt inp ''confirm'' = Some ''DEPLOY'')"

text \<open>The gas price is always asked for here; without the operator's confirmation nothing is sent.\<close>

definition deploy_v2_logic :: "deploy_env \<Rightarrow> operator \<Rightarrow> chain \<Rightarrow> (string, string option) result \<times> chain" where
  "deploy_v2_logic env inp s =
     (let gasPrice = ask_gasPrice (env_gasPrice env ''NounsDAOLogicV2'') inp in
      case env_factory env ''NounsDAOLogicV2'' None of Some e \<Rightarrow> (Inl e, s) | None \<Rightarrow>
      case env_estimateGas env ''NounsDAOLogicV2'' [] gasPrice of Inl e \<Rightarrow> (Inl e, s) | Inr _ \<Rightarrow>
      if \<not> getDeploymentConfirmationWithPrompt inp then (Inr None, s)
      else
        (let (a, s') = send_deployment env ''NounsDAOLogicV2'' [] (Some gasPrice) inp s in
         case env_deployed env ''NounsDAOLogicV2'' of Some e \<Rightarrow> (Inl e, s') | None \<Rightarrow> (Inr (Some a), s')))"

lemma deploy_v2_logic_confirmed:
  "op_confirm inp \<noteq> ''DEPLOY'' \<Longrightarrow> snd (deploy_v2_logic env inp s) = s"
  by (simp add: deploy_v2_logic_def getDeploymentConfirmationWithPrompt_def confirm_prompt_def Let_def
      split: option.splits sum.splits)

section \<open>The second descriptor\<close>

definition deployed_contract :: "string \<Rightarrow> string \<Rightarrow> val list \<Rightarrow> (string \<times> string) list \<Rightarrow> DeployedContract" where
  "deployed_contract x a vs libs = \<lparr>dc_name = x, dc_address = a, dc_constructorArguments = vs, dc_libraries = libs\<rparr>"

text \<open>
  The five deployments; \<open>ops\<close> holds the transactions the deployer's account sends in between. The predicted
  address of \<open>NounsArt\<close> is not compared with the one it gets.
\<close>

definition descriptor_v2_contracts :: "deploy_env \<Rightarrow> (string \<Rightarrow> operator) \<Rightarrow> chain \<Rightarrow> DeployedContract list \<times> chain" where
  "descriptor_v2_contracts env ops s =
     (let expectedNounsArtAddress = predicted env (ch_nonce s + 4);
          (lib, s1) = send_deployment env ''NFTDescriptorV2'' [] None (ops ''NFTDescriptorV2'') s;
          (renderer, s2) = send_deployment env ''SVGRenderer'' [] None (ops ''SVGRenderer'') s1;
          descriptorArgs = [VStr expectedNounsArtAddress, VStr renderer];
          (descriptor, s3) = send_deployment env ''NounsDescriptorV2'' descriptorArgs None (ops ''NounsDescriptorV2'') s2;
          (inflator, s4) = send_deployment env ''Inflator'' [] None (ops ''Inflator'') s3;
          artArgs = [VStr descriptor, VStr inflator];
          (art, s5) = send_deployment env ''NounsArt'' artArgs None (ops ''NounsArt'') s4 in
      ([deployed_contract ''NFTDescriptorV2'' lib [] [], deployed_contract ''SVGRenderer'' renderer [] [],
        deployed_contract ''NounsDescriptorV2'' descriptor descriptorArgs [(''NFTDescriptorV2'', lib)],
        deployed_contract ''Inflator'' inflator [] [], deployed_contract ''NounsArt'' art artArgs []], s5))"

definition deploy_descriptor_v2 :: "outside \<Rightarrow> string \<Rightarrow> world \<Rightarrow> (string, DeployedContract list) result \<times> world" where
  "deploy_descriptor_v2 out daoExecutor w =
     (let (cs, s) = descriptor_v2_contracts (ou_env out) (ou_operator out) (w_chain w);
          w1 = w\<lparr>w_chain := s\<rparr>;
          descriptor = dc_address (cs ! 2) in
      case send_calls (ou_reverts out)
             (map Inr (populate_descriptor (ou_codec out) (ou_images out) descriptor
                       @ [transfer_ownership descriptor daoExecutor])) (w_calls w) of
        (Inl e, calls) \<Rightarrow> (Inl e, w1\<lparr>w_calls := calls\<rparr>)
      | (Inr _, calls) \<Rightarrow>
          (Inr cs, w1\<lparr>w_calls := calls,
             w_verified := w_verified w @ (if env_network (ou_env out) \<noteq> ''localhost''
               then fst (verify_etherscan nameToFullyQualifiedName (ou_service out) cs) else [])\<rparr>))"

lemma descriptor_v2_art:
  assumes "sum_list (map (\<lambda>x. op_foreign (ops x)) [''NFTDescriptorV2'', ''SVGRenderer'', ''NounsDescriptorV2'', ''Inflator'', ''NounsArt'']) = k"
    and "descriptor_v2_contracts env ops s = (cs, s')"
  shows "dc_address (cs ! 4) = predicted env (ch_nonce s + 4 + k)
    \<and> dc_constructorArguments (cs ! 2) ! 0 = VStr (predicted env (ch_nonce s + 4))"
  using assms by (auto simp: descriptor_v2_contracts_def send_deployment_def predicted_def deployed_contract_def Let_def
      ac_simps eval_nat_numeral)

section \<open>A token for tests\<close>

text \<open>The arguments of the deployment and those recorded for the verification.\<close>

definition test_token_arguments :: "string \<Rightarrow> string \<Rightarrow> string \<Rightarrow> string \<Rightarrow> val list" where
  "test_token_arguments deployer unouncilDAO descriptor seeder =
     [VStr deployer, VStr unouncilDAO, VStr deployer, VStr descriptor, VStr seeder,
      VStr ''0xa5409ec958c83c3f309868babaca7c86dcb077c1'']"

definition test_token_recorded :: "string \<Rightarrow> string \<Rightarrow> string \<Rightarrow> val list" where
  "test_token_recorded deployer descriptor seeder =
     [VStr deployer, VStr deployer, VStr descriptor, VStr seeder, VStr ''0xa5409ec958c83c3f309868babaca7c86dcb077c1'']"

definition deploy_test_token :: "outside \<Rightarrow> string \<Rightarrow> string \<Rightarrow> string \<Rightarrow> world \<Rightarrow> string \<times> world" where
  "deploy_test_token out unouncilDAO descriptor seeder w =
     (let env = ou_env out; deployer = env_deployer env;
          (token, s) = send_deployment env ''NounsTokenHarness'' (test_token_arguments deployer unouncilDAO descriptor seeder)
            None (ou_operator out ''NounsTokenHarness'') (w_chain w);
          c = deployed_contract ''NounsTokenHarness'' token (test_token_recorded deployer descriptor seeder) [] in
      (token, w\<lparr>w_chain := s,
         w_verified := w_verified w @ (if env_network env \<noteq> ''localhost''
           then fst (verify_etherscan nameToFullyQualifiedName (ou_service out) [c]) else [])\<rparr>))"

lemma test_token_verified_wrongly:
  assumes "env_network (ou_env out) \<noteq> ''localhost''"
  shows "\<exists>r. w_verified (snd (deploy_test_token out u d sd w)) = w_verified w @ [r]
    \<and> length (dc_constructorArguments (vr_contract r)) = 5
    \<and> (\<exists>a g. ch_sent (w_chain (snd (deploy_test_token out u d sd w)))
        = ch_sent (w_chain w) @ [(''NounsTokenHarness'', a, test_token_arguments (env_deployer (ou_env out)) u d sd, g)])"
  using assms by (simp add: deploy_test_token_def test_token_recorded_def send_deployment_def deployed_contract_def Let_def)

section \<open>A deployment by the CI\<close>

record CiLog =
  ci_NFTDescriptor :: string
  ci_NounsDescriptor :: string
  ci_NounsSeeder :: string
  ci_NounsToken :: string
  ci_sha :: "string option"

text \<open>
  The founders' address is passed as \<open>noundersDAO\<close>, a parameter that \<open>deploy\<close> does not have: the task runs with
  its defaults and the WETH contract.
\<close>

definition deploy_ci :: "deploy_env \<Rightarrow> string option \<Rightarrow> string option \<Rightarrow> (string \<Rightarrow> operator) \<Rightarrow> string option \<Rightarrow> chain
    \<Rightarrow> (string, CiLog) result \<times> chain" where
  "deploy_ci env noundersdao weth ops sha s =
     (let weth' = (case weth of None \<Rightarrow> ''0xc778417e063141139fce010982780140aa0cd5ab'' | Some a \<Rightarrow> a) in
      case deploy env (default_args\<lparr>arg_weth := Some weth'\<rparr>) ops s of
        (Inl e, s') \<Rightarrow> (Inl e, s')
      | (Inr None, s') \<Rightarrow> (Inl ''Cannot read properties of undefined'', s')
      | (Inr (Some dep), s') \<Rightarrow>
          (bind_result (address_of ''NFTDescriptor'' dep) (\<lambda>n.
           bind_result (address_of ''NounsDescriptor'' dep) (\<lambda>d.
           bind_result (address_of ''NounsSeeder'' dep) (\<lambda>sd.
           bind_result (address_of ''NounsToken'' dep) (\<lambda>t. Inr
             \<lparr>ci_NFTDescriptor = n, ci_NounsDescriptor = d, ci_NounsSeeder = sd, ci_NounsToken = t, ci_sha = sha\<rparr>)))), s'))"

lemma deploy_loop_dom:
  "deploy_loop env nff auto ops plan s dep = (Inr (Some dep'), s') \<Longrightarrow> dom dep' \<subseteq> dom dep \<union> set (map fst plan)"
proof (induction plan arbitrary: s dep)
  case (Cons nc plan)
  then obtain out s1 where round: "deploy_round env nff auto (ops (fst nc)) nc s dep = (Inr out, s1)"
    by (auto split: sum.splits prod.splits)
  obtain dep1 where out: "out = Continue dep1"
    using round Cons.prems by (cases out) auto
  have "dom dep1 \<subseteq> insert (fst nc) (dom dep)"
    using round out unfolding deploy_round_def Let_def by (auto split: prod.splits option.splits sum.splits if_splits)
  moreover have "dom dep' \<subseteq> dom dep1 \<union> set (map fst plan)"
    using Cons.IH[of s1 dep1] Cons.prems round out by simp
  moreover have "set (map fst (nc # plan)) = insert (fst nc) (set (map fst plan))" by simp
  ultimately show ?case by blast
qed auto

text \<open>The names \<open>deploy-ci\<close> reads are those of the first descriptor, which \<open>deploy\<close> no longer deploys.\<close>

lemma deploy_ci_fails: "\<exists>e. fst (deploy_ci env noundersdao weth ops sha s) = Inl e"
proof -
  have "dep ''NFTDescriptor'' = None" if run: "deploy env ps ops s = (Inr (Some dep), s')" for ps dep s'
  proof -
    obtain ad where "deploy_loop env (\<lambda>x. x) (autoDeploy ps) ops (deploy_contracts env (ps, ad) (ch_nonce s)) s Map.empty
        = (Inr (Some dep), s')"
      using run by (cases "resolve_addresses env ps") (auto simp: deploy_def)
    from deploy_loop_dom[OF this] have "dom dep \<subseteq> set deploy_names" by (simp only: deploy_task.plan_names) simp
    then show ?thesis by (auto simp: deploy_names_def)
  qed
  then show ?thesis
    by (fastforce simp: deploy_ci_def address_of_def Let_def split: sum.splits prod.splits option.splits)
qed

section \<open>A local chain\<close>

definition run_local_calls :: "codec \<Rightarrow> ImageData \<Rightarrow> deployment \<Rightarrow> (string, call) result list" where
  "run_local_calls co im dep =
     (let house = bind_result (address_of ''NounsAuctionHouse'' dep) (\<lambda>_. address_of ''NounsAuctionHouseProxy'' dep) in
      (case bind_result (address_of ''NFTDescriptorV2'' dep) (\<lambda>_. address_of ''NounsDescriptorV2'' dep) of
         Inl e \<Rightarrow> [Inl e]
       | Inr descriptor \<Rightarrow> map Inr (populate_descriptor co im descriptor))
      @ [bind_result house (\<lambda>h. Inr (unpause h)),
         owner_call ''NounsDescriptorV2'' dep, owner_call ''NounsToken'' dep, owner_call ''NounsAuctionHouseProxyAdmin'' dep,
         owner_call ''NounsAuctionHouseProxy'' dep])"

definition run_local :: "outside \<Rightarrow> world \<Rightarrow> (string, unit) result \<times> world" where
  "run_local out w =
     (case deploy_local (ou_env out) local_defaults (w_chain w) of
        (Inl e, s) \<Rightarrow> (Inl e, w\<lparr>w_chain := s\<rparr>)
      | (Inr None, s) \<Rightarrow> (Inl ''Cannot read properties of undefined'', w\<lparr>w_chain := s\<rparr>)
      | (Inr (Some dep), s) \<Rightarrow>
          (case send_calls (ou_reverts out) (run_local_calls (ou_codec out) (ou_images out) dep) (w_calls w) of
             (r, calls) \<Rightarrow> (r, w\<lparr>w_chain := s, w_calls := calls\<rparr>)))"

section \<open>Minting and exporting\<close>

text \<open>The second event of the receipt is \<open>NounCreated\<close>; its arguments hold the token's id.\<close>

definition mint_noun :: "int option list option \<Rightarrow> (string, string) result" where
  "mint_noun events =
     (case events of None \<Rightarrow> Inl ''Cannot destructure property of undefined''
      | Some es \<Rightarrow> (if 1 < length es then (case es ! 1 of None \<Rightarrow> Inl ''Cannot destructure property of undefined''
                                           | Some tokenId \<Rightarrow> Inr (''Noun minted with ID: '' @ int_to_dec tokenId @ ''.''))
                    else Inl ''Cannot destructure property of undefined''))"

definition art_slice :: "nat option \<Rightarrow> nat option \<Rightarrow> 'a list \<Rightarrow> 'a list" where
  "art_slice count start xs =
     (case count of None \<Rightarrow> xs
      | Some n \<Rightarrow> (let s = (case start of None \<Rightarrow> 0 | Some s \<Rightarrow> s) in take n (drop s xs)))"

definition page_file :: "codec \<Rightarrow> descriptor_input \<Rightarrow> string" where
  "page_file co p = co_encode co [''bytes'', ''uint80'', ''uint16''] (page_args p)"

definition descriptor_art_to_console :: "codec \<Rightarrow> nat option \<Rightarrow> nat option \<Rightarrow> ImageData \<Rightarrow> (string \<times> string) list" where
  "descriptor_art_to_console co count start im =
     (let page = (\<lambda>parts. page_file co (dataToDescriptorInput co (art_slice count start parts))) in
      [(''paletteAndBackgrounds.abi'',
        co_encode co [''bytes'', ''string[]''] [AStr (palette_bytes (im_palette im)), AStrs (im_bgcolors im)]),
       (''bodiesPage.abi'', page (im_bodies im)), (''accessoriesPage.abi'', page (im_accessories im)),
       (''headsPage.abi'', page (im_heads im)), (''glassesPage.abi'', page (im_glasses im))])"

definition descriptor_v1_export_abi :: "codec \<Rightarrow> ImageData \<Rightarrow> string \<times> string" where
  "descriptor_v1_export_abi co im =
     (''image-data.abi'',
      co_encode co [''string[]'', ''string[]'', ''bytes[]'', ''bytes[]'', ''bytes[]'', ''bytes[]'']
        [AStrs (im_bgcolors im), AStrs (im_palette im), AStrs (im_bodies im), AStrs (im_accessories im),
         AStrs (im_heads im), AStrs (im_glasses im)])"

end
